(* ===== verification/Prelude.thy ===== *)
theory Prelude
  imports Complex_Main "HOL-Library.Sublist"
begin

text \<open>
  The part of the JavaScript standard library the source uses, and the generic
  facts on lists, options and sums that every component shares.

  A JavaScript string is a sequence of UTF-16 code units. Here it is a
  \<^typ>\<open>string\<close>, one \<^typ>\<open>char\<close> for one code unit below 256, where the program
  itself makes or compares the text (identifiers, keys, codes, messages, headers), and a
  list of code units where people wrote it (pull requests, reviews, model output).
  A \<open>Date\<close> is its time value in milliseconds since the epoch, an \<^typ>\<open>int\<close>.
\<close>

named_theorems run_simps "evaluation of the operations of the effect monad"
named_theorems guar_intros "rules that a program keeps a guarantee"
named_theorems stmt_simps "unfolding of database statements"

section \<open>Strings\<close>

text \<open>White space and line terminators of ECMA-262 among the code units below 256.\<close>

definition js_space :: "char \<Rightarrow> bool" where
  "js_space c \<longleftrightarrow> of_char c \<in> {9, 10, 11, 12, 13, 32, 160 :: nat}"

definition trim_by :: "('a \<Rightarrow> bool) \<Rightarrow> 'a list \<Rightarrow> 'a list" where
  "trim_by sp s = rev (dropWhile sp (rev (dropWhile sp s)))"

definition js_trim :: "string \<Rightarrow> string" where
  "js_trim = trim_by js_space"

definition js_startsWith :: "string \<Rightarrow> string \<Rightarrow> bool" where
  "js_startsWith s p \<longleftrightarrow> prefix p s"

definition js_endsWith :: "string \<Rightarrow> string \<Rightarrow> bool" where
  "js_endsWith s p \<longleftrightarrow> suffix p s"

fun js_includes :: "string \<Rightarrow> string \<Rightarrow> bool" where
  "js_includes [] p \<longleftrightarrow> p = []"
| "js_includes (c # s) p \<longleftrightarrow> prefix p (c # s) \<or> js_includes s p"

lemma js_includes_sublist: "js_includes s p \<longleftrightarrow> sublist p s"
proof (induction s)
  case Nil
  show ?case by simp
next
  case (Cons c s)
  then show ?case by (simp add: sublist_Cons_right)
qed

lemma trim_by_Nil [simp]: "trim_by sp [] = []"
  by (simp add: trim_by_def)

lemma trim_by_blank_iff: "trim_by sp s = [] \<longleftrightarrow> list_all sp s"
proof -
  have "trim_by sp s = [] \<longleftrightarrow> (\<forall>c \<in> set (dropWhile sp s). sp c)"
    by (simp add: trim_by_def dropWhile_eq_Nil_conv)
  also have "\<dots> \<longleftrightarrow> list_all sp s"
    by (induction s) (auto simp: list_all_iff)
  finally show ?thesis .
qed

lemma length_trim_by: "length (trim_by sp s) \<le> length s"
proof -
  have "length (trim_by sp s) \<le> length (dropWhile sp s)"
    using length_dropWhile_le [of sp "rev (dropWhile sp s)"] by (simp add: trim_by_def)
  also have "\<dots> \<le> length s" by (rule length_dropWhile_le)
  finally show ?thesis .
qed

lemma sublist_trim_by: "sublist (trim_by sp s) s"
proof -
  have "suffix (dropWhile sp s) s" by (rule suffix_dropWhile)
  moreover have "prefix (trim_by sp s) (dropWhile sp s)"
    using suffix_dropWhile [of sp "rev (dropWhile sp s)"]
    by (simp add: trim_by_def suffix_to_prefix)
  ultimately show ?thesis
    by (meson prefix_imp_sublist sublist_order.order_trans suffix_imp_sublist)
qed

lemma js_trim_empty [simp]: "js_trim [] = []"
  by (simp add: js_trim_def)

lemma js_trim_blank_iff: "js_trim s = [] \<longleftrightarrow> list_all js_space s"
  by (simp add: js_trim_def trim_by_blank_iff)

lemma nonblank_not_empty: "js_trim s \<noteq> [] \<Longrightarrow> s \<noteq> []"
  by auto

text \<open>User-written text: any code units; \<open>units\<close> reads a literal as text.\<close>

type_synonym utext = "nat list"

definition units :: "string \<Rightarrow> utext" where
  "units s = map of_char s"

definition text_space :: "nat \<Rightarrow> bool" where
  "text_space c \<longleftrightarrow> (9 \<le> c \<and> c \<le> 13) \<or> c = 32 \<or> c = 160 \<or> c = 5760 \<or> (8192 \<le> c \<and> c \<le> 8202)
     \<or> c = 8232 \<or> c = 8233 \<or> c = 8239 \<or> c = 8287 \<or> c = 12288 \<or> c = 65279"

definition text_trim :: "utext \<Rightarrow> utext" where
  "text_trim = trim_by text_space"

definition text_includes :: "utext \<Rightarrow> utext \<Rightarrow> bool" where
  "text_includes s p \<longleftrightarrow> sublist p s"

fun js_digit_char :: "nat \<Rightarrow> char" where
  "js_digit_char n = char_of (48 + n)"

text \<open>\<open>String(n)\<close> of a natural number, and of an integer.\<close>

fun nat_digits :: "nat \<Rightarrow> string" where
  "nat_digits n = (if n < 10 then [js_digit_char n]
                   else nat_digits (n div 10) @ [js_digit_char (n mod 10)])"

declare nat_digits.simps [simp del]

definition js_string_of_int :: "int \<Rightarrow> string" where
  "js_string_of_int i = (if i < 0 then CHR ''-'' # nat_digits (nat (- i)) else nat_digits (nat i))"

section \<open>Numbers\<close>

text \<open>
  \<open>Number.MAX_SAFE_INTEGER\<close>, and \<open>Number.isSafeInteger\<close> on a value that is an
  integer. Every JavaScript number that the modelled code stores is an integer; the
  places that meet other numbers (scores, jitter) are rational.
\<close>

definition max_safe_integer :: int where
  "max_safe_integer = 2 ^ 53 - 1"

definition js_isSafeInteger :: "int \<Rightarrow> bool" where
  "js_isSafeInteger i \<longleftrightarrow> - max_safe_integer \<le> i \<and> i \<le> max_safe_integer"

lemma js_isSafeInteger_bounds: "js_isSafeInteger i \<Longrightarrow> \<bar>i\<bar> \<le> 9007199254740991"
  by (auto simp: js_isSafeInteger_def max_safe_integer_def abs_le_iff)

section \<open>Options, sums and lists\<close>

fun option_all :: "('a \<Rightarrow> bool) \<Rightarrow> 'a option \<Rightarrow> bool" where
  "option_all P None \<longleftrightarrow> True"
| "option_all P (Some x) \<longleftrightarrow> P x"

lemma option_all_iff: "option_all P x \<longleftrightarrow> (\<forall>a. x = Some a \<longrightarrow> P a)"
  by (cases x) auto

fun option_or :: "'a option \<Rightarrow> 'a \<Rightarrow> 'a" where
  "option_or None y = y"
| "option_or (Some x) y = x"

lemma option_or_eq_case: "option_or x y = (case x of None \<Rightarrow> y | Some a \<Rightarrow> a)"
  by (cases x) auto

text \<open>One check after another: the first error is the result.\<close>

fun and_then :: "'e + 'a \<Rightarrow> ('a \<Rightarrow> 'e + 'b) \<Rightarrow> 'e + 'b" where
  "and_then (Inl e) f = Inl e"
| "and_then (Inr a) f = f a"

lemma and_then_Inr [simp]: "and_then r f = Inr b \<longleftrightarrow> (\<exists>a. r = Inr a \<and> f a = Inr b)"
  by (cases r) auto

lemma and_then_Inl [simp]: "and_then r f = Inl e \<longleftrightarrow> r = Inl e \<or> (\<exists>a. r = Inr a \<and> f a = Inl e)"
  by (cases r) auto

text \<open>A list with the rows that satisfy a condition rewritten, as a bulk update does.\<close>

definition update_where :: "('a \<Rightarrow> bool) \<Rightarrow> ('a \<Rightarrow> 'a) \<Rightarrow> 'a list \<Rightarrow> 'a list" where
  "update_where p f xs = map (\<lambda>x. if p x then f x else x) xs"

definition count_where :: "('a \<Rightarrow> bool) \<Rightarrow> 'a list \<Rightarrow> nat" where
  "count_where p xs = length (filter p xs)"

lemma update_where_Nil [simp]: "update_where p f [] = []"
  by (simp add: update_where_def)

lemma update_where_Cons [simp]:
  "update_where p f (x # xs) = (if p x then f x else x) # update_where p f xs"
  by (simp add: update_where_def)

lemma set_update_where: "set (update_where p f xs) = (\<lambda>x. if p x then f x else x) ` set xs"
  by (simp add: update_where_def)

lemma update_where_none: "(\<And>x. x \<in> set xs \<Longrightarrow> \<not> p x) \<Longrightarrow> update_where p f xs = xs"
  by (induction xs) auto

lemma count_where_0_iff: "count_where p xs = 0 \<longleftrightarrow> (\<forall>x \<in> set xs. \<not> p x)"
  by (simp add: count_where_def filter_empty_conv)

lemma count_where_0_update: "count_where p xs = 0 \<Longrightarrow> update_where p f xs = xs"
  by (simp add: count_where_0_iff update_where_none)

lemma map_key_update_where:
  "(\<And>x. p x \<Longrightarrow> k (f x) = k x) \<Longrightarrow> map k (update_where p f xs) = map k xs"
  by (induction xs) auto

text \<open>With distinct keys, a condition that fixes the key selects at most one row.\<close>

lemma count_where_keyed:
  assumes "distinct (map k xs)" and "\<And>x. p x \<Longrightarrow> k x = a"
  shows "count_where p xs \<le> 1"
  using assms(1)
proof (induction xs)
  case Nil
  then show ?case by (simp add: count_where_def)
next
  case (Cons x xs)
  show ?case
  proof (cases "p x")
    case True
    with Cons.prems assms(2) have "count_where p xs = 0"
      by (auto simp: count_where_0_iff)
    with True show ?thesis by (simp add: count_where_def)
  next
    case False
    with Cons show ?thesis by (simp add: count_where_def)
  qed
qed

lemma keyed_row_unique:
  assumes "distinct (map k xs)" "x \<in> set xs" "y \<in> set xs" "k x = k y"
  shows "x = y"
  using assms by (induction xs) (auto simp: image_iff)

lemma count_where_1_obtain:
  assumes "count_where p xs = 1"
  obtains x where "x \<in> set xs" "p x"
proof -
  from assms have "\<not> (\<forall>x \<in> set xs. \<not> p x)"
    by (simp flip: count_where_0_iff)
  then show ?thesis using that by blast
qed

lemma find_keyed:
  assumes "distinct (map k xs)" "x \<in> set xs" "p x" "\<And>y. y \<in> set xs \<Longrightarrow> p y \<Longrightarrow> k y = k x"
  shows "find p xs = Some x"
proof -
  obtain y where y: "find p xs = Some y"
    using assms(2,3) by (cases "find p xs") (auto simp: find_None_iff)
  then have "y \<in> set xs" "p y"
    by (auto simp: find_Some_iff)
  with assms have "y = x" by (metis keyed_row_unique)
  with y show ?thesis by simp
qed

lemma find_SomeD: "find p xs = Some x \<Longrightarrow> x \<in> set xs \<and> p x"
  by (auto simp: find_Some_iff)

text \<open>How a sum over the rows changes when a bulk update rewrites exactly one of them.\<close>

lemma sum_update_where_same:
  fixes g :: "'a \<Rightarrow> int"
  assumes "\<And>x. x \<in> set xs \<Longrightarrow> p x \<Longrightarrow> g (f x) = g x"
  shows "sum_list (map g (update_where p f xs)) = sum_list (map g xs)"
  using assms by (induction xs) auto

lemma sum_update_where_single:
  fixes g :: "'a \<Rightarrow> int"
  assumes "distinct (map k xs)" "x \<in> set xs" "p x" "\<And>y. y \<in> set xs \<Longrightarrow> p y \<Longrightarrow> k y = k x"
  shows "sum_list (map g (update_where p f xs)) = sum_list (map g xs) - g x + g (f x)"
  using assms
proof (induction xs)
  case Nil
  then show ?case by simp
next
  case (Cons y ys)
  show ?case
  proof (cases "y = x")
    case True
    have "\<not> p z" if "z \<in> set ys" for z
    proof
      assume "p z"
      with Cons.prems(4) that have "k z = k x" by simp
      with True Cons.prems(1) that show False by (auto simp: image_iff)
    qed
    then have "update_where p f ys = ys" by (rule update_where_none)
    with True Cons.prems(3) show ?thesis by simp
  next
    case False
    with Cons.prems have x: "x \<in> set ys" and d: "distinct (map k ys)" by auto
    have "\<not> p y"
    proof
      assume "p y"
      with Cons.prems(4) have "k y = k x" by simp
      with x Cons.prems(1) show False by (auto simp: image_iff)
    qed
    moreover have "sum_list (map g (update_where p f ys)) = sum_list (map g ys) - g x + g (f x)"
      using Cons.IH [OF d x Cons.prems(3)] Cons.prems(4) by simp
    ultimately show ?thesis by simp
  qed
qed

text \<open>Two rows that satisfy a condition make the count at least two.\<close>

lemma count_where_Nil [simp]: "count_where p [] = 0"
  by (simp add: count_where_def)

lemma count_where_Cons [simp]:
  "count_where p (x # xs) = (if p x then Suc (count_where p xs) else count_where p xs)"
  by (simp add: count_where_def)

lemma count_where_mono:
  "(\<And>x. x \<in> set xs \<Longrightarrow> p x \<Longrightarrow> q x) \<Longrightarrow> count_where p xs \<le> count_where q xs"
proof (induction xs)
  case Nil
  then show ?case by simp
next
  case (Cons x xs)
  have "count_where p xs \<le> count_where q xs"
    by (rule Cons.IH) (simp add: Cons.prems)
  then show ?case using Cons.prems [of x] by simp
qed

lemma count_where_update_mono:
  assumes "\<And>x. x \<in> set xs \<Longrightarrow> p x \<Longrightarrow> q (f x) \<Longrightarrow> q x"
  shows "count_where q (update_where p f xs) \<le> count_where q xs"
  using assms
proof (induction xs)
  case Nil
  then show ?case by simp
next
  case (Cons x xs)
  have "count_where q (update_where p f xs) \<le> count_where q xs"
    by (rule Cons.IH) (simp add: Cons.prems)
  then show ?case using Cons.prems [of x] by simp
qed

end
