(* ===== verification/ExecutionVersion.thy ===== *)
theory ExecutionVersion
  imports Prelude
begin

text \<open>
  Execution versions of an analysis (\<open>src/src/analysis/analysis-execution-version.ts\<close>) and
  the validity of provider billing metadata (\<open>src/src/analysis/analysis-billing-metadata.ts\<close>).
\<close>

section \<open>Execution versions\<close>

definition ANALYSIS_MODEL_VERSION :: string where
  "ANALYSIS_MODEL_VERSION = ''gpt-5-mini''"

definition ANALYSIS_PROMPT_VERSION :: string where
  "ANALYSIS_PROMPT_VERSION = ''analysis-v4-minimum-evidence-quote''"

definition PREVIOUS_ANALYSIS_PROMPT_VERSION :: string where
  "PREVIOUS_ANALYSIS_PROMPT_VERSION = ''analysis-v3-structured-evidence-rationale''"

definition LEGACY_ANALYSIS_PROMPT_VERSION :: string where
  "LEGACY_ANALYSIS_PROMPT_VERSION = ''analysis-v1''"

definition INITIAL_STRUCTURED_ANALYSIS_PROMPT_VERSION :: string where
  "INITIAL_STRUCTURED_ANALYSIS_PROMPT_VERSION = ''analysis-v2-structured-evidence''"

lemmas version_literals = ANALYSIS_MODEL_VERSION_def ANALYSIS_PROMPT_VERSION_def
  PREVIOUS_ANALYSIS_PROMPT_VERSION_def LEGACY_ANALYSIS_PROMPT_VERSION_def
  INITIAL_STRUCTURED_ANALYSIS_PROMPT_VERSION_def

record version =
  modelVersion :: string
  promptVersion :: string

definition CURRENT_ANALYSIS_EXECUTION_VERSION :: version where
  "CURRENT_ANALYSIS_EXECUTION_VERSION =
     \<lparr>modelVersion = ANALYSIS_MODEL_VERSION, promptVersion = ANALYSIS_PROMPT_VERSION\<rparr>"

definition isSupportedAnalysisExecutionVersion :: "version \<Rightarrow> bool" where
  "isSupportedAnalysisExecutionVersion v \<longleftrightarrow>
     modelVersion v = ANALYSIS_MODEL_VERSION \<and> promptVersion v = ANALYSIS_PROMPT_VERSION"

definition isRetiredAnalysisExecutionVersion :: "version \<Rightarrow> bool" where
  "isRetiredAnalysisExecutionVersion v \<longleftrightarrow>
     modelVersion v = ANALYSIS_MODEL_VERSION \<and>
     (promptVersion v = LEGACY_ANALYSIS_PROMPT_VERSION \<or>
      promptVersion v = INITIAL_STRUCTURED_ANALYSIS_PROMPT_VERSION \<or>
      promptVersion v = PREVIOUS_ANALYSIS_PROMPT_VERSION)"

lemma supported_not_retired:
  "isSupportedAnalysisExecutionVersion v \<Longrightarrow> \<not> isRetiredAnalysisExecutionVersion v"
  by (auto simp: isSupportedAnalysisExecutionVersion_def isRetiredAnalysisExecutionVersion_def
      version_literals)

lemma current_supported [simp]:
  "isSupportedAnalysisExecutionVersion CURRENT_ANALYSIS_EXECUTION_VERSION"
  by (simp add: isSupportedAnalysisExecutionVersion_def CURRENT_ANALYSIS_EXECUTION_VERSION_def)

section \<open>Billing metadata\<close>

record token_usage =
  promptTokens :: int
  completionTokens :: int
  totalTokens :: int

definition isValidAnalysisTokenUsage :: "token_usage \<Rightarrow> bool" where
  "isValidAnalysisTokenUsage u \<longleftrightarrow>
     js_isSafeInteger (promptTokens u) \<and> promptTokens u \<ge> 0 \<and>
     js_isSafeInteger (completionTokens u) \<and> completionTokens u \<ge> 0 \<and>
     js_isSafeInteger (totalTokens u) \<and> totalTokens u \<ge> 0 \<and>
     promptTokens u + completionTokens u = totalTokens u"

text \<open>\<open>/^[A-Za-z0-9._:/-]{1,128}$/\<close>\<close>

definition ascii_alnum :: "char \<Rightarrow> bool" where
  "ascii_alnum c \<longleftrightarrow> (let n = (of_char c :: nat) in
     (65 \<le> n \<and> n \<le> 90) \<or> (97 \<le> n \<and> n \<le> 122) \<or> (48 \<le> n \<and> n \<le> 57))"

definition isValidProviderRequestId :: "string \<Rightarrow> bool" where
  "isValidProviderRequestId s \<longleftrightarrow>
     1 \<le> length s \<and> length s \<le> 128 \<and> list_all (\<lambda>c. ascii_alnum c \<or> c \<in> set ''._:/-'') s"

lemma valid_usage_bounds:
  assumes "isValidAnalysisTokenUsage u"
  shows "0 \<le> promptTokens u" "0 \<le> completionTokens u" "0 \<le> totalTokens u"
    "totalTokens u = promptTokens u + completionTokens u" "totalTokens u \<le> max_safe_integer"
  using assms by (auto simp: isValidAnalysisTokenUsage_def js_isSafeInteger_def)

end
