(* ===== verification/AnalysisResult.thy ===== *)
theory AnalysisResult
  imports ExecutionVersion
begin

text \<open>
  The structured result of an analysis and its schema
  (\<open>src/src/analysis/analysis-result.schema.ts\<close>). A value of these types has the shape the
  \<open>z.object(...).strict()\<close> schemas ask for (the keys and their types); what the schemas check
  beyond the shape is \<open>parse_payload\<close>, which trims where the schema says \<open>.trim()\<close> and
  returns \<^const>\<open>None\<close> where \<open>safeParse\<close> fails.
\<close>

datatype metric_key =
  mutual_respect | conflict_management | logical_problem_definition | review_guiding
| documentation | knowledge_sharing | technical_influence | code_stability

definition ANALYSIS_METRIC_KEYS :: "metric_key list" where
  "ANALYSIS_METRIC_KEYS =
     [mutual_respect, conflict_management, logical_problem_definition, review_guiding,
      documentation, knowledge_sharing, technical_influence, code_stability]"

definition MIN_ANALYSIS_EVIDENCE_QUOTE_LENGTH :: nat where
  "MIN_ANALYSIS_EVIDENCE_QUOTE_LENGTH = 20"

datatype source_type = pull_request | review | review_comment

datatype target_relation =
  target_authored_pr | target_authored_review | target_authored_review_comment

record evidence =
  prNumber :: int
  permalink :: utext
  author :: utext
  sourceType :: source_type
  targetRelation :: target_relation
  quote :: utext
  scoreRationale :: utext

record metric_evaluation =
  score :: rat
  reason :: utext
  improvement :: utext
  example_text :: utext
  evidence_list :: "evidence list"

record llm_payload =
  metric :: "metric_key \<Rightarrow> metric_evaluation"
  summary :: utext

record result_metadata =
  requestedModel :: string
  responseModel :: utext
  metaPromptVersion :: string
  generatedAt :: int

record llm_result = llm_payload +
  metadata :: result_metadata

text \<open>
  What the evidence validator reports (\<open>EvidenceValidationIssue\<close> of
  \<open>src/src/analysis/evidence-validator.ts\<close>); \<open>metric: 'summary'\<close> is \<^const>\<open>None\<close>.
\<close>

datatype issue_code =
  UNKNOWN_PR | PERMALINK_MISMATCH | AUTHOR_MISMATCH | SOURCE_RELATION_MISMATCH
| QUOTE_TOO_SHORT | QUOTE_NOT_OWNED | UNSUPPORTED_SCORE_WITHOUT_EVIDENCE | UNSTRUCTURED_REFERENCE

record issue =
  issueCode :: issue_code
  issueMetric :: "metric_key option"
  evidenceIndex :: "nat option"

text \<open>\<open>z.string().trim().min(lo).max(hi)\<close>\<close>

definition trimmed :: "nat \<Rightarrow> nat \<Rightarrow> utext \<Rightarrow> utext option" where
  "trimmed lo hi s = (let t = text_trim s in if lo \<le> length t \<and> length t \<le> hi then Some t else None)"

text \<open>
  \<open>/^https:\/\/github\.com\/[^/\s]+\/[^/\s]+\/pull\/[1-9]\d*$/\<close>, matched segment by segment.
\<close>

fun split_units :: "nat \<Rightarrow> utext \<Rightarrow> utext list" where
  "split_units sep [] = [[]]"
| "split_units sep (c # s) =
     (if c = sep then [] # split_units sep s
      else case split_units sep s of [] \<Rightarrow> [[c]] | w # ws \<Rightarrow> (c # w) # ws)"

lemma split_units_part: "list_all (\<lambda>c. c \<noteq> sep) s \<Longrightarrow> split_units sep (s @ sep # t) = s # split_units sep t"
  by (induction s) auto

lemma split_units_whole: "list_all (\<lambda>c. c \<noteq> sep) s \<Longrightarrow> split_units sep s = [s]"
  by (induction s) auto

definition path_segment :: "utext \<Rightarrow> bool" where
  "path_segment s \<longleftrightarrow> s \<noteq> [] \<and> list_all (\<lambda>c. \<not> text_space c) s"

definition positive_decimal :: "utext \<Rightarrow> bool" where
  "positive_decimal s \<longleftrightarrow> (case s of [] \<Rightarrow> False
     | c # cs \<Rightarrow> 49 \<le> c \<and> c \<le> 57 \<and> list_all (\<lambda>d. 48 \<le> d \<and> d \<le> 57) cs)"

definition permalink_matches :: "utext \<Rightarrow> bool" where
  "permalink_matches s \<longleftrightarrow> (case split_units 47 s of
     [scheme, blank, host, owner, repo, pull, n] \<Rightarrow>
       scheme = units ''https:'' \<and> blank = [] \<and> host = units ''github.com'' \<and>
       path_segment owner \<and> path_segment repo \<and> pull = units ''pull'' \<and> positive_decimal n
   | _ \<Rightarrow> False)"

definition parse_evidence :: "evidence \<Rightarrow> evidence option" where
  "parse_evidence e =
     (if \<not> (js_isSafeInteger (prNumber e) \<and> prNumber e > 0) then None
      else if \<not> (1 \<le> length (permalink e) \<and> length (permalink e) \<le> 500
                 \<and> permalink_matches (permalink e)) then None
      else Option.bind (trimmed 1 100 (author e)) (\<lambda>a.
        Option.bind (trimmed MIN_ANALYSIS_EVIDENCE_QUOTE_LENGTH 2000 (quote e)) (\<lambda>q.
        Option.bind (trimmed 1 1000 (scoreRationale e)) (\<lambda>r.
        Some (e\<lparr>author := a, quote := q, scoreRationale := r\<rparr>)))))"

fun parse_all :: "('a \<Rightarrow> 'b option) \<Rightarrow> 'a list \<Rightarrow> 'b list option" where
  "parse_all f [] = Some []"
| "parse_all f (x # xs) =
     (case f x of None \<Rightarrow> None
      | Some y \<Rightarrow> (case parse_all f xs of None \<Rightarrow> None | Some ys \<Rightarrow> Some (y # ys)))"

text \<open>\<open>z.number().finite().min(1).max(5).multipleOf(0.5)\<close>\<close>

definition valid_score :: "rat \<Rightarrow> bool" where
  "valid_score q \<longleftrightarrow> 1 \<le> q \<and> q \<le> 5 \<and> 2 * q \<in> {2, 3, 4, 5, 6, 7, 8, 9, 10}"

definition parse_evaluation :: "metric_evaluation \<Rightarrow> metric_evaluation option" where
  "parse_evaluation m =
     (if \<not> valid_score (score m) then None
      else Option.bind (trimmed 1 4000 (reason m)) (\<lambda>r.
        Option.bind (trimmed 1 2000 (improvement m)) (\<lambda>i.
        Option.bind (trimmed 1 3000 (example_text m)) (\<lambda>x.
        Option.bind (parse_all parse_evidence (evidence_list m)) (\<lambda>es.
        if length es \<le> 12
        then Some (m\<lparr>reason := r, improvement := i, example_text := x, evidence_list := es\<rparr>)
        else None)))))"

definition parse_payload :: "llm_payload \<Rightarrow> llm_payload option" where
  "parse_payload p =
     (if list_all (\<lambda>k. parse_evaluation (metric p k) \<noteq> None) ANALYSIS_METRIC_KEYS
      then map_option (\<lambda>s. p\<lparr>metric := (\<lambda>k. the (parse_evaluation (metric p k))), summary := s\<rparr>)
             (trimmed 1 3000 (summary p))
      else None)"

lemma all_metric_keys: "k \<in> set ANALYSIS_METRIC_KEYS"
  by (cases k) (simp_all add: ANALYSIS_METRIC_KEYS_def)

text \<open>The metrics are finitely many: functions of them can be compared.\<close>

instantiation metric_key :: enum
begin

definition enum_metric_key :: "metric_key list" where
  "enum_metric_key = ANALYSIS_METRIC_KEYS"

definition enum_all_metric_key :: "(metric_key \<Rightarrow> bool) \<Rightarrow> bool" where
  "enum_all_metric_key P \<longleftrightarrow> list_all P ANALYSIS_METRIC_KEYS"

definition enum_ex_metric_key :: "(metric_key \<Rightarrow> bool) \<Rightarrow> bool" where
  "enum_ex_metric_key P \<longleftrightarrow> list_ex P ANALYSIS_METRIC_KEYS"

instance
  by standard
    (auto simp: enum_metric_key_def enum_all_metric_key_def enum_ex_metric_key_def all_metric_keys list_all_iff list_ex_iff,
      simp add: ANALYSIS_METRIC_KEYS_def)

end

lemma trimmed_SomeD: "trimmed lo hi s = Some t \<Longrightarrow> t = text_trim s \<and> lo \<le> length t \<and> length t \<le> hi"
  by (auto simp: trimmed_def Let_def split: if_splits)

lemma parse_all_length: "parse_all f xs = Some ys \<Longrightarrow> length ys = length xs"
  by (induction xs arbitrary: ys) (auto split: option.splits)

lemma parse_all_set: "parse_all f xs = Some ys \<Longrightarrow> y \<in> set ys \<Longrightarrow> \<exists>x \<in> set xs. f x = Some y"
  by (induction xs arbitrary: ys) (auto split: option.splits)

lemma parse_evaluation_score:
  "parse_evaluation m = Some m' \<Longrightarrow> score m' = score m \<and> valid_score (score m)"
  by (auto simp: parse_evaluation_def bind_eq_Some_conv split: if_splits)

lemma parse_payload_metric:
  assumes "parse_payload p = Some p'"
  shows "parse_evaluation (metric p k) = Some (metric p' k)"
proof -
  from assms have "list_all (\<lambda>k. parse_evaluation (metric p k) \<noteq> None) ANALYSIS_METRIC_KEYS"
    by (auto simp: parse_payload_def split: if_splits)
  then have "parse_evaluation (metric p k) \<noteq> None"
    using all_metric_keys [of k] by (simp add: list_all_iff)
  with assms show ?thesis
    by (auto simp: parse_payload_def split: if_splits)
qed

lemma parse_payload_scores:
  "parse_payload p = Some p' \<Longrightarrow> 1 \<le> score (metric p' k) \<and> score (metric p' k) \<le> 5"
  using parse_evaluation_score [OF parse_payload_metric] by (auto simp: valid_score_def)

end
