(* ===== verification/Errors.thy ===== *)
theory Errors
  imports AnalysisResult
begin

text \<open>
  Every error the modelled code throws, catches or tests with \<open>instanceof\<close>, as one datatype:
  the repository's own error classes under their names, and the classes of Nest, Prisma and
  the OpenAI client that the code distinguishes. \<open>OtherError\<close> is any other thrown value, with
  its own numeric \<open>status\<close> and string \<open>code\<close> properties if it has them. \<open>err_status\<close> and
  \<open>err_code\<close> read these two properties from any error, as \<open>numericProperty\<close> and
  \<open>stringProperty\<close> do.
\<close>

datatype job_status = QUEUED | RUNNING | SUCCEEDED | FAILED

datatype job_stage = WAITING | COLLECTING | RESERVING_TOKENS | ANALYZING | SAVING

datatype collection_limit_kind =
  ChangedPullRequests | ReviewAndCommentNodes | AnalysisInputTokens

record rate_limit_status =
  totalHits :: int
  remaining :: int
  retryAfterSeconds :: int
  isBlocked :: bool

datatype http_class =
  BadRequestException | UnauthorizedException | ForbiddenException | NotFoundException
| ConflictException | InternalServerErrorException | ServiceUnavailableException
| OtherHttpException int

datatype openai_class =
  RateLimitError | InternalServerError | APIConnectionTimeoutError | APIConnectionError
| AuthenticationError | BadRequestError | OtherAPIError "int option"

datatype prisma_error =
  PrismaClientKnownRequestError string
| PrismaClientInitializationError
| PrismaClientUnknownRequestError
| PrismaClientRustPanicError

datatype err =
  InvalidAnalysisJobInputError string
| InvalidAnalysisJobTransitionError job_status job_status
| StaleAnalysisJobTransitionError string job_status
| ActiveAnalysisJobExistsError int
| StaleAnalysisWorkerLeaseError string
| BilledAnalysisJobRequiresReconciliationError string
| InsufficientAnalysisTokensError
| InvalidAnalysisTokenUsageError
| AnalysisTokenBudgetExceededError
| PostBillingAnalysisPersistenceError string "string option" "token_usage option"
| UnsupportedAnalysisExecutionVersionError version
| LlmProviderReconciliationError "string option" "token_usage option" string
    "issue list option" "utext option"
| LlmTokenEstimationError
| LlmProviderConfigurationError
| InvalidAnalysisEvidenceError "issue list"
| InputLimitExceededError collection_limit_kind int int
| GithubPaginationError string string
| InvalidGithubDateError string
| GithubRateLimitError int int
| InvalidRepositoryCollectionInputError
| AnalysisJobQueueConfigurationError string
| AnalysisJobQueueRejectedError
| AnalysisJobRateLimitExceededException rate_limit_status
| HttpError http_class string
| OpenAIError openai_class
| PrismaError prisma_error
| PlainError string
| OtherError "int option" "string option"

fun http_status :: "http_class \<Rightarrow> int" where
  "http_status BadRequestException = 400"
| "http_status UnauthorizedException = 401"
| "http_status ForbiddenException = 403"
| "http_status NotFoundException = 404"
| "http_status ConflictException = 409"
| "http_status InternalServerErrorException = 500"
| "http_status ServiceUnavailableException = 503"
| "http_status (OtherHttpException n) = n"

fun openai_status :: "openai_class \<Rightarrow> int option" where
  "openai_status RateLimitError = Some 429"
| "openai_status InternalServerError = Some 500"
| "openai_status AuthenticationError = Some 401"
| "openai_status BadRequestError = Some 400"
| "openai_status (OtherAPIError s) = s"
| "openai_status _ = None"

fun err_status :: "err \<Rightarrow> int option" where
  "err_status (HttpError c _) = Some (http_status c)"
| "err_status (AnalysisJobRateLimitExceededException _) = Some 429"
| "err_status (InputLimitExceededError _ _ _) = Some 413"
| "err_status (GithubRateLimitError s _) = Some s"
| "err_status (OpenAIError c) = openai_status c"
| "err_status (OtherError s _) = s"
| "err_status _ = None"

fun err_code :: "err \<Rightarrow> string option" where
  "err_code (PrismaError (PrismaClientKnownRequestError c)) = Some c"
| "err_code (InputLimitExceededError _ _ _) = Some ''INPUT_LIMIT_EXCEEDED''"
| "err_code (OtherError _ c) = c"
| "err_code _ = None"

text \<open>\<open>error instanceof HttpException\<close>\<close>

fun is_http_exception :: "err \<Rightarrow> bool" where
  "is_http_exception (HttpError _ _) = True"
| "is_http_exception (AnalysisJobRateLimitExceededException _) = True"
| "is_http_exception (InputLimitExceededError _ _ _) = True"
| "is_http_exception _ = False"

text \<open>The kind of limit as it appears in the message of \<open>InputLimitExceededError\<close>.\<close>

fun limit_kind_text :: "collection_limit_kind \<Rightarrow> string" where
  "limit_kind_text ChangedPullRequests = ''changed pull requests''"
| "limit_kind_text ReviewAndCommentNodes = ''review and comment nodes''"
| "limit_kind_text AnalysisInputTokens = ''analysis input tokens''"

definition input_limit_message :: "collection_limit_kind \<Rightarrow> int \<Rightarrow> int \<Rightarrow> string" where
  "input_limit_message kind limit actual =
     limit_kind_text kind @ '' limit exceeded: found '' @ js_string_of_int actual
       @ '', maximum '' @ js_string_of_int limit @ ''.''"

end
