(* ===== verification/Schema.thy ===== *)
theory Schema
  imports Errors
begin

text \<open>
  The rows of the database (\<open>src/prisma/schema.prisma\<close>), one record per model, with the
  column's name after a prefix that tells the table, and the checks the database enforces on
  every row of \<open>analysis_jobs\<close>
  (\<open>src/prisma/migrations/20260722080000_add_analysis_job_ledger/migration.sql\<close>). A table is
  the list of its rows in insertion order. A nullable column is an \<^typ>\<open>'a option\<close>, a
  \<open>DateTime\<close> column its time value, and an \<open>Int\<close> column an \<^typ>\<open>int\<close> whose 32-bit
  range the write statements check.
\<close>

section \<open>Rows\<close>

datatype user_status = ACTIVE | DEACTIVATED

record user_row =
  u_id :: int
  u_githubId :: string
  u_username :: string
  u_avatarUrl :: "string option"
  u_githubToken :: "string option"
  u_hashedRefreshToken :: "string option"
  u_status :: user_status
  u_createdAt :: int
  u_updatedAt :: int
  u_availableTokens :: int
  u_representativeReportId :: "int option"

record repository_row =
  r_id :: int
  r_githubRepoId :: string
  r_fullName :: string
  r_isOptedIn :: bool
  r_lastSyncTime :: "int option"
  r_ownerId :: int

record report_row =
  p_id :: int
  p_syncTime :: int
  p_userId :: int
  p_repositoryId :: int
  p_metrics :: "llm_result option"
  p_jobId :: "string option"
  p_isShared :: bool

record stat_row =
  s_userId :: int
  s_scores :: "metric_key \<Rightarrow> rat"
  s_analysisCount :: int
  s_updatedAt :: int

record job_row =
  j_id :: string
  j_status :: job_status
  j_stage :: "job_stage option"
  j_progress :: int
  j_userId :: int
  j_repositoryId :: int
  j_idempotencyKey :: string
  j_requestHash :: string
  j_sourceCursor :: "int option"
  j_collectionCutoff :: int
  j_modelVersion :: string
  j_promptVersion :: string
  j_estimatedTokens :: "int option"
  j_reservedTokens :: "int option"
  j_promptTokens :: "int option"
  j_completionTokens :: "int option"
  j_totalTokens :: "int option"
  j_tokensSettledAt :: "int option"
  j_providerRequestIds :: "string list"
  j_publishAttempts :: int
  j_messagePublishedAt :: "int option"
  j_nextPublishAt :: "int option"
  j_attemptCount :: int
  j_maxAttempts :: int
  j_leaseToken :: "string option"
  j_leaseExpiresAt :: "int option"
  j_heartbeatAt :: "int option"
  j_lastErrorCode :: "string option"
  j_lastErrorMessage :: "string option"
  j_errorRetryable :: "bool option"
  j_startedAt :: "int option"
  j_completedAt :: "int option"
  j_createdAt :: int
  j_updatedAt :: int

text \<open>The installations of the GitHub App; \<open>ACTIVE\<close> of an installation is not that of a user.\<close>

datatype account_type = USER | ORGANIZATION

datatype installation_status = ACTIVE_INSTALLATION | SUSPENDED | DELETED

datatype link_source = INSTALL_CALLBACK | AUTO_DISCOVERY

record installation_row =
  gi_id :: int
  gi_githubInstallationId :: utext
  gi_accountId :: utext
  gi_accountLogin :: utext
  gi_accountType :: account_type
  gi_repositorySelection :: utext
  gi_status :: installation_status
  gi_suspendedAt :: "int option"
  gi_deletedAt :: "int option"
  gi_githubCreatedAt :: "int option"
  gi_githubUpdatedAt :: "int option"
  gi_createdAt :: int
  gi_updatedAt :: int

record user_installation_row =
  ul_userId :: int
  ul_installationId :: int
  ul_source :: link_source
  ul_membershipVerifiedAt :: int
  ul_linkedAt :: int

record install_state_row =
  st_id :: string
  st_userId :: int
  st_expiresAt :: int
  st_consumedAt :: "int option"
  st_createdAt :: int

record db =
  users :: "user_row list"
  repositories :: "repository_row list"
  reports :: "report_row list"
  stats :: "stat_row list"
  jobs :: "job_row list"
  installations :: "installation_row list"
  user_installations :: "user_installation_row list"
  install_states :: "install_state_row list"

section \<open>The checks of the analysis_jobs table\<close>

definition int4 :: "int \<Rightarrow> bool" where
  "int4 i \<longleftrightarrow> - 2147483648 \<le> i \<and> i \<le> 2147483647"

text \<open>\<open>'^[0-9a-f]{64}$'\<close>\<close>

definition hex_char :: "char \<Rightarrow> bool" where
  "hex_char c \<longleftrightarrow> (let n = (of_char c :: nat) in (48 \<le> n \<and> n \<le> 57) \<or> (97 \<le> n \<and> n \<le> 102))"

definition request_hash_check :: "string \<Rightarrow> bool" where
  "request_hash_check s \<longleftrightarrow> length s = 64 \<and> list_all hex_char s"

text \<open>\<open>'^[A-Z0-9_]{1,64}$'\<close>\<close>

definition code_char :: "char \<Rightarrow> bool" where
  "code_char c \<longleftrightarrow> (let n = (of_char c :: nat) in
     (65 \<le> n \<and> n \<le> 90) \<or> (48 \<le> n \<and> n \<le> 57) \<or> n = 95)"

definition error_code_check :: "string \<Rightarrow> bool" where
  "error_code_check s \<longleftrightarrow> 1 \<le> length s \<and> length s \<le> 64 \<and> list_all code_char s"

definition PROVIDER_RECONCILIATION_REQUIRED_code :: string where
  "PROVIDER_RECONCILIATION_REQUIRED_code = ''PROVIDER_RECONCILIATION_REQUIRED''"

definition nonneg_or_null :: "int option \<Rightarrow> bool" where
  "nonneg_or_null = option_all (\<lambda>i. 0 \<le> i \<and> int4 i)"

definition running_lease_check :: "job_row \<Rightarrow> bool" where
  "running_lease_check j \<longleftrightarrow>
     j_status j \<noteq> RUNNING \<or>
     (case j_leaseToken j of None \<Rightarrow> False | Some t \<Rightarrow> length t > 0 \<and> j_leaseExpiresAt j \<noteq> None)"

definition succeeded_check :: "job_row \<Rightarrow> bool" where
  "succeeded_check j \<longleftrightarrow>
     j_status j \<noteq> SUCCEEDED \<or>
     (j_progress j = 100 \<and> j_completedAt j \<noteq> None \<and> j_tokensSettledAt j \<noteq> None)"

definition failed_check :: "job_row \<Rightarrow> bool" where
  "failed_check j \<longleftrightarrow>
     j_status j \<noteq> FAILED \<or>
     (j_completedAt j \<noteq> None \<and> j_lastErrorCode j \<noteq> None \<and>
      (j_tokensSettledAt j \<noteq> None \<or>
       j_lastErrorCode j = Some PROVIDER_RECONCILIATION_REQUIRED_code))"

definition usage_known :: "job_row \<Rightarrow> bool" where
  "usage_known j \<longleftrightarrow>
     (case (j_promptTokens j, j_completionTokens j, j_totalTokens j) of
        (Some p, Some c, Some t) \<Rightarrow> t = p + c | _ \<Rightarrow> False)"

definition usage_unknown :: "job_row \<Rightarrow> bool" where
  "usage_unknown j \<longleftrightarrow>
     j_promptTokens j = None \<and> j_completionTokens j = None \<and> j_totalTokens j = None"

definition terminal :: "job_status \<Rightarrow> bool" where
  "terminal s \<longleftrightarrow> s = SUCCEEDED \<or> s = FAILED"

definition terminal_token_settlement_check :: "job_row \<Rightarrow> bool" where
  "terminal_token_settlement_check j \<longleftrightarrow>
     \<not> terminal (j_status j) \<or>
     usage_known j \<or>
     (js_startsWith (j_idempotencyKey j) ''legacy-report:'' \<and>
      j_modelVersion j = ''legacy'' \<and> j_promptVersion j = ''legacy'') \<or>
     (j_status j = FAILED \<and> j_lastErrorCode j = Some PROVIDER_RECONCILIATION_REQUIRED_code \<and>
      j_tokensSettledAt j = None \<and> usage_unknown j)"

definition job_column_checks :: "job_row \<Rightarrow> bool" where
  "job_column_checks j \<longleftrightarrow>
     0 \<le> j_progress j \<and> j_progress j \<le> 100 \<and>
     0 \<le> j_publishAttempts j \<and> int4 (j_publishAttempts j) \<and>
     0 \<le> j_attemptCount j \<and> int4 (j_attemptCount j) \<and>
     0 < j_maxAttempts j \<and> int4 (j_maxAttempts j) \<and>
     nonneg_or_null (j_estimatedTokens j) \<and> nonneg_or_null (j_reservedTokens j) \<and>
     nonneg_or_null (j_promptTokens j) \<and> nonneg_or_null (j_completionTokens j) \<and>
     nonneg_or_null (j_totalTokens j) \<and>
     request_hash_check (j_requestHash j) \<and>
     option_all error_code_check (j_lastErrorCode j) \<and>
     option_all (\<lambda>m. length m \<le> 256) (j_lastErrorMessage j)"

definition job_checks :: "job_row \<Rightarrow> bool" where
  "job_checks j \<longleftrightarrow>
     job_column_checks j \<and> running_lease_check j \<and> succeeded_check j \<and> failed_check j \<and>
     terminal_token_settlement_check j"

lemmas job_check_defs = job_checks_def job_column_checks_def running_lease_check_def
  succeeded_check_def failed_check_def terminal_token_settlement_check_def

section \<open>Reading rows\<close>

definition active :: "job_row \<Rightarrow> bool" where
  "active j \<longleftrightarrow> j_status j = QUEUED \<or> j_status j = RUNNING"

definition find_job :: "string \<Rightarrow> db \<Rightarrow> job_row option" where
  "find_job i d = find (\<lambda>j. j_id j = i) (jobs d)"

definition find_user :: "int \<Rightarrow> db \<Rightarrow> user_row option" where
  "find_user i d = find (\<lambda>u. u_id u = i) (users d)"

definition find_repository :: "int \<Rightarrow> db \<Rightarrow> repository_row option" where
  "find_repository i d = find (\<lambda>r. r_id r = i) (repositories d)"

lemma active_iff_not_terminal: "active j \<longleftrightarrow> \<not> terminal (j_status j)"
  by (cases "j_status j") (auto simp: active_def terminal_def)

lemma find_job_SomeD: "find_job i d = Some j \<Longrightarrow> j \<in> set (jobs d) \<and> j_id j = i"
  by (auto simp: find_job_def dest: find_SomeD)

lemma find_user_SomeD: "find_user i d = Some u \<Longrightarrow> u \<in> set (users d) \<and> u_id u = i"
  by (auto simp: find_user_def dest: find_SomeD)

lemma usage_known_iff:
  "usage_known j \<longleftrightarrow> (\<exists>p c. j_promptTokens j = Some p \<and> j_completionTokens j = Some c
     \<and> j_totalTokens j = Some (p + c))"
  by (auto simp: usage_known_def split: option.splits)

end
