(* ===== verification/Tables.thy ===== *)
theory Tables
  imports Schema
begin

text \<open>
  The operations of a table as the database client offers them: a bulk update with a
  \<open>where\<close> condition, a unique lookup, an insert. They are generic in the table, which is
  given by how it is read and written and by its key; the locale \<open>table\<close> states the laws such
  a pair obeys and proves, once, what the operations do. It is interpreted on every table of
  the schema.
\<close>

text \<open>
  \<open>updateMany\<close>, \<open>update\<close> and raw \<open>UPDATE\<close> statements: every row that satisfies the condition
  is rewritten and counted. The statement fails as a whole, and changes nothing, when a new
  row breaks a check of the table.
\<close>

definition bulk_update ::
  "('d \<Rightarrow> 'r list) \<Rightarrow> ('r list \<Rightarrow> 'd \<Rightarrow> 'd) \<Rightarrow> ('r \<Rightarrow> bool) \<Rightarrow> ('r \<Rightarrow> bool) \<Rightarrow> ('r \<Rightarrow> 'r) \<Rightarrow> 'd \<Rightarrow> err + (nat \<times> 'd)" where
  "bulk_update get put valid p f d =
     (if list_all (\<lambda>r. p r \<longrightarrow> valid (f r)) (get d)
      then Inr (count_where p (get d), put (update_where p f (get d)) d)
      else Inl (PrismaError PrismaClientUnknownRequestError))"

definition insert_row ::
  "('d \<Rightarrow> 'r list) \<Rightarrow> ('r list \<Rightarrow> 'd \<Rightarrow> 'd) \<Rightarrow> ('r \<Rightarrow> bool) \<Rightarrow> ('r \<Rightarrow> 'r \<Rightarrow> bool) \<Rightarrow> 'r \<Rightarrow> 'd \<Rightarrow> err + ('r \<times> 'd)" where
  "insert_row get put valid clash r d =
     (if list_ex (clash r) (get d) then Inl (PrismaError (PrismaClientKnownRequestError ''P2002''))
      else if \<not> valid r then Inl (PrismaError PrismaClientUnknownRequestError)
      else Inr (r, put (get d @ [r]) d))"

locale table =
  fixes get :: "'d \<Rightarrow> 'r list" and put :: "'r list \<Rightarrow> 'd \<Rightarrow> 'd" and key :: "'r \<Rightarrow> 'k"
  assumes get_put: "get (put rs d) = rs"
    and put_get: "put (get d) d = d"
begin

lemma bulk_update_Inr:
  "bulk_update get put valid p f d = Inr (n, d') \<longleftrightarrow>
     (\<forall>r \<in> set (get d). p r \<longrightarrow> valid (f r)) \<and> n = count_where p (get d) \<and>
     d' = put (update_where p f (get d)) d"
  by (auto simp: bulk_update_def list_all_iff)

lemma bulk_update_rows:
  "bulk_update get put valid p f d = Inr (n, d') \<Longrightarrow> get d' = update_where p f (get d)"
  by (simp add: bulk_update_Inr get_put)

lemma bulk_update_none:
  "bulk_update get put valid p f d = Inr (0, d') \<Longrightarrow> d' = d"
  by (auto simp: bulk_update_Inr count_where_0_update put_get)

lemma bulk_update_valid:
  "bulk_update get put valid p f d = Inr (n, d') \<Longrightarrow> (\<forall>r \<in> set (get d). valid r) \<Longrightarrow>
     (\<forall>r \<in> set (get d'). valid r)"
  by (auto simp: bulk_update_Inr get_put set_update_where)

lemma bulk_update_keys:
  "bulk_update get put valid p f d = Inr (n, d') \<Longrightarrow> (\<And>r. p r \<Longrightarrow> key (f r) = key r) \<Longrightarrow>
     map key (get d') = map key (get d)"
  by (simp add: bulk_update_rows map_key_update_where)

lemma bulk_update_count_le_1:
  assumes "bulk_update get put valid p f d = Inr (n, d')" "distinct (map key (get d))"
    "\<And>r. p r \<Longrightarrow> key r = k"
  shows "n \<le> 1"
  using assms count_where_keyed [of key "get d" p k] by (auto simp: bulk_update_Inr)

lemma insert_row_Inr:
  "insert_row get put valid clash r d = Inr (r', d') \<longleftrightarrow>
     (\<forall>x \<in> set (get d). \<not> clash r x) \<and> valid r \<and> r' = r \<and> d' = put (get d @ [r]) d"
  by (auto simp: insert_row_def list_ex_iff)

lemma insert_row_rows:
  "insert_row get put valid clash r d = Inr (r', d') \<Longrightarrow> get d' = get d @ [r]"
  by (simp add: insert_row_Inr get_put)

end

abbreviation put_users :: "user_row list \<Rightarrow> db \<Rightarrow> db" where
  "put_users rs d \<equiv> d\<lparr>users := rs\<rparr>"

abbreviation put_repositories :: "repository_row list \<Rightarrow> db \<Rightarrow> db" where
  "put_repositories rs d \<equiv> d\<lparr>repositories := rs\<rparr>"

abbreviation put_reports :: "report_row list \<Rightarrow> db \<Rightarrow> db" where
  "put_reports rs d \<equiv> d\<lparr>reports := rs\<rparr>"

abbreviation put_stats :: "stat_row list \<Rightarrow> db \<Rightarrow> db" where
  "put_stats rs d \<equiv> d\<lparr>stats := rs\<rparr>"

abbreviation put_jobs :: "job_row list \<Rightarrow> db \<Rightarrow> db" where
  "put_jobs rs d \<equiv> d\<lparr>jobs := rs\<rparr>"

abbreviation put_installations :: "installation_row list \<Rightarrow> db \<Rightarrow> db" where
  "put_installations rs d \<equiv> d\<lparr>installations := rs\<rparr>"

abbreviation put_user_installations :: "user_installation_row list \<Rightarrow> db \<Rightarrow> db" where
  "put_user_installations rs d \<equiv> d\<lparr>user_installations := rs\<rparr>"

abbreviation put_install_states :: "install_state_row list \<Rightarrow> db \<Rightarrow> db" where
  "put_install_states rs d \<equiv> d\<lparr>install_states := rs\<rparr>"

interpretation users_table: table users put_users u_id
  by unfold_locales simp_all

interpretation repositories_table: table repositories put_repositories r_id
  by unfold_locales simp_all

interpretation reports_table: table reports put_reports p_id
  by unfold_locales simp_all

interpretation stats_table: table stats put_stats s_userId
  by unfold_locales simp_all

interpretation jobs_table: table jobs put_jobs j_id
  by unfold_locales simp_all

interpretation installations_table: table installations put_installations gi_githubInstallationId
  by unfold_locales simp_all

interpretation user_installations_table: table user_installations put_user_installations
    "\<lambda>l. (ul_userId l, ul_installationId l)"
  by unfold_locales simp_all

interpretation install_states_table: table install_states put_install_states st_id
  by unfold_locales simp_all

section \<open>Statements\<close>

text \<open>
  A statement of the database client: it gets the time of the engine (what \<open>@updatedAt\<close>,
  \<open>@default(now())\<close> and \<open>CURRENT_TIMESTAMP\<close> write) and the database, and returns a result
  with the new database, or an error that leaves the database as it was.
\<close>

type_synonym 'a stmt = "int \<Rightarrow> db \<Rightarrow> err + ('a \<times> db)"

definition query :: "(db \<Rightarrow> 'a) \<Rightarrow> 'a stmt" where
  "query f now d = Inr (f d, d)"

text \<open>\<open>analysisJob.updateMany\<close>: the client writes \<open>updatedAt\<close>, the database checks the row.\<close>

definition update_jobs :: "(job_row \<Rightarrow> bool) \<Rightarrow> (job_row \<Rightarrow> job_row) \<Rightarrow> nat stmt" where
  "update_jobs p f now =
     bulk_update jobs put_jobs job_checks p (\<lambda>j. (f j)\<lparr>j_updatedAt := now\<rparr>)"

text \<open>A raw \<open>UPDATE "analysis_jobs"\<close>: it writes \<open>updatedAt\<close> itself.\<close>

definition raw_update_jobs :: "(job_row \<Rightarrow> bool) \<Rightarrow> (job_row \<Rightarrow> job_row) \<Rightarrow> nat stmt" where
  "raw_update_jobs p f now = bulk_update jobs put_jobs job_checks p f"

definition update_users :: "(user_row \<Rightarrow> bool) \<Rightarrow> (user_row \<Rightarrow> user_row) \<Rightarrow> nat stmt" where
  "update_users p f now =
     bulk_update users put_users (\<lambda>u. int4 (u_availableTokens u)) p (\<lambda>u. (f u)\<lparr>u_updatedAt := now\<rparr>)"

text \<open>\<open>user.update\<close> by id: it fails with \<open>P2025\<close> when there is no such row.\<close>

definition update_user :: "int \<Rightarrow> (user_row \<Rightarrow> user_row) \<Rightarrow> unit stmt" where
  "update_user i f now d =
     (case update_users (\<lambda>u. u_id u = i) f now d of
        Inl e \<Rightarrow> Inl e
      | Inr (n, d') \<Rightarrow> if n = 0 then Inl (PrismaError (PrismaClientKnownRequestError ''P2025'')) else Inr ((), d'))"

definition update_repositories :: "(repository_row \<Rightarrow> bool) \<Rightarrow> (repository_row \<Rightarrow> repository_row) \<Rightarrow> nat stmt" where
  "update_repositories p f now = bulk_update repositories put_repositories (\<lambda>_. True) p f"

lemmas statement_defs [stmt_simps] = query_def update_jobs_def raw_update_jobs_def
  update_users_def update_user_def update_repositories_def

lemma query_Inr [simp]: "query f now d = Inr (a, d') \<longleftrightarrow> a = f d \<and> d' = d"
  by (auto simp: query_def)

lemma update_user_Inr:
  assumes "update_user i f now d = Inr (x, d')" "distinct (map u_id (users d))"
  obtains u where "u \<in> set (users d)" "u_id u = i" "int4 (u_availableTokens (f u))"
    "d' = d\<lparr>users := update_where (\<lambda>u. u_id u = i) (\<lambda>u. (f u)\<lparr>u_updatedAt := now\<rparr>) (users d)\<rparr>"
proof -
  obtain n where n: "update_users (\<lambda>u. u_id u = i) f now d = Inr (n, d')" "n \<noteq> 0"
    using assms(1) by (auto simp: update_user_def split: sum.splits if_splits)
  then obtain u where u: "u \<in> set (users d)" "u_id u = i"
    by (auto simp: update_users_def users_table.bulk_update_Inr count_where_0_iff)
  with n(1) show ?thesis
    by (intro that [OF u]) (auto simp: update_users_def users_table.bulk_update_Inr)
qed

lemma update_jobs_none:
  assumes "\<And>j. j \<in> set (jobs d) \<Longrightarrow> \<not> p j"
  shows "update_jobs p f now d = Inr (0, d)"
proof -
  have "count_where p (jobs d) = 0" using assms by (simp add: count_where_0_iff)
  then show ?thesis
    using assms
    by (simp add: update_jobs_def bulk_update_def count_where_0_update list_all_iff)
qed

text \<open>With distinct identifiers, a statement that selects one job rewrites exactly its row.\<close>

lemma update_jobs_one:
  assumes "j \<in> set (jobs d)" "p j" "distinct (map j_id (jobs d))"
    "\<And>x. x \<in> set (jobs d) \<Longrightarrow> p x \<Longrightarrow> j_id x = j_id j" "job_checks ((f j)\<lparr>j_updatedAt := now\<rparr>)"
  shows "update_jobs p f now d =
    Inr (1, d\<lparr>jobs := update_where p (\<lambda>x. (f x)\<lparr>j_updatedAt := now\<rparr>) (jobs d)\<rparr>)"
proof -
  have only: "x = j" if "x \<in> set (jobs d)" "p x" for x
    using keyed_row_unique [OF assms(3) that(1) assms(1) assms(4) [OF that]] .
  have "count_where p (jobs d) \<noteq> 0" using assms(1,2) by (auto simp: count_where_0_iff)
  moreover have "count_where p (jobs d) \<le> 1"
  proof -
    have "count_where p (jobs d) \<le> count_where (\<lambda>x. x = j) (jobs d)"
      by (rule count_where_mono) (rule only)
    also have "\<dots> \<le> 1" using assms(3) by (rule count_where_keyed) simp
    finally show ?thesis .
  qed
  moreover have "\<forall>x \<in> set (jobs d). p x \<longrightarrow> job_checks ((f x)\<lparr>j_updatedAt := now\<rparr>)"
    using only assms(5) by auto
  ultimately show ?thesis by (auto simp: update_jobs_def jobs_table.bulk_update_Inr)
qed

end
