(* ===== verification/Effects.thy ===== *)
theory Effects
  imports Tables
begin

text \<open>
  How the asynchronous code runs. A program (type \<open>io\<close> below) takes the world, the
  database and a counter of the effects performed so far, and returns a result or a thrown
  error with the new world. The environment decides, by that counter, everything the code
  does not: what other processes commit before a database round trip, whether the round trip
  fails, the clock, random numbers, fresh identifiers and the configuration.

  A round trip can fail before its effect, or after it: the statement committed and the
  answer was lost. A process that is killed after its \<open>n\<close>-th effect leaves the same database
  as one whose later round trips all fail before their effect, so a statement about every
  environment also covers crashes.

  A transaction sees no changes of other processes after it has begun, and commits all of
  its statements or none.
\<close>

section \<open>Worlds, environments and programs\<close>

datatype fault = Healthy | FailBefore err | FailAfter err

record env =
  interference :: "nat \<Rightarrow> db \<Rightarrow> db"
  faults :: "nat \<Rightarrow> fault"
  clock :: "nat \<Rightarrow> int"
  uuids :: "nat \<Rightarrow> string"
  randoms :: "nat \<Rightarrow> rat"
  config :: "string \<Rightarrow> string option"

record world =
  wdb :: db
  tick :: nat

type_synonym 'a io = "world \<Rightarrow> (err + 'a) \<times> world"

definition ret :: "'a \<Rightarrow> 'a io" where
  "ret a w = (Inr a, w)"

definition throw :: "err \<Rightarrow> 'a io" where
  "throw e w = (Inl e, w)"

definition bind :: "'a io \<Rightarrow> ('a \<Rightarrow> 'b io) \<Rightarrow> 'b io" where
  "bind m f w = (case m w of (Inl e, w') \<Rightarrow> (Inl e, w') | (Inr a, w') \<Rightarrow> f a w')"

definition andThen :: "'a io \<Rightarrow> 'b io \<Rightarrow> 'b io" where
  "andThen m n = bind m (\<lambda>_. n)"

text \<open>\<open>try { m } catch (e) { h e }\<close>\<close>

definition catch :: "'a io \<Rightarrow> (err \<Rightarrow> 'a io) \<Rightarrow> 'a io" where
  "catch m h w = (case m w of (Inl e, w') \<Rightarrow> h e w' | (Inr a, w') \<Rightarrow> (Inr a, w'))"

text \<open>The outcome of a \<open>try\<close> block as a value, for code that continues after it.\<close>

definition attempt :: "'a io \<Rightarrow> (err + 'a) io" where
  "attempt m w = (case m w of (r, w') \<Rightarrow> (Inr r, w'))"

definition of_result :: "err + 'a \<Rightarrow> 'a io" where
  "of_result r w = (r, w)"

definition throw_unless :: "bool \<Rightarrow> err \<Rightarrow> unit io" where
  "throw_unless c e = (if c then ret () else throw e)"

definition now_io :: "env \<Rightarrow> int io" where
  "now_io env w = (Inr (clock env (tick w)), w\<lparr>tick := Suc (tick w)\<rparr>)"

definition uuid_io :: "env \<Rightarrow> string io" where
  "uuid_io env w = (Inr (uuids env (tick w)), w\<lparr>tick := Suc (tick w)\<rparr>)"

definition random_io :: "env \<Rightarrow> rat io" where
  "random_io env w = (Inr (randoms env (tick w)), w\<lparr>tick := Suc (tick w)\<rparr>)"

text \<open>A call of an external service, whose answer the environment chooses by the counter.\<close>

definition external :: "(nat \<Rightarrow> err + 'a) \<Rightarrow> 'a io" where
  "external f w = (f (tick w), w\<lparr>tick := Suc (tick w)\<rparr>)"

definition db_call :: "env \<Rightarrow> 'a stmt \<Rightarrow> 'a io" where
  "db_call env s w =
     (let t = tick w; d = interference env t (wdb w); w1 = w\<lparr>tick := Suc t, wdb := d\<rparr> in
      case faults env t of
        FailBefore e \<Rightarrow> (Inl e, w1)
      | Healthy \<Rightarrow> (case s (clock env t) d of
            Inl e \<Rightarrow> (Inl e, w1) | Inr (a, d') \<Rightarrow> (Inr a, w1\<lparr>wdb := d'\<rparr>))
      | FailAfter e \<Rightarrow> (case s (clock env t) d of
            Inl e' \<Rightarrow> (Inl e', w1) | Inr (a, d') \<Rightarrow> (Inl e, w1\<lparr>wdb := d'\<rparr>)))"

text \<open>Inside a transaction no other process interferes.\<close>

definition quiet :: "env \<Rightarrow> env" where
  "quiet env = env\<lparr>interference := (\<lambda>_ d. d)\<rparr>"

text \<open>\<open>prisma.$transaction(async (tx) => body)\<close>: begin, body, commit or roll back.\<close>

definition transaction :: "env \<Rightarrow> (env \<Rightarrow> 'a io) \<Rightarrow> 'a io" where
  "transaction env body w =
     (let t = tick w; d = interference env t (wdb w); w1 = w\<lparr>tick := Suc t, wdb := d\<rparr> in
      case faults env t of
        FailBefore e \<Rightarrow> (Inl e, w1)
      | FailAfter e \<Rightarrow> (Inl e, w1)
      | Healthy \<Rightarrow> (case body (quiet env) w1 of
            (Inl e, w2) \<Rightarrow> (Inl e, w2\<lparr>wdb := d\<rparr>)
          | (Inr a, w2) \<Rightarrow> (case faults env (tick w2) of
                Healthy \<Rightarrow> (Inr a, w2\<lparr>tick := Suc (tick w2)\<rparr>)
              | FailBefore e \<Rightarrow> (Inl e, w2\<lparr>tick := Suc (tick w2), wdb := d\<rparr>)
              | FailAfter e \<Rightarrow> (Inl e, w2\<lparr>tick := Suc (tick w2)\<rparr>))))"

fun for_each :: "'a list \<Rightarrow> ('a \<Rightarrow> unit io) \<Rightarrow> unit io" where
  "for_each [] f = ret ()"
| "for_each (x # xs) f = andThen (f x) (for_each xs f)"

section \<open>Evaluation\<close>

lemma ret_run [run_simps]: "ret a w = (Inr a, w)"
  by (simp add: ret_def)

lemma throw_run [run_simps]: "throw e w = (Inl e, w)"
  by (simp add: throw_def)

lemma bind_Inr [run_simps]:
  "bind m f w = (Inr b, w') \<longleftrightarrow> (\<exists>a w1. m w = (Inr a, w1) \<and> f a w1 = (Inr b, w'))"
  by (auto simp: bind_def split: prod.splits sum.splits)

lemma andThen_Inr [run_simps]:
  "andThen m n w = (Inr b, w') \<longleftrightarrow> (\<exists>a w1. m w = (Inr a, w1) \<and> n w1 = (Inr b, w'))"
  by (simp add: andThen_def bind_Inr)

lemma throw_unless_Inr [run_simps]:
  "throw_unless c e w = (Inr b, w') \<longleftrightarrow> c \<and> w' = w"
  by (auto simp: throw_unless_def run_simps)

lemma now_io_Inr [run_simps]:
  "now_io env w = (Inr n, w') \<longleftrightarrow> n = clock env (tick w) \<and> w' = w\<lparr>tick := Suc (tick w)\<rparr>"
  by (auto simp: now_io_def)

lemma db_call_Inr:
  "db_call env s w = (Inr a, w') \<longleftrightarrow> faults env (tick w) = Healthy \<and>
     (\<exists>d. s (clock env (tick w)) (interference env (tick w) (wdb w)) = Inr (a, d) \<and> w' = w\<lparr>tick := Suc (tick w), wdb := d\<rparr>)"
  by (cases "faults env (tick w)") (auto simp: db_call_def Let_def split: sum.splits)

lemma of_result_Inr [run_simps]: "of_result r w = (Inr a, w') \<longleftrightarrow> r = Inr a \<and> w' = w"
  by (auto simp: of_result_def)

lemma db_call_quiet_Inr [run_simps]:
  "db_call (quiet env) s w = (Inr a, w') \<longleftrightarrow>
     faults env (tick w) = Healthy \<and>
     (\<exists>d. s (clock env (tick w)) (wdb w) = Inr (a, d) \<and> w' = w\<lparr>tick := Suc (tick w), wdb := d\<rparr>)"
  by (cases "faults env (tick w)") (auto simp: db_call_def quiet_def Let_def split: sum.splits)

lemma now_io_quiet [run_simps]: "now_io (quiet env) = now_io env"
  by (simp add: now_io_def quiet_def fun_eq_iff)

lemma bind_ret [simp]: "bind (ret a) f = f a"
  by (simp add: bind_def ret_def fun_eq_iff)

lemma bind_throw [simp]: "bind (throw e) f = throw e"
  by (simp add: bind_def throw_def fun_eq_iff)

lemma quiet_fields [simp]: "faults (quiet env) = faults env" "clock (quiet env) = clock env"
  "config (quiet env) = config env" "uuids (quiet env) = uuids env" "quiet (quiet env) = quiet env"
  by (simp_all add: quiet_def)

section \<open>Guarantees\<close>

text \<open>
  A guarantee is a relation between the database before and after. A program keeps it when
  every run of it does, whatever its result; an environment is reliable when other processes
  keep it too.
\<close>

definition guar :: "(db \<Rightarrow> db \<Rightarrow> bool) \<Rightarrow> 'a io \<Rightarrow> bool" where
  "guar G m \<longleftrightarrow> (\<forall>w. G (wdb w) (wdb (snd (m w))))"

definition stmt_guar :: "(db \<Rightarrow> db \<Rightarrow> bool) \<Rightarrow> 'a stmt \<Rightarrow> bool" where
  "stmt_guar G s \<longleftrightarrow> (\<forall>now d a d'. s now d = Inr (a, d') \<longrightarrow> G d d')"

definition body_guar :: "(db \<Rightarrow> db \<Rightarrow> bool) \<Rightarrow> (env \<Rightarrow> 'a io) \<Rightarrow> bool" where
  "body_guar G body \<longleftrightarrow> (\<forall>env w a w'. body (quiet env) w = (Inr a, w') \<longrightarrow> G (wdb w) (wdb w'))"

definition rely :: "(db \<Rightarrow> db \<Rightarrow> bool) \<Rightarrow> env \<Rightarrow> bool" where
  "rely G env \<longleftrightarrow> (\<forall>n d. G d (interference env n d))"

locale guarantee =
  fixes G :: "db \<Rightarrow> db \<Rightarrow> bool"
  assumes G_refl: "G d d"
    and G_trans: "G d d' \<Longrightarrow> G d' d'' \<Longrightarrow> G d d''"
begin

lemma rely_quiet: "rely G (quiet env)"
  by (simp add: rely_def quiet_def G_refl)

lemma guar_ret: "guar G (ret a)"
  by (simp add: guar_def ret_def G_refl)

lemma guar_throw: "guar G (throw e)"
  by (simp add: guar_def throw_def G_refl)

lemma guar_of_result: "guar G (of_result r)"
  by (simp add: guar_def of_result_def G_refl)

lemma guar_throw_unless: "guar G (throw_unless c e)"
  by (simp add: throw_unless_def guar_ret guar_throw)

lemma guar_now: "guar G (now_io env)"
  by (simp add: guar_def now_io_def G_refl)

lemma guar_uuid: "guar G (uuid_io env)"
  by (simp add: guar_def uuid_io_def G_refl)

lemma guar_random: "guar G (random_io env)"
  by (simp add: guar_def random_io_def G_refl)

lemma guar_external: "guar G (external f)"
  by (simp add: guar_def external_def G_refl)

text \<open>The continuation runs on results that the program can have.\<close>

lemma guar_bind_reach:
  assumes "guar G m" "\<And>w a w'. m w = (Inr a, w') \<Longrightarrow> guar G (f a)"
  shows "guar G (bind m f)"
  unfolding guar_def
proof
  fix w :: world
  obtain r w1 where mw: "m w = (r, w1)" by (cases "m w")
  have 1: "G (wdb w) (wdb w1)"
    using assms(1) [unfolded guar_def, rule_format, of w] mw by simp
  show "G (wdb w) (wdb (snd (bind m f w)))"
  proof (cases r)
    case (Inl e)
    with mw 1 show ?thesis by (simp add: bind_def)
  next
    case (Inr a)
    have "G (wdb w1) (wdb (snd (f a w1)))"
      using assms(2) [of w a w1] mw Inr by (simp add: guar_def)
    with mw 1 Inr show ?thesis by (auto simp: bind_def intro: G_trans)
  qed
qed

lemma guar_bind: "guar G m \<Longrightarrow> (\<And>a. guar G (f a)) \<Longrightarrow> guar G (bind m f)"
  by (rule guar_bind_reach)

lemma guar_andThen: "guar G m \<Longrightarrow> guar G n \<Longrightarrow> guar G (andThen m n)"
  by (simp add: andThen_def guar_bind)

text \<open>After a check that throws, the program runs only on values that passed.\<close>

lemma guar_checked:
  "(\<And>a. r = Inr a \<Longrightarrow> guar G m) \<Longrightarrow> guar G (andThen (of_result r) m)"
  by (cases r) (simp_all add: guar_def andThen_def bind_def of_result_def G_refl)

lemma guar_catch:
  assumes "guar G m" "\<And>e. guar G (h e)"
  shows "guar G (catch m h)"
  unfolding guar_def
proof
  fix w :: world
  obtain r w1 where mw: "m w = (r, w1)" by (cases "m w")
  have 1: "G (wdb w) (wdb w1)"
    using assms(1) [unfolded guar_def, rule_format, of w] mw by simp
  show "G (wdb w) (wdb (snd (catch m h w)))"
  proof (cases r)
    case (Inl e)
    have "G (wdb w1) (wdb (snd (h e w1)))"
      using assms(2) [of e] by (simp add: guar_def)
    with mw 1 Inl show ?thesis by (auto simp: catch_def intro: G_trans)
  next
    case (Inr a)
    with mw 1 show ?thesis by (simp add: catch_def)
  qed
qed

lemma guar_attempt:
  assumes "guar G m"
  shows "guar G (attempt m)"
  unfolding guar_def
proof
  fix w :: world
  have "snd (attempt m w) = snd (m w)"
    by (simp add: attempt_def split: prod.splits)
  then show "G (wdb w) (wdb (snd (attempt m w)))"
    using assms by (simp add: guar_def)
qed

lemma guar_db_call:
  assumes "rely G env" "stmt_guar G s"
  shows "guar G (db_call env s)"
  unfolding guar_def
proof
  fix w :: world
  let ?d = "interference env (tick w) (wdb w)"
  have 1: "G (wdb w) ?d" using assms(1) by (simp add: rely_def)
  have 2: "s (clock env (tick w)) ?d = Inr (a, d') \<Longrightarrow> G (wdb w) d'" for a d'
    using assms(2) 1 by (auto simp: stmt_guar_def intro: G_trans)
  show "G (wdb w) (wdb (snd (db_call env s w)))"
    using 1 2 by (simp add: db_call_def Let_def split: fault.splits sum.splits prod.splits)
qed

lemma guar_transaction:
  assumes "rely G env" "body_guar G body"
  shows "guar G (transaction env body)"
  unfolding guar_def
proof
  fix w :: world
  let ?d = "interference env (tick w) (wdb w)"
  let ?w1 = "w\<lparr>tick := Suc (tick w), wdb := ?d\<rparr>"
  have 1: "G (wdb w) ?d" using assms(1) by (simp add: rely_def)
  have 2: "body (quiet env) ?w1 = (Inr a, w2) \<Longrightarrow> G (wdb w) (wdb w2)" for a w2
  proof -
    assume "body (quiet env) ?w1 = (Inr a, w2)"
    then have "G (wdb ?w1) (wdb w2)" using assms(2) unfolding body_guar_def by blast
    with 1 show ?thesis by (auto intro: G_trans)
  qed
  show "G (wdb w) (wdb (snd (transaction env body w)))"
    using 1 2 by (simp add: transaction_def Let_def split: fault.splits sum.splits prod.splits)
qed

lemma guar_for_each: "(\<And>x. guar G (f x)) \<Longrightarrow> guar G (for_each xs f)"
  by (induction xs) (simp_all add: guar_ret guar_andThen)

lemma guar_if: "(c \<Longrightarrow> guar G m) \<Longrightarrow> (\<not> c \<Longrightarrow> guar G n) \<Longrightarrow> guar G (if c then m else n)"
  by simp

lemma stmt_guar_query: "stmt_guar G (query f)"
  by (simp add: stmt_guar_def G_refl)

end

text \<open>Equality of the database is a guarantee: the programs that keep it only read.\<close>

interpretation read_only: guarantee "(=)"
  by unfold_locales auto

section \<open>Undisturbed and healthy runs\<close>

text \<open>Nothing else writes the database; no round trip fails.\<close>

definition undisturbed :: "env \<Rightarrow> bool" where
  "undisturbed env \<longleftrightarrow> (\<forall>n d. interference env n d = d)"

definition healthy :: "env \<Rightarrow> bool" where
  "healthy env \<longleftrightarrow> undisturbed env \<and> (\<forall>n. faults env n = Healthy)"

lemma undisturbed_quiet: "undisturbed env \<Longrightarrow> quiet env = env"
  by (cases env) (simp add: undisturbed_def quiet_def fun_eq_iff)

lemma undisturbed_quiet_eq [simp]: "undisturbed (quiet env)"
  by (simp add: undisturbed_def quiet_def)

lemma healthy_quiet: "healthy env \<Longrightarrow> quiet env = env"
  by (simp add: healthy_def undisturbed_quiet)

lemma healthy_undisturbed: "healthy env \<Longrightarrow> undisturbed env"
  by (simp add: healthy_def)

lemma db_call_undisturbed_Inr:
  "undisturbed env \<Longrightarrow> db_call env s w = (Inr a, w') \<longleftrightarrow>
     faults env (tick w) = Healthy \<and>
     (\<exists>d. s (clock env (tick w)) (wdb w) = Inr (a, d) \<and> w' = w\<lparr>tick := Suc (tick w), wdb := d\<rparr>)"
  using db_call_quiet_Inr [of env s w a w'] by (simp add: undisturbed_quiet)

lemma db_call_healthy:
  "healthy env \<Longrightarrow> db_call env s w =
     (case s (clock env (tick w)) (wdb w) of
        Inl e \<Rightarrow> (Inl e, w\<lparr>tick := Suc (tick w)\<rparr>)
      | Inr (a, d) \<Rightarrow> (Inr a, w\<lparr>tick := Suc (tick w), wdb := d\<rparr>))"
  by (cases w) (simp add: db_call_def healthy_def undisturbed_def Let_def split: sum.splits)

text \<open>A statement that leaves the tables as they are, or fails.\<close>

lemma db_call_same:
  assumes "undisturbed env" "\<And>now a d'. s now (wdb w) = Inr (a, d') \<Longrightarrow> d' = wdb w"
  shows "wdb (snd (db_call env s w)) = wdb w"
  using assms
  by (simp add: db_call_def undisturbed_def Let_def split: fault.splits sum.splits prod.splits)

text \<open>A transaction whose body cannot return commits nothing.\<close>

lemma transaction_rolls_back:
  assumes "undisturbed env"
    and "\<And>w1 a w2. wdb w1 = wdb w \<Longrightarrow> body (quiet env) w1 = (Inr a, w2) \<Longrightarrow> wdb w2 = wdb w"
  shows "wdb (snd (transaction env body w)) = wdb w"
proof -
  let ?w1 = "w\<lparr>tick := Suc (tick w), wdb := wdb w\<rparr>"
  have "interference env (tick w) (wdb w) = wdb w" using assms(1) by (simp add: undisturbed_def)
  moreover obtain r w2 where run: "body (quiet env) ?w1 = (r, w2)" by (cases "body (quiet env) ?w1")
  moreover have "wdb w2 = wdb w" if "r = Inr a" for a
    using assms(2) [of ?w1 a w2] run that by simp
  ultimately show ?thesis
    unfolding transaction_def Let_def
    by (cases r; cases "faults env (tick w)"; cases "faults env (tick w2)") simp_all
qed

lemma transaction_Inr:
  assumes "transaction env body w = (Inr a, w')" "undisturbed env"
  shows "\<exists>w1 w2. wdb w1 = wdb w \<and> body (quiet env) w1 = (Inr a, w2) \<and> wdb w' = wdb w2"
proof -
  let ?w1 = "w\<lparr>tick := Suc (tick w), wdb := wdb w\<rparr>"
  have "interference env (tick w) (wdb w) = wdb w" using assms(2) by (simp add: undisturbed_def)
  with assms(1) obtain w2 where "body (quiet env) ?w1 = (Inr a, w2)" "wdb w' = wdb w2"
    by (auto simp: transaction_def Let_def split: fault.splits sum.splits prod.splits)
  then show ?thesis by (intro exI [of _ ?w1] exI [of _ w2]) simp
qed

lemma transaction_healthy:
  "healthy env \<Longrightarrow> transaction env body w =
     (case body env (w\<lparr>tick := Suc (tick w)\<rparr>) of
        (Inl e, w2) \<Rightarrow> (Inl e, w2\<lparr>wdb := wdb w\<rparr>)
      | (Inr a, w2) \<Rightarrow> (Inr a, w2\<lparr>tick := Suc (tick w2)\<rparr>))"
  by (cases w) (simp add: transaction_def healthy_def undisturbed_def healthy_quiet Let_def
      split: prod.splits sum.splits)

end
