(* ===== verification/Ledger.thy ===== *)
theory Ledger
  imports Effects
begin

text \<open>
  What the analysis-job ledger promises, stated once for every component that writes it.

  \<open>ledger_inv\<close> is the invariant of the database: rows satisfy the checks of the schema, a
  job that is not finished is not settled, it was not attempted more often than it may be, its
  usage is known as a whole or not at all, a
  repository has at most one active job, and a report belongs to a job exactly when the job
  succeeded. \<open>evolves\<close> is the guarantee of every transaction: the invariant is kept, no
  user's tokens are created or lost, a finished job's row never changes again, and a
  reservation, once made, stays.

  The locale \<open>job_update\<close> is the contract of a conditional update of the jobs table; the
  repositories interpret it on each of their statements.
\<close>

section \<open>The tokens of a user\<close>

text \<open>
  What a job holds of its user's tokens: its provider usage once it is settled, before that
  its reservation.
\<close>

definition charge :: "job_row \<Rightarrow> int" where
  "charge j = (if j_tokensSettledAt j \<noteq> None then option_or (j_totalTokens j) 0
               else option_or (j_reservedTokens j) 0)"

definition available :: "int \<Rightarrow> db \<Rightarrow> int" where
  "available u d = sum_list (map (\<lambda>r. if u_id r = u then u_availableTokens r else 0) (users d))"

definition charged :: "int \<Rightarrow> db \<Rightarrow> int" where
  "charged u d = sum_list (map (\<lambda>j. if j_userId j = u then charge j else 0) (jobs d))"

definition wealth :: "int \<Rightarrow> db \<Rightarrow> int" where
  "wealth u d = available u d + charged u d"

section \<open>The invariant\<close>

definition billed :: "job_row \<Rightarrow> bool" where
  "billed j \<longleftrightarrow> j_providerRequestIds j \<noteq> [] \<or> j_promptTokens j \<noteq> None \<or>
     j_completionTokens j \<noteq> None \<or> j_totalTokens j \<noteq> None"

definition job_coherent :: "job_row \<Rightarrow> bool" where
  "job_coherent j \<longleftrightarrow> (usage_known j \<or> usage_unknown j) \<and> j_attemptCount j \<le> j_maxAttempts j \<and>
     (active j \<longrightarrow> j_tokensSettledAt j = None \<and> j_completedAt j = None)"

definition job_ok :: "job_row \<Rightarrow> bool" where
  "job_ok j \<longleftrightarrow> job_checks j \<and> job_coherent j"

definition one_active :: "job_row list \<Rightarrow> bool" where
  "one_active js \<longleftrightarrow> (\<forall>r. count_where (\<lambda>j. j_repositoryId j = r \<and> active j) js \<le> 1)"

definition report_of :: "job_row \<Rightarrow> report_row \<Rightarrow> bool" where
  "report_of j p \<longleftrightarrow> p_jobId p = Some (j_id j) \<and> p_userId p = j_userId j \<and>
     p_repositoryId p = j_repositoryId j"

definition reports_match :: "db \<Rightarrow> bool" where
  "reports_match d \<longleftrightarrow>
     (\<forall>p \<in> set (reports d). p_jobId p \<noteq> None \<longrightarrow>
        (\<exists>j \<in> set (jobs d). report_of j p \<and> j_status j = SUCCEEDED)) \<and>
     (\<forall>j \<in> set (jobs d). j_status j = SUCCEEDED \<longrightarrow> (\<exists>p \<in> set (reports d). report_of j p))"

definition jobs_inv :: "db \<Rightarrow> bool" where
  "jobs_inv d \<longleftrightarrow>
     distinct (map j_id (jobs d)) \<and> (\<forall>j \<in> set (jobs d). job_ok j) \<and> one_active (jobs d)"

definition ledger_inv :: "db \<Rightarrow> bool" where
  "ledger_inv d \<longleftrightarrow> jobs_inv d \<and> distinct (map u_id (users d)) \<and> reports_match d"

section \<open>The life of a job\<close>

text \<open>The steps of a job's status; a job that succeeded or failed takes none.\<close>

inductive status_step :: "job_status \<Rightarrow> job_status \<Rightarrow> bool" where
  claimed: "status_step QUEUED RUNNING"
| released: "status_step RUNNING QUEUED"
| succeeded: "status_step RUNNING SUCCEEDED"
| failed_running: "status_step RUNNING FAILED"
| failed_queued: "status_step QUEUED FAILED"

inductive_simps status_step_simps [simp]:
  "status_step QUEUED t" "status_step RUNNING t" "status_step SUCCEEDED t" "status_step FAILED t"

inductive_cases status_stepE: "status_step s t"

lemma status_step_active: "status_step s t \<Longrightarrow> s \<in> {QUEUED, RUNNING}"
  by (auto elim: status_stepE)

section \<open>The guarantee\<close>

definition same_identity :: "job_row \<Rightarrow> job_row \<Rightarrow> bool" where
  "same_identity j j' \<longleftrightarrow>
     j_id j' = j_id j \<and> j_userId j' = j_userId j \<and> j_repositoryId j' = j_repositoryId j \<and>
     j_idempotencyKey j' = j_idempotencyKey j \<and> j_requestHash j' = j_requestHash j \<and>
     j_sourceCursor j' = j_sourceCursor j \<and> j_collectionCutoff j' = j_collectionCutoff j \<and>
     j_modelVersion j' = j_modelVersion j \<and> j_promptVersion j' = j_promptVersion j \<and>
     j_maxAttempts j' = j_maxAttempts j \<and> j_createdAt j' = j_createdAt j"

definition job_evolves :: "job_row \<Rightarrow> job_row \<Rightarrow> bool" where
  "job_evolves j j' \<longleftrightarrow>
     same_identity j j' \<and> j_attemptCount j \<le> j_attemptCount j' \<and>
     (j_reservedTokens j \<noteq> None \<longrightarrow> j_reservedTokens j' = j_reservedTokens j) \<and>
     (terminal (j_status j) \<longrightarrow> j' = j)"

definition rows_evolve :: "db \<Rightarrow> db \<Rightarrow> bool" where
  "rows_evolve d d' \<longleftrightarrow> (\<forall>j \<in> set (jobs d). \<exists>j' \<in> set (jobs d'). job_evolves j j')"

definition evolves :: "db \<Rightarrow> db \<Rightarrow> bool" where
  "evolves d d' \<longleftrightarrow> (ledger_inv d \<longrightarrow>
     ledger_inv d' \<and>
     (\<forall>u \<in> u_id ` set (users d). wealth u d' = wealth u d) \<and>
     u_id ` set (users d) \<subseteq> u_id ` set (users d') \<and>
     rows_evolve d d')"

lemma job_evolves_refl: "job_evolves j j"
  by (simp add: job_evolves_def same_identity_def)

lemma job_evolves_trans: "job_evolves a b \<Longrightarrow> job_evolves b c \<Longrightarrow> job_evolves a c"
  by (auto simp: job_evolves_def same_identity_def)

lemma rows_evolve_refl: "rows_evolve d d"
  by (auto simp: rows_evolve_def intro: job_evolves_refl)

lemma rows_evolve_trans: "rows_evolve d d' \<Longrightarrow> rows_evolve d' d'' \<Longrightarrow> rows_evolve d d''"
  unfolding rows_evolve_def by (meson job_evolves_trans)

lemma evolvesI:
  assumes "ledger_inv d \<Longrightarrow> ledger_inv d'"
    and "\<And>u. ledger_inv d \<Longrightarrow> u \<in> u_id ` set (users d) \<Longrightarrow> wealth u d' = wealth u d"
    and "ledger_inv d \<Longrightarrow> u_id ` set (users d) \<subseteq> u_id ` set (users d')"
    and "ledger_inv d \<Longrightarrow> rows_evolve d d'"
  shows "evolves d d'"
  using assms by (auto simp: evolves_def)

lemma evolves_under_inv: "(ledger_inv d \<Longrightarrow> evolves d d') \<Longrightarrow> evolves d d'"
  by (auto simp: evolves_def)

lemma evolvesD:
  assumes "evolves d d'" "ledger_inv d"
  shows "ledger_inv d'" "u \<in> u_id ` set (users d) \<Longrightarrow> wealth u d' = wealth u d"
    "u_id ` set (users d) \<subseteq> u_id ` set (users d')" "rows_evolve d d'"
  using assms by (auto simp: evolves_def)

interpretation ledger: guarantee evolves
proof unfold_locales
  fix d show "evolves d d"
    by (rule evolvesI) (auto intro: rows_evolve_refl)
next
  fix d d' d'' assume a: "evolves d d'" "evolves d' d''"
  show "evolves d d''"
  proof (rule evolvesI)
    assume inv: "ledger_inv d"
    note 1 = evolvesD [OF a(1) inv]
    note 2 = evolvesD [OF a(2) 1(1)]
    show "ledger_inv d''" by (rule 2(1))
    show "u_id ` set (users d) \<subseteq> u_id ` set (users d'')" using 1(3) 2(3) by (rule subset_trans)
    show "rows_evolve d d''" using 1(4) 2(4) by (rule rows_evolve_trans)
    show "wealth u d'' = wealth u d" if "u \<in> u_id ` set (users d)" for u
      using 1(2) [OF that] 2(2) [OF subsetD [OF 1(3) that]] by simp
  qed
qed

lemmas ledger_guar = ledger.guar_ret ledger.guar_throw ledger.guar_of_result
  ledger.guar_throw_unless ledger.guar_now ledger.guar_uuid ledger.guar_random
  ledger.guar_external ledger.guar_bind ledger.guar_andThen ledger.guar_catch
  ledger.guar_attempt ledger.guar_db_call ledger.guar_transaction ledger.guar_for_each
  ledger.guar_if ledger.stmt_guar_query

declare ledger_guar [guar_intros]

section \<open>Facts about single rows\<close>

lemma updatedAt_simps [simp]:
  "charge (j\<lparr>j_updatedAt := n\<rparr>) = charge j" "job_checks (j\<lparr>j_updatedAt := n\<rparr>) = job_checks j"
  "job_coherent (j\<lparr>j_updatedAt := n\<rparr>) = job_coherent j" "active (j\<lparr>j_updatedAt := n\<rparr>) = active j"
  "same_identity j0 (j\<lparr>j_updatedAt := n\<rparr>) = same_identity j0 j"
  by (simp_all add: charge_def job_check_defs job_coherent_def active_def usage_known_def
      usage_unknown_def same_identity_def cong: option.case_cong)

lemma terminal_not_active: "terminal (j_status j) \<longleftrightarrow> \<not> active j"
  by (simp add: active_iff_not_terminal)

lemma active_charge:
  "job_coherent j \<Longrightarrow> active j \<Longrightarrow> charge j = option_or (j_reservedTokens j) 0"
  by (simp add: job_coherent_def charge_def)

lemma ledger_invD:
  assumes "ledger_inv d"
  shows "distinct (map j_id (jobs d))" "distinct (map u_id (users d))"
    "j \<in> set (jobs d) \<Longrightarrow> job_ok j" "one_active (jobs d)" "reports_match d"
  using assms by (simp_all add: ledger_inv_def jobs_inv_def)

lemma same_identity_fields:
  "same_identity j j' \<Longrightarrow> j_id j' = j_id j" "same_identity j j' \<Longrightarrow> j_userId j' = j_userId j"
  "same_identity j j' \<Longrightarrow> j_repositoryId j' = j_repositoryId j"
  by (simp_all add: same_identity_def)

lemma one_active_update:
  assumes "one_active js"
    and "\<And>j. j \<in> set js \<Longrightarrow> p j \<Longrightarrow> active j \<and> j_repositoryId (f j) = j_repositoryId j"
  shows "one_active (update_where p f js)"
  unfolding one_active_def
proof
  fix r
  have "count_where (\<lambda>j. j_repositoryId j = r \<and> active j) (update_where p f js)
      \<le> count_where (\<lambda>j. j_repositoryId j = r \<and> active j) js"
    by (rule count_where_update_mono) (use assms(2) in auto)
  also have "\<dots> \<le> 1" using assms(1) by (simp add: one_active_def)
  finally show "count_where (\<lambda>j. j_repositoryId j = r \<and> active j) (update_where p f js) \<le> 1" .
qed

section \<open>The contract of a conditional update of the jobs table\<close>

text \<open>
  \<open>job_write\<close>: the update touches active jobs only, and keeps what identifies a job, its
  reservation and the coherence of its token columns, and changes its status by a step of its
  life or not at all. \<open>open_write\<close>: it does not make a job
  succeed. \<open>job_update\<close>: it leaves what the job holds of its user's tokens as it was, so it
  can stand alone, outside a transaction that moves tokens.
\<close>

locale job_write =
  fixes where_ok :: "job_row \<Rightarrow> bool" and set_data :: "job_row \<Rightarrow> job_row"
  assumes touches_active: "where_ok j \<Longrightarrow> active j"
    and keeps_identity: "where_ok j \<Longrightarrow> same_identity j (set_data j)"
    and attempts_grow: "where_ok j \<Longrightarrow> j_attemptCount j \<le> j_attemptCount (set_data j)"
    and reservation_kept:
      "where_ok j \<Longrightarrow> j_reservedTokens j \<noteq> None \<Longrightarrow> j_reservedTokens (set_data j) = j_reservedTokens j"
    and coherent: "where_ok j \<Longrightarrow> job_ok j \<Longrightarrow> job_coherent (set_data j)"
    and status_law: "where_ok j \<Longrightarrow>
      j_status (set_data j) = j_status j \<or> status_step (j_status j) (j_status (set_data j))"
begin

lemma row_evolves: "where_ok j \<Longrightarrow> job_evolves j (set_data j)"
  using keeps_identity attempts_grow reservation_kept touches_active
  by (simp add: job_evolves_def terminal_not_active)

lemma rows_evolve:
  assumes "jobs d' = update_where where_ok set_data (jobs d)"
  shows "rows_evolve d d'"
  unfolding rows_evolve_def
proof
  fix j assume "j \<in> set (jobs d)"
  then have "(if where_ok j then set_data j else j) \<in> set (jobs d')"
    by (simp add: assms set_update_where)
  moreover have "job_evolves j (if where_ok j then set_data j else j)"
    by (simp add: row_evolves job_evolves_refl)
  ultimately show "\<exists>j' \<in> set (jobs d'). job_evolves j j'" by blast
qed

lemma write_inv:
  assumes "bulk_update jobs put_jobs job_checks where_ok set_data d = Inr (n, d')" "jobs_inv d"
  shows "jobs_inv d'"
  unfolding jobs_inv_def
proof (intro conjI)
  have d': "jobs d' = update_where where_ok set_data (jobs d)"
    using jobs_table.bulk_update_rows [OF assms(1)] .
  have "map j_id (jobs d') = map j_id (jobs d)"
    using jobs_table.bulk_update_keys [OF assms(1)] keeps_identity by (simp add: same_identity_def)
  with assms(2) show "distinct (map j_id (jobs d'))" by (simp add: jobs_inv_def)
  from assms(2) show "one_active (jobs d')"
    using touches_active keeps_identity
    by (simp add: d' jobs_inv_def one_active_update same_identity_def)
  have "job_checks (set_data j)" if "j \<in> set (jobs d)" "where_ok j" for j
    using assms(1) that by (simp add: jobs_table.bulk_update_Inr)
  with assms(2) show "\<forall>j \<in> set (jobs d'). job_ok j"
    using coherent by (auto simp: d' set_update_where job_ok_def jobs_inv_def)
qed

lemma charged_single:
  assumes "jobs d' = update_where where_ok set_data (jobs d)" "distinct (map j_id (jobs d))"
    "j \<in> set (jobs d)" "where_ok j" "\<And>x. where_ok x \<Longrightarrow> j_id x = j_id j"
  shows "charged u d' = charged u d + (if u = j_userId j then charge (set_data j) - charge j else 0)"
proof -
  have "charged u d' = charged u d - (if j_userId j = u then charge j else 0)
          + (if j_userId (set_data j) = u then charge (set_data j) else 0)"
    unfolding charged_def assms(1)
    by (rule sum_update_where_single [where k = j_id and p = where_ok, OF assms(2-4)]) (rule assms(5))
  with keeps_identity [OF assms(4)] show ?thesis by (auto simp: same_identity_def)
qed

lemma stamped: "job_write where_ok (\<lambda>j. (set_data j)\<lparr>j_updatedAt := now\<rparr>)"
  by unfold_locales
    (simp_all add: touches_active keeps_identity attempts_grow reservation_kept coherent status_law)

end

locale open_write = job_write +
  assumes no_success: "where_ok j \<Longrightarrow> j_status (set_data j) \<noteq> SUCCEEDED"
begin

lemma reports_still_match:
  assumes "reports_match d" "jobs d' = update_where where_ok set_data (jobs d)" "reports d' = reports d"
  shows "reports_match d'"
  unfolding reports_match_def
proof (intro conjI ballI impI)
  fix p assume p: "p \<in> set (reports d')" "p_jobId p \<noteq> None"
  with assms obtain j where j: "j \<in> set (jobs d)" "report_of j p" "j_status j = SUCCEEDED"
    unfolding reports_match_def by auto
  then have "\<not> where_ok j" using touches_active [of j] by (auto simp: active_def)
  with j(1) assms(2) have "j \<in> set (jobs d')" by (force simp: set_update_where)
  with j show "\<exists>j \<in> set (jobs d'). report_of j p \<and> j_status j = SUCCEEDED" by blast
next
  fix j' assume "j' \<in> set (jobs d')" and ok: "j_status j' = SUCCEEDED"
  then obtain j where j: "j \<in> set (jobs d)" "j' = (if where_ok j then set_data j else j)"
    by (auto simp: assms(2) set_update_where)
  with ok no_success have "j' = j" by (auto split: if_splits)
  with j(1) ok assms show "\<exists>p \<in> set (reports d'). report_of j' p"
    by (auto simp: reports_match_def)
qed

lemma open_stamped: "open_write where_ok (\<lambda>j. (set_data j)\<lparr>j_updatedAt := now\<rparr>)"
  by (intro open_write.intro stamped open_write_axioms.intro) (simp add: no_success)

end

locale job_update = open_write +
  assumes charge_kept: "where_ok j \<Longrightarrow> job_ok j \<Longrightarrow> charge (set_data j) = charge j"
begin

lemma update_evolves:
  assumes "bulk_update jobs put_jobs job_checks where_ok set_data d = Inr (n, d')"
  shows "evolves d d'"
proof (rule evolvesI)
  assume inv: "ledger_inv d"
  have d': "d' = d\<lparr>jobs := update_where where_ok set_data (jobs d)\<rparr>"
    using assms by (simp add: jobs_table.bulk_update_Inr)
  show "ledger_inv d'"
    using inv write_inv [OF assms] reports_still_match [of d d'] by (simp add: ledger_inv_def d')
  show "rows_evolve d d'" by (rule rows_evolve) (simp add: d')
  show "u_id ` set (users d) \<subseteq> u_id ` set (users d')" by (simp add: d')
  show "wealth u d' = wealth u d" for u
    using ledger_invD(3) [OF inv] keeps_identity charge_kept
    by (auto simp: wealth_def available_def charged_def d' same_identity_def
        intro!: sum_update_where_same)
qed

lemma raw_stmt_guar: "stmt_guar evolves (raw_update_jobs where_ok set_data)"
  by (auto simp: stmt_guar_def raw_update_jobs_def intro: update_evolves)

lemma update_stamped: "job_update where_ok (\<lambda>j. (set_data j)\<lparr>j_updatedAt := now\<rparr>)"
  by (intro job_update.intro open_stamped job_update_axioms.intro) (simp add: charge_kept)

lemma stmt_guar: "stmt_guar evolves (update_jobs where_ok set_data)"
  by (auto simp: stmt_guar_def update_jobs_def intro: job_update.update_evolves [OF update_stamped])

end

lemma evolves_same:
  assumes "users d' = users d" "jobs d' = jobs d" "reports d' = reports d"
  shows "evolves d d'"
  using assms
  by (auto simp: evolves_def ledger_inv_def jobs_inv_def reports_match_def wealth_def available_def
      charged_def rows_evolve_def intro: job_evolves_refl)

section \<open>Moving tokens between a user and a job\<close>

text \<open>\<open>users_moved i delta d d'\<close>: the balance of user \<open>i\<close> changed by \<open>delta\<close>, nothing else.\<close>

definition users_moved :: "int \<Rightarrow> int \<Rightarrow> db \<Rightarrow> db \<Rightarrow> bool" where
  "users_moved i delta d d' \<longleftrightarrow>
     map u_id (users d') = map u_id (users d) \<and> jobs d' = jobs d \<and> reports d' = reports d \<and>
     (\<forall>v. available v d' = available v d + (if v = i then delta else 0))"

lemma users_moved_refl: "users_moved i 0 d d"
  by (simp add: users_moved_def)

lemma users_moved_trans:
  "users_moved i a d d' \<Longrightarrow> users_moved i b d' d'' \<Longrightarrow> users_moved i (a + b) d d''"
  by (simp add: users_moved_def)

lemma update_users_moved:
  assumes run: "update_users p f now d = Inr (1, d')" and dist: "distinct (map u_id (users d))"
    and p: "\<And>u. p u \<Longrightarrow> u_id u = i"
    and f: "\<And>u. u_id (f u) = u_id u \<and> u_availableTokens (f u) = u_availableTokens u + delta"
  shows "users_moved i delta d d'"
proof -
  let ?g = "\<lambda>u. (f u)\<lparr>u_updatedAt := now\<rparr>"
  have d': "d' = d\<lparr>users := update_where p ?g (users d)\<rparr>" and n: "count_where p (users d) = 1"
    using run by (simp_all add: update_users_def users_table.bulk_update_Inr)
  obtain u where u: "u \<in> set (users d)" "p u" using n by (rule count_where_1_obtain)
  have "available v d' = available v d + (if v = i then delta else 0)" for v
  proof -
    have "available v d' = available v d - (if u_id u = v then u_availableTokens u else 0)
            + (if u_id (?g u) = v then u_availableTokens (?g u) else 0)"
      unfolding available_def d' users_table.get_put
      by (rule sum_update_where_single [where k = u_id and p = p, OF dist u]) (simp add: p [OF u(2)] p)
    then show ?thesis using f [of u] p [OF u(2)] by auto
  qed
  moreover have "map u_id (users d') = map u_id (users d)"
    using f by (simp add: d' map_key_update_where)
  ultimately show ?thesis by (simp add: users_moved_def d')
qed

lemma update_user_moved:
  assumes run: "update_user i f now d = Inr (x, d')" and dist: "distinct (map u_id (users d))"
    and f: "\<And>u. u_id (f u) = u_id u \<and> u_availableTokens (f u) = u_availableTokens u + delta"
  shows "users_moved i delta d d'"
proof -
  obtain n where n: "update_users (\<lambda>u. u_id u = i) f now d = Inr (n, d')" "n \<noteq> 0"
    using run by (auto simp: update_user_def split: sum.splits if_splits)
  have "n \<le> 1"
    by (rule users_table.bulk_update_count_le_1 [OF n(1) [unfolded update_users_def] dist]) simp
  with n have "update_users (\<lambda>u. u_id u = i) f now d = Inr (1, d')" by (cases "n = 1") auto
  then show ?thesis by (rule update_users_moved [OF _ dist _ f]) simp
qed

lemma credit_fields: "u_id (u\<lparr>u_availableTokens := u_availableTokens u + n\<rparr>) = u_id u
    \<and> u_availableTokens (u\<lparr>u_availableTokens := u_availableTokens u + n\<rparr>) = u_availableTokens u + n"
  "u_id (u\<lparr>u_availableTokens := u_availableTokens u - n\<rparr>) = u_id u
    \<and> u_availableTokens (u\<lparr>u_availableTokens := u_availableTokens u - n\<rparr>) = u_availableTokens u + - n"
  by simp_all

text \<open>A transaction that moves tokens and then writes one job row, in either order.\<close>

context job_write
begin

lemma move_jobs_inv:
  assumes "jobs_inv d" "bulk_update jobs put_jobs job_checks where_ok set_data d1 = Inr (n, d')"
    "jobs d1 = jobs d"
  shows "jobs_inv d'"
  using assms write_inv [of d1 n d'] by (simp add: jobs_inv_def)

lemma move_wealth:
  assumes "jobs d1 = jobs d" "jobs d' = update_where where_ok set_data (jobs d1)"
    "users d' = users d2" "\<forall>v. available v d2 = available v d + (if v = i then delta else 0)"
    "distinct (map j_id (jobs d))" "j \<in> set (jobs d)" "where_ok j"
    "\<And>x. where_ok x \<Longrightarrow> j_id x = j_id j"
    "j_userId j = i" "charge (set_data j) = charge j - delta"
  shows "wealth v d' = wealth v d"
proof -
  have "charged v d' = charged v d + (if v = j_userId j then charge (set_data j) - charge j else 0)"
    by (rule charged_single [OF _ assms(5-7) assms(8)]) (simp only: assms(1,2))
  moreover have "available v d' = available v d2" using assms(3) by (simp add: available_def)
  moreover have "available v d2 = available v d + (if v = i then delta else 0)"
    using assms(4) by blast
  ultimately show ?thesis unfolding wealth_def assms(9,10) by simp
qed

end

context open_write
begin

lemma move_evolves:
  assumes moved: "users_moved i delta d d1"
    and run: "bulk_update jobs put_jobs job_checks where_ok set_data d1 = Inr (n, d')"
    and j: "j \<in> set (jobs d)" "where_ok j" "\<And>x. where_ok x \<Longrightarrow> j_id x = j_id j"
    and bal: "j_userId j = i" "job_ok j \<Longrightarrow> charge (set_data j) = charge j - delta"
  shows "evolves d d'"
proof (rule evolvesI)
  assume inv: "ledger_inv d"
  have d1: "jobs d1 = jobs d" "reports d1 = reports d" "map u_id (users d1) = map u_id (users d)"
    using moved by (simp_all add: users_moved_def)
  have d': "d' = d1\<lparr>jobs := update_where where_ok set_data (jobs d1)\<rparr>"
    using run by (simp add: jobs_table.bulk_update_Inr)
  have "jobs_inv d'" using inv by (intro move_jobs_inv [OF _ run d1(1)]) (simp add: ledger_inv_def)
  moreover have "reports_match d'"
    by (rule reports_still_match [of d]) (use inv d' d1 in \<open>simp_all add: ledger_inv_def\<close>)
  ultimately show "ledger_inv d'" using inv d1(3) by (simp add: ledger_inv_def d')
  show "u_id ` set (users d) \<subseteq> u_id ` set (users d')"
    using arg_cong [OF d1(3), of set] by (simp add: d')
  show "rows_evolve d d'" by (rule rows_evolve) (simp add: d' d1)
  have "charge (set_data j) = charge j - delta"
    by (rule bal(2)) (rule ledger_invD(3) [OF inv j(1)])
  moreover have "\<forall>v. available v d1 = available v d + (if v = i then delta else 0)"
    using moved by (simp add: users_moved_def)
  moreover have "jobs d' = update_where where_ok set_data (jobs d1)" "users d' = users d1"
    by (simp_all add: d')
  ultimately show "wealth v d' = wealth v d" for v
    using move_wealth [OF d1(1), of d' d1 i delta j v] ledger_invD(1) [OF inv] j bal(1) by blast
qed

end

end
