(* ===== verification/JobRepository.thy ===== *)
theory JobRepository
  imports Ledger
begin

text \<open>
  The repository of analysis jobs (\<open>src/src/analysis-job/analysis-job.repository.ts\<close>): every
  \<open>updateMany\<close> is its \<open>where\<close> condition and its \<open>data\<close>, each a definition of its own, and the
  methods run them as statements. The statements that stand alone are shown to keep the
  ledger's guarantee through the contract \<^const>\<open>job_update\<close>.
\<close>

section \<open>Inputs\<close>

record create_job_record_input =
  ci_userId :: int
  ci_repositoryId :: int
  ci_idempotencyKey :: string
  ci_requestHash :: string
  ci_modelVersion :: string
  ci_promptVersion :: string
  ci_sourceCursor :: "int option"
  ci_collectionCutoff :: "int option"
  ci_status :: job_status
  ci_stage :: job_stage
  ci_progress :: int

text \<open>
  \<open>AnalysisJobTransitionData\<close>: a field that is \<^const>\<open>None\<close> is \<open>undefined\<close>, the client then
  leaves the column as it is.
\<close>

record transition_data =
  t_stage :: "job_stage option option"
  t_progress :: "int option"
  t_promptTokens :: "int option option"
  t_completionTokens :: "int option option"
  t_totalTokens :: "int option option"
  t_tokensSettledAt :: "int option option"
  t_providerRequestIds :: "string list option"
  t_nextPublishAt :: "int option option"
  t_leaseToken :: "string option option"
  t_leaseExpiresAt :: "int option option"
  t_heartbeatAt :: "int option option"
  t_lastErrorCode :: "string option option"
  t_lastErrorMessage :: "string option option"
  t_errorRetryable :: "bool option option"
  t_startedAt :: "int option"
  t_completedAt :: "int option"

definition no_transition_data :: transition_data where
  "no_transition_data =
     \<lparr>t_stage = None, t_progress = None, t_promptTokens = None, t_completionTokens = None,
      t_totalTokens = None, t_tokensSettledAt = None, t_providerRequestIds = None,
      t_nextPublishAt = None, t_leaseToken = None, t_leaseExpiresAt = None, t_heartbeatAt = None,
      t_lastErrorCode = None, t_lastErrorMessage = None, t_errorRetryable = None,
      t_startedAt = None, t_completedAt = None\<rparr>"

definition ANALYSIS_JOB_STALE_TIMEOUT_MS :: int where
  "ANALYSIS_JOB_STALE_TIMEOUT_MS = 15 * 60 * 1000"

record running_job_context =
  rc_id :: string
  rc_userId :: int
  rc_repositoryId :: int
  rc_modelVersion :: string
  rc_promptVersion :: string
  rc_reservedTokens :: "int option"
  rc_promptTokens :: "int option"
  rc_completionTokens :: "int option"
  rc_totalTokens :: "int option"
  rc_providerRequestIds :: "string list"

record reserve_tokens_input =
  ri_jobId :: string
  ri_expectedLeaseToken :: string
  ri_expectedUserId :: int
  ri_expectedRepositoryId :: int
  ri_estimatedTokens :: int
  ri_reservedTokens :: int

record provider_charge_input =
  pc_jobId :: string
  pc_expectedLeaseToken :: string
  pc_expectedUserId :: int
  pc_expectedRepositoryId :: int
  pc_expectedReservedTokens :: int
  pc_promptTokens :: "int option"
  pc_completionTokens :: "int option"
  pc_totalTokens :: "int option"
  pc_providerRequestId :: string

text \<open>
  \<open>TransitionAnalysisJobRecordInput\<close>; a fence that is \<^const>\<open>None\<close> is \<open>undefined\<close> and not part
  of the condition. The required reservation may be \<open>null\<close>, which is \<^term>\<open>Some None\<close>.
\<close>

record transition_record_input =
  x_jobId :: string
  x_fromStatus :: job_status
  x_toStatus :: job_status
  x_expectedLeaseToken :: "string option"
  x_requiredReportId :: "int option"
  x_requiredUserId :: "int option"
  x_requiredRepositoryId :: "int option"
  x_requiredReservedTokens :: "int option option"
  x_data :: transition_data

section \<open>Creating and reading\<close>

text \<open>
  The row that \<open>analysisJob.create({ data })\<close> inserts: the given columns, and the defaults of
  the schema for the others.
\<close>

definition new_job :: "string \<Rightarrow> int \<Rightarrow> create_job_record_input \<Rightarrow> job_row" where
  "new_job i now c =
     \<lparr>j_id = i, j_status = ci_status c, j_stage = Some (ci_stage c), j_progress = ci_progress c,
      j_userId = ci_userId c, j_repositoryId = ci_repositoryId c,
      j_idempotencyKey = ci_idempotencyKey c, j_requestHash = ci_requestHash c,
      j_sourceCursor = ci_sourceCursor c, j_collectionCutoff = option_or (ci_collectionCutoff c) now,
      j_modelVersion = ci_modelVersion c, j_promptVersion = ci_promptVersion c,
      j_estimatedTokens = None, j_reservedTokens = None, j_promptTokens = None,
      j_completionTokens = None, j_totalTokens = None, j_tokensSettledAt = None,
      j_providerRequestIds = [], j_publishAttempts = 0, j_messagePublishedAt = None,
      j_nextPublishAt = None, j_attemptCount = 0, j_maxAttempts = 5, j_leaseToken = None,
      j_leaseExpiresAt = None, j_heartbeatAt = None, j_lastErrorCode = None,
      j_lastErrorMessage = None, j_errorRetryable = None, j_startedAt = None,
      j_completedAt = None, j_createdAt = now, j_updatedAt = now\<rparr>"

text \<open>The primary key and \<open>@@unique([userId, idempotencyKey])\<close>.\<close>

definition job_clash :: "job_row \<Rightarrow> job_row \<Rightarrow> bool" where
  "job_clash new j \<longleftrightarrow> j_id j = j_id new \<or>
     (j_userId j = j_userId new \<and> j_idempotencyKey j = j_idempotencyKey new)"

definition create_job_stmt :: "string \<Rightarrow> create_job_record_input \<Rightarrow> job_row stmt" where
  "create_job_stmt i c now d =
     (if find_user (ci_userId c) d = None \<or> find_repository (ci_repositoryId c) d = None
      then Inl (PrismaError (PrismaClientKnownRequestError ''P2003''))
      else insert_row jobs put_jobs job_checks job_clash (new_job i now c) d)"

definition create_job :: "env \<Rightarrow> create_job_record_input \<Rightarrow> job_row io" where
  "create_job env c = bind (uuid_io env) (\<lambda>i. db_call env (create_job_stmt i c))"

definition findById :: "env \<Rightarrow> string \<Rightarrow> job_row option io" where
  "findById env i = db_call env (query (find_job i))"

definition running_context :: "job_row \<Rightarrow> running_job_context" where
  "running_context j =
     \<lparr>rc_id = j_id j, rc_userId = j_userId j, rc_repositoryId = j_repositoryId j,
      rc_modelVersion = j_modelVersion j, rc_promptVersion = j_promptVersion j,
      rc_reservedTokens = j_reservedTokens j, rc_promptTokens = j_promptTokens j,
      rc_completionTokens = j_completionTokens j, rc_totalTokens = j_totalTokens j,
      rc_providerRequestIds = j_providerRequestIds j\<rparr>"

definition findRunningByLease :: "env \<Rightarrow> string \<Rightarrow> string \<Rightarrow> running_job_context option io" where
  "findRunningByLease env i lease =
     db_call env (query (\<lambda>d. map_option running_context
       (find (\<lambda>j. j_id j = i \<and> j_status j = RUNNING \<and> j_leaseToken j = Some lease) (jobs d))))"

section \<open>Reserving tokens and recording a provider charge\<close>

definition reserve_where :: "reserve_tokens_input \<Rightarrow> job_row \<Rightarrow> bool" where
  "reserve_where i j \<longleftrightarrow>
     j_id j = ri_jobId i \<and> j_status j = RUNNING \<and> j_leaseToken j = Some (ri_expectedLeaseToken i) \<and>
     j_userId j = ri_expectedUserId i \<and> j_repositoryId j = ri_expectedRepositoryId i \<and>
     j_reservedTokens j = None \<and> j_tokensSettledAt j = None"

definition reserve_set :: "reserve_tokens_input \<Rightarrow> job_row \<Rightarrow> job_row" where
  "reserve_set i j = j\<lparr>j_stage := Some ANALYZING, j_estimatedTokens := Some (ri_estimatedTokens i),
     j_reservedTokens := Some (ri_reservedTokens i)\<rparr>"

definition repo_reserveTokens :: "env \<Rightarrow> reserve_tokens_input \<Rightarrow> bool io" where
  "repo_reserveTokens env i =
     bind (db_call env (update_jobs (reserve_where i) (reserve_set i))) (\<lambda>n. ret (n = 1))"

definition charge_where :: "provider_charge_input \<Rightarrow> job_row \<Rightarrow> bool" where
  "charge_where i j \<longleftrightarrow>
     j_id j = pc_jobId i \<and> j_status j = RUNNING \<and> j_leaseToken j = Some (pc_expectedLeaseToken i) \<and>
     j_userId j = pc_expectedUserId i \<and> j_repositoryId j = pc_expectedRepositoryId i \<and>
     j_reservedTokens j = Some (pc_expectedReservedTokens i) \<and> j_tokensSettledAt j = None \<and>
     j_promptTokens j = None \<and> j_completionTokens j = None \<and> j_totalTokens j = None \<and>
     j_providerRequestIds j = []"

definition charge_set :: "provider_charge_input \<Rightarrow> job_row \<Rightarrow> job_row" where
  "charge_set i j = j\<lparr>j_promptTokens := pc_promptTokens i, j_completionTokens := pc_completionTokens i,
     j_totalTokens := pc_totalTokens i, j_providerRequestIds := [pc_providerRequestId i]\<rparr>"

definition repo_recordProviderCharge :: "env \<Rightarrow> provider_charge_input \<Rightarrow> bool io" where
  "repo_recordProviderCharge env i =
     bind (db_call env (update_jobs (charge_where i) (charge_set i))) (\<lambda>n. ret (n = 1))"

section \<open>Status transitions\<close>

text \<open>\<open>report: { is: { id } }\<close>: the report that is linked to the job has the given id.\<close>

definition transition_where :: "transition_record_input \<Rightarrow> db \<Rightarrow> job_row \<Rightarrow> bool" where
  "transition_where x d j \<longleftrightarrow>
     j_id j = x_jobId x \<and> j_status j = x_fromStatus x \<and>
     option_all (\<lambda>t. j_leaseToken j = Some t) (x_expectedLeaseToken x) \<and>
     option_all (\<lambda>i. list_ex (\<lambda>p. p_jobId p = Some (j_id j) \<and> p_id p = i) (reports d))
       (x_requiredReportId x) \<and>
     option_all (\<lambda>u. j_userId j = u) (x_requiredUserId x) \<and>
     option_all (\<lambda>r. j_repositoryId j = r) (x_requiredRepositoryId x) \<and>
     option_all (\<lambda>r. j_reservedTokens j = r) (x_requiredReservedTokens x) \<and>
     (x_toStatus x = SUCCEEDED \<or> x_toStatus x = FAILED \<longrightarrow> j_tokensSettledAt j = None)"

definition apply_transition_data :: "transition_data \<Rightarrow> job_row \<Rightarrow> job_row" where
  "apply_transition_data t j =
     j\<lparr>j_stage := option_or (t_stage t) (j_stage j),
       j_progress := option_or (t_progress t) (j_progress j),
       j_promptTokens := option_or (t_promptTokens t) (j_promptTokens j),
       j_completionTokens := option_or (t_completionTokens t) (j_completionTokens j),
       j_totalTokens := option_or (t_totalTokens t) (j_totalTokens j),
       j_tokensSettledAt := option_or (t_tokensSettledAt t) (j_tokensSettledAt j),
       j_providerRequestIds := option_or (t_providerRequestIds t) (j_providerRequestIds j),
       j_nextPublishAt := option_or (t_nextPublishAt t) (j_nextPublishAt j),
       j_leaseToken := option_or (t_leaseToken t) (j_leaseToken j),
       j_leaseExpiresAt := option_or (t_leaseExpiresAt t) (j_leaseExpiresAt j),
       j_heartbeatAt := option_or (t_heartbeatAt t) (j_heartbeatAt j),
       j_lastErrorCode := option_or (t_lastErrorCode t) (j_lastErrorCode j),
       j_lastErrorMessage := option_or (t_lastErrorMessage t) (j_lastErrorMessage j),
       j_errorRetryable := option_or (t_errorRetryable t) (j_errorRetryable j),
       j_startedAt := (case t_startedAt t of None \<Rightarrow> j_startedAt j | Some s \<Rightarrow> Some s),
       j_completedAt := (case t_completedAt t of None \<Rightarrow> j_completedAt j | Some s \<Rightarrow> Some s)\<rparr>"

definition transition_set :: "transition_record_input \<Rightarrow> job_row \<Rightarrow> job_row" where
  "transition_set x j = (apply_transition_data (x_data x) j)\<lparr>j_status := x_toStatus x\<rparr>"

definition transition_stmt :: "transition_record_input \<Rightarrow> nat stmt" where
  "transition_stmt x now d = update_jobs (transition_where x d) (transition_set x) now d"

definition positive_or_missing :: "int option \<Rightarrow> bool" where
  "positive_or_missing i \<longleftrightarrow> (case i of None \<Rightarrow> False | Some n \<Rightarrow> n > 0)"

definition transitionStatus :: "env \<Rightarrow> transition_record_input \<Rightarrow> bool io" where
  "transitionStatus env x =
     (if x_fromStatus x = RUNNING \<and>
         (case x_expectedLeaseToken x of None \<Rightarrow> True | Some t \<Rightarrow> js_trim t = [])
      then throw (PlainError ''A lease fence is required for RUNNING job updates'')
      else if x_toStatus x = SUCCEEDED \<and>
         (\<not> positive_or_missing (x_requiredReportId x) \<or> \<not> positive_or_missing (x_requiredUserId x) \<or>
          \<not> positive_or_missing (x_requiredRepositoryId x))
      then throw (PlainError ''A linked report, user, and repository are required for SUCCEEDED job updates'')
      else bind (db_call env (transition_stmt x)) (\<lambda>n. ret (n = 1)))"

section \<open>Exclusive creation\<close>

definition stale_lease :: "int \<Rightarrow> int \<Rightarrow> job_row \<Rightarrow> bool" where
  "stale_lease completedAt staleCutoff j \<longleftrightarrow>
     (case j_leaseExpiresAt j of Some e \<Rightarrow> e \<le> completedAt | None \<Rightarrow> j_updatedAt j \<le> staleCutoff)"

definition stale_unreserved_where :: "int \<Rightarrow> int \<Rightarrow> int \<Rightarrow> job_row \<Rightarrow> bool" where
  "stale_unreserved_where repositoryId completedAt staleCutoff j \<longleftrightarrow>
     j_repositoryId j = repositoryId \<and> j_reservedTokens j = None \<and> j_tokensSettledAt j = None \<and>
     ((j_status j = QUEUED \<and> js_startsWith (j_idempotencyKey j) ''sync:'' \<and>
       j_createdAt j \<le> staleCutoff \<and> j_startedAt j = None \<and> j_messagePublishedAt j = None \<and>
       j_nextPublishAt j = None \<and> j_attemptCount j = 0) \<or>
      (j_status j = RUNNING \<and> stale_lease completedAt staleCutoff j))"

definition stale_unreserved_set :: "int \<Rightarrow> job_row \<Rightarrow> job_row" where
  "stale_unreserved_set completedAt j =
     j\<lparr>j_status := FAILED, j_stage := None, j_promptTokens := Some 0, j_completionTokens := Some 0,
       j_totalTokens := Some 0, j_tokensSettledAt := Some completedAt, j_leaseToken := None,
       j_leaseExpiresAt := None, j_heartbeatAt := None, j_completedAt := Some completedAt,
       j_lastErrorCode := Some ''ANALYSIS_FAILED'', j_lastErrorMessage := Some ''Analysis failed.'',
       j_errorRetryable := Some True\<rparr>"

definition stale_reserved_where :: "int \<Rightarrow> int \<Rightarrow> int \<Rightarrow> job_row \<Rightarrow> bool" where
  "stale_reserved_where repositoryId completedAt staleCutoff j \<longleftrightarrow>
     j_repositoryId j = repositoryId \<and> j_status j = RUNNING \<and> j_reservedTokens j \<noteq> None \<and>
     j_tokensSettledAt j = None \<and> stale_lease completedAt staleCutoff j"

definition stale_reserved_set :: "int \<Rightarrow> job_row \<Rightarrow> job_row" where
  "stale_reserved_set completedAt j =
     j\<lparr>j_status := FAILED, j_stage := None, j_tokensSettledAt := None, j_leaseToken := None,
       j_leaseExpiresAt := None, j_heartbeatAt := None, j_completedAt := Some completedAt,
       j_lastErrorCode := Some ''PROVIDER_RECONCILIATION_REQUIRED'',
       j_lastErrorMessage := Some ''The provider charge requires reconciliation.'',
       j_errorRetryable := Some False\<rparr>"

definition recoverStaleActiveJobs :: "env \<Rightarrow> int \<Rightarrow> unit io" where
  "recoverStaleActiveJobs env repositoryId =
     bind (now_io env) (\<lambda>completedAt.
     let staleCutoff = completedAt - ANALYSIS_JOB_STALE_TIMEOUT_MS in
     bind (db_call env (update_jobs (stale_unreserved_where repositoryId completedAt staleCutoff)
                         (stale_unreserved_set completedAt))) (\<lambda>_.
     bind (db_call env (update_jobs (stale_reserved_where repositoryId completedAt staleCutoff)
                         (stale_reserved_set completedAt))) (\<lambda>_.
     ret ())))"

definition find_active :: "int \<Rightarrow> db \<Rightarrow> job_row option" where
  "find_active repositoryId d =
     find (\<lambda>j. j_repositoryId j = repositoryId \<and> (j_status j = QUEUED \<or> j_status j = RUNNING)) (jobs d)"

text \<open>
  The advisory lock \<open>pg_advisory_xact_lock\<close> is a round trip without an effect on the tables;
  that two transactions with the same lock do not interleave is part of
  \<^const>\<open>transaction\<close>.
\<close>

definition acquire_lock :: "env \<Rightarrow> unit io" where
  "acquire_lock env = db_call env (query (\<lambda>_. ()))"

definition createExclusiveInTransaction :: "env \<Rightarrow> int \<Rightarrow> (env \<Rightarrow> 'a io) \<Rightarrow> 'a io" where
  "createExclusiveInTransaction env repositoryId operation =
     andThen (acquire_lock env)
     (andThen (recoverStaleActiveJobs env repositoryId)
     (bind (db_call env (query (find_active repositoryId))) (\<lambda>active.
      case active of
        Some _ \<Rightarrow> throw (ActiveAnalysisJobExistsError repositoryId)
      | None \<Rightarrow> operation env)))"

text \<open>\<open>createExclusive\<close> without a transaction of the caller opens one of its own.\<close>

definition createExclusive :: "env \<Rightarrow> int \<Rightarrow> (env \<Rightarrow> 'a io) \<Rightarrow> 'a io" where
  "createExclusive env repositoryId operation =
     transaction env (\<lambda>tx. createExclusiveInTransaction tx repositoryId operation)"

section \<open>The statements keep the ledger's guarantee\<close>

interpretation stale_unreserved: job_update "stale_unreserved_where r c s" "stale_unreserved_set c" for r c s
  by unfold_locales
    (auto simp: stale_unreserved_where_def stale_unreserved_set_def active_def same_identity_def
      job_ok_def job_coherent_def usage_known_def charge_def)

interpretation stale_reserved: job_update "stale_reserved_where r c s" "stale_reserved_set c" for r c s
  by unfold_locales
    (auto simp: stale_reserved_where_def stale_reserved_set_def active_def same_identity_def
      job_coherent_def job_ok_def usage_known_def usage_unknown_def charge_def split: option.splits)

definition charge_usage_ok :: "provider_charge_input \<Rightarrow> bool" where
  "charge_usage_ok i \<longleftrightarrow>
     (case (pc_promptTokens i, pc_completionTokens i, pc_totalTokens i) of
        (Some p, Some c, Some t) \<Rightarrow> t = p + c
      | (None, None, None) \<Rightarrow> True
      | _ \<Rightarrow> False)"

lemma charge_update: "charge_usage_ok i \<Longrightarrow> job_update (charge_where i) (charge_set i)"
  by unfold_locales
    (auto simp: charge_where_def charge_set_def active_def same_identity_def job_coherent_def
      usage_known_def usage_unknown_def charge_usage_ok_def job_ok_def charge_def split: option.splits)

lemma charge_stmt_guar [guar_intros]:
  "charge_usage_ok i \<Longrightarrow> stmt_guar evolves (update_jobs (charge_where i) (charge_set i))"
  by (rule job_update.stmt_guar [OF charge_update])

interpretation reserve: open_write "reserve_where i" "reserve_set i" for i
  by unfold_locales
    (auto simp: reserve_where_def reserve_set_def active_def same_identity_def job_coherent_def
      job_ok_def usage_known_def usage_unknown_def split: option.splits)

text \<open>Creating a job for a repository without an active one.\<close>

lemma find_active_None: "find_active r d = None \<longleftrightarrow> (\<forall>j \<in> set (jobs d). j_repositoryId j = r \<longrightarrow> \<not> active j)"
  by (auto simp: find_active_def find_None_iff active_def)

lemma new_job_simps [simp]:
  "j_id (new_job i now c) = i" "j_status (new_job i now c) = ci_status c"
  "j_repositoryId (new_job i now c) = ci_repositoryId c" "charge (new_job i now c) = 0"
  "active (new_job i now c) = (ci_status c = QUEUED \<or> ci_status c = RUNNING)"
  "job_coherent (new_job i now c)"
  by (simp_all add: new_job_def charge_def active_def job_coherent_def usage_unknown_def)

lemma create_job_stmt_Inr:
  "create_job_stmt i c now d = Inr (j, d') \<longleftrightarrow>
     find_user (ci_userId c) d \<noteq> None \<and> find_repository (ci_repositoryId c) d \<noteq> None \<and>
     (\<forall>x \<in> set (jobs d). \<not> job_clash j x) \<and> job_checks j \<and> j = new_job i now c \<and>
     d' = d\<lparr>jobs := jobs d @ [j]\<rparr>"
  by (auto simp: create_job_stmt_def jobs_table.insert_row_Inr)

lemma create_evolves:
  assumes run: "create_job_stmt i c now d = Inr (j, d')"
    and "ci_status c = QUEUED" "find_active (ci_repositoryId c) d = None"
  shows "evolves d d'"
proof (rule evolvesI)
  have d': "d' = d\<lparr>jobs := jobs d @ [j]\<rparr>" and fresh: "\<forall>x \<in> set (jobs d). \<not> job_clash j x"
    and j: "j = new_job i now c" "job_checks j"
    using run by (auto simp: create_job_stmt_Inr)
  show "rows_evolve d d'" by (auto simp: rows_evolve_def d' intro: job_evolves_refl)
  show "u_id ` set (users d) \<subseteq> u_id ` set (users d')" by (simp add: d')
  show "wealth u d' = wealth u d" for u
    by (simp add: wealth_def available_def charged_def d' j)
  assume inv: "ledger_inv d"
  have "one_active (jobs d')"
    unfolding one_active_def
  proof
    fix r
    have "count_where (\<lambda>x. j_repositoryId x = r \<and> active x) (jobs d) \<le> 1"
      using inv by (simp add: ledger_inv_def jobs_inv_def one_active_def)
    moreover have "count_where (\<lambda>x. j_repositoryId x = r \<and> active x) (jobs d) = 0"
      if "j_repositoryId j = r"
      using assms(3) that by (auto simp: count_where_0_iff find_active_None j)
    ultimately show "count_where (\<lambda>x. j_repositoryId x = r \<and> active x) (jobs d') \<le> 1"
      by (auto simp: d' count_where_def)
  qed
  with inv fresh j assms(2) show "ledger_inv d'"
    by (auto simp: ledger_inv_def jobs_inv_def reports_match_def d' job_ok_def job_clash_def)
qed

section \<open>Exclusive creation keeps it\<close>

text \<open>What \<open>createExclusive\<close> needs of the operation it runs.\<close>

definition exclusive_guar :: "int \<Rightarrow> (env \<Rightarrow> 'a io) \<Rightarrow> bool" where
  "exclusive_guar r operation \<longleftrightarrow>
     (\<forall>env w a w'. find_active r (wdb w) = None \<longrightarrow> operation (quiet env) w = (Inr a, w')
        \<longrightarrow> evolves (wdb w) (wdb w'))"

lemma recover_guar [guar_intros]: "rely evolves env \<Longrightarrow> guar evolves (recoverStaleActiveJobs env r)"
  unfolding recoverStaleActiveJobs_def Let_def
  by (intro guar_intros stale_unreserved.stmt_guar stale_reserved.stmt_guar)

lemma create_job_exclusive:
  assumes "ci_status c = QUEUED" "ci_repositoryId c = r"
  shows "exclusive_guar r (\<lambda>tx. create_job tx c)"
  using assms
  by (auto simp: exclusive_guar_def create_job_def uuid_io_def run_simps intro!: create_evolves)

lemma createExclusiveInTransaction_body:
  assumes "exclusive_guar r operation"
  shows "body_guar evolves (\<lambda>tx. createExclusiveInTransaction tx r operation)"
  unfolding body_guar_def
proof (intro allI impI)
  fix env :: env and w :: world and a and w' :: world
  assume run: "createExclusiveInTransaction (quiet env) r operation w = (Inr a, w')"
  then obtain w1 w2 w3 where 1: "acquire_lock (quiet env) w = (Inr (), w1)"
    and 2: "recoverStaleActiveJobs (quiet env) r w1 = (Inr (), w2)"
    and 3: "db_call (quiet env) (query (find_active r)) w2 = (Inr None, w3)"
    and 4: "operation (quiet env) w3 = (Inr a, w')"
    by (auto simp: createExclusiveInTransaction_def run_simps split: option.splits)
  have "evolves (wdb w1) (wdb w2)"
    using recover_guar [OF ledger.rely_quiet, of env r] 2 by (metis guar_def snd_conv)
  moreover have "wdb w1 = wdb w" "wdb w3 = wdb w2" "find_active r (wdb w3) = None"
    using 1 3 by (auto simp: acquire_lock_def run_simps)
  moreover from this(3) 4 have "evolves (wdb w3) (wdb w')"
    using assms by (auto simp: exclusive_guar_def)
  ultimately show "evolves (wdb w) (wdb w')" by (auto intro: ledger.G_trans)
qed

lemma createExclusive_guar:
  "rely evolves env \<Longrightarrow> exclusive_guar r operation \<Longrightarrow> guar evolves (createExclusive env r operation)"
  unfolding createExclusive_def by (intro guar_intros createExclusiveInTransaction_body)

end
