(* ===== verification/JsText.thy ===== *)
theory JsText
  imports Prelude
begin

text \<open>
  The text that the program makes of values: \<open>JSON.stringify\<close> of the flat objects it hashes,
  sends or encodes, and \<open>Date.prototype.toISOString\<close>.
\<close>

section \<open>Dates\<close>

text \<open>The proleptic Gregorian date of a day counted from 1970-01-01: year, month, day.\<close>

definition civil_of_days :: "int \<Rightarrow> int \<times> int \<times> int" where
  "civil_of_days days =
     (let z = days + 719468;
          era = z div 146097;
          doe = z mod 146097;
          yoe = (doe - doe div 1460 + doe div 36524 - doe div 146096) div 365;
          doy = doe - (365 * yoe + yoe div 4 - yoe div 100);
          mp = (5 * doy + 2) div 153;
          d = doy - (153 * mp + 2) div 5 + 1;
          m = (if mp < 10 then mp + 3 else mp - 9);
          y = yoe + era * 400 + (if m \<le> 2 then 1 else 0)
      in (y, m, d))"

fun pad_left :: "nat \<Rightarrow> string \<Rightarrow> string" where
  "pad_left n s = replicate (n - length s) (CHR ''0'') @ s"

definition padded :: "nat \<Rightarrow> int \<Rightarrow> string" where
  "padded n i = pad_left n (nat_digits (nat i))"

definition iso_year :: "int \<Rightarrow> string" where
  "iso_year y = (if 0 \<le> y \<and> y \<le> 9999 then padded 4 y
                 else if y < 0 then CHR ''-'' # padded 6 (- y) else CHR ''+'' # padded 6 y)"

definition toISOString :: "int \<Rightarrow> string" where
  "toISOString ms =
     (let day_ms = ms mod 86400000;
          (y, m, d) = civil_of_days (ms div 86400000)
      in iso_year y @ ''-'' @ padded 2 m @ ''-'' @ padded 2 d @ ''T''
         @ padded 2 (day_ms div 3600000) @ '':'' @ padded 2 (day_ms div 60000 mod 60) @ '':''
         @ padded 2 (day_ms div 1000 mod 60) @ ''.'' @ padded 3 (day_ms mod 1000) @ ''Z'')"

section \<open>JSON\<close>

fun hex_digit :: "nat \<Rightarrow> char" where
  "hex_digit n = (if n < 10 then char_of (48 + n) else char_of (87 + n))"

text \<open>A double quote, a backslash and the control characters are escaped.\<close>

definition json_char :: "char \<Rightarrow> string" where
  "json_char c = (let n = (of_char c :: nat) in
     if n = 34 then [char_of (92 :: nat), c]
     else if n = 92 then [char_of (92 :: nat), c]
     else if n = 8 then [char_of (92 :: nat), CHR ''b'']
     else if n = 9 then [char_of (92 :: nat), CHR ''t'']
     else if n = 10 then [char_of (92 :: nat), CHR ''n'']
     else if n = 12 then [char_of (92 :: nat), CHR ''f'']
     else if n = 13 then [char_of (92 :: nat), CHR ''r'']
     else if n < 32 then [char_of (92 :: nat)] @ ''u00'' @ [hex_digit (n div 16), hex_digit (n mod 16)]
     else [c])"

definition json_string :: "string \<Rightarrow> string" where
  "json_string s = CHR 0x22 # concat (map json_char s) @ [CHR 0x22]"

fun json_fields :: "(string \<times> string) list \<Rightarrow> string" where
  "json_fields [] = []"
| "json_fields [(k, v)] = json_string k @ '':'' @ v"
| "json_fields ((k, v) # kvs) = json_string k @ '':'' @ v @ '','' @ json_fields kvs"

text \<open>An object, given by its keys and the text of their values.\<close>

definition json_object :: "(string \<times> string) list \<Rightarrow> string" where
  "json_object kvs = ''{'' @ json_fields kvs @ ''}''"

definition json_null_or :: "('a \<Rightarrow> string) \<Rightarrow> 'a option \<Rightarrow> string" where
  "json_null_or f v = (case v of None \<Rightarrow> ''null'' | Some a \<Rightarrow> f a)"

end
