(* ===== verification/JobService.thy ===== *)
theory JobService
  imports JobRepository JsText
begin

text \<open>
  The service of analysis jobs (\<open>src/src/analysis-job/analysis-job.service.ts\<close>): the table of
  allowed status transitions, the validation of every input, the translation of a transition
  into a repository record, and the operations. A validation is a value \<open>err + unit\<close>; the
  checks of one input are listed in the order the code makes them, and the first that fails
  is the error thrown.
\<close>

section \<open>Checks\<close>

definition require :: "bool \<Rightarrow> err \<Rightarrow> err + unit" where
  "require c e = (if c then Inr () else Inl e)"

fun checks :: "(err + unit) list \<Rightarrow> err + unit" where
  "checks [] = Inr ()"
| "checks (Inl e # cs) = Inl e"
| "checks (Inr u # cs) = checks cs"

lemma require_Inr [simp]: "require c e = Inr u \<longleftrightarrow> c"
  by (simp add: require_def)

lemma checks_Inr [simp]: "checks (c # cs) = Inr u \<longleftrightarrow> c = Inr () \<and> checks cs = Inr u"
  by (cases c) auto

text \<open>A \<open>Date\<close> argument before it is validated: \<open>new Date(NaN)\<close> is a \<open>Date\<close> without a time.\<close>

datatype js_date = DateMs int | InvalidDate

fun date_ms :: "js_date \<Rightarrow> int" where
  "date_ms (DateMs n) = n"
| "date_ms InvalidDate = 0"

section \<open>Transitions and failure codes\<close>

fun ALLOWED_TRANSITIONS :: "job_status \<Rightarrow> job_status list" where
  "ALLOWED_TRANSITIONS QUEUED = [RUNNING, FAILED]"
| "ALLOWED_TRANSITIONS RUNNING = [QUEUED, SUCCEEDED, FAILED]"
| "ALLOWED_TRANSITIONS SUCCEEDED = []"
| "ALLOWED_TRANSITIONS FAILED = []"

definition canTransitionAnalysisJob :: "job_status \<Rightarrow> job_status \<Rightarrow> bool" where
  "canTransitionAnalysisJob s t \<longleftrightarrow> t \<in> set (ALLOWED_TRANSITIONS s)"

text \<open>The table says what the abstract life of a job says.\<close>

lemma canTransition_iff: "canTransitionAnalysisJob s t \<longleftrightarrow> status_step s t"
  by (cases s; cases t) (simp_all add: canTransitionAnalysisJob_def)

definition MAX_PROVIDER_REQUEST_IDS :: nat where
  "MAX_PROVIDER_REQUEST_IDS = 10"

datatype failure_code =
  ANALYSIS_FAILED | INSUFFICIENT_TOKENS | INPUT_LIMIT_EXCEEDED | MAX_ATTEMPTS_EXCEEDED
| NO_ANALYZABLE_DATA | PUBLISH_FAILED | PROVIDER_RECONCILIATION_REQUIRED
| REPOSITORY_UNAVAILABLE | TOKEN_BUDGET_EXCEEDED | UNSUPPORTED_ANALYSIS_VERSION

fun code_text :: "failure_code \<Rightarrow> string" where
  "code_text ANALYSIS_FAILED = ''ANALYSIS_FAILED''"
| "code_text INSUFFICIENT_TOKENS = ''INSUFFICIENT_TOKENS''"
| "code_text INPUT_LIMIT_EXCEEDED = ''INPUT_LIMIT_EXCEEDED''"
| "code_text MAX_ATTEMPTS_EXCEEDED = ''MAX_ATTEMPTS_EXCEEDED''"
| "code_text NO_ANALYZABLE_DATA = ''NO_ANALYZABLE_DATA''"
| "code_text PUBLISH_FAILED = ''PUBLISH_FAILED''"
| "code_text PROVIDER_RECONCILIATION_REQUIRED = ''PROVIDER_RECONCILIATION_REQUIRED''"
| "code_text REPOSITORY_UNAVAILABLE = ''REPOSITORY_UNAVAILABLE''"
| "code_text TOKEN_BUDGET_EXCEEDED = ''TOKEN_BUDGET_EXCEEDED''"
| "code_text UNSUPPORTED_ANALYSIS_VERSION = ''UNSUPPORTED_ANALYSIS_VERSION''"

definition all_failure_codes :: "failure_code list" where
  "all_failure_codes =
     [ANALYSIS_FAILED, INSUFFICIENT_TOKENS, INPUT_LIMIT_EXCEEDED, MAX_ATTEMPTS_EXCEEDED,
      NO_ANALYZABLE_DATA, PUBLISH_FAILED, PROVIDER_RECONCILIATION_REQUIRED,
      REPOSITORY_UNAVAILABLE, TOKEN_BUDGET_EXCEEDED, UNSUPPORTED_ANALYSIS_VERSION]"

fun SAFE_ERROR_MESSAGES :: "failure_code \<Rightarrow> string" where
  "SAFE_ERROR_MESSAGES ANALYSIS_FAILED = ''Analysis failed.''"
| "SAFE_ERROR_MESSAGES INSUFFICIENT_TOKENS = ''The token balance is insufficient.''"
| "SAFE_ERROR_MESSAGES INPUT_LIMIT_EXCEEDED = ''The analysis input limit was exceeded.''"
| "SAFE_ERROR_MESSAGES MAX_ATTEMPTS_EXCEEDED = ''The maximum number of attempts was exceeded.''"
| "SAFE_ERROR_MESSAGES NO_ANALYZABLE_DATA = ''No analyzable repository activity was found.''"
| "SAFE_ERROR_MESSAGES PUBLISH_FAILED = ''The analysis job could not be published.''"
| "SAFE_ERROR_MESSAGES PROVIDER_RECONCILIATION_REQUIRED =
     ''The provider charge requires reconciliation.''"
| "SAFE_ERROR_MESSAGES REPOSITORY_UNAVAILABLE = ''The repository is unavailable.''"
| "SAFE_ERROR_MESSAGES TOKEN_BUDGET_EXCEEDED = ''The analysis exceeded its token budget.''"
| "SAFE_ERROR_MESSAGES UNSUPPORTED_ANALYSIS_VERSION =
     ''The analysis execution version is no longer supported.''"

text \<open>
  An error code comes in as a string; \<open>failure_code_of\<close> is the member of the enum with that
  value, if there is one.
\<close>

definition failure_code_of :: "string \<Rightarrow> failure_code option" where
  "failure_code_of s = find (\<lambda>c. code_text c = s) all_failure_codes"

definition safe_message :: "string \<Rightarrow> string option" where
  "safe_message s = map_option SAFE_ERROR_MESSAGES (failure_code_of s)"

lemma failure_code_of_text [simp]: "failure_code_of (code_text c) = Some c"
  by (cases c) (simp_all add: failure_code_of_def all_failure_codes_def)

lemma code_text_inj: "code_text c = code_text c' \<longleftrightarrow> c = c'"
  by (metis failure_code_of_text option.inject)

section \<open>Assertions\<close>

definition assertNonEmptyString :: "string \<Rightarrow> string \<Rightarrow> err + unit" where
  "assertNonEmptyString v field =
     require (js_trim v \<noteq> []) (InvalidAnalysisJobInputError (field @ '' is required''))"

definition assertPositiveInteger :: "int \<Rightarrow> string \<Rightarrow> err + unit" where
  "assertPositiveInteger v field =
     require (0 < v) (InvalidAnalysisJobInputError (field @ '' must be a positive integer''))"

definition assertTokenCount :: "int \<Rightarrow> string \<Rightarrow> err + unit" where
  "assertTokenCount v field =
     require (js_isSafeInteger v \<and> 0 \<le> v)
       (InvalidAnalysisJobInputError (field @ '' must be a non-negative safe integer''))"

definition assertFailureCode :: "string \<Rightarrow> err + unit" where
  "assertFailureCode v =
     require (v \<in> code_text ` set all_failure_codes) (InvalidAnalysisJobInputError ''errorCode is invalid'')"

text \<open>A date field that is \<open>null\<close> is not an instance of \<open>Date\<close>.\<close>

definition assertValidDate :: "js_date option \<Rightarrow> string \<Rightarrow> err + unit" where
  "assertValidDate v field =
     require (case v of Some (DateMs _) \<Rightarrow> True | _ \<Rightarrow> False)
       (InvalidAnalysisJobInputError (field @ '' must be a valid date''))"

definition assertProviderRequestIds :: "string list \<Rightarrow> err + unit" where
  "assertProviderRequestIds ids =
     require (length ids \<le> MAX_PROVIDER_REQUEST_IDS \<and> list_all isValidProviderRequestId ids)
       (InvalidAnalysisJobInputError ''providerRequestIds is invalid'')"

text \<open>The three counts of a usage, of which some may be \<open>null\<close>.\<close>

type_synonym usage_fields = "int option \<times> int option \<times> int option"

fun known_usage :: "usage_fields \<Rightarrow> token_usage option" where
  "known_usage (Some p, Some c, Some t) =
     Some \<lparr>promptTokens = p, completionTokens = c, totalTokens = t\<rparr>"
| "known_usage _ = None"

definition assertValidTokenUsage :: "usage_fields \<Rightarrow> err + unit" where
  "assertValidTokenUsage u =
     require (case known_usage u of None \<Rightarrow> False | Some v \<Rightarrow> isValidAnalysisTokenUsage v)
       (InvalidAnalysisJobInputError
         ''provider token usage must contain valid non-negative counts and a matching total'')"

definition assertOptionalTokenUsage :: "usage_fields \<Rightarrow> err + unit" where
  "assertOptionalTokenUsage u =
     (if u = (None, None, None) then Inr ()
      else if known_usage u = None
      then Inl (InvalidAnalysisJobInputError
             ''unsettled provider token usage must be entirely known or entirely unknown'')
      else assertValidTokenUsage u)"

lemmas assert_defs = assertNonEmptyString_def assertPositiveInteger_def assertTokenCount_def
  assertValidDate_def assertProviderRequestIds_def assertFailureCode_def

section \<open>Transition inputs\<close>

text \<open>
  What a terminal transition reports. \<open>TokenSettlementInput\<close> has no \<open>null\<close> field, and
  \<open>UnsettledProviderReconciliationFailureInput\<close> has \<open>tokensSettledAt: null\<close>; the code tells
  them apart by that field, at run time.
\<close>

record settlement_input =
  si_completedAt :: js_date
  si_tokensSettledAt :: "js_date option"
  si_usage :: usage_fields
  si_providerRequestIds :: "string list"

record failure_input = settlement_input +
  fi_errorCode :: string
  fi_errorRetryable :: bool

text \<open>
  \<open>TransitionAnalysisJobInput\<close>, one constructor for each member of the union, with the job's
  id first; \<open>Untyped\<close> is any other pair of statuses, which the type excludes and the code
  rejects.
\<close>

record fence =
  fn_leaseToken :: string
  fn_userId :: int
  fn_repositoryId :: int

datatype transition_input =
  Claim string string js_date js_date
| Requeue string string js_date string
| Succeed string fence int int settlement_input
| FailQueued string failure_input
| FailRunning string fence "int option" failure_input
| Untyped string job_status job_status

fun jobId_of :: "transition_input \<Rightarrow> string" where
  "jobId_of (Claim i _ _ _) = i"
| "jobId_of (Requeue i _ _ _) = i"
| "jobId_of (Succeed i _ _ _ _) = i"
| "jobId_of (FailQueued i _) = i"
| "jobId_of (FailRunning i _ _ _) = i"
| "jobId_of (Untyped i _ _) = i"

fun fromStatus :: "transition_input \<Rightarrow> job_status" where
  "fromStatus (Claim _ _ _ _) = QUEUED"
| "fromStatus (FailQueued _ _) = QUEUED"
| "fromStatus (Untyped _ s _) = s"
| "fromStatus _ = RUNNING"

fun toStatus :: "transition_input \<Rightarrow> job_status" where
  "toStatus (Claim _ _ _ _) = RUNNING"
| "toStatus (Requeue _ _ _ _) = QUEUED"
| "toStatus (Succeed _ _ _ _ _) = SUCCEEDED"
| "toStatus (FailQueued _ _) = FAILED"
| "toStatus (FailRunning _ _ _ _) = FAILED"
| "toStatus (Untyped _ _ t) = t"

definition assertTokenSettlement :: "('a) settlement_input_scheme \<Rightarrow> err + unit" where
  "assertTokenSettlement i =
     checks [assertValidDate (Some (si_completedAt i)) ''completedAt'',
             assertValidDate (si_tokensSettledAt i) ''tokensSettledAt'',
             assertValidTokenUsage (si_usage i),
             assertProviderRequestIds (si_providerRequestIds i)]"

definition validate_failure :: "failure_input \<Rightarrow> err + unit" where
  "validate_failure i =
     checks [assertFailureCode (fi_errorCode i),
       (if si_tokensSettledAt i = None
        then checks
          [require (fi_errorCode i = code_text PROVIDER_RECONCILIATION_REQUIRED \<and> \<not> fi_errorRetryable i)
             (InvalidAnalysisJobInputError
               ''only non-retryable provider reconciliation failures may remain unsettled''),
           assertValidDate (Some (si_completedAt i)) ''completedAt'',
           assertOptionalTokenUsage (si_usage i),
           assertProviderRequestIds (si_providerRequestIds i)]
        else assertTokenSettlement i)]"

text \<open>
  A value outside the union has no \<open>expectedLeaseToken\<close>; without \<open>data\<close>, reading a field of it
  is a \<open>TypeError\<close>.
\<close>

fun validateTransitionInput :: "transition_input \<Rightarrow> err + unit" where
  "validateTransitionInput (Claim _ lease expires started) =
     checks [assertNonEmptyString lease ''leaseToken'',
             assertValidDate (Some expires) ''leaseExpiresAt'',
             assertValidDate (Some started) ''startedAt'']"
| "validateTransitionInput (Requeue _ lease next code) =
     checks [assertNonEmptyString lease ''expectedLeaseToken'',
             assertValidDate (Some next) ''nextPublishAt'',
             assertFailureCode code]"
| "validateTransitionInput (Succeed _ f reserved report i) =
     checks [assertNonEmptyString (fn_leaseToken f) ''expectedLeaseToken'',
             assertTokenSettlement i,
             assertPositiveInteger report ''reportId'',
             assertPositiveInteger (fn_userId f) ''expectedUserId'',
             assertPositiveInteger (fn_repositoryId f) ''expectedRepositoryId'',
             assertTokenCount reserved ''expectedReservedTokens'']"
| "validateTransitionInput (FailQueued _ i) = validate_failure i"
| "validateTransitionInput (FailRunning _ f reserved i) =
     checks [assertNonEmptyString (fn_leaseToken f) ''expectedLeaseToken'',
             validate_failure i,
             assertPositiveInteger (fn_userId f) ''expectedUserId'',
             assertPositiveInteger (fn_repositoryId f) ''expectedRepositoryId'',
             (case reserved of None \<Rightarrow> Inr () | Some n \<Rightarrow> assertTokenCount n ''expectedReservedTokens'')]"
| "validateTransitionInput (Untyped _ s _) =
     checks [require (s \<noteq> RUNNING) (InvalidAnalysisJobInputError ''expectedLeaseToken is required''),
             Inl (PlainError ''TypeError'')]"

section \<open>The record of a transition\<close>

definition terminal_data :: "int option \<Rightarrow> ('a) settlement_input_scheme \<Rightarrow> transition_data" where
  "terminal_data progress i = no_transition_data
     \<lparr>t_stage := Some None, t_progress := progress,
      t_promptTokens := Some (fst (si_usage i)),
      t_completionTokens := Some (fst (snd (si_usage i))),
      t_totalTokens := Some (snd (snd (si_usage i))),
      t_tokensSettledAt := Some (map_option date_ms (si_tokensSettledAt i)),
      t_providerRequestIds := Some (si_providerRequestIds i),
      t_leaseToken := Some None, t_leaseExpiresAt := Some None, t_heartbeatAt := Some None,
      t_completedAt := Some (date_ms (si_completedAt i))\<rparr>"

definition failure_data :: "failure_input \<Rightarrow> transition_data" where
  "failure_data i = (terminal_data None i)
     \<lparr>t_lastErrorCode := Some (Some (fi_errorCode i)),
      t_lastErrorMessage := Some (safe_message (fi_errorCode i)),
      t_errorRetryable := Some (Some (fi_errorRetryable i))\<rparr>"

definition plain_record :: "transition_input \<Rightarrow> transition_data \<Rightarrow> transition_record_input" where
  "plain_record x t =
     \<lparr>x_jobId = jobId_of x, x_fromStatus = fromStatus x, x_toStatus = toStatus x,
      x_expectedLeaseToken = None, x_requiredReportId = None, x_requiredUserId = None,
      x_requiredRepositoryId = None, x_requiredReservedTokens = None, x_data = t\<rparr>"

fun toTransitionRecord :: "transition_input \<Rightarrow> transition_record_input" where
  "toTransitionRecord (Claim i lease expires started) =
     plain_record (Claim i lease expires started)
       (no_transition_data
         \<lparr>t_stage := Some (Some COLLECTING), t_leaseToken := Some (Some lease),
          t_leaseExpiresAt := Some (Some (date_ms expires)),
          t_heartbeatAt := Some (Some (date_ms started)), t_startedAt := Some (date_ms started)\<rparr>)"
| "toTransitionRecord (Requeue i lease next code) =
     (plain_record (Requeue i lease next code)
       (no_transition_data
         \<lparr>t_stage := Some (Some WAITING), t_nextPublishAt := Some (Some (date_ms next)),
          t_leaseToken := Some None, t_leaseExpiresAt := Some None, t_heartbeatAt := Some None,
          t_lastErrorCode := Some (Some code), t_lastErrorMessage := Some (safe_message code),
          t_errorRetryable := Some (Some True)\<rparr>))
       \<lparr>x_expectedLeaseToken := Some lease\<rparr>"
| "toTransitionRecord (Succeed i f reserved report s) =
     (plain_record (Succeed i f reserved report s) (terminal_data (Some 100) s))
       \<lparr>x_expectedLeaseToken := Some (fn_leaseToken f), x_requiredReportId := Some report,
        x_requiredUserId := Some (fn_userId f), x_requiredRepositoryId := Some (fn_repositoryId f),
        x_requiredReservedTokens := Some (Some reserved)\<rparr>"
| "toTransitionRecord (FailQueued i s) = plain_record (FailQueued i s) (failure_data s)"
| "toTransitionRecord (FailRunning i f reserved s) =
     (plain_record (FailRunning i f reserved s) (failure_data s))
       \<lparr>x_expectedLeaseToken := Some (fn_leaseToken f),
        x_requiredUserId := Some (fn_userId f), x_requiredRepositoryId := Some (fn_repositoryId f),
        x_requiredReservedTokens := Some reserved\<rparr>"
| "toTransitionRecord (Untyped i s t) = plain_record (Untyped i s t) no_transition_data"

declare toTransitionRecord.simps [simp del]

section \<open>Operations\<close>

definition transition :: "env \<Rightarrow> transition_input \<Rightarrow> unit io" where
  "transition env i =
     andThen (throw_unless (canTransitionAnalysisJob (fromStatus i) (toStatus i))
               (InvalidAnalysisJobTransitionError (fromStatus i) (toStatus i)))
     (andThen (of_result (validateTransitionInput i))
     (bind (transitionStatus env (toTransitionRecord i)) (\<lambda>transitioned.
      throw_unless transitioned (StaleAnalysisJobTransitionError (jobId_of i) (fromStatus i)))))"

definition getRunningJobContext :: "env \<Rightarrow> string \<Rightarrow> string \<Rightarrow> running_job_context io" where
  "getRunningJobContext env jobId expectedLeaseToken =
     andThen (of_result (checks [assertNonEmptyString jobId ''jobId'',
                                 assertNonEmptyString expectedLeaseToken ''expectedLeaseToken'']))
     (bind (findRunningByLease env jobId expectedLeaseToken) (\<lambda>job.
      case job of
        None \<Rightarrow> throw (StaleAnalysisJobTransitionError jobId RUNNING)
      | Some j \<Rightarrow> ret j))"

definition validate_reserve :: "reserve_tokens_input \<Rightarrow> err + unit" where
  "validate_reserve i =
     checks [assertNonEmptyString (ri_jobId i) ''jobId'',
             assertNonEmptyString (ri_expectedLeaseToken i) ''expectedLeaseToken'',
             assertPositiveInteger (ri_expectedUserId i) ''expectedUserId'',
             assertPositiveInteger (ri_expectedRepositoryId i) ''expectedRepositoryId'',
             assertTokenCount (ri_estimatedTokens i) ''estimatedTokens'',
             assertTokenCount (ri_reservedTokens i) ''reservedTokens'',
             require (ri_estimatedTokens i \<le> ri_reservedTokens i)
               (InvalidAnalysisJobInputError
                 ''reservedTokens must be greater than or equal to estimatedTokens'')]"

definition reserveTokens :: "env \<Rightarrow> reserve_tokens_input \<Rightarrow> unit io" where
  "reserveTokens env i =
     andThen (of_result (validate_reserve i))
     (bind (repo_reserveTokens env i) (\<lambda>reserved.
      throw_unless reserved (StaleAnalysisJobTransitionError (ri_jobId i) RUNNING)))"

definition charge_usage :: "provider_charge_input \<Rightarrow> usage_fields" where
  "charge_usage i = (pc_promptTokens i, pc_completionTokens i, pc_totalTokens i)"

definition validate_charge :: "provider_charge_input \<Rightarrow> err + unit" where
  "validate_charge i =
     checks [assertNonEmptyString (pc_jobId i) ''jobId'',
             assertNonEmptyString (pc_expectedLeaseToken i) ''expectedLeaseToken'',
             assertPositiveInteger (pc_expectedUserId i) ''expectedUserId'',
             assertPositiveInteger (pc_expectedRepositoryId i) ''expectedRepositoryId'',
             assertTokenCount (pc_expectedReservedTokens i) ''expectedReservedTokens'',
             require (known_usage (charge_usage i) \<noteq> None \<or> charge_usage i = (None, None, None))
               (InvalidAnalysisJobInputError
                 ''provider token usage must be entirely known or entirely unknown''),
             (if known_usage (charge_usage i) = None then Inr ()
              else assertValidTokenUsage (charge_usage i)),
             assertProviderRequestIds [pc_providerRequestId i]]"

definition recordProviderCharge :: "env \<Rightarrow> provider_charge_input \<Rightarrow> unit io" where
  "recordProviderCharge env i =
     andThen (of_result (validate_charge i))
     (bind (repo_recordProviderCharge env i) (\<lambda>recorded.
      throw_unless recorded (StaleAnalysisJobTransitionError (pc_jobId i) RUNNING)))"

section \<open>Creating a job\<close>

record create_job_input =
  cj_userId :: int
  cj_repositoryId :: int
  cj_idempotencyKey :: string
  cj_sourceCursor :: "js_date option"
  cj_collectionCutoff :: "js_date option"

text \<open>A control character, \<open>codePoint <= 31 || codePoint === 127\<close>.\<close>

definition control_char :: "char \<Rightarrow> bool" where
  "control_char c \<longleftrightarrow> (of_char c :: nat) \<le> 31 \<or> (of_char c :: nat) = 127"

definition validateCreateInput :: "create_job_input \<Rightarrow> err + unit" where
  "validateCreateInput i =
     checks [require (0 < cj_userId i) (InvalidAnalysisJobInputError ''userId must be a positive integer''),
             require (0 < cj_repositoryId i)
               (InvalidAnalysisJobInputError ''repositoryId must be a positive integer''),
             require (cj_idempotencyKey i \<noteq> [] \<and> length (cj_idempotencyKey i) \<le> 128 \<and>
                      \<not> js_startsWith (cj_idempotencyKey i) ''legacy-report:'' \<and>
                      \<not> list_ex control_char (cj_idempotencyKey i))
               (InvalidAnalysisJobInputError ''idempotencyKey is invalid''),
             (case cj_sourceCursor i of None \<Rightarrow> Inr () | Some d \<Rightarrow> assertValidDate (Some d) ''sourceCursor''),
             (case cj_collectionCutoff i of None \<Rightarrow> Inr ()
              | Some d \<Rightarrow> assertValidDate (Some d) ''collectionCutoff'')]"

text \<open>The digest is the platform's SHA-256, in hexadecimal.\<close>

definition canonical_request :: "create_job_input \<Rightarrow> version \<Rightarrow> string" where
  "canonical_request i v =
     json_object
       [(''userId'', js_string_of_int (cj_userId i)),
        (''repositoryId'', js_string_of_int (cj_repositoryId i)),
        (''sourceCursor'', json_null_or (\<lambda>d. json_string (toISOString (date_ms d))) (cj_sourceCursor i)),
        (''modelVersion'', json_string (modelVersion v)),
        (''promptVersion'', json_string (promptVersion v))]"

definition createRequestHash :: "(string \<Rightarrow> string) \<Rightarrow> create_job_input \<Rightarrow> version \<Rightarrow> string" where
  "createRequestHash sha256 i v = sha256 (canonical_request i v)"

definition create_record_input ::
  "(string \<Rightarrow> string) \<Rightarrow> create_job_input \<Rightarrow> int \<Rightarrow> create_job_record_input" where
  "create_record_input sha256 i cutoff =
     \<lparr>ci_userId = cj_userId i, ci_repositoryId = cj_repositoryId i,
      ci_idempotencyKey = cj_idempotencyKey i,
      ci_requestHash = createRequestHash sha256 i CURRENT_ANALYSIS_EXECUTION_VERSION,
      ci_modelVersion = modelVersion CURRENT_ANALYSIS_EXECUTION_VERSION,
      ci_promptVersion = promptVersion CURRENT_ANALYSIS_EXECUTION_VERSION,
      ci_sourceCursor = map_option date_ms (cj_sourceCursor i), ci_collectionCutoff = Some cutoff,
      ci_status = QUEUED, ci_stage = WAITING, ci_progress = 0\<rparr>"

definition create :: "(string \<Rightarrow> string) \<Rightarrow> env \<Rightarrow> create_job_input \<Rightarrow> job_row io" where
  "create sha256 env i =
     andThen (of_result (validateCreateInput i))
     (bind (case cj_collectionCutoff i of None \<Rightarrow> now_io env | Some d \<Rightarrow> ret (date_ms d)) (\<lambda>cutoff.
      createExclusive env (cj_repositoryId i)
        (\<lambda>tx. create_job tx (create_record_input sha256 i cutoff))))"

section \<open>A validated transition is a contract-abiding write\<close>

text \<open>What the data of a transition may contain, by the status it leads to.\<close>

definition usage_ok :: "usage_fields \<Rightarrow> bool" where
  "usage_ok u \<longleftrightarrow> (case u of
       (Some p, Some c, Some t) \<Rightarrow> t = p + c
     | (None, None, None) \<Rightarrow> True
     | _ \<Rightarrow> False)"

definition data_ok :: "transition_record_input \<Rightarrow> bool" where
  "data_ok x \<longleftrightarrow> status_step (x_fromStatus x) (x_toStatus x) \<and>
     (if x_toStatus x \<in> {QUEUED, RUNNING}
      then t_promptTokens (x_data x) = None \<and> t_completionTokens (x_data x) = None \<and>
           t_totalTokens (x_data x) = None \<and> t_tokensSettledAt (x_data x) = None \<and>
           t_completedAt (x_data x) = None
      else (case (t_promptTokens (x_data x), t_completionTokens (x_data x), t_totalTokens (x_data x)) of
             (Some p, Some c, Some t) \<Rightarrow> usage_ok (p, c, t)
           | _ \<Rightarrow> False))"

lemma usage_ok_coherent:
  "usage_known j \<or> usage_unknown j \<longleftrightarrow> usage_ok (j_promptTokens j, j_completionTokens j, j_totalTokens j)"
  by (auto simp: usage_known_def usage_unknown_def usage_ok_def split: option.splits)

lemma transition_set_fields [simp]:
  "j_status (transition_set x j) = x_toStatus x" "same_identity j (transition_set x j)"
  "j_attemptCount (transition_set x j) = j_attemptCount j"
  "j_reservedTokens (transition_set x j) = j_reservedTokens j"
  by (simp_all add: transition_set_def apply_transition_data_def same_identity_def)

lemma transition_where_status: "transition_where x d j \<Longrightarrow> j_status j = x_fromStatus x"
  by (simp add: transition_where_def)

lemma transition_set_coherent:
  assumes "data_ok x" "job_coherent j" "active j"
  shows "job_coherent (transition_set x j)"
proof (cases "x_toStatus x \<in> {QUEUED, RUNNING}")
  case True
  with assms show ?thesis
    by (simp add: job_coherent_def usage_ok_coherent data_ok_def transition_set_def
        apply_transition_data_def)
next
  case False
  then have "\<not> active (transition_set x j)" by (auto simp: active_def)
  with False assms(1) show ?thesis
    using assms(2)
    by (simp add: job_coherent_def usage_ok_coherent data_ok_def transition_set_def
        apply_transition_data_def split: option.splits)
qed

lemma data_ok_step: "data_ok x \<Longrightarrow> transition_where x d j \<Longrightarrow> status_step (j_status j) (x_toStatus x)"
  by (simp add: data_ok_def transition_where_def)

lemma data_ok_active: "data_ok x \<Longrightarrow> transition_where x d j \<Longrightarrow> active j"
  using status_step_active [OF data_ok_step] by (auto simp: active_def)

lemma transition_write: "data_ok x \<Longrightarrow> job_write (transition_where x d) (transition_set x)"
  by unfold_locales
    (simp_all add: data_ok_step data_ok_active transition_set_coherent job_ok_def)

lemma transition_open:
  "data_ok x \<Longrightarrow> x_toStatus x \<noteq> SUCCEEDED \<Longrightarrow> open_write (transition_where x d) (transition_set x)"
  by (intro open_write.intro transition_write open_write_axioms.intro) simp_all

lemma transition_update:
  assumes "data_ok x" "x_toStatus x \<in> {QUEUED, RUNNING}"
  shows "job_update (transition_where x d) (transition_set x)"
proof (intro job_update.intro transition_open job_update_axioms.intro)
  fix j assume "transition_where x d j" "job_ok j"
  then have "active j" "job_coherent j"
    using data_ok_active [OF assms(1)] by (simp_all add: job_ok_def)
  moreover from this have "job_coherent (transition_set x j)"
    using assms(1) by (simp add: transition_set_coherent)
  moreover have "active (transition_set x j)" using assms(2) by (auto simp: active_def)
  ultimately show "charge (transition_set x j) = charge j" by (simp add: active_charge)
qed (use assms in auto)

lemma valid_usage_ok:
  "assertValidTokenUsage u = Inr () \<Longrightarrow> \<exists>v. known_usage u = Some v \<and>
     u = (Some (promptTokens v), Some (completionTokens v), Some (totalTokens v)) \<and>
     totalTokens v = promptTokens v + completionTokens v"
  by (cases u rule: known_usage.cases)
    (auto simp: assertValidTokenUsage_def isValidAnalysisTokenUsage_def)

lemma optional_usage_ok: "assertOptionalTokenUsage u = Inr () \<Longrightarrow> usage_ok u"
  by (auto simp: assertOptionalTokenUsage_def usage_ok_def split: if_splits dest!: valid_usage_ok)

lemma settlement_usage_ok: "assertTokenSettlement i = Inr () \<Longrightarrow> usage_ok (si_usage i)"
  by (auto simp: assertTokenSettlement_def usage_ok_def dest!: valid_usage_ok)

lemma failure_usage_ok: "validate_failure i = Inr () \<Longrightarrow> usage_ok (si_usage i)"
  by (auto simp: validate_failure_def split: if_splits
      intro: optional_usage_ok settlement_usage_ok)

lemmas transition_data_defs = plain_record_def no_transition_data_def terminal_data_def
  failure_data_def toTransitionRecord.simps

lemma validated_data_ok: "validateTransitionInput i = Inr () \<Longrightarrow> data_ok (toTransitionRecord i)"
  by (cases i rule: validateTransitionInput.cases)
    (auto simp: data_ok_def transition_data_defs dest: settlement_usage_ok failure_usage_ok)

lemma record_fields [simp]:
  "x_jobId (toTransitionRecord i) = jobId_of i" "x_fromStatus (toTransitionRecord i) = fromStatus i"
  "x_toStatus (toTransitionRecord i) = toStatus i"
  by (cases i rule: toTransitionRecord.cases; simp add: plain_record_def toTransitionRecord.simps)+

section \<open>Runs of a transition\<close>

lemma transitionStatus_quiet_Inr:
  "transitionStatus (quiet env) x w = (Inr b, w') \<Longrightarrow>
     \<exists>n. transition_stmt x (clock env (tick w)) (wdb w) = Inr (n, wdb w') \<and> b = (n = 1)"
  by (auto simp: transitionStatus_def run_simps split: if_splits)

lemma transition_quiet:
  assumes "transition (quiet env) i w = (Inr (), w')"
  shows "canTransitionAnalysisJob (fromStatus i) (toStatus i)" "validateTransitionInput i = Inr ()"
    "\<exists>now. transition_stmt (toTransitionRecord i) now (wdb w) = Inr (1, wdb w')"
  using assms by (auto simp: transition_def run_simps dest!: transitionStatus_quiet_Inr)

text \<open>The one row that a transition writes.\<close>

lemma transition_row:
  assumes "transition_stmt x now d = Inr (1, d')"
  obtains j where "j \<in> set (jobs d)" "transition_where x d j" "job_checks (transition_set x j)"
    "d' = d\<lparr>jobs := update_where (transition_where x d)
             (\<lambda>j. (transition_set x j)\<lparr>j_updatedAt := now\<rparr>) (jobs d)\<rparr>"
proof -
  have "count_where (transition_where x d) (jobs d) = 1"
    using assms by (simp add: transition_stmt_def update_jobs_def jobs_table.bulk_update_Inr)
  then obtain j where "j \<in> set (jobs d)" "transition_where x d j" by (rule count_where_1_obtain)
  with assms show ?thesis
    by (intro that [of j]) (auto simp: transition_stmt_def update_jobs_def jobs_table.bulk_update_Inr)
qed

lemma transition_where_id: "transition_where x d j \<Longrightarrow> j_id j = x_jobId x"
  by (simp add: transition_where_def)

text \<open>What a terminal transition leaves the job holding.\<close>

definition settled_charge :: "('a) settlement_input_scheme \<Rightarrow> job_row \<Rightarrow> int" where
  "settled_charge s j = (if si_tokensSettledAt s = None then option_or (j_reservedTokens j) 0
                         else option_or (snd (snd (si_usage s))) 0)"

lemma charge_fail: "charge (transition_set (toTransitionRecord (FailRunning i f r s)) j) = settled_charge s j"
  by (simp add: charge_def settled_charge_def transition_set_def apply_transition_data_def
      transition_data_defs)

lemma charge_succeed:
  "charge (transition_set (toTransitionRecord (Succeed i f r report s)) j) = settled_charge s j"
  by (simp add: charge_def settled_charge_def transition_set_def apply_transition_data_def
      transition_data_defs)

lemma fail_where:
  "transition_where (toTransitionRecord (FailRunning i f r s)) d j \<longleftrightarrow>
     j_id j = i \<and> j_status j = RUNNING \<and> j_leaseToken j = Some (fn_leaseToken f) \<and>
     j_userId j = fn_userId f \<and> j_repositoryId j = fn_repositoryId f \<and>
     j_reservedTokens j = r \<and> j_tokensSettledAt j = None"
  by (auto simp: transition_where_def transition_data_defs)

lemma succeed_where:
  "transition_where (toTransitionRecord (Succeed i f r report s)) d j \<longleftrightarrow>
     j_id j = i \<and> j_status j = RUNNING \<and> j_leaseToken j = Some (fn_leaseToken f) \<and>
     list_ex (\<lambda>p. p_jobId p = Some (j_id j) \<and> p_id p = report) (reports d) \<and>
     j_userId j = fn_userId f \<and> j_repositoryId j = fn_repositoryId f \<and>
     j_reservedTokens j = Some r \<and> j_tokensSettledAt j = None"
  by (auto simp: transition_where_def transition_data_defs)

text \<open>
  A transition that moves no tokens stands alone: a claim, a requeue, and a failure that stays
  unsettled.
\<close>

lemma transition_guar:
  assumes "rely evolves env" "toStatus i \<in> {QUEUED, RUNNING}"
  shows "guar evolves (transition env i)"
proof -
  have "stmt_guar evolves (transition_stmt (toTransitionRecord i))"
    if "validateTransitionInput i = Inr u" for u
    using job_update.stmt_guar [OF transition_update [OF validated_data_ok]] assms(2) that
    by (simp add: stmt_guar_def transition_stmt_def)
  then show ?thesis
    unfolding transition_def transitionStatus_def
    by (intro ledger.guar_andThen ledger.guar_throw_unless ledger.guar_checked)
      (intro guar_intros assms(1))
qed

lemma create_guar:
  assumes "rely evolves env"
  shows "guar evolves (create sha256 env i)"
  unfolding create_def
  by (intro guar_intros createExclusive_guar create_job_exclusive)
    (auto simp: create_record_input_def assms intro: guar_intros split: option.splits)

lemma validate_charge_usage: "validate_charge i = Inr u \<Longrightarrow> charge_usage_ok i"
  by (auto simp: validate_charge_def charge_usage_ok_def charge_usage_def split: if_splits
      dest!: valid_usage_ok)

lemma recordProviderCharge_guar:
  assumes "rely evolves env"
  shows "guar evolves (recordProviderCharge env i)"
  unfolding recordProviderCharge_def repo_recordProviderCharge_def
  by (intro ledger.guar_checked) (intro guar_intros assms validate_charge_usage)

lemma getRunningJobContext_guar:
  assumes "rely evolves env"
  shows "guar evolves (getRunningJobContext env i l)"
  unfolding getRunningJobContext_def findRunningByLease_def
  by (intro guar_intros assms) (auto intro: guar_intros split: option.splits)

lemma reserveTokens_quiet:
  assumes "reserveTokens (quiet env) i w = (Inr u, w')"
  shows "validate_reserve i = Inr ()"
    "\<exists>now. update_jobs (reserve_where i) (reserve_set i) now (wdb w) = Inr (1, wdb w')"
  using assms by (auto simp: reserveTokens_def repo_reserveTokens_def run_simps)

text \<open>The reservation of tokens, after the user was debited, keeps the guarantee.\<close>

lemma reserve_charge:
  "reserve_where i j \<Longrightarrow> charge (reserve_set i j) = charge j + ri_reservedTokens i"
  by (simp add: reserve_where_def reserve_set_def charge_def)

lemma reserve_evolves:
  assumes moved: "users_moved (ri_expectedUserId i) (- ri_reservedTokens i) d d1"
    and run: "update_jobs (reserve_where i) (reserve_set i) now d1 = Inr (1, d')"
  shows "evolves d d'"
proof -
  have "count_where (reserve_where i) (jobs d1) = 1"
    using run by (simp add: update_jobs_def jobs_table.bulk_update_Inr)
  then obtain j where "j \<in> set (jobs d1)" "reserve_where i j" by (rule count_where_1_obtain)
  then have j: "j \<in> set (jobs d)" "reserve_where i j"
    using moved by (simp_all add: users_moved_def)
  show ?thesis
    by (rule open_write.move_evolves [OF reserve.open_stamped moved run [unfolded update_jobs_def] j])
      (use j reserve_charge in \<open>auto simp: reserve_where_def\<close>)
qed

text \<open>A terminal failure, after the user was paid the difference.\<close>

lemma fail_evolves:
  assumes moved: "users_moved (fn_userId f) delta d d1"
    and valid: "validateTransitionInput (FailRunning i f r s) = Inr ()"
    and run: "transition_stmt (toTransitionRecord (FailRunning i f r s)) now d1 = Inr (1, d')"
    and bal: "(if si_tokensSettledAt s = None then option_or r 0
               else option_or (snd (snd (si_usage s))) 0) = option_or r 0 - delta"
  shows "evolves d d'"
proof -
  let ?x = "toTransitionRecord (FailRunning i f r s)"
  obtain j where j: "j \<in> set (jobs d1)" "transition_where ?x d1 j"
    using transition_row [OF run] by blast
  have jobs: "jobs d1 = jobs d" using moved by (simp add: users_moved_def)
  have w: "open_write (transition_where ?x d1) (transition_set ?x)"
    by (rule transition_open [OF validated_data_ok [OF valid]]) simp
  show ?thesis
  proof (rule open_write.move_evolves [OF open_write.open_stamped [OF w] moved
        run [unfolded transition_stmt_def update_jobs_def]])
    show "j \<in> set (jobs d)" "transition_where ?x d1 j" using j jobs by simp_all
    show "j_userId j = fn_userId f" using j(2) by (simp add: fail_where)
    show "j_id y = j_id j" if "transition_where ?x d1 y" for y
      using that j(2) by (simp add: fail_where)
    assume "job_ok j"
    with j(2) have "charge j = option_or r 0"
      by (simp add: fail_where job_ok_def active_charge active_def)
    then show "charge ((transition_set ?x j)\<lparr>j_updatedAt := now\<rparr>) = charge j - delta"
      using bal j(2) by (simp only: updatedAt_simps charge_fail)
        (auto simp: settled_charge_def fail_where split: if_splits)
  qed
qed

end
