(* ===== verification/WorkerRepository.thy ===== *)
theory WorkerRepository
  imports JobService
begin

text \<open>
  The repository of the worker (\<open>src/src/analysis-worker/analysis-worker.repository.ts\<close>):
  claiming a job under a lease, progress and heartbeats, release for retry, and the settlement
  of a failure with the refund of its reservation. Every statement is a condition and an
  assignment of their own, and every one of them is an instance of the contract of a
  conditional update.
\<close>

section \<open>Jobs as the worker reads them\<close>

text \<open>
  \<open>analysisWorkerJobSelect\<close>: the row with its repository's names and the owner's name. The
  foreign keys of the schema make the repository and its owner exist.
\<close>

record worker_job =
  w_row :: job_row
  w_githubRepoId :: string
  w_fullName :: string
  w_ownerUsername :: string

datatype claim_result =
  CLAIMED worker_job string
| NOT_FOUND
| TERMINAL
| ACTIVE_LEASE
| NOT_DUE
| MAX_ATTEMPTS worker_job

definition select_worker_job :: "db \<Rightarrow> job_row \<Rightarrow> worker_job option" where
  "select_worker_job d j =
     Option.bind (find_repository (j_repositoryId j) d) (\<lambda>r.
     Option.bind (find_user (r_ownerId r) d) (\<lambda>u.
     Some \<lparr>w_row = j, w_githubRepoId = r_githubRepoId r, w_fullName = r_fullName r,
           w_ownerUsername = u_username u\<rparr>))"

definition worker_findJob :: "env \<Rightarrow> string \<Rightarrow> worker_job option io" where
  "worker_findJob env jobId =
     db_call env (query (\<lambda>d. Option.bind (find_job jobId d) (select_worker_job d)))"

definition requireClaimedJob :: "env \<Rightarrow> string \<Rightarrow> string \<Rightarrow> worker_job io" where
  "requireClaimedJob env jobId lease =
     bind (db_call env (query (\<lambda>d. Option.bind
        (find (\<lambda>j. j_id j = jobId \<and> j_status j = RUNNING \<and> j_leaseToken j = Some lease) (jobs d))
        (select_worker_job d)))) (\<lambda>job.
     case job of None \<Rightarrow> throw (StaleAnalysisWorkerLeaseError jobId) | Some j \<Rightarrow> ret j)"

definition hasProviderBillingEvidence :: "job_row \<Rightarrow> bool" where
  "hasProviderBillingEvidence j \<longleftrightarrow>
     j_providerRequestIds j \<noteq> [] \<or> j_promptTokens j \<noteq> None \<or>
     j_completionTokens j \<noteq> None \<or> j_totalTokens j \<noteq> None"

section \<open>The statements of a claim\<close>

definition claim_queued_where :: "string \<Rightarrow> int \<Rightarrow> job_row \<Rightarrow> bool" where
  "claim_queued_where jobId now j \<longleftrightarrow>
     j_id j = jobId \<and> j_status j = QUEUED \<and> j_attemptCount j < j_maxAttempts j \<and>
     option_all (\<lambda>n. n \<le> now) (j_nextPublishAt j) \<and>
     j_completedAt j = None \<and> j_tokensSettledAt j = None"

definition started_or :: "int \<Rightarrow> job_row \<Rightarrow> int option" where
  "started_or now j = Some (option_or (j_startedAt j) now)"

definition claim_queued_set :: "string \<Rightarrow> int \<Rightarrow> int \<Rightarrow> job_row \<Rightarrow> job_row" where
  "claim_queued_set lease now expires j =
     j\<lparr>j_status := RUNNING, j_stage := Some COLLECTING, j_progress := 10,
       j_attemptCount := j_attemptCount j + 1, j_leaseToken := Some lease,
       j_leaseExpiresAt := Some expires, j_heartbeatAt := Some now,
       j_startedAt := started_or now j, j_nextPublishAt := None, j_lastErrorCode := None,
       j_lastErrorMessage := None, j_errorRetryable := None, j_updatedAt := now\<rparr>"

text \<open>An expired lease is taken over only as it was read: same token, same expiry, same attempt.\<close>

definition same_expired_lease :: "job_row \<Rightarrow> int \<Rightarrow> job_row \<Rightarrow> bool" where
  "same_expired_lease current now j \<longleftrightarrow>
     j_id j = j_id current \<and> j_status j = RUNNING \<and>
     j_leaseToken j \<noteq> None \<and> j_leaseToken j = j_leaseToken current \<and>
     (case j_leaseExpiresAt j of None \<Rightarrow> False
      | Some e \<Rightarrow> j_leaseExpiresAt current = Some e \<and> e \<le> now) \<and>
     j_attemptCount j = j_attemptCount current"

definition take_over_where :: "job_row \<Rightarrow> int \<Rightarrow> job_row \<Rightarrow> bool" where
  "take_over_where current now j \<longleftrightarrow>
     same_expired_lease current now j \<and> j_attemptCount j < j_maxAttempts j \<and>
     j_completedAt j = None \<and> j_tokensSettledAt j = None"

definition take_over_set :: "string \<Rightarrow> int \<Rightarrow> int \<Rightarrow> job_row \<Rightarrow> job_row" where
  "take_over_set lease now expires j =
     j\<lparr>j_stage := Some COLLECTING, j_progress := 10, j_attemptCount := j_attemptCount j + 1,
       j_leaseToken := Some lease, j_leaseExpiresAt := Some expires, j_heartbeatAt := Some now,
       j_startedAt := started_or now j, j_lastErrorCode := None, j_lastErrorMessage := None,
       j_errorRetryable := None, j_updatedAt := now\<rparr>"

definition take_over_billed_where :: "job_row \<Rightarrow> int \<Rightarrow> job_row \<Rightarrow> bool" where
  "take_over_billed_where current now j \<longleftrightarrow>
     same_expired_lease current now j \<and> hasProviderBillingEvidence j \<and>
     j_completedAt j = None \<and> j_tokensSettledAt j = None"

definition take_over_billed_set :: "string \<Rightarrow> int \<Rightarrow> int \<Rightarrow> job_row \<Rightarrow> job_row" where
  "take_over_billed_set lease now expires j =
     j\<lparr>j_stage := Some SAVING, j_progress := max (j_progress j) 90, j_leaseToken := Some lease,
       j_leaseExpiresAt := Some expires, j_heartbeatAt := Some now, j_updatedAt := now\<rparr>"

definition claim_write :: "env \<Rightarrow> (job_row \<Rightarrow> bool) \<Rightarrow> (job_row \<Rightarrow> job_row) \<Rightarrow> bool io" where
  "claim_write env p f = bind (db_call env (raw_update_jobs p f)) (\<lambda>n. ret (n = 1))"

definition claimQueued :: "env \<Rightarrow> string \<Rightarrow> string \<Rightarrow> int \<Rightarrow> int \<Rightarrow> bool io" where
  "claimQueued env jobId lease now expires =
     claim_write env (claim_queued_where jobId now) (claim_queued_set lease now expires)"

definition takeOverExpiredLease :: "env \<Rightarrow> job_row \<Rightarrow> string \<Rightarrow> int \<Rightarrow> int \<Rightarrow> bool io" where
  "takeOverExpiredLease env current lease now expires =
     claim_write env (take_over_where current now) (take_over_set lease now expires)"

definition takeOverExpiredBilledLease :: "env \<Rightarrow> job_row \<Rightarrow> string \<Rightarrow> int \<Rightarrow> int \<Rightarrow> bool io" where
  "takeOverExpiredBilledLease env current lease now expires =
     claim_write env (take_over_billed_where current now) (take_over_billed_set lease now expires)"

section \<open>Claiming\<close>

definition after :: "int option \<Rightarrow> int \<Rightarrow> bool" where
  "after t now \<longleftrightarrow> (case t of None \<Rightarrow> False | Some n \<Rightarrow> now < n)"

definition resolveClaimRace :: "env \<Rightarrow> string \<Rightarrow> int \<Rightarrow> claim_result io" where
  "resolveClaimRace env jobId now =
     bind (worker_findJob env jobId) (\<lambda>found.
     ret (case found of
        None \<Rightarrow> NOT_FOUND
      | Some current \<Rightarrow>
          (let j = w_row current in
           if j_status j = SUCCEEDED \<or> j_status j = FAILED then TERMINAL
           else if after (j_nextPublishAt j) now then NOT_DUE
           else if j_status j = RUNNING \<and> after (j_leaseExpiresAt j) now then ACTIVE_LEASE
           else if j_attemptCount j \<ge> j_maxAttempts j then MAX_ATTEMPTS current
           else ACTIVE_LEASE)))"

definition finish_claim :: "env \<Rightarrow> string \<Rightarrow> string \<Rightarrow> int \<Rightarrow> bool \<Rightarrow> claim_result io" where
  "finish_claim env jobId lease now claimed =
     (if claimed then bind (requireClaimedJob env jobId lease) (\<lambda>job. ret (CLAIMED job lease))
      else resolveClaimRace env jobId now)"

definition claim :: "env \<Rightarrow> string \<Rightarrow> string \<Rightarrow> int \<Rightarrow> int \<Rightarrow> claim_result io" where
  "claim env jobId lease now expires =
     bind (worker_findJob env jobId) (\<lambda>found.
     case found of
       None \<Rightarrow> ret NOT_FOUND
     | Some current \<Rightarrow>
         (let j = w_row current in
          if j_status j = SUCCEEDED \<or> j_status j = FAILED then ret TERMINAL
          else if j_status j = QUEUED then
            (if j_attemptCount j \<ge> j_maxAttempts j then ret (MAX_ATTEMPTS current)
             else if j_completedAt j \<noteq> None \<or> j_tokensSettledAt j \<noteq> None then ret TERMINAL
             else if after (j_nextPublishAt j) now then ret NOT_DUE
             else bind (claimQueued env jobId lease now expires) (finish_claim env jobId lease now))
          else if after (j_leaseExpiresAt j) now then ret ACTIVE_LEASE
          else if j_leaseToken j = None \<or> j_leaseExpiresAt j = None then ret ACTIVE_LEASE
          else if hasProviderBillingEvidence j then
            bind (takeOverExpiredBilledLease env j lease now expires) (finish_claim env jobId lease now)
          else if j_attemptCount j \<ge> j_maxAttempts j then ret (MAX_ATTEMPTS current)
          else bind (takeOverExpiredLease env j lease now expires) (finish_claim env jobId lease now)))"

section \<open>Progress and release\<close>

record progress_input =
  pr_jobId :: string
  pr_leaseToken :: string
  pr_stage :: job_stage
  pr_progress :: int
  pr_heartbeatAt :: int
  pr_leaseExpiresAt :: int

definition progress_where :: "progress_input \<Rightarrow> job_row \<Rightarrow> bool" where
  "progress_where i j \<longleftrightarrow>
     j_id j = pr_jobId i \<and> j_status j = RUNNING \<and> j_leaseToken j = Some (pr_leaseToken i) \<and>
     j_tokensSettledAt j = None"

definition progress_set :: "progress_input \<Rightarrow> job_row \<Rightarrow> job_row" where
  "progress_set i j =
     j\<lparr>j_stage := Some (pr_stage i), j_progress := pr_progress i,
       j_heartbeatAt := Some (pr_heartbeatAt i), j_leaseExpiresAt := Some (pr_leaseExpiresAt i)\<rparr>"

definition repo_updateProgress :: "env \<Rightarrow> progress_input \<Rightarrow> unit io" where
  "repo_updateProgress env i =
     bind (db_call env (update_jobs (progress_where i) (progress_set i))) (\<lambda>n.
     throw_unless (n = 1) (StaleAnalysisWorkerLeaseError (pr_jobId i)))"

record release_input =
  rl_jobId :: string
  rl_leaseToken :: string
  rl_nextPublishAt :: int
  rl_errorCode :: string
  rl_errorMessage :: string

definition release_where :: "release_input \<Rightarrow> job_row \<Rightarrow> bool" where
  "release_where i j \<longleftrightarrow>
     j_id j = rl_jobId i \<and> j_status j = RUNNING \<and> j_leaseToken j = Some (rl_leaseToken i) \<and>
     j_tokensSettledAt j = None \<and> j_promptTokens j = None \<and> j_completionTokens j = None \<and>
     j_totalTokens j = None \<and> j_providerRequestIds j = []"

definition release_set :: "release_input \<Rightarrow> job_row \<Rightarrow> job_row" where
  "release_set i j =
     j\<lparr>j_status := QUEUED, j_stage := Some WAITING, j_nextPublishAt := Some (rl_nextPublishAt i),
       j_leaseToken := None, j_leaseExpiresAt := None, j_heartbeatAt := None,
       j_lastErrorCode := Some (rl_errorCode i), j_lastErrorMessage := Some (rl_errorMessage i),
       j_errorRetryable := Some True\<rparr>"

definition releaseForRetry :: "env \<Rightarrow> release_input \<Rightarrow> unit io" where
  "releaseForRetry env i =
     bind (db_call env (update_jobs (release_where i) (release_set i))) (\<lambda>n.
     if n = 1 then ret ()
     else bind (worker_findJob env (rl_jobId i)) (\<lambda>found.
       case found of
         None \<Rightarrow> throw (StaleAnalysisWorkerLeaseError (rl_jobId i))
       | Some current \<Rightarrow>
           if j_status (w_row current) = FAILED then ret ()
           else if hasProviderBillingEvidence (w_row current)
           then throw (BilledAnalysisJobRequiresReconciliationError (rl_jobId i))
           else throw (StaleAnalysisWorkerLeaseError (rl_jobId i))))"

section \<open>Settling a failure\<close>

record settle_input =
  sf_jobId :: string
  sf_expectedStatus :: job_status
  sf_expectedLeaseToken :: "string option"
  sf_completedAt :: int
  sf_errorCode :: string
  sf_errorMessage :: string
  sf_errorRetryable :: bool

definition settle_where :: "settle_input \<Rightarrow> job_row \<Rightarrow> bool" where
  "settle_where i j \<longleftrightarrow>
     j_id j = sf_jobId i \<and> j_status j = sf_expectedStatus i \<and> j_tokensSettledAt j = None \<and>
     (sf_expectedStatus i = RUNNING \<longrightarrow> j_leaseToken j = sf_expectedLeaseToken i)"

definition settle_set :: "settle_input \<Rightarrow> job_row \<Rightarrow> job_row" where
  "settle_set i j =
     j\<lparr>j_status := FAILED, j_stage := None, j_promptTokens := Some 0, j_completionTokens := Some 0,
       j_totalTokens := Some 0, j_tokensSettledAt := Some (sf_completedAt i), j_leaseToken := None,
       j_leaseExpiresAt := None, j_heartbeatAt := None, j_nextPublishAt := None,
       j_completedAt := Some (sf_completedAt i), j_lastErrorCode := Some (sf_errorCode i),
       j_lastErrorMessage := Some (sf_errorMessage i), j_errorRetryable := Some (sf_errorRetryable i)\<rparr>"

definition credit :: "int \<Rightarrow> user_row \<Rightarrow> user_row" where
  "credit n u = u\<lparr>u_availableTokens := u_availableTokens u + n\<rparr>"

text \<open>The reservation goes back to the user.\<close>

definition refund :: "env \<Rightarrow> job_row \<Rightarrow> unit io" where
  "refund tx job = (case j_reservedTokens job of
       None \<Rightarrow> ret ()
     | Some r \<Rightarrow> if r > 0 then db_call tx (update_user (j_userId job) (credit r)) else ret ())"

definition settle_body :: "settle_input \<Rightarrow> env \<Rightarrow> bool io" where
  "settle_body i tx =
     bind (db_call tx (query (find_job (sf_jobId i)))) (\<lambda>found.
     case found of
       None \<Rightarrow> ret False
     | Some job \<Rightarrow>
         if j_status job \<noteq> sf_expectedStatus i \<or> j_tokensSettledAt job \<noteq> None \<or>
            (sf_expectedStatus i = RUNNING \<and> j_leaseToken job \<noteq> sf_expectedLeaseToken i)
         then ret False
         else if hasProviderBillingEvidence job
         then throw (BilledAnalysisJobRequiresReconciliationError (sf_jobId i))
         else bind (db_call tx (update_jobs (settle_where i) (settle_set i))) (\<lambda>n.
           andThen (throw_unless (n = 1) (StaleAnalysisWorkerLeaseError (sf_jobId i)))
           (andThen (refund tx job) (ret True))))"

definition settleFailure :: "env \<Rightarrow> settle_input \<Rightarrow> bool io" where
  "settleFailure env i = transaction env (settle_body i)"

definition failQueuedInvalidMessage :: "env \<Rightarrow> string \<Rightarrow> int \<Rightarrow> bool io" where
  "failQueuedInvalidMessage env jobId completedAt =
     settleFailure env \<lparr>sf_jobId = jobId, sf_expectedStatus = QUEUED, sf_expectedLeaseToken = None,
       sf_completedAt = completedAt, sf_errorCode = ''INVALID_MESSAGE'',
       sf_errorMessage = ''The analysis job message is invalid.'', sf_errorRetryable = False\<rparr>"

definition finalizeRunningFailure :: "env \<Rightarrow> string \<Rightarrow> string \<Rightarrow> int \<Rightarrow> string \<Rightarrow> string \<Rightarrow> bool \<Rightarrow> bool io" where
  "finalizeRunningFailure env jobId lease completedAt code message retryable =
     settleFailure env \<lparr>sf_jobId = jobId, sf_expectedStatus = RUNNING, sf_expectedLeaseToken = Some lease,
       sf_completedAt = completedAt, sf_errorCode = code, sf_errorMessage = message,
       sf_errorRetryable = retryable\<rparr>"

definition finalizeQueuedAtLimit :: "env \<Rightarrow> string \<Rightarrow> int \<Rightarrow> bool io" where
  "finalizeQueuedAtLimit env jobId completedAt =
     settleFailure env \<lparr>sf_jobId = jobId, sf_expectedStatus = QUEUED, sf_expectedLeaseToken = None,
       sf_completedAt = completedAt, sf_errorCode = ''MAX_ATTEMPTS_EXCEEDED'',
       sf_errorMessage = ''The maximum number of attempts was exceeded.'', sf_errorRetryable = True\<rparr>"

section \<open>The repository's checkpoint\<close>

definition advance_where :: "job_row \<Rightarrow> repository_row \<Rightarrow> bool" where
  "advance_where job r \<longleftrightarrow>
     r_id r = j_repositoryId job \<and> r_ownerId r = j_userId job \<and>
     (case r_lastSyncTime r of None \<Rightarrow> True | Some t \<Rightarrow> t < j_collectionCutoff job)"

definition advanceRepositoryCheckpoint :: "job_row \<Rightarrow> env \<Rightarrow> unit io" where
  "advanceRepositoryCheckpoint job tx =
     bind (db_call tx (update_repositories (advance_where job)
            (\<lambda>r. r\<lparr>r_lastSyncTime := Some (j_collectionCutoff job)\<rparr>))) (\<lambda>_. ret ())"

section \<open>The statements keep the ledger's guarantee\<close>

lemmas worker_write_defs = active_def same_identity_def job_ok_def job_coherent_def usage_known_def
  usage_unknown_def charge_def

interpretation claim_queued: job_update "claim_queued_where i now" "claim_queued_set lease now expires"
  for i now lease expires
  by unfold_locales
    (auto simp: claim_queued_where_def claim_queued_set_def worker_write_defs split: option.splits)

interpretation take_over: job_update "take_over_where current now" "take_over_set lease now expires"
  for current now lease expires
  by unfold_locales
    (auto simp: take_over_where_def same_expired_lease_def take_over_set_def worker_write_defs
      split: option.splits)

interpretation take_over_billed: job_update "take_over_billed_where current now"
    "take_over_billed_set lease now expires" for current now lease expires
  by unfold_locales
    (auto simp: take_over_billed_where_def same_expired_lease_def take_over_billed_set_def
      worker_write_defs split: option.splits)

interpretation progress: job_update "progress_where i" "progress_set i" for i
  by unfold_locales
    (auto simp: progress_where_def progress_set_def worker_write_defs split: option.splits)

interpretation release: job_update "release_where i" "release_set i" for i
  by unfold_locales
    (auto simp: release_where_def release_set_def worker_write_defs split: option.splits)

lemma settle_write:
  "sf_expectedStatus i \<in> {QUEUED, RUNNING} \<Longrightarrow> open_write (settle_where i) (settle_set i)"
  by unfold_locales (auto simp: settle_where_def settle_set_def worker_write_defs)

lemma worker_findJob_guar [guar_intros]: "rely evolves env \<Longrightarrow> guar evolves (worker_findJob env i)"
  unfolding worker_findJob_def by (intro guar_intros)

lemma requireClaimedJob_guar [guar_intros]:
  "rely evolves env \<Longrightarrow> guar evolves (requireClaimedJob env i l)"
  unfolding requireClaimedJob_def
  by (intro ledger.guar_bind ledger.guar_db_call ledger.stmt_guar_query)
    (auto intro: guar_intros split: option.splits)

lemma resolveClaimRace_guar [guar_intros]:
  "rely evolves env \<Longrightarrow> guar evolves (resolveClaimRace env i now)"
  unfolding resolveClaimRace_def by (intro guar_intros)

lemma finish_claim_guar [guar_intros]:
  "rely evolves env \<Longrightarrow> guar evolves (finish_claim env i l now b)"
  unfolding finish_claim_def by (intro guar_intros)

lemma claim_writes_guar [guar_intros]:
  assumes "rely evolves env"
  shows "guar evolves (claimQueued env i l now e)" "guar evolves (takeOverExpiredLease env c l now e)"
    "guar evolves (takeOverExpiredBilledLease env c l now e)"
  unfolding claimQueued_def takeOverExpiredLease_def takeOverExpiredBilledLease_def claim_write_def
  by (intro guar_intros assms claim_queued.raw_stmt_guar take_over.raw_stmt_guar
      take_over_billed.raw_stmt_guar)+

lemma claim_guar: "rely evolves env \<Longrightarrow> guar evolves (claim env i l now e)"
  unfolding claim_def Let_def
  by (intro ledger.guar_bind worker_findJob_guar) (auto intro!: guar_intros split: option.splits)

lemma updateProgress_guar: "rely evolves env \<Longrightarrow> guar evolves (repo_updateProgress env i)"
  unfolding repo_updateProgress_def by (intro guar_intros progress.stmt_guar)

lemma releaseForRetry_guar: "rely evolves env \<Longrightarrow> guar evolves (releaseForRetry env i)"
  unfolding releaseForRetry_def
  by (intro ledger.guar_bind ledger.guar_db_call release.stmt_guar ledger.guar_if
      worker_findJob_guar) (auto intro!: guar_intros split: option.splits)

section \<open>Settling a failure returns the reservation\<close>

lemma settle_where_found:
  assumes "find_job (sf_jobId i) d = Some j" "distinct (map j_id (jobs d))" "settle_where i x"
    "x \<in> set (jobs d)"
  shows "x = j"
  using assms keyed_row_unique [of j_id "jobs d" x j] find_job_SomeD [of "sf_jobId i" d j]
  by (auto simp: settle_where_def)

lemma credit_moved:
  assumes "update_user i (credit n) now d = Inr (u, d')" "distinct (map u_id (users d))"
  shows "users_moved i n d d'"
  using assms by (rule update_user_moved) (simp add: credit_def)

text \<open>
  The two statements of a settlement, in the order of the code: the job first. The jobs table
  and the users table are independent, so the writes commute.
\<close>

lemma settle_evolves:
  assumes st: "sf_expectedStatus i \<in> {QUEUED, RUNNING}"
    and j: "j \<in> set (jobs d)" "settle_where i j"
    and run: "update_jobs (settle_where i) (settle_set i) now d = Inr (1, d1)"
    and pay: "d2 = d1 \<and> option_or (j_reservedTokens j) 0 \<le> 0 \<or>
              users_moved (j_userId j) (option_or (j_reservedTokens j) 0) d1 d2 \<and> d2 = d1\<lparr>users := users d2\<rparr>"
  shows "evolves d d2"
proof -
  let ?f = "\<lambda>j. (settle_set i j)\<lparr>j_updatedAt := now\<rparr>"
  let ?delta = "if d2 = d1 then 0 else option_or (j_reservedTokens j) 0"
  let ?d = "d\<lparr>users := users d2\<rparr>"
  have d1: "d1 = d\<lparr>jobs := update_where (settle_where i) ?f (jobs d)\<rparr>"
    using run by (simp add: update_jobs_def jobs_table.bulk_update_Inr)
  have d2: "d2 = d1\<lparr>users := users d2\<rparr>" using pay by auto
  have "d1\<lparr>users := us\<rparr> = d\<lparr>users := us, jobs := update_where (settle_where i) ?f (jobs d)\<rparr>" for us
    by (simp add: d1)
  from trans [OF d2 this]
  have swap: "bulk_update jobs put_jobs job_checks (settle_where i) ?f ?d = Inr (1, d2)"
    using run by (simp add: update_jobs_def jobs_table.bulk_update_Inr)
  have moved: "users_moved (j_userId j) ?delta d ?d"
    using pay by (auto simp: users_moved_def d1 available_def)
  show ?thesis
  proof (rule open_write.move_evolves [OF open_write.open_stamped [OF settle_write [OF st]] moved swap j])
    show "j_id x = j_id j" if "settle_where i x" for x
      using that j(2) by (simp add: settle_where_def)
    assume ok: "job_ok j"
    have act: "active j" using j(2) st by (auto simp: settle_where_def active_def)
    have "0 \<le> option_or (j_reservedTokens j) 0"
      using ok by (cases "j_reservedTokens j") (auto simp: job_ok_def job_check_defs nonneg_or_null_def)
    with pay have "?delta = option_or (j_reservedTokens j) 0"
      by (auto simp: users_moved_def dest: spec [where x = "j_userId j"])
    with ok act show "charge (?f j) = charge j - ?delta"
      by (simp add: job_ok_def active_charge) (simp add: charge_def settle_set_def)
  qed simp
qed

lemma refund_moved:
  assumes "refund (quiet env) j w = (Inr u, w')" "distinct (map u_id (users (wdb w)))"
  shows "wdb w' = wdb w \<and> option_or (j_reservedTokens j) 0 \<le> 0 \<or>
     users_moved (j_userId j) (option_or (j_reservedTokens j) 0) (wdb w) (wdb w') \<and>
     wdb w' = (wdb w)\<lparr>users := users (wdb w')\<rparr>"
proof (cases "option_or (j_reservedTokens j) 0 \<le> 0")
  case True
  with assms show ?thesis by (auto simp: refund_def run_simps split: option.splits if_splits)
next
  case False
  then obtain r where r: "j_reservedTokens j = Some r" "0 < r" by (cases "j_reservedTokens j") auto
  with assms(1) obtain now x where
    pay: "update_user (j_userId j) (credit r) now (wdb w) = Inr (x, wdb w')"
    by (auto simp: refund_def run_simps)
  have "wdb w' = (wdb w)\<lparr>users := users (wdb w')\<rparr>"
    using pay assms(2) by (auto elim!: update_user_Inr)
  with credit_moved [OF pay assms(2)] r show ?thesis by simp
qed

lemma settle_body_run:
  assumes "settle_body i (quiet env) w = (Inr b, w')" "find_job (sf_jobId i) (wdb w) = Some j"
    "settle_where i j" "\<not> hasProviderBillingEvidence j"
  shows "\<exists>now d. update_jobs (settle_where i) (settle_set i) now (wdb w) = Inr (1, d) \<and>
     refund (quiet env) j (w\<lparr>tick := Suc (Suc (tick w)), wdb := d\<rparr>) = (Inr (), w')"
  using assms
  by (auto simp: settle_body_def settle_where_def run_simps split: if_splits)

lemma settle_body_skips:
  assumes "settle_body i (quiet env) w = (Inr b, w')"
    "\<And>j. find_job (sf_jobId i) (wdb w) = Some j \<Longrightarrow> \<not> settle_where i j \<or> hasProviderBillingEvidence j"
  shows "wdb w' = wdb w \<and> \<not> b"
  using assms
  by (auto simp: settle_body_def settle_where_def run_simps dest: find_job_SomeD
      split: if_splits option.splits)

lemma settle_body_guar:
  assumes st: "sf_expectedStatus i \<in> {QUEUED, RUNNING}"
  shows "body_guar evolves (settle_body i)"
  unfolding body_guar_def
proof (intro allI impI, rule evolves_under_inv)
  fix env :: env and w w' :: world and b
  assume run: "settle_body i (quiet env) w = (Inr b, w')" and inv: "ledger_inv (wdb w)"
  show "evolves (wdb w) (wdb w')"
  proof (cases "\<exists>j. find_job (sf_jobId i) (wdb w) = Some j \<and> settle_where i j \<and> \<not> hasProviderBillingEvidence j")
    case False
    with settle_body_skips [OF run] show ?thesis by (auto intro: evolves_same)
  next
    case True
    then obtain j where j: "find_job (sf_jobId i) (wdb w) = Some j" "settle_where i j"
      "\<not> hasProviderBillingEvidence j" by blast
    from settle_body_run [OF run j] obtain now d where
      upd: "update_jobs (settle_where i) (settle_set i) now (wdb w) = Inr (1, d)"
      and pay: "refund (quiet env) j (w\<lparr>tick := Suc (Suc (tick w)), wdb := d\<rparr>) = (Inr (), w')"
      by blast
    have "users d = users (wdb w)"
      using upd by (auto simp: update_jobs_def jobs_table.bulk_update_Inr)
    with refund_moved [OF pay] ledger_invD(2) [OF inv] show ?thesis
      using settle_evolves [OF st _ j(2) upd, of "wdb w'"] find_job_SomeD [OF j(1)] by simp
  qed
qed

lemma settleFailure_guar:
  "rely evolves env \<Longrightarrow> sf_expectedStatus i \<in> {QUEUED, RUNNING} \<Longrightarrow> guar evolves (settleFailure env i)"
  unfolding settleFailure_def by (intro guar_intros settle_body_guar)

lemma failures_guar [guar_intros]:
  assumes "rely evolves env"
  shows "guar evolves (failQueuedInvalidMessage env i t)"
    "guar evolves (finalizeRunningFailure env i l t c m r)" "guar evolves (finalizeQueuedAtLimit env i t)"
  unfolding failQueuedInvalidMessage_def finalizeRunningFailure_def finalizeQueuedAtLimit_def
  by (intro settleFailure_guar assms; simp)+

lemma advance_evolves:
  "advanceRepositoryCheckpoint j (quiet env) w = (Inr u, w') \<Longrightarrow>
     users (wdb w') = users (wdb w) \<and> jobs (wdb w') = jobs (wdb w) \<and> reports (wdb w') = reports (wdb w)"
  by (auto simp: advanceRepositoryCheckpoint_def run_simps update_repositories_def
      repositories_table.bulk_update_Inr)

end
