(* ===== verification/Activity.thy ===== *)
theory Activity
  imports AnalysisResult
begin

text \<open>
  The collected activity of a developer and what happens to it before and after the model sees
  it: the data types of \<open>src/src/collection/types/github-api.types.ts\<close>, the refiner
  (\<open>src/src/analysis/refiner.service.ts\<close>), the preprocessor
  (\<open>src/src/analysis/preprocessor.service.ts\<close>), the metric calculator
  (\<open>src/src/analysis/metric-calculator.service.ts\<close>) and the weighted average of
  \<open>src/src/analysis/stat.service.ts\<close>. A regular expression is written out as the function that
  finds its leftmost match and returns the text after it.
\<close>

section \<open>Collected data\<close>

record review_comment_dto =
  c_author :: utext
  c_body :: utext
  c_createdAt :: string

record review_dto =
  v_author :: utext
  v_body :: utext
  v_state :: string
  v_comments :: "review_comment_dto list"

record pull_request_dto =
  pr_number :: int
  pr_title :: utext
  pr_body :: utext
  pr_author :: utext
  pr_updatedAt :: string
  pr_permalink :: utext
  pr_reviews :: "review_dto list"

record collected_data =
  cd_githubRepoId :: string
  cd_owner :: string
  cd_repo :: string
  cd_targetUser :: utext
  cd_pullRequests :: "pull_request_dto list"

section \<open>The refiner\<close>

definition ascii_lower :: "nat \<Rightarrow> nat" where
  "ascii_lower c = (if 65 \<le> c \<and> c \<le> 90 then c + 32 else c)"

text \<open>The words an acknowledgment begins with; the last two are Korean.\<close>

definition acknowledgments :: "utext list" where
  "acknowledgments = [units ''lgtm'', units ''good'', units ''nice'', units ''ok'',
     units ''approved'', [54869, 51064], [51339, 49845, 45768, 45796]]"

definition acknowledgment :: "utext \<Rightarrow> bool" where
  "acknowledgment body \<longleftrightarrow> list_ex (\<lambda>w. prefix w (map ascii_lower body)) acknowledgments"

definition meaningful_review :: "review_dto \<Rightarrow> bool" where
  "meaningful_review r \<longleftrightarrow>
     (let body = text_trim (v_body r) in \<not> (length body < 5 \<or> acknowledgment body))"

definition meaningful_comment :: "review_comment_dto \<Rightarrow> bool" where
  "meaningful_comment c \<longleftrightarrow> 5 \<le> length (text_trim (c_body c))"

definition refine_review :: "review_dto \<Rightarrow> review_dto" where
  "refine_review r = r\<lparr>v_comments := filter meaningful_comment (v_comments r)\<rparr>"

definition refine_pr :: "pull_request_dto \<Rightarrow> pull_request_dto" where
  "refine_pr p = p\<lparr>pr_reviews := map refine_review (filter meaningful_review (pr_reviews p))\<rparr>"

definition refine :: "collected_data \<Rightarrow> collected_data" where
  "refine d = d\<lparr>cd_pullRequests :=
     filter (\<lambda>p. pr_reviews p \<noteq> []) (map refine_pr (cd_pullRequests d))\<rparr>"

lemma refine_review_meaningful [simp]: "meaningful_review (refine_review r) = meaningful_review r"
  by (simp add: refine_review_def meaningful_review_def)

lemma refine_review_idem [simp]: "refine_review (refine_review r) = refine_review r"
  by (simp add: refine_review_def)

lemma filter_refined [simp]:
  "filter meaningful_review (map refine_review rs) = map refine_review (filter meaningful_review rs)"
  by (induction rs) simp_all

lemma refine_pr_idem [simp]: "refine_pr (refine_pr p) = refine_pr p"
  by (simp add: refine_pr_def comp_def)

section \<open>The preprocessor\<close>

definition line_terminator :: "nat \<Rightarrow> bool" where
  "line_terminator c \<longleftrightarrow> c = 10 \<or> c = 13 \<or> c = 8232 \<or> c = 8233"

text \<open>\<open>.*?\)\<close>, and \<open>.*?\]\(.*?\)\<close>.\<close>

fun after_paren :: "utext \<Rightarrow> utext option" where
  "after_paren [] = None"
| "after_paren (c # s) = (if c = 41 then Some s else if line_terminator c then None else after_paren s)"

fun after_link :: "utext \<Rightarrow> utext option" where
  "after_link [] = None"
| "after_link (c # s) =
     (case (if c = 93 \<and> s \<noteq> [] \<and> hd s = 40 then after_paren (tl s) else None) of
        Some r \<Rightarrow> Some r
      | None \<Rightarrow> if line_terminator c then None else after_link s)"

lemma after_paren_length: "after_paren s = Some r \<Longrightarrow> length r < length s"
  by (induction s) (auto split: if_splits)

lemma after_link_length: "after_link s = Some r \<Longrightarrow> length r < length s"
proof (induction s)
  case Nil
  then show ?case by simp
next
  case (Cons c s)
  show ?case
  proof (cases "\<exists>r. (if c = 93 \<and> s \<noteq> [] \<and> hd s = 40 then after_paren (tl s) else None) = Some r")
    case True
    with Cons.prems show ?thesis
      by (auto split: if_splits dest!: after_paren_length)
  next
    case False
    with Cons show ?thesis by (fastforce split: if_splits)
  qed
qed

text \<open>\<open>replace(/!\[.*?\]\(.*?\)/g, '')\<close>\<close>

function strip_images :: "utext \<Rightarrow> utext" where
  "strip_images s =
     (case s of [] \<Rightarrow> []
      | c # t \<Rightarrow>
          (case (if c = 33 \<and> t \<noteq> [] \<and> hd t = 91 then after_link (tl t) else None) of
             Some r \<Rightarrow> strip_images r
           | None \<Rightarrow> c # strip_images t))"
  by auto
termination
  by (relation "measure length") (auto split: if_splits dest!: after_link_length)

text \<open>\<open>replace(/<[^>]*>?/gm, '')\<close>\<close>

function strip_tags :: "utext \<Rightarrow> utext" where
  "strip_tags [] = []"
| "strip_tags (c # s) =
     (if c = 60 then strip_tags (drop 1 (dropWhile (\<lambda>d. d \<noteq> 62) s)) else c # strip_tags s)"
  by pat_completeness auto
termination
  by (relation "measure length")
    (auto simp: le_imp_less_Suc length_dropWhile_le intro: le_less_trans [OF diff_le_self])

text \<open>Splitting at three backticks; every second part is inside a code block.\<close>

fun split_fences :: "utext \<Rightarrow> utext list" where
  "split_fences (a # b # c # s) =
     (if a = 96 \<and> b = 96 \<and> c = 96 then [] # split_fences s
      else case split_fences (b # c # s) of [] \<Rightarrow> [[a]] | w # ws \<Rightarrow> (a # w) # ws)"
| "split_fences s = [s]"

fun join_with :: "utext \<Rightarrow> utext list \<Rightarrow> utext" where
  "join_with sep [] = []"
| "join_with sep [w] = w"
| "join_with sep (w # ws) = w @ sep @ join_with sep ws"

definition truncate_block :: "utext \<Rightarrow> utext" where
  "truncate_block part =
     (let lines = split_units 10 part in
      if length lines > 50
      then join_with [10] (take 50 lines) @ 10 # units ''... (truncated for analysis)''
      else part)"

fun truncate_parts :: "bool \<Rightarrow> utext list \<Rightarrow> utext list" where
  "truncate_parts inside [] = []"
| "truncate_parts inside (p # ps) =
     (if inside then truncate_block p else p) # truncate_parts (\<not> inside) ps"

definition truncate_code :: "utext \<Rightarrow> utext" where
  "truncate_code s = join_with [96, 96, 96] (truncate_parts False (split_fences s))"

definition word_unit :: "nat \<Rightarrow> bool" where
  "word_unit c \<longleftrightarrow> (65 \<le> c \<and> c \<le> 90) \<or> (97 \<le> c \<and> c \<le> 122) \<or> (48 \<le> c \<and> c \<le> 57) \<or> c = 95"

definition mail_unit :: "nat \<Rightarrow> bool" where
  "mail_unit c \<longleftrightarrow> word_unit c \<or> c = 46 \<or> c = 45"

text \<open>\<open>\.\w{2,4}\<close> at the last place of a run that allows it.\<close>

fun after_tld :: "utext \<Rightarrow> utext option" where
  "after_tld [] = None"
| "after_tld (c # s) =
     (case after_tld s of
        Some r \<Rightarrow> Some r
      | None \<Rightarrow> (let n = length (takeWhile word_unit s) in
                 if c = 46 \<and> 2 \<le> n then Some (drop (min 4 n) s) else None))"

text \<open>\<open>[\w.-]+\.\w{2,4}\<close>\<close>

definition after_domain :: "utext \<Rightarrow> utext option" where
  "after_domain s = map_option (\<lambda>r. r @ dropWhile mail_unit s) (after_tld (tl (takeWhile mail_unit s)))"

text \<open>\<open>[\w.-]+@[\w.-]+\.\w{2,4}\<close>\<close>

definition after_mail :: "utext \<Rightarrow> utext option" where
  "after_mail s = (case dropWhile mail_unit s of
       [] \<Rightarrow> None
     | c # t \<Rightarrow> if takeWhile mail_unit s \<noteq> [] \<and> c = 64 then after_domain t else None)"

text \<open>\<open>replace(pattern, mask)\<close> with the global flag, for a pattern that never matches the empty text.\<close>

function replace_all :: "(utext \<Rightarrow> utext option) \<Rightarrow> utext \<Rightarrow> utext \<Rightarrow> utext" where
  "replace_all m repl s =
     (case s of [] \<Rightarrow> []
      | c # t \<Rightarrow>
          (case m s of
             Some r \<Rightarrow> if length r < length s then repl @ replace_all m repl r else c # replace_all m repl t
           | None \<Rightarrow> c # replace_all m repl t))"
  by auto
termination
  by (relation "measure (\<lambda>(m, repl, s). length s)") auto

definition digit_unit :: "nat \<Rightarrow> bool" where
  "digit_unit c \<longleftrightarrow> 48 \<le> c \<and> c \<le> 57"

definition slack_pattern :: "(nat \<Rightarrow> bool) list" where
  "slack_pattern =
     [(\<lambda>c. c \<in> {88, 120}), (\<lambda>c. c \<in> {79, 111}), (\<lambda>c. c \<in> {88, 120}),
      (\<lambda>c. ascii_lower c \<in> {112, 98, 111, 114})]
     @ concat (replicate 3 ((\<lambda>c. c = 45) # replicate 12 digit_unit))
     @ (\<lambda>c. c = 45) # replicate 32 (\<lambda>c. word_unit c \<and> c \<noteq> 95)"

definition after_slack_key :: "utext \<Rightarrow> utext option" where
  "after_slack_key s =
     (if list_all2 (\<lambda>p c. p c) slack_pattern (take (length slack_pattern) s)
      then Some (drop (length slack_pattern) s) else None)"

definition cleanText :: "utext \<Rightarrow> utext" where
  "cleanText s =
     text_trim
       (replace_all after_slack_key (units ''[REDACTED_API_KEY]'')
         (replace_all after_mail (units ''***@***.***'')
           (truncate_code (strip_tags (strip_images s)))))"

definition preprocess_comment :: "review_comment_dto \<Rightarrow> review_comment_dto" where
  "preprocess_comment c = c\<lparr>c_body := cleanText (c_body c)\<rparr>"

definition preprocess_review :: "review_dto \<Rightarrow> review_dto" where
  "preprocess_review r =
     r\<lparr>v_body := cleanText (v_body r), v_comments := map preprocess_comment (v_comments r)\<rparr>"

definition preprocess_pr :: "pull_request_dto \<Rightarrow> pull_request_dto" where
  "preprocess_pr p =
     p\<lparr>pr_body := cleanText (pr_body p), pr_reviews := map preprocess_review (pr_reviews p)\<rparr>"

definition preprocess :: "collected_data \<Rightarrow> collected_data" where
  "preprocess d = d\<lparr>cd_pullRequests := map preprocess_pr (cd_pullRequests d)\<rparr>"

section \<open>Metrics and statistics\<close>

definition calculate :: "('a) llm_payload_scheme \<Rightarrow> metric_key \<Rightarrow> rat" where
  "calculate r k = score (metric r k) * 20"

definition weighted :: "rat \<Rightarrow> rat \<Rightarrow> rat" where
  "weighted old new = old * (7 / 10) + new * (3 / 10)"

lemma weighted_bounds:
  "0 \<le> a \<Longrightarrow> a \<le> 100 \<Longrightarrow> 0 \<le> b \<Longrightarrow> b \<le> 100 \<Longrightarrow> 0 \<le> weighted a b \<and> weighted a b \<le> 100"
  by (simp add: weighted_def)

lemma after_slack_key_shorter: "after_slack_key s = Some r \<Longrightarrow> s \<noteq> [] \<Longrightarrow> length r < length s"
  by (auto simp: after_slack_key_def slack_pattern_def split: if_splits)

end
