(* ===== verification/Runner.thy ===== *)
theory Runner
  imports WorkerRepository Activity
begin

text \<open>
  The analysis of one job (\<open>AnalysisJobRunnerService\<close> of \<open>src/src/analysis/analysis.service.ts\<close>)
  and the statistics it writes (\<open>src/src/analysis/stat.service.ts\<close>): recovery of a provider
  charge, the reservation of tokens, the call of the model, the checkpoint of its charge, and
  the transactions that end a job.

  The service gets the model provider by dependency injection; here it is a record of its two
  operations, and everything below holds for any provider that does not write the database.
  \<open>jobContext.reservedTokens\<close>, which the code mutates after a reservation, is passed on.
\<close>

section \<open>Types\<close>

record llm_response =
  lr_providerRequestId :: string
  lr_requestedModel :: string
  lr_responseModel :: utext
  lr_promptVersion :: string
  lr_result :: llm_result
  lr_usage :: token_usage

record token_reservation =
  tr_estimatedTokens :: int
  tr_reservedTokens :: int

record llm_provider =
  estimateTokenReservationForData :: "collected_data \<Rightarrow> version \<Rightarrow> err + token_reservation"
  analyze :: "collected_data \<Rightarrow> version \<Rightarrow> llm_response io"

text \<open>\<open>ResolvedAnalysisJobExecutionContext\<close>, with the user and the repository of the job.\<close>

record job_context =
  jc_jobId :: string
  jc_leaseToken :: string
  jc_userId :: int
  jc_repositoryId :: int
  jc_reservedTokens :: "int option"
  jc_version :: version

datatype execution_result =
  Succeeded "metric_key \<Rightarrow> rat"
| NoAnalyzableData
| AnalysisFailed err
| InsufficientTokens err
| InputLimitExceeded err
| ReconciliationRequired err
| TokenBudgetExceeded err

type_synonym completion_action = "env \<Rightarrow> unit io"

record run_options =
  deferUnbilledProviderErrors :: bool
  onTokensReserved :: "unit io"
  onSaving :: "unit io"

definition no_options :: run_options where
  "no_options = \<lparr>deferUnbilledProviderErrors = False, onTokensReserved = ret (), onSaving = ret ()\<rparr>"

definition no_action :: completion_action where
  "no_action tx = ret ()"

definition ZERO_TOKEN_USAGE :: token_usage where
  "ZERO_TOKEN_USAGE = \<lparr>promptTokens = 0, completionTokens = 0, totalTokens = 0\<rparr>"

definition usage_triple :: "token_usage option \<Rightarrow> usage_fields" where
  "usage_triple u = (map_option promptTokens u, map_option completionTokens u, map_option totalTokens u)"

section \<open>Statistics\<close>

definition create_stat :: "int \<Rightarrow> (metric_key \<Rightarrow> rat) \<Rightarrow> stat_row stmt" where
  "create_stat userId scores now =
     insert_row stats put_stats (\<lambda>_. True) (\<lambda>r s. s_userId s = s_userId r)
       \<lparr>s_userId = userId, s_scores = scores, s_analysisCount = 1, s_updatedAt = now\<rparr>"

definition update_stat :: "int \<Rightarrow> (stat_row \<Rightarrow> stat_row) \<Rightarrow> unit stmt" where
  "update_stat userId f now d =
     (case bulk_update stats put_stats (\<lambda>s. int4 (s_analysisCount s)) (\<lambda>s. s_userId s = userId)
             (\<lambda>s. (f s)\<lparr>s_updatedAt := now\<rparr>) d of
        Inl e \<Rightarrow> Inl e
      | Inr (n, d') \<Rightarrow> if n = 0 then Inl (PrismaError (PrismaClientKnownRequestError ''P2025'')) else Inr ((), d'))"

definition updated_stat :: "stat_row \<Rightarrow> (metric_key \<Rightarrow> rat) \<Rightarrow> stat_row \<Rightarrow> stat_row" where
  "updated_stat existing scores s =
     s\<lparr>s_scores := (\<lambda>k. weighted (s_scores existing k) (scores k)),
       s_analysisCount := s_analysisCount s + 1\<rparr>"

definition updateStats :: "env \<Rightarrow> int \<Rightarrow> (metric_key \<Rightarrow> rat) \<Rightarrow> unit io" where
  "updateStats tx userId scores =
     andThen (acquire_lock tx)
     (bind (db_call tx (query (\<lambda>d. find (\<lambda>s. s_userId s = userId) (stats d)))) (\<lambda>existing.
      case existing of
        None \<Rightarrow> bind (db_call tx (create_stat userId scores)) (\<lambda>_. ret ())
      | Some s \<Rightarrow> db_call tx (update_stat userId (updated_stat s scores))))"

section \<open>Ending a job without a report\<close>

definition debit :: "int \<Rightarrow> user_row \<Rightarrow> user_row" where
  "debit n u = u\<lparr>u_availableTokens := u_availableTokens u - n\<rparr>"

text \<open>A debit happens only if the balance covers it; the result says whether it did.\<close>

definition debit_user :: "env \<Rightarrow> int \<Rightarrow> int \<Rightarrow> bool io" where
  "debit_user tx userId n =
     bind (db_call tx (update_users (\<lambda>u. u_id u = userId \<and> n \<le> u_availableTokens u) (debit n)))
       (\<lambda>count. ret (count = 1))"

record terminate_options =
  to_tokensSettled :: bool
  to_additionalDebitTokens :: int
  to_completionAction :: completion_action

definition default_terminate :: terminate_options where
  "default_terminate =
     \<lparr>to_tokensSettled = True, to_additionalDebitTokens = 0, to_completionAction = no_action\<rparr>"

definition context_fence :: "job_context \<Rightarrow> fence" where
  "context_fence c =
     \<lparr>fn_leaseToken = jc_leaseToken c, fn_userId = jc_userId c, fn_repositoryId = jc_repositoryId c\<rparr>"

definition failure :: "int \<Rightarrow> bool \<Rightarrow> token_usage option \<Rightarrow> string list \<Rightarrow> failure_code \<Rightarrow> failure_input" where
  "failure completedAt settled usage ids code =
     \<lparr>si_completedAt = DateMs completedAt,
      si_tokensSettledAt = (if settled then Some (DateMs completedAt) else None),
      si_usage = usage_triple usage, si_providerRequestIds = ids,
      fi_errorCode = code_text code, fi_errorRetryable = False\<rparr>"

definition terminate_body ::
  "job_context \<Rightarrow> failure_code \<Rightarrow> token_usage option \<Rightarrow> int \<Rightarrow> string list \<Rightarrow> terminate_options \<Rightarrow> int \<Rightarrow> env \<Rightarrow> unit io" where
  "terminate_body c code usage refundTokens ids opts completedAt tx =
     bind (if to_additionalDebitTokens opts > 0
           then debit_user tx (jc_userId c) (to_additionalDebitTokens opts) else ret True) (\<lambda>paid.
     let settled = to_tokensSettled opts \<and> paid;
         terminalCode = (if paid then code else PROVIDER_RECONCILIATION_REQUIRED);
         fail = FailRunning (jc_jobId c) (context_fence c) (jc_reservedTokens c)
     in
     andThen (if settled \<and> refundTokens > 0
              then db_call tx (update_user (jc_userId c) (credit refundTokens)) else ret ())
     (andThen
        (if settled
         then (case usage of
             None \<Rightarrow> throw InvalidAnalysisTokenUsageError
           | Some u \<Rightarrow> transition tx (fail (failure completedAt True usage ids terminalCode)))
         else transition tx (fail (failure completedAt False usage ids PROVIDER_RECONCILIATION_REQUIRED)))
        (to_completionAction opts tx)))"

definition terminateWorkerJob ::
  "env \<Rightarrow> job_context \<Rightarrow> failure_code \<Rightarrow> token_usage option \<Rightarrow> int \<Rightarrow> string list \<Rightarrow> terminate_options \<Rightarrow> unit io" where
  "terminateWorkerJob env c code usage refundTokens ids opts =
     bind (now_io env) (\<lambda>completedAt.
     transaction env (terminate_body c code usage refundTokens ids opts completedAt))"

definition ids_of :: "string option \<Rightarrow> string list" where
  "ids_of i = (case i of None \<Rightarrow> [] | Some s \<Rightarrow> [s])"

definition terminateProviderReconciliation ::
  "env \<Rightarrow> job_context \<Rightarrow> int option \<Rightarrow> string option \<Rightarrow> token_usage option \<Rightarrow> unit io" where
  "terminateProviderReconciliation env c reservedTokens providerRequestId usage =
     (case (usage, reservedTokens) of
        (Some u, Some r) \<Rightarrow>
          if totalTokens u > r
          then terminateWorkerJob env c TOKEN_BUDGET_EXCEEDED usage 0 (ids_of providerRequestId)
                 (default_terminate\<lparr>to_additionalDebitTokens := totalTokens u - r\<rparr>)
          else terminateWorkerJob env c PROVIDER_RECONCILIATION_REQUIRED usage
                 (max 0 (r - totalTokens u)) (ids_of providerRequestId) default_terminate
      | _ \<Rightarrow> terminateWorkerJob env c PROVIDER_RECONCILIATION_REQUIRED usage 0
               (ids_of providerRequestId) (default_terminate\<lparr>to_tokensSettled := False\<rparr>))"

definition handlePostBillingPersistenceFailure ::
  "env \<Rightarrow> job_context \<Rightarrow> int \<Rightarrow> string \<Rightarrow> token_usage \<Rightarrow> unit io" where
  "handlePostBillingPersistenceFailure env c reservedTokens providerRequestId usage =
     catch (terminateProviderReconciliation env c (Some reservedTokens) (Some providerRequestId) (Some usage))
       (\<lambda>_. throw (PostBillingAnalysisPersistenceError (jc_jobId c) (Some providerRequestId) (Some usage)))"

section \<open>Provider charges\<close>

definition valid_usage_or_null :: "token_usage option \<Rightarrow> token_usage option" where
  "valid_usage_or_null u = (case u of None \<Rightarrow> None
     | Some v \<Rightarrow> if isValidAnalysisTokenUsage v then Some v else None)"

definition charge_input :: "job_context \<Rightarrow> int \<Rightarrow> token_usage option \<Rightarrow> string \<Rightarrow> provider_charge_input" where
  "charge_input c reservedTokens usage requestId =
     \<lparr>pc_jobId = jc_jobId c, pc_expectedLeaseToken = jc_leaseToken c, pc_expectedUserId = jc_userId c,
      pc_expectedRepositoryId = jc_repositoryId c, pc_expectedReservedTokens = reservedTokens,
      pc_promptTokens = map_option promptTokens usage,
      pc_completionTokens = map_option completionTokens usage,
      pc_totalTokens = map_option totalTokens usage, pc_providerRequestId = requestId\<rparr>"

text \<open>
  The checkpoint may fail; its error is only logged, and the termination is tried all the same.
\<close>

definition checkpointAndTerminateProviderReconciliation ::
  "env \<Rightarrow> job_context \<Rightarrow> int option \<Rightarrow> string option \<Rightarrow> token_usage option \<Rightarrow> unit io" where
  "checkpointAndTerminateProviderReconciliation env c reservedTokens providerRequestId errorUsage =
     (let usage = valid_usage_or_null errorUsage in
      bind (case (reservedTokens, providerRequestId) of
              (Some r, Some i) \<Rightarrow> attempt (recordProviderCharge env (charge_input c r usage i))
            | _ \<Rightarrow> ret (Inl InvalidAnalysisTokenUsageError)) (\<lambda>checkpoint.
      catch (terminateProviderReconciliation env c reservedTokens providerRequestId usage)
        (\<lambda>_. throw (PostBillingAnalysisPersistenceError (jc_jobId c) providerRequestId usage))))"

text \<open>The checkpoint a job carries: \<^const>\<open>None\<close> when it has none.\<close>

definition getProviderChargeCheckpoint ::
  "running_job_context \<Rightarrow> (string option \<times> token_usage option) option" where
  "getProviderChargeCheckpoint j =
     (if rc_providerRequestIds j = [] \<and> rc_promptTokens j = None \<and>
         rc_completionTokens j = None \<and> rc_totalTokens j = None
      then None
      else
        (let requestId = (case rc_providerRequestIds j of [i] \<Rightarrow> Some i | _ \<Rightarrow> None) in
         Some (requestId, valid_usage_or_null
           (known_usage (rc_promptTokens j, rc_completionTokens j, rc_totalTokens j)))))"

section \<open>Reserving tokens\<close>

definition assertValidReservation :: "token_reservation \<Rightarrow> err + unit" where
  "assertValidReservation r =
     require (js_isSafeInteger (tr_estimatedTokens r) \<and> 0 \<le> tr_estimatedTokens r \<and>
              js_isSafeInteger (tr_reservedTokens r) \<and> tr_estimatedTokens r \<le> tr_reservedTokens r)
       InvalidAnalysisTokenUsageError"

definition reserve_input :: "job_context \<Rightarrow> token_reservation \<Rightarrow> reserve_tokens_input" where
  "reserve_input c r =
     \<lparr>ri_jobId = jc_jobId c, ri_expectedLeaseToken = jc_leaseToken c, ri_expectedUserId = jc_userId c,
      ri_expectedRepositoryId = jc_repositoryId c, ri_estimatedTokens = tr_estimatedTokens r,
      ri_reservedTokens = tr_reservedTokens r\<rparr>"

definition reserve_body :: "job_context \<Rightarrow> token_reservation \<Rightarrow> env \<Rightarrow> unit io" where
  "reserve_body c r tx =
     bind (debit_user tx (jc_userId c) (tr_reservedTokens r)) (\<lambda>paid.
     andThen (throw_unless paid InsufficientAnalysisTokensError)
       (reserveTokens tx (reserve_input c r)))"

definition ensureWorkerTokenReservation :: "env \<Rightarrow> job_context \<Rightarrow> token_reservation \<Rightarrow> int io" where
  "ensureWorkerTokenReservation env c r =
     andThen (of_result (assertValidReservation r))
     (case jc_reservedTokens c of
        Some n \<Rightarrow> if n < tr_reservedTokens r then throw AnalysisTokenBudgetExceededError else ret n
      | None \<Rightarrow> andThen (transaction env (reserve_body c r)) (ret (tr_reservedTokens r)))"

section \<open>Success\<close>

text \<open>
  \<open>analysisReport.create\<close>: the next value of the table's sequence, the foreign keys, and
  \<open>jobId @unique\<close>.
\<close>

definition next_report_id :: "db \<Rightarrow> int" where
  "next_report_id d = 1 + fold max (map p_id (reports d)) 0"

definition create_report :: "int \<Rightarrow> int \<Rightarrow> llm_result \<Rightarrow> string \<Rightarrow> report_row stmt" where
  "create_report userId repositoryId result jobId now d =
     (if find_user userId d = None \<or> find_repository repositoryId d = None \<or> find_job jobId d = None
      then Inl (PrismaError (PrismaClientKnownRequestError ''P2003''))
      else insert_row reports put_reports (\<lambda>_. True) (\<lambda>new p. p_jobId p = p_jobId new)
        \<lparr>p_id = next_report_id d, p_syncTime = now, p_userId = userId, p_repositoryId = repositoryId,
         p_metrics = Some result, p_jobId = Some jobId, p_isShared = False\<rparr> d)"

definition success_input :: "job_context \<Rightarrow> int \<Rightarrow> int \<Rightarrow> token_usage \<Rightarrow> string \<Rightarrow> int \<Rightarrow> transition_input" where
  "success_input c reservedTokens reportId usage requestId completedAt =
     Succeed (jc_jobId c) (context_fence c) reservedTokens reportId
       \<lparr>si_completedAt = DateMs completedAt, si_tokensSettledAt = Some (DateMs completedAt),
        si_usage = usage_triple (Some usage), si_providerRequestIds = [requestId]\<rparr>"

definition success_body ::
  "job_context \<Rightarrow> int \<Rightarrow> llm_result \<Rightarrow> (metric_key \<Rightarrow> rat) \<Rightarrow> token_usage \<Rightarrow> string \<Rightarrow> completion_action \<Rightarrow> env \<Rightarrow> unit io" where
  "success_body c reservedTokens result metrics usage requestId action tx =
     bind (db_call tx (create_report (jc_userId c) (jc_repositoryId c) result (jc_jobId c))) (\<lambda>report.
     andThen (updateStats tx (jc_userId c) metrics)
     (let refundTokens = reservedTokens - totalTokens usage in
      andThen (if refundTokens > 0
               then db_call tx (update_user (jc_userId c) (credit refundTokens)) else ret ())
      (bind (now_io tx) (\<lambda>completedAt.
       andThen (transition tx (success_input c reservedTokens (p_id report) usage requestId completedAt))
       (action tx)))))"

section \<open>The pipeline\<close>

definition terminate_zero ::
  "env \<Rightarrow> job_context \<Rightarrow> failure_code \<Rightarrow> int \<Rightarrow> completion_action \<Rightarrow> execution_result \<Rightarrow> execution_result io" where
  "terminate_zero env c code refundTokens action result =
     andThen (terminateWorkerJob env c code (Some ZERO_TOKEN_USAGE) refundTokens []
               (default_terminate\<lparr>to_completionAction := action\<rparr>))
       (ret result)"

text \<open>After the model answered: the charge is recorded, then the result is persisted.\<close>

definition persist_result ::
  "env \<Rightarrow> job_context \<Rightarrow> int \<Rightarrow> llm_response \<Rightarrow> completion_action \<Rightarrow> run_options \<Rightarrow> execution_result io" where
  "persist_result env c reservedTokens response action options =
     (let usage = lr_usage response; requestId = lr_providerRequestId response;
          metrics = calculate (lr_result response) in
      if \<not> isValidAnalysisTokenUsage usage
      then andThen (terminateProviderReconciliation env c (Some reservedTokens) (Some requestId) None)
             (ret (ReconciliationRequired InvalidAnalysisTokenUsageError))
      else bind (attempt (recordProviderCharge env (charge_input c reservedTokens (Some usage) requestId)))
        (\<lambda>recorded. case recorded of
           Inl e \<Rightarrow> andThen (handlePostBillingPersistenceFailure env c reservedTokens requestId usage)
                      (ret (ReconciliationRequired e))
         | Inr _ \<Rightarrow>
             if totalTokens usage > reservedTokens
             then andThen (terminateProviderReconciliation env c (Some reservedTokens) (Some requestId) (Some usage))
                    (ret (TokenBudgetExceeded AnalysisTokenBudgetExceededError))
             else bind (attempt (andThen (onSaving options)
                    (transaction env (success_body c reservedTokens (lr_result response) metrics usage requestId action))))
               (\<lambda>saved. case saved of
                  Inl e \<Rightarrow> andThen (handlePostBillingPersistenceFailure env c reservedTokens requestId usage)
                             (ret (ReconciliationRequired e))
                | Inr _ \<Rightarrow> ret (Succeeded metrics))))"

definition call_model ::
  "llm_provider \<Rightarrow> env \<Rightarrow> collected_data \<Rightarrow> job_context \<Rightarrow> int \<Rightarrow> completion_action \<Rightarrow> run_options \<Rightarrow> execution_result io" where
  "call_model provider env data c reservedTokens action options =
     bind (attempt (analyze provider data (jc_version c))) (\<lambda>answer. case answer of
       Inr response \<Rightarrow> persist_result env c reservedTokens response action options
     | Inl e \<Rightarrow>
         (case e of
            LlmProviderReconciliationError requestId usage _ _ _ \<Rightarrow>
              andThen (checkpointAndTerminateProviderReconciliation env c (Some reservedTokens) requestId usage)
                (ret (ReconciliationRequired e))
          | _ \<Rightarrow>
              if deferUnbilledProviderErrors options then throw e
              else terminate_zero env c ANALYSIS_FAILED reservedTokens no_action (AnalysisFailed e)))"

definition executeAnalysis ::
  "llm_provider \<Rightarrow> env \<Rightarrow> collected_data \<Rightarrow> job_context \<Rightarrow> completion_action \<Rightarrow> run_options \<Rightarrow> execution_result io" where
  "executeAnalysis provider env data c action options =
     bind (db_call env (query (find_user (jc_userId c)))) (\<lambda>user.
     if user = None
     then throw (PlainError (''User with ID '' @ js_string_of_int (jc_userId c) @ '' not found.''))
     else
       (let refined = refine data; held = option_or (jc_reservedTokens c) 0 in
        if cd_pullRequests refined = []
        then terminate_zero env c NO_ANALYZABLE_DATA held action NoAnalyzableData
        else
          (let preprocessed = preprocess refined in
           case estimateTokenReservationForData provider preprocessed (jc_version c) of
             Inl e \<Rightarrow>
               (case e of
                  InputLimitExceededError _ _ _ \<Rightarrow>
                    terminate_zero env c INPUT_LIMIT_EXCEEDED held no_action (InputLimitExceeded e)
                | _ \<Rightarrow> throw e)
           | Inr reservation \<Rightarrow>
               bind (attempt (ensureWorkerTokenReservation env c reservation)) (\<lambda>reserved.
               case reserved of
                 Inl e \<Rightarrow>
                   (case e of
                      InsufficientAnalysisTokensError \<Rightarrow>
                        terminate_zero env c INSUFFICIENT_TOKENS 0 no_action (InsufficientTokens e)
                    | AnalysisTokenBudgetExceededError \<Rightarrow>
                        terminate_zero env c TOKEN_BUDGET_EXCEEDED held no_action (TokenBudgetExceeded e)
                    | _ \<Rightarrow> throw e)
               | Inr reservedTokens \<Rightarrow>
                   andThen (onTokensReserved options)
                     (call_model provider env preprocessed (c\<lparr>jc_reservedTokens := Some reservedTokens\<rparr>)
                       reservedTokens action options)))))"

section \<open>Entry points\<close>

definition resolveRunningExecution :: "env \<Rightarrow> string \<Rightarrow> string \<Rightarrow> (running_job_context \<times> job_context) io" where
  "resolveRunningExecution env jobId leaseToken =
     bind (getRunningJobContext env jobId leaseToken) (\<lambda>job.
     ret (job, \<lparr>jc_jobId = jobId, jc_leaseToken = leaseToken, jc_userId = rc_userId job,
                jc_repositoryId = rc_repositoryId job, jc_reservedTokens = rc_reservedTokens job,
                jc_version = \<lparr>modelVersion = rc_modelVersion job, promptVersion = rc_promptVersion job\<rparr>\<rparr>))"

definition reconcileProviderCheckpoint ::
  "env \<Rightarrow> running_job_context \<times> job_context \<Rightarrow> execution_result option io" where
  "reconcileProviderCheckpoint env resolved =
     (case resolved of (job, c) \<Rightarrow>
        (case getProviderChargeCheckpoint job of
           None \<Rightarrow> ret None
         | Some (requestId, usage) \<Rightarrow>
             andThen (terminateProviderReconciliation env c (rc_reservedTokens job) requestId usage)
               (ret (Some (ReconciliationRequired
                  (LlmProviderReconciliationError requestId usage ''INVALID_PROVIDER_RESPONSE'' None None))))))"

definition retireLegacyExecution :: "env \<Rightarrow> job_context \<Rightarrow> completion_action \<Rightarrow> execution_result option io" where
  "retireLegacyExecution env c action =
     (if \<not> isRetiredAnalysisExecutionVersion (jc_version c) then ret None
      else andThen (terminateWorkerJob env c UNSUPPORTED_ANALYSIS_VERSION (Some ZERO_TOKEN_USAGE)
                     (option_or (jc_reservedTokens c) 0) [] (default_terminate\<lparr>to_completionAction := action\<rparr>))
             (ret (Some (AnalysisFailed (UnsupportedAnalysisExecutionVersionError (jc_version c))))))"

definition runAnalysisJob ::
  "llm_provider \<Rightarrow> env \<Rightarrow> collected_data \<Rightarrow> string \<Rightarrow> string \<Rightarrow> completion_action \<Rightarrow> run_options \<Rightarrow> execution_result io" where
  "runAnalysisJob provider env data jobId leaseToken action options =
     bind (resolveRunningExecution env jobId leaseToken) (\<lambda>resolved.
     bind (reconcileProviderCheckpoint env resolved) (\<lambda>recovered.
     case recovered of
       Some r \<Rightarrow> ret r
     | None \<Rightarrow>
         bind (retireLegacyExecution env (snd resolved) action) (\<lambda>retired.
         case retired of
           Some r \<Rightarrow> ret r
         | None \<Rightarrow>
             andThen (throw_unless (isSupportedAnalysisExecutionVersion (jc_version (snd resolved)))
                       (UnsupportedAnalysisExecutionVersionError (jc_version (snd resolved))))
               (executeAnalysis provider env data (snd resolved) action options))))"

definition recoverProviderCheckpoint :: "env \<Rightarrow> string \<Rightarrow> string \<Rightarrow> execution_result option io" where
  "recoverProviderCheckpoint env jobId leaseToken =
     bind (resolveRunningExecution env jobId leaseToken) (\<lambda>resolved.
     bind (reconcileProviderCheckpoint env resolved) (\<lambda>recovered.
     case recovered of
       Some r \<Rightarrow> ret (Some r)
     | None \<Rightarrow> retireLegacyExecution env (snd resolved) no_action))"

text \<open>The synchronous path: create a job, claim it, run it; the result is metrics, nothing, or an error.\<close>

definition runAnalysis ::
  "(string \<Rightarrow> string) \<Rightarrow> llm_provider \<Rightarrow> env \<Rightarrow> int \<Rightarrow> int \<Rightarrow> collected_data \<Rightarrow> completion_action \<Rightarrow> (metric_key \<Rightarrow> rat) option io" where
  "runAnalysis sha256 provider env userId repositoryId data action =
     bind (uuid_io env) (\<lambda>leaseToken.
     bind (now_io env) (\<lambda>startedAt.
     bind (uuid_io env) (\<lambda>key.
     bind (create sha256 env \<lparr>cj_userId = userId, cj_repositoryId = repositoryId,
             cj_idempotencyKey = ''sync:'' @ key, cj_sourceCursor = None, cj_collectionCutoff = None\<rparr>) (\<lambda>job.
     andThen (transition env (Claim (j_id job) leaseToken (DateMs (startedAt + 15 * 60 * 1000)) (DateMs startedAt)))
     (bind (runAnalysisJob provider env data (j_id job) leaseToken action no_options) (\<lambda>result.
      case result of
        Succeeded metrics \<Rightarrow> ret (Some metrics)
      | NoAnalyzableData \<Rightarrow> ret None
      | AnalysisFailed e \<Rightarrow> throw e
      | InsufficientTokens e \<Rightarrow> throw e
      | InputLimitExceeded e \<Rightarrow> throw e
      | ReconciliationRequired e \<Rightarrow> throw e
      | TokenBudgetExceeded e \<Rightarrow> throw e))))))"

section \<open>Ending a job keeps the ledger's guarantee\<close>

text \<open>
  The arithmetic of the callers: what is refunded and debited in addition makes the usage out
  of the reservation. A transition refuses a negative reservation, so it need not hold there.
\<close>

definition balanced :: "job_context \<Rightarrow> token_usage option \<Rightarrow> int \<Rightarrow> terminate_options \<Rightarrow> bool" where
  "balanced c usage refundTokens opts \<longleftrightarrow>
     (0 \<le> option_or (jc_reservedTokens c) 0 \<longrightarrow>
      (if to_tokensSettled opts
       then option_all (\<lambda>u. totalTokens u = option_or (jc_reservedTokens c) 0
              + max 0 (to_additionalDebitTokens opts) - max 0 refundTokens) usage
       else to_additionalDebitTokens opts \<le> 0))"

lemma debit_moved:
  assumes "debit_user (quiet env) u n w = (Inr paid, w')" "distinct (map u_id (users (wdb w)))"
  shows "users_moved u (if paid then - n else 0) (wdb w) (wdb w')"
proof -
  let ?p = "\<lambda>r. u_id r = u \<and> n \<le> u_availableTokens r"
  obtain count now where run: "update_users ?p (debit n) now (wdb w) = Inr (count, wdb w')"
    and paid: "paid = (count = 1)"
    using assms(1) by (auto simp: debit_user_def run_simps)
  show ?thesis
  proof (cases paid)
    case True
    with run paid have "update_users ?p (debit n) now (wdb w) = Inr (1, wdb w')" by simp
    then have "users_moved u (- n) (wdb w) (wdb w')"
      by (rule update_users_moved [OF _ assms(2)]) (simp_all add: debit_def)
    with True show ?thesis by simp
  next
    case False
    have "count \<le> 1"
      by (rule users_table.bulk_update_count_le_1 [OF run [unfolded update_users_def] assms(2)]) simp
    with False paid run have "update_users ?p (debit n) now (wdb w) = Inr (0, wdb w')"
      by (cases "count = 0") auto
    then have "wdb w' = wdb w"
      unfolding update_users_def by (rule users_table.bulk_update_none)
    with False show ?thesis by (simp add: users_moved_refl)
  qed
qed

lemma pay_moved:
  assumes "(if b then db_call (quiet env) (update_user u (credit n)) else ret ()) w = (Inr x, w')"
    "distinct (map u_id (users (wdb w)))"
  shows "users_moved u (if b then n else 0) (wdb w) (wdb w')"
  using assms by (auto simp: run_simps users_moved_refl intro: credit_moved split: if_splits)

lemma moved_distinct:
  "users_moved u n d d' \<Longrightarrow> distinct (map u_id (users d)) \<Longrightarrow> distinct (map u_id (users d'))"
  by (simp add: users_moved_def)

lemma terminal_transition_evolves:
  assumes run: "transition (quiet env) (FailRunning i f r s) w = (Inr (), w')"
    and moved: "users_moved (fn_userId f) delta d (wdb w)"
    and bal: "0 \<le> option_or r 0 \<Longrightarrow> (if si_tokensSettledAt s = None then option_or r 0
               else option_or (snd (snd (si_usage s))) 0) = option_or r 0 - delta"
  shows "evolves d (wdb w')"
proof -
  note t = transition_quiet(2,3) [OF run]
  have "0 \<le> option_or r 0" using t(1) by (auto simp: assert_defs split: option.splits)
  with t fail_evolves [OF moved _ _ bal] show ?thesis by blast
qed

lemma failure_fields [simp]:
  "si_tokensSettledAt (failure t b u ids c) = (if b then Some (DateMs t) else None)"
  "si_usage (failure t b u ids c) = usage_triple u" "fn_userId (context_fence x) = jc_userId x"
  by (simp_all add: failure_def context_fence_def)

lemma terminate_body_run:
  assumes "terminate_body c code usage refundTokens ids opts t (quiet env) w = (Inr a, w')"
  obtains paid w1 w2 w3 where
    "(if to_additionalDebitTokens opts > 0
      then debit_user (quiet env) (jc_userId c) (to_additionalDebitTokens opts) else ret True) w = (Inr paid, w1)"
    "(if (to_tokensSettled opts \<and> paid) \<and> refundTokens > 0
      then db_call (quiet env) (update_user (jc_userId c) (credit refundTokens)) else ret ()) w1 = (Inr (), w2)"
    "(if to_tokensSettled opts \<and> paid
      then (case usage of None \<Rightarrow> throw InvalidAnalysisTokenUsageError
        | Some u \<Rightarrow> transition (quiet env) (FailRunning (jc_jobId c) (context_fence c) (jc_reservedTokens c)
            (failure t True usage ids (if paid then code else PROVIDER_RECONCILIATION_REQUIRED))))
      else transition (quiet env) (FailRunning (jc_jobId c) (context_fence c) (jc_reservedTokens c)
        (failure t False usage ids PROVIDER_RECONCILIATION_REQUIRED))) w2 = (Inr (), w3)"
    "to_completionAction opts (quiet env) w3 = (Inr a, w')"
  using assms by (auto simp: terminate_body_def Let_def andThen_Inr bind_Inr)

lemma terminate_body_guar:
  assumes bal: "balanced c usage refundTokens opts"
    and action: "body_guar evolves (to_completionAction opts)"
  shows "body_guar evolves (terminate_body c code usage refundTokens ids opts t)"
  unfolding body_guar_def
proof (intro allI impI, rule evolves_under_inv)
  fix env :: env and w w' :: world and a
  let ?add = "to_additionalDebitTokens opts" and ?u = "jc_userId c"
  assume run: "terminate_body c code usage refundTokens ids opts t (quiet env) w = (Inr a, w')"
    and inv: "ledger_inv (wdb w)"
  obtain paid w1 w2 w3 where
    1: "(if ?add > 0 then debit_user (quiet env) ?u ?add else ret True) w = (Inr paid, w1)" and
    2: "(if (to_tokensSettled opts \<and> paid) \<and> refundTokens > 0
         then db_call (quiet env) (update_user ?u (credit refundTokens)) else ret ()) w1 = (Inr (), w2)" and
    3: "(if to_tokensSettled opts \<and> paid
         then (case usage of None \<Rightarrow> throw InvalidAnalysisTokenUsageError
           | Some u \<Rightarrow> transition (quiet env) (FailRunning (jc_jobId c) (context_fence c) (jc_reservedTokens c)
               (failure t True usage ids (if paid then code else PROVIDER_RECONCILIATION_REQUIRED))))
         else transition (quiet env) (FailRunning (jc_jobId c) (context_fence c) (jc_reservedTokens c)
           (failure t False usage ids PROVIDER_RECONCILIATION_REQUIRED))) w2 = (Inr (), w3)" and
    4: "to_completionAction opts (quiet env) w3 = (Inr a, w')"
    using terminate_body_run [OF run] .
  have "users_moved ?u (if ?add > 0 \<and> paid then - ?add else 0) (wdb w) (wdb w1)"
    using 1 debit_moved [of env ?u ?add w paid w1] ledger_invD(2) [OF inv]
    by (auto simp: run_simps users_moved_refl split: if_splits)
  from users_moved_trans [OF this pay_moved [OF 2 moved_distinct [OF this ledger_invD(2) [OF inv]]]]
  have moved': "users_moved (fn_userId (context_fence c)) ((if ?add > 0 \<and> paid then - ?add else 0)
      + (if (to_tokensSettled opts \<and> paid) \<and> refundTokens > 0 then refundTokens else 0)) (wdb w) (wdb w2)"
    by simp
  have "evolves (wdb w) (wdb w3)"
  proof (cases "to_tokensSettled opts \<and> paid")
    case True
    with 3 obtain u where u: "usage = Some u" by (auto simp: run_simps split: option.splits)
    with 3 True have "transition (quiet env) (FailRunning (jc_jobId c) (context_fence c) (jc_reservedTokens c)
        (failure t True usage ids code)) w2 = (Inr (), w3)" by simp
    then show ?thesis
      by (rule terminal_transition_evolves [OF _ moved'])
        (use bal True u in \<open>auto simp: balanced_def usage_triple_def\<close>)
  next
    case False
    with 3 have "transition (quiet env) (FailRunning (jc_jobId c) (context_fence c) (jc_reservedTokens c)
        (failure t False usage ids PROVIDER_RECONCILIATION_REQUIRED)) w2 = (Inr (), w3)" by auto
    then show ?thesis
      by (rule terminal_transition_evolves [OF _ moved'])
        (use bal False 1 in \<open>auto simp: balanced_def run_simps split: if_splits\<close>)
  qed
  with action 4 show "evolves (wdb w) (wdb w')"
    unfolding body_guar_def by (blast intro: ledger.G_trans)
qed

lemma terminateWorkerJob_guar:
  assumes "rely evolves env" "balanced c usage refundTokens opts"
    "body_guar evolves (to_completionAction opts)"
  shows "guar evolves (terminateWorkerJob env c code usage refundTokens ids opts)"
  unfolding terminateWorkerJob_def by (intro guar_intros terminate_body_guar assms)

lemma no_action_guar [simp]: "body_guar evolves no_action"
  by (simp add: body_guar_def no_action_def run_simps ledger.G_refl)

lemma default_terminate_simps [simp]:
  "to_completionAction default_terminate = no_action"
  "to_tokensSettled default_terminate" "to_additionalDebitTokens default_terminate = 0"
  by (simp_all add: default_terminate_def)

lemma terminateProviderReconciliation_guar:
  assumes "rely evolves env" "r \<noteq> None \<Longrightarrow> jc_reservedTokens c = r"
  shows "guar evolves (terminateProviderReconciliation env c r i usage)"
  unfolding terminateProviderReconciliation_def
  by (auto intro!: terminateWorkerJob_guar [OF assms(1)] simp: balanced_def assms(2)
      split: option.splits)

lemma handlePostBilling_guar:
  assumes "rely evolves env" "jc_reservedTokens c = Some r"
  shows "guar evolves (handlePostBillingPersistenceFailure env c r i usage)"
  unfolding handlePostBillingPersistenceFailure_def
  by (intro ledger.guar_catch ledger.guar_throw terminateProviderReconciliation_guar assms)

section \<open>Reserving tokens keeps the ledger's guarantee\<close>

lemma reserve_body_guar: "body_guar evolves (reserve_body c r)"
  unfolding body_guar_def
proof (intro allI impI, rule evolves_under_inv)
  fix env :: env and w w' :: world and a
  assume run: "reserve_body c r (quiet env) w = (Inr a, w')" and inv: "ledger_inv (wdb w)"
  then obtain w1 where 1: "debit_user (quiet env) (jc_userId c) (tr_reservedTokens r) w = (Inr True, w1)"
    and 2: "reserveTokens (quiet env) (reserve_input c r) w1 = (Inr a, w')"
    by (auto simp: reserve_body_def andThen_Inr bind_Inr throw_unless_Inr)
  from debit_moved [OF 1 ledger_invD(2) [OF inv]]
  have moved: "users_moved (ri_expectedUserId (reserve_input c r)) (- ri_reservedTokens (reserve_input c r))
      (wdb w) (wdb w1)"
    by (simp add: reserve_input_def)
  from reserveTokens_quiet(2) [OF 2] obtain now where
    "update_jobs (reserve_where (reserve_input c r)) (reserve_set (reserve_input c r)) now (wdb w1) = Inr (1, wdb w')"
    by blast
  with moved show "evolves (wdb w) (wdb w')" by (rule reserve_evolves)
qed

lemma ensure_reservation_guar:
  "rely evolves env \<Longrightarrow> guar evolves (ensureWorkerTokenReservation env c r)"
  unfolding ensureWorkerTokenReservation_def
  by (intro ledger.guar_andThen ledger.guar_of_result)
    (auto intro!: guar_intros reserve_body_guar split: option.splits)

section \<open>Success keeps the ledger's guarantee\<close>

lemma create_report_Inr:
  assumes "create_report u r res i now d = Inr (p, d')"
  shows "d' = d\<lparr>reports := reports d @ [p]\<rparr>" "p_jobId p = Some i" "p_userId p = u"
    "p_repositoryId p = r" "\<And>q. q \<in> set (reports d) \<Longrightarrow> p_jobId q \<noteq> Some i"
  using assms by (auto simp: create_report_def reports_table.insert_row_Inr split: if_splits)

lemma updateStats_same:
  "updateStats (quiet env) u m w = (Inr a, w') \<Longrightarrow>
     users (wdb w') = users (wdb w) \<and> jobs (wdb w') = jobs (wdb w) \<and> reports (wdb w') = reports (wdb w)"
  by (auto simp: updateStats_def acquire_lock_def run_simps create_stat_def stats_table.insert_row_Inr
      update_stat_def stats_table.bulk_update_Inr split: option.splits sum.splits if_splits)

text \<open>The report of a job and its row are written together; between them nothing else changed.\<close>

lemma success_reports_match:
  assumes inv: "reports_match d" and reps: "reports d' = reports d @ [p]"
    and jobs': "jobs d' = update_where P f (jobs d)"
    and j: "j \<in> set (jobs d)" "P j" "\<And>x. x \<in> set (jobs d) \<Longrightarrow> P x \<Longrightarrow> x = j"
      "j_status j \<noteq> SUCCEEDED" "j_status (f j) = SUCCEEDED" "report_of (f j) p"
  shows "reports_match d'"
  unfolding reports_match_def
proof (intro conjI ballI impI)
  have fj: "f j \<in> set (jobs d')" using j(1,2) by (force simp: jobs' set_update_where)
  fix q assume q: "q \<in> set (reports d')" "p_jobId q \<noteq> None"
  show "\<exists>x \<in> set (jobs d'). report_of x q \<and> j_status x = SUCCEEDED"
  proof (cases "q = p")
    case True
    with fj j show ?thesis by blast
  next
    case False
    with q inv obtain x where x: "x \<in> set (jobs d)" "report_of x q" "j_status x = SUCCEEDED"
      unfolding reports_match_def reps by auto
    with j(3,4) have "\<not> P x" by blast
    with x have "x \<in> set (jobs d')" by (force simp: jobs' set_update_where)
    with x show ?thesis by blast
  qed
next
  fix x assume x: "x \<in> set (jobs d')" "j_status x = SUCCEEDED"
  then obtain y where y: "y \<in> set (jobs d)" "x = (if P y then f y else y)"
    by (auto simp: jobs' set_update_where)
  show "\<exists>q \<in> set (reports d'). report_of x q"
  proof (cases "P y")
    case True
    with y j(3) have "x = f j" by auto
    with j(6) show ?thesis by (auto simp: reps)
  next
    case False
    with y x inv show ?thesis by (auto simp: reports_match_def reps)
  qed
qed

text \<open>
  From the database \<open>d\<close> to \<open>d3\<close> the report was added and the user was refunded; the transition
  then makes \<open>d'\<close> of \<open>d3\<close>.
\<close>

lemma success_evolves:
  assumes trans: "transition_stmt (toTransitionRecord (Succeed i f r rid s)) now d3 = Inr (1, d')"
    and valid: "validateTransitionInput (Succeed i f r rid s) = Inr ()"
    and settled: "si_tokensSettledAt s \<noteq> None"
    and users: "users_moved (fn_userId f) delta (d\<lparr>reports := reports d @ [p]\<rparr>) d3"
    and p: "p_jobId p = Some i" "p_userId p = fn_userId f" "p_repositoryId p = fn_repositoryId f"
    and bal: "option_or (snd (snd (si_usage s))) 0 = r - delta"
  shows "evolves d d'"
proof (rule evolvesI)
  let ?x = "toTransitionRecord (Succeed i f r rid s)"
  let ?P = "transition_where ?x d3" and ?f = "\<lambda>j. (transition_set ?x j)\<lparr>j_updatedAt := now\<rparr>"
  have w: "job_write ?P ?f"
    by (rule job_write.stamped [OF transition_write [OF validated_data_ok [OF valid]]])
  have d3: "jobs d3 = jobs d" "reports d3 = reports d @ [p]" "map u_id (users d3) = map u_id (users d)"
    and av: "\<forall>v. available v d3 = available v d + (if v = fn_userId f then delta else 0)"
    using users by (simp_all add: users_moved_def available_def)
  obtain j where j: "j \<in> set (jobs d)" "?P j" and d': "d' = d3\<lparr>jobs := update_where ?P ?f (jobs d3)\<rparr>"
    using transition_row [OF trans] d3(1) by metis
  have run: "bulk_update jobs put_jobs job_checks ?P ?f d3 = Inr (1, d')"
    using trans by (simp add: transition_stmt_def update_jobs_def)
  have row: "j_id j = i" "j_status j = RUNNING" "j_userId j = fn_userId f"
      "j_repositoryId j = fn_repositoryId f" "j_reservedTokens j = Some r"
    using j(2) by (simp_all add: succeed_where)
  have ids: "j_id x = j_id j" if "?P x" for x using that row(1) by (simp add: succeed_where)
  show "rows_evolve d d'" by (rule job_write.rows_evolve [OF w]) (simp add: d' d3(1))
  show "u_id ` set (users d) \<subseteq> u_id ` set (users d')"
    using arg_cong [OF d3(3), of set] by (simp add: d')
  assume inv: "ledger_inv d"
  note dist = ledger_invD(1) [OF inv]
  have "jobs_inv d'"
    using inv by (intro job_write.move_jobs_inv [OF w _ run d3(1)]) (simp add: ledger_inv_def)
  moreover have "reports_match d'"
  proof (rule success_reports_match [OF ledger_invD(5) [OF inv]])
    show "reports d' = reports d @ [p]" "jobs d' = update_where ?P ?f (jobs d)"
      by (simp_all add: d' d3)
    show "x = j" if "x \<in> set (jobs d)" "?P x" for x
      using keyed_row_unique [OF dist that(1) j(1) ids [OF that(2)]] .
    have "same_identity j (transition_set ?x j)" by simp
    with row p show "report_of (?f j) p" by (simp add: report_of_def same_identity_def)
  qed (use j row in auto)
  ultimately show "ledger_inv d'" using inv d3(3) by (simp add: ledger_inv_def d')
  have "charge j = r"
    using ledger_invD(3) [OF inv j(1)] row by (simp add: job_ok_def active_charge active_def)
  moreover have "charge (?f j) = r - delta"
    using settled bal by (simp only: updatedAt_simps charge_succeed) (auto simp: settled_charge_def)
  ultimately show "wealth v d' = wealth v d" for v
    by (intro job_write.move_wealth [OF w d3(1) _ _ av dist j ids row(3)]) (simp_all add: d')
qed

lemma success_body_guar:
  assumes action: "body_guar evolves action" and cover: "totalTokens usage \<le> r"
  shows "body_guar evolves (success_body c r res m usage rid action)"
  unfolding body_guar_def
proof (intro allI impI, rule evolves_under_inv)
  fix env :: env and w w' :: world and a
  let ?i = "jc_jobId c" and ?refund = "r - totalTokens usage"
  assume run: "success_body c r res m usage rid action (quiet env) w = (Inr a, w')"
    and inv: "ledger_inv (wdb w)"
  then obtain p w1 w2 w3 w5 t where
    1: "db_call (quiet env) (create_report (jc_userId c) (jc_repositoryId c) res ?i) w = (Inr p, w1)" and
    2: "updateStats (quiet env) (jc_userId c) m w1 = (Inr (), w2)" and
    3: "(if ?refund > 0 then db_call (quiet env) (update_user (jc_userId c) (credit ?refund)) else ret ()) w2
        = (Inr (), w3)" and
    5: "transition (quiet env) (success_input c r (p_id p) usage rid t) (w3\<lparr>tick := Suc (tick w3)\<rparr>)
        = (Inr (), w5)" and
    6: "action (quiet env) w5 = (Inr a, w')"
    unfolding success_body_def Let_def andThen_Inr bind_Inr now_io_quiet now_io_Inr by auto
  obtain now where cr: "create_report (jc_userId c) (jc_repositoryId c) res ?i now (wdb w) = Inr (p, wdb w1)"
    using 1 by (auto simp: run_simps)
  note p = create_report_Inr [OF cr]
  note same = updateStats_same [OF 2]
  have "distinct (map u_id (users (wdb w2)))"
    using same p(1) ledger_invD(2) [OF inv] by simp
  from pay_moved [OF 3 this]
  have moved: "users_moved (jc_userId c) ?refund (wdb w1) (wdb w3)"
    using cover same by (auto simp: users_moved_def available_def split: if_splits)
  note t = transition_quiet(2,3) [OF 5]
  obtain now' where "transition_stmt (toTransitionRecord (success_input c r (p_id p) usage rid t)) now' (wdb w3)
      = Inr (1, wdb w5)" using t(2) by auto
  then have "evolves (wdb w) (wdb w5)"
    unfolding success_input_def
    by (rule success_evolves [OF _ t(1) [unfolded success_input_def]])
      (use moved p in \<open>auto simp: usage_triple_def context_fence_def\<close>)
  with action 6 show "evolves (wdb w) (wdb w')"
    unfolding body_guar_def by (blast intro: ledger.G_trans)
qed

section \<open>The pipeline keeps the ledger's guarantee\<close>

definition provider_guar :: "llm_provider \<Rightarrow> bool" where
  "provider_guar p \<longleftrightarrow> (\<forall>d v. guar evolves (analyze p d v))"

definition options_guar :: "run_options \<Rightarrow> bool" where
  "options_guar opts \<longleftrightarrow> guar evolves (onTokensReserved opts) \<and> guar evolves (onSaving opts)"

lemma no_options_guar [simp]: "options_guar no_options"
  by (simp add: options_guar_def no_options_def ledger.guar_ret)

lemma terminate_zero_guar:
  assumes "rely evolves env" "body_guar evolves action"
    "option_or (jc_reservedTokens c) 0 = refundTokens"
  shows "guar evolves (terminate_zero env c code refundTokens action result)"
  unfolding terminate_zero_def
  by (intro ledger.guar_andThen ledger.guar_ret terminateWorkerJob_guar assms(1))
    (use assms in \<open>simp_all add: balanced_def ZERO_TOKEN_USAGE_def\<close>)

lemma checkpointAndTerminate_guar:
  assumes "rely evolves env" "r \<noteq> None \<Longrightarrow> jc_reservedTokens c = r"
  shows "guar evolves (checkpointAndTerminateProviderReconciliation env c r i u)"
  unfolding checkpointAndTerminateProviderReconciliation_def Let_def
  by (intro ledger.guar_bind ledger.guar_catch ledger.guar_throw
      terminateProviderReconciliation_guar assms)
    (auto intro!: guar_intros recordProviderCharge_guar assms(1) split: option.splits)

lemma persist_result_guar:
  assumes env: "rely evolves env" and r: "jc_reservedTokens c = Some r"
    and action: "body_guar evolves action" and opts: "options_guar opts"
  shows "guar evolves (persist_result env c r response action opts)"
proof -
  note parts = ledger.guar_andThen ledger.guar_ret ledger.guar_bind ledger.guar_attempt
    ledger.guar_if terminateProviderReconciliation_guar [OF env] handlePostBilling_guar [OF env r]
    recordProviderCharge_guar [OF env] ledger.guar_transaction [OF env]
  have saving: "guar evolves (onSaving opts)" using opts by (simp add: options_guar_def)
  show ?thesis
    unfolding persist_result_def Let_def
    by (intro ledger.guar_if ledger.guar_bind ledger.guar_attempt)
      (auto intro!: parts saving success_body_guar [OF action] simp: r split: sum.splits)
qed

lemma call_model_guar:
  assumes env: "rely evolves env" and r: "jc_reservedTokens c = Some r"
    and action: "body_guar evolves action" and opts: "options_guar opts" and p: "provider_guar p"
  shows "guar evolves (call_model p env data c r action opts)"
proof -
  have failed: "guar evolves (case e of
            LlmProviderReconciliationError requestId usage a b d \<Rightarrow>
              andThen (checkpointAndTerminateProviderReconciliation env c (Some r) requestId usage)
                (ret (ReconciliationRequired e))
          | _ \<Rightarrow>
              if deferUnbilledProviderErrors opts then throw e
              else terminate_zero env c ANALYSIS_FAILED r no_action (AnalysisFailed e))" for e
    by (cases e; simp; intro conjI impI ledger.guar_andThen ledger.guar_ret ledger.guar_throw
        checkpointAndTerminate_guar terminate_zero_guar env) (simp_all add: r)
  show ?thesis
    unfolding call_model_def
    by (intro ledger.guar_bind ledger.guar_attempt)
      (use p failed persist_result_guar [OF env r action opts] in
        \<open>auto simp: provider_guar_def split: sum.splits\<close>)
qed

lemma ensure_reservation_held:
  "jc_reservedTokens c = Some n \<Longrightarrow>
     fst (ensureWorkerTokenReservation env c r w) \<noteq> Inl InsufficientAnalysisTokensError"
  by (auto simp: ensureWorkerTokenReservation_def andThen_def bind_def of_result_def ret_def throw_def
      assertValidReservation_def require_def split: if_splits)

lemma executeAnalysis_guar:
  assumes env: "rely evolves env" and action: "body_guar evolves action" and opts: "options_guar opts"
    and p: "provider_guar p"
  shows "guar evolves (executeAnalysis p env data c action opts)"
proof -
  note zero = terminate_zero_guar [OF env no_action_guar] terminate_zero_guar [OF env action]
  have estimate: "guar evolves (case e of
       InputLimitExceededError k l n \<Rightarrow>
         terminate_zero env c INPUT_LIMIT_EXCEEDED (option_or (jc_reservedTokens c) 0) no_action (InputLimitExceeded e)
     | _ \<Rightarrow> throw e)" for e
    by (cases e) (simp_all add: ledger.guar_throw zero)
  have refused: "guar evolves (case e of
       InsufficientAnalysisTokensError \<Rightarrow>
         terminate_zero env c INSUFFICIENT_TOKENS 0 no_action (InsufficientTokens e)
     | AnalysisTokenBudgetExceededError \<Rightarrow>
         terminate_zero env c TOKEN_BUDGET_EXCEEDED (option_or (jc_reservedTokens c) 0) no_action (TokenBudgetExceeded e)
     | _ \<Rightarrow> throw e)"
    if "e = InsufficientAnalysisTokensError \<Longrightarrow> jc_reservedTokens c = None" for e
    using that by (cases e) (simp_all add: ledger.guar_throw zero)
  have reserved: "guar evolves (bind (attempt (ensureWorkerTokenReservation env c r)) (\<lambda>reserved.
       case reserved of
         Inl e \<Rightarrow> (case e of
             InsufficientAnalysisTokensError \<Rightarrow>
               terminate_zero env c INSUFFICIENT_TOKENS 0 no_action (InsufficientTokens e)
           | AnalysisTokenBudgetExceededError \<Rightarrow>
               terminate_zero env c TOKEN_BUDGET_EXCEEDED (option_or (jc_reservedTokens c) 0) no_action (TokenBudgetExceeded e)
           | _ \<Rightarrow> throw e)
       | Inr n \<Rightarrow> andThen (onTokensReserved opts)
           (call_model p env d (c\<lparr>jc_reservedTokens := Some n\<rparr>) n action opts)))" for r d
  proof (rule ledger.guar_bind_reach, goal_cases)
    case 1
    show ?case by (intro ledger.guar_attempt ensure_reservation_guar env)
  next
    case (2 w a w')
    show ?case
    proof (cases a)
      case (Inl e)
      have "jc_reservedTokens c = None" if "e = InsufficientAnalysisTokensError"
        using ensure_reservation_held [of c _ env r w] 2 Inl that
        by (cases "jc_reservedTokens c") (auto simp: attempt_def split: prod.splits)
      from refused [OF this] Inl show ?thesis by simp
    next
      case (Inr n)
      then show ?thesis
        using opts by (simp add: options_guar_def ledger.guar_andThen call_model_guar env action p
            opts)
    qed
  qed
  show ?thesis
    unfolding executeAnalysis_def Let_def
    by (intro ledger.guar_bind ledger.guar_db_call ledger.stmt_guar_query env ledger.guar_if
        ledger.guar_throw zero)
      (auto intro!: reserved estimate split: sum.splits)
qed

lemma resolve_guar: "rely evolves env \<Longrightarrow> guar evolves (resolveRunningExecution env i l)"
  unfolding resolveRunningExecution_def
  by (intro ledger.guar_bind ledger.guar_ret getRunningJobContext_guar)

lemma resolve_run:
  "resolveRunningExecution env i l w = (Inr (job, c), w') \<Longrightarrow> jc_reservedTokens c = rc_reservedTokens job"
  by (auto simp: resolveRunningExecution_def run_simps)

lemma reconcile_guar:
  "rely evolves env \<Longrightarrow> jc_reservedTokens c = rc_reservedTokens job \<Longrightarrow>
     guar evolves (reconcileProviderCheckpoint env (job, c))"
  unfolding reconcileProviderCheckpoint_def
  by (auto intro!: ledger.guar_andThen ledger.guar_ret terminateProviderReconciliation_guar
      split: option.splits)

lemma retire_guar:
  "rely evolves env \<Longrightarrow> body_guar evolves action \<Longrightarrow> guar evolves (retireLegacyExecution env c action)"
  unfolding retireLegacyExecution_def
  by (intro ledger.guar_if ledger.guar_ret ledger.guar_andThen terminateWorkerJob_guar)
    (auto simp: balanced_def ZERO_TOKEN_USAGE_def)

lemma runAnalysisJob_guar:
  assumes "rely evolves env" "body_guar evolves action" "options_guar opts" "provider_guar p"
  shows "guar evolves (runAnalysisJob p env data i l action opts)"
  unfolding runAnalysisJob_def
proof (rule ledger.guar_bind_reach [OF resolve_guar [OF assms(1)]], goal_cases)
  case (1 w resolved w')
  have "guar evolves (reconcileProviderCheckpoint env resolved)"
    using resolve_run [of env i l w "fst resolved" "snd resolved" w'] 1
    by (cases resolved) (simp add: reconcile_guar assms(1))
  then show ?case
    by (rule ledger.guar_bind)
      (auto intro!: ledger.guar_bind ledger.guar_ret ledger.guar_andThen ledger.guar_throw_unless
        retire_guar executeAnalysis_guar assms split: option.splits)
qed

lemma recoverProviderCheckpoint_guar:
  assumes "rely evolves env"
  shows "guar evolves (recoverProviderCheckpoint env i l)"
  unfolding recoverProviderCheckpoint_def
proof (rule ledger.guar_bind_reach [OF resolve_guar [OF assms]], goal_cases)
  case (1 w resolved w')
  have "guar evolves (reconcileProviderCheckpoint env resolved)"
    using resolve_run [of env i l w "fst resolved" "snd resolved" w'] 1
    by (cases resolved) (simp add: reconcile_guar assms)
  then show ?case
    by (rule ledger.guar_bind)
      (auto intro!: ledger.guar_ret retire_guar assms split: option.splits)
qed

lemma runAnalysis_guar:
  assumes "rely evolves env" "body_guar evolves action" "provider_guar p"
  shows "guar evolves (runAnalysis sha256 p env u r data action)"
  unfolding runAnalysis_def
  by (intro ledger.guar_bind ledger.guar_andThen ledger.guar_uuid ledger.guar_now create_guar
      transition_guar runAnalysisJob_guar assms no_options_guar)
    (auto intro: ledger.guar_ret ledger.guar_throw split: execution_result.splits)

end
