(* ===== verification/ErrorClassifier.thy ===== *)
theory ErrorClassifier
  imports Errors
begin

text \<open>
  The classification of a failure of the worker
  (\<open>src/src/analysis-worker/analysis-worker-error-classifier.ts\<close>): a code, a safe message,
  whether the job may be tried again, and the earliest time the provider allows.
\<close>

definition RETRYABLE_PRISMA_CODES :: "string list" where
  "RETRYABLE_PRISMA_CODES = [''P1001'', ''P1002'', ''P1008'', ''P1017'', ''P2024'', ''P2034'']"

definition RETRYABLE_NETWORK_CODES :: "string list" where
  "RETRYABLE_NETWORK_CODES = [''ECONNABORTED'', ''ECONNREFUSED'', ''ECONNRESET'', ''EHOSTUNREACH'',
     ''ENETUNREACH'', ''ENOTFOUND'', ''ETIMEDOUT'']"

text \<open>The values of \<open>AnalysisWorkerFailureCode\<close>.\<close>

definition worker_failure_codes :: "string list" where
  "worker_failure_codes = [''ANALYSIS_FAILED'', ''DATABASE_TEMPORARY_FAILURE'',
     ''GITHUB_TEMPORARY_FAILURE'', ''GITHUB_PAGINATION_INVALID'', ''GITHUB_RESPONSE_INVALID'',
     ''INPUT_LIMIT_EXCEEDED'', ''INVALID_MESSAGE'', ''PROVIDER_CONFIGURATION_ERROR'',
     ''PROVIDER_RECONCILIATION_REQUIRED'', ''PROVIDER_REQUEST_INVALID'',
     ''PROVIDER_TEMPORARY_FAILURE'', ''REPOSITORY_UNAVAILABLE'', ''UNSUPPORTED_ANALYSIS_VERSION'',
     ''WORKER_LEASE_UNAVAILABLE'']"

record classification =
  cl_code :: string
  cl_message :: string
  cl_retryable :: bool
  cl_retryAt :: "int option"

definition retryable :: "string \<Rightarrow> string \<Rightarrow> classification" where
  "retryable code message = \<lparr>cl_code = code, cl_message = message, cl_retryable = True, cl_retryAt = None\<rparr>"

definition permanent :: "string \<Rightarrow> string \<Rightarrow> classification" where
  "permanent code message = \<lparr>cl_code = code, cl_message = message, cl_retryable = False, cl_retryAt = None\<rparr>"

fun isRetryablePrismaError :: "err \<Rightarrow> bool" where
  "isRetryablePrismaError (PrismaError (PrismaClientKnownRequestError c)) = (c \<in> set RETRYABLE_PRISMA_CODES)"
| "isRetryablePrismaError (PrismaError _) = True"
| "isRetryablePrismaError _ = False"

text \<open>The cases decided by the error's class, in the order of the code; the others are \<^const>\<open>None\<close>.\<close>

fun classify_class :: "err \<Rightarrow> classification option" where
  "classify_class (InputLimitExceededError k l n) =
     Some (permanent ''INPUT_LIMIT_EXCEEDED'' (input_limit_message k l n))"
| "classify_class (GithubPaginationError _ _) =
     Some (permanent ''GITHUB_PAGINATION_INVALID'' ''GitHub pagination data is invalid.'')"
| "classify_class (InvalidGithubDateError _) =
     Some (permanent ''GITHUB_RESPONSE_INVALID'' ''GitHub returned invalid repository data.'')"
| "classify_class (GithubRateLimitError _ retryAt) =
     Some \<lparr>cl_code = ''GITHUB_TEMPORARY_FAILURE'', cl_message = ''GitHub rate limit was exceeded.'',
           cl_retryable = True, cl_retryAt = Some retryAt\<rparr>"
| "classify_class (StaleAnalysisWorkerLeaseError _) =
     Some (retryable ''WORKER_LEASE_UNAVAILABLE'' ''The analysis job lease is unavailable.'')"
| "classify_class (StaleAnalysisJobTransitionError _ _) =
     Some (retryable ''WORKER_LEASE_UNAVAILABLE'' ''The analysis job lease is unavailable.'')"
| "classify_class (BilledAnalysisJobRequiresReconciliationError _) =
     Some (permanent ''PROVIDER_RECONCILIATION_REQUIRED'' ''The provider charge requires reconciliation.'')"
| "classify_class (PostBillingAnalysisPersistenceError _ _ _) =
     Some (retryable ''DATABASE_TEMPORARY_FAILURE'' ''The billed analysis result could not be persisted.'')"
| "classify_class (OpenAIError c) =
     (case c of
        AuthenticationError \<Rightarrow>
          Some (permanent ''PROVIDER_CONFIGURATION_ERROR'' ''The analysis provider is not configured correctly.'')
      | BadRequestError \<Rightarrow>
          Some (permanent ''PROVIDER_REQUEST_INVALID'' ''The analysis provider rejected the request.'')
      | OtherAPIError _ \<Rightarrow> None
      | _ \<Rightarrow> Some (retryable ''PROVIDER_TEMPORARY_FAILURE'' ''The analysis provider is temporarily unavailable.''))"
| "classify_class LlmProviderConfigurationError =
     Some (permanent ''PROVIDER_CONFIGURATION_ERROR'' ''The analysis provider is not configured correctly.'')"
| "classify_class (UnsupportedAnalysisExecutionVersionError _) =
     Some (permanent ''UNSUPPORTED_ANALYSIS_VERSION'' ''The analysis execution version is not supported.'')"
| "classify_class (HttpError ForbiddenException _) =
     Some (permanent ''REPOSITORY_UNAVAILABLE'' ''The repository is unavailable.'')"
| "classify_class (HttpError NotFoundException _) =
     Some (permanent ''REPOSITORY_UNAVAILABLE'' ''The repository is unavailable.'')"
| "classify_class InvalidRepositoryCollectionInputError =
     Some (permanent ''REPOSITORY_UNAVAILABLE'' ''The repository is unavailable.'')"
| "classify_class _ = None"

definition classify :: "err \<Rightarrow> classification" where
  "classify e =
     (case classify_class e of
        Some c \<Rightarrow> c
      | None \<Rightarrow>
          if isRetryablePrismaError e
          then retryable ''DATABASE_TEMPORARY_FAILURE'' ''The database is temporarily unavailable.''
          else if err_status e = Some 429 \<or> (case err_status e of None \<Rightarrow> False | Some s \<Rightarrow> s \<ge> 500)
          then retryable ''GITHUB_TEMPORARY_FAILURE'' ''GitHub is temporarily unavailable.''
          else if err_status e = Some 401 \<or> err_status e = Some 403 \<or> err_status e = Some 404
          then permanent ''REPOSITORY_UNAVAILABLE'' ''The repository is unavailable.''
          else if (case err_code e of None \<Rightarrow> False | Some c \<Rightarrow> c \<in> set RETRYABLE_NETWORK_CODES)
          then retryable ''GITHUB_TEMPORARY_FAILURE'' ''An external service is temporarily unavailable.''
          else permanent ''ANALYSIS_FAILED'' ''Analysis failed.'')"

lemma classification_simps [simp]:
  "cl_code (retryable c m) = c" "cl_message (retryable c m) = m" "cl_retryable (retryable c m)"
  "cl_retryAt (retryable c m) = None" "cl_code (permanent c m) = c" "cl_message (permanent c m) = m"
  "\<not> cl_retryable (permanent c m)" "cl_retryAt (permanent c m) = None"
  by (simp_all add: retryable_def permanent_def)

lemma classify_class_code: "classify_class e = Some c \<Longrightarrow> cl_code c \<in> set worker_failure_codes"
  by (cases e rule: classify_class.cases)
    (auto simp: worker_failure_codes_def split: openai_class.splits)

lemma classify_code: "cl_code (classify e) \<in> set worker_failure_codes"
proof (cases "classify_class e")
  case None
  then show ?thesis by (simp add: classify_def worker_failure_codes_def)
next
  case (Some c)
  then show ?thesis by (simp add: classify_def classify_class_code)
qed

end
