(* ===== verification/JsDouble.thy ===== *)
theory JsDouble
  imports Prelude "HOL-Library.Log_Nat"
begin

text \<open>
  The number a literal denotes in JavaScript: the nearest double, ties to the even
  significand. A double is its rational value; \<^const>\<open>None\<close> is an infinity.
\<close>

definition round_half_even :: "rat \<Rightarrow> int" where
  "round_half_even r =
     (let n = \<lfloor>r\<rfloor>; f = r - of_int n in
      if f < 1 / 2 then n else if f > 1 / 2 then n + 1 else if even n then n else n + 1)"

definition pow2 :: "int \<Rightarrow> rat" where
  "pow2 k = (if 0 \<le> k then 2 ^ nat k else 1 / 2 ^ nat (- k))"

text \<open>The binary exponent of a positive number: \<open>pow2 e \<le> r < pow2 (e + 1)\<close>.\<close>

definition binary_exponent :: "rat \<Rightarrow> int" where
  "binary_exponent r =
     (let (p, q) = quotient_of r; e = int (floorlog 2 (nat p)) - int (floorlog 2 (nat q)) in
      if pow2 e \<le> r then e else e - 1)"

definition to_double :: "rat \<Rightarrow> rat option" where
  "to_double r =
     (if r = 0 then Some 0
      else let k = max (binary_exponent \<bar>r\<bar> - 52) (-1074);
               m = of_int (round_half_even (\<bar>r\<bar> / pow2 k)) * pow2 k
           in if pow2 1024 \<le> m then None else Some (if r < 0 then - m else m))"

lemma round_half_even_int [simp]: "round_half_even (of_int n) = n"
  by (simp add: round_half_even_def)

lemma binary_exponent_int:
  assumes "0 < n" "n < 2 ^ 53"
  shows "binary_exponent (of_int n) \<le> 52"
proof -
  let ?e = "int (floorlog 2 (nat n)) - 1"
  have q: "quotient_of (of_int n) = (n, 1)" by (simp add: quotient_of_int of_int_rat quotient_of_Fract)
  have one: "floorlog 2 (Suc 0) = 1" by (simp add: floorlog_def)
  have "nat n < 2 ^ 53" using assms by (simp add: nat_less_iff)
  then have le: "floorlog 2 (nat n) \<le> 53" by (simp add: floorlog_le_iff)
  show ?thesis
    using le by (simp add: binary_exponent_def q one Let_def)
qed

text \<open>An integer below \<open>2^53\<close> is a double.\<close>

lemma to_double_int:
  assumes "\<bar>n\<bar> < 2 ^ 53"
  shows "to_double (of_int n) = Some (of_int n)"
proof (cases "n = 0")
  case True
  then show ?thesis by (simp add: to_double_def)
next
  case False
  define k where "k = max (binary_exponent (of_int \<bar>n\<bar>) - 52) (-1074)"
  have k: "k \<le> 0" using binary_exponent_int [of "\<bar>n\<bar>"] False assms by (simp add: k_def)
  have "(of_int \<bar>n\<bar> :: rat) / pow2 k = of_int (\<bar>n\<bar> * 2 ^ nat (- k))"
    using k by (cases "k = 0") (simp_all add: pow2_def)
  then have m: "of_int (round_half_even (of_int \<bar>n\<bar> / pow2 k)) * pow2 k = (of_int \<bar>n\<bar> :: rat)"
    using k by (cases "k = 0") (simp_all only: round_half_even_int, simp_all add: pow2_def)
  have "(of_int \<bar>n\<bar> :: rat) < of_int (2 ^ 53)" using assms by (simp only: of_int_less_iff)
  also have "\<dots> \<le> pow2 1024" by (simp add: pow2_def)
  finally have "\<not> pow2 1024 \<le> (of_int \<bar>n\<bar> :: rat)" by simp
  moreover have "\<bar>of_int n :: rat\<bar> = of_int \<bar>n\<bar>" by simp
  ultimately show ?thesis
    using False m unfolding to_double_def Let_def by (simp only: flip: k_def) (simp add: abs_if)
qed

lemma to_double_nat: "n < 2 ^ 53 \<Longrightarrow> to_double (of_nat n) = Some (of_nat n)"
  using to_double_int [of "int n"] by simp

end
