(* ===== verification/Json.thy ===== *)
theory Json
  imports JsText JsDouble
begin

text \<open>
  \<open>JSON.parse\<close>: the values, and a recursive-descent parser on UTF-16 code units that returns
  \<^const>\<open>None\<close> where \<open>JSON.parse\<close> throws a \<open>SyntaxError\<close>. A number is the double nearest to the
  literal, \<^term>\<open>JNum None\<close> one that overflows to an infinity. It recurs on a bound of the nesting
  and length that is enough for every text, which \<open>parse_value_fuel\<close> proves.
\<close>

datatype json =
  JNull
| JBool bool
| JNum "rat option"
| JStr utext
| JArr "json list"
| JObj "(utext \<times> json) list"

definition json_space :: "nat \<Rightarrow> bool" where
  "json_space c \<longleftrightarrow> c = 9 \<or> c = 10 \<or> c = 13 \<or> c = 32"

definition skip :: "utext \<Rightarrow> utext" where
  "skip = dropWhile json_space"

section \<open>Strings\<close>

definition hex_value :: "nat \<Rightarrow> nat option" where
  "hex_value c =
     (if 48 \<le> c \<and> c \<le> 57 then Some (c - 48)
      else if 65 \<le> c \<and> c \<le> 70 then Some (c - 55)
      else if 97 \<le> c \<and> c \<le> 102 then Some (c - 87) else None)"

definition hex4 :: "utext \<Rightarrow> nat option" where
  "hex4 s = (case map hex_value (take 4 s) of
       [Some a, Some b, Some c, Some d] \<Rightarrow> Some (4096 * a + 256 * b + 16 * c + d) | _ \<Rightarrow> None)"

definition simple_escape :: "nat \<Rightarrow> nat option" where
  "simple_escape c = map_of [(34, 34), (92, 92), (47, 47), (98, 8), (102, 12), (110, 10), (114, 13), (116, 9)] c"

fun cons_unit :: "nat \<Rightarrow> (utext \<times> utext) option \<Rightarrow> (utext \<times> utext) option" where
  "cons_unit c None = None"
| "cons_unit c (Some (s, r)) = Some (c # s, r)"

text \<open>The rest of a string after its opening quote.\<close>

fun parse_string :: "utext \<Rightarrow> (utext \<times> utext) option" where
  "parse_string [] = None"
| "parse_string (c # s) =
     (if c = 34 then Some ([], s)
      else if c < 32 then None
      else if c \<noteq> 92 then cons_unit c (parse_string s)
      else (case s of
              [] \<Rightarrow> None
            | e # t \<Rightarrow>
                if e = 117 then (case hex4 t of None \<Rightarrow> None | Some u \<Rightarrow> cons_unit u (parse_string (drop 4 t)))
                else (case simple_escape e of None \<Rightarrow> None | Some u \<Rightarrow> cons_unit u (parse_string t))))"

section \<open>Numbers\<close>

definition json_digit :: "nat \<Rightarrow> bool" where
  "json_digit c \<longleftrightarrow> 48 \<le> c \<and> c \<le> 57"

definition decimal :: "utext \<Rightarrow> nat" where
  "decimal ds = foldl (\<lambda>n c. 10 * n + (c - 48)) 0 ds"

definition digits :: "utext \<Rightarrow> utext" where
  "digits = takeWhile json_digit"

definition after_digits :: "utext \<Rightarrow> utext" where
  "after_digits = dropWhile json_digit"

text \<open>\<open>0\<close> or digits without a leading zero.\<close>

definition parse_int :: "utext \<Rightarrow> (nat \<times> utext) option" where
  "parse_int s = (case s of
       [] \<Rightarrow> None
     | c # t \<Rightarrow> if c = 48 then Some (0, t)
                else if json_digit c then Some (decimal (digits s), after_digits s) else None)"

text \<open>An optional fraction, and an optional exponent.\<close>

definition parse_fraction :: "utext \<Rightarrow> (rat \<times> utext) option" where
  "parse_fraction s = (case s of
       c # t \<Rightarrow> if c = 46
         then (if digits t = [] then None
               else Some (of_nat (decimal (digits t)) / 10 ^ length (digits t), after_digits t))
         else Some (0, s)
     | [] \<Rightarrow> Some (0, s))"

definition signed_digits :: "utext \<Rightarrow> (bool \<times> utext)" where
  "signed_digits s = (case s of c # t \<Rightarrow> if c = 45 then (True, t) else if c = 43 then (False, t) else (False, s)
     | [] \<Rightarrow> (False, s))"

definition parse_exponent :: "utext \<Rightarrow> (rat \<times> utext) option" where
  "parse_exponent s = (case s of
       c # t \<Rightarrow> if c = 101 \<or> c = 69
         then (let (neg, u) = signed_digits t in
               if digits u = [] then None
               else Some (if neg then 1 / 10 ^ decimal (digits u) else 10 ^ decimal (digits u), after_digits u))
         else Some (1, s)
     | [] \<Rightarrow> Some (1, s))"

definition parse_number :: "utext \<Rightarrow> (json \<times> utext) option" where
  "parse_number s =
     (let (neg, s0) = (if s \<noteq> [] \<and> hd s = 45 then (True, tl s) else (False, s)) in
      Option.bind (parse_int s0) (\<lambda>(i, s1).
      Option.bind (parse_fraction s1) (\<lambda>(f, s2).
      Option.bind (parse_exponent s2) (\<lambda>(e, s3).
      Some (JNum (to_double ((if neg then -1 else 1) * (of_nat i + f) * e)), s3)))))"

section \<open>Values\<close>

definition literal :: "string \<Rightarrow> json \<Rightarrow> utext \<Rightarrow> (json \<times> utext) option" where
  "literal w v s = (if prefix (units w) s then Some (v, drop (length w) s) else None)"

text \<open>
  A value, given the parsers of an array's elements and of an object's members; the elements,
  given the parsers of a value and of further elements; and so for the members.
\<close>

type_synonym 'a parser = "utext \<Rightarrow> ('a \<times> utext) option"

definition starts :: "nat \<Rightarrow> utext \<Rightarrow> bool" where
  "starts c s \<longleftrightarrow> s \<noteq> [] \<and> hd s = c"

definition value_step :: "json list parser \<Rightarrow> (utext \<times> json) list parser \<Rightarrow> json parser" where
  "value_step pe pm s =
     (case skip s of
        [] \<Rightarrow> None
      | c # t \<Rightarrow>
          if c = 34 then map_option (\<lambda>(u, r). (JStr u, r)) (parse_string t)
          else if c = 123 then
            (if starts 125 (skip t) then Some (JObj [], tl (skip t))
             else map_option (\<lambda>(kvs, r). (JObj kvs, r)) (pm t))
          else if c = 91 then
            (if starts 93 (skip t) then Some (JArr [], tl (skip t))
             else map_option (\<lambda>(vs, r). (JArr vs, r)) (pe t))
          else if c = 116 then literal ''true'' (JBool True) (c # t)
          else if c = 102 then literal ''false'' (JBool False) (c # t)
          else if c = 110 then literal ''null'' JNull (c # t)
          else parse_number (c # t))"

text \<open>After an item: the closing bracket, or a comma and further items.\<close>

definition rest_step :: "nat \<Rightarrow> 'a list parser \<Rightarrow> 'a \<Rightarrow> 'a list parser" where
  "rest_step close p x s =
     (case skip s of
        [] \<Rightarrow> None
      | c # t \<Rightarrow> if c = close then Some ([x], t)
                 else if c = 44 then map_option (\<lambda>(xs, r). (x # xs, r)) (p t) else None)"

definition elements_step :: "json parser \<Rightarrow> json list parser \<Rightarrow> json list parser" where
  "elements_step pv pe s = Option.bind (pv s) (\<lambda>(v, r). rest_step 93 pe v r)"

definition member_step :: "json parser \<Rightarrow> (utext \<times> json) parser" where
  "member_step pv s =
     (case skip s of
        [] \<Rightarrow> None
      | c # t \<Rightarrow>
          if c \<noteq> 34 then None
          else Option.bind (parse_string t) (\<lambda>(k, r).
            if starts 58 (skip r) then map_option (\<lambda>(v, q). ((k, v), q)) (pv (tl (skip r))) else None))"

definition members_step :: "json parser \<Rightarrow> (utext \<times> json) list parser \<Rightarrow> (utext \<times> json) list parser" where
  "members_step pv pm s = Option.bind (member_step pv s) (\<lambda>(kv, r). rest_step 125 pm kv r)"

fun parse_value :: "nat \<Rightarrow> json parser"
and parse_elements :: "nat \<Rightarrow> json list parser"
and parse_members :: "nat \<Rightarrow> (utext \<times> json) list parser" where
  "parse_value 0 s = None"
| "parse_value (Suc n) s = value_step (parse_elements n) (parse_members n) s"
| "parse_elements 0 s = None"
| "parse_elements (Suc n) s = elements_step (parse_value n) (parse_elements n) s"
| "parse_members 0 s = None"
| "parse_members (Suc n) s = members_step (parse_value n) (parse_members n) s"

definition JSON_parse :: "utext \<Rightarrow> json option" where
  "JSON_parse s =
     (case parse_value (2 * length s + 2) s of
        None \<Rightarrow> None | Some (v, r) \<Rightarrow> if skip r = [] then Some v else None)"

text \<open>An object's own property: the last member with that key counts.\<close>

definition get_property :: "utext \<Rightarrow> (utext \<times> json) list \<Rightarrow> json option" where
  "get_property k kvs = map_of (rev kvs) k"

definition own_keys :: "(utext \<times> json) list \<Rightarrow> utext set" where
  "own_keys kvs = fst ` set kvs"

section \<open>The bound is enough\<close>

lemma skip_length: "length (skip s) \<le> length s"
  by (simp add: skip_def length_dropWhile_le)

lemma skip_Cons: "skip s = c # t \<Longrightarrow> length t < length s"
  using skip_length [of s] by simp

lemma after_digits_length: "length (after_digits s) \<le> length s"
  by (simp add: after_digits_def length_dropWhile_le)

lemma parse_string_length: "parse_string s = Some (u, r) \<Longrightarrow> length r < length s"
proof (induction s arbitrary: u r rule: parse_string.induct)
  case 1
  then show ?case by simp
next
  case (2 c s)
  show ?case
  proof (cases "c = 34 \<or> c < 32 \<or> c \<noteq> 92")
    case True
    with "2.prems" "2.IH"(1) show ?thesis
      by (cases "parse_string s") (fastforce split: if_splits)+
  next
    case False
    with "2.prems" obtain e t where s: "s = e # t" by (cases s) auto
    show ?thesis
    proof (cases "e = 117")
      case True
      with False s "2.prems" obtain x where x: "hex4 t = Some x" "cons_unit x (parse_string (drop 4 t)) = Some (u, r)"
        by (auto split: option.splits)
      then obtain u' where "parse_string (drop 4 t) = Some (u', r)"
        by (cases "parse_string (drop 4 t)") auto
      with "2.IH"(2) False s True x(1) have "length r < length (drop 4 t)" by fastforce
      with s show ?thesis by simp
    next
      case ne: False
      with False s "2.prems" obtain x where x: "simple_escape e = Some x" "cons_unit x (parse_string t) = Some (u, r)"
        by (auto split: option.splits)
      then obtain u' where "parse_string t = Some (u', r)"
        by (cases "parse_string t") auto
      with "2.IH"(3) False s ne x(1) have "length r < length t" by fastforce
      with s show ?thesis by simp
    qed
  qed
qed

lemma parse_int_length: "parse_int s = Some (i, r) \<Longrightarrow> length r < length s"
  using after_digits_length [of "tl s"]
  by (auto simp: parse_int_def after_digits_def le_imp_less_Suc length_dropWhile_le split: list.splits if_splits)

lemma parse_fraction_length: "parse_fraction s = Some (i, r) \<Longrightarrow> length r \<le> length s"
  by (auto simp: parse_fraction_def intro: le_SucI after_digits_length split: list.splits if_splits)

lemma signed_digits_length: "signed_digits s = (b, r) \<Longrightarrow> length r \<le> length s"
  by (auto simp: signed_digits_def split: list.splits if_splits)

lemma parse_exponent_length: "parse_exponent s = Some (i, r) \<Longrightarrow> length r \<le> length s"
  by (auto simp: parse_exponent_def split: list.splits if_splits prod.splits
      dest!: signed_digits_length intro: le_SucI order_trans [OF after_digits_length])

lemma parse_number_length: "parse_number s = Some (v, r) \<Longrightarrow> length r < length s"
proof -
  assume run: "parse_number s = Some (v, r)"
  define s0 where "s0 = (if s \<noteq> [] \<and> hd s = 45 then tl s else s)"
  from run obtain i s1 f s2 e where
    "parse_int s0 = Some (i, s1)" "parse_fraction s1 = Some (f, s2)" "parse_exponent s2 = Some (e, r)"
    by (auto simp: parse_number_def s0_def bind_eq_Some_conv split: if_splits)
  then have "length r < length s0"
    using parse_int_length parse_fraction_length parse_exponent_length by (meson le_less_trans)
  also have "length s0 \<le> length s" by (simp add: s0_def)
  finally show ?thesis .
qed

lemma literal_length: "literal w v s = Some (x, r) \<Longrightarrow> w \<noteq> [] \<Longrightarrow> length r < length s"
  by (cases w) (auto simp: literal_def units_def dest!: prefix_length_le split: if_splits)

definition shortens :: "nat \<Rightarrow> 'a parser \<Rightarrow> bool" where
  "shortens n p \<longleftrightarrow> (\<forall>s x r. length s < n \<longrightarrow> p s = Some (x, r) \<longrightarrow> length r < length s)"

lemma shortensD: "shortens n p \<Longrightarrow> p s = Some (x, r) \<Longrightarrow> length s < n \<Longrightarrow> length r < length s"
  by (auto simp: shortens_def)

lemma value_step_length:
  assumes "value_step pe pm s = Some (v, r)" "shortens (length s) pe" "shortens (length s) pm"
  shows "length r < length s"
proof -
  obtain c t where s: "skip s = c # t" using assms(1) by (auto simp: value_step_def split: list.splits)
  have "length t < length s" by (rule skip_Cons [OF s])
  note short = shortensD [OF assms(2) _ this] shortensD [OF assms(3) _ this]
  have "length r < length (c # t)"
    using assms(1) s skip_length [of t]
    by (auto simp: value_step_def split: if_splits
        dest!: parse_string_length literal_length parse_number_length short)
  also have "length (c # t) \<le> length s" using skip_length [of s] s by simp
  finally show ?thesis .
qed

lemma rest_step_length:
  assumes "rest_step close p x s = Some (xs, r)" "shortens (length s) p"
  shows "length r < length s"
proof -
  obtain c t where s: "skip s = c # t" using assms(1) by (auto simp: rest_step_def split: list.splits)
  have t: "length t < length s" by (rule skip_Cons [OF s])
  note short = shortensD [OF assms(2) _ t]
  have "length r \<le> length t"
    using assms(1) s by (auto simp: rest_step_def split: if_splits dest!: short)
  with t show ?thesis by simp
qed

lemma member_step_length:
  assumes "member_step pv s = Some (x, r)" "shortens (length s) pv"
  shows "length r < length s"
proof -
  obtain t k q v where t: "skip s = 34 # t" and k: "parse_string t = Some (k, q)"
    and v: "starts 58 (skip q)" "pv (tl (skip q)) = Some (v, r)"
    using assms(1) by (auto simp: member_step_def bind_eq_Some_conv split: list.splits if_splits)
  have "length (tl (skip q)) < length s"
    using skip_Cons [OF t] parse_string_length [OF k] skip_length [of q] by simp
  with shortensD [OF assms(2) v(2)] show ?thesis by simp
qed

lemma shortens_mono: "shortens n p \<Longrightarrow> m \<le> n \<Longrightarrow> shortens m p"
  by (auto simp: shortens_def)

lemma parse_shortens: "shortens k (parse_value n) \<and> shortens k (parse_elements n) \<and> shortens k (parse_members n)"
proof (induction n arbitrary: k)
  case 0
  show ?case by (simp add: shortens_def)
next
  case (Suc n)
  note short = Suc.IH [THEN conjunct1] Suc.IH [THEN conjunct2, THEN conjunct1]
    Suc.IH [THEN conjunct2, THEN conjunct2]
  have "length r < length s" if "elements_step (parse_value n) (parse_elements n) s = Some (x, r)" for s x r
  proof -
    from that obtain v q where q: "parse_value n s = Some (v, q)" "rest_step 93 (parse_elements n) v q = Some (x, r)"
      by (auto simp: elements_step_def bind_eq_Some_conv)
    with shortensD [OF short(1) q(1)] rest_step_length [OF q(2) short(2)] show ?thesis by (meson lessI less_trans)
  qed
  moreover have "length r < length s" if "members_step (parse_value n) (parse_members n) s = Some (x, r)" for s x r
  proof -
    from that obtain v q where q: "member_step (parse_value n) s = Some (v, q)"
      "rest_step 125 (parse_members n) v q = Some (x, r)"
      by (auto simp: members_step_def bind_eq_Some_conv)
    with member_step_length [OF q(1) short(1)] rest_step_length [OF q(2) short(3)] show ?thesis by simp
  qed
  moreover have "length r < length s" if "value_step (parse_elements n) (parse_members n) s = Some (x, r)" for s x r
    by (rule value_step_length [OF that short(2,3)])
  ultimately show ?case by (auto simp: shortens_def)
qed

lemma parse_length:
  "parse_value n s = Some (v, r) \<Longrightarrow> length r < length s"
  "parse_elements n s = Some (vs, r) \<Longrightarrow> length r < length s"
  "parse_members n s = Some (kvs, r) \<Longrightarrow> length r < length s"
  using parse_shortens [of "Suc (length s)" n] by (auto simp: shortens_def)

text \<open>A step looks at its parsers only on shorter texts.\<close>

lemma value_step_cong:
  "(\<And>t. length t < length s \<Longrightarrow> pe t = pe' t \<and> pm t = pm' t) \<Longrightarrow> value_step pe pm s = value_step pe' pm' s"
  by (auto simp: value_step_def dest: skip_Cons split: list.splits)

lemma rest_step_cong:
  "(\<And>t. length t < length s \<Longrightarrow> p t = p' t) \<Longrightarrow> rest_step close p x s = rest_step close p' x s"
  by (auto simp: rest_step_def dest: skip_Cons split: list.splits)

lemma member_step_cong:
  assumes "\<And>t. length t < length s \<Longrightarrow> pv t = pv' t"
  shows "member_step pv s = member_step pv' s"
proof (cases "skip s")
  case Nil
  then show ?thesis by (simp add: member_step_def)
next
  case (Cons c t)
  have "pv (tl (skip r)) = pv' (tl (skip r))" if "parse_string t = Some (k, r)" for k r
    using skip_Cons [OF Cons] parse_string_length [OF that] skip_length [of r] by (intro assms) simp
  with Cons show ?thesis by (cases "parse_string t") (auto simp: member_step_def)
qed

lemma parse_fuel_step:
  "(2 * length s + 2 \<le> n \<longrightarrow> parse_value (Suc n) s = parse_value n s) \<and>
   (2 * length s + 3 \<le> n \<longrightarrow> parse_elements (Suc n) s = parse_elements n s) \<and>
   (2 * length s + 3 \<le> n \<longrightarrow> parse_members (Suc n) s = parse_members n s)"
proof (induction n arbitrary: s)
  case 0
  show ?case by simp
next
  case (Suc n)
  have rest: "rest_step c (parse_elements (Suc n)) v r = rest_step c (parse_elements n) v r"
      "rest_step c (parse_members (Suc n)) kv r = rest_step c (parse_members n) kv r"
    if "length r < length s" "2 * length s + 3 \<le> Suc n" for c v kv r
    using that Suc.IH by (auto intro!: rest_step_cong simp del: parse_elements.simps parse_members.simps)
  have v: "parse_value (Suc (Suc n)) s = parse_value (Suc n) s" if "2 * length s + 2 \<le> Suc n"
    unfolding parse_value.simps
    by (rule value_step_cong) (use that Suc.IH in \<open>auto simp del: parse_elements.simps parse_members.simps\<close>)
  have e: "parse_elements (Suc (Suc n)) s = parse_elements (Suc n) s" if "2 * length s + 3 \<le> Suc n"
    unfolding parse_elements.simps(2) [of "Suc n" s] parse_elements.simps(2) [of n s] elements_step_def
    using that Suc.IH [of s] rest(1) [OF parse_length(1) that]
    by (cases "parse_value n s") (auto simp del: parse_elements.simps parse_value.simps)
  have m: "parse_members (Suc (Suc n)) s = parse_members (Suc n) s" if "2 * length s + 3 \<le> Suc n"
  proof -
    have "member_step (parse_value (Suc n)) s = member_step (parse_value n) s"
      by (rule member_step_cong) (use that Suc.IH in \<open>auto simp del: parse_value.simps\<close>)
    moreover have "rest_step 125 (parse_members (Suc n)) kv r = rest_step 125 (parse_members n) kv r"
      if "member_step (parse_value n) s = Some (kv, r)" for kv r
      using member_step_length [OF that] parse_shortens [of "length s" n]
      by (intro rest(2)) (auto simp: \<open>2 * length s + 3 \<le> Suc n\<close>)
    ultimately show ?thesis
      unfolding parse_members.simps(2) [of "Suc n" s] parse_members.simps(2) [of n s] members_step_def
      by (cases "member_step (parse_value n) s") auto
  qed
  from v e m show ?case by simp
qed

lemma parse_value_fuel:
  assumes "2 * length s + 2 \<le> n"
  shows "parse_value n s = parse_value (2 * length s + 2) s"
  using assms
proof (induction n rule: dec_induct)
  case base
  show ?case by (rule refl)
next
  case (step n)
  with parse_fuel_step [of s n] show ?case by simp
qed

end
