(* ===== verification/WorkerMessage.thy ===== *)
theory WorkerMessage
  imports Json
begin

text \<open>
  The message of a job on the queue (\<open>src/src/analysis-worker/analysis-worker-message.schema.ts\<close>):
  \<open>{"schemaVersion": 1, "jobId": "<uuid>"}\<close>, with no further key.
\<close>

section \<open>UUIDs\<close>

definition hex_lower :: "nat \<Rightarrow> bool" where
  "hex_lower c \<longleftrightarrow> (48 \<le> c \<and> c \<le> 57) \<or> (97 \<le> c \<and> c \<le> 102)"

text \<open>
  \<open>/^[0-9a-f]{8}-[0-9a-f]{4}-[1-5][0-9a-f]{3}-[89ab][0-9a-f]{3}-[0-9a-f]{12}$/\<close>, one predicate
  per position.
\<close>

definition uuid_pattern :: "(nat \<Rightarrow> bool) list" where
  "uuid_pattern =
     replicate 8 hex_lower @ [\<lambda>c. c = 45] @ replicate 4 hex_lower @ [\<lambda>c. c = 45]
     @ [\<lambda>c. 49 \<le> c \<and> c \<le> 53] @ replicate 3 hex_lower @ [\<lambda>c. c = 45]
     @ [\<lambda>c. c \<in> {56, 57, 97, 98}] @ replicate 3 hex_lower @ [\<lambda>c. c = 45] @ replicate 12 hex_lower"

definition normalized_uuid :: "utext \<Rightarrow> bool" where
  "normalized_uuid s \<longleftrightarrow> list_all2 (\<lambda>p c. p c) uuid_pattern s"

definition text_of_units :: "utext \<Rightarrow> string" where
  "text_of_units s = map char_of s"

section \<open>Parsing\<close>

datatype parse_result = VALID string | INVALID "string option"

definition extractNormalizedJobId :: "json \<Rightarrow> string option" where
  "extractNormalizedJobId input =
     (case input of
        JObj kvs \<Rightarrow>
          (case get_property (units ''jobId'') kvs of
             Some (JStr s) \<Rightarrow> if normalized_uuid s then Some (text_of_units s) else None
           | _ \<Rightarrow> None)
      | _ \<Rightarrow> None)"

text \<open>The strict schema: the two keys and no other.\<close>

definition message_schema :: "json \<Rightarrow> string option" where
  "message_schema input =
     (case input of
        JObj kvs \<Rightarrow>
          if own_keys kvs \<subseteq> {units ''schemaVersion'', units ''jobId''} \<and>
             get_property (units ''schemaVersion'') kvs = Some (JNum (Some 1))
          then extractNormalizedJobId input else None
      | _ \<Rightarrow> None)"

definition parseAnalysisWorkerMessage :: "utext \<Rightarrow> parse_result" where
  "parseAnalysisWorkerMessage body =
     (case JSON_parse body of
        None \<Rightarrow> INVALID None
      | Some input \<Rightarrow>
          (case message_schema input of
             None \<Rightarrow> INVALID (extractNormalizedJobId input)
           | Some jobId \<Rightarrow> VALID jobId))"

section \<open>Messages that are read back\<close>

lemma parse_string_plain:
  "list_all (\<lambda>c. 32 \<le> c \<and> c \<noteq> 34 \<and> c \<noteq> 92) s \<Longrightarrow> parse_string (s @ 34 # r) = Some (s, r)"
  by (induction s) auto

lemma pattern_all:
  "list_all2 (\<lambda>p c. p c) ps s \<Longrightarrow> (\<And>p c. p \<in> set ps \<Longrightarrow> p c \<Longrightarrow> Q c) \<Longrightarrow> list_all Q s"
  by (induction rule: list_all2_induct) auto

lemma uuid_unit:
  "normalized_uuid s \<Longrightarrow> list_all (\<lambda>c. c = 45 \<or> 48 \<le> c \<and> c \<le> 57 \<or> 97 \<le> c \<and> c \<le> 102) s"
  unfolding normalized_uuid_def
  by (erule pattern_all) (auto simp: uuid_pattern_def hex_lower_def)

definition plain_text :: "string \<Rightarrow> bool" where
  "plain_text s \<longleftrightarrow> list_all (\<lambda>c. 32 \<le> c \<and> c \<noteq> 34 \<and> c \<noteq> 92) (units s)"

lemma json_string_plain: "plain_text s \<Longrightarrow> units (json_string s) = 34 # units s @ [34]"
proof -
  have "plain_text s \<Longrightarrow> concat (map json_char s) = s"
    by (induction s) (auto simp: plain_text_def units_def json_char_def Let_def)
  then show "plain_text s \<Longrightarrow> units (json_string s) = 34 # units s @ [34]"
    by (simp add: json_string_def units_def)
qed

lemma uuid_plain: "normalized_uuid (units i) \<Longrightarrow> plain_text i"
  using uuid_unit [of "units i"] by (auto simp: plain_text_def list_all_iff)

text \<open>The text of a message with an identifier is read back as its two members.\<close>

definition message_text :: "string \<Rightarrow> string" where
  "message_text i = json_object [(''schemaVersion'', ''1''), (''jobId'', json_string i)]"

lemma message_units:
  "plain_text i \<Longrightarrow> units (message_text i) =
     123 # 34 # units ''schemaVersion'' @ 34 # 58 # 49 # 44 # 34 # units ''jobId''
     @ 34 # 58 # 34 # units i @ [34, 125]"
  using json_string_plain [of i]
  by (simp add: message_text_def json_object_def units_def json_string_def json_char_def Let_def)

lemma units_plain_eval: "list_all (\<lambda>c. 32 \<le> c \<and> c \<noteq> 34 \<and> c \<noteq> 92) (units ''schemaVersion'')"
  "list_all (\<lambda>c. 32 \<le> c \<and> c \<noteq> 34 \<and> c \<noteq> 92) (units ''jobId'')"
  by (simp_all add: units_def)

lemma parse_message_value:
  "plain_text i \<Longrightarrow> parse_value (Suc (Suc (Suc (Suc (Suc m))))) (units (message_text i)) =
    Some (JObj [(units ''schemaVersion'', JNum (Some 1)), (units ''jobId'', JStr (units i))], [])"
  using units_plain_eval parse_string_plain [of "units i" "[125]"] to_double_int [of 1]
  by (simp add: message_units value_step_def skip_def json_space_def starts_def members_step_def
      member_step_def parse_string_plain rest_step_def parse_number_def parse_int_def
      parse_fraction_def parse_exponent_def plain_text_def json_digit_def digits_def
      after_digits_def decimal_def)

lemma text_of_units_units [simp]: "text_of_units (units s) = s"
  by (simp add: text_of_units_def units_def comp_def)

lemma parse_message_text:
  assumes "normalized_uuid (units i)"
  shows "parseAnalysisWorkerMessage (units (message_text i)) = VALID i"
proof -
  let ?n = "2 * length (units (message_text i)) + 2"
  have "parse_value ?n (units (message_text i)) = parse_value (Suc (Suc (Suc (Suc (Suc ?n))))) (units (message_text i))"
    by (rule parse_value_fuel [symmetric]) simp
  with parse_message_value [OF uuid_plain [OF assms]] have
    "JSON_parse (units (message_text i)) =
      Some (JObj [(units ''schemaVersion'', JNum (Some 1)), (units ''jobId'', JStr (units i))])"
    by (simp add: JSON_parse_def skip_def)
  moreover have "units ''jobId'' \<noteq> units ''schemaVersion''" by (simp add: units_def)
  ultimately show ?thesis
    using assms
    by (simp add: parseAnalysisWorkerMessage_def message_schema_def extractNormalizedJobId_def
        get_property_def own_keys_def)
qed

end
