(* ===== verification/JsNumber.thy ===== *)
theory JsNumber
  imports Json
begin

text \<open>
  \<open>Number(s)\<close> of a string, as the configuration and the queue's attributes are read: the
  double nearest to the number that the literal denotes; \<^const>\<open>None\<close> is \<open>NaN\<close> or an infinity,
  which no caller accepts.
\<close>

definition ascii_fold :: "nat \<Rightarrow> nat" where
  "ascii_fold c = (if 65 \<le> c \<and> c \<le> 90 then c + 32 else c)"

definition radix_value :: "nat \<Rightarrow> utext \<Rightarrow> rat option" where
  "radix_value radix s =
     (if s \<noteq> [] \<and> list_all (\<lambda>c. case hex_value c of None \<Rightarrow> False | Some v \<Rightarrow> v < radix) s
      then to_double (of_nat (foldl (\<lambda>n c. radix * n + the (hex_value c)) 0 s)) else None)"

definition decimal_literal :: "utext \<Rightarrow> rat option" where
  "decimal_literal s =
     (let (neg, t) = signed_digits s;
          whole = digits t; r = after_digits t;
          (frac, q) = (if r \<noteq> [] \<and> hd r = 46 then (digits (tl r), after_digits (tl r)) else ([], r))
      in if whole = [] \<and> frac = [] then None
         else Option.bind (parse_exponent q) (\<lambda>(e, rest).
           if rest \<noteq> [] then None
           else to_double ((if neg then -1 else 1) *
                  (of_nat (decimal whole) + of_nat (decimal frac) / 10 ^ length frac) * e)))"

definition js_Number :: "string \<Rightarrow> rat option" where
  "js_Number str =
     (let s = text_trim (units str); p = map ascii_fold (take 2 s) in
      if s = [] then Some 0
      else if p = units ''0x'' then radix_value 16 (drop 2 s)
      else if p = units ''0o'' then radix_value 8 (drop 2 s)
      else if p = units ''0b'' then radix_value 2 (drop 2 s)
      else decimal_literal s)"

text \<open>\<open>Number.isInteger(value)\<close>, with the integer.\<close>

definition integer_of :: "rat option \<Rightarrow> int option" where
  "integer_of q = (case q of None \<Rightarrow> None | Some r \<Rightarrow> if of_int \<lfloor>r\<rfloor> = r then Some \<lfloor>r\<rfloor> else None)"

text \<open>\<open>new Date(x)\<close> truncates a time value toward zero.\<close>

definition js_trunc :: "rat \<Rightarrow> int" where
  "js_trunc r = (if r < 0 then - \<lfloor>- r\<rfloor> else \<lfloor>r\<rfloor>)"

end
