(* ===== verification/Worker.thy ===== *)
theory Worker
  imports Runner ErrorClassifier WorkerMessage JsNumber
begin

text \<open>
  The worker (\<open>src/src/analysis-worker/analysis-worker.service.ts\<close>) and its handler
  (\<open>src/src/analysis-worker/analysis-worker.handler.ts\<close>): one record of the queue at a time,
  from the message through the claim, the collection and the analysis to the decision whether
  the record is acknowledged or delivered again. The collector of the repository is an
  injected service, here a function of its input and of the callback after each page; the
  closure's \<open>lastHeartbeatAt\<close> is the state that the callback takes and returns.
\<close>

section \<open>Configuration\<close>

definition DEFAULT_LEASE_SECONDS :: int where "DEFAULT_LEASE_SECONDS = 15 * 60"
definition MAX_LEASE_SECONDS :: int where "MAX_LEASE_SECONDS = 60 * 60"
definition DEFAULT_RETRY_BASE_SECONDS :: int where "DEFAULT_RETRY_BASE_SECONDS = 30"
definition MAX_RETRY_BASE_SECONDS :: int where "MAX_RETRY_BASE_SECONDS = 15 * 60"
definition MAX_BACKOFF_SECONDS :: int where "MAX_BACKOFF_SECONDS = 60 * 60"
definition JITTER_RATIO :: rat where "JITTER_RATIO = 2 / 10"
definition MAX_COLLECTION_HEARTBEAT_INTERVAL_MS :: int where
  "MAX_COLLECTION_HEARTBEAT_INTERVAL_MS = 30 * 1000"

lemmas worker_constants = DEFAULT_LEASE_SECONDS_def MAX_LEASE_SECONDS_def
  DEFAULT_RETRY_BASE_SECONDS_def MAX_RETRY_BASE_SECONDS_def MAX_BACKOFF_SECONDS_def
  JITTER_RATIO_def MAX_COLLECTION_HEARTBEAT_INTERVAL_MS_def

definition positiveIntegerConfig :: "env \<Rightarrow> string \<Rightarrow> int \<Rightarrow> int \<Rightarrow> int" where
  "positiveIntegerConfig env name fallback maximum =
     (case config env name of
        None \<Rightarrow> fallback
      | Some raw \<Rightarrow>
          if js_trim raw = [] then fallback
          else (case integer_of (js_Number (js_trim raw)) of
                  None \<Rightarrow> fallback
                | Some v \<Rightarrow> if v > 0 \<and> v \<le> maximum then v else fallback))"

definition leaseSeconds :: "env \<Rightarrow> int" where
  "leaseSeconds env =
     positiveIntegerConfig env ''ANALYSIS_WORKER_LEASE_SECONDS'' DEFAULT_LEASE_SECONDS MAX_LEASE_SECONDS"

definition retryBaseSeconds :: "env \<Rightarrow> int" where
  "retryBaseSeconds env =
     positiveIntegerConfig env ''ANALYSIS_WORKER_RETRY_BASE_SECONDS'' DEFAULT_RETRY_BASE_SECONDS
       MAX_RETRY_BASE_SECONDS"

definition leaseExpiresAt :: "env \<Rightarrow> int \<Rightarrow> int" where
  "leaseExpiresAt env now = now + leaseSeconds env * 1000"

section \<open>Backoff\<close>

text \<open>\<open>Math.random()\<close> is the last argument.\<close>

definition exponentialSeconds :: "int \<Rightarrow> int \<Rightarrow> int" where
  "exponentialSeconds base attempts = min (base * 2 ^ nat (max 0 (attempts - 1))) MAX_BACKOFF_SECONDS"

definition nextBackoffAt :: "int \<Rightarrow> int \<Rightarrow> int \<Rightarrow> rat \<Rightarrow> int" where
  "nextBackoffAt base now attempts random =
     (let s = of_int (exponentialSeconds base attempts); jitter = s * JITTER_RATIO * random in
      js_trunc (of_int now + (s + jitter) * 1000))"

definition nextRetryAt :: "env \<Rightarrow> int \<Rightarrow> int \<Rightarrow> int option \<Rightarrow> int io" where
  "nextRetryAt env now attempts providerRetryAt =
     bind (random_io env) (\<lambda>random.
     let workerRetryAt = nextBackoffAt (retryBaseSeconds env) now attempts random in
     ret (case providerRetryAt of
            None \<Rightarrow> workerRetryAt
          | Some p \<Rightarrow> if p > workerRetryAt then p else workerRetryAt))"

section \<open>Progress\<close>

definition updateProgress :: "env \<Rightarrow> string \<Rightarrow> string \<Rightarrow> job_stage \<Rightarrow> int \<Rightarrow> unit io" where
  "updateProgress env jobId leaseToken stage progress =
     bind (now_io env) (\<lambda>heartbeatAt.
     repo_updateProgress env
       \<lparr>pr_jobId = jobId, pr_leaseToken = leaseToken, pr_stage = stage, pr_progress = progress,
        pr_heartbeatAt = heartbeatAt, pr_leaseExpiresAt = leaseExpiresAt env heartbeatAt\<rparr>)"

text \<open>The interval is a third of the lease, between one and thirty seconds.\<close>

definition heartbeat_interval :: "env \<Rightarrow> rat" where
  "heartbeat_interval env =
     min (of_int MAX_COLLECTION_HEARTBEAT_INTERVAL_MS) (max 1000 (of_int (leaseSeconds env * 1000) / 3))"

definition collectionHeartbeat :: "env \<Rightarrow> string \<Rightarrow> string \<Rightarrow> int \<Rightarrow> int io" where
  "collectionHeartbeat env jobId leaseToken lastHeartbeatAt =
     bind (now_io env) (\<lambda>now.
     if lastHeartbeatAt \<noteq> 0 \<and> of_int (now - lastHeartbeatAt) < heartbeat_interval env
     then ret lastHeartbeatAt
     else andThen (updateProgress env jobId leaseToken COLLECTING 10) (ret now))"

record collect_input =
  co_userId :: int
  co_githubRepoId :: string
  co_fullName :: string
  co_targetUser :: string
  co_sourceCursor :: "int option"
  co_collectionCutoff :: int

type_synonym collector = "collect_input \<Rightarrow> (int \<Rightarrow> int io) \<Rightarrow> collected_data io"

section \<open>One record\<close>

datatype record_outcome = ACK | RETRY

record sqs_record =
  q_messageId :: string
  q_body :: utext
  q_receiveCount :: string

definition receiveCount :: "sqs_record \<Rightarrow> int" where
  "receiveCount r = (case integer_of (js_Number (q_receiveCount r)) of
     None \<Rightarrow> 1 | Some n \<Rightarrow> if n > 0 then n else 1)"

text \<open>A persistence failure is logged and the record is delivered again.\<close>

definition or_retry :: "record_outcome io \<Rightarrow> record_outcome io" where
  "or_retry m = catch m (\<lambda>_. ret RETRY)"

definition MAX_ATTEMPTS_message :: string where
  "MAX_ATTEMPTS_message = ''The maximum number of attempts was exceeded.''"

definition finalizeRunningAtLimit :: "env \<Rightarrow> string \<Rightarrow> string \<Rightarrow> record_outcome io" where
  "finalizeRunningAtLimit env jobId leaseToken =
     or_retry (bind (now_io env) (\<lambda>completedAt.
       andThen (finalizeRunningFailure env jobId leaseToken completedAt ''MAX_ATTEMPTS_EXCEEDED''
                  MAX_ATTEMPTS_message True)
         (ret RETRY)))"

definition finalizeClaimLimit :: "env \<Rightarrow> worker_job \<Rightarrow> record_outcome io" where
  "finalizeClaimLimit env job =
     or_retry (andThen
       (if j_status (w_row job) = QUEUED
        then bind (now_io env) (finalizeQueuedAtLimit env (j_id (w_row job)))
        else (case j_leaseToken (w_row job) of
            None \<Rightarrow> ret False
          | Some lease \<Rightarrow> bind (now_io env) (\<lambda>completedAt.
              finalizeRunningFailure env (j_id (w_row job)) lease completedAt ''MAX_ATTEMPTS_EXCEEDED''
                MAX_ATTEMPTS_message True)))
       (ret RETRY))"

definition is_billed_error :: "err \<Rightarrow> bool" where
  "is_billed_error e = (case e of
     PostBillingAnalysisPersistenceError _ _ _ \<Rightarrow> True
   | BilledAnalysisJobRequiresReconciliationError _ \<Rightarrow> True | _ \<Rightarrow> False)"

definition handleClaimedFailure :: "env \<Rightarrow> worker_job \<Rightarrow> string \<Rightarrow> int \<Rightarrow> err \<Rightarrow> record_outcome io" where
  "handleClaimedFailure env job leaseToken received e =
     (let j = w_row job; c = classify e in
      if is_billed_error e then ret RETRY
      else if cl_retryable c then
        (if j_attemptCount j \<ge> j_maxAttempts j \<or> received \<ge> j_maxAttempts j
         then finalizeRunningAtLimit env (j_id j) leaseToken
         else or_retry
           (bind (now_io env) (\<lambda>now.
            bind (nextRetryAt env now (j_attemptCount j) (cl_retryAt c)) (\<lambda>nextPublishAt.
            andThen (releaseForRetry env
                \<lparr>rl_jobId = j_id j, rl_leaseToken = leaseToken, rl_nextPublishAt = nextPublishAt,
                 rl_errorCode = cl_code c, rl_errorMessage = cl_message c\<rparr>)
              (ret RETRY)))))
      else or_retry
        (bind (now_io env) (\<lambda>completedAt.
         bind (finalizeRunningFailure env (j_id j) leaseToken completedAt (cl_code c) (cl_message c) False)
           (\<lambda>finalized. ret (if finalized then ACK else RETRY)))))"

text \<open>Every member of \<open>AnalysisJobExecutionOutcome\<close> is terminal.\<close>

definition isTerminalOutcome :: "execution_result \<Rightarrow> bool" where
  "isTerminalOutcome r = True"

definition collect_request :: "worker_job \<Rightarrow> collect_input" where
  "collect_request job =
     \<lparr>co_userId = j_userId (w_row job), co_githubRepoId = w_githubRepoId job,
      co_fullName = w_fullName job, co_targetUser = w_ownerUsername job,
      co_sourceCursor = j_sourceCursor (w_row job), co_collectionCutoff = j_collectionCutoff (w_row job)\<rparr>"

definition worker_options :: "env \<Rightarrow> string \<Rightarrow> string \<Rightarrow> run_options" where
  "worker_options env jobId leaseToken =
     \<lparr>deferUnbilledProviderErrors = True,
      onTokensReserved = updateProgress env jobId leaseToken ANALYZING 55,
      onSaving = updateProgress env jobId leaseToken SAVING 90\<rparr>"

definition runClaimedJob ::
  "collector \<Rightarrow> llm_provider \<Rightarrow> env \<Rightarrow> worker_job \<Rightarrow> string \<Rightarrow> record_outcome io" where
  "runClaimedJob collect provider env job leaseToken =
     (let i = j_id (w_row job) in
      bind (recoverProviderCheckpoint env i leaseToken) (\<lambda>recovered.
      if recovered \<noteq> None then ret ACK
      else bind (collect (collect_request job) (collectionHeartbeat env i leaseToken)) (\<lambda>data.
        andThen (updateProgress env i leaseToken RESERVING_TOKENS 35)
        (bind (runAnalysisJob provider env data i leaseToken (advanceRepositoryCheckpoint (w_row job))
                 (worker_options env i leaseToken)) (\<lambda>result.
         ret (if isTerminalOutcome result then ACK else RETRY))))))"

definition executeClaimedJob ::
  "collector \<Rightarrow> llm_provider \<Rightarrow> env \<Rightarrow> worker_job \<Rightarrow> string \<Rightarrow> int \<Rightarrow> record_outcome io" where
  "executeClaimedJob collect provider env job leaseToken received =
     catch (runClaimedJob collect provider env job leaseToken)
       (handleClaimedFailure env job leaseToken received)"

definition processRecord :: "collector \<Rightarrow> llm_provider \<Rightarrow> env \<Rightarrow> sqs_record \<Rightarrow> record_outcome io" where
  "processRecord collect provider env r =
     (case parseAnalysisWorkerMessage (q_body r) of
        INVALID None \<Rightarrow> ret ACK
      | INVALID (Some jobId) \<Rightarrow>
          bind (now_io env) (\<lambda>t. andThen (failQueuedInvalidMessage env jobId t) (ret ACK))
      | VALID jobId \<Rightarrow>
          bind (now_io env) (\<lambda>now.
          bind (uuid_io env) (\<lambda>leaseToken.
          bind (claim env jobId leaseToken now (leaseExpiresAt env now)) (\<lambda>result.
          case result of
            NOT_FOUND \<Rightarrow> ret ACK
          | TERMINAL \<Rightarrow> ret ACK
          | ACTIVE_LEASE \<Rightarrow> ret RETRY
          | NOT_DUE \<Rightarrow> ret RETRY
          | MAX_ATTEMPTS job \<Rightarrow> finalizeClaimLimit env job
          | CLAIMED job lease \<Rightarrow> executeClaimedJob collect provider env job lease (receiveCount r)))))"

section \<open>A batch\<close>

text \<open>The items of a \<open>Set\<close> in insertion order: the first occurrence of each.\<close>

definition set_items :: "'a list \<Rightarrow> 'a list" where
  "set_items xs = rev (remdups (rev xs))"

fun processRecords :: "collector \<Rightarrow> llm_provider \<Rightarrow> env \<Rightarrow> sqs_record list \<Rightarrow> string list io" where
  "processRecords collect provider env [] = ret []"
| "processRecords collect provider env (r # rs) =
     bind (catch (processRecord collect provider env r) (\<lambda>_. ret RETRY)) (\<lambda>outcome.
     case outcome of
       RETRY \<Rightarrow> ret (map q_messageId (r # rs))
     | ACK \<Rightarrow> processRecords collect provider env rs)"

text \<open>The result lists the identifiers of the failed items.\<close>

definition processBatch :: "collector \<Rightarrow> llm_provider \<Rightarrow> env \<Rightarrow> sqs_record list \<Rightarrow> string list io" where
  "processBatch collect provider env rs =
     bind (processRecords collect provider env rs) (\<lambda>failures. ret (set_items failures))"

section \<open>The handler\<close>

text \<open>
  The application is created at the first event and kept; a creation that fails is forgotten,
  so the next event tries again. The state says whether the application exists, and the
  result is the failed items with the new state.
\<close>

definition handler ::
  "collector \<Rightarrow> llm_provider \<Rightarrow> (nat \<Rightarrow> err + unit) \<Rightarrow> env \<Rightarrow> bool \<Rightarrow> sqs_record list \<Rightarrow> (string list \<times> bool) io" where
  "handler collect provider applicationFactory env created rs =
     bind (if created then ret (Inr ()) else attempt (external applicationFactory)) (\<lambda>application.
     case application of
       Inl _ \<Rightarrow> ret (set_items (map q_messageId rs), False)
     | Inr _ \<Rightarrow> bind (processBatch collect provider env rs) (\<lambda>failures. ret (failures, True)))"

section \<open>The worker keeps the ledger's guarantee\<close>

definition collector_guar :: "collector \<Rightarrow> bool" where
  "collector_guar collect \<longleftrightarrow>
     (\<forall>i onPage. (\<forall>s. guar evolves (onPage s)) \<longrightarrow> guar evolves (collect i onPage))"

lemma progress_guar [guar_intros]: "rely evolves env \<Longrightarrow> guar evolves (updateProgress env i l s p)"
  unfolding updateProgress_def by (intro guar_intros updateProgress_guar)

lemma heartbeat_guar: "rely evolves env \<Longrightarrow> guar evolves (collectionHeartbeat env i l t)"
  unfolding collectionHeartbeat_def by (intro guar_intros)

lemma nextRetryAt_guar [guar_intros]: "guar evolves (nextRetryAt env now n p)"
  unfolding nextRetryAt_def Let_def by (intro guar_intros)

lemma or_retry_guar [guar_intros]: "guar evolves m \<Longrightarrow> guar evolves (or_retry m)"
  unfolding or_retry_def by (intro guar_intros)

lemma finalize_guar [guar_intros]:
  assumes "rely evolves env"
  shows "guar evolves (finalizeRunningAtLimit env i l)" "guar evolves (finalizeClaimLimit env job)"
  unfolding finalizeRunningAtLimit_def finalizeClaimLimit_def
  by (intro guar_intros assms) (auto intro!: guar_intros assms split: option.splits)

lemma handleClaimedFailure_guar [guar_intros]:
  "rely evolves env \<Longrightarrow> guar evolves (handleClaimedFailure env job l n e)"
  unfolding handleClaimedFailure_def Let_def by (intro guar_intros releaseForRetry_guar)

lemma worker_options_guar: "rely evolves env \<Longrightarrow> options_guar (worker_options env i l)"
  by (simp add: options_guar_def worker_options_def progress_guar)

lemma advance_guar: "body_guar evolves (advanceRepositoryCheckpoint j)"
  by (auto simp: body_guar_def dest!: advance_evolves intro: evolves_same)

lemma executeClaimedJob_guar:
  assumes "rely evolves env" "collector_guar collect" "provider_guar p"
  shows "guar evolves (executeClaimedJob collect p env job l n)"
  unfolding executeClaimedJob_def runClaimedJob_def Let_def
  by (intro guar_intros recoverProviderCheckpoint_guar runAnalysisJob_guar advance_guar
      worker_options_guar assms(1,3))
    (use assms heartbeat_guar in \<open>auto simp: collector_guar_def\<close>)

lemma processRecord_guar:
  assumes "rely evolves env" "collector_guar collect" "provider_guar p"
  shows "guar evolves (processRecord collect p env r)"
  unfolding processRecord_def
  by (auto intro!: guar_intros claim_guar executeClaimedJob_guar assms
      split: parse_result.splits option.splits claim_result.splits)

lemma processRecords_guar:
  assumes "rely evolves env" "collector_guar collect" "provider_guar p"
  shows "guar evolves (processRecords collect p env rs)"
proof (induction rs)
  case Nil
  show ?case by (simp add: ledger.guar_ret)
next
  case (Cons r rs)
  then show ?case
    unfolding processRecords.simps
    by (intro ledger.guar_bind ledger.guar_catch processRecord_guar ledger.guar_ret assms)
      (auto intro: ledger.guar_ret split: record_outcome.splits)
qed

lemma processBatch_guar:
  assumes "rely evolves env" "collector_guar collect" "provider_guar p"
  shows "guar evolves (processBatch collect p env rs)"
  unfolding processBatch_def by (intro guar_intros processRecords_guar assms)

lemma handler_guar:
  assumes "rely evolves env" "collector_guar collect" "provider_guar p"
  shows "guar evolves (handler collect p f env b rs)"
  unfolding handler_def
  by (intro ledger.guar_bind ledger.guar_if ledger.guar_attempt ledger.guar_external ledger.guar_ret)
    (auto intro!: guar_intros processBatch_guar assms split: sum.splits)

end
