(* ===== verification/Samples.thy ===== *)
theory Samples
  imports Worker
begin

text \<open>
  A small concrete world: one user, one repository, one queued job, a provider that answers,
  and a collector that finds one reviewed pull request. The properties are applied to it.
\<close>

definition calm :: env where
  "calm = \<lparr>interference = (\<lambda>_ d. d), faults = (\<lambda>_. Healthy), clock = (\<lambda>n. 1000000 + int n),
     uuids = (\<lambda>n. ''0a1b2c3d-0000-4000-8000-00000000000'' @ nat_digits (n mod 10)),
     randoms = (\<lambda>_. 1 / 2), config = (\<lambda>_. None)\<rparr>"

definition sample_job_id :: string where
  "sample_job_id = ''0a1b2c3d-1111-4111-8111-0123456789ab''"

definition sample_user :: user_row where
  "sample_user = \<lparr>u_id = 1, u_githubId = ''42'', u_username = ''dev'', u_avatarUrl = None,
     u_githubToken = None, u_hashedRefreshToken = None, u_status = ACTIVE, u_createdAt = 0,
     u_updatedAt = 0, u_availableTokens = 50000, u_representativeReportId = None\<rparr>"

definition sample_repository :: repository_row where
  "sample_repository = \<lparr>r_id = 7, r_githubRepoId = ''777'', r_fullName = ''dev/tool'',
     r_isOptedIn = True, r_lastSyncTime = None, r_ownerId = 1\<rparr>"

definition sample_input :: create_job_record_input where
  "sample_input = \<lparr>ci_userId = 1, ci_repositoryId = 7, ci_idempotencyKey = ''key-1'',
     ci_requestHash = replicate 64 (CHR ''a''), ci_modelVersion = ANALYSIS_MODEL_VERSION,
     ci_promptVersion = ANALYSIS_PROMPT_VERSION, ci_sourceCursor = None,
     ci_collectionCutoff = Some 900000, ci_status = QUEUED, ci_stage = WAITING, ci_progress = 0\<rparr>"

definition sample_job :: job_row where
  "sample_job = new_job sample_job_id 900000 sample_input"

text \<open>The same job under a lease, before and after its tokens were reserved.\<close>

definition running_job :: job_row where
  "running_job = sample_job\<lparr>j_status := RUNNING, j_stage := Some COLLECTING, j_progress := 10,
     j_attemptCount := 1, j_leaseToken := Some ''lease-1'', j_leaseExpiresAt := Some 950000,
     j_heartbeatAt := Some 900500, j_startedAt := Some 900500\<rparr>"

definition reserved_job :: job_row where
  "reserved_job = running_job\<lparr>j_estimatedTokens := Some 100, j_reservedTokens := Some 8292\<rparr>"

definition db_with :: "job_row \<Rightarrow> db" where
  "db_with j = \<lparr>users = [sample_user], repositories = [sample_repository], reports = [], stats = [],
     jobs = [j], installations = [], user_installations = [], install_states = []\<rparr>"

definition world_with :: "job_row \<Rightarrow> world" where
  "world_with j = \<lparr>wdb = db_with j, tick = 0\<rparr>"

definition sample_data :: collected_data where
  "sample_data = \<lparr>cd_githubRepoId = ''777'', cd_owner = ''dev'', cd_repo = ''tool'',
     cd_targetUser = units ''dev'',
     cd_pullRequests = [\<lparr>pr_number = 1, pr_title = units ''Fix the cache'', pr_body = units ''Fixes it.'',
        pr_author = units ''dev'', pr_updatedAt = ''2025-01-01T00:00:00Z'',
        pr_permalink = units ''https://github.com/dev/tool/pull/1'',
        pr_reviews = [\<lparr>v_author = units ''amy'', v_body = units ''Please add a test for this.'',
           v_state = ''COMMENTED'', v_comments = []\<rparr>]\<rparr>]\<rparr>"

definition sample_usage :: token_usage where
  "sample_usage = \<lparr>promptTokens = 90, completionTokens = 10, totalTokens = 100\<rparr>"

definition sample_evaluation :: metric_evaluation where
  "sample_evaluation = \<lparr>score = 3, reason = units ''r'', improvement = units ''i'',
     example_text = units ''e'', evidence_list = []\<rparr>"

definition sample_result :: llm_result where
  "sample_result = \<lparr>metric = (\<lambda>_. sample_evaluation), summary = units ''s'',
     metadata = \<lparr>requestedModel = ANALYSIS_MODEL_VERSION, responseModel = units ''gpt-5-mini'',
       metaPromptVersion = ANALYSIS_PROMPT_VERSION, generatedAt = 0\<rparr>\<rparr>"

definition sample_response :: llm_response where
  "sample_response = \<lparr>lr_providerRequestId = ''req-1'', lr_requestedModel = ANALYSIS_MODEL_VERSION,
     lr_responseModel = units ''gpt-5-mini'', lr_promptVersion = ANALYSIS_PROMPT_VERSION,
     lr_result = sample_result, lr_usage = sample_usage\<rparr>"

definition sample_provider :: llm_provider where
  "sample_provider = \<lparr>estimateTokenReservationForData =
       (\<lambda>_ _. Inr \<lparr>tr_estimatedTokens = 100, tr_reservedTokens = 8292\<rparr>),
     analyze = (\<lambda>_ _. external (\<lambda>_. Inr sample_response))\<rparr>"

definition sample_collector :: collector where
  "sample_collector i onPage = andThen (bind (onPage 0) (\<lambda>_. ret ())) (ret sample_data)"

definition sample_record :: sqs_record where
  "sample_record = \<lparr>q_messageId = ''m-1'',
     q_body = units (json_object [(''schemaVersion'', ''1''), (''jobId'', json_string sample_job_id)]),
     q_receiveCount = ''1''\<rparr>"

section \<open>Its facts\<close>

lemma calm_rely [simp]: "rely G calm \<longleftrightarrow> (\<forall>d. G d d)"
  by (simp add: rely_def calm_def)

lemma calm_fields [simp]: "interference calm n d = d" "faults calm n = Healthy"
  by (simp_all add: calm_def)

lemma calm_healthy [simp]: "healthy calm" "undisturbed calm"
  by (simp_all add: healthy_def undisturbed_def)

lemma sample_provider_guar: "provider_guar sample_provider"
  by (simp add: provider_guar_def sample_provider_def ledger.guar_external)

lemma sample_collector_guar: "collector_guar sample_collector"
  unfolding collector_guar_def sample_collector_def by (auto intro!: guar_intros)

lemmas sample_job_defs = reserved_job_def running_job_def sample_job_def new_job_def sample_input_def
  sample_job_id_def

lemma sample_jobs_ok: "job_ok sample_job" "job_ok running_job" "job_ok reserved_job"
  by (simp_all add: sample_job_defs job_ok_def job_check_defs job_coherent_def usage_unknown_def
      nonneg_or_null_def int4_def request_hash_check_def hex_char_def terminal_def list_all_iff)

lemma sample_inv: "j \<in> {sample_job, running_job, reserved_job} \<Longrightarrow> ledger_inv (db_with j)"
  using sample_jobs_ok
  by (auto simp: ledger_inv_def jobs_inv_def db_with_def one_active_def reports_match_def)
    (simp_all add: sample_job_defs)

end
