(* ===== verification/WorkerProperties.thy ===== *)
theory WorkerProperties
  imports Samples
begin

text \<open>
  What the worker's operations promise: a lost lease is fenced off, a claim is exclusive and
  counted, a failure is settled with its refund and never after a charge, retries wait within
  bounds, and a batch is acknowledged in order.
\<close>

section \<open>Fencing\<close>

text \<open>No row of the job is running under the lease.\<close>

definition lost_lease :: "string \<Rightarrow> string \<Rightarrow> db \<Rightarrow> bool" where
  "lost_lease i l d \<longleftrightarrow>
     (\<forall>j \<in> set (jobs d). j_id j = i \<longrightarrow> j_status j = RUNNING \<longrightarrow> j_leaseToken j \<noteq> Some l)"

text \<open>
  That a program leaves a given database as it is, is a guarantee too; an environment that does
  not interfere gives it.
\<close>

definition stays :: "db \<Rightarrow> db \<Rightarrow> db \<Rightarrow> bool" where
  "stays d0 d d' \<longleftrightarrow> (d = d0 \<longrightarrow> d' = d0)"

interpretation stays: guarantee "stays d0" for d0
  by unfold_locales (auto simp: stays_def)

lemmas stays_guar = stays.guar_ret stays.guar_throw stays.guar_of_result stays.guar_throw_unless
  stays.guar_now stays.guar_uuid stays.guar_random stays.guar_bind stays.guar_andThen
  stays.guar_catch stays.guar_attempt stays.guar_db_call stays.guar_transaction stays.guar_if
  stays.stmt_guar_query

lemma stays_rely [simp]: "undisturbed env \<Longrightarrow> rely (stays d0) env"
  by (simp add: undisturbed_def rely_def stays_def)

lemma staysD: "guar (stays (wdb w)) m \<Longrightarrow> wdb (snd (m w)) = wdb w"
  by (simp add: guar_def stays_def)

lemma stays_update:
  "(\<And>j. j \<in> set (jobs d) \<Longrightarrow> \<not> p j) \<Longrightarrow> stmt_guar (stays d) (update_jobs p f)"
  by (auto simp: stmt_guar_def stays_def update_jobs_none)

lemma stays_body:
  "(\<And>env w a w'. wdb w = d \<Longrightarrow> body (quiet env) w = (Inr a, w') \<Longrightarrow> wdb w' = d) \<Longrightarrow>
     body_guar (stays d) body"
  unfolding body_guar_def stays_def by blast

lemma lost_progress:
  "undisturbed env \<Longrightarrow> lost_lease i l d \<Longrightarrow> guar (stays d) (updateProgress env i l s n)"
  unfolding updateProgress_def repo_updateProgress_def
  by (intro stays_guar stays_update stays_rely) (auto simp: lost_lease_def progress_where_def)

lemma lost_charge:
  "undisturbed env \<Longrightarrow> lost_lease (pc_jobId i) (pc_expectedLeaseToken i) d \<Longrightarrow>
     guar (stays d) (recordProviderCharge env i)"
  unfolding recordProviderCharge_def repo_recordProviderCharge_def
  by (intro stays_guar stays_update stays_rely) (auto simp: lost_lease_def charge_where_def)

lemma lost_release:
  "undisturbed env \<Longrightarrow> lost_lease (rl_jobId i) (rl_leaseToken i) d \<Longrightarrow>
     guar (stays d) (releaseForRetry env i)"
  unfolding releaseForRetry_def worker_findJob_def
  by (intro stays_guar stays_update stays_rely)
    (auto simp: lost_lease_def release_where_def intro: stays_guar split: option.splits)

lemma lost_settle:
  assumes "undisturbed env" "lost_lease i l d"
  shows "guar (stays d) (finalizeRunningFailure env i l t c m b)"
  unfolding finalizeRunningFailure_def settleFailure_def
proof (intro stays.guar_transaction stays_rely assms stays_body, goal_cases)
  case (1 env w a w')
  have "wdb w' = wdb w \<and> \<not> a"
    by (rule settle_body_skips [OF 1(2)])
      (use assms(2) 1(1) in \<open>auto simp: settle_where_def lost_lease_def dest!: find_job_SomeD\<close>)
  with 1(1) show ?case by simp
qed

lemma lost_fail_transition:
  "transition (quiet env) (FailRunning i f r s) w = (Inr (), w') \<Longrightarrow>
     lost_lease i (fn_leaseToken f) (wdb w) \<Longrightarrow> False"
  by (auto dest!: transition_quiet(3) elim!: transition_row simp: fail_where lost_lease_def)

lemma debit_jobs: "debit_user (quiet env) u n w = (Inr b, w') \<Longrightarrow> jobs (wdb w') = jobs (wdb w)"
  by (auto simp: debit_user_def run_simps update_users_def users_table.bulk_update_Inr)

lemma pay_jobs:
  "(if b then db_call (quiet env) (update_user u f) else ret ()) w = (Inr x, w') \<Longrightarrow>
     jobs (wdb w') = jobs (wdb w)"
  by (auto simp: run_simps update_user_def update_users_def users_table.bulk_update_Inr
      split: if_splits sum.splits)

lemma lost_jobs: "lost_lease i l d \<Longrightarrow> jobs d' = jobs d \<Longrightarrow> lost_lease i l d'"
  by (simp add: lost_lease_def)

lemma lost_terminate:
  assumes "undisturbed env" "lost_lease (jc_jobId c) (jc_leaseToken c) d"
  shows "guar (stays d) (terminateWorkerJob env c code usage n ids opts)"
  unfolding terminateWorkerJob_def
proof (intro stays_guar stays_rely assms stays_body, goal_cases)
  case (1 t env w a w')
  obtain paid w1 w2 w3 where
    pay: "(if to_additionalDebitTokens opts > 0
      then debit_user (quiet env) (jc_userId c) (to_additionalDebitTokens opts) else ret True) w = (Inr paid, w1)"
      "(if (to_tokensSettled opts \<and> paid) \<and> n > 0
      then db_call (quiet env) (update_user (jc_userId c) (credit n)) else ret ()) w1 = (Inr (), w2)" and
    fail: "(if to_tokensSettled opts \<and> paid
      then (case usage of None \<Rightarrow> throw InvalidAnalysisTokenUsageError
        | Some u \<Rightarrow> transition (quiet env) (FailRunning (jc_jobId c) (context_fence c) (jc_reservedTokens c)
            (failure t True usage ids (if paid then code else PROVIDER_RECONCILIATION_REQUIRED))))
      else transition (quiet env) (FailRunning (jc_jobId c) (context_fence c) (jc_reservedTokens c)
        (failure t False usage ids PROVIDER_RECONCILIATION_REQUIRED))) w2 = (Inr (), w3)"
    by (rule terminate_body_run [OF 1(2)])
  have "jobs (wdb w1) = jobs (wdb w)"
    using pay(1) by (auto simp: run_simps split: if_splits dest: debit_jobs)
  then have "jobs (wdb w2) = jobs d" using pay_jobs [OF pay(2)] 1(1) by simp
  then have "lost_lease (jc_jobId c) (fn_leaseToken (context_fence c)) (wdb w2)"
    using lost_jobs [OF assms(2)] by (simp add: context_fence_def)
  with fail have False
    by (auto simp: run_simps split: if_splits option.splits dest: lost_fail_transition)
  then show ?case ..
qed

lemma lost_success_transition:
  "transition (quiet env) (Succeed i f r rid s) w = (Inr (), w') \<Longrightarrow>
     lost_lease i (fn_leaseToken f) (wdb w) \<Longrightarrow> False"
  by (auto dest!: transition_quiet(3) elim!: transition_row simp: succeed_where lost_lease_def)

lemma lost_success:
  assumes "undisturbed env" "lost_lease (jc_jobId c) (jc_leaseToken c) d"
  shows "guar (stays d) (transaction env (success_body c r res m usage rid action))"
proof (intro stays_guar stays_rely assms stays_body, goal_cases)
  case (1 env w a w')
  from 1(2) obtain p w1 w2 w3 w5 t where
    a: "db_call (quiet env) (create_report (jc_userId c) (jc_repositoryId c) res (jc_jobId c)) w = (Inr p, w1)"
      "updateStats (quiet env) (jc_userId c) m w1 = (Inr (), w2)"
      "(if r - totalTokens usage > 0 then db_call (quiet env) (update_user (jc_userId c) (credit (r - totalTokens usage)))
        else ret ()) w2 = (Inr (), w3)" and
    b: "transition (quiet env) (success_input c r (p_id p) usage rid t) (w3\<lparr>tick := Suc (tick w3)\<rparr>) = (Inr (), w5)"
    unfolding success_body_def Let_def andThen_Inr bind_Inr now_io_quiet now_io_Inr by auto
  have "jobs (wdb w1) = jobs (wdb w)" using a(1) by (auto simp: run_simps dest: create_report_Inr(1))
  then have "jobs (wdb w3) = jobs d"
    using updateStats_same [OF a(2)] pay_jobs [OF a(3)] 1(1) by simp
  then have "lost_lease (jc_jobId c) (fn_leaseToken (context_fence c)) (wdb (w3\<lparr>tick := Suc (tick w3)\<rparr>))"
    using lost_jobs [OF assms(2)] by (simp add: context_fence_def)
  with b have False unfolding success_input_def by (rule lost_success_transition)
  then show ?case ..
qed

lemma lost_reserve:
  assumes "undisturbed env" "lost_lease (jc_jobId c) (jc_leaseToken c) d"
  shows "guar (stays d) (transaction env (reserve_body c r))"
proof (intro stays_guar stays_rely assms stays_body, goal_cases)
  case (1 env w a w')
  then obtain w1 where w1: "debit_user (quiet env) (jc_userId c) (tr_reservedTokens r) w = (Inr True, w1)"
    "reserveTokens (quiet env) (reserve_input c r) w1 = (Inr a, w')"
    by (auto simp: reserve_body_def andThen_Inr bind_Inr throw_unless_Inr)
  have "lost_lease (jc_jobId c) (jc_leaseToken c) (wdb w1)"
    using lost_jobs [OF assms(2)] debit_jobs [OF w1(1)] 1(1) by simp
  then have "update_jobs (reserve_where (reserve_input c r)) (reserve_set (reserve_input c r)) now (wdb w1)
      = Inr (0, wdb w1)" for now
    by (intro update_jobs_none) (auto simp: lost_lease_def reserve_where_def reserve_input_def)
  with reserveTokens_quiet(2) [OF w1(2)] show ?case by auto
qed

text \<open>
  C3. A worker whose lease was taken over cannot write: while no row of the job is running under
  its lease, a heartbeat, the release for a retry, the settlement of a failure, the reservation
  of tokens, the checkpoint of a charge, the end of a job with or without a report all leave
  the database as it is, whether or not round trips fail.
\<close>

theorem lost_lease_writes_nothing:
  assumes "undisturbed env" "lost_lease (jc_jobId c) (jc_leaseToken c) (wdb w)"
  shows
    "wdb (snd (updateProgress env (jc_jobId c) (jc_leaseToken c) stage progress w)) = wdb w \<and>
     wdb (snd (releaseForRetry env \<lparr>rl_jobId = jc_jobId c, rl_leaseToken = jc_leaseToken c,
        rl_nextPublishAt = next, rl_errorCode = code, rl_errorMessage = message\<rparr> w)) = wdb w \<and>
     wdb (snd (finalizeRunningFailure env (jc_jobId c) (jc_leaseToken c) now code message b w)) = wdb w \<and>
     wdb (snd (transaction env (reserve_body c reservation) w)) = wdb w \<and>
     wdb (snd (recordProviderCharge env (charge_input c reserved usage requestId) w)) = wdb w \<and>
     wdb (snd (terminateWorkerJob env c failureCode usage refundTokens ids opts w)) = wdb w \<and>
     wdb (snd (transaction env (success_body c reserved result metrics use requestId action) w)) = wdb w"
  using assms
  by (intro conjI staysD lost_progress lost_release lost_settle lost_reserve lost_charge
      lost_terminate lost_success) (simp_all add: charge_input_def)

theorem lost_lease_writes_nothing_witness:
  "wdb (snd (updateProgress calm sample_job_id ''old'' SAVING 90 (world_with running_job)))
     = db_with running_job"
proof -
  let ?c = "\<lparr>jc_jobId = sample_job_id, jc_leaseToken = ''old'', jc_userId = 1, jc_repositoryId = 7,
    jc_reservedTokens = None, jc_version = CURRENT_ANALYSIS_EXECUTION_VERSION\<rparr>"
  have "undisturbed calm" by (simp add: undisturbed_def)
  moreover have "lost_lease (jc_jobId ?c) (jc_leaseToken ?c) (wdb (world_with running_job))"
    by (simp add: lost_lease_def world_with_def db_with_def sample_job_defs)
  ultimately show ?thesis
    using lost_lease_writes_nothing [of calm ?c "world_with running_job" SAVING 90]
    by (simp add: world_with_def)
qed

section \<open>Claims\<close>

lemma claimed_row:
  assumes wr: "claim_write (quiet env) p f w = (Inr True, w1)"
    and req: "requireClaimedJob (quiet env) i l w1 = (Inr job, w2)"
    and dist: "distinct (map j_id (jobs (wdb w)))"
    and p: "\<And>x. p x \<Longrightarrow> j_id x = i \<and> j_id (f x) = i"
  shows "\<exists>j \<in> set (jobs (wdb w)). p j \<and> w_row job = f j \<and>
     wdb w2 = (wdb w)\<lparr>jobs := update_where p f (jobs (wdb w))\<rparr>"
proof -
  have n: "count_where p (jobs (wdb w)) = 1"
    and w1: "wdb w1 = (wdb w)\<lparr>jobs := update_where p f (jobs (wdb w))\<rparr>"
    using wr by (auto simp: claim_write_def run_simps raw_update_jobs_def jobs_table.bulk_update_Inr)
  obtain j where j: "j \<in> set (jobs (wdb w))" "p j" using n by (rule count_where_1_obtain)
  obtain x where x: "x \<in> set (jobs (wdb w1))" "j_id x = i" "w_row job = x" and w2: "wdb w2 = wdb w1"
    using req by (auto simp: requireClaimedJob_def run_simps select_worker_job_def bind_eq_Some_conv
        split: option.splits dest!: find_SomeD)
  from x(1) w1 obtain y where y: "y \<in> set (jobs (wdb w))" "x = (if p y then f y else y)"
    by (auto simp: set_update_where)
  then have "j_id y = i" using x(2) p by (auto split: if_splits)
  with y(1) j p dist have "y = j" by (metis keyed_row_unique)
  with y j x(3) w1 w2 show ?thesis by auto
qed

lemma worker_findJob_run:
  assumes "worker_findJob (quiet env) i w = (Inr (Some cur), w1)"
  shows "wdb w1 = wdb w \<and> find_job i (wdb w) = Some (w_row cur)"
proof -
  have "Option.bind (find_job i (wdb w)) (select_worker_job (wdb w)) = Some cur" "wdb w1 = wdb w"
    using assms by (auto simp: worker_findJob_def run_simps)
  then show ?thesis by (auto simp: bind_eq_Some_conv select_worker_job_def)
qed

lemma finish_claim_run:
  "bind (claim_write (quiet env) p f) (finish_claim (quiet env) i l now) w = (Inr (CLAIMED job l'), w') \<Longrightarrow>
     l' = l \<and> (\<exists>w2. claim_write (quiet env) p f w = (Inr True, w2) \<and>
       requireClaimedJob (quiet env) i l w2 = (Inr job, w'))"
  by (auto simp: finish_claim_def run_simps resolveClaimRace_def Let_def split: if_splits option.splits)

text \<open>The write behind a claim: of a queued job, or of one whose lease ran out.\<close>

definition claim_kind :: "db \<Rightarrow> string \<Rightarrow> string \<Rightarrow> int \<Rightarrow> int \<Rightarrow> (job_row \<Rightarrow> bool) \<Rightarrow> (job_row \<Rightarrow> job_row) \<Rightarrow> bool" where
  "claim_kind d i l now e p f \<longleftrightarrow>
     p = claim_queued_where i now \<and> f = claim_queued_set l now e \<or>
     (\<exists>j. find_job i d = Some j \<and> \<not> hasProviderBillingEvidence j \<and>
        p = take_over_where j now \<and> f = take_over_set l now e) \<or>
     (\<exists>j. find_job i d = Some j \<and> p = take_over_billed_where j now \<and> f = take_over_billed_set l now e)"

lemma claim_run:
  assumes "claim (quiet env) i l now e w = (Inr (CLAIMED job l'), w')"
  shows "l' = l \<and> (\<exists>w1 w2 p f. wdb w1 = wdb w \<and> claim_kind (wdb w) i l now e p f \<and>
    claim_write (quiet env) p f w1 = (Inr True, w2) \<and> requireClaimedJob (quiet env) i l w2 = (Inr job, w'))"
proof -
  obtain found w1 where c: "worker_findJob (quiet env) i w = (Inr found, w1)"
    using assms by (auto simp: claim_def bind_Inr)
  then obtain cur where cur: "found = Some cur"
    using assms by (cases found) (auto simp: claim_def bind_def run_simps)
  have cw: "wdb w1 = wdb w" "find_job i (wdb w) = Some (w_row cur)"
    using worker_findJob_run [of env i w cur w1] c cur by simp_all
  have "\<exists>p f. claim_kind (wdb w) i l now e p f \<and>
     bind (claim_write (quiet env) p f) (finish_claim (quiet env) i l now) w1 = (Inr (CLAIMED job l'), w')"
    using assms c cur cw(2)
    unfolding claim_def bind_def [of "worker_findJob (quiet env) i"] Let_def claimQueued_def
      takeOverExpiredLease_def takeOverExpiredBilledLease_def claim_kind_def
    by (auto simp: ret_run split: if_splits)
  with cw(1) finish_claim_run show ?thesis by blast
qed

text \<open>
  C4. A claim that succeeds gives the caller the row it wrote: the job was queued and due, or
  running under a lease that had expired; now it is running under the caller's lease until the
  given time. The attempt is counted, except when the job already carries a provider charge,
  and never beyond the limit of the job.
\<close>

theorem claim_takes_the_job:
  assumes "undisturbed env" "ledger_inv (wdb w)"
    and "claim env i l now e w = (Inr (CLAIMED job l'), w')"
  shows "l' = l \<and> w_row job \<in> set (jobs (wdb w')) \<and> j_id (w_row job) = i \<and>
    j_status (w_row job) = RUNNING \<and> j_leaseToken (w_row job) = Some l \<and>
    j_leaseExpiresAt (w_row job) = Some e \<and> j_attemptCount (w_row job) \<le> j_maxAttempts (w_row job) \<and>
    (\<exists>j \<in> set (jobs (wdb w)). j_id j = i \<and>
       (j_status j = QUEUED \<and> \<not> after (j_nextPublishAt j) now \<or>
        j_status j = RUNNING \<and> \<not> after (j_leaseExpiresAt j) now) \<and>
       j_attemptCount (w_row job) = j_attemptCount j +
         (if j_status j = RUNNING \<and> hasProviderBillingEvidence j then 0 else 1))"
proof -
  have q: "claim (quiet env) i l now e w = (Inr (CLAIMED job l'), w')"
    using assms(1,3) by (simp add: undisturbed_quiet)
  obtain w1 w2 p f where w1: "wdb w1 = wdb w" and k: "claim_kind (wdb w) i l now e p f" and l: "l' = l"
    and run: "claim_write (quiet env) p f w1 = (Inr True, w2)" "requireClaimedJob (quiet env) i l w2 = (Inr job, w')"
    using claim_run [OF q] by blast
  have p: "j_id x = i \<and> j_id (f x) = i" if "p x" for x
    using k that find_job_SomeD [of i "wdb w"]
    by (auto simp: claim_kind_def claim_queued_where_def claim_queued_set_def take_over_where_def
        take_over_set_def take_over_billed_where_def take_over_billed_set_def same_expired_lease_def)
  obtain j where j: "j \<in> set (jobs (wdb w))" "p j" "w_row job = f j"
    and w': "wdb w' = (wdb w)\<lparr>jobs := update_where p f (jobs (wdb w))\<rparr>"
    using claimed_row [OF run _ p] ledger_invD(1) [OF assms(2)] w1 by auto
  have mem: "f j \<in> set (jobs (wdb w'))" using j(1,2) by (force simp: w' set_update_where)
  have le: "j_attemptCount j \<le> j_maxAttempts j"
    using ledger_invD(3) [OF assms(2) j(1)] by (simp add: job_ok_def job_coherent_def)
  have same: "x = j" if "find_job i (wdb w) = Some x" for x
    using find_job_SomeD [OF that] j(1) p [OF j(2)] ledger_invD(1) [OF assms(2)]
    by (metis keyed_row_unique)
  have "j_status (f j) = RUNNING \<and> j_leaseToken (f j) = Some l \<and> j_leaseExpiresAt (f j) = Some e \<and>
    j_attemptCount (f j) \<le> j_maxAttempts (f j) \<and>
    (j_status j = QUEUED \<and> \<not> after (j_nextPublishAt j) now \<or>
     j_status j = RUNNING \<and> \<not> after (j_leaseExpiresAt j) now) \<and>
    j_attemptCount (f j) = j_attemptCount j + (if j_status j = RUNNING \<and> hasProviderBillingEvidence j then 0 else 1)"
    using k j(2) le unfolding claim_kind_def
  proof (elim disjE exE conjE, goal_cases)
    case 1
    then show ?thesis
      by (auto simp: claim_queued_where_def claim_queued_set_def after_def split: option.splits)
  next
    case (2 x)
    with same [OF 2(3)] show ?thesis
      by (auto simp: take_over_where_def take_over_set_def same_expired_lease_def after_def split: option.splits)
  next
    case (3 x)
    with same [OF 3(3)] show ?thesis
      by (auto simp: take_over_billed_where_def take_over_billed_set_def same_expired_lease_def after_def
          split: option.splits)
  qed
  with mem j(1,3) p [OF j(2)] l show ?thesis by auto
qed

theorem claim_takes_the_job_witness:
  "\<exists>job w'. claim calm sample_job_id ''lease-1'' 1000000 1900000 (world_with sample_job)
     = (Inr (CLAIMED job ''lease-1''), w') \<and> j_attemptCount (w_row job) = 1"
proof -
  have "undisturbed calm" "ledger_inv (wdb (world_with sample_job))"
    using sample_inv [of sample_job] by (simp_all add: undisturbed_def world_with_def)
  moreover have "case fst (claim calm sample_job_id ''lease-1'' 1000000 1900000 (world_with sample_job)) of
      Inr (CLAIMED job l) \<Rightarrow> l = ''lease-1'' | _ \<Rightarrow> False"
    by code_simp
  then obtain job w' where run: "claim calm sample_job_id ''lease-1'' 1000000 1900000
      (world_with sample_job) = (Inr (CLAIMED job ''lease-1''), w')"
    by (cases "claim calm sample_job_id ''lease-1'' 1000000 1900000 (world_with sample_job)")
      (auto split: sum.splits claim_result.splits)
  ultimately show ?thesis
    using claim_takes_the_job [OF _ _ run] by (auto simp: world_with_def db_with_def sample_job_defs)
qed

text \<open>
  C4. While a lease is running, nobody else gets the job: a claim at a time before the lease
  expires is answered \<^const>\<open>ACTIVE_LEASE\<close>, and the database stays as it is.
\<close>

theorem running_lease_excludes_claims:
  assumes "undisturbed env" "find_job i (wdb w) = Some j" "select_worker_job (wdb w) j \<noteq> None"
    and "j_status j = RUNNING" "after (j_leaseExpiresAt j) now" "faults env (tick w) = Healthy"
  shows "\<exists>w'. claim env i l now e w = (Inr ACTIVE_LEASE, w') \<and> wdb w' = wdb w"
proof -
  obtain cur where cur: "select_worker_job (wdb w) j = Some cur" using assms(3) by auto
  then have row: "w_row cur = j" by (auto simp: select_worker_job_def bind_eq_Some_conv)
  have "worker_findJob env i w = (Inr (Some cur), w\<lparr>tick := Suc (tick w), wdb := wdb w\<rparr>)"
    unfolding worker_findJob_def
    by (subst db_call_undisturbed_Inr [OF assms(1)]) (simp add: assms(2,6) cur)
  then show ?thesis
    using assms(4,5) row by (simp add: claim_def bind_def Let_def ret_run)
qed

theorem running_lease_excludes_claims_witness:
  "fst (claim calm sample_job_id ''other'' 940000 990000 (world_with running_job)) = Inr ACTIVE_LEASE"
proof -
  have "undisturbed calm" "find_job sample_job_id (wdb (world_with running_job)) = Some running_job"
    "select_worker_job (wdb (world_with running_job)) running_job \<noteq> None"
    by (simp_all add: undisturbed_def world_with_def db_with_def find_job_def sample_job_defs
        select_worker_job_def find_repository_def find_user_def sample_repository_def sample_user_def)
  from running_lease_excludes_claims [OF this, of 940000 "''other''" 990000] show ?thesis
    by (auto simp: sample_job_defs after_def)
qed

section \<open>Settling failures\<close>

lemma settle_checks:
  assumes "job_ok j" "error_code_check (sf_errorCode i)" "length (sf_errorMessage i) \<le> 256"
  shows "job_checks (settle_set i j)"
  using assms
  by (simp add: job_ok_def job_check_defs settle_set_def nonneg_or_null_def int4_def usage_known_def
      terminal_def)

text \<open>The user with the refund of a job.\<close>

definition refunded :: "job_row \<Rightarrow> int \<Rightarrow> user_row \<Rightarrow> user_row" where
  "refunded j t u =
     (if u_id u = j_userId j \<and> 0 < option_or (j_reservedTokens j) 0
      then (credit (option_or (j_reservedTokens j) 0) u)\<lparr>u_updatedAt := t\<rparr> else u)"

lemma refund_run:
  assumes "healthy env" "distinct (map u_id (users (wdb w)))" "find_user (j_userId j) (wdb w) = Some u"
    "int4 (u_availableTokens u + option_or (j_reservedTokens j) 0)"
  shows "\<exists>w' t. refund env j w = (Inr (), w') \<and> wdb w' = (wdb w)\<lparr>users := map (refunded j t) (users (wdb w))\<rparr>"
proof (cases "0 < option_or (j_reservedTokens j) 0")
  case False
  then have "map (refunded j t) us = us" for t us
    by (simp add: refunded_def map_idI)
  moreover have "refund env j w = (Inr (), w)"
    using False by (auto simp: refund_def ret_def split: option.splits)
  ultimately show ?thesis by (cases w) simp
next
  case True
  then obtain r where r: "j_reservedTokens j = Some r" "0 < r" by (cases "j_reservedTokens j") auto
  let ?t = "clock env (tick w)"
  have u: "u \<in> set (users (wdb w))" "u_id u = j_userId j" using find_user_SomeD [OF assms(3)] by simp_all
  have valid: "int4 (u_availableTokens (credit r x))" if "x \<in> set (users (wdb w))" "u_id x = j_userId j" for x
    using keyed_row_unique [OF assms(2) that(1) u(1)] that(2) u(2) assms(4) r by (simp add: credit_def)
  have n: "count_where (\<lambda>x. u_id x = j_userId j) (users (wdb w)) \<noteq> 0"
    using u by (auto simp: count_where_0_iff)
  have rows: "update_where (\<lambda>x. u_id x = j_userId j) (\<lambda>x. (credit r x)\<lparr>u_updatedAt := ?t\<rparr>) us
      = map (refunded j ?t) us" for us
    using r by (simp add: update_where_def refunded_def)
  have "update_users (\<lambda>x. u_id x = j_userId j) (credit r) ?t (wdb w)
      = Inr (count_where (\<lambda>x. u_id x = j_userId j) (users (wdb w)),
          (wdb w)\<lparr>users := map (refunded j ?t) (users (wdb w))\<rparr>)"
    unfolding update_users_def users_table.bulk_update_Inr using valid rows by simp
  then have "update_user (j_userId j) (credit r) ?t (wdb w)
      = Inr ((), (wdb w)\<lparr>users := map (refunded j ?t) (users (wdb w))\<rparr>)"
    using n by (simp add: update_user_def)
  with r assms(1) show ?thesis
    by (intro exI [of _ "w\<lparr>tick := Suc (tick w), wdb := (wdb w)\<lparr>users := map (refunded j ?t) (users (wdb w))\<rparr>\<rparr>"]
        exI [of _ ?t]) (simp add: refund_def db_call_healthy)
qed

lemma settle_run:
  assumes "healthy env" "ledger_inv (wdb w)" "find_job (sf_jobId i) (wdb w) = Some j"
    and "settle_where i j" "\<not> hasProviderBillingEvidence j"
    and "find_user (j_userId j) (wdb w) = Some u"
    and "int4 (u_availableTokens u + option_or (j_reservedTokens j) 0)"
    and "error_code_check (sf_errorCode i)" "length (sf_errorMessage i) \<le> 256"
  shows "\<exists>w' t t'. settleFailure env i w = (Inr True, w') \<and>
    wdb w' = (wdb w)\<lparr>
      jobs := map (\<lambda>x. if j_id x = sf_jobId i then (settle_set i j)\<lparr>j_updatedAt := t\<rparr> else x) (jobs (wdb w)),
      users := map (refunded j t') (users (wdb w))\<rparr>"
proof -
  note inv = ledger_invD [OF assms(2)]
  have j: "j \<in> set (jobs (wdb w))" "j_id j = sf_jobId i" using find_job_SomeD [OF assms(3)] by simp_all
  have one: "x = j" if "x \<in> set (jobs (wdb w))" "j_id x = sf_jobId i" for x
    using keyed_row_unique [OF inv(1) that(1) j(1)] that(2) j(2) by simp
  let ?t = "clock env (Suc (Suc (tick w)))"
  let ?d = "(wdb w)\<lparr>jobs := update_where (settle_where i) (\<lambda>x. (settle_set i x)\<lparr>j_updatedAt := ?t\<rparr>) (jobs (wdb w))\<rparr>"
  have upd: "update_jobs (settle_where i) (settle_set i) ?t (wdb w) = Inr (1, ?d)"
    by (rule update_jobs_one [where p = "settle_where i", OF j(1) assms(4) inv(1)])
      (use j settle_checks [OF inv(3) [OF j(1)] assms(8,9)] in \<open>auto simp: settle_where_def\<close>)
  have rows: "jobs ?d = map (\<lambda>x. if j_id x = sf_jobId i then (settle_set i j)\<lparr>j_updatedAt := ?t\<rparr> else x) (jobs (wdb w))"
    using one j(2) assms(4) by (auto simp: update_where_def settle_where_def)
  let ?w = "w\<lparr>tick := Suc (Suc (Suc (tick w))), wdb := ?d\<rparr>"
  obtain w' t' where pay: "refund env j ?w = (Inr (), w')"
    "wdb w' = (wdb ?w)\<lparr>users := map (refunded j t') (users (wdb ?w))\<rparr>"
    using refund_run [of env ?w j u] assms(1,6,7) inv(2) by (auto simp: find_user_def)
  have "settleFailure env i w = (Inr True, w'\<lparr>tick := Suc (tick w')\<rparr>)"
    using assms(1,3,4,5) upd pay(1)
    by (cases w) (simp add: settleFailure_def transaction_healthy settle_body_def bind_def andThen_def
        db_call_healthy query_def settle_where_def throw_unless_def ret_def)
  with pay(2) rows show ?thesis by (intro exI [of _ "w'\<lparr>tick := Suc (tick w')\<rparr>"]) auto
qed


text \<open>
  C5. Settling a failure gives everything back: an open job under the right lease, not billed,
  becomes failed with the error, settled with no tokens used, and its reservation returns to
  its user in the same transaction; no other row changes.
\<close>

theorem settle_refunds_reservation:
  assumes "healthy env" "ledger_inv (wdb w)" "find_job (sf_jobId i) (wdb w) = Some j"
    and "settle_where i j" "\<not> hasProviderBillingEvidence j"
    and "find_user (j_userId j) (wdb w) = Some u"
    and "int4 (u_availableTokens u + option_or (j_reservedTokens j) 0)"
    and "error_code_check (sf_errorCode i)" "length (sf_errorMessage i) \<le> 256"
  shows "\<exists>w' t t'. settleFailure env i w = (Inr True, w') \<and>
    wdb w' = (wdb w)\<lparr>
      jobs := map (\<lambda>x. if j_id x = sf_jobId i then (settle_set i j)\<lparr>j_updatedAt := t\<rparr> else x) (jobs (wdb w)),
      users := map (refunded j t') (users (wdb w))\<rparr>"
  using settle_run [OF assms] .

definition sample_settle :: settle_input where
  "sample_settle = \<lparr>sf_jobId = sample_job_id, sf_expectedStatus = RUNNING,
     sf_expectedLeaseToken = Some ''lease-1'', sf_completedAt = 1000000, sf_errorCode = ''ANALYSIS_FAILED'',
     sf_errorMessage = ''Analysis failed.'', sf_errorRetryable = False\<rparr>"

theorem settle_refunds_reservation_witness:
  "map u_availableTokens (users (wdb (snd (settleFailure calm sample_settle (world_with reserved_job))))) = [58292]"
proof -
  have "\<exists>w' t t'. settleFailure calm sample_settle (world_with reserved_job) = (Inr True, w') \<and>
    wdb w' = (wdb (world_with reserved_job))\<lparr>
      jobs := map (\<lambda>x. if j_id x = sf_jobId sample_settle
        then (settle_set sample_settle reserved_job)\<lparr>j_updatedAt := t\<rparr> else x) (jobs (wdb (world_with reserved_job))),
      users := map (refunded reserved_job t') (users (wdb (world_with reserved_job)))\<rparr>"
    by (rule settle_refunds_reservation [where u = sample_user])
      (use sample_inv in \<open>simp_all add: world_with_def db_with_def find_job_def find_user_def settle_where_def
        sample_settle_def sample_job_defs sample_user_def hasProviderBillingEvidence_def int4_def
        error_code_check_def code_char_def\<close>)
  then show ?thesis
    by (auto simp: world_with_def db_with_def refunded_def credit_def sample_job_defs sample_user_def)
qed

text \<open>
  C6. A job that was billed is never settled as a failure: whatever round trips fail, the
  settlement does not report success and leaves the database as it is. The charge stays on the
  job until it is reconciled.
\<close>

theorem billed_job_is_not_settled:
  assumes "undisturbed env"
    and "\<forall>j \<in> set (jobs (wdb w)). j_id j = sf_jobId i \<longrightarrow> hasProviderBillingEvidence j"
  shows "fst (settleFailure env i w) \<noteq> Inr True \<and> wdb (snd (settleFailure env i w)) = wdb w"
proof
  have skips: "wdb w2 = wdb w1 \<and> \<not> b"
    if "settle_body i (quiet env) w1 = (Inr b, w2)" "wdb w1 = wdb w" for w1 b w2
    by (rule settle_body_skips [OF that(1)]) (use that(2) assms(2) find_job_SomeD in fastforce)
  show "wdb (snd (settleFailure env i w)) = wdb w"
    unfolding settleFailure_def
    by (rule transaction_rolls_back [OF assms(1)]) (use skips in auto)
  show "fst (settleFailure env i w) \<noteq> Inr True"
  proof
    assume "fst (settleFailure env i w) = Inr True"
    then obtain w' where "transaction env (settle_body i) w = (Inr True, w')"
      by (cases "settleFailure env i w") (simp add: settleFailure_def)
    from transaction_Inr [OF this assms(1)] skips show False by blast
  qed
qed

theorem billed_job_is_not_settled_witness:
  "wdb (snd (settleFailure calm sample_settle (world_with (reserved_job\<lparr>j_providerRequestIds := [''req-1'']\<rparr>))))
     = db_with (reserved_job\<lparr>j_providerRequestIds := [''req-1'']\<rparr>)"
  using billed_job_is_not_settled [of calm "world_with (reserved_job\<lparr>j_providerRequestIds := [''req-1'']\<rparr>)" sample_settle]
  by (simp add: world_with_def db_with_def hasProviderBillingEvidence_def)

section \<open>Batches\<close>

text \<open>The world after some records were processed, one after the other.\<close>

definition after_records :: "collector \<Rightarrow> llm_provider \<Rightarrow> env \<Rightarrow> sqs_record list \<Rightarrow> world \<Rightarrow> world" where
  "after_records collect provider env rs w =
     fold (\<lambda>r w. snd (processRecord collect provider env r w)) rs w"

lemma processRecords_prefix:
  "\<exists>n \<le> length rs. fst (processRecords collect p env rs w) = Inr (map q_messageId (drop n rs)) \<and>
     snd (processRecords collect p env rs w) = after_records collect p env (take (Suc n) rs) w \<and>
     (\<forall>k < n. fst (processRecord collect p env (rs ! k) (after_records collect p env (take k rs) w)) = Inr ACK) \<and>
     (n < length rs \<longrightarrow>
        fst (processRecord collect p env (rs ! n) (after_records collect p env (take n rs) w)) \<noteq> Inr ACK)"
proof (induction rs arbitrary: w)
  case Nil
  then show ?case by (simp add: ret_def after_records_def)
next
  case (Cons r rs)
  obtain res w1 where run: "processRecord collect p env r w = (res, w1)"
    by (cases "processRecord collect p env r w")
  show ?case
  proof (cases "res = Inr ACK")
    case True
    obtain n where n: "n \<le> length rs"
      "fst (processRecords collect p env rs w1) = Inr (map q_messageId (drop n rs))"
      "snd (processRecords collect p env rs w1) = after_records collect p env (take (Suc n) rs) w1"
      "\<forall>k < n. fst (processRecord collect p env (rs ! k) (after_records collect p env (take k rs) w1)) = Inr ACK"
      "n < length rs \<longrightarrow>
        fst (processRecord collect p env (rs ! n) (after_records collect p env (take n rs) w1)) \<noteq> Inr ACK"
      using Cons.IH by blast
    have step: "after_records collect p env (r # xs) w = after_records collect p env xs w1" for xs
      by (simp add: after_records_def run)
    have "\<forall>k < Suc n. fst (processRecord collect p env ((r # rs) ! k)
        (after_records collect p env (take k (r # rs)) w)) = Inr ACK"
    proof (intro allI impI)
      fix k assume "k < Suc n"
      then show "fst (processRecord collect p env ((r # rs) ! k)
        (after_records collect p env (take k (r # rs)) w)) = Inr ACK"
        using n(4) run True by (cases k) (simp_all add: step, simp add: after_records_def)
    qed
    with n run True show ?thesis
      by (intro exI [of _ "Suc n"]) (simp add: step bind_def catch_def ret_def)
  next
    case False
    with run have "processRecords collect p env (r # rs) w = (Inr (map q_messageId (r # rs)), w1)"
      by (cases res) (auto simp: bind_def catch_def ret_def split: record_outcome.splits)
    with False run show ?thesis
      by (intro exI [of _ 0]) (simp add: after_records_def)
  qed
qed

text \<open>
  C12. A batch never fails as a whole, and keeps the order of the queue: the records up to
  some point were processed one after the other and acknowledged, the next one was not, and
  it and every record after it, none of which was touched, are reported as failed, each once.
\<close>

theorem batch_reports_a_suffix:
  "\<exists>n \<le> length rs. fst (processBatch collect p env rs w) = Inr (set_items (map q_messageId (drop n rs))) \<and>
     snd (processBatch collect p env rs w) = after_records collect p env (take (Suc n) rs) w \<and>
     (\<forall>k < n. fst (processRecord collect p env (rs ! k) (after_records collect p env (take k rs) w)) = Inr ACK) \<and>
     (n < length rs \<longrightarrow>
        fst (processRecord collect p env (rs ! n) (after_records collect p env (take n rs) w)) \<noteq> Inr ACK)"
proof -
  have "fst (processBatch collect p env rs w) = map_sum id set_items (fst (processRecords collect p env rs w))"
    "snd (processBatch collect p env rs w) = snd (processRecords collect p env rs w)"
    by (auto simp: processBatch_def bind_def ret_def split: prod.splits sum.splits)
  with processRecords_prefix [of rs collect p env w] show ?thesis by auto
qed

lemma set_items_set: "set (set_items xs) = set xs" "distinct (set_items xs)"
  by (simp_all add: set_items_def)


lemma parse_sample [simp]: "parseAnalysisWorkerMessage (q_body sample_record) = VALID sample_job_id"
proof -
  have "normalized_uuid (units sample_job_id)"
    by (simp add: normalized_uuid_def uuid_pattern_def hex_lower_def sample_job_id_def units_def numeral_nat)
  then show ?thesis using parse_message_text [of sample_job_id] by (simp add: sample_record_def message_text_def)
qed

abbreviation leased_job :: job_row where
  "leased_job \<equiv> running_job\<lparr>j_leaseExpiresAt := Some 2000000\<rparr>"

theorem batch_reports_a_suffix_witness:
  "fst (processBatch sample_collector sample_provider calm [sample_record] (world_with leased_job)) = Inr [''m-1'']"
proof -
  have retry: "fst (processRecord sample_collector sample_provider calm sample_record (world_with leased_job)) = Inr RETRY"
  proof -
    let ?w = "(world_with leased_job)\<lparr>tick := 2\<rparr>"
    have "fst (claim calm sample_job_id (uuids calm 1) 1000000 1900000 ?w) = Inr ACTIVE_LEASE"
      by code_simp
    then obtain w' where "claim calm sample_job_id (uuids calm 1) 1000000 1900000 ?w = (Inr ACTIVE_LEASE, w')"
      by (cases "claim calm sample_job_id (uuids calm 1) 1000000 1900000 ?w") simp
    then show ?thesis
      by (simp add: processRecord_def bind_def now_io_def uuid_io_def ret_def leaseExpiresAt_def
          leaseSeconds_def positiveIntegerConfig_def worker_constants calm_def world_with_def numeral_2_eq_2)
  qed
  obtain n where n: "n \<le> 1"
    "fst (processBatch sample_collector sample_provider calm [sample_record] (world_with leased_job))
      = Inr (set_items (map q_messageId (drop n [sample_record])))"
    "\<forall>k < n. fst (processRecord sample_collector sample_provider calm ([sample_record] ! k)
       (after_records sample_collector sample_provider calm (take k [sample_record]) (world_with leased_job))) = Inr ACK"
    using batch_reports_a_suffix [of "[sample_record]" sample_collector sample_provider calm "world_with leased_job"]
    by auto
  have "n = 0"
  proof (rule ccontr)
    assume "n \<noteq> 0"
    with n(3) have "fst (processRecord sample_collector sample_provider calm sample_record (world_with leased_job)) = Inr ACK"
      by (auto simp: after_records_def)
    with retry show False by simp
  qed
  with n(2) show ?thesis by (simp add: set_items_def sample_record_def)
qed

section \<open>Waiting for the next attempt\<close>

lemma positiveIntegerConfig_bounds:
  "0 < fallback \<Longrightarrow> fallback \<le> maximum \<Longrightarrow>
     0 < positiveIntegerConfig env name fallback maximum \<and>
     positiveIntegerConfig env name fallback maximum \<le> maximum"
  by (auto simp: positiveIntegerConfig_def split: option.splits)

lemma leaseSeconds_bounds: "1 \<le> leaseSeconds env \<and> leaseSeconds env \<le> 3600"
  using positiveIntegerConfig_bounds [of DEFAULT_LEASE_SECONDS MAX_LEASE_SECONDS env "''ANALYSIS_WORKER_LEASE_SECONDS''"]
  by (simp add: leaseSeconds_def worker_constants)

lemma retryBaseSeconds_bounds: "1 \<le> retryBaseSeconds env \<and> retryBaseSeconds env \<le> 900"
  using positiveIntegerConfig_bounds [of DEFAULT_RETRY_BASE_SECONDS MAX_RETRY_BASE_SECONDS env "''ANALYSIS_WORKER_RETRY_BASE_SECONDS''"]
  by (simp add: retryBaseSeconds_def worker_constants)

lemma exponentialSeconds_bounds:
  assumes "1 \<le> b" "b \<le> 3600"
  shows "b \<le> exponentialSeconds b n \<and> exponentialSeconds b n \<le> 3600"
proof -
  have "(1 :: int) \<le> 2 ^ nat (max 0 (n - 1))" by simp
  then have "b * 1 \<le> b * 2 ^ nat (max 0 (n - 1))"
    using assms(1) by (intro mult_left_mono) auto
  with assms show ?thesis by (simp add: exponentialSeconds_def worker_constants)
qed


lemma nextBackoffAt_bounds:
  assumes "1 \<le> b" "b \<le> 3600" "0 \<le> now" "0 \<le> x" "x < 1"
  shows "now + b * 1000 \<le> nextBackoffAt b now n x \<and> nextBackoffAt b now n x \<le> now + 4320000"
proof -
  define s where "s = exponentialSeconds b n"
  define r :: rat where "r = of_int now + (of_int s + of_int s * JITTER_RATIO * x) * 1000"
  have s: "b \<le> s" "s \<le> 3600" using exponentialSeconds_bounds [OF assms(1,2)] by (simp_all add: s_def)
  have j: "0 \<le> of_int s * JITTER_RATIO * x" "of_int s * JITTER_RATIO * x \<le> 720"
  proof -
    have "0 \<le> (of_int s :: rat)" "(of_int s :: rat) \<le> 3600" using s assms(1) by simp_all
    moreover from this have "of_int s * x \<le> 3600 * (1 :: rat)"
      using assms(4,5) by (intro mult_mono) auto
    ultimately show "0 \<le> of_int s * JITTER_RATIO * x" "of_int s * JITTER_RATIO * x \<le> 720"
      using assms(4) by (simp_all add: JITTER_RATIO_def)
  qed
  have lo: "of_int (now + b * 1000) \<le> r"
  proof -
    have "(of_int b :: rat) \<le> of_int s" using s by simp
    then show ?thesis using j by (simp add: r_def)
  qed
  have hi: "r \<le> of_int (now + 4320000)"
  proof -
    have "(of_int s :: rat) \<le> 3600" using s by simp
    then show ?thesis using j by (simp add: r_def)
  qed
  have "0 \<le> (of_int (now + b * 1000) :: rat)" using assms(1,3) by simp
  with lo have "0 \<le> r" by (rule order_trans [rotated])
  then have "nextBackoffAt b now n x = \<lfloor>r\<rfloor>"
    by (simp add: nextBackoffAt_def s_def r_def Let_def js_trunc_def)
  then show ?thesis using lo hi by (simp add: le_floor_iff floor_le_iff)
qed

text \<open>
  A retry waits within bounds: at least the base delay and at most 72 minutes after the
  failure, unless the provider asked for a later time; never earlier than the provider asked.
\<close>

theorem retry_waits_within_bounds:
  assumes "0 \<le> now" "0 \<le> randoms env (tick w)" "randoms env (tick w) < 1"
  shows "\<exists>t. fst (nextRetryAt env now attempts p w) = Inr t \<and>
    now + 1000 \<le> now + retryBaseSeconds env * 1000 \<and> now + retryBaseSeconds env * 1000 \<le> t \<and>
    (t \<le> now + 72 * 60 * 1000 \<or> p = Some t) \<and> option_all (\<lambda>q. q \<le> t) p"
proof -
  let ?b = "nextBackoffAt (retryBaseSeconds env) now attempts (randoms env (tick w))"
  have "now + retryBaseSeconds env * 1000 \<le> ?b" "?b \<le> now + 4320000"
    using nextBackoffAt_bounds [of "retryBaseSeconds env" now "randoms env (tick w)" attempts]
      retryBaseSeconds_bounds [of env] assms by simp_all
  then show ?thesis
    using retryBaseSeconds_bounds [of env]
    by (cases p) (simp_all add: nextRetryAt_def bind_def random_io_def ret_def Let_def)
qed

theorem retry_waits_within_bounds_witness:
  "\<exists>t. fst (nextRetryAt calm 1000000 3 (Some 2000000) (world_with running_job)) = Inr t \<and> 2000000 \<le> t"
  using retry_waits_within_bounds [of 1000000 calm "world_with running_job" 3 "Some 2000000"]
  by (auto simp: calm_def)

section \<open>Handling a failure\<close>

definition released_row :: "release_input \<Rightarrow> int \<Rightarrow> job_row \<Rightarrow> job_row" where
  "released_row i t j = (release_set i j)\<lparr>j_updatedAt := t\<rparr>"

lemma release_run:
  assumes "healthy env" "ledger_inv (wdb w)" "j \<in> set (jobs (wdb w))" "release_where i j"
    and "error_code_check (rl_errorCode i)" "length (rl_errorMessage i) \<le> 256"
  shows "\<exists>w' t. releaseForRetry env i w = (Inr (), w') \<and>
    find_job (j_id j) (wdb w') = Some (released_row i t j)"
proof -
  note inv = ledger_invD [OF assms(2)]
  let ?t = "clock env (tick w)"
  let ?d = "(wdb w)\<lparr>jobs := update_where (release_where i) (\<lambda>x. (release_set i x)\<lparr>j_updatedAt := ?t\<rparr>) (jobs (wdb w))\<rparr>"
  have "job_checks (release_set i j)"
    using inv(3) [OF assms(3)] assms(4-6)
    by (simp add: job_ok_def job_check_defs release_set_def release_where_def terminal_def
        usage_known_def usage_unknown_def)
  then have "update_jobs (release_where i) (release_set i) ?t (wdb w) = Inr (1, ?d)"
    by (intro update_jobs_one [where p = "release_where i", OF assms(3,4) inv(1)])
      (use assms(4) in \<open>auto simp: release_where_def\<close>)
  then have run: "releaseForRetry env i w = (Inr (), w\<lparr>tick := Suc (tick w), wdb := ?d\<rparr>)"
    using assms(1) by (simp add: releaseForRetry_def bind_def db_call_healthy ret_def)
  have "find_job (j_id j) ?d = Some (released_row i ?t j)"
    unfolding find_job_def released_row_def
  proof (rule find_keyed [where k = j_id])
    show "distinct (map j_id (jobs ?d))"
      using inv(1) by (simp add: map_key_update_where release_set_def)
    show "(release_set i j)\<lparr>j_updatedAt := ?t\<rparr> \<in> set (jobs ?d)"
      using assms(3,4) by (force simp: set_update_where)
  qed (simp_all add: release_set_def)
  with run show ?thesis by auto
qed

lemma settle_find:
  assumes "settleFailure env i w = (Inr True, w')"
    and "wdb w' = (wdb w)\<lparr>jobs := map (\<lambda>x. if j_id x = sf_jobId i then (settle_set i j)\<lparr>j_updatedAt := t\<rparr> else x)
      (jobs (wdb w)), users := us\<rparr>"
    and "find_job (sf_jobId i) (wdb w) = Some j"
  shows "find_job (sf_jobId i) (wdb w') = Some ((settle_set i j)\<lparr>j_updatedAt := t\<rparr>)"
proof -
  have "j_id j = sf_jobId i" using find_job_SomeD [OF assms(3)] by simp
  then have "find (\<lambda>x. j_id x = sf_jobId i) js = Some j \<Longrightarrow>
    find (\<lambda>x. j_id x = sf_jobId i) (map (\<lambda>x. if j_id x = sf_jobId i then (settle_set i j)\<lparr>j_updatedAt := t\<rparr> else x) js)
      = Some ((settle_set i j)\<lparr>j_updatedAt := t\<rparr>)" for js
    by (induction js) (auto simp: settle_set_def split: if_splits)
  with assms(2,3) show ?thesis by (simp add: find_job_def)
qed


text \<open>The failed row, with an error.\<close>

definition failed_row :: "int \<Rightarrow> int \<Rightarrow> string \<Rightarrow> string \<Rightarrow> bool \<Rightarrow> job_row \<Rightarrow> job_row" where
  "failed_row now t code message b j =
     (settle_set \<lparr>sf_jobId = j_id j, sf_expectedStatus = RUNNING, sf_expectedLeaseToken = j_leaseToken j,
        sf_completedAt = now, sf_errorCode = code, sf_errorMessage = message, sf_errorRetryable = b\<rparr> j)
     \<lparr>j_updatedAt := t\<rparr>"

lemma finalize_run:
  assumes "healthy env" "ledger_inv (wdb w)" "find_job i (wdb w) = Some j"
    and "j_status j = RUNNING" "j_leaseToken j = Some l" "\<not> hasProviderBillingEvidence j"
    and "find_user (j_userId j) (wdb w) = Some u"
    and "int4 (u_availableTokens u + option_or (j_reservedTokens j) 0)"
    and "error_code_check code" "length message \<le> 256"
  shows "\<exists>w' t. finalizeRunningFailure env i l now code message b w = (Inr True, w') \<and>
    find_job i (wdb w') = Some (failed_row now t code message b j)"
proof -
  let ?i = "\<lparr>sf_jobId = i, sf_expectedStatus = RUNNING, sf_expectedLeaseToken = Some l,
        sf_completedAt = now, sf_errorCode = code, sf_errorMessage = message, sf_errorRetryable = b\<rparr>"
  have j: "j \<in> set (jobs (wdb w))" "j_id j = i" using find_job_SomeD [OF assms(3)] by simp_all
  then have "job_ok j" using ledger_invD(3) [OF assms(2)] by simp
  then have "settle_where ?i j"
    using assms(4,5) j(2) by (simp add: settle_where_def job_ok_def job_coherent_def active_def)
  then obtain w' t t' where run: "settleFailure env ?i w = (Inr True, w')"
    "wdb w' = (wdb w)\<lparr>
      jobs := map (\<lambda>x. if j_id x = sf_jobId ?i then (settle_set ?i j)\<lparr>j_updatedAt := t\<rparr> else x) (jobs (wdb w)),
      users := map (refunded j t') (users (wdb w))\<rparr>"
    using settle_run [of env w ?i j u] assms by auto
  have "find_job i (wdb w') = Some ((settle_set ?i j)\<lparr>j_updatedAt := t\<rparr>)"
    using settle_find [OF run] assms(3) by simp
  with run(1) show ?thesis
    using j(2) assms(5) by (auto simp: finalizeRunningFailure_def failed_row_def)
qed

lemma worker_codes_ok: "c \<in> set worker_failure_codes \<Longrightarrow> error_code_check c"
  by (auto simp: worker_failure_codes_def error_code_check_def code_char_def)

lemma nextRetryAt_run: "\<exists>t. nextRetryAt env now n p w = (Inr t, w\<lparr>tick := Suc (tick w)\<rparr>)"
  by (simp add: nextRetryAt_def bind_def random_io_def ret_def Let_def)

text \<open>
  C11. A failed attempt of a job that was not billed is closed by its kind: a temporary failure
  with attempts left puts the job back in the queue, without its lease, with its reservation and
  its count of attempts; one without attempts left fails it as exceeding its attempts, and the
  message is delivered again; any other failure fails the job with its code and acknowledges the
  message. The job is never left running.
\<close>

theorem failed_attempt_is_closed:
  assumes "healthy env" "ledger_inv (wdb w)" "find_job (j_id j) (wdb w) = Some j"
    and "j_status j = RUNNING" "j_leaseToken j = Some l" "\<not> hasProviderBillingEvidence j"
    and "find_user (j_userId j) (wdb w) = Some u"
    and "int4 (u_availableTokens u + option_or (j_reservedTokens j) 0)"
    and "w_row job = j" "\<not> is_billed_error e" "length (cl_message (classify e)) \<le> 256"
  shows "let c = classify e; spent = j_attemptCount j \<ge> j_maxAttempts j \<or> received \<ge> j_maxAttempts j;
      (r, w') = handleClaimedFailure env job l received e w in
    (\<exists>t n t'. find_job (j_id j) (wdb w') = Some
      (if \<not> cl_retryable c then failed_row t t' (cl_code c) (cl_message c) False j
       else if spent then failed_row t t' ''MAX_ATTEMPTS_EXCEEDED'' MAX_ATTEMPTS_message True j
       else released_row \<lparr>rl_jobId = j_id j, rl_leaseToken = l, rl_nextPublishAt = n,
              rl_errorCode = cl_code c, rl_errorMessage = cl_message c\<rparr> t' j)) \<and>
    r = Inr (if cl_retryable c then RETRY else ACK)"
proof -
  let ?c = "classify e"
  let ?spent = "j_attemptCount j \<ge> j_maxAttempts j \<or> received \<ge> j_maxAttempts j"
  let ?w1 = "w\<lparr>tick := Suc (tick w)\<rparr>" and ?w2 = "w\<lparr>tick := Suc (Suc (tick w))\<rparr>"
  have code: "error_code_check (cl_code ?c)" using worker_codes_ok [OF classify_code] .
  have j: "j \<in> set (jobs (wdb w))" using find_job_SomeD [OF assms(3)] by simp
  have max: "error_code_check ''MAX_ATTEMPTS_EXCEEDED''" "length MAX_ATTEMPTS_message \<le> 256"
    by (simp_all add: error_code_check_def code_char_def MAX_ATTEMPTS_message_def)
  note fin = finalize_run [of env ?w1 "j_id j" j l u, simplified, OF assms(1-8)]
  consider "\<not> cl_retryable ?c" | "cl_retryable ?c" ?spent | "cl_retryable ?c" "\<not> ?spent" by blast
  then show ?thesis
  proof cases
    case 1
    obtain w' t where "finalizeRunningFailure env (j_id j) l (clock env (tick w)) (cl_code ?c) (cl_message ?c) False ?w1
        = (Inr True, w')"
      "find_job (j_id j) (wdb w') = Some (failed_row (clock env (tick w)) t (cl_code ?c) (cl_message ?c) False j)"
      using fin [OF code assms(11)] by blast
    with 1 assms(9,10) show ?thesis
      by (auto simp: handleClaimedFailure_def Let_def or_retry_def catch_def bind_def now_io_def ret_def)
  next
    case 2
    obtain w' t where "finalizeRunningFailure env (j_id j) l (clock env (tick w)) ''MAX_ATTEMPTS_EXCEEDED''
        MAX_ATTEMPTS_message True ?w1 = (Inr True, w')"
      "find_job (j_id j) (wdb w') = Some (failed_row (clock env (tick w)) t ''MAX_ATTEMPTS_EXCEEDED'' MAX_ATTEMPTS_message True j)"
      using fin [OF max] by blast
    with 2 assms(9,10) show ?thesis
      by (auto simp: handleClaimedFailure_def finalizeRunningAtLimit_def Let_def or_retry_def catch_def
          bind_def andThen_def now_io_def ret_def)
  next
    case 3
    obtain n where n: "nextRetryAt env (clock env (tick w)) (j_attemptCount j) (cl_retryAt ?c) ?w1 = (Inr n, ?w2)"
      using nextRetryAt_run [of env "clock env (tick w)" "j_attemptCount j" "cl_retryAt ?c" ?w1] by auto
    let ?i = "\<lparr>rl_jobId = j_id j, rl_leaseToken = l, rl_nextPublishAt = n,
              rl_errorCode = cl_code ?c, rl_errorMessage = cl_message ?c\<rparr>"
    have "job_ok j" using ledger_invD(3) [OF assms(2) j] .
    then have "release_where ?i j"
      using assms(4-6)
      by (simp add: release_where_def hasProviderBillingEvidence_def job_ok_def job_coherent_def active_def)
    then obtain w' t where "releaseForRetry env ?i ?w2 = (Inr (), w')"
      "find_job (j_id j) (wdb w') = Some (released_row ?i t j)"
      using release_run [of env ?w2 j ?i] assms(1,2,11) j code by auto
    with 3 n assms(9,10) show ?thesis
      by (auto simp: handleClaimedFailure_def Let_def or_retry_def catch_def bind_def andThen_def now_io_def ret_def)
  qed
qed


theorem failed_attempt_is_closed_witness:
  "fst (handleClaimedFailure calm
      \<lparr>w_row = reserved_job, w_githubRepoId = ''777'', w_fullName = ''dev/tool'', w_ownerUsername = ''dev''\<rparr>
      ''lease-1'' 1 (OpenAIError RateLimitError) (world_with reserved_job)) = Inr RETRY"
proof -
  let ?job = "\<lparr>w_row = reserved_job, w_githubRepoId = ''777'', w_fullName = ''dev/tool'', w_ownerUsername = ''dev''\<rparr>"
  have c: "classify (OpenAIError RateLimitError)
      = retryable ''PROVIDER_TEMPORARY_FAILURE'' ''The analysis provider is temporarily unavailable.''"
    by (simp add: classify_def)
  have "let c = classify (OpenAIError RateLimitError);
      spent = j_attemptCount reserved_job \<ge> j_maxAttempts reserved_job \<or> 1 \<ge> j_maxAttempts reserved_job;
      (r, w') = handleClaimedFailure calm ?job ''lease-1'' 1 (OpenAIError RateLimitError) (world_with reserved_job) in
    (\<exists>t n t'. find_job (j_id reserved_job) (wdb w') = Some
      (if \<not> cl_retryable c then failed_row t t' (cl_code c) (cl_message c) False reserved_job
       else if spent then failed_row t t' ''MAX_ATTEMPTS_EXCEEDED'' MAX_ATTEMPTS_message True reserved_job
       else released_row \<lparr>rl_jobId = j_id reserved_job, rl_leaseToken = ''lease-1'', rl_nextPublishAt = n,
              rl_errorCode = cl_code c, rl_errorMessage = cl_message c\<rparr> t' reserved_job)) \<and>
    r = Inr (if cl_retryable c then RETRY else ACK)"
    by (rule failed_attempt_is_closed [where u = sample_user])
      (use sample_inv in \<open>simp_all add: c world_with_def db_with_def find_job_def find_user_def
        sample_job_defs sample_user_def hasProviderBillingEvidence_def int4_def is_billed_error_def\<close>)
  then show ?thesis by (simp add: c Let_def split: prod.splits)
qed

end
