(* ===== verification/JobProperties.thy ===== *)
theory JobProperties
  imports WorkerProperties
begin

text \<open>
  What the operations on the ledger of jobs promise: a transition moves one job along its life,
  what the validation lets through, reservations that are exact and happen once, one active job
  per repository, and a charge of the provider that is never lost and never paid twice.
\<close>

section \<open>Transitions\<close>

text \<open>
  C10. A transition that returns moved exactly one row: the job it names, which was in the
  expected status and, where one is required, under the expected lease and not yet settled; its
  status moved along an edge of the life of a job, its identity, attempts and reservation are as
  they were, and nothing else in the database changed.
\<close>

theorem transition_moves_one_job:
  assumes "undisturbed env" "distinct (map j_id (jobs (wdb w)))" "transition env i w = (Inr (), w')"
  shows "\<exists>j j'. j \<in> set (jobs (wdb w)) \<and> j_id j = jobId_of i \<and> j_status j = fromStatus i \<and>
    status_step (fromStatus i) (toStatus i) \<and> j_status j' = toStatus i \<and> same_identity j j' \<and>
    j_attemptCount j' = j_attemptCount j \<and> j_reservedTokens j' = j_reservedTokens j \<and>
    (toStatus i \<in> {SUCCEEDED, FAILED} \<longrightarrow> j_tokensSettledAt j = None) \<and>
    option_all (\<lambda>l. j_leaseToken j = Some l) (x_expectedLeaseToken (toTransitionRecord i)) \<and>
    wdb w' = (wdb w)\<lparr>jobs := map (\<lambda>x. if j_id x = jobId_of i then j' else x) (jobs (wdb w))\<rparr>"
proof -
  let ?x = "toTransitionRecord i"
  have "transition (quiet env) i w = (Inr (), w')" using assms(1,3) by (simp add: undisturbed_quiet)
  note t = transition_quiet [OF this]
  obtain now where run: "transition_stmt ?x now (wdb w) = Inr (1, wdb w')" using t(3) by blast
  obtain j where j: "j \<in> set (jobs (wdb w))" "transition_where ?x (wdb w) j"
    "wdb w' = (wdb w)\<lparr>jobs := update_where (transition_where ?x (wdb w))
       (\<lambda>j. (transition_set ?x j)\<lparr>j_updatedAt := now\<rparr>) (jobs (wdb w))\<rparr>"
    using transition_row [OF run] by blast
  have id: "j_id y = jobId_of i" if "transition_where ?x (wdb w) y" for y
    using transition_where_id [OF that] by simp
  have one: "transition_where ?x (wdb w) y \<longleftrightarrow> j_id y = jobId_of i" if "y \<in> set (jobs (wdb w))" for y
    using keyed_row_unique [OF assms(2) that j(1)] id j(2) by auto
  have same: "y = j" if "y \<in> set (jobs (wdb w))" "j_id y = jobId_of i" for y
    using keyed_row_unique [OF assms(2) that(1) j(1)] that(2) id [OF j(2)] by simp
  let ?j' = "(transition_set ?x j)\<lparr>j_updatedAt := now\<rparr>"
  have "update_where (transition_where ?x (wdb w)) (\<lambda>j. (transition_set ?x j)\<lparr>j_updatedAt := now\<rparr>) (jobs (wdb w))
      = map (\<lambda>x. if j_id x = jobId_of i then ?j' else x) (jobs (wdb w))"
    unfolding update_where_def using one same by (intro map_cong) auto
  with j t(1) id [OF j(2)] show ?thesis
    by (intro exI [of _ j] exI [of _ ?j']) (auto simp: canTransition_iff transition_where_def)
qed

theorem transition_moves_one_job_witness:
  "\<exists>w'. transition calm (Claim sample_job_id ''lease-1'' (DateMs 1900000) (DateMs 1000000)) (world_with sample_job)
      = (Inr (), w') \<and> map j_status (jobs (wdb w')) = [RUNNING]"
proof -
  let ?i = "Claim sample_job_id ''lease-1'' (DateMs 1900000) (DateMs 1000000)"
  have "fst (transition calm ?i (world_with sample_job)) = Inr ()" by code_simp
  then obtain w' where run: "transition calm ?i (world_with sample_job) = (Inr (), w')"
    by (cases "transition calm ?i (world_with sample_job)") simp
  show ?thesis
    using transition_moves_one_job [OF _ _ run] run
    by (auto simp: world_with_def db_with_def sample_job_defs)
qed

text \<open>
  What the validation of a terminal failure lets through: a known error code with its safe
  message, at most ten provider request identifiers, and either a settlement with valid counts
  whose total is their sum, or an unsettled failure that must be reconciled, is not retryable,
  and whose usage is known as a whole or not at all.
\<close>

theorem validated_failure:
  assumes "validateTransitionInput (FailRunning i f r s) = Inr ()"
  shows "(\<exists>c. fi_errorCode s = code_text c \<and> safe_message (fi_errorCode s) = Some (SAFE_ERROR_MESSAGES c)) \<and>
    length (si_providerRequestIds s) \<le> 10 \<and>
    (if si_tokensSettledAt s = None
     then fi_errorCode s = code_text PROVIDER_RECONCILIATION_REQUIRED \<and> \<not> fi_errorRetryable s \<and>
       (si_usage s = (None, None, None) \<or> option_all isValidAnalysisTokenUsage (known_usage (si_usage s)))
     else (\<exists>u. known_usage (si_usage s) = Some u \<and> isValidAnalysisTokenUsage u \<and>
       totalTokens u = promptTokens u + completionTokens u \<and> 0 \<le> promptTokens u \<and> 0 \<le> completionTokens u))"
proof -
  have v: "validate_failure s = Inr ()" using assms by auto
  have "fi_errorCode s \<in> code_text ` set all_failure_codes" using v by (auto simp: validate_failure_def assertFailureCode_def)
  then obtain c where c: "fi_errorCode s = code_text c" by auto
  have ids: "length (si_providerRequestIds s) \<le> 10"
    using v by (auto simp: validate_failure_def assertTokenSettlement_def assertProviderRequestIds_def
        MAX_PROVIDER_REQUEST_IDS_def split: if_splits)
  have "if si_tokensSettledAt s = None
     then fi_errorCode s = code_text PROVIDER_RECONCILIATION_REQUIRED \<and> \<not> fi_errorRetryable s \<and>
       (si_usage s = (None, None, None) \<or> option_all isValidAnalysisTokenUsage (known_usage (si_usage s)))
     else (\<exists>u. known_usage (si_usage s) = Some u \<and> isValidAnalysisTokenUsage u \<and>
       totalTokens u = promptTokens u + completionTokens u \<and> 0 \<le> promptTokens u \<and> 0 \<le> completionTokens u)"
    using v
    by (auto simp: validate_failure_def assertTokenSettlement_def assertValidTokenUsage_def
        assertOptionalTokenUsage_def isValidAnalysisTokenUsage_def split: if_splits option.splits)
  with c ids show ?thesis by (auto simp: safe_message_def)
qed


theorem validated_failure_witness:
  "\<exists>c. ''TOKEN_BUDGET_EXCEEDED'' = code_text c \<and>
     safe_message ''TOKEN_BUDGET_EXCEEDED'' = Some (SAFE_ERROR_MESSAGES c)"
proof -
  let ?s = "failure 1000000 True (Some sample_usage) [''req-1''] TOKEN_BUDGET_EXCEEDED"
  have "validateTransitionInput (FailRunning sample_job_id \<lparr>fn_leaseToken = ''lease-1'', fn_userId = 1, fn_repositoryId = 7\<rparr>
      (Some 8292) ?s) = Inr ()"
    by code_simp
  from validated_failure [OF this] show ?thesis by (auto simp: failure_def)
qed

section \<open>Reserving tokens\<close>

lemma debit_fields: "debit_user (quiet env) u n w = (Inr True, w') \<Longrightarrow>
  \<exists>t. wdb w' = (wdb w)\<lparr>users := update_where (\<lambda>r. u_id r = u \<and> n \<le> u_availableTokens r)
    (\<lambda>r. (debit n r)\<lparr>u_updatedAt := t\<rparr>) (users (wdb w))\<rparr> \<and>
    (\<exists>r \<in> set (users (wdb w)). u_id r = u \<and> n \<le> u_availableTokens r)"
  by (auto simp: debit_user_def run_simps update_users_def users_table.bulk_update_Inr
      elim: count_where_1_obtain [unfolded One_nat_def])

text \<open>A job that has a reservation gets no second one.\<close>

lemma no_second_reservation:
  assumes "undisturbed env" "\<forall>x \<in> set (jobs (wdb w)). j_id x = jc_jobId c \<longrightarrow> j_reservedTokens x \<noteq> None"
  shows "fst (transaction env (reserve_body c r) w) \<noteq> Inr () \<and>
    wdb (snd (transaction env (reserve_body c r) w)) = wdb w"
proof -
  have no: False if run: "reserve_body c r (quiet env) v = (Inr (), v')" and v: "wdb v = wdb w" for v v'
  proof -
    obtain v1 where v1: "debit_user (quiet env) (jc_userId c) (tr_reservedTokens r) v = (Inr True, v1)"
      "reserveTokens (quiet env) (reserve_input c r) v1 = (Inr (), v')"
      using run by (auto simp: reserve_body_def andThen_Inr bind_Inr throw_unless_Inr)
    have "jobs (wdb v1) = jobs (wdb w)" using debit_jobs [OF v1(1)] v by simp
    then have "update_jobs (reserve_where (reserve_input c r)) (reserve_set (reserve_input c r)) n (wdb v1) = Inr (0, wdb v1)" for n
      using assms(2) by (intro update_jobs_none) (auto simp: reserve_where_def reserve_input_def)
    with reserveTokens_quiet(2) [OF v1(2)] show False by auto
  qed
  show ?thesis
  proof
    show "fst (transaction env (reserve_body c r) w) \<noteq> Inr ()"
    proof
      assume "fst (transaction env (reserve_body c r) w) = Inr ()"
      then obtain w' where "transaction env (reserve_body c r) w = (Inr (), w')"
        by (cases "transaction env (reserve_body c r) w") simp
      from transaction_Inr [OF this assms(1)] no show False by metis
    qed
    show "wdb (snd (transaction env (reserve_body c r) w)) = wdb w"
      by (rule transaction_rolls_back [OF assms(1)]) (use no in \<open>metis old.unit.exhaust\<close>)
  qed
qed

text \<open>
  C7. A reservation is all or nothing and happens once. When it commits, the job had none, the
  user's balance covered it, exactly that amount went from the balance to the job, and no other
  row changed; after that no reservation for the job commits any more, whatever its amount.
\<close>

theorem reservation_is_exact:
  assumes "undisturbed env" "ledger_inv (wdb w)" "transaction env (reserve_body c r) w = (Inr (), w')"
  shows "\<exists>j u t t'. j \<in> set (jobs (wdb w)) \<and> j_id j = jc_jobId c \<and> j_leaseToken j = Some (jc_leaseToken c) \<and>
    j_reservedTokens j = None \<and> j_userId j = jc_userId c \<and> u \<in> set (users (wdb w)) \<and> u_id u = jc_userId c \<and>
    0 \<le> tr_reservedTokens r \<and> tr_reservedTokens r \<le> u_availableTokens u \<and>
    wdb w' = (wdb w)\<lparr>
      users := map (\<lambda>x. if u_id x = jc_userId c then (debit (tr_reservedTokens r) u)\<lparr>u_updatedAt := t\<rparr> else x) (users (wdb w)),
      jobs := map (\<lambda>x. if j_id x = jc_jobId c then (reserve_set (reserve_input c r) j)\<lparr>j_updatedAt := t'\<rparr> else x)
        (jobs (wdb w))\<rparr> \<and>
    (\<forall>env2 r2 w2. undisturbed env2 \<and> wdb w2 = wdb w' \<and> 0 \<le> tr_reservedTokens r2 \<longrightarrow>
       fst (transaction env2 (reserve_body c r2) w2) \<noteq> Inr () \<and>
       wdb (snd (transaction env2 (reserve_body c r2) w2)) = wdb w')"
proof -
  let ?i = "reserve_input c r"
  note inv = ledger_invD [OF assms(2)]
  obtain w1 w2 where w1: "wdb w1 = wdb w" and run: "reserve_body c r (quiet env) w1 = (Inr (), w2)" and w2: "wdb w' = wdb w2"
    using transaction_Inr [OF assms(3,1)] by blast
  obtain w3 where debit: "debit_user (quiet env) (jc_userId c) (tr_reservedTokens r) w1 = (Inr True, w3)"
    and res: "reserveTokens (quiet env) ?i w3 = (Inr (), w2)"
    using run by (auto simp: reserve_body_def andThen_Inr bind_Inr throw_unless_Inr)
  obtain t u where u: "wdb w3 = (wdb w)\<lparr>users := update_where (\<lambda>r'. u_id r' = jc_userId c \<and> tr_reservedTokens r \<le> u_availableTokens r')
      (\<lambda>r'. (debit (tr_reservedTokens r) r')\<lparr>u_updatedAt := t\<rparr>) (users (wdb w))\<rparr>"
    "u \<in> set (users (wdb w))" "u_id u = jc_userId c" "tr_reservedTokens r \<le> u_availableTokens u"
    using debit_fields [OF debit] w1 by auto
  have users3: "users (wdb w3) = map (\<lambda>x. if u_id x = jc_userId c then (debit (tr_reservedTokens r) u)\<lparr>u_updatedAt := t\<rparr> else x) (users (wdb w))"
    using u(1,3,4) keyed_row_unique [OF inv(2) _ u(2)] by (auto simp: update_where_def)
  note q = reserveTokens_quiet [OF res]
  obtain t' where upd: "update_jobs (reserve_where ?i) (reserve_set ?i) t' (wdb w3) = Inr (1, wdb w2)" using q(2) by blast
  have jobs3: "jobs (wdb w3) = jobs (wdb w)" by (simp add: u(1))
  have "count_where (reserve_where ?i) (jobs (wdb w)) = 1"
    using upd jobs3 by (simp add: update_jobs_def jobs_table.bulk_update_Inr)
  then obtain j where j: "j \<in> set (jobs (wdb w))" "reserve_where ?i j" by (rule count_where_1_obtain)
  have same: "reserve_where ?i x \<longleftrightarrow> j_id x = jc_jobId c" "j_id x = jc_jobId c \<Longrightarrow> x = j" if "x \<in> set (jobs (wdb w))" for x
    using keyed_row_unique [OF inv(1) that j(1)] j(2) by (auto simp: reserve_where_def reserve_input_def)
  have "update_where (reserve_where ?i) (\<lambda>x. (reserve_set ?i x)\<lparr>j_updatedAt := t'\<rparr>) (jobs (wdb w))
      = map (\<lambda>x. if j_id x = jc_jobId c then (reserve_set ?i j)\<lparr>j_updatedAt := t'\<rparr> else x) (jobs (wdb w))"
    unfolding update_where_def using same by (intro map_cong) auto
  then have db': "wdb w' = (wdb w)\<lparr>
      users := map (\<lambda>x. if u_id x = jc_userId c then (debit (tr_reservedTokens r) u)\<lparr>u_updatedAt := t\<rparr> else x) (users (wdb w)),
      jobs := map (\<lambda>x. if j_id x = jc_jobId c then (reserve_set ?i j)\<lparr>j_updatedAt := t'\<rparr> else x) (jobs (wdb w))\<rparr>"
    using upd users3 u(1) jobs3 by (simp add: w2 update_jobs_def jobs_table.bulk_update_Inr)
  have "\<forall>x \<in> set (jobs (wdb w')). j_id x = jc_jobId c \<longrightarrow> j_reservedTokens x \<noteq> None"
    by (auto simp: db' reserve_set_def)
  then have once: "fst (transaction env2 (reserve_body c r2) v) \<noteq> Inr () \<and>
      wdb (snd (transaction env2 (reserve_body c r2) v)) = wdb w'"
    if "undisturbed env2" "wdb v = wdb w'" for env2 r2 v
    using no_second_reservation [of env2 v c r2] that by simp
  have "0 \<le> tr_reservedTokens r" using q(1) by (auto simp: validate_reserve_def assert_defs reserve_input_def)
  with j u db' once show ?thesis
    by (intro exI [of _ j] exI [of _ u] exI [of _ t] exI [of _ t'])
      (auto simp: reserve_where_def reserve_input_def)
qed


definition sample_context :: job_context where
  "sample_context = \<lparr>jc_jobId = sample_job_id, jc_leaseToken = ''lease-1'', jc_userId = 1, jc_repositoryId = 7,
     jc_reservedTokens = None, jc_version = CURRENT_ANALYSIS_EXECUTION_VERSION\<rparr>"

theorem reservation_is_exact_witness:
  "\<exists>w'. transaction calm (reserve_body sample_context \<lparr>tr_estimatedTokens = 100, tr_reservedTokens = 8292\<rparr>)
      (world_with running_job) = (Inr (), w') \<and> map u_availableTokens (users (wdb w')) = [41708]"
proof -
  let ?r = "\<lparr>tr_estimatedTokens = 100, tr_reservedTokens = 8292\<rparr>"
  have "fst (transaction calm (reserve_body sample_context ?r) (world_with running_job)) = Inr ()" by code_simp
  then obtain w' where run: "transaction calm (reserve_body sample_context ?r) (world_with running_job) = (Inr (), w')"
    by (cases "transaction calm (reserve_body sample_context ?r) (world_with running_job)") simp
  have "ledger_inv (wdb (world_with running_job))" using sample_inv by (simp add: world_with_def)
  from reservation_is_exact [OF _ this run] run show ?thesis
    by (auto simp: world_with_def db_with_def sample_context_def debit_def sample_user_def)
qed

section \<open>One active job per repository\<close>

lemma stale_sets_fail [simp]:
  "j_status (stale_unreserved_set t j) = FAILED" "j_status (stale_reserved_set t j) = FAILED"
  "j_id (stale_unreserved_set t j) = j_id j" "j_id (stale_reserved_set t j) = j_id j"
  "same_identity j (stale_unreserved_set t j)" "same_identity j (stale_reserved_set t j)"
  by (simp_all add: stale_unreserved_set_def stale_reserved_set_def same_identity_def)

text \<open>A job that is too old, or whose lease ran out, for an attempt that finished at the time.\<close>

definition stale_job :: "int \<Rightarrow> int \<Rightarrow> job_row \<Rightarrow> bool" where
  "stale_job r t j \<longleftrightarrow> stale_unreserved_where r t (t - ANALYSIS_JOB_STALE_TIMEOUT_MS) j \<or>
     stale_reserved_where r t (t - ANALYSIS_JOB_STALE_TIMEOUT_MS) j"

lemma stale_job_active: "stale_job r t j \<Longrightarrow> active j \<and> j_repositoryId j = r"
  by (auto simp: stale_job_def stale_unreserved_where_def stale_reserved_where_def active_def)

text \<open>
  What it means for a job: it is running and its lease is over, or it has none and was not touched for 15
  minutes; or it belongs to a synchronous request of at least 15 minutes ago that never got any further.
\<close>

definition abandoned :: "int \<Rightarrow> int \<Rightarrow> job_row \<Rightarrow> bool" where
  "abandoned r t j \<longleftrightarrow> j_repositoryId j = r \<and> j_tokensSettledAt j = None \<and>
     (j_status j = RUNNING \<and> (case j_leaseExpiresAt j of Some e \<Rightarrow> e \<le> t | None \<Rightarrow> j_updatedAt j \<le> t - 900000) \<or>
      j_status j = QUEUED \<and> js_startsWith (j_idempotencyKey j) ''sync:'' \<and> j_createdAt j \<le> t - 900000 \<and>
      j_startedAt j = None \<and> j_messagePublishedAt j = None \<and> j_attemptCount j = 0 \<and> j_reservedTokens j = None)"

lemma stale_job_abandoned: "stale_job r t j \<Longrightarrow> abandoned r t j"
  by (auto simp: stale_job_def stale_unreserved_where_def stale_reserved_where_def stale_lease_def abandoned_def
      ANALYSIS_JOB_STALE_TIMEOUT_MS_def)

lemma abandoned_active: "abandoned r t j \<Longrightarrow> active j \<and> j_repositoryId j = r"
  by (auto simp: abandoned_def active_def)

text \<open>The clock is read in the course of a run.\<close>

definition time_of_run :: "env \<Rightarrow> world \<Rightarrow> world \<Rightarrow> int \<Rightarrow> bool" where
  "time_of_run env w w' t \<longleftrightarrow> (\<exists>n. tick w \<le> n \<and> n < tick w' \<and> t = clock env n)"

lemma time_of_run_within:
  assumes "time_of_run env v v' t" "tick w \<le> tick v" "tick v' \<le> tick w'"
  shows "time_of_run env w w' t"
proof -
  obtain n where "tick v \<le> n" "n < tick v'" "t = clock env n" using assms(1) by (auto simp: time_of_run_def)
  with assms(2,3) show ?thesis by (auto simp: time_of_run_def intro!: exI [of _ n])
qed

lemma transaction_Inr_ticks:
  assumes "transaction env body w = (Inr a, w')" "undisturbed env"
  shows "\<exists>w1 w2. wdb w1 = wdb w \<and> tick w < tick w1 \<and> body (quiet env) w1 = (Inr a, w2) \<and> wdb w' = wdb w2 \<and> tick w2 < tick w'"
proof -
  let ?w1 = "w\<lparr>tick := Suc (tick w), wdb := wdb w\<rparr>"
  have "interference env (tick w) (wdb w) = wdb w" using assms(2) by (simp add: undisturbed_def)
  with assms(1) obtain w2 where "body (quiet env) ?w1 = (Inr a, w2)" "wdb w' = wdb w2" "tick w2 < tick w'"
    by (auto simp: transaction_def Let_def split: fault.splits sum.splits prod.splits)
  then show ?thesis by (intro exI [of _ ?w1] exI [of _ w2]) simp
qed

lemma recover_run:
  assumes "recoverStaleActiveJobs (quiet env) r w = (Inr u, w')"
  shows "\<exists>t f. t = clock env (tick w) \<and> wdb w' = (wdb w)\<lparr>jobs := map (\<lambda>j. if stale_job r t j then f j else j) (jobs (wdb w))\<rparr> \<and>
    (\<forall>j. j_status (f j) = FAILED \<and> j_id (f j) = j_id j \<and> same_identity j (f j))"
proof -
  let ?t = "clock env (tick w)"
  let ?p = "stale_unreserved_where r ?t (?t - ANALYSIS_JOB_STALE_TIMEOUT_MS)"
  let ?q = "stale_reserved_where r ?t (?t - ANALYSIS_JOB_STALE_TIMEOUT_MS)"
  obtain a b where w': "wdb w' = (wdb w)\<lparr>jobs :=
      update_where ?q (\<lambda>j. (stale_reserved_set ?t j)\<lparr>j_updatedAt := b\<rparr>)
        (update_where ?p (\<lambda>j. (stale_unreserved_set ?t j)\<lparr>j_updatedAt := a\<rparr>) (jobs (wdb w)))\<rparr>"
    using assms
    by (auto simp: recoverStaleActiveJobs_def Let_def run_simps update_jobs_def jobs_table.bulk_update_Inr)
  let ?f = "\<lambda>j. if ?p j then (stale_unreserved_set ?t j)\<lparr>j_updatedAt := a\<rparr> else (stale_reserved_set ?t j)\<lparr>j_updatedAt := b\<rparr>"
  have "\<not> ?q ((stale_unreserved_set ?t j)\<lparr>j_updatedAt := a\<rparr>)" for j
    by (simp add: stale_reserved_where_def)
  then have "update_where ?q (\<lambda>j. (stale_reserved_set ?t j)\<lparr>j_updatedAt := b\<rparr>)
        (update_where ?p (\<lambda>j. (stale_unreserved_set ?t j)\<lparr>j_updatedAt := a\<rparr>) js)
      = map (\<lambda>j. if stale_job r ?t j then ?f j else j) js" for js
    by (induction js) (auto simp: stale_job_def)
  with w' show ?thesis by (intro exI [of _ ?t] exI [of _ ?f]) auto
qed

lemma exclusive_run:
  assumes "createExclusiveInTransaction (quiet env) r operation w = (Inr a, w')"
  shows "\<exists>m w2 n. recoverStaleActiveJobs (quiet env) r (w\<lparr>tick := m\<rparr>) = (Inr (), w2) \<and>
    find_active r (wdb w2) = None \<and> operation (quiet env) (w2\<lparr>tick := n\<rparr>) = (Inr a, w') \<and> tick w < m \<and> m < n"
proof -
  obtain w2 n where "recoverStaleActiveJobs (quiet env) r (w\<lparr>tick := Suc (tick w)\<rparr>) = (Inr (), w2)"
    "find_active r (wdb w2) = None" "operation (quiet env) (w2\<lparr>tick := n\<rparr>) = (Inr a, w')" "tick w2 < n"
    using assms by (auto simp: createExclusiveInTransaction_def acquire_lock_def run_simps split: option.splits)
  moreover from this(1) have "Suc (tick w) < tick w2"
    by (auto simp: recoverStaleActiveJobs_def Let_def run_simps)
  ultimately show ?thesis by (meson lessI less_trans)
qed

text \<open>
  A job was created: it is queued, new, without tokens and attempts, and the only active job of its
  repository; the jobs of before are there, and the ones that changed are those of the repository
  that were abandoned at the time, which failed.
\<close>

definition created_only :: "int \<Rightarrow> job_row \<Rightarrow> db \<Rightarrow> db \<Rightarrow> bool" where
  "created_only t job d d' \<longleftrightarrow>
     job \<in> set (jobs d') \<and> j_status job = QUEUED \<and> charge job = 0 \<and> j_attemptCount job = 0 \<and>
     j_id job \<notin> j_id ` set (jobs d) \<and>
     (\<forall>j \<in> set (jobs d'). j_repositoryId j = j_repositoryId job \<and> active j \<longrightarrow> j = job) \<and>
     (\<forall>j \<in> set (jobs d). j \<in> set (jobs d') \<or>
        abandoned (j_repositoryId job) t j \<and> (\<exists>j' \<in> set (jobs d'). j_id j' = j_id j \<and> j_status j' = FAILED)) \<and>
     (\<forall>x \<in> set (jobs d'). x = job \<or> (\<exists>j \<in> set (jobs d). same_identity j x)) \<and>
     users d' = users d"

lemma exclusive_insert:
  assumes rec: "recoverStaleActiveJobs (quiet env) r w1 = (Inr (), w2)"
    and none: "find_active r (wdb w2) = None"
    and ins: "create_job_stmt i c now (wdb w2) = Inr (job, d')"
    and c: "ci_repositoryId c = r" "ci_status c = QUEUED"
  shows "created_only (clock env (tick w1)) job (wdb w1) d'"
proof -
  let ?t = "clock env (tick w1)"
  obtain f where w2: "wdb w2 = (wdb w1)\<lparr>jobs := map (\<lambda>j. if stale_job r ?t j then f j else j) (jobs (wdb w1))\<rparr>"
    and f: "\<And>j. j_status (f j) = FAILED \<and> j_id (f j) = j_id j \<and> same_identity j (f j)"
    using recover_run [OF rec] by auto
  have new: "job = new_job i now c"
    and jobs': "jobs d' = jobs (wdb w2) @ [job]" and users': "users d' = users (wdb w1)"
    and fresh: "\<forall>x \<in> set (jobs (wdb w2)). j_id x \<noteq> j_id job"
    using ins w2 by (auto simp: create_job_stmt_Inr job_clash_def)
  have "j_id job \<notin> j_id ` set (jobs (wdb w1))"
  proof
    assume "j_id job \<in> j_id ` set (jobs (wdb w1))"
    then obtain x where "x \<in> set (jobs (wdb w1))" "j_id x = j_id job" by auto
    then have "(if stale_job r ?t x then f x else x) \<in> set (jobs (wdb w2))"
      "j_id (if stale_job r ?t x then f x else x) = j_id job"
      using f by (auto simp: w2)
    with fresh show False by blast
  qed
  moreover have r: "j_repositoryId job = r" and "j_attemptCount job = 0" "charge job = 0" "j_status job = QUEUED"
    using c by (simp_all add: new) (simp add: new_job_def)
  moreover have "\<forall>j \<in> set (jobs d'). j_repositoryId j = j_repositoryId job \<and> active j \<longrightarrow> j = job"
    using none by (auto simp: jobs' find_active_None r)
  moreover have "\<forall>j \<in> set (jobs (wdb w1)). j \<in> set (jobs d') \<or> abandoned (j_repositoryId job) ?t j \<and>
      (\<exists>j' \<in> set (jobs d'). j_id j' = j_id j \<and> j_status j' = FAILED)"
  proof
    fix j assume j: "j \<in> set (jobs (wdb w1))"
    show "j \<in> set (jobs d') \<or> abandoned (j_repositoryId job) ?t j \<and>
        (\<exists>j' \<in> set (jobs d'). j_id j' = j_id j \<and> j_status j' = FAILED)"
      using j f by (cases "stale_job r ?t j") (force simp: jobs' w2 r dest: stale_job_abandoned)+
  qed
  moreover have "\<forall>x \<in> set (jobs d'). x = job \<or> (\<exists>j \<in> set (jobs (wdb w1)). same_identity j x)"
  proof
    fix x assume "x \<in> set (jobs d')"
    moreover have "same_identity j j" for j by (simp add: same_identity_def)
    ultimately show "x = job \<or> (\<exists>j \<in> set (jobs (wdb w1)). same_identity j x)"
      using f by (auto simp: jobs' w2)
  qed
  moreover have "job \<in> set (jobs d')" by (simp add: jobs')
  ultimately show ?thesis using users' unfolding created_only_def by blast
qed

lemma create_run:
  assumes "undisturbed env" "create sha256 env i w = (Inr job, w')"
  shows "\<exists>w1 w2 cutoff id now. wdb w1 = wdb w \<and> tick w \<le> tick w1 \<and> tick w1 < tick w' \<and>
    recoverStaleActiveJobs (quiet env) (cj_repositoryId i) w1 = (Inr (), w2) \<and>
    find_active (cj_repositoryId i) (wdb w2) = None \<and>
    create_job_stmt id (create_record_input sha256 i cutoff) now (wdb w2) = Inr (job, wdb w')"
proof -
  from assms(2) obtain cutoff v where
    c: "(case cj_collectionCutoff i of None \<Rightarrow> now_io env | Some d \<Rightarrow> ret (date_ms d)) w = (Inr cutoff, v)" and
    ex: "createExclusive env (cj_repositoryId i) (\<lambda>tx. create_job tx (create_record_input sha256 i cutoff)) v = (Inr job, w')"
    by (auto simp: create_def andThen_Inr bind_Inr of_result_Inr)
  have v: "wdb v = wdb w" "tick w \<le> tick v" using c by (auto simp: run_simps split: option.splits)
  obtain v1 v2 where v1: "wdb v1 = wdb v" "tick v < tick v1" and v2: "wdb w' = wdb v2" "tick v2 < tick w'" and
    run: "createExclusiveInTransaction (quiet env) (cj_repositoryId i)
      (\<lambda>tx. create_job tx (create_record_input sha256 i cutoff)) v1 = (Inr job, v2)"
    using transaction_Inr_ticks [OF ex [unfolded createExclusive_def] assms(1)] by blast
  from exclusive_run [OF run] obtain m w2 n where
    2: "recoverStaleActiveJobs (quiet env) (cj_repositoryId i) (v1\<lparr>tick := m\<rparr>) = (Inr (), w2)"
    and 3: "find_active (cj_repositoryId i) (wdb w2) = None"
    and 4: "create_job (quiet env) (create_record_input sha256 i cutoff) (w2\<lparr>tick := n\<rparr>) = (Inr job, v2)"
    and ticks: "tick v1 < m" "m < n"
    by blast
  have "\<exists>id now. create_job_stmt id (create_record_input sha256 i cutoff) now (wdb w2) = Inr (job, wdb w')"
    using 4 v2(1) by (auto simp: create_job_def uuid_io_def run_simps) blast
  moreover have "n < tick v2" using 4 by (auto simp: create_job_def uuid_io_def run_simps)
  then have "tick w \<le> tick (v1\<lparr>tick := m\<rparr>)" "tick (v1\<lparr>tick := m\<rparr>) < tick w'" using v v1 v2 ticks by simp_all
  moreover have "wdb (v1\<lparr>tick := m\<rparr>) = wdb w" using v v1 by simp
  ultimately show ?thesis using 2 3 by blast
qed

text \<open>
  C8. A repository gets one active job. A job that was created is queued, has a new identifier,
  holds no tokens and was not attempted; it is the only active job of its repository; every
  job of before is still there, and the ones that changed are the jobs of the repository that were
  abandoned at a time in the course of the run, which failed: a running job whose lease is not over
  at that time is never touched.
\<close>

theorem create_is_exclusive:
  assumes "undisturbed env" "create sha256 env i w = (Inr job, w')"
  shows "job \<in> set (jobs (wdb w')) \<and> j_repositoryId job = cj_repositoryId i \<and> j_userId job = cj_userId i \<and>
    j_status job = QUEUED \<and> charge job = 0 \<and> j_attemptCount job = 0 \<and>
    j_id job \<notin> j_id ` set (jobs (wdb w)) \<and>
    (\<forall>j \<in> set (jobs (wdb w')). j_repositoryId j = cj_repositoryId i \<and> active j \<longrightarrow> j = job) \<and>
    (\<exists>t. time_of_run env w w' t \<and> (\<forall>j \<in> set (jobs (wdb w)). j \<in> set (jobs (wdb w')) \<or>
       abandoned (cj_repositoryId i) t j \<and>
       (\<exists>j' \<in> set (jobs (wdb w')). j_id j' = j_id j \<and> j_status j' = FAILED))) \<and>
    users (wdb w') = users (wdb w)"
proof -
  from create_run [OF assms] obtain w1 w2 id now cutoff where w1: "wdb w1 = wdb w" "tick w \<le> tick w1" "tick w1 < tick w'"
    and rec: "recoverStaleActiveJobs (quiet env) (cj_repositoryId i) w1 = (Inr (), w2)"
    and none: "find_active (cj_repositoryId i) (wdb w2) = None"
    and ins: "create_job_stmt id (create_record_input sha256 i cutoff) now (wdb w2) = Inr (job, wdb w')"
    by blast
  have "created_only (clock env (tick w1)) job (wdb w) (wdb w')"
    using exclusive_insert [OF rec none ins] w1 by (simp add: create_record_input_def)
  moreover have "time_of_run env w w' (clock env (tick w1))" using w1 by (auto simp: time_of_run_def)
  moreover have "j_repositoryId job = cj_repositoryId i \<and> j_userId job = cj_userId i"
    using ins by (auto simp: create_job_stmt_Inr create_record_input_def) (simp add: new_job_def)
  ultimately show ?thesis
    unfolding created_only_def by (intro conjI exI [of _ "clock env (tick w1)"]) simp_all
qed

definition sample_create :: create_job_input where
  "sample_create = \<lparr>cj_userId = 1, cj_repositoryId = 7, cj_idempotencyKey = ''key-2'', cj_sourceCursor = None,
     cj_collectionCutoff = None\<rparr>"

text \<open>A stand-in for the digest: any function into hexadecimal texts of 64 digits.\<close>

definition sample_digest :: "string \<Rightarrow> string" where
  "sample_digest s = replicate 64 (CHR ''0'')"

theorem create_is_exclusive_witness:
  "\<exists>job w'. create sample_digest calm sample_create (world_with running_job) = (Inr job, w') \<and>
     (\<forall>j \<in> set (jobs (wdb w')). j_repositoryId j = 7 \<and> active j \<longrightarrow> j = job)"
proof -
  have "case fst (create sample_digest calm sample_create (world_with running_job)) of Inl _ \<Rightarrow> False | Inr _ \<Rightarrow> True"
    by code_simp
  then obtain job w' where run: "create sample_digest calm sample_create (world_with running_job) = (Inr job, w')"
    by (cases "create sample_digest calm sample_create (world_with running_job)") (auto split: sum.splits)
  show ?thesis
    using create_is_exclusive [OF calm_healthy(2) run] run by (auto simp: sample_create_def)
qed

lemma recover_keeps_fresh:
  assumes "recoverStaleActiveJobs (quiet env) r w1 = (Inr (), w2)" "j \<in> set (jobs (wdb w1))" "active j"
    "j_repositoryId j = r" "\<forall>n. \<not> stale_job r (clock env n) j"
  shows "find_active r (wdb w2) \<noteq> None"
proof -
  obtain f where "wdb w2 = (wdb w1)\<lparr>jobs := map (\<lambda>j. if stale_job r (clock env (tick w1)) j then f j else j) (jobs (wdb w1))\<rparr>"
    using recover_run [OF assms(1)] by auto
  with assms(2,5) have "j \<in> set (jobs (wdb w2))" by force
  with assms(3,4) show ?thesis by (auto simp: find_active_None)
qed

lemma exclusive_blocked:
  assumes "createExclusiveInTransaction (quiet env) r operation w = (Inr a, w')" "j \<in> set (jobs (wdb w))" "active j"
    "j_repositoryId j = r" "\<forall>n. \<not> stale_job r (clock env n) j"
  shows False
proof -
  from exclusive_run [OF assms(1)] obtain m w2 where
    "recoverStaleActiveJobs (quiet env) r (w\<lparr>tick := m\<rparr>) = (Inr (), w2)" and none: "find_active r (wdb w2) = None"
    by blast
  from recover_keeps_fresh [OF this(1) _ assms(3-5)] assms(2) none show False by simp
qed

text \<open>
  C9. While a repository has an active job that is not stale at any time of the clock, nothing
  is created for it: the attempt fails and leaves the database as it is.
\<close>

theorem active_job_blocks_creation:
  assumes "undisturbed env" "j \<in> set (jobs (wdb w))" "active j" "j_repositoryId j = cj_repositoryId i"
    and "\<forall>n. \<not> stale_job (cj_repositoryId i) (clock env n) j"
  shows "(\<forall>job. fst (create sha256 env i w) \<noteq> Inr job) \<and> wdb (snd (create sha256 env i w)) = wdb w"
proof -
  have rolls: "wdb (snd (createExclusive env (cj_repositoryId i) operation v)) = wdb v" if "wdb v = wdb w"
    for operation :: "env \<Rightarrow> job_row io" and v
    unfolding createExclusive_def
  proof (rule transaction_rolls_back [OF assms(1)])
    fix w1 a w2
    assume "wdb w1 = wdb v"
      and "createExclusiveInTransaction (quiet env) (cj_repositoryId i) operation w1 = (Inr a, w2)"
    from exclusive_blocked [OF this(2) _ assms(3-5)] this(1) assms(2) that
    show "wdb w2 = wdb v" by simp
  qed
  have "wdb (snd (create sha256 env i w)) = wdb w"
    using rolls [of w] rolls [of "w\<lparr>tick := Suc (tick w)\<rparr>"]
    by (auto simp: create_def andThen_def bind_def of_result_def now_io_def ret_def
        split: option.splits sum.splits prod.splits)
  moreover have False if run: "create sha256 env i w = (Inr job, w')" for job w'
  proof -
    from create_run [OF assms(1) run] obtain w1 w2 where w1: "wdb w1 = wdb w"
      and rec: "recoverStaleActiveJobs (quiet env) (cj_repositoryId i) w1 = (Inr (), w2)"
      and none: "find_active (cj_repositoryId i) (wdb w2) = None"
      by blast
    from recover_keeps_fresh [OF rec _ assms(3-5)] w1 assms(2) none show False by simp
  qed
  ultimately show ?thesis by (cases "create sha256 env i w") auto
qed

theorem active_job_blocks_creation_witness:
  "wdb (snd (create sample_digest calm sample_create (world_with sample_job))) = db_with sample_job"
proof -
  have "\<not> stale_job 7 t sample_job" for t
    by (simp add: stale_job_def stale_unreserved_where_def stale_reserved_where_def sample_job_defs js_startsWith_def)
  moreover have "active sample_job" "j_repositoryId sample_job = 7"
    by (simp_all add: active_def sample_job_def sample_input_def new_job_def)
  ultimately show ?thesis
    using active_job_blocks_creation [of calm sample_job "world_with sample_job" sample_create sample_digest]
    by (simp add: world_with_def db_with_def sample_create_def)
qed

end
