(* ===== verification/JobQueue.thy ===== *)
theory JobQueue
  imports Effects WorkerMessage JsNumber
begin

text \<open>
  The queue of analysis jobs: its configuration
  (\<open>src/src/analysis-job/queue/analysis-job-queue.config.ts\<close>), its interface
  (\<open>analysis-job.queue.ts\<close>) and its implementation on SQS (\<open>sqs-analysis-job.queue.ts\<close>). The
  platform's URL parser and the SQS client are parameters: the parser gives the protocol and the
  path of a valid URL, the client answers a command with a message identifier or an error.
\<close>

section \<open>Configuration\<close>

definition DEFAULT_ANALYSIS_JOB_PUBLISH_MAX_ATTEMPTS :: int where
  "DEFAULT_ANALYSIS_JOB_PUBLISH_MAX_ATTEMPTS = 5"
definition DEFAULT_ANALYSIS_JOB_REPUBLISH_AFTER_SECONDS :: int where
  "DEFAULT_ANALYSIS_JOB_REPUBLISH_AFTER_SECONDS = 60"
definition DEFAULT_ANALYSIS_JOB_RECONCILE_BATCH_SIZE :: int where
  "DEFAULT_ANALYSIS_JOB_RECONCILE_BATCH_SIZE = 20"

lemmas queue_constants = DEFAULT_ANALYSIS_JOB_PUBLISH_MAX_ATTEMPTS_def
  DEFAULT_ANALYSIS_JOB_REPUBLISH_AFTER_SECONDS_def DEFAULT_ANALYSIS_JOB_RECONCILE_BATCH_SIZE_def

record publish_settings =
  ps_maxAttempts :: int
  ps_republishAfterSeconds :: int
  ps_reconcileBatchSize :: int

record sqs_credentials =
  cr_accessKeyId :: string
  cr_secretAccessKey :: string
  cr_sessionToken :: "string option"

record sqs_settings =
  ss_region :: string
  ss_queueUrl :: string
  ss_endpoint :: "string option"
  ss_credentials :: "sqs_credentials option"

text \<open>A setting counts only if it is not blank; its value is trimmed.\<close>

definition optional :: "env \<Rightarrow> string \<Rightarrow> string option" where
  "optional env name =
     (case config env name of
        None \<Rightarrow> None
      | Some raw \<Rightarrow> if js_trim raw = [] then None else Some (js_trim raw))"

definition required :: "env \<Rightarrow> string \<Rightarrow> err + string" where
  "required env name =
     (case optional env name of
        None \<Rightarrow> Inl (AnalysisJobQueueConfigurationError (name @ '' is required to publish analysis jobs.''))
      | Some v \<Rightarrow> Inr v)"

definition positiveInteger :: "env \<Rightarrow> string \<Rightarrow> int \<Rightarrow> int \<Rightarrow> err + int" where
  "positiveInteger env name defaultValue maximum =
     (case optional env name of
        None \<Rightarrow> Inr defaultValue
      | Some raw \<Rightarrow>
          (case integer_of (js_Number raw) of
             Some v \<Rightarrow> if v \<le> 0 \<or> v > maximum
               then Inl (AnalysisJobQueueConfigurationError (name
                 @ '' must be a positive integer no greater than '' @ js_string_of_int maximum @ ''.''))
               else Inr v
           | None \<Rightarrow> Inl (AnalysisJobQueueConfigurationError (name
                 @ '' must be a positive integer no greater than '' @ js_string_of_int maximum @ ''.''))))"

definition bind_result :: "err + 'a \<Rightarrow> ('a \<Rightarrow> err + 'b) \<Rightarrow> err + 'b" where
  "bind_result r f = (case r of Inl e \<Rightarrow> Inl e | Inr a \<Rightarrow> f a)"

lemma bind_result_Inr [simp]: "bind_result r f = Inr b \<longleftrightarrow> (\<exists>a. r = Inr a \<and> f a = Inr b)"
  by (auto simp: bind_result_def split: sum.splits)

definition getPublishSettings :: "env \<Rightarrow> err + publish_settings" where
  "getPublishSettings env =
     bind_result (positiveInteger env ''ANALYSIS_JOB_PUBLISH_MAX_ATTEMPTS''
       DEFAULT_ANALYSIS_JOB_PUBLISH_MAX_ATTEMPTS 100) (\<lambda>m.
     bind_result (positiveInteger env ''ANALYSIS_JOB_REPUBLISH_AFTER_SECONDS''
       DEFAULT_ANALYSIS_JOB_REPUBLISH_AFTER_SECONDS 86400) (\<lambda>r.
     bind_result (positiveInteger env ''ANALYSIS_JOB_RECONCILE_BATCH_SIZE''
       DEFAULT_ANALYSIS_JOB_RECONCILE_BATCH_SIZE 100) (\<lambda>b.
     Inr \<lparr>ps_maxAttempts = m, ps_republishAfterSeconds = r, ps_reconcileBatchSize = b\<rparr>)))"

text \<open>\<open>new URL(value)\<close>: the protocol and the path, or nothing when the text is no URL.\<close>

type_synonym url_parser = "string \<Rightarrow> (string \<times> string) option"

definition validUrl :: "url_parser \<Rightarrow> string \<Rightarrow> string \<Rightarrow> err + string" where
  "validUrl parse_url name v =
     (case parse_url v of
        Some (protocol, _) \<Rightarrow> if protocol = ''https:'' \<or> protocol = ''http:'' then Inr v
          else Inl (AnalysisJobQueueConfigurationError (name @ '' must be a valid HTTP(S) URL.''))
      | None \<Rightarrow> Inl (AnalysisJobQueueConfigurationError (name @ '' must be a valid HTTP(S) URL.'')))"

definition is_fifo :: "url_parser \<Rightarrow> string \<Rightarrow> bool" where
  "is_fifo parse_url v \<longleftrightarrow>
     (case parse_url v of None \<Rightarrow> False | Some (_, pathname) \<Rightarrow> js_endsWith pathname ''.fifo'')"

definition getSqsSettings :: "url_parser \<Rightarrow> env \<Rightarrow> err + sqs_settings" where
  "getSqsSettings parse_url env =
     bind_result (required env ''AWS_REGION'') (\<lambda>region.
     bind_result (bind_result (required env ''ANALYSIS_JOB_QUEUE_URL'')
                    (validUrl parse_url ''ANALYSIS_JOB_QUEUE_URL'')) (\<lambda>queueUrl.
     if \<not> is_fifo parse_url queueUrl
     then Inl (AnalysisJobQueueConfigurationError ''ANALYSIS_JOB_QUEUE_URL must identify a FIFO queue.'')
     else
       bind_result (case optional env ''SQS_ENDPOINT'' of
           None \<Rightarrow> Inr None
         | Some v \<Rightarrow> bind_result (validUrl parse_url ''SQS_ENDPOINT'' v) (\<lambda>u. Inr (Some u))) (\<lambda>endpoint.
       case (optional env ''AWS_ACCESS_KEY_ID'', optional env ''AWS_SECRET_ACCESS_KEY'') of
         (Some k, Some s) \<Rightarrow>
           Inr \<lparr>ss_region = region, ss_queueUrl = queueUrl, ss_endpoint = endpoint,
             ss_credentials = Some \<lparr>cr_accessKeyId = k, cr_secretAccessKey = s,
               cr_sessionToken = optional env ''AWS_SESSION_TOKEN''\<rparr>\<rparr>
       | (None, None) \<Rightarrow>
           Inr \<lparr>ss_region = region, ss_queueUrl = queueUrl, ss_endpoint = endpoint, ss_credentials = None\<rparr>
       | _ \<Rightarrow> Inl (AnalysisJobQueueConfigurationError ''AWS access key configuration is incomplete.''))))"

section \<open>Messages\<close>

record queue_message =
  qm_jobId :: string
  qm_userId :: int
  qm_repositoryId :: int
  qm_traceId :: string

text \<open>\<open>/^[A-Za-z0-9][A-Za-z0-9._:-]{0,127}$/\<close>\<close>

definition trace_char :: "char \<Rightarrow> bool" where
  "trace_char c \<longleftrightarrow> ascii_alnum c \<or> c \<in> {CHR ''.'', CHR ''_'', CHR '':'', CHR ''-''}"

definition valid_trace_id :: "string \<Rightarrow> bool" where
  "valid_trace_id s \<longleftrightarrow> s \<noteq> [] \<and> length s \<le> 128 \<and> ascii_alnum (hd s) \<and> list_all trace_char (tl s)"

text \<open>\<open>JOB_ID_PATTERN\<close> is the pattern of the worker without regard to the case of letters.\<close>

definition valid_job_id :: "string \<Rightarrow> bool" where
  "valid_job_id s \<longleftrightarrow> normalized_uuid (map ascii_fold (units s))"

definition validateMessage :: "queue_message \<Rightarrow> err + unit" where
  "validateMessage m =
     (if \<not> valid_job_id (qm_jobId m)
      then Inl (PlainError ''Analysis job queue message has an invalid jobId.'')
      else if qm_userId m \<le> 0
      then Inl (PlainError ''Analysis job queue message has an invalid userId.'')
      else if qm_repositoryId m \<le> 0
      then Inl (PlainError ''Analysis job queue message has an invalid repositoryId.'')
      else if \<not> valid_trace_id (qm_traceId m)
      then Inl (PlainError ''Analysis job queue message has an invalid traceId.'')
      else Inr ())"

record send_command =
  sc_QueueUrl :: string
  sc_MessageBody :: string
  sc_MessageGroupId :: string
  sc_MessageDeduplicationId :: string
  sc_schemaVersion :: string
  sc_traceId :: string

definition send_message_command :: "sqs_settings \<Rightarrow> queue_message \<Rightarrow> send_command" where
  "send_message_command settings m =
     \<lparr>sc_QueueUrl = ss_queueUrl settings,
      sc_MessageBody = json_object [(''schemaVersion'', ''1''), (''jobId'', json_string (qm_jobId m))],
      sc_MessageGroupId = js_string_of_int (qm_userId m) @ '':'' @ js_string_of_int (qm_repositoryId m),
      sc_MessageDeduplicationId = qm_jobId m, sc_schemaVersion = ''1'', sc_traceId = qm_traceId m\<rparr>"

section \<open>Sending\<close>

text \<open>
  What \<open>send\<close> rejects with: an \<open>SQSServiceException\<close> with its \<open>$fault\<close> (is it the client's?)
  and its \<open>$metadata.attempts\<close>, or anything else.
\<close>

datatype sqs_error = SQSServiceException bool "nat option" | OtherSqsError err

type_synonym sqs_client = "send_command \<Rightarrow> nat \<Rightarrow> sqs_error + string option"

text \<open>Only an error of the client's at the first attempt is known not to have been delivered.\<close>

definition publish_error :: "sqs_error \<Rightarrow> err" where
  "publish_error e =
     (case e of
        SQSServiceException client_fault attempts \<Rightarrow>
          if client_fault \<and> (attempts = None \<or> attempts = Some 1)
          then AnalysisJobQueueRejectedError else OtherError None None
      | OtherSqsError x \<Rightarrow> x)"

type_synonym analysis_job_queue = "env \<Rightarrow> queue_message \<Rightarrow> string option io"

definition sqs_publish :: "url_parser \<Rightarrow> sqs_client \<Rightarrow> analysis_job_queue" where
  "sqs_publish parse_url send env m =
     andThen (of_result (validateMessage m))
     (bind (of_result (getSqsSettings parse_url env)) (\<lambda>settings.
      external (\<lambda>n. case send (send_message_command settings m) n of
          Inl e \<Rightarrow> Inl (publish_error e) | Inr i \<Rightarrow> Inr i)))"

lemma positiveInteger_bounds:
  "positiveInteger env name d m = Inr v \<Longrightarrow> 0 < d \<Longrightarrow> d \<le> m \<Longrightarrow> 0 < v \<and> v \<le> m"
  by (auto simp: positiveInteger_def split: option.splits if_splits)

lemma publish_settings_bounds:
  assumes "getPublishSettings env = Inr s"
  shows "0 < ps_maxAttempts s \<and> ps_maxAttempts s \<le> 100"
    "0 < ps_republishAfterSeconds s \<and> ps_republishAfterSeconds s \<le> 86400"
    "0 < ps_reconcileBatchSize s \<and> ps_reconcileBatchSize s \<le> 100"
  using assms by (auto simp: getPublishSettings_def queue_constants dest!: positiveInteger_bounds)

end
