(* ===== verification/JobPublisher.thy ===== *)
theory JobPublisher
  imports JobQueue Ledger "HOL-Library.List_Lexorder" "HOL-Library.Char_ord" "HOL-Library.Product_Lexorder"
begin

text \<open>
  Publishing queued jobs: the repository of the publisher
  (\<open>src/src/analysis-job/analysis-job-publish.repository.ts\<close>), the publisher
  (\<open>analysis-job-publisher.service.ts\<close>) and the reconciler that looks for jobs whose message is
  due (\<open>analysis-job-reconciler.service.ts\<close>). The queue is injected; everything below holds for
  any queue that does not write the database.
\<close>

section \<open>The repository of the publisher\<close>

record publish_record =
  b_id :: string
  b_status :: job_status
  b_userId :: int
  b_repositoryId :: int
  b_idempotencyKey :: string
  b_reservedTokens :: "int option"
  b_publishAttempts :: int
  b_messagePublishedAt :: "int option"
  b_nextPublishAt :: "int option"
  b_lastErrorCode :: "string option"
  b_createdAt :: int

definition publish_select :: "job_row \<Rightarrow> publish_record" where
  "publish_select j =
     \<lparr>b_id = j_id j, b_status = j_status j, b_userId = j_userId j, b_repositoryId = j_repositoryId j,
      b_idempotencyKey = j_idempotencyKey j, b_reservedTokens = j_reservedTokens j,
      b_publishAttempts = j_publishAttempts j, b_messagePublishedAt = j_messagePublishedAt j,
      b_nextPublishAt = j_nextPublishAt j, b_lastErrorCode = j_lastErrorCode j, b_createdAt = j_createdAt j\<rparr>"

definition uncertain_codes :: "string list" where
  "uncertain_codes = [''PUBLISH_IN_PROGRESS'', ''PUBLISH_DELIVERY_UNCERTAIN'']"

definition due_where :: "int \<Rightarrow> int \<Rightarrow> int \<Rightarrow> job_row \<Rightarrow> bool" where
  "due_where now republishAfterSeconds maxAttempts j \<longleftrightarrow>
     j_status j = QUEUED \<and> \<not> js_startsWith (j_idempotencyKey j) ''sync:'' \<and>
     (j_publishAttempts j < maxAttempts \<or>
      (case j_lastErrorCode j of None \<Rightarrow> False | Some c \<Rightarrow> c \<in> set uncertain_codes) \<or>
      j_reservedTokens j \<noteq> None) \<and>
     (case j_nextPublishAt j of None \<Rightarrow> True | Some t \<Rightarrow> t \<le> now) \<and>
     (case j_messagePublishedAt j of None \<Rightarrow> True | Some t \<Rightarrow> t \<le> now - republishAfterSeconds * 1000)"

text \<open>Identifiers have one format, so that their order as text is the order of the database.\<close>

definition due_order :: "job_row \<Rightarrow> int \<times> string" where
  "due_order j = (j_createdAt j, j_id j)"

definition due_jobs :: "int \<Rightarrow> int \<Rightarrow> int \<Rightarrow> int \<Rightarrow> db \<Rightarrow> publish_record list" where
  "due_jobs now republishAfterSeconds maxAttempts batchSize d =
     map publish_select (take (nat batchSize)
       (sort_key due_order (filter (due_where now republishAfterSeconds maxAttempts) (jobs d))))"

definition findDue :: "env \<Rightarrow> int \<Rightarrow> int \<Rightarrow> int \<Rightarrow> int \<Rightarrow> publish_record list io" where
  "findDue env now republishAfterSeconds maxAttempts batchSize =
     db_call env (query (due_jobs now republishAfterSeconds maxAttempts batchSize))"

definition snapshotWhere :: "publish_record \<Rightarrow> job_row \<Rightarrow> bool" where
  "snapshotWhere b j \<longleftrightarrow>
     j_id j = b_id b \<and> j_status j = QUEUED \<and> j_publishAttempts j = b_publishAttempts b \<and>
     j_messagePublishedAt j = b_messagePublishedAt b \<and> j_nextPublishAt j = b_nextPublishAt b"

definition claimedWhere :: "publish_record \<Rightarrow> int \<Rightarrow> int \<Rightarrow> job_row \<Rightarrow> bool" where
  "claimedWhere b attemptNo claimedNextPublishAt j \<longleftrightarrow>
     j_id j = b_id b \<and> j_status j = QUEUED \<and> j_publishAttempts j = attemptNo \<and>
     j_messagePublishedAt j = b_messagePublishedAt b \<and> j_nextPublishAt j = Some claimedNextPublishAt"

definition claim_attempt_set :: "int \<Rightarrow> bool \<Rightarrow> job_row \<Rightarrow> job_row" where
  "claim_attempt_set claimedNextPublishAt deliveryUncertain j =
     j\<lparr>j_publishAttempts := j_publishAttempts j + 1, j_nextPublishAt := Some claimedNextPublishAt,
       j_lastErrorCode := Some (if deliveryUncertain then ''PUBLISH_DELIVERY_UNCERTAIN'' else ''PUBLISH_IN_PROGRESS''),
       j_lastErrorMessage := None, j_errorRetryable := None\<rparr>"

definition claimAttempt :: "env \<Rightarrow> publish_record \<Rightarrow> int \<Rightarrow> bool \<Rightarrow> bool io" where
  "claimAttempt env b claimedNextPublishAt deliveryUncertain =
     bind (db_call env (update_jobs (snapshotWhere b) (claim_attempt_set claimedNextPublishAt deliveryUncertain)))
       (\<lambda>n. ret (n = 1))"

definition mark_published_set :: "int \<Rightarrow> job_row \<Rightarrow> job_row" where
  "mark_published_set publishedAt j =
     j\<lparr>j_messagePublishedAt := Some publishedAt, j_nextPublishAt := None, j_lastErrorCode := None,
       j_lastErrorMessage := None, j_errorRetryable := None\<rparr>"

definition markPublished :: "env \<Rightarrow> publish_record \<Rightarrow> int \<Rightarrow> int \<Rightarrow> int \<Rightarrow> bool io" where
  "markPublished env b attemptNo claimedNextPublishAt publishedAt =
     bind (db_call env (update_jobs (claimedWhere b attemptNo claimedNextPublishAt) (mark_published_set publishedAt)))
       (\<lambda>n. ret (n = 1))"

record publish_failure =
  pf_job :: publish_record
  pf_attempt :: int
  pf_claimedNextPublishAt :: int
  pf_nextPublishAt :: int
  pf_deliveryUncertain :: bool
  pf_terminate :: bool
  pf_completedAt :: int

definition publish_failure_where :: "publish_failure \<Rightarrow> job_row \<Rightarrow> bool" where
  "publish_failure_where i j \<longleftrightarrow>
     claimedWhere (pf_job i) (pf_attempt i) (pf_claimedNextPublishAt i) j \<and>
     (pf_terminate i \<longrightarrow> j_reservedTokens j = None)"

definition publish_failure_set :: "publish_failure \<Rightarrow> job_row \<Rightarrow> job_row" where
  "publish_failure_set i j =
     (if pf_terminate i
      then j\<lparr>j_status := FAILED, j_stage := None, j_nextPublishAt := None,
             j_lastErrorCode := Some ''PUBLISH_FAILED'',
             j_lastErrorMessage := Some ''The analysis job could not be published.'',
             j_errorRetryable := Some True, j_promptTokens := Some 0, j_completionTokens := Some 0,
             j_totalTokens := Some 0, j_tokensSettledAt := Some (pf_completedAt i),
             j_completedAt := Some (pf_completedAt i)\<rparr>
      else j\<lparr>j_nextPublishAt := Some (pf_nextPublishAt i),
             j_lastErrorCode := Some (if pf_deliveryUncertain i then ''PUBLISH_DELIVERY_UNCERTAIN''
                                      else ''PUBLISH_ATTEMPT_FAILED''),
             j_lastErrorMessage := None, j_errorRetryable := None\<rparr>)"

definition recordFailure :: "env \<Rightarrow> publish_failure \<Rightarrow> bool io" where
  "recordFailure env i =
     bind (db_call env (update_jobs (publish_failure_where i) (publish_failure_set i))) (\<lambda>n. ret (n = 1))"

section \<open>The publisher\<close>

datatype publish_outcome = PUBLISHED | DEFERRED | FAILED_TO_PUBLISH | SKIPPED

record publish_options =
  po_allowRepublish :: bool
  po_now :: "int option"
  po_traceId :: "string option"
  po_random :: "rat option"

definition PUBLISH_MAX_BACKOFF_SECONDS :: int where "PUBLISH_MAX_BACKOFF_SECONDS = 3600"
definition PUBLISH_JITTER_RATIO :: rat where "PUBLISH_JITTER_RATIO = 2 / 10"

definition isDue :: "publish_record \<Rightarrow> int \<Rightarrow> int \<Rightarrow> bool \<Rightarrow> bool" where
  "isDue b now republishAfterSeconds allowRepublish =
     (if b_status b \<noteq> QUEUED \<or> js_startsWith (b_idempotencyKey b) ''sync:'' \<or>
         (case b_nextPublishAt b of None \<Rightarrow> False | Some t \<Rightarrow> t > now)
      then False
      else (case b_messagePublishedAt b of
          None \<Rightarrow> True
        | Some t \<Rightarrow> allowRepublish \<and> t \<le> now - republishAfterSeconds * 1000))"

definition delivery_uncertain_code :: "publish_record \<Rightarrow> bool" where
  "delivery_uncertain_code b \<longleftrightarrow>
     (case b_lastErrorCode b of None \<Rightarrow> False | Some c \<Rightarrow> c \<in> set uncertain_codes)"

definition requiresPublishRecovery :: "publish_record \<Rightarrow> bool" where
  "requiresPublishRecovery b \<longleftrightarrow> b_reservedTokens b \<noteq> None \<or> delivery_uncertain_code b"

definition publishBackoffAt :: "int \<Rightarrow> int \<Rightarrow> int \<Rightarrow> rat \<Rightarrow> int" where
  "publishBackoffAt now attemptNo baseSeconds random =
     (let s = of_int (min (baseSeconds * 2 ^ nat (max 0 (attemptNo - 1))) PUBLISH_MAX_BACKOFF_SECONDS);
          jitter = s * PUBLISH_JITTER_RATIO * min 1 (max 0 random)
      in js_trunc (of_int now + (s + jitter) * 1000))"

record failure_context =
  fc_job :: publish_record
  fc_attempt :: int
  fc_claimedNextPublishAt :: int
  fc_deliveryUncertain :: bool
  fc_now :: int
  fc_maxAttempts :: int
  fc_republishAfterSeconds :: int

definition publish_terminates :: "failure_context \<Rightarrow> bool" where
  "publish_terminates i \<longleftrightarrow>
     fc_attempt i \<ge> fc_maxAttempts i \<and> \<not> fc_deliveryUncertain i \<and>
     b_messagePublishedAt (fc_job i) = None \<and> b_reservedTokens (fc_job i) = None"

definition handlePublishFailure :: "env \<Rightarrow> failure_context \<Rightarrow> rat \<Rightarrow> publish_outcome io" where
  "handlePublishFailure env i random =
     bind (recordFailure env
        \<lparr>pf_job = fc_job i, pf_attempt = fc_attempt i, pf_claimedNextPublishAt = fc_claimedNextPublishAt i,
         pf_nextPublishAt = publishBackoffAt (fc_now i) (fc_attempt i) (fc_republishAfterSeconds i) random,
         pf_deliveryUncertain = fc_deliveryUncertain i, pf_terminate = publish_terminates i,
         pf_completedAt = fc_now i\<rparr>) (\<lambda>recorded.
     ret (if recorded \<and> publish_terminates i then FAILED_TO_PUBLISH else DEFERRED))"

text \<open>After the attempt was claimed: send, then record what happened.\<close>

definition send_claimed ::
  "analysis_job_queue \<Rightarrow> env \<Rightarrow> publish_record \<Rightarrow> publish_settings \<Rightarrow> int \<Rightarrow> string \<Rightarrow> rat option \<Rightarrow> publish_outcome io" where
  "send_claimed queue env b settings now traceId random =
     (let claimedNext = now + ps_republishAfterSeconds settings * 1000;
          uncertain = b_messagePublishedAt b \<noteq> None \<or> delivery_uncertain_code b;
          attemptNo = b_publishAttempts b + 1
      in
      bind (attempt (queue env \<lparr>qm_jobId = b_id b, qm_userId = b_userId b,
              qm_repositoryId = b_repositoryId b, qm_traceId = traceId\<rparr>)) (\<lambda>sent.
      case sent of
        Inl e \<Rightarrow>
          bind (case random of None \<Rightarrow> random_io env | Some r \<Rightarrow> ret r) (\<lambda>r.
          handlePublishFailure env
            \<lparr>fc_job = b, fc_attempt = attemptNo, fc_claimedNextPublishAt = claimedNext,
             fc_deliveryUncertain = (uncertain \<or> e \<noteq> AnalysisJobQueueRejectedError), fc_now = now,
             fc_maxAttempts = ps_maxAttempts settings,
             fc_republishAfterSeconds = ps_republishAfterSeconds settings\<rparr> r)
      | Inr _ \<Rightarrow>
          bind (markPublished env b attemptNo claimedNext now) (\<lambda>recorded.
          ret (if recorded then PUBLISHED else DEFERRED))))"

definition publish_attempt ::
  "url_parser \<Rightarrow> analysis_job_queue \<Rightarrow> env \<Rightarrow> publish_record \<Rightarrow> bool \<Rightarrow> int \<Rightarrow> string \<Rightarrow> rat option \<Rightarrow> publish_outcome io" where
  "publish_attempt parse_url queue env b allowRepublish now traceId random =
     bind (of_result (getPublishSettings env)) (\<lambda>settings.
     if \<not> isDue b now (ps_republishAfterSeconds settings) allowRepublish then ret SKIPPED
     else if b_publishAttempts b \<ge> ps_maxAttempts settings \<and> \<not> requiresPublishRecovery b then ret SKIPPED
     else bind (of_result (getSqsSettings parse_url env)) (\<lambda>_.
       bind (claimAttempt env b (now + ps_republishAfterSeconds settings * 1000)
               (b_messagePublishedAt b \<noteq> None \<or> delivery_uncertain_code b)) (\<lambda>claimed.
       if \<not> claimed then ret SKIPPED
       else send_claimed queue env b settings now traceId random)))"

text \<open>Every error after the start is logged, and the job is left for the reconciler.\<close>

definition publish ::
  "url_parser \<Rightarrow> analysis_job_queue \<Rightarrow> env \<Rightarrow> publish_record \<Rightarrow> publish_options \<Rightarrow> publish_outcome io" where
  "publish parse_url queue env b options =
     bind (case po_now options of None \<Rightarrow> now_io env | Some t \<Rightarrow> ret t) (\<lambda>now.
     bind (case po_traceId options of None \<Rightarrow> uuid_io env | Some t \<Rightarrow> ret t) (\<lambda>traceId.
     catch (publish_attempt parse_url queue env b (po_allowRepublish options) now traceId (po_random options))
       (\<lambda>_. ret DEFERRED)))"

definition publishAcceptedJob ::
  "url_parser \<Rightarrow> analysis_job_queue \<Rightarrow> env \<Rightarrow> publish_record \<Rightarrow> publish_outcome io" where
  "publishAcceptedJob parse_url queue env b =
     publish parse_url queue env b \<lparr>po_allowRepublish = False, po_now = None, po_traceId = None, po_random = None\<rparr>"

section \<open>The reconciler\<close>

record reconcile_summary =
  rs_scanned :: nat
  rs_published :: nat
  rs_deferred :: nat
  rs_failed :: nat

definition count_outcome :: "publish_outcome \<Rightarrow> reconcile_summary \<Rightarrow> reconcile_summary" where
  "count_outcome outcome s =
     (case outcome of
        PUBLISHED \<Rightarrow> s\<lparr>rs_published := rs_published s + 1\<rparr>
      | FAILED_TO_PUBLISH \<Rightarrow> s\<lparr>rs_failed := rs_failed s + 1\<rparr>
      | _ \<Rightarrow> s\<lparr>rs_deferred := rs_deferred s + 1\<rparr>)"

fun reconcile_jobs ::
  "url_parser \<Rightarrow> analysis_job_queue \<Rightarrow> env \<Rightarrow> int \<Rightarrow> publish_record list \<Rightarrow> reconcile_summary \<Rightarrow> reconcile_summary io" where
  "reconcile_jobs parse_url queue env now [] s = ret s"
| "reconcile_jobs parse_url queue env now (b # bs) s =
     bind (catch (publish parse_url queue env b
              \<lparr>po_allowRepublish = True, po_now = Some now, po_traceId = None, po_random = None\<rparr>)
            (\<lambda>_. ret DEFERRED)) (\<lambda>outcome.
     reconcile_jobs parse_url queue env now bs (count_outcome outcome s))"

definition runOnce :: "url_parser \<Rightarrow> analysis_job_queue \<Rightarrow> env \<Rightarrow> reconcile_summary io" where
  "runOnce parse_url queue env =
     bind (now_io env) (\<lambda>now.
     bind (of_result (getPublishSettings env)) (\<lambda>settings.
     bind (findDue env now (ps_republishAfterSeconds settings) (ps_maxAttempts settings)
             (ps_reconcileBatchSize settings)) (\<lambda>due.
     reconcile_jobs parse_url queue env now due
       \<lparr>rs_scanned = length due, rs_published = 0, rs_deferred = 0, rs_failed = 0\<rparr>)))"

section \<open>Publishing keeps the ledger's guarantee\<close>

lemmas publish_write_defs = snapshotWhere_def claimedWhere_def active_def same_identity_def
  job_ok_def job_coherent_def usage_known_def usage_unknown_def charge_def

interpretation claim_attempt: job_update "snapshotWhere b" "claim_attempt_set next uncertain" for b "next" uncertain
  by unfold_locales (auto simp: claim_attempt_set_def publish_write_defs split: option.splits)

interpretation mark_published: job_update "claimedWhere b n next" "mark_published_set t" for b n "next" t
  by unfold_locales (auto simp: mark_published_set_def publish_write_defs split: option.splits)

interpretation publish_failure: job_update "publish_failure_where i" "publish_failure_set i" for i
  by unfold_locales
    (auto simp: publish_failure_where_def publish_failure_set_def publish_write_defs split: option.splits)

definition queue_guar :: "analysis_job_queue \<Rightarrow> bool" where
  "queue_guar queue \<longleftrightarrow> (\<forall>env m. rely evolves env \<longrightarrow> guar evolves (queue env m))"

lemma publish_writes_guar [guar_intros]:
  assumes "rely evolves env"
  shows "guar evolves (claimAttempt env b t u)" "guar evolves (markPublished env b n t p)"
    "guar evolves (recordFailure env i)"
  unfolding claimAttempt_def markPublished_def recordFailure_def
  by (intro guar_intros assms claim_attempt.stmt_guar mark_published.stmt_guar publish_failure.stmt_guar)+

lemma publish_guar [guar_intros]:
  assumes "rely evolves env" "queue_guar queue"
  shows "guar evolves (publish parse_url queue env b options)"
  unfolding publish_def publish_attempt_def send_claimed_def handlePublishFailure_def Let_def
  by (intro guar_intros assms(1))
    (use assms in \<open>auto intro!: guar_intros simp: queue_guar_def split: option.splits sum.splits\<close>)

lemma reconcile_jobs_guar:
  assumes "rely evolves env" "queue_guar queue"
  shows "guar evolves (reconcile_jobs parse_url queue env now bs s)"
  by (induction bs arbitrary: s) (auto intro!: guar_intros assms)

lemma runOnce_guar:
  assumes "rely evolves env" "queue_guar queue"
  shows "guar evolves (runOnce parse_url queue env)"
  unfolding runOnce_def findDue_def by (intro guar_intros reconcile_jobs_guar assms)

lemma sqs_queue_guar: "queue_guar (sqs_publish parse_url send)"
  by (auto simp: queue_guar_def sqs_publish_def intro!: guar_intros)

end
