(* ===== verification/PublishProperties.thy ===== *)
theory PublishProperties
  imports JobProperties JobPublisher
begin

text \<open>
  What publishing promises: an outcome whatever fails, agreement of the reconciler's query with
  the publisher, batches of the oldest due jobs, attempts that are claimed once, jobs that are
  given up only when that is safe, and messages that the worker reads back.
\<close>

section \<open>Outcomes\<close>

lemma catch_all: "\<exists>a w'. catch m (\<lambda>_. ret d) w = (Inr a, w')"
  by (auto simp: catch_def ret_def split: prod.splits sum.splits)

text \<open>
  Publishing a job always ends with an outcome, whatever fails: no error of the
  configuration, of the queue or of the database leaves the publisher.
\<close>

theorem publish_always_answers:
  "\<exists>outcome w'. publish parse_url queue env b options w = (Inr outcome, w')"
  unfolding publish_def
  by (cases "po_now options"; cases "po_traceId options")
    (auto simp: bind_def now_io_def uuid_io_def ret_run catch_all)

text \<open>
  C14. The reconciler and the publisher agree on which jobs are due: the condition of its query
  is what the publisher itself checks when a republication is allowed.
\<close>

theorem due_query_matches_publisher:
  "due_where now s m j \<longleftrightarrow>
     isDue (publish_select j) now s True \<and>
     (j_publishAttempts j < m \<or> requiresPublishRecovery (publish_select j))"
  by (auto simp: due_where_def isDue_def requiresPublishRecovery_def delivery_uncertain_code_def
      publish_select_def not_less split: option.splits)

lemma reconcile_counts:
  "reconcile_jobs parse_url queue env now bs s w = (Inr s', w') \<Longrightarrow>
     rs_scanned s' = rs_scanned s \<and>
     rs_published s' + rs_deferred s' + rs_failed s' = rs_published s + rs_deferred s + rs_failed s + length bs"
proof (induction bs arbitrary: s w)
  case Nil
  then show ?case by (simp add: ret_def)
next
  case (Cons b bs)
  then obtain o1 w1 where "reconcile_jobs parse_url queue env now bs (count_outcome o1 s) w1 = (Inr s', w')"
    by (auto simp: bind_Inr)
  from Cons.IH [OF this] show ?case by (cases o1) (simp_all add: count_outcome_def)
qed

text \<open>
  A run of the reconciler that returns has counted every job it looked at exactly once, and
  looked at no more than a hundred.
\<close>

theorem reconciler_counts_every_job:
  assumes "runOnce parse_url queue env w = (Inr s, w')"
  shows "rs_scanned s = rs_published s + rs_deferred s + rs_failed s \<and> rs_scanned s \<le> 100"
proof -
  obtain now settings due w1 w2 where settings: "getPublishSettings env = Inr settings"
    and due: "findDue env now (ps_republishAfterSeconds settings) (ps_maxAttempts settings)
             (ps_reconcileBatchSize settings) w1 = (Inr due, w2)"
    and run: "reconcile_jobs parse_url queue env now due
       \<lparr>rs_scanned = length due, rs_published = 0, rs_deferred = 0, rs_failed = 0\<rparr> w2 = (Inr s, w')"
    using assms by (auto simp: runOnce_def bind_Inr of_result_Inr)
  have "length due \<le> nat (ps_reconcileBatchSize settings)"
    using due
    by (auto simp: findDue_def db_call_def Let_def query_def due_jobs_def split: fault.splits)
  moreover have "nat (ps_reconcileBatchSize settings) \<le> 100"
    using publish_settings_bounds(3) [OF settings] by linarith
  ultimately show ?thesis using reconcile_counts [OF run] by simp
qed

definition sample_url :: url_parser where
  "sample_url v = Some (''https:'', ''/jobs.fifo'')"

definition sample_queue :: analysis_job_queue where
  "sample_queue env m = external (\<lambda>_. Inr (Some ''m-1''))"

theorem reconciler_counts_every_job_witness:
  "\<exists>s w'. runOnce sample_url sample_queue calm (world_with sample_job) = (Inr s, w') \<and>
     rs_scanned s = rs_published s + rs_deferred s + rs_failed s"
proof -
  have "case fst (runOnce sample_url sample_queue calm (world_with sample_job)) of Inl _ \<Rightarrow> False | Inr _ \<Rightarrow> True"
    by code_simp
  then obtain s w' where "runOnce sample_url sample_queue calm (world_with sample_job) = (Inr s, w')"
    by (cases "runOnce sample_url sample_queue calm (world_with sample_job)") (auto split: sum.splits)
  with reconciler_counts_every_job [OF this] show ?thesis by blast
qed

text \<open>
  The batch holds the oldest due jobs: as many as fit, in the order of their creation, and
  a due job that is not in it was not created before any job in it.
\<close>

theorem batch_holds_the_oldest:
  "length (due_jobs now r m n d) = min (nat n) (count_where (due_where now r m) (jobs d)) \<and>
   sorted (map b_createdAt (due_jobs now r m n d)) \<and>
   (\<forall>j \<in> set (jobs d). due_where now r m j \<and> publish_select j \<notin> set (due_jobs now r m n d) \<longrightarrow>
      (\<forall>b \<in> set (due_jobs now r m n d). b_createdAt b \<le> j_createdAt j))"
proof -
  let ?due = "sort_key due_order (filter (due_where now r m) (jobs d))"
  let ?k = "nat n"
  have sorted: "sorted (map due_order ?due)" by (rule sorted_sort_key)
  have mono: "sorted (map due_order xs) \<Longrightarrow> sorted (map j_createdAt xs)" for xs
    by (induction xs) (auto simp: due_order_def less_eq_prod_def)
  have created: "b_createdAt (publish_select j) = j_createdAt j" for j by (simp add: publish_select_def)
  have "sorted (map j_createdAt ?due)" by (rule mono [OF sorted])
  then have parts: "sorted (map j_createdAt (take ?k ?due))"
    "\<forall>x \<in> set (take ?k ?due). \<forall>y \<in> set (drop ?k ?due). j_createdAt x \<le> j_createdAt y"
    using sorted_append [of "map j_createdAt (take ?k ?due)" "map j_createdAt (drop ?k ?due)"]
    by (simp_all flip: map_append)
  have "j_createdAt x \<le> j_createdAt j" if "j \<in> set (jobs d)" "due_where now r m j"
    "publish_select j \<notin> publish_select ` set (take ?k ?due)" "x \<in> set (take ?k ?due)" for j x
  proof -
    have "j \<in> set ?due" using that by simp
    then have "j \<in> set (take ?k ?due) \<union> set (drop ?k ?due)"
      by (simp flip: set_append)
    with that(3) have "j \<in> set (drop ?k ?due)" by auto
    with parts(2) that(4) show ?thesis by blast
  qed
  with parts(1) show ?thesis
    by (auto simp: due_jobs_def comp_def created count_where_def)
qed


theorem batch_holds_the_oldest_witness:
  "b_createdAt (hd (due_jobs 1000000 60 5 1 \<lparr>users = [], repositories = [], reports = [], stats = [],
       jobs = [sample_job\<lparr>j_id := ''b'', j_createdAt := 900001\<rparr>, sample_job],
       installations = [], user_installations = [], install_states = []\<rparr>)) \<le> 900001"
proof -
  let ?late = "sample_job\<lparr>j_id := ''b'', j_createdAt := 900001\<rparr>"
  let ?d = "\<lparr>users = [], repositories = [], reports = [], stats = [], jobs = [?late, sample_job],
       installations = [], user_installations = [], install_states = []\<rparr>"
  have "due_where 1000000 60 5 ?late" by code_simp
  moreover have "due_jobs 1000000 60 5 1 ?d = [publish_select sample_job]"
    by (simp add: due_jobs_def due_where_def due_order_def sample_job_defs js_startsWith_def)
  moreover have "publish_select ?late \<noteq> publish_select sample_job"
    by (simp add: publish_select_def sample_job_defs)
  ultimately show ?thesis
    using batch_holds_the_oldest [of 1000000 60 5 1 ?d] by simp
qed

section \<open>Claimed attempts\<close>

lemma claimAttempt_run:
  assumes "undisturbed env" "claimAttempt env b t u w = (Inr x, w')"
  shows "\<exists>now. wdb w' = (wdb w)\<lparr>jobs := update_where (snapshotWhere b)
      (\<lambda>j. (claim_attempt_set t u j)\<lparr>j_updatedAt := now\<rparr>) (jobs (wdb w))\<rparr> \<and>
    x = (count_where (snapshotWhere b) (jobs (wdb w)) = 1)"
  using assms
  by (auto simp: claimAttempt_def bind_Inr ret_run db_call_undisturbed_Inr update_jobs_def
      jobs_table.bulk_update_Inr)

text \<open>
  An attempt to publish is claimed once: when two publishers hold the same snapshot of a
  job and one claimed the attempt, the other cannot, and its try leaves the database as it is.
\<close>

theorem attempt_is_claimed_once:
  assumes "undisturbed env" "undisturbed env2" "claimAttempt env b t u w = (Inr x, w1)" "wdb w2 = wdb w1"
  shows "fst (claimAttempt env2 b t2 u2 w2) \<noteq> Inr True \<and> wdb (snd (claimAttempt env2 b t2 u2 w2)) = wdb w2"
proof -
  have "\<forall>j \<in> set (jobs (wdb w2)). \<not> snapshotWhere b j"
    using claimAttempt_run [OF assms(1,3)] assms(4)
    by (auto simp: set_update_where snapshotWhere_def claim_attempt_set_def)
  then have "update_jobs (snapshotWhere b) (claim_attempt_set t2 u2) now (wdb w2) = Inr (0, wdb w2)" for now
    by (intro update_jobs_none) auto
  then show ?thesis
    using assms(2)
    by (simp add: claimAttempt_def bind_def ret_def db_call_def undisturbed_def Let_def split: fault.splits)
qed

theorem attempt_is_claimed_once_witness:
  "\<exists>w1. claimAttempt calm (publish_select sample_job) 1060000 False (world_with sample_job) = (Inr True, w1) \<and>
     fst (claimAttempt calm (publish_select sample_job) 1060000 False w1) \<noteq> Inr True"
proof -
  have "fst (claimAttempt calm (publish_select sample_job) 1060000 False (world_with sample_job)) = Inr True"
    by code_simp
  then obtain w1 where w1: "claimAttempt calm (publish_select sample_job) 1060000 False (world_with sample_job) = (Inr True, w1)"
    by (cases "claimAttempt calm (publish_select sample_job) 1060000 False (world_with sample_job)") simp
  from attempt_is_claimed_once [OF calm_healthy(2) calm_healthy(2) w1 refl] w1 show ?thesis by blast
qed

section \<open>Giving up\<close>

text \<open>The answer of a round trip comes from the tables it found, whatever others wrote before it.\<close>

lemma recordFailure_run:
  assumes "recordFailure env i w = (Inr True, w')"
  shows "\<exists>j now. publish_failure_where i j \<and> (publish_failure_set i j)\<lparr>j_updatedAt := now\<rparr> \<in> set (jobs (wdb w'))"
proof -
  let ?d = "interference env (tick w) (wdb w)"
  have n: "count_where (publish_failure_where i) (jobs ?d) = 1"
    and w': "\<exists>now. jobs (wdb w') = update_where (publish_failure_where i)
      (\<lambda>j. (publish_failure_set i j)\<lparr>j_updatedAt := now\<rparr>) (jobs ?d)"
    using assms
    by (auto simp: recordFailure_def bind_Inr ret_run db_call_Inr update_jobs_def jobs_table.bulk_update_Inr)
  obtain j where "j \<in> set (jobs ?d)" "publish_failure_where i j" using n by (rule count_where_1_obtain)
  with w' show ?thesis by (force simp: set_update_where)
qed

definition sent_message :: "publish_record \<Rightarrow> string \<Rightarrow> queue_message" where
  "sent_message b traceId = \<lparr>qm_jobId = b_id b, qm_userId = b_userId b,
     qm_repositoryId = b_repositoryId b, qm_traceId = traceId\<rparr>"

definition failed_context :: "publish_record \<Rightarrow> publish_settings \<Rightarrow> int \<Rightarrow> err \<Rightarrow> failure_context" where
  "failed_context b settings now e =
     \<lparr>fc_job = b, fc_attempt = b_publishAttempts b + 1,
      fc_claimedNextPublishAt = now + ps_republishAfterSeconds settings * 1000,
      fc_deliveryUncertain = ((b_messagePublishedAt b \<noteq> None \<or> delivery_uncertain_code b) \<or>
        e \<noteq> AnalysisJobQueueRejectedError),
      fc_now = now, fc_maxAttempts = ps_maxAttempts settings,
      fc_republishAfterSeconds = ps_republishAfterSeconds settings\<rparr>"

lemma send_claimed_fails:
  assumes "send_claimed queue env b settings now traceId random w = (Inr FAILED_TO_PUBLISH, w')"
  shows "\<exists>e w1 w2 r. queue env (sent_message b traceId) w = (Inl e, w1) \<and>
    handlePublishFailure env (failed_context b settings now e) r w2 = (Inr FAILED_TO_PUBLISH, w')"
proof -
  obtain sent w1 where q: "queue env (sent_message b traceId) w = (sent, w1)"
    by (cases "queue env (sent_message b traceId) w")
  show ?thesis
  proof (cases sent)
    case (Inl e)
    with assms q obtain r w2 where "handlePublishFailure env (failed_context b settings now e) r w2 = (Inr FAILED_TO_PUBLISH, w')"
      by (auto simp: send_claimed_def Let_def bind_Inr attempt_def sent_message_def failed_context_def)
    with q Inl show ?thesis by blast
  next
    case (Inr i)
    with assms q show ?thesis
      by (auto simp: send_claimed_def Let_def bind_Inr attempt_def sent_message_def ret_run split: if_splits)
  qed
qed

lemma failure_terminates:
  assumes "handlePublishFailure env c r w = (Inr FAILED_TO_PUBLISH, w')"
  shows "publish_terminates c \<and>
    (\<exists>j \<in> set (jobs (wdb w')). j_id j = b_id (fc_job c) \<and> j_status j = FAILED \<and>
       j_lastErrorCode j = Some ''PUBLISH_FAILED'' \<and> j_errorRetryable j = Some True \<and>
       j_reservedTokens j = None \<and> charge j = 0 \<and> j_messagePublishedAt j = None \<and> j_publishAttempts j = fc_attempt c)"
proof -
  let ?i = "\<lparr>pf_job = fc_job c, pf_attempt = fc_attempt c, pf_claimedNextPublishAt = fc_claimedNextPublishAt c,
         pf_nextPublishAt = publishBackoffAt (fc_now c) (fc_attempt c) (fc_republishAfterSeconds c) r,
         pf_deliveryUncertain = fc_deliveryUncertain c, pf_terminate = publish_terminates c,
         pf_completedAt = fc_now c\<rparr>"
  have t: "publish_terminates c" and rec: "recordFailure env ?i w = (Inr True, w')"
    using assms by (auto simp: handlePublishFailure_def bind_Inr ret_run split: if_splits)
  from recordFailure_run [OF rec] obtain j n where
    "publish_failure_where ?i j" "(publish_failure_set ?i j)\<lparr>j_updatedAt := n\<rparr> \<in> set (jobs (wdb w'))"
    by blast
  with t show ?thesis
    by (intro conjI bexI [where x = "(publish_failure_set ?i j)\<lparr>j_updatedAt := n\<rparr>"])
      (auto simp: publish_failure_where_def claimedWhere_def publish_failure_set_def charge_def publish_terminates_def)
qed

lemma publish_fails_run:
  assumes "publish parse_url queue env b options w = (Inr FAILED_TO_PUBLISH, w')"
  shows "\<exists>settings now traceId random v. getPublishSettings env = Inr settings \<and>
    send_claimed queue env b settings now traceId random v = (Inr FAILED_TO_PUBLISH, w')"
proof -
  from assms obtain now traceId w1 where
    "catch (publish_attempt parse_url queue env b (po_allowRepublish options) now traceId (po_random options))
       (\<lambda>_. ret DEFERRED) w1 = (Inr FAILED_TO_PUBLISH, w')"
    by (auto simp: publish_def bind_Inr)
  then have "publish_attempt parse_url queue env b (po_allowRepublish options) now traceId (po_random options) w1
      = (Inr FAILED_TO_PUBLISH, w')"
    by (auto simp: catch_def ret_def split: prod.splits sum.splits)
  then show ?thesis
    by (auto simp: publish_attempt_def bind_Inr of_result_Inr ret_run split: if_splits)
qed

text \<open>
  C13. A job is given up only when that is safe, whatever others write and whatever fails meanwhile: the
  attempts are used up, the publisher had read of no message that was or may have been delivered, and the
  queue refused the last one before accepting it. The row that is failed then was never published and
  holds no reservation at the moment it is written, even if another process reserved tokens after the
  publisher had read it; it is charged nothing and may be tried again by its user.
\<close>

theorem gives_up_only_when_safe:
  assumes "publish parse_url queue env b options w = (Inr FAILED_TO_PUBLISH, w')"
  shows "b_messagePublishedAt b = None \<and> b_reservedTokens b = None \<and> \<not> delivery_uncertain_code b \<and>
    (\<exists>settings. getPublishSettings env = Inr settings \<and> ps_maxAttempts settings \<le> b_publishAttempts b + 1) \<and>
    (\<exists>m v v'. queue env m v = (Inl AnalysisJobQueueRejectedError, v') \<and> qm_jobId m = b_id b) \<and>
    (\<exists>j \<in> set (jobs (wdb w')). j_id j = b_id b \<and> j_status j = FAILED \<and>
       j_lastErrorCode j = Some ''PUBLISH_FAILED'' \<and> j_errorRetryable j = Some True \<and>
       j_reservedTokens j = None \<and> charge j = 0 \<and> j_messagePublishedAt j = None \<and>
       j_publishAttempts j = b_publishAttempts b + 1)"
proof -
  obtain settings now traceId random v where settings: "getPublishSettings env = Inr settings"
    and "send_claimed queue env b settings now traceId random v = (Inr FAILED_TO_PUBLISH, w')"
    using publish_fails_run [OF assms] by blast
  then obtain e v1 v2 r where q: "queue env (sent_message b traceId) v = (Inl e, v1)"
    and h: "handlePublishFailure env (failed_context b settings now e) r v2 = (Inr FAILED_TO_PUBLISH, w')"
    using send_claimed_fails by blast
  note f = failure_terminates [OF h]
  then have "e = AnalysisJobQueueRejectedError" by (simp add: publish_terminates_def failed_context_def)
  with q have "\<exists>m v v'. queue env m v = (Inl AnalysisJobQueueRejectedError, v') \<and> qm_jobId m = b_id b"
    by (intro exI [of _ "sent_message b traceId"]) (auto simp: sent_message_def)
  with f settings show ?thesis by (simp add: publish_terminates_def failed_context_def)
qed

definition refusing_queue :: analysis_job_queue where
  "refusing_queue env m = external (\<lambda>_. Inl AnalysisJobQueueRejectedError)"

definition queue_env :: env where
  "queue_env = calm\<lparr>config := (\<lambda>n. if n = ''AWS_REGION'' \<or> n = ''ANALYSIS_JOB_QUEUE_URL'' then Some ''x'' else None)\<rparr>"

definition tried_job :: job_row where
  "tried_job = sample_job\<lparr>j_publishAttempts := 4\<rparr>"

definition sample_options :: publish_options where
  "sample_options = \<lparr>po_allowRepublish = True, po_now = Some 1000000, po_traceId = None, po_random = None\<rparr>"

theorem gives_up_only_when_safe_witness:
  "\<exists>w'. publish sample_url refusing_queue queue_env (publish_select tried_job) sample_options (world_with tried_job)
       = (Inr FAILED_TO_PUBLISH, w') \<and>
     (\<exists>j \<in> set (jobs (wdb w')). j_id j = j_id tried_job \<and> charge j = 0)"
proof -
  let ?p = "publish sample_url refusing_queue queue_env (publish_select tried_job) sample_options (world_with tried_job)"
  have "fst ?p = Inr FAILED_TO_PUBLISH" by code_simp
  then obtain w' where run: "?p = (Inr FAILED_TO_PUBLISH, w')" by (cases ?p) simp
  from gives_up_only_when_safe [OF run] run show ?thesis by (auto simp: publish_select_def)
qed

section \<open>Messages\<close>

lemma sent_body: "sc_MessageBody (send_message_command settings m) = message_text (qm_jobId m)"
  by (simp add: send_message_command_def message_text_def)

text \<open>
  What the publisher sends, the worker reads: the body of a message with an identifier as the
  database makes them is parsed to exactly that identifier, which is also what the queue
  deduplicates by.
\<close>

theorem published_message_is_read:
  assumes "normalized_uuid (units (qm_jobId m))"
  shows "parseAnalysisWorkerMessage (units (sc_MessageBody (send_message_command settings m))) = VALID (qm_jobId m) \<and>
    sc_MessageDeduplicationId (send_message_command settings m) = qm_jobId m"
  using parse_message_text [OF assms] by (simp add: sent_body) (simp add: send_message_command_def)

definition sample_message :: queue_message where
  "sample_message = \<lparr>qm_jobId = sample_job_id, qm_userId = 1, qm_repositoryId = 7, qm_traceId = ''t-1''\<rparr>"

lemma sample_uuid: "normalized_uuid (units sample_job_id)"
  by (simp add: normalized_uuid_def uuid_pattern_def hex_lower_def sample_job_id_def units_def numeral_nat)

theorem published_message_is_read_witness:
  "parseAnalysisWorkerMessage (units (sc_MessageBody (send_message_command
     \<lparr>ss_region = ''r'', ss_queueUrl = ''q'', ss_endpoint = None, ss_credentials = None\<rparr> sample_message)))
   = VALID sample_job_id"
  using published_message_is_read [of sample_message] sample_uuid by (simp add: sample_message_def)

lemma fold_unit:
  "ascii_fold c = 45 \<or> 48 \<le> ascii_fold c \<and> ascii_fold c \<le> 57 \<or> 97 \<le> ascii_fold c \<and> ascii_fold c \<le> 102 \<Longrightarrow>
     32 \<le> c \<and> c \<noteq> 34 \<and> c \<noteq> 92"
  by (auto simp: ascii_fold_def split: if_splits)

lemma valid_job_id_plain: "valid_job_id i \<Longrightarrow> plain_text i"
  using uuid_unit [of "map ascii_fold (units i)"] fold_unit
  by (auto simp: valid_job_id_def plain_text_def list_all_iff)

lemma parse_other_id:
  assumes "plain_text i" "\<not> normalized_uuid (units i)"
  shows "parseAnalysisWorkerMessage (units (message_text i)) = INVALID None"
proof -
  let ?n = "2 * length (units (message_text i)) + 2"
  have "parse_value ?n (units (message_text i)) = parse_value (Suc (Suc (Suc (Suc (Suc ?n))))) (units (message_text i))"
    by (rule parse_value_fuel [symmetric]) simp
  with parse_message_value [OF assms(1)] have
    "JSON_parse (units (message_text i)) =
      Some (JObj [(units ''schemaVersion'', JNum (Some 1)), (units ''jobId'', JStr (units i))])"
    by (simp add: JSON_parse_def skip_def)
  moreover have "units ''jobId'' \<noteq> units ''schemaVersion''" by (simp add: units_def)
  ultimately show ?thesis
    using assms(2)
    by (simp add: parseAnalysisWorkerMessage_def message_schema_def extractNormalizedJobId_def
        get_property_def own_keys_def)
qed

text \<open>
  The queue accepts identifiers with upper-case letters, the worker does not: a message with
  such an identifier passes the publisher's validation, and the worker discards it as invalid
  without an identifier, so that no job is failed for it.
\<close>

theorem upper_case_ids_are_lost:
  assumes "validateMessage m = Inr ()" "\<not> normalized_uuid (units (qm_jobId m))"
  shows "parseAnalysisWorkerMessage (units (sc_MessageBody (send_message_command settings m))) = INVALID None"
proof -
  have "plain_text (qm_jobId m)"
    using assms(1) by (intro valid_job_id_plain) (auto simp: validateMessage_def split: if_splits)
  with assms(2) show ?thesis by (simp add: sent_body parse_other_id)
qed

theorem upper_case_ids_are_lost_witness:
  "parseAnalysisWorkerMessage (units (sc_MessageBody (send_message_command
     \<lparr>ss_region = ''r'', ss_queueUrl = ''q'', ss_endpoint = None, ss_credentials = None\<rparr>
     (sample_message\<lparr>qm_jobId := ''0A1b2c3d-1111-4111-8111-0123456789ab''\<rparr>)))) = INVALID None"
proof (rule upper_case_ids_are_lost)
  show "validateMessage (sample_message\<lparr>qm_jobId := ''0A1b2c3d-1111-4111-8111-0123456789ab''\<rparr>) = Inr ()"
    by (simp add: validateMessage_def valid_job_id_def ascii_fold_def normalized_uuid_def uuid_pattern_def
        hex_lower_def units_def numeral_nat sample_message_def valid_trace_id_def ascii_alnum_def trace_char_def)
  show "\<not> normalized_uuid (units (qm_jobId (sample_message\<lparr>qm_jobId := ''0A1b2c3d-1111-4111-8111-0123456789ab''\<rparr>)))"
    by (simp add: normalized_uuid_def uuid_pattern_def hex_lower_def units_def numeral_nat)
qed

section \<open>Backoff\<close>

text \<open>
  The next attempt of a job that could not be published is never scheduled earlier than the
  configured interval (or an hour, if that is shorter) and never later than 72 minutes from now,
  however many attempts were made and whatever the random number is.
\<close>

theorem publish_backoff_bounds:
  assumes "1 \<le> b" "0 \<le> now"
  shows "now + min b 3600 * 1000 \<le> publishBackoffAt now n b x \<and> publishBackoffAt now n b x \<le> now + 4320000"
proof -
  define s where "s = min (b * 2 ^ nat (max 0 (n - 1))) PUBLISH_MAX_BACKOFF_SECONDS"
  define y where "y = min 1 (max 0 x)"
  define r :: rat where "r = of_int now + (of_int s + of_int s * PUBLISH_JITTER_RATIO * y) * 1000"
  have "b * 1 \<le> b * 2 ^ nat (max 0 (n - 1))" using assms(1) by (intro mult_left_mono) auto
  then have s: "min b 3600 \<le> s" "s \<le> 3600" by (auto simp: s_def PUBLISH_MAX_BACKOFF_SECONDS_def)
  have y: "0 \<le> y" "y \<le> 1" by (auto simp: y_def)
  have s': "0 \<le> (of_int s :: rat)" "(of_int s :: rat) \<le> 3600" using s assms(1) by simp_all
  have "of_int s * y \<le> 3600 * (1 :: rat)" using s' y by (intro mult_mono) auto
  then have j: "0 \<le> of_int s * PUBLISH_JITTER_RATIO * y" "of_int s * PUBLISH_JITTER_RATIO * y \<le> 720"
    using s' y by (simp_all add: PUBLISH_JITTER_RATIO_def)
  have "(of_int (min b 3600) :: rat) \<le> of_int s" using s by (simp only: of_int_le_iff)
  then have "of_int (min b 3600) * 1000 \<le> (of_int s + of_int s * PUBLISH_JITTER_RATIO * y) * (1000 :: rat)"
    using j(1) by (intro mult_right_mono) simp_all
  then have lo: "of_int (now + min b 3600 * 1000) \<le> r"
    unfolding r_def of_int_add of_int_mult of_int_numeral by (rule add_left_mono)
  have "(of_int s + of_int s * PUBLISH_JITTER_RATIO * y) * (1000 :: rat) \<le> 4320 * 1000"
    using add_mono [OF s'(2) j(2)] by (intro mult_right_mono) simp_all
  then have hi: "r \<le> of_int (now + 4320000)"
    by (simp add: r_def)
  have "0 \<le> (of_int (now + min b 3600 * 1000) :: rat)" using assms by simp
  with lo have "0 \<le> r" by (rule order_trans [rotated])
  then have "publishBackoffAt now n b x = \<lfloor>r\<rfloor>"
    by (simp add: publishBackoffAt_def s_def y_def r_def Let_def js_trunc_def)
  then show ?thesis using lo hi by (simp add: le_floor_iff floor_le_iff)
qed

theorem publish_backoff_bounds_witness:
  "1000 + min 300 3600 * 1000 \<le> publishBackoffAt 1000 4 300 (1 / 2) \<and> publishBackoffAt 1000 4 300 (1 / 2) \<le> 1000 + 4320000"
  by (rule publish_backoff_bounds) simp_all

end
