(* ===== verification/JsDate.thy ===== *)
theory JsDate
  imports Json
begin

text \<open>
  \<open>new Date(text)\<close> for the texts the program meets: the date-time format that
  \<open>toISOString\<close> writes, with or without milliseconds. Every other text is left to the
  implementation of the language, which is a parameter. A date is its time value.
\<close>

section \<open>Days and dates\<close>

definition days_of_civil :: "int \<Rightarrow> int \<Rightarrow> int \<Rightarrow> int" where
  "days_of_civil y m d =
     (let y' = (if m \<le> 2 then y - 1 else y);
          era = y' div 400;
          yoe = y' mod 400;
          mp = (if m > 2 then m - 3 else m + 9);
          doy = (153 * mp + 2) div 5 + d - 1
      in era * 146097 + yoe * 365 + yoe div 4 - yoe div 100 + doy - 719468)"

lemma year_of_era:
  fixes doe :: int
  defines "yoe \<equiv> (doe - doe div 1460 + doe div 36524 - doe div 146096) div 365"
  assumes "0 \<le> doe" "doe < 146097"
  shows "0 \<le> yoe \<and> yoe \<le> 399 \<and> 0 \<le> doe - (365 * yoe + yoe div 4 - yoe div 100) \<and>
    doe - (365 * yoe + yoe div 4 - yoe div 100) \<le> 365"
proof (cases "doe = 146096")
  case True
  then show ?thesis by (simp add: yoe_def)
next
  case False
  define c where "c = doe div 36524"
  define r where "r = doe mod 36524"
  define q where "q = (24 * c + r) div 1460"
  define y where "y = (r - q) div 365"
  have doe: "doe = 36524 * c + r" by (simp add: c_def r_def)
  have c: "0 \<le> c" "c \<le> 3" and r: "0 \<le> r" "r < 36524" using assms False by (auto simp: c_def r_def)
  have q: "1460 * q \<le> 24 * c + r" "24 * c + r \<le> 1460 * q + 1459" unfolding q_def by linarith+
  have y: "365 * y \<le> r - q" "r - q \<le> 365 * y + 364" unfolding y_def by linarith+
  have y4: "4 * (y div 4) \<le> y" "y \<le> 4 * (y div 4) + 3" by linarith+
  have "doe div 1460 = 25 * c + q"
    unfolding q_def doe using div_mult_self3 [of 1460 "25 * c" "24 * c + r"] by (simp add: algebra_simps)
  moreover have "doe div 146096 = 0" "doe div 36524 = c" using assms False by (simp_all add: c_def)
  ultimately have "yoe = (365 * (100 * c) + (r - q)) div 365"
    unfolding yoe_def by (simp add: doe algebra_simps)
  then have yoe: "yoe = 100 * c + y" by (simp add: y_def)
  have y99: "0 \<le> y" "y \<le> 99" using q y c r by linarith+
  have "yoe div 100 = c" "yoe div 4 = 25 * c + y div 4" using yoe y99 by auto
  then have doy: "doe - (365 * yoe + yoe div 4 - yoe div 100) = (r - q - 365 * y) + (q - y div 4)"
    by (simp add: yoe doe)
  have "0 \<le> q - y div 4" "q - y div 4 \<le> 1" using q y y4 c r by linarith+
  with y doy yoe c y99 show ?thesis by linarith
qed

lemma civil_days:
  obtains y m d where "civil_of_days z = (y, m, d)" "1 \<le> m" "m \<le> 12" "1 \<le> d" "d \<le> 31"
    "days_of_civil y m d = z" "\<bar>z\<bar> \<le> 100000000 \<longrightarrow> \<bar>y\<bar> \<le> 300000"
proof -
  define era where "era = (z + 719468) div 146097"
  define doe where "doe = (z + 719468) mod 146097"
  define yoe where "yoe = (doe - doe div 1460 + doe div 36524 - doe div 146096) div 365"
  define doy where "doy = doe - (365 * yoe + yoe div 4 - yoe div 100)"
  define mp where "mp = (5 * doy + 2) div 153"
  define d where "d = doy - (153 * mp + 2) div 5 + 1"
  define m where "m = (if mp < 10 then mp + 3 else mp - 9)"
  define y where "y = yoe + era * 400 + (if m \<le> 2 then 1 else 0)"
  have z: "z = era * 146097 + doe - 719468" by (simp add: era_def doe_def)
  have "0 \<le> yoe \<and> yoe \<le> 399 \<and> 0 \<le> doy \<and> doy \<le> 365"
    unfolding doy_def yoe_def by (rule year_of_era) (simp_all add: doe_def)
  then have b: "0 \<le> yoe" "yoe \<le> 399" "0 \<le> doy" "doy \<le> 365" by simp_all
  have mp: "0 \<le> mp" "mp \<le> 11" "153 * mp \<le> 5 * doy + 2" "5 * doy + 2 \<le> 153 * mp + 152"
    using b unfolding mp_def by linarith+
  have c: "civil_of_days z = (y, m, d)"
    unfolding civil_of_days_def Let_def y_def m_def d_def mp_def doy_def yoe_def doe_def era_def by (rule refl)
  have d31: "1 \<le> d" "d \<le> 31" using mp unfolding d_def by linarith+
  have "(if m \<le> 2 then y - 1 else y) = yoe + era * 400" "(if m > 2 then m - 3 else m + 9) = mp"
    using mp by (auto simp: y_def m_def)
  moreover have "(yoe + era * 400) div 400 = era" "(yoe + era * 400) mod 400 = yoe" using b by simp_all
  ultimately have "days_of_civil y m d = era * 146097 + yoe * 365 + yoe div 4 - yoe div 100
      + ((153 * mp + 2) div 5 + d - 1) - 719468"
    by (simp only: days_of_civil_def Let_def)
  also have "\<dots> = z" by (simp add: d_def doy_def z)
  finally have "days_of_civil y m d = z" .
  moreover have "1 \<le> m" "m \<le> 12" using mp by (auto simp: m_def)
  moreover have "\<bar>y\<bar> \<le> 300000" if "\<bar>z\<bar> \<le> 100000000"
  proof -
    have "0 \<le> doe" "doe < 146097" by (simp_all add: doe_def)
    with that z have "- 700 \<le> era" "era \<le> 700" by linarith+
    with b have "- 300000 \<le> y" "y \<le> 300000" unfolding y_def by simp_all
    then show ?thesis by linarith
  qed
  ultimately show ?thesis using that c d31 by blast
qed

section \<open>Reading digits\<close>

lemma units_append [simp]: "units (a @ b) = units a @ units b"
  by (simp add: units_def)

lemma units_Cons [simp]: "units (c # s) = of_char c # units s"
  by (simp add: units_def)

lemma units_Nil [simp]: "units [] = []"
  by (simp add: units_def)

lemma length_units [simp]: "length (units s) = length s"
  by (simp add: units_def)

lemma decimal_append: "decimal (a @ [c]) = 10 * decimal a + (c - 48)"
  by (simp add: decimal_def)

lemma decimal_zeros: "decimal (replicate n 48 @ s) = decimal s"
proof -
  have "foldl (\<lambda>n c. 10 * n + (c - 48)) 0 (replicate n 48) = (0 :: nat)" by (induction n) simp_all
  then show ?thesis by (simp add: decimal_def)
qed

lemma js_digit_unit [simp]: "n < 10 \<Longrightarrow> of_char (js_digit_char n) = (48 + n :: nat)"
  by simp

lemma nat_digits_read: "decimal (units (nat_digits n)) = n \<and> list_all json_digit (units (nat_digits n))"
proof (induction n rule: nat_digits.induct)
  case (1 n)
  show ?case
  proof (cases "n < 10")
    case True
    then show ?thesis by (simp add: nat_digits.simps [of n] decimal_def json_digit_def)
  next
    case False
    with 1 show ?thesis
      by (simp add: nat_digits.simps [of n] decimal_append json_digit_def del: js_digit_char.simps)
  qed
qed

lemma nat_digits_length: "n < 10 ^ k \<Longrightarrow> 0 < k \<Longrightarrow> length (nat_digits n) \<le> k"
proof (induction n arbitrary: k rule: nat_digits.induct)
  case (1 n)
  show ?case
  proof (cases "n < 10")
    case True
    with 1(3) show ?thesis by (simp add: nat_digits.simps [of n])
  next
    case False
    with 1(2,3) obtain l where l: "k = Suc l" "0 < l" by (cases k; cases "k - 1") auto
    with 1(2) have "n div 10 < 10 ^ l" by (simp add: less_mult_imp_div_less mult.commute)
    with 1(1) [OF False _ l(2)] False l show ?thesis by (simp add: nat_digits.simps [of n])
  qed
qed

text \<open>A padded number is so many digits, and reads back as itself.\<close>

lemma padded_read:
  assumes "0 \<le> i" "i < 10 ^ n" "0 < n"
  shows "length (padded n i) = n" "list_all json_digit (units (padded n i))"
    "decimal (units (padded n i)) = nat i"
proof -
  have "nat i < 10 ^ n" using assms by (simp add: nat_less_iff)
  with assms(3) have "length (nat_digits (nat i)) \<le> n" by (intro nat_digits_length)
  then show "length (padded n i) = n" by (simp add: padded_def)
  have "units (padded n i) = replicate (n - length (nat_digits (nat i))) 48 @ units (nat_digits (nat i))"
    by (simp add: padded_def units_def)
  then show "list_all json_digit (units (padded n i))" "decimal (units (padded n i)) = nat i"
    using nat_digits_read [of "nat i"] by (auto simp: decimal_zeros list_all_iff json_digit_def)
qed

section \<open>The date-time format\<close>

text \<open>A time value of a \<open>Date\<close> that is not invalid.\<close>

definition valid_time :: "int \<Rightarrow> bool" where
  "valid_time t \<longleftrightarrow> \<bar>t\<bar> \<le> 8640000000000000"

text \<open>The date exists, the time is one of a day.\<close>

definition time_value :: "int \<Rightarrow> int \<Rightarrow> int \<Rightarrow> int \<Rightarrow> int \<Rightarrow> int \<Rightarrow> int \<Rightarrow> int option" where
  "time_value y m d hour minute second ms =
     (let t = days_of_civil y m d * 86400000 + (hour * 3600000 + minute * 60000 + second * 1000 + ms) in
      if civil_of_days (days_of_civil y m d) = (y, m, d) \<and> hour \<le> 23 \<and> minute \<le> 59 \<and> second \<le> 59 \<and> valid_time t
      then Some t else None)"

text \<open>\<open>-MM-DDTHH:mm:ss\<close>, one predicate per position.\<close>

definition iso_pattern :: "(nat \<Rightarrow> bool) list" where
  "iso_pattern = [\<lambda>c. c = 45, json_digit, json_digit, \<lambda>c. c = 45, json_digit, json_digit, \<lambda>c. c = 84,
     json_digit, json_digit, \<lambda>c. c = 58, json_digit, json_digit, \<lambda>c. c = 58, json_digit, json_digit]"

definition field :: "nat \<Rightarrow> utext \<Rightarrow> int" where
  "field n s = int (decimal (take 2 (drop n s)))"

text \<open>\<open>Z\<close>, or \<open>.sssZ\<close>.\<close>

definition iso_fraction :: "utext \<Rightarrow> int option" where
  "iso_fraction s =
     (if s = [90] then Some 0
      else if length s = 5 \<and> hd s = 46 \<and> last s = 90 \<and> list_all json_digit (take 3 (tl s))
      then Some (int (decimal (take 3 (tl s)))) else None)"

definition iso_rest :: "int \<Rightarrow> utext \<Rightarrow> int option" where
  "iso_rest y s =
     (if list_all2 (\<lambda>p c. p c) iso_pattern (take 15 s)
      then Option.bind (iso_fraction (drop 15 s))
             (time_value y (field 1 s) (field 4 s) (field 7 s) (field 10 s) (field 13 s))
      else None)"

text \<open>A year of four digits, or of six with a sign; the year zero has no minus sign.\<close>

definition iso_date :: "utext \<Rightarrow> int option" where
  "iso_date s =
     (if s \<noteq> [] \<and> (hd s = 43 \<or> hd s = 45)
      then (let y = int (decimal (take 6 (tl s))) in
            if length (take 6 (tl s)) = 6 \<and> list_all json_digit (take 6 (tl s)) \<and> \<not> (hd s = 45 \<and> y = 0)
            then iso_rest (if hd s = 45 then - y else y) (drop 7 s) else None)
      else if length (take 4 s) = 4 \<and> list_all json_digit (take 4 s)
      then iso_rest (int (decimal (take 4 s))) (drop 4 s) else None)"

definition Date_parse :: "(utext \<Rightarrow> int option) \<Rightarrow> utext \<Rightarrow> int option" where
  "Date_parse other_date s = (case iso_date s of Some t \<Rightarrow> Some t | None \<Rightarrow> other_date s)"

section \<open>A date is read back\<close>

lemma two_digits:
  assumes "0 \<le> i" "i < 100"
  obtains a b where "padded 2 i = [a, b]" "json_digit (of_char a)" "json_digit (of_char b)"
    "int (decimal [of_char a, of_char b]) = i"
proof -
  note p = padded_read [of i 2]
  have "length (padded 2 i) = Suc (Suc 0)" using p(1) assms by simp
  then obtain a b where "padded 2 i = [a, b]" by (auto simp: length_Suc_conv)
  with p(2,3) assms show ?thesis by (intro that [of a b]) simp_all
qed

lemma three_digits:
  assumes "0 \<le> i" "i < 1000"
  obtains a b c where "padded 3 i = [a, b, c]" "json_digit (of_char a)" "json_digit (of_char b)"
    "json_digit (of_char c)" "int (decimal [of_char a, of_char b, of_char c]) = i"
proof -
  note p = padded_read [of i 3]
  have "length (padded 3 i) = Suc (Suc (Suc 0))" using p(1) assms by simp
  then obtain a b c where "padded 3 i = [a, b, c]" by (auto simp: length_Suc_conv)
  with p(2,3) assms show ?thesis by (intro that [of a b c]) simp_all
qed

definition iso_tail :: "int \<Rightarrow> int \<Rightarrow> int \<Rightarrow> int \<Rightarrow> int \<Rightarrow> int \<Rightarrow> string" where
  "iso_tail m d hour minute second ms =
     ''-'' @ padded 2 m @ ''-'' @ padded 2 d @ ''T'' @ padded 2 hour @ '':'' @ padded 2 minute
     @ '':'' @ padded 2 second @ ''.'' @ padded 3 ms @ ''Z''"

lemma iso_tail_read:
  assumes "0 \<le> m" "m < 100" "0 \<le> d" "d < 100" "0 \<le> h" "h < 100" "0 \<le> i" "i < 100" "0 \<le> s" "s < 100"
    "0 \<le> ms" "ms < 1000"
  shows "iso_rest y (units (iso_tail m d h i s ms)) = time_value y m d h i s ms"
proof -
  obtain m1 m2 where m: "padded 2 m = [m1, m2]" "json_digit (of_char m1)" "json_digit (of_char m2)"
    "int (decimal [of_char m1, of_char m2]) = m" using assms(1,2) by (rule two_digits)
  obtain d1 d2 where d: "padded 2 d = [d1, d2]" "json_digit (of_char d1)" "json_digit (of_char d2)"
    "int (decimal [of_char d1, of_char d2]) = d" using assms(3,4) by (rule two_digits)
  obtain h1 h2 where h: "padded 2 h = [h1, h2]" "json_digit (of_char h1)" "json_digit (of_char h2)"
    "int (decimal [of_char h1, of_char h2]) = h" using assms(5,6) by (rule two_digits)
  obtain i1 i2 where i: "padded 2 i = [i1, i2]" "json_digit (of_char i1)" "json_digit (of_char i2)"
    "int (decimal [of_char i1, of_char i2]) = i" using assms(7,8) by (rule two_digits)
  obtain s1 s2 where s: "padded 2 s = [s1, s2]" "json_digit (of_char s1)" "json_digit (of_char s2)"
    "int (decimal [of_char s1, of_char s2]) = s" using assms(9,10) by (rule two_digits)
  obtain k1 k2 k3 where k: "padded 3 ms = [k1, k2, k3]" "json_digit (of_char k1)" "json_digit (of_char k2)"
    "json_digit (of_char k3)" "int (decimal [of_char k1, of_char k2, of_char k3]) = ms"
    using assms(11,12) by (rule three_digits)
  have "units (iso_tail m d h i s ms) = [45, of_char m1, of_char m2, 45, of_char d1, of_char d2, 84, of_char h1,
      of_char h2, 58, of_char i1, of_char i2, 58, of_char s1, of_char s2, 46, of_char k1, of_char k2, of_char k3, 90]"
    by (simp add: iso_tail_def m(1) d(1) h(1) i(1) s(1) k(1))
  then show ?thesis
    using m d h i s k by (simp add: iso_rest_def iso_pattern_def field_def iso_fraction_def)
qed

lemma iso_year_read:
  assumes "\<bar>y\<bar> < 1000000"
  shows "iso_date (units (iso_year y) @ r) = iso_rest y r"
proof (cases "0 \<le> y \<and> y \<le> 9999")
  case True
  note p = padded_read [of y 4]
  obtain c s where s: "padded 4 y = c # s" using p(1) True by (cases "padded 4 y") auto
  then have "of_char c \<noteq> (43 :: nat)" "of_char c \<noteq> (45 :: nat)" using p(2) True by (auto simp: json_digit_def)
  with True p s show ?thesis by (simp add: iso_date_def iso_year_def)
next
  case False
  note p = padded_read [of "\<bar>y\<bar>" 6]
  have l: "length (padded 6 \<bar>y\<bar>) = 6" using p(1) assms by simp
  consider "y < 0" | "9999 < y" using False by linarith
  then show ?thesis
  proof cases
    case 1
    then show ?thesis using p(2,3) l assms by (simp add: iso_date_def iso_year_def Let_def)
  next
    case 2
    then show ?thesis using p(2,3) l assms by (simp add: iso_date_def iso_year_def Let_def)
  qed
qed

lemma time_of_day:
  fixes n :: int
  shows "n div 3600000 * 3600000 + n div 60000 mod 60 * 60000 + n div 1000 mod 60 * 1000 + n mod 1000 = n"
proof -
  have "n div 60000 = n div 1000 div 60" "n div 3600000 = n div 60000 div 60"
    using zdiv_zmult2_eq [of 60 n 1000] zdiv_zmult2_eq [of 60 n 60000] by simp_all
  moreover note div_mult_mod_eq [of n 1000] div_mult_mod_eq [of "n div 1000" 60] div_mult_mod_eq [of "n div 60000" 60]
  ultimately show ?thesis by linarith
qed

lemma date_round_trip:
  assumes "valid_time t"
  shows "iso_date (units (toISOString t)) = Some t"
proof -
  define z where "z = t div 86400000"
  define n where "n = t mod 86400000"
  define h where "h = n div 3600000"
  define i where "i = n div 60000 mod 60"
  define s where "s = n div 1000 mod 60"
  have t: "z * 86400000 + n = t" by (simp add: z_def n_def)
  obtain y m d where c: "civil_of_days z = (y, m, d)" "1 \<le> m" "m \<le> 12" "1 \<le> d" "d \<le> 31" "days_of_civil y m d = z"
    "\<bar>z\<bar> \<le> 100000000 \<longrightarrow> \<bar>y\<bar> \<le> 300000"
    by (rule civil_days [of z])
  have "\<bar>z\<bar> \<le> 100000000" using assms unfolding valid_time_def z_def by linarith
  with c(7) have y: "\<bar>y\<bar> < 1000000" by simp
  have n: "0 \<le> n" "n < 86400000" by (simp_all add: n_def)
  then have b: "0 \<le> h" "h \<le> 23" unfolding h_def by linarith+
  have b': "0 \<le> i" "i \<le> 59" "0 \<le> s" "s \<le> 59" "0 \<le> n mod 1000" "n mod 1000 < 1000"
    by (simp_all add: i_def s_def)
  have day: "h * 3600000 + i * 60000 + s * 1000 + n mod 1000 = n"
    unfolding h_def i_def s_def by (rule time_of_day)
  have "toISOString t = iso_year y @ iso_tail m d h i s (n mod 1000)"
    by (simp add: toISOString_def Let_def c(1) iso_tail_def z_def [symmetric] n_def [symmetric]
        h_def [symmetric] i_def [symmetric] s_def [symmetric])
  then have "iso_date (units (toISOString t)) = time_value y m d h i s (n mod 1000)"
    using iso_year_read [OF y] iso_tail_read [of m d h i s "n mod 1000" y] b b' c(2-5) by simp
  also have "\<dots> = Some t" using b b' assms c(1) by (simp add: time_value_def c(6) day t)
  finally show ?thesis .
qed

end
