(* ===== verification/JsBuffer.thy ===== *)
theory JsBuffer
  imports JsDate
begin

text \<open>
  \<open>Buffer.from(text)\<close> and \<open>buffer.toString('utf8')\<close>, \<open>toString('base64url')\<close> and
  \<open>Buffer.from(text, 'base64url')\<close>. Bytes are numbers below 256, texts lists of UTF-16 code units.
\<close>

section \<open>Codecs\<close>

text \<open>What is written is read back: then nothing is written twice.\<close>

locale codec =
  fixes enc :: "'a \<Rightarrow> 'b" and dec :: "'b \<Rightarrow> 'a option" and valid :: "'a \<Rightarrow> bool"
  assumes round_trip: "valid a \<Longrightarrow> dec (enc a) = Some a"
begin

lemma enc_inject: "valid a \<Longrightarrow> valid b \<Longrightarrow> enc a = enc b \<longleftrightarrow> a = b"
  by (metis option.inject round_trip)

end

text \<open>One codec after another.\<close>

locale codec_chain = first: codec enc1 dec1 valid1 + second: codec enc2 dec2 valid2
  for enc1 :: "'a \<Rightarrow> 'b" and dec1 valid1 and enc2 :: "'b \<Rightarrow> 'c" and dec2 valid2 +
  assumes valid_enc: "valid1 a \<Longrightarrow> valid2 (enc1 a)"
begin

lemma chain: "valid1 a \<Longrightarrow> Option.bind (dec2 (enc2 (enc1 a))) dec1 = Some a"
  by (simp add: second.round_trip [OF valid_enc] first.round_trip)

end

sublocale codec_chain \<subseteq> codec "\<lambda>a. enc2 (enc1 a)" "\<lambda>c. Option.bind (dec2 c) dec1" valid1
  by unfold_locales (rule chain)

interpretation iso: codec "\<lambda>t. units (toISOString t)" iso_date valid_time
  by unfold_locales (rule date_round_trip)

section \<open>UTF-8\<close>

definition high_surrogate :: "nat \<Rightarrow> bool" where
  "high_surrogate c \<longleftrightarrow> 55296 \<le> c \<and> c \<le> 56319"

definition low_surrogate :: "nat \<Rightarrow> bool" where
  "low_surrogate c \<longleftrightarrow> 56320 \<le> c \<and> c \<le> 57343"

text \<open>The code points of a text; a surrogate without its partner becomes U+FFFD.\<close>

fun code_points :: "utext \<Rightarrow> nat list" where
  "code_points [] = []"
| "code_points [c] = [if high_surrogate c \<or> low_surrogate c then 65533 else c]"
| "code_points (c # d # s) =
     (if high_surrogate c \<and> low_surrogate d
      then (65536 + (c - 55296) * 1024 + (d - 56320)) # code_points s
      else (if high_surrogate c \<or> low_surrogate c then 65533 else c) # code_points (d # s))"

definition utf8_char :: "nat \<Rightarrow> nat list" where
  "utf8_char p =
     (if p < 128 then [p]
      else if p < 2048 then [192 + p div 64, 128 + p mod 64]
      else if p < 65536 then [224 + p div 4096, 128 + p div 64 mod 64, 128 + p mod 64]
      else [240 + p div 262144, 128 + p div 4096 mod 64, 128 + p div 64 mod 64, 128 + p mod 64])"

definition utf8_encode :: "utext \<Rightarrow> nat list" where
  "utf8_encode s = concat (map utf8_char (code_points s))"

definition utf16_char :: "nat \<Rightarrow> utext" where
  "utf16_char p = (if p < 65536 then [p] else [55296 + (p - 65536) div 1024, 56320 + (p - 65536) mod 1024])"

text \<open>
  The state of the decoder: the code point so far, how many bytes it still needs, and the bounds
  of the next one. A byte out of the bounds ends the sequence with U+FFFD and is read again.
\<close>

definition utf8_start :: "nat \<Rightarrow> (nat \<times> nat \<times> nat \<times> nat) option" where
  "utf8_start b =
     (if 194 \<le> b \<and> b \<le> 223 then Some (b - 192, 1, 128, 191)
      else if 224 \<le> b \<and> b \<le> 239
      then Some (b - 224, 2, if b = 224 then 160 else 128, if b = 237 then 159 else 191)
      else if 240 \<le> b \<and> b \<le> 244
      then Some (b - 240, 3, if b = 240 then 144 else 128, if b = 244 then 143 else 191)
      else None)"

fun utf8_from :: "(nat \<times> nat \<times> nat \<times> nat) option \<Rightarrow> nat list \<Rightarrow> utext" where
  "utf8_from None [] = []"
| "utf8_from (Some _) [] = [65533]"
| "utf8_from None (b # bs) =
     (if b < 128 then b # utf8_from None bs
      else (case utf8_start b of None \<Rightarrow> 65533 # utf8_from None bs | Some st \<Rightarrow> utf8_from (Some st) bs))"
| "utf8_from (Some (p, n, lo, hi)) (b # bs) =
     (if lo \<le> b \<and> b \<le> hi
      then (if n = 1 then utf16_char (p * 64 + (b - 128)) @ utf8_from None bs
            else utf8_from (Some (p * 64 + (b - 128), n - 1, 128, 191)) bs)
      else 65533 # (if b < 128 then b # utf8_from None bs
                    else (case utf8_start b of None \<Rightarrow> 65533 # utf8_from None bs | Some st \<Rightarrow> utf8_from (Some st) bs)))"

definition utf8_decode :: "nat list \<Rightarrow> utext" where
  "utf8_decode = utf8_from None"

section \<open>Base64\<close>

definition base64url_char :: "nat \<Rightarrow> nat" where
  "base64url_char n = (if n < 26 then 65 + n else if n < 52 then 71 + n else if n < 62 then n - 4
     else if n = 62 then 45 else 95)"

text \<open>Both alphabets are read.\<close>

definition base64_value :: "nat \<Rightarrow> nat option" where
  "base64_value c =
     (if 65 \<le> c \<and> c \<le> 90 then Some (c - 65)
      else if 97 \<le> c \<and> c \<le> 122 then Some (c - 71)
      else if 48 \<le> c \<and> c \<le> 57 then Some (c + 4)
      else if c = 45 \<or> c = 43 then Some 62
      else if c = 95 \<or> c = 47 then Some 63 else None)"

fun sextets :: "nat list \<Rightarrow> nat list" where
  "sextets [] = []"
| "sextets [a] = [a div 4, a mod 4 * 16]"
| "sextets [a, b] = [a div 4, a mod 4 * 16 + b div 16, b mod 16 * 4]"
| "sextets (a # b # c # bs) =
     (a div 4) # (a mod 4 * 16 + b div 16) # (b mod 16 * 4 + c div 64) # (c mod 64) # sextets bs"

fun of_sextets :: "nat list \<Rightarrow> nat list" where
  "of_sextets (p # q # r # s # t) =
     (p * 4 + q div 16) # (q mod 16 * 16 + r div 4) # (r mod 4 * 64 + s) # of_sextets t"
| "of_sextets [p, q, r] = [p * 4 + q div 16, q mod 16 * 16 + r div 4]"
| "of_sextets [p, q] = [p * 4 + q div 16]"
| "of_sextets _ = []"

definition base64url_encode :: "nat list \<Rightarrow> utext" where
  "base64url_encode bs = map base64url_char (sextets bs)"

text \<open>Other characters are skipped.\<close>

definition base64url_decode :: "utext \<Rightarrow> nat list" where
  "base64url_decode s = of_sextets (List.map_filter base64_value s)"

section \<open>Round trips\<close>

lemma sextets_bound: "list_all (\<lambda>b. b < 256) bs \<Longrightarrow> list_all (\<lambda>x. x < 64) (sextets bs)"
  by (induction bs rule: sextets.induct) (simp; linarith)+

lemma sextet_parts:
  fixes a b c :: nat
  assumes "a < 256" "b < 256" "c < 256"
  shows "a div 4 * 4 + (a mod 4 * 16 + b div 16) div 16 = a"
    "(a mod 4 * 16 + b div 16) mod 16 * 16 + (b mod 16 * 4 + c div 64) div 4 = b"
    "(b mod 16 * 4 + c div 64) mod 4 * 64 + c mod 64 = c"
proof -
  have "b div 16 < 16" "c div 64 < 4" using assms by linarith+
  then show "a div 4 * 4 + (a mod 4 * 16 + b div 16) div 16 = a"
    "(a mod 4 * 16 + b div 16) mod 16 * 16 + (b mod 16 * 4 + c div 64) div 4 = b"
    "(b mod 16 * 4 + c div 64) mod 4 * 64 + c mod 64 = c"
    by (simp_all add: mult.commute)
qed

lemma of_sextets_sextets: "list_all (\<lambda>b. b < 256) bs \<Longrightarrow> of_sextets (sextets bs) = bs"
proof (induction bs rule: sextets.induct)
  case (2 a)
  then show ?case using sextet_parts [of a 0 0] by simp
next
  case (3 a b)
  then show ?case using sextet_parts [of a b 0] by simp
next
  case (4 a b c bs)
  then show ?case using sextet_parts [of a b c] by simp
qed simp

lemma base64_value_char: "n < 64 \<Longrightarrow> base64_value (base64url_char n) = Some n"
  unfolding base64_value_def base64url_char_def by auto

interpretation base64: codec base64url_encode "\<lambda>s. Some (base64url_decode s)" "list_all (\<lambda>b. b < 256)"
proof unfold_locales
  fix bs :: "nat list"
  assume b: "list_all (\<lambda>b. b < 256) bs"
  have "list_all (\<lambda>x. x < 64) xs \<Longrightarrow> List.map_filter base64_value (map base64url_char xs) = xs" for xs
    by (induction xs) (simp_all add: base64_value_char map_filter_simps)
  with sextets_bound [OF b] of_sextets_sextets [OF b]
  show "Some (base64url_decode (base64url_encode bs)) = Some bs"
    by (simp add: base64url_decode_def base64url_encode_def)
qed

text \<open>A text of ASCII characters is its own encoding.\<close>

definition ascii_text :: "utext \<Rightarrow> bool" where
  "ascii_text = list_all (\<lambda>c. c < 128)"

lemma code_points_ascii: "ascii_text s \<Longrightarrow> code_points s = s"
  by (induction s rule: code_points.induct) (auto simp: ascii_text_def high_surrogate_def low_surrogate_def)

lemma utf8_encode_ascii: "ascii_text s \<Longrightarrow> utf8_encode s = s"
proof -
  have "ascii_text s \<Longrightarrow> concat (map utf8_char s) = s"
    by (induction s) (auto simp: ascii_text_def utf8_char_def)
  then show "ascii_text s \<Longrightarrow> utf8_encode s = s" by (simp add: utf8_encode_def code_points_ascii)
qed

lemma utf8_decode_ascii: "ascii_text s \<Longrightarrow> utf8_decode s = s"
  unfolding utf8_decode_def by (induction s) (auto simp: ascii_text_def)

interpretation ascii: codec utf8_encode "\<lambda>s. Some (utf8_decode s)" ascii_text
  by unfold_locales (simp add: utf8_encode_ascii utf8_decode_ascii)

interpretation buffer: codec_chain utf8_encode "\<lambda>s. Some (utf8_decode s)" ascii_text
    base64url_encode "\<lambda>s. Some (base64url_decode s)" "list_all (\<lambda>b. b < 256)"
  by unfold_locales (auto simp: utf8_encode_ascii ascii_text_def list_all_iff)

end
