(* ===== verification/JobApi.thy ===== *)
theory JobApi
  imports JobPublisher JobService JsBuffer
begin

text \<open>
  The HTTP interface of analysis jobs: its queries
  (\<open>src/src/analysis-job/analysis-job-api.repository.ts\<close>), the mapping to the response
  (\<open>analysis-job-response.mapper.ts\<close>), the service (\<open>analysis-job-api.service.ts\<close>), and the
  pipes, guards and handlers of the controller (\<open>analysis-job.controller.ts\<close>). An
  \<open>HttpException\<close> is known by its class and the \<open>code\<close> of its body.
\<close>

section \<open>Queries\<close>

record api_repository =
  ar_id :: int
  ar_githubRepoId :: string
  ar_fullName :: string

text \<open>A job with the repository and the report that \<open>analysisJobApiInclude\<close> selects.\<close>

record api_record =
  a_job :: job_row
  a_repository :: api_repository
  a_report :: "int option"

definition api_include :: "db \<Rightarrow> job_row \<Rightarrow> api_record option" where
  "api_include d j =
     map_option (\<lambda>r. \<lparr>a_job = j,
        a_repository = \<lparr>ar_id = r_id r, ar_githubRepoId = r_githubRepoId r, ar_fullName = r_fullName r\<rparr>,
        a_report = map_option p_id (find (\<lambda>p. p_jobId p = Some (j_id j)) (reports d))\<rparr>)
       (find_repository (j_repositoryId j) d)"

text \<open>The client fails when a required relation has no row.\<close>

definition with_include :: "(db \<Rightarrow> job_row option) \<Rightarrow> api_record option stmt" where
  "with_include f now d =
     (case f d of
        None \<Rightarrow> Inr (None, d)
      | Some j \<Rightarrow> (case api_include d j of
            None \<Rightarrow> Inl (PrismaError PrismaClientUnknownRequestError)
          | Some a \<Rightarrow> Inr (Some a, d)))"

definition ANALYSIS_JOB_CREATION_RATE_LIMIT :: int where
  "ANALYSIS_JOB_CREATION_RATE_LIMIT = 5"
definition ANALYSIS_JOB_CREATION_RATE_LIMIT_WINDOW_MS :: int where
  "ANALYSIS_JOB_CREATION_RATE_LIMIT_WINDOW_MS = 60000"

lemmas rate_limit_constants = ANALYSIS_JOB_CREATION_RATE_LIMIT_def ANALYSIS_JOB_CREATION_RATE_LIMIT_WINDOW_MS_def

definition recent_job :: "int \<Rightarrow> int \<Rightarrow> job_row \<Rightarrow> bool" where
  "recent_job userId now j \<longleftrightarrow>
     j_userId j = userId \<and> j_createdAt j > now - ANALYSIS_JOB_CREATION_RATE_LIMIT_WINDOW_MS \<and>
     \<not> js_startsWith (j_idempotencyKey j) ''legacy-report:'' \<and> \<not> js_startsWith (j_idempotencyKey j) ''sync:''"

definition recent_jobs :: "int \<Rightarrow> int \<Rightarrow> db \<Rightarrow> job_row list" where
  "recent_jobs userId now d =
     take (nat ANALYSIS_JOB_CREATION_RATE_LIMIT) (sort_key j_createdAt (filter (recent_job userId now) (jobs d)))"

text \<open>
  \<open>MIN\<close> of no rows is null, \<open>GREATEST\<close> ignores nulls: without recent jobs the answer is 1, and
  the default of \<open>COALESCE\<close> is never taken.
\<close>

definition greatest :: "int option list \<Rightarrow> int option" where
  "greatest xs = (let ys = List.map_filter id xs in if ys = [] then None else Some (Max (set ys)))"

definition ceil_seconds :: "int \<Rightarrow> int" where
  "ceil_seconds ms = - ((- ms) div 1000)"

definition oldest :: "job_row list \<Rightarrow> int option" where
  "oldest js = (if js = [] then None else Some (Min (set (map j_createdAt js))))"

definition rate_status :: "int \<Rightarrow> int \<Rightarrow> db \<Rightarrow> rate_limit_status" where
  "rate_status userId now d =
     (let recent = recent_jobs userId now d;
          hits = int (length recent);
          wait = greatest [Some 1, map_option (\<lambda>t.
              ceil_seconds (t + ANALYSIS_JOB_CREATION_RATE_LIMIT_WINDOW_MS - now)) (oldest recent)]
      in \<lparr>totalHits = hits, remaining = max 0 (ANALYSIS_JOB_CREATION_RATE_LIMIT - hits),
          retryAfterSeconds = option_or wait 60, isBlocked = (hits \<ge> ANALYSIS_JOB_CREATION_RATE_LIMIT)\<rparr>)"

text \<open>\<open>CURRENT_TIMESTAMP\<close> is the time the environment gives for the round trip.\<close>

definition getCreationRateLimitStatus :: "env \<Rightarrow> int \<Rightarrow> rate_limit_status io" where
  "getCreationRateLimitStatus env userId = db_call env (\<lambda>now d. Inr (rate_status userId now d, d))"

definition findByIdempotencyKey :: "env \<Rightarrow> int \<Rightarrow> string \<Rightarrow> api_record option io" where
  "findByIdempotencyKey env userId key =
     db_call env (with_include (\<lambda>d. find (\<lambda>j. j_userId j = userId \<and> j_idempotencyKey j = key) (jobs d)))"

definition findOwnedById :: "env \<Rightarrow> int \<Rightarrow> string \<Rightarrow> api_record option io" where
  "findOwnedById env userId jobId =
     db_call env (with_include (\<lambda>d. find (\<lambda>j. j_id j = jobId \<and> j_userId j = userId) (jobs d)))"

record owned_repository =
  or_id :: int
  or_lastSyncTime :: "int option"
  or_availableTokens :: int

definition owned_repository :: "int \<Rightarrow> string \<Rightarrow> db \<Rightarrow> owned_repository option" where
  "owned_repository userId githubRepoId d =
     Option.bind (find (\<lambda>r. r_githubRepoId r = githubRepoId \<and> r_ownerId r = userId) (repositories d)) (\<lambda>r.
     map_option (\<lambda>u. \<lparr>or_id = r_id r, or_lastSyncTime = r_lastSyncTime r,
         or_availableTokens = u_availableTokens u\<rparr>) (find_user (r_ownerId r) d))"

definition findOwnedRepositoryByGithubId :: "env \<Rightarrow> int \<Rightarrow> string \<Rightarrow> owned_repository option io" where
  "findOwnedRepositoryByGithubId env userId githubRepoId =
     db_call env (query (owned_repository userId githubRepoId))"

definition api_create_stmt :: "string \<Rightarrow> create_job_record_input \<Rightarrow> api_record stmt" where
  "api_create_stmt i c now d =
     (case create_job_stmt i c now d of
        Inl e \<Rightarrow> Inl e
      | Inr (j, d') \<Rightarrow> (case api_include d' j of
            None \<Rightarrow> Inl (PrismaError PrismaClientUnknownRequestError)
          | Some a \<Rightarrow> Inr (a, d')))"

definition api_create_job :: "env \<Rightarrow> create_job_record_input \<Rightarrow> api_record io" where
  "api_create_job env c = bind (uuid_io env) (\<lambda>i. db_call env (api_create_stmt i c))"

record job_cursor =
  cu_createdAt :: int
  cu_id :: string

record list_input =
  li_userId :: int
  li_repositoryId :: "int option"
  li_status :: "job_status option"
  li_limit :: int
  li_cursor :: "job_cursor option"

definition list_where :: "list_input \<Rightarrow> job_row \<Rightarrow> bool" where
  "list_where i j \<longleftrightarrow>
     j_userId j = li_userId i \<and> option_all (\<lambda>r. j_repositoryId j = r) (li_repositoryId i) \<and>
     option_all (\<lambda>s. j_status j = s) (li_status i) \<and>
     option_all (\<lambda>c. j_createdAt j < cu_createdAt c \<or> (j_createdAt j = cu_createdAt c \<and> j_id j < cu_id c))
       (li_cursor i)"

text \<open>Newest first; identifiers are distinct, so that no two jobs are equal in the order.\<close>

definition listed_jobs :: "list_input \<Rightarrow> db \<Rightarrow> job_row list" where
  "listed_jobs i d = take (nat (li_limit i + 1)) (rev (sort_key due_order (filter (list_where i) (jobs d))))"

definition listOwned :: "env \<Rightarrow> list_input \<Rightarrow> api_record list io" where
  "listOwned env i =
     db_call env (\<lambda>now d. case those (map (api_include d) (listed_jobs i d)) of
         None \<Rightarrow> Inl (PrismaError PrismaClientUnknownRequestError) | Some rs \<Rightarrow> Inr (rs, d))"

section \<open>The response\<close>

definition PUBLIC_ERROR_MESSAGES :: "(string \<times> utext) list" where
  "PUBLIC_ERROR_MESSAGES = [
    (''ANALYSIS_FAILED'',
     [48516, 49437, 51012, 32, 50756, 47308, 54616, 51648, 32, 47803, 54664, 49845, 45768,
     45796, 46]),
    (''INSUFFICIENT_TOKENS'',
     [48516, 49437, 50640, 32, 54596, 50836, 54620, 32, 53664, 53360, 51060, 32, 48512,
     51313, 54633, 45768, 45796, 46]),
    (''INPUT_LIMIT_EXCEEDED'',
     [76, 76, 77, 32, 51077, 47141, 32, 49345, 54620, 40, 56, 48, 44, 48, 48, 48, 32, 116,
     111, 107, 101, 110, 115, 41, 51012, 32, 52488, 44284, 54664, 49845, 45768, 45796,
     46]),
    (''MAX_ATTEMPTS_EXCEEDED'',
     [52572, 45824, 32, 51116, 49884, 46020, 32, 54943, 49688, 47484, 32, 52488, 44284,
     54664, 49845, 45768, 45796, 46]),
    (''NO_ANALYZABLE_DATA'',
     [48516, 49437, 54624, 32, 49688, 32, 51080, 45716, 32, 51200, 51109, 49548, 32, 54876,
     46041, 51060, 32, 50630, 49845, 45768, 45796, 46]),
    (''PUBLISH_FAILED'',
     [48516, 49437, 32, 51089, 50629, 51012, 32, 52376, 47532, 32, 45824, 44592, 50676,
     50640, 32, 46321, 47197, 54616, 51648, 32, 47803, 54664, 49845, 45768, 45796, 46]),
    (''PROVIDER_RECONCILIATION_REQUIRED'',
     [48516, 49437, 32, 49324, 50857, 47049, 51012, 32, 54869, 51064, 32, 51473, 51077,
     45768, 45796, 46, 32, 51104, 49884, 32, 54980, 32, 45796, 49884, 32, 54869, 51064,
     54644, 32, 51452, 49464, 50836, 46]),
    (''REPOSITORY_UNAVAILABLE'',
     [51200, 51109, 49548, 50640, 32, 51217, 44540, 54624, 32, 49688, 32, 50630, 49845,
     45768, 45796, 46]),
    (''TOKEN_BUDGET_EXCEEDED'',
     [48516, 49437, 32, 53664, 53360, 32, 54620, 46020, 47484, 32, 52488, 44284, 54664,
     49845, 45768, 45796, 46])]"

definition changed_pull_requests_message :: utext where
  "changed_pull_requests_message =
     [48320, 44221, 32, 80, 82, 32, 49345, 54620, 40, 49, 48, 48, 44060, 41, 51012, 32,
     52488, 44284, 54664, 49845, 45768, 45796, 46]"

definition review_nodes_message :: utext where
  "review_nodes_message =
     [114, 101, 118, 105, 101, 119, 47, 99, 111, 109, 109, 101, 110, 116, 32, 110, 111,
     100, 101, 32, 49345, 54620, 40, 50, 44, 48, 48, 48, 44060, 41, 51012, 32, 52488,
     44284, 54664, 49845, 45768, 45796, 46]"

definition job_failed_message :: utext where
  "job_failed_message =
     [48516, 49437, 32, 51089, 50629, 51012, 32, 50756, 47308, 54616, 51648, 32, 47803,
     54664, 49845, 45768, 45796, 46]"

text \<open>An error code has only capital letters, digits and underscores, so it names no inherited property.\<close>

definition publicErrorMessage :: "string \<Rightarrow> string option \<Rightarrow> utext option" where
  "publicErrorMessage code storedMessage =
     (if code \<noteq> ''INPUT_LIMIT_EXCEEDED'' then map_of PUBLIC_ERROR_MESSAGES code
      else if (case storedMessage of None \<Rightarrow> False | Some m \<Rightarrow> js_includes m ''changed pull requests'')
      then Some changed_pull_requests_message
      else if (case storedMessage of None \<Rightarrow> False | Some m \<Rightarrow> js_includes m ''review and comment nodes'')
      then Some review_nodes_message
      else map_of PUBLIC_ERROR_MESSAGES ''INPUT_LIMIT_EXCEEDED'')"

record response_error =
  re_code :: string
  re_message :: utext
  re_retryable :: bool

record job_response =
  jr_jobId :: string
  jr_status :: job_status
  jr_stage :: "job_stage option"
  jr_progress :: int
  jr_attempt :: int
  jr_repository :: api_repository
  jr_estimated :: "int option"
  jr_reserved :: "int option"
  jr_consumed :: "int option"
  jr_result :: "(int \<times> string) option"
  jr_error :: "response_error option"
  jr_createdAt :: string
  jr_startedAt :: "string option"
  jr_completedAt :: "string option"
  jr_updatedAt :: string
  jr_self :: string

definition response_error_of :: "job_row \<Rightarrow> response_error option" where
  "response_error_of j =
     (case j_lastErrorCode j of
        None \<Rightarrow> None
      | Some code \<Rightarrow>
          if code = [] \<or> j_status j \<noteq> FAILED then None
          else (case publicErrorMessage code (j_lastErrorMessage j) of
              Some m \<Rightarrow> Some \<lparr>re_code = code, re_message = m, re_retryable = (j_errorRetryable j = Some True)\<rparr>
            | None \<Rightarrow> Some \<lparr>re_code = ''ANALYSIS_FAILED'', re_message = job_failed_message,
                re_retryable = (j_errorRetryable j = Some True)\<rparr>))"

definition toDto :: "api_record \<Rightarrow> job_response" where
  "toDto a =
     (let j = a_job a in
      \<lparr>jr_jobId = j_id j, jr_status = j_status j, jr_stage = j_stage j, jr_progress = j_progress j,
       jr_attempt = j_attemptCount j, jr_repository = a_repository a,
       jr_estimated = j_estimatedTokens j, jr_reserved = j_reservedTokens j, jr_consumed = j_totalTokens j,
       jr_result = map_option (\<lambda>i. (i, ''/analysis/reports/'' @ js_string_of_int i)) (a_report a),
       jr_error = response_error_of j, jr_createdAt = toISOString (j_createdAt j),
       jr_startedAt = map_option toISOString (j_startedAt j),
       jr_completedAt = map_option toISOString (j_completedAt j),
       jr_updatedAt = toISOString (j_updatedAt j), jr_self = ''/analysis/jobs/'' @ j_id j\<rparr>)"

section \<open>Cursors\<close>

definition hex_lower_or_dash :: "(nat \<Rightarrow> bool) list" where
  "hex_lower_or_dash =
     replicate 8 hex_lower @ [\<lambda>c. c = 45] @ replicate 4 hex_lower @ [\<lambda>c. c = 45] @ replicate 4 hex_lower
     @ [\<lambda>c. c = 45] @ replicate 4 hex_lower @ [\<lambda>c. c = 45] @ replicate 12 hex_lower"

text \<open>\<open>/^[0-9a-f]{8}-[0-9a-f]{4}-[0-9a-f]{4}-[0-9a-f]{4}-[0-9a-f]{12}$/i\<close>\<close>

definition any_uuid :: "utext \<Rightarrow> bool" where
  "any_uuid s \<longleftrightarrow> list_all2 (\<lambda>p c. p c) hex_lower_or_dash (map ascii_fold s)"

definition cursor_text :: "job_cursor \<Rightarrow> string" where
  "cursor_text c =
     json_object [(''createdAt'', json_string (toISOString (cu_createdAt c))), (''id'', json_string (cu_id c))]"

definition encodeCursor :: "job_cursor \<Rightarrow> utext" where
  "encodeCursor c = base64url_encode (utf8_encode (units (cursor_text c)))"

definition cursor_payload :: "json \<Rightarrow> (utext \<times> utext) option" where
  "cursor_payload v =
     (case v of
        JObj kvs \<Rightarrow>
          if card (own_keys kvs) = 2
          then (case (get_property (units ''createdAt'') kvs, get_property (units ''id'') kvs) of
                 (Some (JStr t), Some (JStr i)) \<Rightarrow> if any_uuid i then Some (t, i) else None
               | _ \<Rightarrow> None)
          else None
      | _ \<Rightarrow> None)"

definition invalid_cursor :: err where
  "invalid_cursor = HttpError (OtherHttpException 400) ''INVALID_REQUEST''"

definition decode_cursor_text :: "(utext \<Rightarrow> int option) \<Rightarrow> utext \<Rightarrow> job_cursor option" where
  "decode_cursor_text other_date text =
     Option.bind (Option.bind (JSON_parse text) cursor_payload) (\<lambda>(t, i).
     map_option (\<lambda>d. \<lparr>cu_createdAt = d, cu_id = text_of_units i\<rparr>) (Date_parse other_date t))"

definition decodeCursor :: "(utext \<Rightarrow> int option) \<Rightarrow> utext \<Rightarrow> err + job_cursor" where
  "decodeCursor other_date s =
     (case decode_cursor_text other_date (utf8_decode (base64url_decode s)) of
        None \<Rightarrow> Inl invalid_cursor | Some c \<Rightarrow> Inr c)"

section \<open>Accepting jobs\<close>

datatype job_request = CREATE_REQUEST string | RETRY_REQUEST string

definition api_request_hash :: "(string \<Rightarrow> string) \<Rightarrow> int \<Rightarrow> job_request \<Rightarrow> string" where
  "api_request_hash sha256 userId request =
     sha256 (json_object
       [(''userId'', js_string_of_int userId),
        (''request'', case request of
           CREATE_REQUEST githubRepoId \<Rightarrow>
             json_object [(''type'', json_string ''CREATE''), (''githubRepoId'', json_string githubRepoId)]
         | RETRY_REQUEST sourceJobId \<Rightarrow>
             json_object [(''type'', json_string ''RETRY''), (''sourceJobId'', json_string sourceJobId)])])"

record accepted_job =
  ac_record :: api_record
  ac_rateLimit :: rate_limit_status

definition resolveExisting :: "api_record \<Rightarrow> string \<Rightarrow> err + api_record" where
  "resolveExisting existing requestHash =
     (if j_requestHash (a_job existing) \<noteq> requestHash
      then Inl (HttpError ConflictException ''IDEMPOTENCY_KEY_REUSED'') else Inr existing)"

definition replay :: "env \<Rightarrow> int \<Rightarrow> api_record \<Rightarrow> string \<Rightarrow> accepted_job io" where
  "replay env userId existing requestHash =
     bind (of_result (resolveExisting existing requestHash)) (\<lambda>r.
     bind (getCreationRateLimitStatus env userId) (\<lambda>s. ret \<lparr>ac_record = r, ac_rateLimit = s\<rparr>))"

record accept_input =
  ai_userId :: int
  ai_idempotencyKey :: string
  ai_request :: job_request
  ai_retrySource :: "api_record option"

definition requested_repository :: "accept_input \<Rightarrow> string option" where
  "requested_repository i =
     (case ai_request i of
        CREATE_REQUEST githubRepoId \<Rightarrow> Some githubRepoId
      | RETRY_REQUEST _ \<Rightarrow> map_option (\<lambda>a. ar_githubRepoId (a_repository a)) (ai_retrySource i))"

definition job_not_found :: err where
  "job_not_found = HttpError NotFoundException ''JOB_NOT_FOUND''"

text \<open>The collection window: the source cursor and, for a retry, the cutoff of the source job.\<close>

definition collection_window :: "accept_input \<Rightarrow> owned_repository \<Rightarrow> err + (int option \<times> int option)" where
  "collection_window i r =
     (case ai_request i of
        RETRY_REQUEST _ \<Rightarrow> (case ai_retrySource i of
            None \<Rightarrow> Inl job_not_found
          | Some a \<Rightarrow> Inr (j_sourceCursor (a_job a), Some (j_collectionCutoff (a_job a))))
      | CREATE_REQUEST _ \<Rightarrow> Inr (or_lastSyncTime r, None))"

definition api_create_input :: "accept_input \<Rightarrow> string \<Rightarrow> owned_repository \<Rightarrow> int option \<times> int option \<Rightarrow> create_job_record_input" where
  "api_create_input i requestHash r window =
     \<lparr>ci_userId = ai_userId i, ci_repositoryId = or_id r, ci_idempotencyKey = ai_idempotencyKey i,
      ci_requestHash = requestHash, ci_modelVersion = modelVersion CURRENT_ANALYSIS_EXECUTION_VERSION,
      ci_promptVersion = promptVersion CURRENT_ANALYSIS_EXECUTION_VERSION,
      ci_sourceCursor = fst window, ci_collectionCutoff = snd window,
      ci_status = QUEUED, ci_stage = WAITING, ci_progress = 0\<rparr>"

definition accept_new :: "env \<Rightarrow> accept_input \<Rightarrow> string \<Rightarrow> accepted_job io" where
  "accept_new tx i requestHash =
     (case requested_repository i of
        None \<Rightarrow> throw job_not_found
      | Some githubRepoId \<Rightarrow>
          if githubRepoId = [] then throw job_not_found
          else bind (findOwnedRepositoryByGithubId tx (ai_userId i) githubRepoId) (\<lambda>repository.
            case repository of
              None \<Rightarrow> throw (HttpError NotFoundException ''REPOSITORY_NOT_FOUND'')
            | Some r \<Rightarrow>
                if or_availableTokens r \<le> 0 then throw (HttpError ConflictException ''INSUFFICIENT_TOKENS'')
                else bind (of_result (collection_window i r)) (\<lambda>window.
                  bind (createExclusiveInTransaction tx (or_id r)
                          (\<lambda>d. api_create_job d (api_create_input i requestHash r window))) (\<lambda>record.
                  bind (getCreationRateLimitStatus tx (ai_userId i)) (\<lambda>s.
                  ret \<lparr>ac_record = record, ac_rateLimit = s\<rparr>)))))"

definition accept_body :: "env \<Rightarrow> accept_input \<Rightarrow> string \<Rightarrow> accepted_job io" where
  "accept_body tx i requestHash =
     andThen (acquire_lock tx)
     (bind (findByIdempotencyKey tx (ai_userId i) (ai_idempotencyKey i)) (\<lambda>existing.
      case existing of
        Some e \<Rightarrow> replay tx (ai_userId i) e requestHash
      | None \<Rightarrow>
          andThen (acquire_lock tx)
          (bind (getCreationRateLimitStatus tx (ai_userId i)) (\<lambda>rateLimit.
           if isBlocked rateLimit then throw (AnalysisJobRateLimitExceededException rateLimit)
           else accept_new tx i requestHash))))"

definition acceptance_error :: "err \<Rightarrow> err" where
  "acceptance_error e =
     (if is_http_exception e then e
      else (case e of
          ActiveAnalysisJobExistsError _ \<Rightarrow> HttpError ConflictException ''ACTIVE_JOB_EXISTS''
        | _ \<Rightarrow> HttpError ServiceUnavailableException ''JOB_ACCEPTANCE_UNAVAILABLE''))"

definition isIdempotencyUniqueConflict :: "err \<Rightarrow> bool" where
  "isIdempotencyUniqueConflict e \<longleftrightarrow> err_code e = Some ''P2002''"

definition acceptJob :: "(string \<Rightarrow> string) \<Rightarrow> env \<Rightarrow> accept_input \<Rightarrow> accepted_job io" where
  "acceptJob sha256 env i =
     (let requestHash = api_request_hash sha256 (ai_userId i) (ai_request i) in
      catch (transaction env (\<lambda>tx. accept_body tx i requestHash))
        (\<lambda>e. if isIdempotencyUniqueConflict e
              then bind (findByIdempotencyKey env (ai_userId i) (ai_idempotencyKey i)) (\<lambda>existing.
                   case existing of
                     Some r \<Rightarrow> replay env (ai_userId i) r requestHash
                   | None \<Rightarrow> throw (acceptance_error e))
              else throw (acceptance_error e)))"

section \<open>The service\<close>

record acceptance =
  ap_job :: job_response
  ap_rateLimit :: rate_limit_status

definition publish_accepted ::
  "url_parser \<Rightarrow> analysis_job_queue \<Rightarrow> env \<Rightarrow> accepted_job \<Rightarrow> acceptance io" where
  "publish_accepted parse_url queue env accepted =
     bind (publishAcceptedJob parse_url queue env (publish_select (a_job (ac_record accepted)))) (\<lambda>_.
     ret \<lparr>ap_job = toDto (ac_record accepted), ap_rateLimit = ac_rateLimit accepted\<rparr>)"

definition api_create ::
  "url_parser \<Rightarrow> analysis_job_queue \<Rightarrow> (string \<Rightarrow> string) \<Rightarrow> env \<Rightarrow> int \<Rightarrow> string \<Rightarrow> string \<Rightarrow> acceptance io" where
  "api_create parse_url queue sha256 env userId githubRepoId idempotencyKey =
     bind (acceptJob sha256 env \<lparr>ai_userId = userId, ai_idempotencyKey = idempotencyKey,
             ai_request = CREATE_REQUEST githubRepoId, ai_retrySource = None\<rparr>)
       (publish_accepted parse_url queue env)"

definition api_retry ::
  "url_parser \<Rightarrow> analysis_job_queue \<Rightarrow> (string \<Rightarrow> string) \<Rightarrow> env \<Rightarrow> int \<Rightarrow> string \<Rightarrow> string \<Rightarrow> acceptance io" where
  "api_retry parse_url queue sha256 env userId sourceJobId idempotencyKey =
     bind (findOwnedById env userId sourceJobId) (\<lambda>source.
     case source of
       None \<Rightarrow> throw job_not_found
     | Some a \<Rightarrow>
         if j_status (a_job a) \<noteq> FAILED \<or> j_errorRetryable (a_job a) \<noteq> Some True
         then throw (HttpError ConflictException ''JOB_NOT_RETRYABLE'')
         else bind (acceptJob sha256 env \<lparr>ai_userId = userId, ai_idempotencyKey = idempotencyKey,
                  ai_request = RETRY_REQUEST sourceJobId, ai_retrySource = Some a\<rparr>)
                (publish_accepted parse_url queue env))"

definition api_findOne :: "env \<Rightarrow> int \<Rightarrow> string \<Rightarrow> job_response io" where
  "api_findOne env userId jobId =
     bind (findOwnedById env userId jobId) (\<lambda>job.
     case job of None \<Rightarrow> throw job_not_found | Some a \<Rightarrow> ret (toDto a))"

record list_query =
  lq_repositoryId :: "int option"
  lq_status :: "job_status option"
  lq_limit :: int
  lq_cursor :: "utext option"

record list_response =
  pg_items :: "job_response list"
  pg_nextCursor :: "utext option"

definition query_cursor :: "(utext \<Rightarrow> int option) \<Rightarrow> list_query \<Rightarrow> err + job_cursor option" where
  "query_cursor other_date q =
     (case lq_cursor q of
        None \<Rightarrow> Inr None
      | Some s \<Rightarrow> if s = [] then Inr None else bind_result (decodeCursor other_date s) (\<lambda>c. Inr (Some c)))"

definition list_page :: "int \<Rightarrow> api_record list \<Rightarrow> list_response" where
  "list_page limit js =
     (let hasNextPage = int (length js) > limit;
          page = (if hasNextPage then take (nat limit) js else js)
      in \<lparr>pg_items = map toDto page,
          pg_nextCursor = (if hasNextPage \<and> page \<noteq> []
            then Some (encodeCursor \<lparr>cu_createdAt = j_createdAt (a_job (last page)), cu_id = j_id (a_job (last page))\<rparr>)
            else None)\<rparr>)"

definition api_list :: "(utext \<Rightarrow> int option) \<Rightarrow> env \<Rightarrow> int \<Rightarrow> list_query \<Rightarrow> list_response io" where
  "api_list other_date env userId q =
     bind (of_result (query_cursor other_date q)) (\<lambda>cursor.
     bind (listOwned env \<lparr>li_userId = userId, li_repositoryId = lq_repositoryId q, li_status = lq_status q,
             li_limit = lq_limit q, li_cursor = cursor\<rparr>) (\<lambda>js.
     ret (list_page (lq_limit q) js)))"

section \<open>Accepting keeps the ledger's guarantee\<close>

lemma with_include_guar [guar_intros]: "stmt_guar evolves (with_include f)"
  by (auto simp: stmt_guar_def with_include_def ledger.G_refl split: option.splits)

lemma rate_status_guar [guar_intros]: "rely evolves env \<Longrightarrow> guar evolves (getCreationRateLimitStatus env u)"
  unfolding getCreationRateLimitStatus_def
  by (intro guar_intros) (auto simp: stmt_guar_def ledger.G_refl)

lemma api_create_stmt_Inr:
  "api_create_stmt i c now d = Inr (a, d') \<longleftrightarrow> create_job_stmt i c now d = Inr (a_job a, d') \<and> api_include d' (a_job a) = Some a"
  by (auto simp: api_create_stmt_def api_include_def split: sum.splits option.splits)

lemma api_create_exclusive:
  assumes "ci_status c = QUEUED" "ci_repositoryId c = r"
  shows "exclusive_guar r (\<lambda>tx. api_create_job tx c)"
  using assms
  by (auto simp: exclusive_guar_def api_create_job_def uuid_io_def run_simps api_create_stmt_Inr intro!: create_evolves)

lemma find_queries_guar [guar_intros]:
  assumes "rely evolves env"
  shows "guar evolves (findByIdempotencyKey env u k)" "guar evolves (findOwnedById env u i)"
    "guar evolves (findOwnedRepositoryByGithubId env u g)" "guar evolves (acquire_lock env)"
  unfolding findByIdempotencyKey_def findOwnedById_def findOwnedRepositoryByGithubId_def acquire_lock_def
  by (intro guar_intros assms)+

lemma replay_guar [guar_intros]: "rely evolves env \<Longrightarrow> guar evolves (replay env u e h)"
  unfolding replay_def by (intro guar_intros)

lemma body_guar_quiet:
  assumes "body_guar G body"
  shows "body (quiet env) w = (Inr a, w') \<Longrightarrow> G (wdb w) (wdb w')"
  using assms unfolding body_guar_def by blast

lemma accept_new_run:
  assumes "accept_new (quiet env) i h w = (Inr a, w')"
  shows "\<exists>g r window n w2. requested_repository i = Some g \<and> owned_repository (ai_userId i) g (wdb w) = Some r \<and>
    0 < or_availableTokens r \<and> collection_window i r = Inr window \<and>
    createExclusiveInTransaction (quiet env) (or_id r) (\<lambda>d. api_create_job d (api_create_input i h r window))
      (w\<lparr>tick := n\<rparr>) = (Inr (ac_record a), w2) \<and>
    getCreationRateLimitStatus (quiet env) (ai_userId i) w2 = (Inr (ac_rateLimit a), w') \<and> tick w < n"
  using assms
  by (auto simp: accept_new_def findOwnedRepositoryByGithubId_def run_simps not_le split: option.splits if_splits) blast+

lemma accept_new_body:
  assumes "accept_new (quiet env) i h w = (Inr a, w')"
  shows "evolves (wdb w) (wdb w')"
proof -
  from accept_new_run [OF assms] obtain r window n w2 where
    run: "createExclusiveInTransaction (quiet env) (or_id r)
      (\<lambda>d. api_create_job d (api_create_input i h r window)) (w\<lparr>tick := n\<rparr>) = (Inr (ac_record a), w2)"
    and s: "getCreationRateLimitStatus (quiet env) (ai_userId i) w2 = (Inr (ac_rateLimit a), w')"
    by blast
  have "exclusive_guar (or_id r) (\<lambda>d. api_create_job d (api_create_input i h r window))"
    by (rule api_create_exclusive) (simp_all add: api_create_input_def)
  from body_guar_quiet [OF createExclusiveInTransaction_body [OF this] run] s show ?thesis
    by (auto simp: getCreationRateLimitStatus_def run_simps)
qed

lemma accept_body_guar: "body_guar evolves (\<lambda>tx. accept_body tx i h)"
  unfolding body_guar_def
proof (intro allI impI)
  fix env :: env and w :: world and a and w' :: world
  assume "accept_body (quiet env) i h w = (Inr a, w')"
  then consider e w1 where "replay (quiet env) (ai_userId i) e h w1 = (Inr a, w')" "wdb w1 = wdb w"
    | w1 where "accept_new (quiet env) i h w1 = (Inr a, w')" "wdb w1 = wdb w"
    by (auto simp: accept_body_def acquire_lock_def findByIdempotencyKey_def getCreationRateLimitStatus_def
        with_include_def run_simps split: option.splits if_splits)
  then show "evolves (wdb w) (wdb w')"
  proof cases
    case 1
    then show ?thesis
      by (auto simp: replay_def getCreationRateLimitStatus_def run_simps ledger.G_refl)
  next
    case 2
    then show ?thesis using accept_new_body by metis
  qed
qed

lemma acceptJob_guar [guar_intros]: "rely evolves env \<Longrightarrow> guar evolves (acceptJob sha256 env i)"
  unfolding acceptJob_def Let_def
  by (intro guar_intros accept_body_guar) (auto intro!: guar_intros split: option.splits)

lemma publish_accepted_guar [guar_intros]:
  "rely evolves env \<Longrightarrow> queue_guar queue \<Longrightarrow> guar evolves (publish_accepted parse_url queue env accepted)"
  unfolding publish_accepted_def publishAcceptedJob_def by (intro guar_intros)

lemma api_create_guar:
  "rely evolves env \<Longrightarrow> queue_guar queue \<Longrightarrow> guar evolves (api_create parse_url queue sha256 env u g k)"
  unfolding api_create_def by (intro guar_intros)

lemma api_retry_guar:
  "rely evolves env \<Longrightarrow> queue_guar queue \<Longrightarrow> guar evolves (api_retry parse_url queue sha256 env u i k)"
  unfolding api_retry_def by (intro guar_intros) (auto intro!: guar_intros split: option.splits)

end
