(* ===== verification/JobController.thy ===== *)
theory JobController
  imports JobApi
begin

text \<open>
  The HTTP side of analysis jobs: the pipes and guards (\<open>src/src/analysis-job/pipes\<close>,
  \<open>guards\<close>), the validated bodies and queries (\<open>dto/analysis-job.dto.ts\<close>) and the handlers
  (\<open>analysis-job.controller.ts\<close>). A handler answers with the headers it has set, also when it
  fails, and with its result or the error of the response.
\<close>

section \<open>Pipes\<close>

definition invalid_request :: err where
  "invalid_request = HttpError (OtherHttpException 400) ''INVALID_REQUEST''"

definition uuid_pipe :: "utext \<Rightarrow> err + string" where
  "uuid_pipe value =
     (if any_uuid value then Inr (text_of_units (map ascii_fold value)) else Inl invalid_request)"

text \<open>The header, if the request has it; its characters are single bytes.\<close>

definition idempotency_key_pipe :: "string option \<Rightarrow> err + string" where
  "idempotency_key_pipe raw =
     (case raw of
        None \<Rightarrow> Inl invalid_request
      | Some v \<Rightarrow>
          if length v < 1 \<or> length v > 128 \<or> js_startsWith v ''legacy-report:'' \<or>
             js_startsWith v ''sync:'' \<or> list_ex control_char v
          then Inl invalid_request else Inr v)"

section \<open>Bodies and queries\<close>

text \<open>\<open>@IsString() @MaxLength(32) @Matches(/^[1-9]\d*$/)\<close>\<close>

definition valid_github_repo_id :: "utext \<Rightarrow> bool" where
  "valid_github_repo_id s \<longleftrightarrow>
     s \<noteq> [] \<and> length s \<le> 32 \<and> 49 \<le> hd s \<and> hd s \<le> 57 \<and> list_all json_digit (tl s)"

text \<open>The filter turns every \<open>BadRequestException\<close> into this code.\<close>

definition create_body :: "utext option \<Rightarrow> err + string" where
  "create_body githubRepoId =
     (case githubRepoId of
        None \<Rightarrow> Inl (HttpError BadRequestException ''INVALID_REQUEST'')
      | Some s \<Rightarrow> if valid_github_repo_id s then Inr (text_of_units s)
                  else Inl (HttpError BadRequestException ''INVALID_REQUEST''))"

text \<open>\<open>@IsOptional() @Type(() => Number) @IsInt() @Min(lo) @Max(hi)\<close>\<close>

definition optional_int :: "int \<Rightarrow> int \<Rightarrow> string option \<Rightarrow> err + int option" where
  "optional_int lo hi raw =
     (case raw of
        None \<Rightarrow> Inr None
      | Some s \<Rightarrow> (case integer_of (js_Number s) of
            Some v \<Rightarrow> if lo \<le> v \<and> v \<le> hi then Inr (Some v)
                       else Inl (HttpError BadRequestException ''INVALID_REQUEST'')
          | None \<Rightarrow> Inl (HttpError BadRequestException ''INVALID_REQUEST'')))"

definition status_of_text :: "string \<Rightarrow> job_status option" where
  "status_of_text = map_of [(''QUEUED'', QUEUED), (''RUNNING'', RUNNING), (''SUCCEEDED'', SUCCEEDED), (''FAILED'', FAILED)]"

definition optional_status :: "string option \<Rightarrow> err + job_status option" where
  "optional_status raw =
     (case raw of
        None \<Rightarrow> Inr None
      | Some s \<Rightarrow> (case status_of_text s of
            Some v \<Rightarrow> Inr (Some v) | None \<Rightarrow> Inl (HttpError BadRequestException ''INVALID_REQUEST'')))"

definition cursor_char :: "nat \<Rightarrow> bool" where
  "cursor_char c \<longleftrightarrow> json_digit c \<or> (65 \<le> c \<and> c \<le> 90) \<or> (97 \<le> c \<and> c \<le> 122) \<or> c = 95 \<or> c = 45"

definition optional_cursor :: "utext option \<Rightarrow> err + utext option" where
  "optional_cursor raw =
     (case raw of
        None \<Rightarrow> Inr None
      | Some s \<Rightarrow> if s \<noteq> [] \<and> length s \<le> 2048 \<and> list_all cursor_char s then Inr (Some s)
                  else Inl (HttpError BadRequestException ''INVALID_REQUEST''))"

record raw_list_query =
  rq_repositoryId :: "string option"
  rq_status :: "string option"
  rq_limit :: "string option"
  rq_cursor :: "utext option"

definition list_query_of :: "raw_list_query \<Rightarrow> err + list_query" where
  "list_query_of q =
     bind_result (optional_int 1 2147483647 (rq_repositoryId q)) (\<lambda>r.
     bind_result (optional_status (rq_status q)) (\<lambda>s.
     bind_result (optional_int 1 100 (rq_limit q)) (\<lambda>l.
     bind_result (optional_cursor (rq_cursor q)) (\<lambda>c.
     Inr \<lparr>lq_repositoryId = r, lq_status = s, lq_limit = option_or l 20, lq_cursor = c\<rparr>))))"

section \<open>Guards\<close>

record request_user =
  ru_id :: int

text \<open>What the strategy found: an error, a user, or nobody.\<close>

definition jwt_guard :: "err option \<Rightarrow> request_user option \<Rightarrow> err + request_user" where
  "jwt_guard error user =
     (case error of
        Some e \<Rightarrow> Inl e
      | None \<Rightarrow> (case user of
            None \<Rightarrow> Inl (HttpError UnauthorizedException ''UNAUTHORIZED'') | Some u \<Rightarrow> Inr u))"

definition enabled_guard :: "env \<Rightarrow> err + unit" where
  "enabled_guard env =
     (if config env ''ASYNC_ANALYSIS_ENABLED'' = Some ''true'' then Inr ()
      else Inl (HttpError ServiceUnavailableException ''ASYNC_ANALYSIS_DISABLED''))"

type_synonym headers = "(string \<times> string) list"

definition rate_limit_headers :: "rate_limit_status \<Rightarrow> headers" where
  "rate_limit_headers s =
     [(''X-RateLimit-Limit-Analysis-Job'', js_string_of_int ANALYSIS_JOB_CREATION_RATE_LIMIT),
      (''X-RateLimit-Remaining-Analysis-Job'', js_string_of_int (remaining s)),
      (''X-RateLimit-Reset-Analysis-Job'', js_string_of_int (retryAfterSeconds s))]"

text \<open>\<open>response.setHeader\<close>: a header that is there already is replaced.\<close>

definition set_headers :: "headers \<Rightarrow> headers \<Rightarrow> headers" where
  "set_headers hs new = filter (\<lambda>(k, _). k \<notin> fst ` set new) hs @ new"

definition retry_after :: "rate_limit_status \<Rightarrow> headers" where
  "retry_after s = [(''Retry-After'', js_string_of_int (retryAfterSeconds s))]"

definition rate_limit_guard :: "env \<Rightarrow> request_user \<Rightarrow> headers io" where
  "rate_limit_guard env user =
     (if ru_id user \<le> 0 then throw (HttpError UnauthorizedException ''UNAUTHORIZED'')
      else bind (catch (getCreationRateLimitStatus env (ru_id user))
                   (\<lambda>_. throw (HttpError ServiceUnavailableException ''JOB_ACCEPTANCE_UNAVAILABLE''))) (\<lambda>s.
           ret (rate_limit_headers s @ (if isBlocked s then retry_after s else []))))"

section \<open>Handlers\<close>

type_synonym 'a handled = "headers \<times> (err + 'a)"

definition polling_headers :: "job_response \<Rightarrow> headers" where
  "polling_headers job = (if jr_status job = QUEUED \<or> jr_status job = RUNNING then [(''Retry-After'', ''2'')] else [])"

definition accepted_headers :: "headers \<Rightarrow> acceptance \<Rightarrow> headers" where
  "accepted_headers hs a =
     set_headers (set_headers (set_headers hs (rate_limit_headers (ap_rateLimit a)))
       [(''Location'', jr_self (ap_job a))]) (polling_headers (ap_job a))"

definition refused_headers :: "headers \<Rightarrow> err \<Rightarrow> headers" where
  "refused_headers hs e =
     (case e of
        AnalysisJobRateLimitExceededException s \<Rightarrow>
          set_headers (set_headers hs (rate_limit_headers s)) (retry_after s)
      | _ \<Rightarrow> hs)"

definition acceptWithRateLimitHeaders :: "headers \<Rightarrow> acceptance io \<Rightarrow> job_response handled io" where
  "acceptWithRateLimitHeaders hs operation =
     bind (attempt operation) (\<lambda>r. ret (case r of
         Inl e \<Rightarrow> (refused_headers hs e, Inl e)
       | Inr a \<Rightarrow> (accepted_headers hs a, Inr (ap_job a))))"

text \<open>The guards in their order, then the validation of the request, then the handler.\<close>

definition guarded :: "env \<Rightarrow> err option \<Rightarrow> request_user option \<Rightarrow> (request_user \<Rightarrow> 'a handled io) \<Rightarrow> 'a handled io" where
  "guarded env error user handle =
     (case bind_result (jwt_guard error user) (\<lambda>u. bind_result (enabled_guard env) (\<lambda>_. Inr u)) of
        Inl e \<Rightarrow> ret ([], Inl e) | Inr u \<Rightarrow> handle u)"

definition with_rate_limit :: "env \<Rightarrow> request_user \<Rightarrow> (headers \<Rightarrow> 'a handled io) \<Rightarrow> 'a handled io" where
  "with_rate_limit env u handle =
     bind (attempt (rate_limit_guard env u)) (\<lambda>r. case r of Inl e \<Rightarrow> ret ([], Inl e) | Inr hs \<Rightarrow> handle hs)"

definition post_job ::
  "url_parser \<Rightarrow> analysis_job_queue \<Rightarrow> (string \<Rightarrow> string) \<Rightarrow> env \<Rightarrow> err option \<Rightarrow> request_user option \<Rightarrow> utext option
     \<Rightarrow> string option \<Rightarrow> job_response handled io" where
  "post_job parse_url queue sha256 env error user body rawKey =
     guarded env error user (\<lambda>u. with_rate_limit env u (\<lambda>hs.
       case bind_result (create_body body) (\<lambda>g. bind_result (idempotency_key_pipe rawKey) (\<lambda>k. Inr (g, k))) of
         Inl e \<Rightarrow> ret (hs, Inl e)
       | Inr (g, k) \<Rightarrow> acceptWithRateLimitHeaders hs (api_create parse_url queue sha256 env (ru_id u) g k)))"

definition post_retry ::
  "url_parser \<Rightarrow> analysis_job_queue \<Rightarrow> (string \<Rightarrow> string) \<Rightarrow> env \<Rightarrow> err option \<Rightarrow> request_user option \<Rightarrow> utext
     \<Rightarrow> string option \<Rightarrow> job_response handled io" where
  "post_retry parse_url queue sha256 env error user rawId rawKey =
     guarded env error user (\<lambda>u. with_rate_limit env u (\<lambda>hs.
       case bind_result (uuid_pipe rawId) (\<lambda>i. bind_result (idempotency_key_pipe rawKey) (\<lambda>k. Inr (i, k))) of
         Inl e \<Rightarrow> ret (hs, Inl e)
       | Inr (i, k) \<Rightarrow> acceptWithRateLimitHeaders hs (api_retry parse_url queue sha256 env (ru_id u) i k)))"

definition get_job :: "env \<Rightarrow> err option \<Rightarrow> request_user option \<Rightarrow> utext \<Rightarrow> job_response handled io" where
  "get_job env error user rawId =
     guarded env error user (\<lambda>u.
       case uuid_pipe rawId of
         Inl e \<Rightarrow> ret ([], Inl e)
       | Inr i \<Rightarrow> bind (attempt (api_findOne env (ru_id u) i)) (\<lambda>r. ret (case r of
             Inl e \<Rightarrow> ([], Inl e) | Inr job \<Rightarrow> (polling_headers job, Inr job))))"

definition get_jobs ::
  "(utext \<Rightarrow> int option) \<Rightarrow> env \<Rightarrow> err option \<Rightarrow> request_user option \<Rightarrow> raw_list_query \<Rightarrow> list_response handled io" where
  "get_jobs other_date env error user rawQuery =
     guarded env error user (\<lambda>u.
       case list_query_of rawQuery of
         Inl e \<Rightarrow> ret ([], Inl e)
       | Inr q \<Rightarrow> bind (attempt (api_list other_date env (ru_id u) q)) (\<lambda>r. ret (case r of
             Inl e \<Rightarrow> ([], Inl e)
           | Inr result \<Rightarrow> (if list_ex (\<lambda>job. jr_status job = QUEUED \<or> jr_status job = RUNNING) (pg_items result)
                           then [(''Retry-After'', ''2'')] else [], Inr result))))"

section \<open>Requests keep the ledger's guarantee\<close>

lemma guarded_guar: "(\<And>u. guar evolves (handle u)) \<Longrightarrow> guar evolves (guarded env error user handle)"
  by (simp add: guarded_def ledger.guar_ret split: sum.splits)

lemma with_rate_limit_guar:
  "rely evolves env \<Longrightarrow> (\<And>hs. guar evolves (handle hs)) \<Longrightarrow> guar evolves (with_rate_limit env u handle)"
  unfolding with_rate_limit_def rate_limit_guard_def
  by (intro guar_intros) (auto intro!: guar_intros split: sum.splits)

lemma accepting_guar: "guar evolves m \<Longrightarrow> guar evolves (acceptWithRateLimitHeaders hs m)"
  unfolding acceptWithRateLimitHeaders_def by (intro guar_intros)

lemma requests_guar:
  assumes "rely evolves env" "queue_guar queue"
  shows "guar evolves (post_job parse_url queue sha256 env error user body rawKey)"
    "guar evolves (post_retry parse_url queue sha256 env error user rawId rawKey)"
  unfolding post_job_def post_retry_def
  using assms
  by (intro guarded_guar with_rate_limit_guar; auto intro!: accepting_guar api_create_guar api_retry_guar
      ledger.guar_ret split: sum.splits prod.splits)+

end
