(* ===== verification/ApiProperties.thy ===== *)
theory ApiProperties
  imports JobController JobProperties
begin

text \<open>
  What the HTTP interface promises about requests: an accepted request is a new job or the replay
  of one, a key stands for one request, the rate is limited, a retry keeps its window, and a response
  says nothing of a failure but public texts.
\<close>

section \<open>Accepted requests\<close>

definition request_hash_of :: "(string \<Rightarrow> string) \<Rightarrow> accept_input \<Rightarrow> string" where
  "request_hash_of sha256 i = api_request_hash sha256 (ai_userId i) (ai_request i)"

definition keyed :: "accept_input \<Rightarrow> job_row \<Rightarrow> bool" where
  "keyed i j \<longleftrightarrow> j_userId j = ai_userId i \<and> j_idempotencyKey j = ai_idempotencyKey i"

text \<open>
  The key was free, the user was below the limit at a time of the run and has tokens, and the job is the
  new one.
\<close>

definition accepted_new :: "env \<Rightarrow> accept_input \<Rightarrow> job_row \<Rightarrow> world \<Rightarrow> world \<Rightarrow> bool" where
  "accepted_new env i job w w' \<longleftrightarrow>
     (\<forall>j \<in> set (jobs (wdb w)). \<not> keyed i j) \<and>
     (\<exists>t. time_of_run env w w' t \<and> int (length (recent_jobs (ai_userId i) t (wdb w))) < ANALYSIS_JOB_CREATION_RATE_LIMIT) \<and>
     (\<exists>g r src cut. requested_repository i = Some g \<and> owned_repository (ai_userId i) g (wdb w) = Some r \<and>
        0 < or_availableTokens r \<and> j_repositoryId job = or_id r \<and> collection_window i r = Inr (src, cut) \<and>
        j_sourceCursor job = src \<and> (\<forall>t. cut = Some t \<longrightarrow> j_collectionCutoff job = t)) \<and>
     (\<exists>t. time_of_run env w w' t \<and> created_only t job (wdb w) (wdb w'))"

lemma accepted_new_within:
  assumes "accepted_new env i job v v'" "wdb v = wdb w" "wdb v' = wdb w'" "tick w \<le> tick v" "tick v' \<le> tick w'"
  shows "accepted_new env i job w w'"
  using assms(1) time_of_run_within [OF _ assms(4,5)] unfolding accepted_new_def assms(2,3) by blast

lemma new_job_input:
  "j_userId (new_job i now c) = ci_userId c" "j_idempotencyKey (new_job i now c) = ci_idempotencyKey c"
  "j_requestHash (new_job i now c) = ci_requestHash c" "j_sourceCursor (new_job i now c) = ci_sourceCursor c"
  "j_collectionCutoff (new_job i now c) = option_or (ci_collectionCutoff c) now"
  by (simp_all add: new_job_def)

lemma accept_new_creates:
  assumes "accept_new (quiet env) i h w = (Inr a, w')"
  shows "\<exists>g r src cut. requested_repository i = Some g \<and> owned_repository (ai_userId i) g (wdb w) = Some r \<and>
    0 < or_availableTokens r \<and> collection_window i r = Inr (src, cut) \<and> j_repositoryId (a_job (ac_record a)) = or_id r \<and>
    j_sourceCursor (a_job (ac_record a)) = src \<and>
    (\<forall>t. cut = Some t \<longrightarrow> j_collectionCutoff (a_job (ac_record a)) = t) \<and>
    keyed i (a_job (ac_record a)) \<and> j_requestHash (a_job (ac_record a)) = h \<and> tick w \<le> tick w' \<and>
    (\<exists>t. time_of_run env w w' t \<and> created_only t (a_job (ac_record a)) (wdb w) (wdb w'))"
proof -
  let ?c = "api_create_input i h"
  from accept_new_run [OF assms] obtain g r src cut n w2 where g: "requested_repository i = Some g"
    "owned_repository (ai_userId i) g (wdb w) = Some r" "0 < or_availableTokens r" "collection_window i r = Inr (src, cut)"
    and run: "createExclusiveInTransaction (quiet env) (or_id r)
      (\<lambda>d. api_create_job d (?c r (src, cut))) (w\<lparr>tick := n\<rparr>) = (Inr (ac_record a), w2)"
    and s: "getCreationRateLimitStatus (quiet env) (ai_userId i) w2 = (Inr (ac_rateLimit a), w')" and n: "tick w < n"
    by (metis surj_pair)
  from exclusive_run [OF run] obtain m w3 k where
    rec: "recoverStaleActiveJobs (quiet env) (or_id r) (w\<lparr>tick := n\<rparr>\<lparr>tick := m\<rparr>) = (Inr (), w3)"
    and none: "find_active (or_id r) (wdb w3) = None"
    and op: "api_create_job (quiet env) (?c r (src, cut)) (w3\<lparr>tick := k\<rparr>) = (Inr (ac_record a), w2)"
    and "tick (w\<lparr>tick := n\<rparr>) < m" "m < k"
    by blast
  then have ticks: "n < m" "m < k" by simp_all
  obtain i' now where ins: "create_job_stmt i' (?c r (src, cut)) now (wdb w3) = Inr (a_job (ac_record a), wdb w2)"
    using op by (auto simp: api_create_job_def uuid_io_def run_simps api_create_stmt_Inr)
  have "k < tick w2" using op by (auto simp: api_create_job_def uuid_io_def run_simps)
  have w2: "wdb w' = wdb w2" "tick w2 < tick w'" using s by (auto simp: getCreationRateLimitStatus_def run_simps)
  moreover have "created_only (clock env m) (a_job (ac_record a)) (wdb w) (wdb w2)"
    using exclusive_insert [OF rec none ins] by (simp add: api_create_input_def)
  moreover have "time_of_run env w w' (clock env m)" "tick w \<le> tick w'"
    using n ticks \<open>k < tick w2\<close> w2(2) by (auto simp: time_of_run_def intro!: exI [of _ m])
  moreover have "a_job (ac_record a) = new_job i' now (?c r (src, cut))"
    using ins by (simp add: create_job_stmt_Inr)
  ultimately show ?thesis
    using g by (intro exI [of _ g] exI [of _ r] exI [of _ src] exI [of _ cut])
      (auto simp: new_job_input api_create_input_def keyed_def)
qed

lemma findByIdempotencyKey_run:
  assumes "findByIdempotencyKey (quiet env) (ai_userId i) (ai_idempotencyKey i) w = (Inr x, w')"
  shows "wdb w' = wdb w \<and> tick w \<le> tick w' \<and> (case x of None \<Rightarrow> \<forall>j \<in> set (jobs (wdb w)). \<not> keyed i j
     | Some e \<Rightarrow> a_job e \<in> set (jobs (wdb w)) \<and> keyed i (a_job e))"
  using assms
  by (auto simp: findByIdempotencyKey_def with_include_def run_simps keyed_def api_include_def find_None_iff
      split: option.splits dest!: find_SomeD)

lemma replay_run:
  assumes "replay (quiet env) u e h w = (Inr a, w')"
  shows "wdb w' = wdb w \<and> tick w \<le> tick w' \<and> ac_record a = e \<and> j_requestHash (a_job e) = h"
  using assms
  by (auto simp: replay_def resolveExisting_def getCreationRateLimitStatus_def run_simps split: if_splits)

text \<open>What the body of the transaction returns: the job that has the key, or a new one.\<close>

lemma accept_body_cases:
  assumes "accept_body (quiet env) i h w = (Inr a, w')"
  shows "a_job (ac_record a) \<in> set (jobs (wdb w')) \<and> keyed i (a_job (ac_record a)) \<and>
    j_requestHash (a_job (ac_record a)) = h \<and> tick w \<le> tick w' \<and>
    (wdb w' = wdb w \<or> accepted_new env i (a_job (ac_record a)) w w')"
proof -
  obtain w1 x w2 where 1: "acquire_lock (quiet env) w = (Inr (), w1)"
    and 2: "findByIdempotencyKey (quiet env) (ai_userId i) (ai_idempotencyKey i) w1 = (Inr x, w2)"
    and 3: "(case x of Some e \<Rightarrow> replay (quiet env) (ai_userId i) e h | None \<Rightarrow>
      andThen (acquire_lock (quiet env)) (bind (getCreationRateLimitStatus (quiet env) (ai_userId i)) (\<lambda>s.
        if isBlocked s then throw (AnalysisJobRateLimitExceededException s) else accept_new (quiet env) i h))) w2 = (Inr a, w')"
    using assms by (auto simp: accept_body_def andThen_Inr bind_Inr)
  have w: "wdb w1 = wdb w" "wdb w2 = wdb w" "tick w \<le> tick w2"
    using 1 findByIdempotencyKey_run [OF 2] by (auto simp: acquire_lock_def run_simps)
  show ?thesis
  proof (cases x)
    case (Some e)
    with 3 have "replay (quiet env) (ai_userId i) e h w2 = (Inr a, w')" by simp
    from replay_run [OF this] findByIdempotencyKey_run [OF 2] Some w show ?thesis by auto
  next
    case None
    with 3 obtain k n where new: "\<not> isBlocked (rate_status (ai_userId i) (clock env k) (wdb w2))"
      "accept_new (quiet env) i h (w2\<lparr>tick := n\<rparr>) = (Inr a, w')" "tick w2 \<le> k" "k < n"
      by (auto simp: acquire_lock_def getCreationRateLimitStatus_def run_simps split: if_splits)
    have "\<forall>j \<in> set (jobs (wdb w)). \<not> keyed i j"
      using findByIdempotencyKey_run [OF 2] None w by simp
    moreover have "int (length (recent_jobs (ai_userId i) (clock env k) (wdb w))) < ANALYSIS_JOB_CREATION_RATE_LIMIT"
      using new(1) w by (simp add: rate_status_def Let_def)
    moreover note created = accept_new_creates [OF new(2)]
    moreover have "time_of_run env w w' (clock env k)"
      using new(3,4) w(3) created by (auto simp: time_of_run_def intro!: exI [of _ k])
    moreover have "time_of_run env w w' t" if "time_of_run env (w2\<lparr>tick := n\<rparr>) w' t" for t
      using time_of_run_within [OF that] new(3,4) w(3) by simp
    ultimately have "accepted_new env i (a_job (ac_record a)) w w'" unfolding accepted_new_def using w(2) by auto
    with created w new(3,4) show ?thesis by (auto simp: created_only_def)
  qed
qed

lemma transaction_Inl:
  assumes "transaction env body w = (Inl e, w')" "undisturbed env"
  shows "wdb w' = wdb w \<or>
    (\<exists>v a v2. wdb v = wdb w \<and> tick w \<le> tick v \<and> body (quiet env) v = (Inr a, v2) \<and> wdb w' = wdb v2 \<and> tick v2 \<le> tick w')"
proof -
  define v where "v = w\<lparr>tick := Suc (tick w), wdb := wdb w\<rparr>"
  have same: "interference env (tick w) (wdb w) = wdb w" using assms(2) by (simp add: undisturbed_def)
  obtain r v2 where run: "body (quiet env) v = (r, v2)" by (cases "body (quiet env) v")
  have "wdb w' = wdb w \<or> (\<exists>a. r = Inr a \<and> wdb w' = wdb v2 \<and> tick v2 \<le> tick w')"
    using assms(1) [unfolded transaction_def Let_def same v_def [symmetric] run]
    by (cases "faults env (tick w)"; cases r; cases "faults env (tick v2)") (auto simp: v_def)
  moreover have "wdb v = wdb w" "tick w \<le> tick v" by (simp_all add: v_def)
  ultimately show ?thesis using run by blast
qed

lemma keyed_identity: "same_identity j j' \<Longrightarrow> keyed i j' = keyed i j"
  by (simp add: keyed_def same_identity_def)

lemma accepted_new_unique:
  "accepted_new env i job w w' \<Longrightarrow> j \<in> set (jobs (wdb w')) \<Longrightarrow> keyed i j \<Longrightarrow> j = job"
  unfolding accepted_new_def created_only_def by (metis keyed_identity)

lemma acceptJob_cases:
  assumes "undisturbed env" "acceptJob sha256 env i w = (Inr a, w')"
  shows "a_job (ac_record a) \<in> set (jobs (wdb w')) \<and> keyed i (a_job (ac_record a)) \<and>
    j_requestHash (a_job (ac_record a)) = request_hash_of sha256 i \<and>
    (wdb w' = wdb w \<or> accepted_new env i (a_job (ac_record a)) w w')"
proof -
  let ?h = "request_hash_of sha256 i"
  let ?job = "a_job (ac_record a)"
  obtain r w1 where tx: "transaction env (\<lambda>tx. accept_body tx i ?h) w = (r, w1)"
    by (cases "transaction env (\<lambda>tx. accept_body tx i ?h) w")
  show ?thesis
  proof (cases r)
    case (Inr a')
    then have "a' = a" "w1 = w'"
      using assms(2) tx by (simp_all add: acceptJob_def request_hash_of_def catch_def Let_def)
    with tx Inr have "transaction env (\<lambda>tx. accept_body tx i ?h) w = (Inr a, w')" by simp
    from transaction_Inr_ticks [OF this assms(1)] obtain v v2 where v: "wdb v = wdb w" "tick w < tick v"
      "accept_body (quiet env) i ?h v = (Inr a, v2)" "wdb w' = wdb v2" "tick v2 < tick w'" by blast
    note within = accepted_new_within [OF _ v(1) v(4) [symmetric] less_imp_le [OF v(2)] less_imp_le [OF v(5)]]
    from accept_body_cases [OF v(3)] v(1,4) show ?thesis by (auto dest: within)
  next
    case (Inl e)
    then obtain x w2 where 1: "findByIdempotencyKey (quiet env) (ai_userId i) (ai_idempotencyKey i) w1 = (Inr (Some x), w2)"
      and 2: "replay (quiet env) (ai_userId i) x ?h w2 = (Inr a, w')"
      using assms(2) tx
      by (auto simp: acceptJob_def request_hash_of_def catch_def Let_def bind_Inr throw_run undisturbed_quiet [OF assms(1)]
          split: if_splits option.splits)
    have found: "?job \<in> set (jobs (wdb w'))" "keyed i ?job" "j_requestHash ?job = ?h" "wdb w' = wdb w1" "tick w1 \<le> tick w'"
      using findByIdempotencyKey_run [OF 1] replay_run [OF 2] by auto
    from transaction_Inl [OF tx [unfolded Inl] assms(1)] show ?thesis
    proof (elim disjE exE conjE)
      fix v a' v2
      assume v: "wdb v = wdb w" "tick w \<le> tick v" "accept_body (quiet env) i ?h v = (Inr a', v2)" "wdb w1 = wdb v2" "tick v2 \<le> tick w1"
      have "wdb v2 = wdb w'" "tick v2 \<le> tick w'" using v(4,5) found(4,5) by simp_all
      note within = accepted_new_within [OF _ v(1) this(1) v(2) this(2)]
      have "wdb v2 = wdb v \<or> accepted_new env i (a_job (ac_record a')) w w'"
        using accept_body_cases [OF v(3)] within by blast
      with accepted_new_unique [of env i _ w w' ?job] found v show ?thesis by auto
    qed (use found in simp)
  qed
qed

text \<open>
  C15. A request that is accepted is answered with a job of its user under its key and with the digest
  of its content. Either nothing was written, or the key was free, the user was below the limit at a
  time of the clock in the course of the request and had tokens left, the repository is the user's own,
  and exactly one job was created, the only active one of the repository.
\<close>

theorem accepted_request:
  assumes "undisturbed env" "acceptJob sha256 env i w = (Inr a, w')"
  shows "a_job (ac_record a) \<in> set (jobs (wdb w')) \<and> keyed i (a_job (ac_record a)) \<and>
    j_requestHash (a_job (ac_record a)) = request_hash_of sha256 i \<and>
    (wdb w' = wdb w \<or> accepted_new env i (a_job (ac_record a)) w w')"
  by (rule acceptJob_cases [OF assms])

definition no_jobs :: world where
  "no_jobs = \<lparr>wdb = (db_with sample_job)\<lparr>jobs := []\<rparr>, tick = 0\<rparr>"

definition sample_accept :: accept_input where
  "sample_accept = \<lparr>ai_userId = 1, ai_idempotencyKey = ''key-2'', ai_request = CREATE_REQUEST ''777'', ai_retrySource = None\<rparr>"

definition answered :: "(err + 'a) \<times> world \<Rightarrow> bool" where
  "answered r = (case fst r of Inl _ \<Rightarrow> False | Inr _ \<Rightarrow> True)"

lemma answeredE: "answered r \<Longrightarrow> (\<And>a w'. r = (Inr a, w') \<Longrightarrow> P) \<Longrightarrow> P"
  by (cases r) (auto simp: answered_def split: sum.splits)

lemma sample_accepted: "answered (acceptJob sample_digest calm sample_accept no_jobs)"
  by code_simp

theorem accepted_request_witness:
  "\<exists>a w'. acceptJob sample_digest calm sample_accept no_jobs = (Inr a, w') \<and> keyed sample_accept (a_job (ac_record a))"
proof -
  obtain a w' where run: "acceptJob sample_digest calm sample_accept no_jobs = (Inr a, w')"
    using sample_accepted by (rule answeredE)
  from accepted_request [OF _ run] run show ?thesis by simp
qed

text \<open>
  C16. A key stands for one request: once it was accepted, the same request is answered with the same job and
  writes nothing, and another request under the key is not accepted.
\<close>

theorem key_stands_for_one_request:
  assumes "undisturbed env" "acceptJob sha256 env i w = (Inr a, w1)"
    and "undisturbed env'" "wdb v = wdb w1"
    and "distinct (map (\<lambda>j. (j_userId j, j_idempotencyKey j)) (jobs (wdb w1)))"
    and "ai_userId i' = ai_userId i" "ai_idempotencyKey i' = ai_idempotencyKey i"
    and "acceptJob sha256 env' i' v = (Inr a', v')"
  shows "a_job (ac_record a') = a_job (ac_record a) \<and> wdb v' = wdb v \<and>
    request_hash_of sha256 i' = request_hash_of sha256 i"
proof -
  let ?j = "a_job (ac_record a)" and ?j' = "a_job (ac_record a')"
  have same: "keyed i' j = keyed i j" for j using assms(6,7) by (simp add: keyed_def)
  note first = acceptJob_cases [OF assms(1,2)]
  note second = acceptJob_cases [OF assms(3,8)]
  have "\<not> accepted_new env' i' ?j' v v'"
    using first assms(4) same by (auto simp: accepted_new_def)
  with second have "wdb v' = wdb v" by blast
  moreover have "?j' = ?j"
    using first second assms(4,6,7) \<open>wdb v' = wdb v\<close>
    by (intro keyed_row_unique [OF assms(5)]) (auto simp: keyed_def)
  ultimately show ?thesis using first second by simp
qed

theorem key_stands_for_one_request_witness:
  "\<exists>a w1 a' v'. acceptJob sample_digest calm sample_accept no_jobs = (Inr a, w1) \<and>
     acceptJob sample_digest calm sample_accept w1 = (Inr a', v') \<and> a_job (ac_record a') = a_job (ac_record a)"
proof -
  let ?run = "acceptJob sample_digest calm sample_accept no_jobs"
  obtain a w1 where 1: "?run = (Inr a, w1)" using sample_accepted by (rule answeredE)
  have "answered (acceptJob sample_digest calm sample_accept (snd ?run))" by code_simp
  then obtain a' v' where 2: "acceptJob sample_digest calm sample_accept w1 = (Inr a', v')"
    using 1 by (auto elim: answeredE)
  have "distinct (map (\<lambda>j. (j_userId j, j_idempotencyKey j)) (jobs (wdb (snd ?run))))" by code_simp
  then have "distinct (map (\<lambda>j. (j_userId j, j_idempotencyKey j)) (jobs (wdb w1)))" using 1 by simp
  from key_stands_for_one_request [OF _ 1 _ refl this refl refl 2] 1 2 show ?thesis by auto
qed

section \<open>Retries\<close>

lemma api_include_repository:
  "api_include d j = Some s \<Longrightarrow> \<exists>r. find_repository (j_repositoryId j) d = Some r \<and>
     ar_githubRepoId (a_repository s) = r_githubRepoId r"
  by (auto simp: api_include_def)

lemma find_repository_github:
  assumes "distinct (map r_githubRepoId (repositories d))" "distinct (map r_id (repositories d))"
    and "find_repository i d = Some r0" "owned_repository u (r_githubRepoId r0) d = Some r"
  shows "or_id r = i"
proof -
  obtain r1 where r1: "r1 \<in> set (repositories d)" "r_githubRepoId r1 = r_githubRepoId r0" "or_id r = r_id r1"
    using assms(4) by (auto simp: owned_repository_def bind_eq_Some_conv dest!: find_SomeD)
  have r0: "r0 \<in> set (repositories d)" "r_id r0 = i"
    using assms(3) by (auto simp: find_repository_def dest!: find_SomeD)
  have "r1 = r0" by (rule keyed_row_unique [OF assms(1) r1(1) r0(1)]) (use r1 in simp_all)
  with r0 r1 show ?thesis by simp
qed

text \<open>
  A retry asks for the same analysis again: a new job for the same repository and the same window of
  activity as the failed one, which stays as it was.
\<close>

theorem retry_repeats_the_window:
  assumes "undisturbed env" "acceptJob sha256 env i w = (Inr a, w')" "wdb w' \<noteq> wdb w"
    and "ai_request i = RETRY_REQUEST sid" "ai_retrySource i = Some s" "api_include (wdb w) (a_job s) = Some s"
    and "a_job s \<in> set (jobs (wdb w))" "j_status (a_job s) = FAILED"
    and "distinct (map r_githubRepoId (repositories (wdb w)))" "distinct (map r_id (repositories (wdb w)))"
  shows "j_repositoryId (a_job (ac_record a)) = j_repositoryId (a_job s) \<and>
    j_sourceCursor (a_job (ac_record a)) = j_sourceCursor (a_job s) \<and>
    j_collectionCutoff (a_job (ac_record a)) = j_collectionCutoff (a_job s) \<and>
    j_id (a_job (ac_record a)) \<noteq> j_id (a_job s) \<and> a_job s \<in> set (jobs (wdb w'))"
proof -
  let ?job = "a_job (ac_record a)"
  have new: "accepted_new env i ?job w w'" using acceptJob_cases [OF assms(1,2)] assms(3) by blast
  obtain r0 where r0: "find_repository (j_repositoryId (a_job s)) (wdb w) = Some r0"
    "ar_githubRepoId (a_repository s) = r_githubRepoId r0"
    using api_include_repository [OF assms(6)] by blast
  have "\<not> abandoned r t (a_job s)" for r t
    using abandoned_active [of r t "a_job s"] assms(8) by (auto simp: active_def)
  moreover obtain t where "created_only t ?job (wdb w) (wdb w')" using new by (auto simp: accepted_new_def)
  ultimately have "a_job s \<in> set (jobs (wdb w'))" "j_id ?job \<noteq> j_id (a_job s)"
    using assms(7) by (auto simp: created_only_def)
  moreover obtain r where "owned_repository (ai_userId i) (r_githubRepoId r0) (wdb w) = Some r"
    "j_repositoryId ?job = or_id r" "j_sourceCursor ?job = j_sourceCursor (a_job s)"
    "j_collectionCutoff ?job = j_collectionCutoff (a_job s)"
    using new assms(4,5) r0(2) by (auto simp: accepted_new_def requested_repository_def collection_window_def)
  moreover from this(1) have "or_id r = j_repositoryId (a_job s)"
    by (rule find_repository_github [OF assms(9,10) r0(1)])
  ultimately show ?thesis by simp
qed

definition failed_job :: job_row where
  "failed_job = sample_job\<lparr>j_status := FAILED, j_stage := None, j_lastErrorCode := Some ''ANALYSIS_FAILED'',
     j_lastErrorMessage := Some ''Analysis failed.'', j_errorRetryable := Some True, j_promptTokens := Some 0,
     j_completionTokens := Some 0, j_totalTokens := Some 0, j_tokensSettledAt := Some 950000,
     j_completedAt := Some 950000\<rparr>"

definition sample_retry :: accept_input where
  "sample_retry = \<lparr>ai_userId = 1, ai_idempotencyKey = ''key-2'', ai_request = RETRY_REQUEST sample_job_id,
     ai_retrySource = api_include (db_with failed_job) failed_job\<rparr>"

theorem retry_repeats_the_window_witness:
  "\<exists>a w'. acceptJob sample_digest calm sample_retry (world_with failed_job) = (Inr a, w') \<and>
     j_collectionCutoff (a_job (ac_record a)) = 900000"
proof -
  let ?run = "acceptJob sample_digest calm sample_retry (world_with failed_job)"
  have "answered ?run" by code_simp
  then obtain a w' where 1: "?run = (Inr a, w')" by (rule answeredE)
  have "length (jobs (wdb (snd ?run))) = 2" by code_simp
  then have "wdb w' \<noteq> wdb (world_with failed_job)" using 1 by (auto simp: world_with_def db_with_def)
  from retry_repeats_the_window [OF _ 1 this] 1 show ?thesis
    by (simp add: sample_retry_def world_with_def db_with_def api_include_def find_repository_def
        sample_repository_def failed_job_def sample_job_defs)
qed

text \<open>
  Only the user's own failed jobs that may be retried are: for any other the request fails and
  writes nothing.
\<close>

theorem retry_is_guarded:
  assumes "undisturbed env" "\<forall>j \<in> set (jobs (wdb w)). j_id j = sid \<and> j_userId j = u \<longrightarrow>
      j_status j \<noteq> FAILED \<or> j_errorRetryable j \<noteq> Some True"
  shows "(\<forall>r. fst (api_retry parse_url queue sha256 env u sid k w) \<noteq> Inr r) \<and>
    wdb (snd (api_retry parse_url queue sha256 env u sid k w)) = wdb w"
proof -
  obtain r w1 where run: "findOwnedById env u sid w = (r, w1)" by (cases "findOwnedById env u sid w")
  have same: "wdb w1 = wdb w"
  proof -
    have "wdb (snd (findOwnedById env u sid w)) = wdb w"
      unfolding findOwnedById_def
      by (rule db_call_same [OF assms(1)]) (auto simp: with_include_def split: option.splits)
    with run show ?thesis by simp
  qed
  have "j_status (a_job s) \<noteq> FAILED \<or> j_errorRetryable (a_job s) \<noteq> Some True" if "r = Inr (Some s)" for s
    using run that assms
    by (auto simp: findOwnedById_def db_call_undisturbed_Inr with_include_def api_include_def
        split: option.splits dest!: find_SomeD)
  then show ?thesis
    using run same by (cases r) (auto simp: api_retry_def bind_def throw_def split: option.splits)
qed

theorem retry_is_guarded_witness:
  "wdb (snd (api_retry (\<lambda>_. None) (\<lambda>_ _. ret None) sample_digest calm 1 sample_job_id ''key-2'' (world_with sample_job)))
    = db_with sample_job"
  using retry_is_guarded [of calm "world_with sample_job" sample_job_id 1]
  by (simp add: world_with_def db_with_def sample_job_defs)

section \<open>The rate limit\<close>

lemma rate_status_fields:
  "totalHits (rate_status u now d) = int (length (recent_jobs u now d))"
  "remaining (rate_status u now d) = max 0 (5 - int (length (recent_jobs u now d)))"
  "isBlocked (rate_status u now d) \<longleftrightarrow> 5 \<le> length (recent_jobs u now d)"
  "retryAfterSeconds (rate_status u now d) = (case oldest (recent_jobs u now d) of
     None \<Rightarrow> 1 | Some t \<Rightarrow> max 1 (ceil_seconds (t + 60000 - now)))"
  by (auto simp: rate_status_def Let_def rate_limit_constants greatest_def map_filter_simps split: option.splits)

lemma recent_jobs_set: "set (recent_jobs u now d) \<subseteq> {j \<in> set (jobs d). recent_job u now j}"
  using set_take_subset [of "nat ANALYSIS_JOB_CREATION_RATE_LIMIT"] by (fastforce simp: recent_jobs_def)

lemma oldest_member: "oldest js = Some t \<Longrightarrow> \<exists>j \<in> set js. j_createdAt j = t"
  using Min_in [of "j_createdAt ` set js"] by (auto simp: oldest_def image_iff split: if_splits)

lemma ceil_seconds_bounds: "ms \<le> ceil_seconds ms * 1000" "ceil_seconds ms * 1000 < ms + 1000"
  unfolding ceil_seconds_def by linarith+

text \<open>
  The numbers of the rate limit fit together: at most five hits, the hits and the rest make five, a user is
  blocked exactly when nothing is left, and the time to wait is between a second and a minute as long
  as no job is dated in the future. Without recent jobs the time is one second, not the minute of the
  query's default.
\<close>

theorem rate_status_bounds:
  assumes "\<forall>j \<in> set (jobs d). j_createdAt j \<le> now"
  shows "totalHits (rate_status u now d) + remaining (rate_status u now d) = 5 \<and>
    0 \<le> remaining (rate_status u now d) \<and> remaining (rate_status u now d) \<le> 5 \<and>
    (isBlocked (rate_status u now d) \<longleftrightarrow> remaining (rate_status u now d) = 0) \<and>
    1 \<le> retryAfterSeconds (rate_status u now d) \<and> retryAfterSeconds (rate_status u now d) \<le> 60 \<and>
    (totalHits (rate_status u now d) = 0 \<longrightarrow> retryAfterSeconds (rate_status u now d) = 1)"
proof -
  have five: "length (recent_jobs u now d) \<le> 5" by (simp add: recent_jobs_def rate_limit_constants)
  have "ceil_seconds (t + 60000 - now) \<le> 60" if t: "oldest (recent_jobs u now d) = Some t" for t
  proof -
    from oldest_member [OF t] recent_jobs_set [of u now d] assms have "t \<le> now" by auto
    then show ?thesis using ceil_seconds_bounds [of "t + 60000 - now"] by linarith
  qed
  then show ?thesis
    using five by (auto simp: rate_status_fields oldest_def split: option.splits)
qed

theorem rate_status_bounds_witness:
  "retryAfterSeconds (rate_status 1 1000000 (db_with sample_job)) \<le> 60"
  using rate_status_bounds [of "db_with sample_job" 1000000 1] by (simp add: db_with_def sample_job_defs)

text \<open>
  C18. \<open>Retry-After\<close> keeps its word: a user with five recent jobs is no longer blocked once the time
  has passed, if no job was created in between.
\<close>

theorem retry_after_is_enough:
  assumes "length (filter (recent_job u now) (jobs d)) \<le> 5"
    and "now + retryAfterSeconds (rate_status u now d) * 1000 \<le> now'"
  shows "\<not> isBlocked (rate_status u now' d)"
proof -
  let ?f = "\<lambda>t. filter (recent_job u t) (jobs d)"
  have all: "set (recent_jobs u now d) = set (?f now)" "length (recent_jobs u t d) \<le> length (?f t)" for t
    using assms(1) by (simp_all add: recent_jobs_def rate_limit_constants)
  have wait: "1 \<le> retryAfterSeconds (rate_status u now d)" by (simp add: rate_status_fields split: option.splits)
  then have later: "recent_job u now' j \<Longrightarrow> recent_job u now j" for j
    using assms(2) by (auto simp: recent_job_def)
  have "length (?f now') < 5"
  proof (cases "?f now = []")
    case True
    then have "?f now' = []" using later by (auto simp: filter_empty_conv)
    then show ?thesis by simp
  next
    case False
    then have "recent_jobs u now d \<noteq> []" using all(1) by auto
    then obtain t where t: "oldest (recent_jobs u now d) = Some t" by (simp add: oldest_def)
    from oldest_member [OF this] obtain j where "j \<in> set (recent_jobs u now d)" and j: "j_createdAt j = t" by blast
    then have mem: "j \<in> set (?f now)" using all(1) by simp
    have "t + 60000 \<le> now'"
      using assms(2) t ceil_seconds_bounds(1) [of "t + 60000 - now"] by (simp add: rate_status_fields)
    then have "\<not> recent_job u now' j" using j by (simp add: recent_job_def rate_limit_constants)
    with mem have "length (filter (recent_job u now') (?f now)) < length (?f now)" by (rule length_filter_less)
    moreover have "filter (recent_job u now') (?f now) = ?f now'"
      using later by (auto simp: filter_filter intro!: filter_cong)
    ultimately have "length (?f now') < length (?f now)" by simp
    with assms(1) show ?thesis by simp
  qed
  then show ?thesis using all(2) [of now'] by (simp add: rate_status_fields)
qed

definition busy_db :: db where
  "busy_db = (db_with sample_job)\<lparr>jobs := replicate 5 (sample_job\<lparr>j_createdAt := 1000\<rparr>)\<rparr>"

theorem retry_after_is_enough_witness:
  "isBlocked (rate_status 1 50000 busy_db) \<and> \<not> isBlocked (rate_status 1 61000 busy_db)"
proof -
  have "isBlocked (rate_status 1 50000 busy_db)" "retryAfterSeconds (rate_status 1 50000 busy_db) = 11"
    "length (filter (recent_job 1 50000) (jobs busy_db)) = 5"
    by code_simp+
  with retry_after_is_enough [of 1 50000 busy_db 61000] show ?thesis by simp
qed

section \<open>What a response says of a failure\<close>

text \<open>
  C19. Nothing internal is shown: the error of a response has a public text and a public code, whatever
  message and code the row has; and there is one exactly for a failed job.
\<close>

theorem errors_are_public:
  assumes "response_error_of j = Some e"
  shows "j_status j = FAILED \<and> re_code e \<in> fst ` set PUBLIC_ERROR_MESSAGES \<and>
    re_message e \<in> snd ` set PUBLIC_ERROR_MESSAGES \<union> {changed_pull_requests_message, review_nodes_message, job_failed_message}"
proof -
  define C where "C = fst ` set PUBLIC_ERROR_MESSAGES"
  define M where "M = snd ` set PUBLIC_ERROR_MESSAGES"
  have known: "map_of PUBLIC_ERROR_MESSAGES c = Some m \<Longrightarrow> c \<in> C \<and> m \<in> M" for c m
    unfolding C_def M_def using map_of_SomeD by force
  have codes: "''ANALYSIS_FAILED'' \<in> C" "''INPUT_LIMIT_EXCEEDED'' \<in> C"
    by (simp_all add: C_def PUBLIC_ERROR_MESSAGES_def)
  show ?thesis
    unfolding C_def [symmetric] M_def [symmetric]
    using assms known codes
    by (auto simp: response_error_of_def publicErrorMessage_def split: option.splits if_splits)
qed

theorem errors_are_public_witness:
  "\<exists>e. response_error_of (failed_job\<lparr>j_lastErrorCode := Some ''INTERNAL_42''\<rparr>) = Some e \<and>
     re_code e \<in> fst ` set PUBLIC_ERROR_MESSAGES"
proof -
  have "response_error_of (failed_job\<lparr>j_lastErrorCode := Some ''INTERNAL_42''\<rparr>) \<noteq> None"
    by (simp add: response_error_of_def failed_job_def split: option.splits)
  then obtain e where e: "response_error_of (failed_job\<lparr>j_lastErrorCode := Some ''INTERNAL_42''\<rparr>) = Some e" by blast
  from errors_are_public [OF this] e show ?thesis by blast
qed

end
