(* ===== verification/Pages.thy ===== *)
theory Pages
  imports JobController Samples
begin

text \<open>
  The list of jobs over HTTP: a cursor that the service encodes it decodes to the same, and the
  pages of a query hold every job once.
\<close>

section \<open>Cursors\<close>

lemma ascii_fold_lower:
  "hex_lower (ascii_fold c) \<or> ascii_fold c = 45 \<Longrightarrow> c < 128 \<and> 32 \<le> c \<and> c \<noteq> 34 \<and> c \<noteq> 92"
  by (auto simp: hex_lower_def ascii_fold_def split: if_splits)

lemma any_uuid_unit: "any_uuid s \<Longrightarrow> list_all (\<lambda>c. c < 128 \<and> 32 \<le> c \<and> c \<noteq> 34 \<and> c \<noteq> 92) s"
proof -
  assume "any_uuid s"
  then have "list_all (\<lambda>c. hex_lower c \<or> c = 45) (map ascii_fold s)"
    unfolding any_uuid_def by (rule pattern_all) (auto simp: hex_lower_or_dash_def)
  then have "list_all (\<lambda>c. hex_lower (ascii_fold c) \<or> ascii_fold c = 45) s"
    by (simp add: list.pred_map comp_def)
  then show ?thesis by (rule list.pred_mono_strong) (rule ascii_fold_lower)
qed

text \<open>Texts that need no escape and are one byte per character.\<close>

definition simple_text :: "string \<Rightarrow> bool" where
  "simple_text s \<longleftrightarrow> list_all (\<lambda>c. c < 128 \<and> 32 \<le> c \<and> c \<noteq> 34 \<and> c \<noteq> 92) (units s)"

lemma simple_append [simp]: "simple_text (a @ b) \<longleftrightarrow> simple_text a \<and> simple_text b"
  by (simp add: simple_text_def)

lemma simple_Cons [simp]:
  "simple_text (c # s) \<longleftrightarrow> (let n = of_char c :: nat in n < 128 \<and> 32 \<le> n \<and> n \<noteq> 34 \<and> n \<noteq> 92) \<and> simple_text s"
  by (simp add: simple_text_def Let_def)

lemma simple_Nil [simp]: "simple_text []"
  by (simp add: simple_text_def)

lemma simple_plain: "simple_text s \<Longrightarrow> plain_text s"
  by (simp add: simple_text_def plain_text_def list_all_iff)

lemma simple_padded [simp]: "simple_text (padded n i)"
proof -
  have "simple_text (replicate k (CHR ''0''))" for k by (induction k) simp_all
  moreover have "simple_text (nat_digits k)" for k
    using nat_digits_read [of k] by (auto simp: simple_text_def list_all_iff json_digit_def)
  ultimately show ?thesis by (simp add: padded_def)
qed

lemma simple_date: "simple_text (toISOString t)"
  by (simp add: toISOString_def iso_year_def Let_def split: prod.splits)

lemma simple_uuid: "any_uuid (units i) \<Longrightarrow> simple_text i"
  using any_uuid_unit [of "units i"] by (simp add: simple_text_def)

lemma cursor_units:
  assumes "simple_text (cu_id c)"
  shows "units (cursor_text c) = 123 # 34 # units ''createdAt'' @ 34 # 58 # 34 # units (toISOString (cu_createdAt c))
    @ 34 # 44 # 34 # units ''id'' @ 34 # 58 # 34 # units (cu_id c) @ [34, 125]"
  using json_string_plain [OF simple_plain [OF assms]] json_string_plain [OF simple_plain [OF simple_date]]
  by (simp add: cursor_text_def json_object_def) (simp add: json_string_def json_char_def Let_def)

lemma cursor_key_units: "list_all (\<lambda>c. 32 \<le> c \<and> c \<noteq> 34 \<and> c \<noteq> 92) (units ''createdAt'')"
  "list_all (\<lambda>c. 32 \<le> c \<and> c \<noteq> 34 \<and> c \<noteq> 92) (units ''id'')"
  by simp_all

lemma parse_cursor_value:
  assumes "simple_text (cu_id c)"
  shows "parse_value (Suc (Suc (Suc (Suc (Suc m))))) (units (cursor_text c)) =
    Some (JObj [(units ''createdAt'', JStr (units (toISOString (cu_createdAt c)))), (units ''id'', JStr (units (cu_id c)))], [])"
  using cursor_key_units simple_plain [OF assms] simple_plain [OF simple_date [of "cu_createdAt c"]]
  unfolding plain_text_def
  by (simp add: cursor_units [OF assms] value_step_def skip_def json_space_def starts_def members_step_def
      member_step_def parse_string_plain rest_step_def del: units_Cons)

lemma JSON_parse_fuel:
  "parse_value n s = Some (v, r) \<Longrightarrow> 2 * length s + 2 \<le> n \<Longrightarrow> skip r = [] \<Longrightarrow> JSON_parse s = Some v"
  using parse_value_fuel [of s n] by (simp add: JSON_parse_def)

definition valid_cursor :: "job_cursor \<Rightarrow> bool" where
  "valid_cursor c \<longleftrightarrow> valid_time (cu_createdAt c) \<and> any_uuid (units (cu_id c))"

lemma decode_cursor_text_units:
  assumes "valid_cursor c"
  shows "decode_cursor_text other (units (cursor_text c)) = Some c"
proof -
  have i: "any_uuid (units (cu_id c))" and t: "valid_time (cu_createdAt c)"
    using assms by (simp_all add: valid_cursor_def)
  have "JSON_parse (units (cursor_text c)) = Some (JObj
      [(units ''createdAt'', JStr (units (toISOString (cu_createdAt c)))), (units ''id'', JStr (units (cu_id c)))])"
    by (rule JSON_parse_fuel [OF parse_cursor_value [OF simple_uuid [OF i], of "2 * length (units (cursor_text c))"]])
      (simp_all add: skip_def)
  moreover have "units ''createdAt'' \<noteq> units ''id''" by simp
  ultimately show ?thesis
    using i date_round_trip [OF t]
    by (simp add: decode_cursor_text_def cursor_payload_def own_keys_def get_property_def Date_parse_def)
qed

lemma ascii_cursor: "valid_cursor c \<Longrightarrow> ascii_text (units (cursor_text c))"
  using simple_uuid [of "cu_id c"] simple_date [of "cu_createdAt c"]
  by (auto simp: valid_cursor_def cursor_units ascii_text_def simple_text_def list_all_iff)

interpretation cursor: codec_chain "\<lambda>c. units (cursor_text c)" "decode_cursor_text other" valid_cursor
    "\<lambda>s. base64url_encode (utf8_encode s)" "\<lambda>s. Option.bind (Some (base64url_decode s)) (\<lambda>b. Some (utf8_decode b))" ascii_text
    for other
  by unfold_locales (simp_all add: decode_cursor_text_units ascii_cursor buffer.round_trip)

lemma cursor_read_back: "valid_cursor c \<Longrightarrow> decodeCursor other (encodeCursor c) = Inr c"
  using cursor.chain [of c other] by (simp add: decodeCursor_def encodeCursor_def)

lemma encoded_not_empty: "valid_cursor c \<Longrightarrow> encodeCursor c \<noteq> []"
proof -
  assume c: "valid_cursor c"
  then have "utf8_encode (units (cursor_text c)) \<noteq> []"
    by (simp add: utf8_encode_ascii [OF ascii_cursor [OF c]]) (simp add: cursor_units valid_cursor_def simple_uuid)
  moreover have "xs \<noteq> [] \<Longrightarrow> sextets xs \<noteq> []" for xs by (cases xs rule: sextets.cases) auto
  ultimately show ?thesis by (simp add: encodeCursor_def base64url_encode_def)
qed

text \<open>
  A cursor is opaque, but nothing of it is lost: what the service encodes for a job it decodes
  to the same time and identifier, and two jobs have the same cursor only if these are equal.
\<close>

theorem cursor_round_trip:
  assumes "valid_cursor a" "valid_cursor b"
  shows "decodeCursor other (encodeCursor a) = Inr a \<and> (encodeCursor a = encodeCursor b \<longleftrightarrow> a = b)"
  using assms cursor_read_back by (metis sum.inject(2))

definition sample_cursor :: job_cursor where
  "sample_cursor = \<lparr>cu_createdAt = 1735689600000, cu_id = sample_job_id\<rparr>"

theorem cursor_round_trip_witness:
  "decodeCursor (\<lambda>_. None) (encodeCursor sample_cursor) = Inr sample_cursor"
proof -
  have "valid_cursor sample_cursor"
    by (simp add: valid_cursor_def sample_cursor_def valid_time_def any_uuid_def hex_lower_or_dash_def
        sample_job_id_def hex_lower_def ascii_fold_def numeral_nat)
  from cursor_round_trip [OF this this] show ?thesis by simp
qed

section \<open>Pages\<close>

text \<open>All the jobs a query asks for, newest first.\<close>

definition all_listed :: "list_input \<Rightarrow> db \<Rightarrow> job_row list" where
  "all_listed i d = rev (sort_key due_order (filter (list_where i) (jobs d)))"

definition cursor_of :: "job_row \<Rightarrow> job_cursor" where
  "cursor_of j = \<lparr>cu_createdAt = j_createdAt j, cu_id = j_id j\<rparr>"

lemma all_listed_cursor:
  "all_listed (i\<lparr>li_cursor := Some (cursor_of k)\<rparr>) d =
    filter (\<lambda>j. due_order j < due_order k) (all_listed (i\<lparr>li_cursor := None\<rparr>) d)"
proof -
  have "list_where (i\<lparr>li_cursor := Some (cursor_of k)\<rparr>) =
      (\<lambda>j. list_where (i\<lparr>li_cursor := None\<rparr>) j \<and> due_order j < due_order k)"
    by (auto simp: fun_eq_iff list_where_def cursor_of_def due_order_def less_prod_def)
  then show ?thesis
    by (simp add: all_listed_def filter_sort flip: filter_filter rev_filter)
qed

lemma strict_filter:
  fixes f :: "'a \<Rightarrow> 'b :: linorder"
  assumes "sorted_wrt (\<lambda>a b. f b < f a) xs" "n < length xs"
  shows "filter (\<lambda>x. f x < f (xs ! n)) xs = drop (Suc n) xs"
  using assms
proof (induction xs arbitrary: n)
  case (Cons x xs)
  show ?case
  proof (cases n)
    case 0
    with Cons.prems show ?thesis by (simp add: filter_id_conv)
  next
    case (Suc m)
    with Cons.prems have "\<not> f x < f (xs ! m)" by (simp add: less_imp_not_less)
    with Cons Suc show ?thesis by auto
  qed
qed simp

lemma all_listed_strict:
  assumes "distinct (map j_id (jobs d))"
  shows "sorted_wrt (\<lambda>a b. due_order b < due_order a) (all_listed i d)"
proof -
  let ?s = "sort_key due_order (filter (list_where i) (jobs d))"
  have "distinct (map j_id ?s)"
    using assms by (simp add: distinct_map inj_on_def)
  then have "distinct (map due_order ?s)"
    by (auto simp: distinct_map inj_on_def due_order_def)
  then have "sorted_wrt (<) (map due_order ?s)"
    using sorted_sort_key [of due_order] strict_sorted_iff by blast
  then show ?thesis by (simp add: all_listed_def sorted_wrt_rev sorted_wrt_map)
qed

lemma next_page:
  assumes "distinct (map j_id (jobs d))" "all_listed i d = drop n (all_listed (i\<lparr>li_cursor := None\<rparr>) d)"
    "0 < k" "k \<le> length (all_listed i d)"
  shows "all_listed (i\<lparr>li_cursor := Some (cursor_of (all_listed i d ! (k - 1)))\<rparr>) d
    = drop (n + k) (all_listed (i\<lparr>li_cursor := None\<rparr>) d)"
proof -
  let ?a = "all_listed (i\<lparr>li_cursor := None\<rparr>) d"
  have len: "n + (k - 1) < length ?a" using assms(2-4) by simp
  have "all_listed i d ! (k - 1) = ?a ! (n + (k - 1))" using assms(2-4) by (simp add: nth_drop)
  then have "all_listed (i\<lparr>li_cursor := Some (cursor_of (all_listed i d ! (k - 1)))\<rparr>) d
      = filter (\<lambda>j. due_order j < due_order (?a ! (n + (k - 1)))) ?a"
    by (simp only: all_listed_cursor)
  also have "\<dots> = drop (Suc (n + (k - 1))) ?a"
    by (rule strict_filter [OF all_listed_strict [OF assms(1)] len])
  finally show ?thesis using assms(3) by simp
qed

text \<open>A client that follows the cursors until there is none.\<close>

fun follow :: "(utext \<Rightarrow> int option) \<Rightarrow> nat \<Rightarrow> env \<Rightarrow> int \<Rightarrow> list_query \<Rightarrow> job_response list io" where
  "follow other 0 env userId q = throw (PlainError ''too many pages'')"
| "follow other (Suc n) env userId q =
     bind (api_list other env userId q) (\<lambda>page.
     case pg_nextCursor page of
       None \<Rightarrow> ret (pg_items page)
     | Some c \<Rightarrow> bind (follow other n env userId (q\<lparr>lq_cursor := Some c\<rparr>)) (\<lambda>rest. ret (pg_items page @ rest)))"

text \<open>Every job has its repository, and a time and identifier as the database makes them.\<close>

definition listable :: "db \<Rightarrow> bool" where
  "listable d \<longleftrightarrow> distinct (map j_id (jobs d)) \<and>
     (\<forall>j \<in> set (jobs d). find_repository (j_repositoryId j) d \<noteq> None \<and> valid_cursor (cursor_of j))"

definition included :: "db \<Rightarrow> job_row \<Rightarrow> api_record" where
  "included d j = the (api_include d j)"

lemma those_map_Some: "(\<And>x. x \<in> set xs \<Longrightarrow> f x = Some (g x)) \<Longrightarrow> those (map f xs) = Some (map g xs)"
  by (induction xs) auto

lemma included_job: "listable d \<Longrightarrow> j \<in> set (jobs d) \<Longrightarrow> api_include d j = Some (included d j) \<and> a_job (included d j) = j"
  by (auto simp: listable_def included_def api_include_def)

lemma listOwned_run:
  assumes "healthy env" "listable (wdb w)"
  shows "listOwned env i w = (Inr (map (included (wdb w)) (take (nat (li_limit i + 1)) (all_listed i (wdb w)))),
    w\<lparr>tick := Suc (tick w)\<rparr>)"
proof -
  have "set (listed_jobs i (wdb w)) \<subseteq> set (jobs (wdb w))"
    using set_take_subset [of "nat (li_limit i + 1)"] by (fastforce simp: listed_jobs_def)
  then have "those (map (api_include (wdb w)) (listed_jobs i (wdb w))) = Some (map (included (wdb w)) (listed_jobs i (wdb w)))"
    using included_job [OF assms(2)] by (intro those_map_Some) blast
  then show ?thesis
    by (simp add: listOwned_def db_call_healthy [OF assms(1)] listed_jobs_def all_listed_def)
qed

definition input_of :: "int \<Rightarrow> list_query \<Rightarrow> job_cursor option \<Rightarrow> list_input" where
  "input_of userId q c = \<lparr>li_userId = userId, li_repositoryId = lq_repositoryId q, li_status = lq_status q,
     li_limit = lq_limit q, li_cursor = c\<rparr>"

lemma input_of_simps [simp]:
  "(input_of u q c)\<lparr>li_cursor := x\<rparr> = input_of u q x" "input_of u (q\<lparr>lq_cursor := y\<rparr>) c = input_of u q c"
  "li_limit (input_of u q c) = lq_limit q"
  by (simp_all add: input_of_def)

text \<open>One page: the jobs that fit, and the cursor of the last one when there are more.\<close>

lemma api_list_run:
  fixes u :: int
  assumes "healthy env" "listable (wdb w)" "1 \<le> lq_limit q" "query_cursor other q = Inr c"
  defines "l \<equiv> all_listed (input_of u q c) (wdb w)" and "k \<equiv> nat (lq_limit q)"
  shows "api_list other env u q w =
    (Inr \<lparr>pg_items = map (toDto \<circ> included (wdb w)) (take k l),
          pg_nextCursor = (if k < length l then Some (encodeCursor (cursor_of (l ! (k - 1)))) else None)\<rparr>,
     w\<lparr>tick := Suc (tick w)\<rparr>)"
proof -
  have k: "nat (lq_limit q + 1) = Suc k" "0 < k" "int k = lq_limit q" using assms(3) by (auto simp: k_def)
  have mem: "set l \<subseteq> set (jobs (wdb w))" by (auto simp: l_def all_listed_def)
  have "list_page (lq_limit q) (map (included (wdb w)) (take (Suc k) l)) =
    \<lparr>pg_items = map (toDto \<circ> included (wdb w)) (take k l),
     pg_nextCursor = (if k < length l then Some (encodeCursor (cursor_of (l ! (k - 1)))) else None)\<rparr>"
  proof (cases "k < length l")
    case True
    then have "take k l \<noteq> []" using k(2) by auto
    then have "last (map (included (wdb w)) (take k l)) = included (wdb w) (l ! (k - 1))"
      using True k(2) by (simp add: last_map last_conv_nth)
    moreover have "a_job (included (wdb w) (l ! (k - 1))) = l ! (k - 1)"
      using included_job [OF assms(2)] mem True by (meson less_imp_diff_less nth_mem subsetD)
    moreover have "take k l \<noteq> []" "min (length l) (Suc k) = Suc k" using True k(2) by auto
    ultimately show ?thesis
      using True k(2) by (simp add: list_page_def Let_def take_map cursor_of_def flip: k(3))
  next
    case False
    then have "min (length l) (Suc k) = length l" by simp
    with False k(2) show ?thesis by (simp add: list_page_def Let_def flip: k(3))
  qed
  then show ?thesis
    using assms(4) listOwned_run [OF assms(1,2), of "input_of u q c"]
    by (simp add: api_list_def bind_def of_result_def k(1) ret_def l_def [symmetric] input_of_def [symmetric])
qed

lemma follow_run:
  assumes "healthy env" "1 \<le> lq_limit q" "listable (wdb w)" "query_cursor other q = Inr c"
    and "all_listed (input_of u q c) (wdb w) = drop n (all_listed (input_of u q None) (wdb w))"
    and "length (all_listed (input_of u q c) (wdb w)) < m"
  shows "\<exists>t. follow other m env u q w =
    (Inr (map (toDto \<circ> included (wdb w)) (all_listed (input_of u q c) (wdb w))), w\<lparr>tick := t\<rparr>)"
  using assms(2-)
proof (induction m arbitrary: q c n w)
  case (Suc m)
  let ?l = "all_listed (input_of u q c) (wdb w)"
  let ?k = "nat (lq_limit q)"
  note page = api_list_run [OF assms(1) Suc.prems(2,1,3), of u]
  show ?case
  proof (cases "?k < length ?l")
    case False
    then show ?thesis by (simp add: page bind_def ret_def) blast
  next
    case True
    let ?j = "?l ! (?k - 1)"
    let ?w = "w\<lparr>tick := Suc (tick w)\<rparr>" and ?q = "q\<lparr>lq_cursor := Some (encodeCursor (cursor_of ?j))\<rparr>"
    have "?j \<in> set ?l" using True by (intro nth_mem) simp
    then have "valid_cursor (cursor_of ?j)"
      using Suc.prems(2) by (auto simp: all_listed_def listable_def)
    moreover from this have "encodeCursor (cursor_of ?j) \<noteq> []"
      by (rule encoded_not_empty)
    ultimately have c': "query_cursor other ?q = Inr (Some (cursor_of ?j))"
      by (simp add: query_cursor_def cursor_read_back)
    have next': "all_listed (input_of u q (Some (cursor_of ?j))) (wdb w) = drop (n + ?k) (all_listed (input_of u q None) (wdb w))"
      using next_page [of "wdb w" "input_of u q c" n ?k] Suc.prems True by (simp add: listable_def)
    then have rest: "all_listed (input_of u q (Some (cursor_of ?j))) (wdb w) = drop ?k ?l"
      using Suc.prems(4) by (simp add: add.commute)
    have ih: "1 \<le> lq_limit ?q" "listable (wdb ?w)"
      "all_listed (input_of u ?q (Some (cursor_of ?j))) (wdb ?w) = drop (n + ?k) (all_listed (input_of u ?q None) (wdb ?w))"
      "length (all_listed (input_of u ?q (Some (cursor_of ?j))) (wdb ?w)) < m"
      using Suc.prems(1,2,5) next' True rest by simp_all
    have same: "wdb ?w = wdb w" by simp
    from Suc.IH [OF ih(1,2) c' ih(3,4)] obtain t where "follow other m env u ?q ?w =
        (Inr (map (toDto \<circ> included (wdb w)) (drop ?k ?l)), ?w\<lparr>tick := t\<rparr>)"
      unfolding same input_of_simps rest by blast
    then show ?thesis
      using True by (auto simp: page bind_def ret_def simp flip: map_append)
  qed
qed simp

text \<open>
  C17. Pages neither lose nor repeat a job: a client that follows the cursors, from the first page
  until there is none, gets every job of the user that the query asks for exactly once, newest first.
\<close>

theorem pages_show_every_job:
  assumes "healthy env" "listable (wdb w)" "1 \<le> lq_limit q" "lq_cursor q = None"
    and "length (jobs (wdb w)) < n"
  shows "(\<exists>w'. follow other n env u q w =
      (Inr (map (toDto \<circ> included (wdb w)) (all_listed (input_of u q None) (wdb w))), w')) \<and>
    set (all_listed (input_of u q None) (wdb w)) = {j \<in> set (jobs (wdb w)). list_where (input_of u q None) j} \<and>
    distinct (map j_id (all_listed (input_of u q None) (wdb w)))"
proof (intro conjI)
  have "length (all_listed (input_of u q None) (wdb w)) \<le> length (jobs (wdb w))"
    by (simp add: all_listed_def)
  with follow_run [OF assms(1,3,2), of other None u 0 n] assms(4,5)
  show "\<exists>w'. follow other n env u q w = (Inr (map (toDto \<circ> included (wdb w)) (all_listed (input_of u q None) (wdb w))), w')"
    by (auto simp: query_cursor_def)
  show "set (all_listed (input_of u q None) (wdb w)) = {j \<in> set (jobs (wdb w)). list_where (input_of u q None) j}"
    by (auto simp: all_listed_def)
  show "distinct (map j_id (all_listed (input_of u q None) (wdb w)))"
    using assms(2) by (simp add: all_listed_def listable_def distinct_map inj_on_def rev_map)
qed

definition two_jobs :: world where
  "two_jobs = \<lparr>wdb = (db_with sample_job)\<lparr>jobs := [sample_job,
     sample_job\<lparr>j_id := ''0a1b2c3d-2222-4111-8111-0123456789ab'', j_createdAt := 950000\<rparr>]\<rparr>, tick = 0\<rparr>"

definition sample_query :: list_query where
  "sample_query = \<lparr>lq_repositoryId = None, lq_status = None, lq_limit = 1, lq_cursor = None\<rparr>"

theorem pages_show_every_job_witness:
  "\<exists>w'. follow (\<lambda>_. None) 3 calm 1 sample_query two_jobs =
     (Inr (map (toDto \<circ> included (wdb two_jobs)) (rev (jobs (wdb two_jobs)))), w')"
proof -
  let ?d = "wdb two_jobs"
  have "any_uuid (units sample_job_id)" "any_uuid (units ''0a1b2c3d-2222-4111-8111-0123456789ab'')"
    by (simp_all add: any_uuid_def hex_lower_or_dash_def sample_job_id_def hex_lower_def ascii_fold_def numeral_nat)
  then have l: "listable ?d"
    by (simp add: listable_def two_jobs_def valid_cursor_def cursor_of_def valid_time_def sample_job_defs
        db_with_def find_repository_def sample_repository_def)
  moreover have "all_listed (input_of 1 sample_query None) ?d = rev (jobs ?d)"
    by (simp add: all_listed_def list_where_def input_of_def sample_query_def two_jobs_def due_order_def sample_job_defs)
  ultimately show ?thesis
    using pages_show_every_job [of calm two_jobs sample_query 3 "\<lambda>_. None" 1]
    by (simp add: sample_query_def two_jobs_def)
qed

end
