(* ===== verification/EvidenceValidator.thy ===== *)
theory EvidenceValidator
  imports Activity Errors
begin

text \<open>
  The validation of the evidence a model cites (\<open>src/src/analysis/evidence-validator.ts\<close>). What the
  code takes from the Unicode tables of the platform, the lower case of a text and the letters and
  numbers, is a parameter.
\<close>

section \<open>Regular expressions\<close>

text \<open>
  The expressions of the module, matched against a text: \<open>ends r s i\<close> are the positions where a
  match of \<open>r\<close> that begins at \<open>i\<close> may end. \<open>CharPlus\<close> is \<open>[...]+\<close>, \<open>CharStar\<close> is \<open>[...]*\<close>.
\<close>

datatype regex =
  Char "nat \<Rightarrow> bool" | CharPlus "nat \<Rightarrow> bool" | CharStar "nat \<Rightarrow> bool"
| Cat regex regex | Or regex regex | Opt regex | Empty
| WordBoundary "nat \<Rightarrow> bool" | NotBefore "nat \<Rightarrow> bool" | NotAfter "nat \<Rightarrow> bool"

definition char_at :: "(nat \<Rightarrow> bool) \<Rightarrow> utext \<Rightarrow> nat \<Rightarrow> bool" where
  "char_at p s i \<longleftrightarrow> i < length s \<and> p (s ! i)"

definition char_before :: "(nat \<Rightarrow> bool) \<Rightarrow> utext \<Rightarrow> nat \<Rightarrow> bool" where
  "char_before p s i \<longleftrightarrow> 0 < i \<and> char_at p s (i - 1)"

fun run_ends :: "(nat \<Rightarrow> bool) \<Rightarrow> utext \<Rightarrow> nat \<Rightarrow> nat list" where
  "run_ends p [] i = []"
| "run_ends p (c # s) i = (if p c then Suc i # run_ends p s (Suc i) else [])"

fun ends :: "regex \<Rightarrow> utext \<Rightarrow> nat \<Rightarrow> nat list" where
  "ends (Char p) s i = (if char_at p s i then [Suc i] else [])"
| "ends (CharPlus p) s i = run_ends p (drop i s) i"
| "ends (CharStar p) s i = i # run_ends p (drop i s) i"
| "ends (Cat a b) s i = concat (map (ends b s) (ends a s i))"
| "ends (Or a b) s i = ends a s i @ ends b s i"
| "ends (Opt a) s i = i # ends a s i"
| "ends Empty s i = [i]"
| "ends (WordBoundary w) s i = (if char_before w s i \<noteq> char_at w s i then [i] else [])"
| "ends (NotBefore p) s i = (if char_before p s i then [] else [i])"
| "ends (NotAfter p) s i = (if char_at p s i then [] else [i])"

text \<open>\<open>pattern.test(text)\<close>\<close>

definition regex_test :: "regex \<Rightarrow> utext \<Rightarrow> bool" where
  "regex_test r s = list_ex (\<lambda>i. ends r s i \<noteq> []) [0..<Suc (length s)]"

definition sequence :: "regex list \<Rightarrow> regex" where
  "sequence rs = foldr Cat rs Empty"

text \<open>A literal, given in lower case, without regard to case; two letters beyond ASCII fold to
  \<open>s\<close> and \<open>k\<close>.\<close>

definition fold_char :: "nat \<Rightarrow> nat" where
  "fold_char c = (if 65 \<le> c \<and> c \<le> 90 then c + 32 else if c = 383 then 115 else if c = 8490 then 107 else c)"

definition literal_text :: "string \<Rightarrow> regex" where
  "literal_text s = sequence (map (\<lambda>c. Char (\<lambda>d. fold_char d = of_char c)) s)"

definition digit :: "nat \<Rightarrow> bool" where
  "digit c \<longleftrightarrow> 48 \<le> c \<and> c \<le> 57"

definition word_char :: "nat \<Rightarrow> bool" where
  "word_char c \<longleftrightarrow> digit c \<or> c = 95 \<or> (97 \<le> fold_char c \<and> fold_char c \<le> 122)"

text \<open>The code points of a text, with unpaired surrogates as they are.\<close>

fun pattern_points :: "utext \<Rightarrow> nat list" where
  "pattern_points [] = []"
| "pattern_points [c] = [c]"
| "pattern_points (c # d # s) =
     (if 55296 \<le> c \<and> c \<le> 56319 \<and> 56320 \<le> d \<and> d \<le> 57343
      then (65536 + (c - 55296) * 1024 + (d - 56320)) # pattern_points s
      else c # pattern_points (d # s))"

section \<open>References outside the evidence\<close>

record unicode =
  toLocaleLowerCase :: "utext \<Rightarrow> utext"
  letter_or_number :: "nat \<Rightarrow> bool"

definition name_char :: "nat \<Rightarrow> bool" where
  "name_char c \<longleftrightarrow> word_char c \<or> c = 46 \<or> c = 45"

definition github_url :: regex where
  "github_url = sequence
     [Opt (sequence [literal_text ''http'', Opt (literal_text ''s''), literal_text ''://'']),
      Opt (literal_text ''www.''), literal_text ''github.com'',
      Opt (sequence [literal_text ''/'', CharStar (\<lambda>c. \<not> text_space c \<and> c \<noteq> 41)])]"

definition repository_reference :: regex where
  "repository_reference = sequence
     [WordBoundary word_char, CharPlus name_char, literal_text ''/'', CharPlus name_char, literal_text ''#'',
      CharPlus digit, WordBoundary word_char]"

definition number_reference :: "unicode \<Rightarrow> regex" where
  "number_reference u = sequence
     [NotBefore (\<lambda>c. letter_or_number u c \<or> c = 95), literal_text ''#'', CharPlus digit, WordBoundary word_char]"

definition pr_reference :: regex where
  "pr_reference = sequence
     [WordBoundary word_char, Or (literal_text ''pr'') (literal_text ''pull request''),
      CharStar text_space, Opt (literal_text ''#''), CharPlus digit, WordBoundary word_char]"

text \<open>\<open>\d+\s*\<close>, the Korean counter of U+BC88, and the words for a pull request.\<close>

definition korean_reference :: regex where
  "korean_reference = sequence
     [CharPlus digit, CharStar text_space, Char (\<lambda>c. c = 48264), CharStar text_space,
      Or (literal_text ''pr'') (literal_text ''pull request''), NotAfter word_char]"

definition UNSTRUCTURED_REFERENCE_PATTERN :: "unicode \<Rightarrow> regex" where
  "UNSTRUCTURED_REFERENCE_PATTERN u =
     Or github_url (Or repository_reference (Or (number_reference u) (Or pr_reference korean_reference)))"

definition unstructured_reference :: "unicode \<Rightarrow> utext \<Rightarrow> bool" where
  "unstructured_reference u s = regex_test (UNSTRUCTURED_REFERENCE_PATTERN u) (pattern_points s)"

section \<open>Normalization\<close>

text \<open>\<open>.replace(/\r\n?/g, '\n')\<close>\<close>

fun crlf :: "utext \<Rightarrow> utext" where
  "crlf [] = []"
| "crlf [c] = [if c = 13 then 10 else c]"
| "crlf (c # d # s) =
     (if c = 13 then 10 # (if d = 10 then crlf s else crlf (d # s)) else c # crlf (d # s))"

text \<open>\<open>.replace(/\s+/g, ' ')\<close>\<close>

function collapse :: "utext \<Rightarrow> utext" where
  "collapse [] = []"
| "collapse (c # s) = (if text_space c then 32 # collapse (dropWhile text_space s) else c # collapse s)"
  by pat_completeness auto
termination
  by (relation "measure length") (auto simp: le_imp_less_Suc length_dropWhile_le)

definition normalizeEvidenceText :: "utext \<Rightarrow> utext" where
  "normalizeEvidenceText s = text_trim (collapse (crlf s))"

section \<open>The activities of the target\<close>

type_synonym owned_activity = "source_type \<times> target_relation \<times> utext"

definition collectOwnedActivities :: "unicode \<Rightarrow> pull_request_dto \<Rightarrow> utext \<Rightarrow> owned_activity list" where
  "collectOwnedActivities u p targetUser =
     (if toLocaleLowerCase u (pr_author p) = targetUser
      then [(pull_request, target_authored_pr, pr_title p), (pull_request, target_authored_pr, pr_body p)]
      else [])
     @ concat (map (\<lambda>r.
         (if toLocaleLowerCase u (v_author r) = targetUser
          then [(review, target_authored_review, v_body r)] else [])
         @ concat (map (\<lambda>c.
             if toLocaleLowerCase u (c_author c) = targetUser
             then [(review_comment, target_authored_review_comment, c_body c)] else []) (v_comments r)))
       (pr_reviews p))"

fun RELATION_BY_SOURCE_TYPE :: "source_type \<Rightarrow> target_relation" where
  "RELATION_BY_SOURCE_TYPE pull_request = target_authored_pr"
| "RELATION_BY_SOURCE_TYPE review = target_authored_review"
| "RELATION_BY_SOURCE_TYPE review_comment = target_authored_review_comment"

section \<open>Validation\<close>

text \<open>\<open>new Map(data.pullRequests.map((pr) => [pr.number, pr]))\<close>: the last entry of a number counts.\<close>

definition pull_requests_by_number :: "collected_data \<Rightarrow> int \<Rightarrow> pull_request_dto option" where
  "pull_requests_by_number d = map_of (rev (map (\<lambda>p. (pr_number p, p)) (cd_pullRequests d)))"

definition quote_issues ::
  "unicode \<Rightarrow> utext \<Rightarrow> pull_request_dto \<Rightarrow> evidence \<Rightarrow> issue_code list" where
  "quote_issues u targetUser p e =
     (let normalizedQuote = normalizeEvidenceText (quote e) in
      (if length normalizedQuote < MIN_ANALYSIS_EVIDENCE_QUOTE_LENGTH then [QUOTE_TOO_SHORT] else [])
      @ (if \<not> list_ex (\<lambda>(s, r, t). s = sourceType e \<and> r = targetRelation e \<and>
               text_includes (normalizeEvidenceText t) normalizedQuote)
             (collectOwnedActivities u p targetUser)
         then [QUOTE_NOT_OWNED] else []))"

definition evidence_issues ::
  "unicode \<Rightarrow> utext \<Rightarrow> (int \<Rightarrow> pull_request_dto option) \<Rightarrow> evidence \<Rightarrow> issue_code list" where
  "evidence_issues u targetUser prs e =
     (if unstructured_reference u (scoreRationale e) then [UNSTRUCTURED_REFERENCE] else [])
     @ (case prs (prNumber e) of
          None \<Rightarrow> [UNKNOWN_PR]
        | Some p \<Rightarrow>
            (if permalink e \<noteq> pr_permalink p then [PERMALINK_MISMATCH] else [])
            @ (if toLocaleLowerCase u (author e) \<noteq> targetUser then [AUTHOR_MISMATCH]
               else if targetRelation e \<noteq> RELATION_BY_SOURCE_TYPE (sourceType e)
               then [SOURCE_RELATION_MISMATCH]
               else quote_issues u targetUser p e))"

definition metric_issues ::
  "unicode \<Rightarrow> utext \<Rightarrow> (int \<Rightarrow> pull_request_dto option) \<Rightarrow> metric_key \<Rightarrow> metric_evaluation \<Rightarrow> issue list" where
  "metric_issues u targetUser prs k m =
     (if evidence_list m = [] \<and> score m \<noteq> 3 \<and> score m \<noteq> 7 / 2
      then [\<lparr>issueCode = UNSUPPORTED_SCORE_WITHOUT_EVIDENCE, issueMetric = Some k, evidenceIndex = None\<rparr>]
      else [])
     @ (if list_ex (unstructured_reference u) [reason m, improvement m, example_text m]
        then [\<lparr>issueCode = UNSTRUCTURED_REFERENCE, issueMetric = Some k, evidenceIndex = None\<rparr>] else [])
     @ concat (map (\<lambda>(i, e). map (\<lambda>c. \<lparr>issueCode = c, issueMetric = Some k, evidenceIndex = Some i\<rparr>)
                               (evidence_issues u targetUser prs e))
         (enumerate 0 (evidence_list m)))"

definition validateAnalysisEvidence ::
  "unicode \<Rightarrow> ('a) llm_payload_scheme \<Rightarrow> collected_data \<Rightarrow> issue list" where
  "validateAnalysisEvidence u r d =
     (let targetUser = toLocaleLowerCase u (cd_targetUser d); prs = pull_requests_by_number d in
      concat (map (\<lambda>k. metric_issues u targetUser prs k (metric r k)) ANALYSIS_METRIC_KEYS)
      @ (if unstructured_reference u (summary r)
         then [\<lparr>issueCode = UNSTRUCTURED_REFERENCE, issueMetric = None, evidenceIndex = None\<rparr>] else []))"

definition assertValidAnalysisEvidence ::
  "unicode \<Rightarrow> ('a) llm_payload_scheme \<Rightarrow> collected_data \<Rightarrow> err + unit" where
  "assertValidAnalysisEvidence u r d =
     (let issues = validateAnalysisEvidence u r d in
      if issues \<noteq> [] then Inl (InvalidAnalysisEvidenceError issues) else Inr ())"

section \<open>What an accepted result is\<close>

text \<open>The words of a text: its longest runs without white space.\<close>

function text_words :: "utext \<Rightarrow> utext list" where
  "text_words s =
     (case dropWhile text_space s of
        [] \<Rightarrow> []
      | c # t \<Rightarrow> (c # takeWhile (\<lambda>d. \<not> text_space d) t) # text_words (dropWhile (\<lambda>d. \<not> text_space d) t))"
  by auto
termination
proof (relation "measure length", simp_all)
  fix s c t
  assume d: "dropWhile text_space s = c # t"
  have "length (dropWhile (\<lambda>d. \<not> text_space d) t) \<le> length t" by (rule length_dropWhile_le)
  also have "\<dots> < length (dropWhile text_space s)" by (simp add: d)
  also have "\<dots> \<le> length s" by (rule length_dropWhile_le)
  finally show "length (dropWhile (\<lambda>d. \<not> text_space d) t) < length s" .
qed

declare text_words.simps [simp del]

text \<open>The texts a user wrote in a pull request, of one kind.\<close>

fun written :: "unicode \<Rightarrow> utext \<Rightarrow> pull_request_dto \<Rightarrow> source_type \<Rightarrow> utext set" where
  "written u who p pull_request =
     {t. toLocaleLowerCase u (pr_author p) = who \<and> (t = pr_title p \<or> t = pr_body p)}"
| "written u who p review =
     {v_body r |r. r \<in> set (pr_reviews p) \<and> toLocaleLowerCase u (v_author r) = who}"
| "written u who p review_comment =
     {c_body c |r c. r \<in> set (pr_reviews p) \<and> c \<in> set (v_comments r)
        \<and> toLocaleLowerCase u (c_author c) = who}"

definition grounded_evidence :: "unicode \<Rightarrow> collected_data \<Rightarrow> evidence \<Rightarrow> bool" where
  "grounded_evidence u d e \<longleftrightarrow>
     \<not> unstructured_reference u (scoreRationale e) \<and>
     toLocaleLowerCase u (author e) = toLocaleLowerCase u (cd_targetUser d) \<and>
     targetRelation e = RELATION_BY_SOURCE_TYPE (sourceType e) \<and>
     MIN_ANALYSIS_EVIDENCE_QUOTE_LENGTH \<le> length (join_with [32] (text_words (quote e))) \<and>
     (\<exists>p t. pull_requests_by_number d (prNumber e) = Some p \<and> permalink e = pr_permalink p \<and>
            t \<in> written u (toLocaleLowerCase u (cd_targetUser d)) p (sourceType e) \<and>
            sublist (join_with [32] (text_words (quote e))) (join_with [32] (text_words t)))"

definition grounded :: "unicode \<Rightarrow> ('a) llm_payload_scheme \<Rightarrow> collected_data \<Rightarrow> bool" where
  "grounded u r d \<longleftrightarrow>
     \<not> unstructured_reference u (summary r) \<and>
     (\<forall>k. \<not> unstructured_reference u (reason (metric r k))
        \<and> \<not> unstructured_reference u (improvement (metric r k))
        \<and> \<not> unstructured_reference u (example_text (metric r k))
        \<and> (evidence_list (metric r k) = [] \<longrightarrow> score (metric r k) \<in> {3, 7 / 2})
        \<and> (\<forall>e \<in> set (evidence_list (metric r k)). grounded_evidence u d e))"

section \<open>Lemmas\<close>

lemma text_words_space [simp]: "text_space c \<Longrightarrow> text_words (c # s) = text_words s"
  by (subst (1 2) text_words.simps) simp

lemma text_words_Nil [simp]: "text_words [] = []"
  by (simp add: text_words.simps)

lemma text_words_word:
  "\<not> text_space c \<Longrightarrow> text_words (c # s) =
     (c # takeWhile (\<lambda>d. \<not> text_space d) s) # text_words (dropWhile (\<lambda>d. \<not> text_space d) s)"
  by (subst text_words.simps) simp

lemma text_words_dropWhile [simp]: "text_words (dropWhile text_space s) = text_words s"
  by (induction s) simp_all

lemma text_words_Cons:
  "\<not> text_space c \<Longrightarrow> text_words (c # s) =
     (if s \<noteq> [] \<and> \<not> text_space (hd s) then (c # hd (text_words s)) # tl (text_words s)
      else [c] # text_words s)"
  by (cases s) (auto simp: text_words_word)

lemma space_10 [simp]: "text_space 10" "text_space 13" "text_space 32"
  by (simp_all add: text_space_def)

lemma hd_crlf: "s \<noteq> [] \<Longrightarrow> text_space (hd (crlf s)) = text_space (hd s)"
  by (cases s rule: crlf.cases) auto

lemma crlf_Nil_iff [simp]: "crlf s = [] \<longleftrightarrow> s = []"
  by (cases s rule: crlf.cases) auto

lemma text_words_crlf [simp]: "text_words (crlf s) = text_words s"
proof (induction s rule: crlf.induct)
  case (3 c d s)
  show ?case
  proof (cases "c = 13")
    case False
    with 3 show ?thesis
      using hd_crlf [of "d # s"]
      by (cases "text_space c") (simp_all add: text_words_Cons)
  qed (use 3 in auto)
qed simp_all

lemma text_words_nonempty: "s \<noteq> [] \<Longrightarrow> \<not> text_space (hd s) \<Longrightarrow> text_words s \<noteq> []"
  by (cases s) (simp_all add: text_words_word)

lemma join_with_Cons_hd: "join_with sep ((c # w) # ws) = c # join_with sep (w # ws)"
  by (cases ws) simp_all

text \<open>A text with its runs of white space collapsed is its words, with a space between them.\<close>

lemma collapse_words:
  "\<exists>pad. list_all text_space pad \<and>
     collapse s = (if s \<noteq> [] \<and> text_space (hd s) then [32] else []) @ join_with [32] (text_words s) @ pad"
proof (induction s rule: collapse.induct)
  case 1
  then show ?case by simp
next
  case (2 c s)
  show ?case
  proof (cases "text_space c")
    case True
    have lead: "dropWhile text_space s \<noteq> [] \<Longrightarrow> \<not> text_space (hd (dropWhile text_space s))"
      by (rule hd_dropWhile)
    from 2(1) [OF True] obtain pad where "list_all text_space pad"
      "collapse (dropWhile text_space s) =
         (if dropWhile text_space s \<noteq> [] \<and> text_space (hd (dropWhile text_space s)) then [32] else [])
         @ join_with [32] (text_words (dropWhile text_space s)) @ pad" by blast
    with lead True show ?thesis
      by (intro exI [of _ pad]) (simp del: dropWhile_eq_Nil_conv split: if_splits)
  next
    case False
    from 2(2) [OF False] obtain pad where pad: "list_all text_space pad"
      "collapse s = (if s \<noteq> [] \<and> text_space (hd s) then [32] else []) @ join_with [32] (text_words s) @ pad"
      by blast
    show ?thesis
    proof (cases "s \<noteq> [] \<and> \<not> text_space (hd s)")
      case True
      then obtain w ws where "text_words s = w # ws"
        using text_words_nonempty [of s] by (cases "text_words s") auto
      with True False pad show ?thesis
        by (auto simp: text_words_Cons join_with_Cons_hd)
    next
      case blank: False
      show ?thesis
      proof (cases "text_words s")
        case Nil
        with False pad blank show ?thesis
          by (intro exI [of _ "(if s \<noteq> [] \<and> text_space (hd s) then [32] else []) @ pad"])
            (auto simp: text_words_Cons)
      next
        case (Cons w ws)
        with False pad blank show ?thesis by (cases s) (auto simp: text_words_Cons)
      qed
    qed
  qed
qed

lemma text_words_ends:
  "w \<in> set (text_words s) \<Longrightarrow> w \<noteq> [] \<and> list_all (\<lambda>c. \<not> text_space c) w"
proof (induction s rule: text_words.induct)
  case (1 s)
  show ?case
  proof (cases "dropWhile text_space s")
    case Nil
    with 1(2) show ?thesis by (simp add: text_words.simps)
  next
    case (Cons c t)
    have "\<not> text_space c" using hd_dropWhile [of text_space s] Cons by simp
    have "text_words s = (c # takeWhile (\<lambda>d. \<not> text_space d) t) # text_words (dropWhile (\<lambda>d. \<not> text_space d) t)"
      by (subst text_words.simps) (simp add: Cons)
    with 1(2) consider "w = c # takeWhile (\<lambda>d. \<not> text_space d) t"
      | "w \<in> set (text_words (dropWhile (\<lambda>d. \<not> text_space d) t))" by auto
    then show ?thesis
    proof cases
      case 1
      then show ?thesis using \<open>\<not> text_space c\<close> by (auto simp: list_all_iff dest: set_takeWhileD)
    next
      case 2
      then show ?thesis by (rule "1.IH" [OF Cons])
    qed
  qed
qed

lemma join_with_hd: "ws \<noteq> [] \<Longrightarrow> hd ws \<noteq> [] \<Longrightarrow> join_with sep ws \<noteq> [] \<and> hd (join_with sep ws) = hd (hd ws)"
  by (induction sep ws rule: join_with.induct) simp_all

lemma join_with_last: "ws \<noteq> [] \<Longrightarrow> last ws \<noteq> [] \<Longrightarrow> join_with sep ws \<noteq> [] \<and> last (join_with sep ws) = last (last ws)"
  by (induction sep ws rule: join_with.induct) simp_all

lemma trim_by_core:
  assumes "list_all sp a" "list_all sp b" "w \<noteq> [] \<Longrightarrow> \<not> sp (hd w) \<and> \<not> sp (last w)"
  shows "trim_by sp (a @ w @ b) = w"
proof (cases w)
  case Nil
  then show ?thesis using assms by (simp add: trim_by_blank_iff)
next
  case (Cons c t)
  have "dropWhile sp (a @ w @ b) = w @ b"
    using assms Cons by (simp add: list_all_iff dropWhile_append2)
  moreover have "dropWhile sp (rev b @ rev w) = rev w"
    using assms Cons by (subst dropWhile_append2) (auto simp: list_all_iff dropWhile_eq_self_iff hd_rev simp del: rev.simps)
  ultimately show ?thesis by (simp add: trim_by_def)
qed

lemma normalizeEvidenceText_words: "normalizeEvidenceText s = join_with [32] (text_words s)"
proof -
  obtain pad where pad: "list_all text_space pad"
    "collapse (crlf s) = (if crlf s \<noteq> [] \<and> text_space (hd (crlf s)) then [32] else [])
       @ join_with [32] (text_words s) @ pad"
    using collapse_words [of "crlf s"] by auto
  have ends: "\<not> text_space (hd (join_with [32] (text_words s))) \<and> \<not> text_space (last (join_with [32] (text_words s)))"
    if "join_with [32] (text_words s) \<noteq> []"
  proof -
    from that have ne: "text_words s \<noteq> []" by auto
    then have "hd (text_words s) \<in> set (text_words s)" "last (text_words s) \<in> set (text_words s)"
      by simp_all
    then show ?thesis
      using ne text_words_ends join_with_hd join_with_last by (metis list_all_iff hd_in_set last_in_set)
  qed
  show ?thesis
    unfolding normalizeEvidenceText_def text_trim_def pad(2)
    by (rule trim_by_core) (use pad(1) ends in auto)
qed

lemma owned_written:
  "(s, r, t) \<in> set (collectOwnedActivities u p who)
     \<longleftrightarrow> r = RELATION_BY_SOURCE_TYPE s \<and> t \<in> written u who p s"
  by (cases s) (auto simp: collectOwnedActivities_def split: if_splits)

lemma quote_issues_empty:
  assumes "targetRelation e = RELATION_BY_SOURCE_TYPE (sourceType e)"
  shows "quote_issues u who p e = [] \<longleftrightarrow>
    MIN_ANALYSIS_EVIDENCE_QUOTE_LENGTH \<le> length (join_with [32] (text_words (quote e))) \<and>
    (\<exists>t \<in> written u who p (sourceType e).
       sublist (join_with [32] (text_words (quote e))) (join_with [32] (text_words t)))"
proof -
  let ?found = "list_ex (\<lambda>(s, r, t). s = sourceType e \<and> r = targetRelation e \<and>
    text_includes (normalizeEvidenceText t) (normalizeEvidenceText (quote e))) (collectOwnedActivities u p who)"
  have "?found \<longleftrightarrow> (\<exists>s r t. (s, r, t) \<in> set (collectOwnedActivities u p who) \<and> s = sourceType e
      \<and> r = targetRelation e \<and> text_includes (normalizeEvidenceText t) (normalizeEvidenceText (quote e)))"
    by (auto simp: list_ex_iff)
  then show ?thesis
    using assms by (auto simp: quote_issues_def Let_def owned_written normalizeEvidenceText_words text_includes_def)
qed

lemma evidence_issues_empty:
  "evidence_issues u (toLocaleLowerCase u (cd_targetUser d)) (pull_requests_by_number d) e = []
     \<longleftrightarrow> grounded_evidence u d e"
  by (cases "targetRelation e = RELATION_BY_SOURCE_TYPE (sourceType e)";
      cases "pull_requests_by_number d (prNumber e)")
    (auto simp: evidence_issues_def grounded_evidence_def quote_issues_empty)

lemma metric_issues_empty:
  "metric_issues u who prs k m = [] \<longleftrightarrow>
     (evidence_list m = [] \<longrightarrow> score m \<in> {3, 7 / 2}) \<and>
     \<not> unstructured_reference u (reason m) \<and> \<not> unstructured_reference u (improvement m) \<and>
     \<not> unstructured_reference u (example_text m) \<and>
     (\<forall>e \<in> set (evidence_list m). evidence_issues u who prs e = [])"
proof -
  have "(\<forall>x \<in> set (enumerate 0 (evidence_list m)). evidence_issues u who prs (snd x) = [])
    \<longleftrightarrow> (\<forall>e \<in> snd ` set (enumerate 0 (evidence_list m)). evidence_issues u who prs e = [])" by blast
  also have "snd ` set (enumerate 0 (evidence_list m)) = set (evidence_list m)"
    by (simp flip: set_map)
  finally show ?thesis by (auto simp: metric_issues_def case_prod_unfold)
qed

lemma no_issues_grounded: "validateAnalysisEvidence u r d = [] \<longleftrightarrow> grounded u r d"
  by (auto simp: validateAnalysisEvidence_def Let_def metric_issues_empty evidence_issues_empty
      grounded_def all_metric_keys)

end
