(* ===== verification/ResultSchema.thy ===== *)
theory ResultSchema
  imports Json AnalysisResult
begin

text \<open>
  The shape the strict schemas of \<open>src/src/analysis/analysis-result.schema.ts\<close> ask of a parsed
  JSON value: \<open>analysisPayloadSchema.safeParse\<close> on any value, and \<open>analysisResultSchema.parse\<close> of
  a payload with its metadata. A member counts by its last occurrence, as \<open>JSON.parse\<close> has it.
\<close>

section \<open>Shapes\<close>

text \<open>A strict object: it has no other keys.\<close>

definition strict_object :: "string list \<Rightarrow> json \<Rightarrow> (string \<Rightarrow> json option) option" where
  "strict_object keys v =
     (case v of
        JObj kvs \<Rightarrow> if list_all (\<lambda>kv. fst kv \<in> set (map units keys)) kvs
                    then Some (\<lambda>k. get_property (units k) kvs) else None
      | _ \<Rightarrow> None)"

fun text_of_json :: "json option \<Rightarrow> utext option" where
  "text_of_json (Some (JStr s)) = Some s"
| "text_of_json _ = None"

text \<open>\<open>z.number()\<close> refuses the infinities; \<open>.int()\<close> fractions too.\<close>

fun number_of_json :: "json option \<Rightarrow> rat option" where
  "number_of_json (Some (JNum q)) = q"
| "number_of_json _ = None"

definition int_of_json :: "json option \<Rightarrow> int option" where
  "int_of_json v = (case number_of_json v of None \<Rightarrow> None
     | Some q \<Rightarrow> if q = of_int \<lfloor>q\<rfloor> then Some \<lfloor>q\<rfloor> else None)"

definition enum_of_json :: "(string \<times> 'a) list \<Rightarrow> json option \<Rightarrow> 'a option" where
  "enum_of_json entries v =
     Option.bind (text_of_json v) (map_of (map (\<lambda>(k, a). (units k, a)) entries))"

definition array_of_json :: "json option \<Rightarrow> json list option" where
  "array_of_json v = (case v of Some (JArr vs) \<Rightarrow> Some vs | _ \<Rightarrow> None)"

definition analysisEvidenceSourceTypeSchema :: "json option \<Rightarrow> source_type option" where
  "analysisEvidenceSourceTypeSchema =
     enum_of_json [(''pull_request'', pull_request), (''review'', review), (''review_comment'', review_comment)]"

definition analysisEvidenceRelationSchema :: "json option \<Rightarrow> target_relation option" where
  "analysisEvidenceRelationSchema =
     enum_of_json [(''target_authored_pr'', target_authored_pr),
       (''target_authored_review'', target_authored_review),
       (''target_authored_review_comment'', target_authored_review_comment)]"

definition evidence_of_json :: "json \<Rightarrow> evidence option" where
  "evidence_of_json v =
     Option.bind (strict_object [''prNumber'', ''permalink'', ''author'', ''sourceType'',
         ''targetRelation'', ''quote'', ''scoreRationale''] v) (\<lambda>get.
     Option.bind (int_of_json (get ''prNumber'')) (\<lambda>n.
     Option.bind (text_of_json (get ''permalink'')) (\<lambda>l.
     Option.bind (text_of_json (get ''author'')) (\<lambda>a.
     Option.bind (analysisEvidenceSourceTypeSchema (get ''sourceType'')) (\<lambda>s.
     Option.bind (analysisEvidenceRelationSchema (get ''targetRelation'')) (\<lambda>r.
     Option.bind (text_of_json (get ''quote'')) (\<lambda>q.
     Option.bind (text_of_json (get ''scoreRationale'')) (\<lambda>x.
     Some \<lparr>prNumber = n, permalink = l, author = a, sourceType = s, targetRelation = r,
           quote = q, scoreRationale = x\<rparr>))))))))"

definition evaluation_of_json :: "json \<Rightarrow> metric_evaluation option" where
  "evaluation_of_json v =
     Option.bind (strict_object [''score'', ''reason'', ''improvement'', ''example'', ''evidence''] v) (\<lambda>get.
     Option.bind (number_of_json (get ''score'')) (\<lambda>q.
     Option.bind (text_of_json (get ''reason'')) (\<lambda>r.
     Option.bind (text_of_json (get ''improvement'')) (\<lambda>i.
     Option.bind (text_of_json (get ''example'')) (\<lambda>x.
     Option.bind (Option.bind (array_of_json (get ''evidence'')) (parse_all evidence_of_json)) (\<lambda>es.
     Some \<lparr>score = q, reason = r, improvement = i, example_text = x, evidence_list = es\<rparr>))))))"

fun metric_name :: "metric_key \<Rightarrow> string" where
  "metric_name mutual_respect = ''mutual_respect''"
| "metric_name conflict_management = ''conflict_management''"
| "metric_name logical_problem_definition = ''logical_problem_definition''"
| "metric_name review_guiding = ''review_guiding''"
| "metric_name documentation = ''documentation''"
| "metric_name knowledge_sharing = ''knowledge_sharing''"
| "metric_name technical_influence = ''technical_influence''"
| "metric_name code_stability = ''code_stability''"

definition payload_of_json :: "json \<Rightarrow> llm_payload option" where
  "payload_of_json v =
     Option.bind (strict_object (map metric_name ANALYSIS_METRIC_KEYS @ [''summary'']) v) (\<lambda>get.
     let m = (\<lambda>k. Option.bind (get (metric_name k)) evaluation_of_json) in
     if list_all (\<lambda>k. m k \<noteq> None) ANALYSIS_METRIC_KEYS
     then map_option (\<lambda>s. \<lparr>metric = (\<lambda>k. the (m k)), summary = s\<rparr>) (text_of_json (get ''summary''))
     else None)"

text \<open>\<open>analysisPayloadSchema.safeParse(value)\<close>\<close>

definition safeParse_payload :: "json \<Rightarrow> llm_payload option" where
  "safeParse_payload v = Option.bind (payload_of_json v) parse_payload"

section \<open>Results\<close>

text \<open>
  \<open>analysisResultSchema.parse({...payload, metadata})\<close>. Its date-time format has four-digit years,
  so the text of the date has 24 characters.
\<close>

definition trimmed_string :: "nat \<Rightarrow> nat \<Rightarrow> string \<Rightarrow> string option" where
  "trimmed_string lo hi s = (let t = js_trim s in if lo \<le> length t \<and> length t \<le> hi then Some t else None)"

definition analysisResultMetadataSchema :: "string \<Rightarrow> utext \<Rightarrow> string \<Rightarrow> int \<Rightarrow> result_metadata option" where
  "analysisResultMetadataSchema requested response prompt time =
     Option.bind (trimmed_string 1 100 requested) (\<lambda>m.
     Option.bind (trimmed 1 100 response) (\<lambda>r.
     Option.bind (trimmed_string 1 100 prompt) (\<lambda>p.
     if length (toISOString time) = 24
     then Some \<lparr>requestedModel = m, responseModel = r, metaPromptVersion = p, generatedAt = time\<rparr>
     else None)))"

definition analysisResultSchema ::
  "llm_payload \<Rightarrow> string \<Rightarrow> utext \<Rightarrow> string \<Rightarrow> int \<Rightarrow> llm_result option" where
  "analysisResultSchema p requested response prompt time =
     Option.bind (parse_payload p) (\<lambda>q.
     Option.bind (analysisResultMetadataSchema requested response prompt time) (\<lambda>m.
     Some (llm_payload.extend q (llm_result.fields m))))"

section \<open>Parsing what was parsed\<close>

lemma trim_by_idem: "trim_by sp (trim_by sp s) = trim_by sp s"
proof (cases "trim_by sp s")
  case (Cons c t)
  have "dropWhile sp s \<noteq> []"
    using Cons unfolding trim_by_def by (metis dropWhile.simps(1) list.distinct(1) rev.simps(1))
  then have "\<not> sp (hd (dropWhile sp s))" by (rule hd_dropWhile)
  moreover have "prefix (trim_by sp s) (dropWhile sp s)"
    using suffix_dropWhile [of sp "rev (dropWhile sp s)"] by (simp add: trim_by_def suffix_to_prefix)
  ultimately have "dropWhile sp (trim_by sp s) = trim_by sp s"
    using Cons by (auto simp: prefix_def dropWhile_eq_self_iff)
  then show ?thesis by (simp add: trim_by_def [of sp "trim_by sp s"]) (simp add: trim_by_def)
qed simp

lemma trimmed_idem: "trimmed lo hi s = Some t \<Longrightarrow> trimmed lo hi t = Some t"
  by (auto simp: trimmed_def Let_def text_trim_def trim_by_idem split: if_splits)

lemma parse_evidence_idem: "parse_evidence e = Some e' \<Longrightarrow> parse_evidence e' = Some e'"
  by (auto simp: parse_evidence_def bind_eq_Some_conv trimmed_idem split: if_splits)

lemma parse_all_idem:
  "(\<And>x y. f x = Some y \<Longrightarrow> f y = Some y) \<Longrightarrow> parse_all f xs = Some ys \<Longrightarrow> parse_all f ys = Some ys"
  by (induction xs arbitrary: ys) (auto split: option.splits)

lemma parse_evaluation_idem:
  assumes "parse_evaluation m = Some m'"
  shows "parse_evaluation m' = Some m'"
proof -
  from assms obtain r i x es where parts: "trimmed 1 4000 (reason m) = Some r"
      "trimmed 1 2000 (improvement m) = Some i" "trimmed 1 3000 (example_text m) = Some x"
      "parse_all parse_evidence (evidence_list m) = Some es"
    and ok: "valid_score (score m)" "length es \<le> 12"
    and m': "m' = m\<lparr>reason := r, improvement := i, example_text := x, evidence_list := es\<rparr>"
    by (auto simp: parse_evaluation_def bind_eq_Some_conv split: if_splits)
  have "parse_all parse_evidence es = Some es"
    by (rule parse_all_idem [OF parse_evidence_idem parts(4)])
  with parts(1-3) ok show ?thesis by (simp add: parse_evaluation_def m' trimmed_idem)
qed

lemma parse_payload_idem: "parse_payload p = Some q \<Longrightarrow> parse_payload q = Some q"
proof -
  assume p: "parse_payload p = Some q"
  have m: "parse_evaluation (metric q k) = Some (metric q k)" for k
    by (rule parse_evaluation_idem [OF parse_payload_metric [OF p]])
  moreover have "trimmed 1 3000 (summary q) = Some (summary q)"
    using p by (auto simp: parse_payload_def trimmed_idem split: if_splits)
  ultimately show ?thesis by (simp add: parse_payload_def list_all_iff)
qed

end
