(* ===== verification/JsonText.thy ===== *)
theory JsonText
  imports JsBuffer Activity
begin

text \<open>
  \<open>JSON.stringify\<close> of the values the program sends to the model: every unpaired surrogate is
  escaped, as are quotes, backslashes and control characters. The numbers among them are
  integers, which print as their decimal digits. \<open>json_round_trip\<close> proves that \<open>JSON.parse\<close> reads
  every such text back as the value it was made of.
\<close>

section \<open>Printing\<close>

definition hex_unit :: "nat \<Rightarrow> nat" where
  "hex_unit n = (if n < 10 then 48 + n else 87 + n)"

definition hex_escape :: "nat \<Rightarrow> utext" where
  "hex_escape c = [92, 117, hex_unit (c div 4096), hex_unit (c div 256 mod 16),
     hex_unit (c div 16 mod 16), hex_unit (c mod 16)]"

definition escape_unit :: "nat \<Rightarrow> utext" where
  "escape_unit c =
     (if c = 34 \<or> c = 92 then [92, c]
      else if c = 8 then [92, 98] else if c = 9 then [92, 116] else if c = 10 then [92, 110]
      else if c = 12 then [92, 102] else if c = 13 then [92, 114]
      else if c < 32 \<or> high_surrogate c \<or> low_surrogate c then hex_escape c
      else [c])"

fun escape_text :: "utext \<Rightarrow> utext" where
  "escape_text [] = []"
| "escape_text [c] = escape_unit c"
| "escape_text (c # d # s) =
     (if high_surrogate c \<and> low_surrogate d then c # d # escape_text s
      else escape_unit c @ escape_text (d # s))"

definition quoted :: "utext \<Rightarrow> utext" where
  "quoted s = 34 # escape_text s @ [34]"

fun number_text :: "rat option \<Rightarrow> utext" where
  "number_text None = units ''null''"
| "number_text (Some q) = units (js_string_of_int \<lfloor>q\<rfloor>)"

fun JSON_stringify :: "json \<Rightarrow> utext" where
  "JSON_stringify JNull = units ''null''"
| "JSON_stringify (JBool b) = (if b then units ''true'' else units ''false'')"
| "JSON_stringify (JNum q) = number_text q"
| "JSON_stringify (JStr s) = quoted s"
| "JSON_stringify (JArr vs) = 91 # join_with [44] (map JSON_stringify vs) @ [93]"
| "JSON_stringify (JObj kvs) =
     123 # join_with [44] (map (\<lambda>(k, v). quoted k @ 58 # JSON_stringify v) kvs) @ [125]"

text \<open>Values of UTF-16 texts and of integers that are safe.\<close>

definition proper_text :: "utext \<Rightarrow> bool" where
  "proper_text s \<longleftrightarrow> list_all (\<lambda>c. c < 65536) s"

fun printable :: "json \<Rightarrow> bool" where
  "printable JNull \<longleftrightarrow> True"
| "printable (JBool b) \<longleftrightarrow> True"
| "printable (JNum q) \<longleftrightarrow> (case q of None \<Rightarrow> False | Some r \<Rightarrow> r = of_int \<lfloor>r\<rfloor> \<and> js_isSafeInteger \<lfloor>r\<rfloor>)"
| "printable (JStr s) \<longleftrightarrow> proper_text s"
| "printable (JArr vs) \<longleftrightarrow> list_all printable vs"
| "printable (JObj kvs) \<longleftrightarrow> list_all (\<lambda>(k, v). proper_text k \<and> printable v) kvs"

section \<open>Reading strings\<close>

lemma hex_value_unit: "n < 16 \<Longrightarrow> hex_value (hex_unit n) = Some n"
  by (simp add: hex_value_def hex_unit_def)

lemma hex_digits:
  "4096 * (c div 4096) + 256 * (c div 256 mod 16) + 16 * (c div 16 mod 16) + c mod 16 = (c :: nat)"
proof -
  have split: "16 * (m div 16) + m mod 16 = m" for m :: nat by simp
  have "c div 256 = c div 16 div 16" "c div 4096 = c div 16 div 16 div 16"
    by (simp_all flip: div_mult2_eq)
  with split [of c] split [of "c div 16"] split [of "c div 16 div 16"] show ?thesis by (simp only:)
qed

lemma take_four: "take 4 (a # b # c # d # t) = [a, b, c, d]"
  by (simp add: numeral_eq_Suc)

lemma hex4_escape:
  "c < 65536 \<Longrightarrow> hex4 (hex_unit (c div 4096) # hex_unit (c div 256 mod 16) # hex_unit (c div 16 mod 16)
    # hex_unit (c mod 16) # t) = Some c"
  using hex_digits [of c] less_mult_imp_div_less [of c 16 4096]
  by (simp add: hex4_def take_four hex_value_unit)

lemma parse_escape_unit:
  "c < 65536 \<Longrightarrow> parse_string (escape_unit c @ t) = cons_unit c (parse_string t)"
  using hex4_escape [of c t]
  by (auto simp: escape_unit_def hex_escape_def simple_escape_def high_surrogate_def low_surrogate_def)

lemma parse_escape_text:
  "proper_text s \<Longrightarrow> parse_string (escape_text s @ 34 # t) = Some (s, t)"
proof (induction s rule: escape_text.induct)
  case (3 c d s)
  then show ?case
    by (auto simp: proper_text_def parse_escape_unit high_surrogate_def low_surrogate_def)
qed (simp_all add: proper_text_def parse_escape_unit)

section \<open>Reading numbers\<close>

definition closes :: "utext \<Rightarrow> bool" where
  "closes r \<longleftrightarrow> r = [] \<or> hd r = 44 \<or> hd r = 93 \<or> hd r = 125"

lemma nat_digits_hd: "hd (units (nat_digits n)) = 48 \<longleftrightarrow> n = 0"
proof (induction n rule: nat_digits.induct)
  case (1 n)
  have ne: "nat_digits m \<noteq> []" for m by (subst nat_digits.simps) simp
  show ?case
  proof (cases "n < 10")
    case True
    then show ?thesis by (subst nat_digits.simps) (simp del: js_digit_char.simps)
  next
    case False
    then have "units (nat_digits n) = units (nat_digits (n div 10)) @ [of_char (js_digit_char (n mod 10))]"
      by (subst nat_digits.simps) simp
    moreover have "units (nat_digits (n div 10)) \<noteq> []" using ne by (simp add: units_def)
    ultimately show ?thesis using 1 [OF False] False by simp
  qed
qed

lemma takeWhile_closes:
  assumes "list_all json_digit ds" "closes r"
  shows "takeWhile json_digit (ds @ r) = ds" "dropWhile json_digit (ds @ r) = r"
  using assms
  by (cases r; auto simp: closes_def list_all_iff json_digit_def takeWhile_append dropWhile_append)+

lemma parse_int_digits:
  assumes "closes r"
  shows "parse_int (units (nat_digits n) @ r) = Some (n, r)"
proof -
  have ne: "units (nat_digits n) \<noteq> []" by (subst nat_digits.simps) (simp add: units_def)
  note ds = nat_digits_read [of n] nat_digits_hd [of n]
  show ?thesis
  proof (cases "n = 0")
    case True
    then show ?thesis by (simp add: parse_int_def nat_digits.simps)
  next
    case False
    obtain c t where ct: "units (nat_digits n) = c # t" using ne by (cases "units (nat_digits n)") auto
    have "digits (units (nat_digits n) @ r) = units (nat_digits n)" "after_digits (units (nat_digits n) @ r) = r"
      using takeWhile_closes [of "units (nat_digits n)" r] ds(1) assms by (simp_all add: digits_def after_digits_def)
    moreover have "c \<noteq> 48" "json_digit c" using ct ds False by auto
    ultimately show ?thesis using ds(1) by (simp add: parse_int_def ct)
  qed
qed

lemma parse_number_int:
  assumes "closes r" "js_isSafeInteger n"
  shows "parse_number (units (js_string_of_int n) @ r) = Some (JNum (Some (of_int n)), r)"
proof -
  have rest: "parse_fraction r = Some (0, r)" "parse_exponent r = Some (1, r)"
    using assms(1) by (auto simp: closes_def parse_fraction_def parse_exponent_def split: list.splits)
  have ne: "units (nat_digits m) \<noteq> []" for m by (subst nat_digits.simps) (simp add: units_def)
  have hd: "json_digit (hd (units (nat_digits m)))" for m
    using nat_digits_read [of m] ne [of m] by (cases "units (nat_digits m)") auto
  have minus: "hd (units (nat_digits m) @ r) \<noteq> 45" for m
    using hd [of m] ne [of m] by (auto simp: json_digit_def hd_append)
  have small: "to_double (of_int n) = Some (of_int n)"
    using assms(2) by (intro to_double_int) (auto simp: js_isSafeInteger_def max_safe_integer_def)
  show ?thesis
    using rest small ne minus parse_int_digits [OF assms(1)]
    by (simp add: js_string_of_int_def parse_number_def)
qed

section \<open>Reading values\<close>

text \<open>Enough fuel reads the value.\<close>

definition reads :: "(nat \<Rightarrow> 'a parser) \<Rightarrow> utext \<Rightarrow> 'a \<Rightarrow> utext \<Rightarrow> bool" where
  "reads p s x r \<longleftrightarrow> (\<exists>n0. \<forall>n \<ge> n0. p n s = Some (x, r))"

lemma readsI: "(\<And>n. n0 \<le> n \<Longrightarrow> p n s = Some (x, r)) \<Longrightarrow> reads p s x r"
  unfolding reads_def by blast

lemma skip_visible [simp]: "\<not> json_space c \<Longrightarrow> skip (c # s) = c # s"
  by (simp add: skip_def)

lemma visible_units [simp]:
  "\<not> json_space 34" "\<not> json_space 44" "\<not> json_space 58" "\<not> json_space 91" "\<not> json_space 93"
  "\<not> json_space 123" "\<not> json_space 125"
  by (simp_all add: json_space_def)

text \<open>What a printed value begins with.\<close>

definition opens :: "nat \<Rightarrow> bool" where
  "opens c \<longleftrightarrow> \<not> json_space c \<and> c \<noteq> 44 \<and> c \<noteq> 93 \<and> c \<noteq> 125"

lemma number_start:
  obtains c t where "units (js_string_of_int n) = c # t" "c = 45 \<or> json_digit c"
proof -
  define ds where "ds = units (nat_digits (nat \<bar>n\<bar>))"
  have "ds \<noteq> []" unfolding ds_def by (subst nat_digits.simps) (simp add: units_def)
  then obtain c t where ct: "ds = c # t" by (cases ds) auto
  with nat_digits_read [of "nat \<bar>n\<bar>"] have "json_digit c" by (simp add: ds_def)
  with ct that show ?thesis
    by (cases "n < 0") (auto simp: js_string_of_int_def ds_def)
qed

lemma stringify_opens:
  assumes "printable v"
  obtains c t where "JSON_stringify v = c # t" "opens c"
proof (cases v)
  case (JNum q)
  with assms obtain r where q: "q = Some r" by (cases q) auto
  obtain c t where "units (js_string_of_int \<lfloor>r\<rfloor>) = c # t" "c = 45 \<or> json_digit c" by (rule number_start)
  with that JNum q show ?thesis by (auto simp: opens_def json_space_def json_digit_def)
next
  case (JBool b)
  with that show ?thesis by (cases b) (auto simp: opens_def json_space_def)
qed (use that in \<open>auto simp: opens_def json_space_def quoted_def\<close>)

lemma reads_elements:
  assumes "vs \<noteq> []" "\<And>v r. v \<in> set vs \<Longrightarrow> closes r \<Longrightarrow> reads parse_value (JSON_stringify v @ r) v r"
  shows "reads parse_elements (join_with [44] (map JSON_stringify vs) @ 93 # r) vs r"
  using assms
proof (induction vs)
  case Nil
  then show ?case by simp
next
  case (Cons v vs)
  show ?case
  proof (cases vs)
    case Nil
    obtain n0 where n0: "\<forall>n \<ge> n0. parse_value n (JSON_stringify v @ 93 # r) = Some (v, 93 # r)"
      using Cons.prems(2) [of v "93 # r"] by (auto simp: reads_def closes_def)
    show ?thesis
    proof (rule readsI [of "Suc n0"])
      fix n assume "Suc n0 \<le> n"
      with n0 Nil show "parse_elements n (join_with [44] (map JSON_stringify (v # vs)) @ 93 # r) = Some (v # vs, r)"
        by (cases n) (simp_all add: elements_step_def rest_step_def)
    qed
  next
    case more: (Cons w ws)
    let ?rest = "join_with [44] (map JSON_stringify vs) @ 93 # r"
    obtain n1 where n1: "\<forall>n \<ge> n1. parse_value n (JSON_stringify v @ 44 # ?rest) = Some (v, 44 # ?rest)"
      using Cons.prems(2) [of v "44 # ?rest"] by (auto simp: reads_def closes_def)
    have "reads parse_elements ?rest vs r"
      by (rule Cons.IH) (use more Cons.prems(2) in auto)
    then obtain n2 where n2: "\<forall>n \<ge> n2. parse_elements n ?rest = Some (vs, r)"
      by (auto simp: reads_def)
    have printed: "join_with [44] (map JSON_stringify (v # vs)) @ 93 # r = JSON_stringify v @ 44 # ?rest"
      using more by simp
    show ?thesis
    proof (rule readsI [of "Suc (max n1 n2)"])
      fix n assume "Suc (max n1 n2) \<le> n"
      with n1 n2 show "parse_elements n (join_with [44] (map JSON_stringify (v # vs)) @ 93 # r) = Some (v # vs, r)"
        unfolding printed by (cases n) (simp_all add: elements_step_def rest_step_def)
    qed
  qed
qed

abbreviation member_text :: "utext \<times> json \<Rightarrow> utext" where
  "member_text kv \<equiv> (case kv of (k, v) \<Rightarrow> quoted k @ 58 # JSON_stringify v)"

lemma member_read:
  assumes "proper_text k" "printable v" "parse_value n (JSON_stringify v @ r) = Some (v, r)"
  shows "member_step (parse_value n) (quoted k @ 58 # JSON_stringify v @ r) = Some ((k, v), r)"
  using assms parse_escape_text [OF assms(1)]
  by (simp add: member_step_def quoted_def starts_def)

lemma reads_members:
  assumes "kvs \<noteq> []" "\<And>k v r. (k, v) \<in> set kvs \<Longrightarrow> closes r \<Longrightarrow> reads parse_value (JSON_stringify v @ r) v r"
    and "list_all (\<lambda>(k, v). proper_text k \<and> printable v) kvs"
  shows "reads parse_members (join_with [44] (map member_text kvs) @ 125 # r) kvs r"
  using assms
proof (induction kvs)
  case Nil
  then show ?case by simp
next
  case (Cons kv kvs)
  obtain k v where kv: "kv = (k, v)" by (cases kv)
  have ok: "proper_text k" "printable v" using Cons.prems(3) kv by auto
  show ?case
  proof (cases kvs)
    case Nil
    obtain n0 where n0: "\<forall>n \<ge> n0. parse_value n (JSON_stringify v @ 125 # r) = Some (v, 125 # r)"
      using Cons.prems(2) [of k v "125 # r"] kv by (auto simp: reads_def closes_def)
    show ?thesis
    proof (rule readsI [of "Suc n0"])
      fix n assume "Suc n0 \<le> n"
      with n0 Nil member_read [OF ok] kv
      show "parse_members n (join_with [44] (map member_text (kv # kvs)) @ 125 # r) = Some (kv # kvs, r)"
        by (cases n) (simp_all add: members_step_def rest_step_def)
    qed
  next
    case more: (Cons w ws)
    let ?rest = "join_with [44] (map member_text kvs) @ 125 # r"
    obtain n1 where n1: "\<forall>n \<ge> n1. parse_value n (JSON_stringify v @ 44 # ?rest) = Some (v, 44 # ?rest)"
      using Cons.prems(2) [of k v "44 # ?rest"] kv by (auto simp: reads_def closes_def)
    have "reads parse_members ?rest kvs r"
      by (rule Cons.IH) (use more Cons.prems(2,3) in auto)
    then obtain n2 where n2: "\<forall>n \<ge> n2. parse_members n ?rest = Some (kvs, r)"
      by (auto simp: reads_def)
    have printed: "join_with [44] (map member_text (kv # kvs)) @ 125 # r = quoted k @ 58 # JSON_stringify v @ 44 # ?rest"
      using more kv by simp
    show ?thesis
    proof (rule readsI [of "Suc (max n1 n2)"])
      fix n assume "Suc (max n1 n2) \<le> n"
      with n1 n2 member_read [OF ok] kv
      show "parse_members n (join_with [44] (map member_text (kv # kvs)) @ 125 # r) = Some (kv # kvs, r)"
        unfolding printed by (cases n) (simp_all add: members_step_def rest_step_def)
    qed
  qed
qed

lemma reads_value_Suc:
  assumes "reads p s x r" "\<And>n. p n s = Some (x, r) \<Longrightarrow> parse_value (Suc n) t = Some (y, q)"
  shows "reads parse_value t y q"
proof -
  obtain n0 where n0: "\<forall>n \<ge> n0. p n s = Some (x, r)" using assms(1) by (auto simp: reads_def)
  show ?thesis
  proof (rule readsI [of "Suc n0"])
    fix n assume "Suc n0 \<le> n"
    with n0 assms(2) show "parse_value n t = Some (y, q)" by (cases n) auto
  qed
qed

lemma reads_at_once: "(\<And>n. parse_value (Suc n) s = Some (x, r)) \<Longrightarrow> reads parse_value s x r"
  by (rule readsI [of "Suc 0"]) (metis Suc_le_D)

lemma number_opens: "closes r \<Longrightarrow> js_isSafeInteger n \<Longrightarrow>
    parse_value (Suc m) (units (js_string_of_int n) @ r) = Some (JNum (Some (of_int n)), r)"
proof -
  assume asm: "closes r" "js_isSafeInteger n"
  obtain c t where ct: "units (js_string_of_int n) = c # t" and "c = 45 \<or> json_digit c"
    by (rule number_start)
  then have "\<not> json_space c" "c \<notin> {34, 123, 91, 116, 102, 110}" by (auto simp: json_space_def json_digit_def)
  with ct parse_number_int [OF asm] show ?thesis by (simp add: value_step_def)
qed

lemma literal_reads [simp]:
  "literal ''true'' v (116 # 114 # 117 # 101 # r) = Some (v, r)"
  "literal ''false'' v (102 # 97 # 108 # 115 # 101 # r) = Some (v, r)"
  "literal ''null'' v (110 # 117 # 108 # 108 # r) = Some (v, r)"
  by (simp_all add: literal_def)

lemma stringify_reads:
  "printable v \<Longrightarrow> closes r \<Longrightarrow> reads parse_value (JSON_stringify v @ r) v r"
proof (induction v arbitrary: r)
  case (JNum q)
  then show ?case
    using number_opens [of r "\<lfloor>the q\<rfloor>"] by (intro reads_at_once) (cases q; auto)
next
  case (JStr s)
  then show ?case
    using parse_escape_text [of s r] by (intro reads_at_once) (simp add: value_step_def quoted_def)
next
  case (JArr vs)
  show ?case
  proof (cases vs)
    case Nil
    then show ?thesis by (intro reads_at_once) (simp add: value_step_def starts_def)
  next
    case (Cons w ws)
    have read: "reads parse_elements (join_with [44] (map JSON_stringify vs) @ 93 # r) vs r"
      by (rule reads_elements) (use JArr Cons in \<open>auto simp: list_all_iff\<close>)
    have "printable w" using JArr.prems Cons by simp
    then obtain c t where "JSON_stringify w = c # t" "opens c" by (rule stringify_opens)
    then have "\<not> starts 93 (skip (join_with [44] (map JSON_stringify vs) @ 93 # r))"
      using Cons by (cases ws) (auto simp: opens_def starts_def)
    then show ?thesis
      by (intro reads_value_Suc [OF read]) (simp add: value_step_def)
  qed
next
  case (JObj kvs)
  show ?case
  proof (cases kvs)
    case Nil
    then show ?thesis by (intro reads_at_once) (simp add: value_step_def starts_def)
  next
    case (Cons w ws)
    have read: "reads parse_members (join_with [44] (map member_text kvs) @ 125 # r) kvs r"
    proof (rule reads_members)
      show "reads parse_value (JSON_stringify v @ r) v r" if "(k, v) \<in> set kvs" "closes r" for k v r
        by (rule JObj.IH [OF that(1)]) (use that JObj.prems in \<open>auto simp: list_all_iff\<close>)
    qed (use JObj.prems Cons in simp_all)
    have "\<not> starts 125 (skip (join_with [44] (map member_text kvs) @ 125 # r))"
      using Cons by (cases ws; cases w) (auto simp: quoted_def starts_def)
    then show ?thesis
      by (intro reads_value_Suc [OF read]) (simp add: value_step_def)
  qed
qed (auto intro!: reads_at_once simp: value_step_def json_space_def)

lemma json_round_trip: "printable v \<Longrightarrow> JSON_parse (JSON_stringify v) = Some v"
proof -
  assume "printable v"
  then obtain n0 where n0: "\<forall>n \<ge> n0. parse_value n (JSON_stringify v) = Some (v, [])"
    using stringify_reads [of v "[]"] by (auto simp: closes_def reads_def)
  let ?n = "2 * length (JSON_stringify v) + 2"
  have "parse_value ?n (JSON_stringify v) = parse_value (max n0 ?n) (JSON_stringify v)"
    by (rule parse_value_fuel [symmetric]) simp
  with n0 show ?thesis by (simp add: JSON_parse_def skip_def)
qed

interpretation json: codec JSON_stringify JSON_parse printable
  by unfold_locales (rule json_round_trip)

end
