(* ===== verification/CollectionLimits.thy ===== *)
theory CollectionLimits
  imports Errors
begin

text \<open>The limits of an analysis (\<open>src/src/collection/collection-limits.ts\<close>).\<close>

fun COLLECTION_LIMITS :: "collection_limit_kind \<Rightarrow> int" where
  "COLLECTION_LIMITS ChangedPullRequests = 100"
| "COLLECTION_LIMITS ReviewAndCommentNodes = 2000"
| "COLLECTION_LIMITS AnalysisInputTokens = 80000"

text \<open>\<open>if (actual > limit) throw new InputLimitExceededError(kind, limit, actual)\<close>\<close>

definition within_limit :: "collection_limit_kind \<Rightarrow> int \<Rightarrow> err + unit" where
  "within_limit kind actual =
     (if actual > COLLECTION_LIMITS kind
      then Inl (InputLimitExceededError kind (COLLECTION_LIMITS kind) actual) else Inr ())"

lemma within_limit_cases [simp]:
  "within_limit kind n = Inr u \<longleftrightarrow> n \<le> COLLECTION_LIMITS kind"
  "within_limit kind n = Inl e \<longleftrightarrow>
     COLLECTION_LIMITS kind < n \<and> e = InputLimitExceededError kind (COLLECTION_LIMITS kind) n"
  by (auto simp: within_limit_def)

end
