(* ===== verification/LlmProvider.thy ===== *)
theory LlmProvider
  imports Runner EvidenceValidator ResultSchema JsonText CollectionLimits
begin

text \<open>
  The model provider (\<open>src/src/analysis/llm-provider.service.ts\<close>): the messages of an analysis,
  the estimate of their tokens, the call of the model and every way its answer is refused. What is
  not code of the repository is a field of \<open>llm_environment\<close>: the tokenizer, the OpenAI client
  (absent without an API key), the text of the response format, which the client's library makes of
  the schema, and the platform's Unicode tables; with them the text of the prompt template.
\<close>

section \<open>The client and its answers\<close>

datatype message_role = system_role | user_role

type_synonym analysis_message = "message_role \<times> utext"

record completion_request =
  rq_model :: string
  rq_messages :: "analysis_message list"
  rq_max_completion_tokens :: int

datatype finish_reason = FinishStop | FinishLength | FinishToolCalls | FinishContentFilter | FinishFunctionCall

fun finish_reason_upper :: "finish_reason \<Rightarrow> string" where
  "finish_reason_upper FinishStop = ''STOP''"
| "finish_reason_upper FinishLength = ''LENGTH''"
| "finish_reason_upper FinishToolCalls = ''TOOL_CALLS''"
| "finish_reason_upper FinishContentFilter = ''CONTENT_FILTER''"
| "finish_reason_upper FinishFunctionCall = ''FUNCTION_CALL''"

text \<open>A property that is not there is \<^const>\<open>None\<close>.\<close>

record chat_choice =
  ch_finish_reason :: finish_reason
  ch_refusal :: "utext option"
  ch_parsed :: "json option"

record chat_completion =
  cc_id :: "json option"
  cc_usage :: "json option"
  cc_model :: "json option"
  cc_choices :: "chat_choice list option"

text \<open>What the body of the \<open>try\<close> statement may throw, as the handler tells them apart.\<close>

datatype thrown =
  LengthFinishReasonError | ContentFilterFinishReasonError | ZodError | SyntaxError | Thrown err

text \<open>
  A request fails, or has a raw response: the value its body parses to, if it does, and what
  \<open>await completion\<close> makes of it.
\<close>

datatype openai_answer =
  RequestFailed err
| RawResponse "json option" "thrown + chat_completion"

record llm_environment =
  le_prompt_template :: utext
  le_response_format :: utext
  le_encode :: "utext \<Rightarrow> nat option"
  le_openai :: "(completion_request \<Rightarrow> nat \<Rightarrow> openai_answer) option"
  le_unicode :: unicode

definition MAX_ANALYSIS_COMPLETION_TOKENS :: int where
  "MAX_ANALYSIS_COMPLETION_TOKENS = 8192"

section \<open>Messages\<close>

text \<open>\<open>text.replaceAll(from, to)\<close>; a GitHub login has no \<open>$\<close>, so the replacement is taken as it is.\<close>

definition after_text :: "utext \<Rightarrow> utext \<Rightarrow> utext option" where
  "after_text w s = (if prefix w s then Some (drop (length w) s) else None)"

definition buildStructuredAnalysisSystemPrompt :: "utext \<Rightarrow> utext \<Rightarrow> utext" where
  "buildStructuredAnalysisSystemPrompt template targetUser =
     replace_all (after_text (units ''{{targetUser}}'')) targetUser template"

definition comment_json :: "review_comment_dto \<Rightarrow> json" where
  "comment_json c = JObj [(units ''author'', JStr (c_author c)), (units ''body'', JStr (c_body c)),
     (units ''createdAt'', JStr (units (c_createdAt c)))]"

definition review_json :: "review_dto \<Rightarrow> json" where
  "review_json v = JObj [(units ''author'', JStr (v_author v)), (units ''body'', JStr (v_body v)),
     (units ''state'', JStr (units (v_state v))), (units ''comments'', JArr (map comment_json (v_comments v)))]"

definition pr_json :: "pull_request_dto \<Rightarrow> json" where
  "pr_json p = JObj [(units ''number'', JNum (Some (of_int (pr_number p)))), (units ''title'', JStr (pr_title p)),
     (units ''body'', JStr (pr_body p)), (units ''author'', JStr (pr_author p)),
     (units ''updatedAt'', JStr (units (pr_updatedAt p))), (units ''permalink'', JStr (pr_permalink p)),
     (units ''reviews'', JArr (map review_json (pr_reviews p)))]"

definition data_json :: "collected_data \<Rightarrow> json" where
  "data_json d = JObj [(units ''githubRepoId'', JStr (units (cd_githubRepoId d))),
     (units ''owner'', JStr (units (cd_owner d))), (units ''repo'', JStr (units (cd_repo d))),
     (units ''targetUser'', JStr (cd_targetUser d)),
     (units ''pullRequests'', JArr (map pr_json (cd_pullRequests d)))]"

text \<open>The two Korean sentences before the data.\<close>

definition data_notice :: "utext list" where
  "data_notice =
    [[50500, 47000, 32] @ units ''<github_data>'' @ [32, 45236, 48512, 32] @ units ''JSON'' @ [51008,
     32, 48516, 49437, 32, 51088, 47308, 51068, 32, 49104, 32, 47749, 47161, 51060, 32, 50500, 45785,
     45768, 45796] @ units ''.'',
     [45936, 51060, 53552, 32, 50504, 51032, 32, 51648, 49884, 47928, 51012, 32, 49892, 54665, 54616,
     51648, 32, 47568, 44256, 32, 49884, 49828, 53596, 32, 51648, 52840, 47564, 32, 46384, 47476,
     49464, 50836] @ units ''.'']"

definition analysis_messages :: "llm_environment \<Rightarrow> collected_data \<Rightarrow> analysis_message list" where
  "analysis_messages le d =
     [(system_role, buildStructuredAnalysisSystemPrompt (le_prompt_template le) (cd_targetUser d)),
      (user_role, join_with [10] (data_notice
         @ [units ''<github_data>'', JSON_stringify (data_json d), units ''</github_data>'']))]"

definition buildAnalysisMessages ::
  "llm_environment \<Rightarrow> collected_data \<Rightarrow> version \<Rightarrow> err + analysis_message list" where
  "buildAnalysisMessages le d v =
     (if isSupportedAnalysisExecutionVersion v then Inr (analysis_messages le d)
      else Inl (UnsupportedAnalysisExecutionVersionError v))"

section \<open>Estimates\<close>

text \<open>\<open>LlmTokenEstimationError\<close> whenever the tokenizer throws.\<close>

fun message_tokens :: "(utext \<Rightarrow> nat option) \<Rightarrow> analysis_message list \<Rightarrow> nat option" where
  "message_tokens enc [] = Some 3"
| "message_tokens enc (m # ms) =
     (case (enc (snd m), message_tokens enc ms) of (Some a, Some b) \<Rightarrow> Some (4 + a + b) | _ \<Rightarrow> None)"

definition getEstimatedTokenCount :: "llm_environment \<Rightarrow> analysis_message list \<Rightarrow> err + int" where
  "getEstimatedTokenCount le ms =
     (case (message_tokens (le_encode le) ms, le_encode le (le_response_format le)) of
        (Some a, Some b) \<Rightarrow> Inr (int (a + b)) | _ \<Rightarrow> Inl LlmTokenEstimationError)"

definition assertAnalysisInputTokenLimit :: "int \<Rightarrow> err + unit" where
  "assertAnalysisInputTokenLimit n = within_limit AnalysisInputTokens n"

definition estimateTokensForData :: "llm_environment \<Rightarrow> collected_data \<Rightarrow> version \<Rightarrow> err + int" where
  "estimateTokensForData le d v =
     and_then (buildAnalysisMessages le d v) (\<lambda>ms.
     and_then (getEstimatedTokenCount le ms) (\<lambda>n.
     and_then (assertAnalysisInputTokenLimit n) (\<lambda>_. Inr n)))"

definition reservation_for_data :: "llm_environment \<Rightarrow> collected_data \<Rightarrow> version \<Rightarrow> err + token_reservation" where
  "reservation_for_data le d v =
     and_then (estimateTokensForData le d v) (\<lambda>n.
     Inr \<lparr>tr_estimatedTokens = n, tr_reservedTokens = n + MAX_ANALYSIS_COMPLETION_TOKENS\<rparr>)"

section \<open>Billing metadata\<close>

text \<open>A property of a JSON value that is not null: only objects have any.\<close>

definition json_property :: "string \<Rightarrow> json \<Rightarrow> json option" where
  "json_property k v = (case v of JObj kvs \<Rightarrow> get_property (units k) kvs | _ \<Rightarrow> None)"

definition request_id :: "json option \<Rightarrow> string option" where
  "request_id v =
     (case v of
        Some (JStr s) \<Rightarrow>
          if list_all (\<lambda>c. c < 128) s \<and> isValidProviderRequestId (map char_of s) then Some (map char_of s) else None
      | _ \<Rightarrow> None)"

definition normalizeProviderUsage :: "json option \<Rightarrow> token_usage option" where
  "normalizeProviderUsage v =
     (case v of
        None \<Rightarrow> None
      | Some JNull \<Rightarrow> None
      | Some u \<Rightarrow>
          (case (int_of_json (json_property ''prompt_tokens'' u), int_of_json (json_property ''completion_tokens'' u),
                 int_of_json (json_property ''total_tokens'' u)) of
             (Some p, Some c, Some t) \<Rightarrow>
               let n = \<lparr>promptTokens = p, completionTokens = c, totalTokens = t\<rparr> in
               if isValidAnalysisTokenUsage n then Some n else None
           | _ \<Rightarrow> None))"

definition normalizeResponseModel :: "json option \<Rightarrow> utext option" where
  "normalizeResponseModel v = (case text_of_json v of Some s \<Rightarrow> if s \<noteq> [] then Some s else None | None \<Rightarrow> None)"

record billing_metadata =
  bm_providerRequestId :: "string option"
  bm_usage :: "token_usage option"
  bm_responseModel :: "utext option"

definition no_metadata :: billing_metadata where
  "no_metadata = \<lparr>bm_providerRequestId = None, bm_usage = None, bm_responseModel = None\<rparr>"

text \<open>\<open>isRecord\<close> holds of objects and of arrays; an array has none of these properties.\<close>

definition snapshotProviderBillingMetadata :: "json option \<Rightarrow> billing_metadata" where
  "snapshotProviderBillingMetadata payload =
     (case payload of
        Some (JObj kvs) \<Rightarrow>
          \<lparr>bm_providerRequestId = request_id (json_property ''id'' (JObj kvs)),
           bm_usage = (case json_property ''usage'' (JObj kvs) of
                         Some (JObj u) \<Rightarrow> normalizeProviderUsage (Some (JObj u)) | _ \<Rightarrow> None),
           bm_responseModel = normalizeResponseModel (json_property ''model'' (JObj kvs))\<rparr>
      | _ \<Rightarrow> no_metadata)"

section \<open>The answer of the model\<close>

definition invalid_response ::
  "string option \<Rightarrow> token_usage option \<Rightarrow> string \<Rightarrow> issue list option \<Rightarrow> utext option \<Rightarrow> thrown" where
  "invalid_response i u why issues model = Thrown (LlmProviderReconciliationError i u why issues model)"

text \<open>The checks after \<open>await completion\<close>, up to the metadata of the result.\<close>

definition accept_payload ::
  "llm_environment \<Rightarrow> collected_data \<Rightarrow> string \<Rightarrow> token_usage \<Rightarrow> utext option \<Rightarrow> json option \<Rightarrow> thrown + llm_payload \<times> utext" where
  "accept_payload le d i u model parsed =
     (case Option.bind parsed safeParse_payload of
        None \<Rightarrow> Inl (invalid_response (Some i) (Some u) ''SCHEMA_VALIDATION_FAILED'' None model)
      | Some p \<Rightarrow>
          (case assertValidAnalysisEvidence (le_unicode le) p d of
             Inl e \<Rightarrow> Inl (invalid_response (Some i) (Some u) ''EVIDENCE_VALIDATION_FAILED''
                            (case e of InvalidAnalysisEvidenceError issues \<Rightarrow> Some issues | _ \<Rightarrow> None) model)
           | Inr _ \<Rightarrow>
               (case model of
                  None \<Rightarrow> Inl (invalid_response (Some i) (Some u) ''MISSING_RESPONSE_MODEL'' None None)
                | Some m \<Rightarrow> Inr (p, m))))"

definition accept_choice ::
  "llm_environment \<Rightarrow> collected_data \<Rightarrow> string \<Rightarrow> token_usage \<Rightarrow> utext option \<Rightarrow> chat_choice list option \<Rightarrow> thrown + llm_payload \<times> utext" where
  "accept_choice le d i u model choices =
     (let refused = (\<lambda>why. Inl (invalid_response (Some i) (Some u) why None model)) in
      case choices of
        None \<Rightarrow> Inl (Thrown (PlainError ''TypeError''))
      | Some [] \<Rightarrow> refused ''EMPTY_CHOICES''
      | Some (c # _) \<Rightarrow>
          if ch_finish_reason c \<noteq> FinishStop
          then refused (''INCOMPLETE_'' @ finish_reason_upper (ch_finish_reason c))
          else if ch_refusal c \<noteq> None \<and> ch_refusal c \<noteq> Some [] then refused ''MODEL_REFUSAL''
          else if ch_parsed c = Some JNull then refused ''PARSED_RESULT_MISSING''
          else accept_payload le d i u model (ch_parsed c))"

definition accept_completion ::
  "llm_environment \<Rightarrow> collected_data \<Rightarrow> chat_completion \<Rightarrow> thrown + string \<times> token_usage \<times> llm_payload \<times> utext" where
  "accept_completion le d c =
     (let model = normalizeResponseModel (cc_model c) in
      case (request_id (cc_id c), normalizeProviderUsage (cc_usage c)) of
        (None, u) \<Rightarrow> Inl (invalid_response None u ''MISSING_REQUEST_ID'' None model)
      | (Some i, None) \<Rightarrow> Inl (invalid_response (Some i) None ''MISSING_USAGE'' None model)
      | (Some i, Some u) \<Rightarrow> (case accept_choice le d i u model (cc_choices c) of
            Inl t \<Rightarrow> Inl t | Inr (p, m) \<Rightarrow> Inr (i, u, p, m)))"

text \<open>The handler: \<^const>\<open>None\<close> for the metadata before there is a raw response.\<close>

definition with_metadata :: "billing_metadata option \<Rightarrow> string \<Rightarrow> err" where
  "with_metadata m why =
     (let b = option_or m no_metadata in
      LlmProviderReconciliationError (bm_providerRequestId b) (bm_usage b) why None (bm_responseModel b))"

fun handle_thrown :: "billing_metadata option \<Rightarrow> thrown \<Rightarrow> err" where
  "handle_thrown m LengthFinishReasonError = with_metadata m ''INCOMPLETE_LENGTH''"
| "handle_thrown m ContentFilterFinishReasonError = with_metadata m ''INCOMPLETE_CONTENT_FILTER''"
| "handle_thrown m ZodError = with_metadata m ''SCHEMA_VALIDATION_FAILED''"
| "handle_thrown m SyntaxError = with_metadata m ''SCHEMA_VALIDATION_FAILED''"
| "handle_thrown m (Thrown e) =
     (case e of
        LlmProviderReconciliationError i u r iss model \<Rightarrow> e
      | _ \<Rightarrow> if m \<noteq> None then with_metadata m ''RESPONSE_PROCESSING_FAILED'' else e)"

definition finish_analysis ::
  "env \<Rightarrow> version \<Rightarrow> billing_metadata \<Rightarrow> string \<times> token_usage \<times> llm_payload \<times> utext \<Rightarrow> llm_response io" where
  "finish_analysis env v m accepted =
     (case accepted of (i, u, p, model) \<Rightarrow>
        bind (now_io env) (\<lambda>now.
        case analysisResultSchema p (modelVersion v) model (promptVersion v) now of
          None \<Rightarrow> throw (handle_thrown (Some m) ZodError)
        | Some result \<Rightarrow>
            ret \<lparr>lr_providerRequestId = i, lr_requestedModel = modelVersion v, lr_responseModel = model,
                 lr_promptVersion = promptVersion v, lr_result = result, lr_usage = u\<rparr>))"

definition process_answer ::
  "llm_environment \<Rightarrow> env \<Rightarrow> collected_data \<Rightarrow> version \<Rightarrow> openai_answer \<Rightarrow> llm_response io" where
  "process_answer le env d v answer =
     (case answer of
        RequestFailed e \<Rightarrow> throw (handle_thrown None (Thrown e))
      | RawResponse raw outcome \<Rightarrow>
          (let m = snapshotProviderBillingMetadata raw in
           case outcome of
             Inl t \<Rightarrow> throw (handle_thrown (Some m) t)
           | Inr completion \<Rightarrow>
               (case accept_completion le d completion of
                  Inl t \<Rightarrow> throw (handle_thrown (Some m) t)
                | Inr accepted \<Rightarrow> finish_analysis env v m accepted)))"

definition completion_request_of :: "version \<Rightarrow> analysis_message list \<Rightarrow> completion_request" where
  "completion_request_of v ms =
     \<lparr>rq_model = modelVersion v, rq_messages = ms, rq_max_completion_tokens = MAX_ANALYSIS_COMPLETION_TOKENS\<rparr>"

definition analyze_data :: "llm_environment \<Rightarrow> env \<Rightarrow> collected_data \<Rightarrow> version \<Rightarrow> llm_response io" where
  "analyze_data le env d v =
     andThen (throw_unless (isSupportedAnalysisExecutionVersion v) (UnsupportedAnalysisExecutionVersionError v))
     (case le_openai le of
        None \<Rightarrow> throw LlmProviderConfigurationError
      | Some client \<Rightarrow>
          (case and_then (buildAnalysisMessages le d v) (\<lambda>ms.
                and_then (getEstimatedTokenCount le ms) (\<lambda>n.
                and_then (assertAnalysisInputTokenLimit n) (\<lambda>_. Inr ms))) of
             Inl e \<Rightarrow> throw (handle_thrown None (Thrown e))
           | Inr ms \<Rightarrow> bind (external (\<lambda>t. Inr (client (completion_request_of v ms) t)))
               (process_answer le env d v)))"

definition llm_service :: "llm_environment \<Rightarrow> env \<Rightarrow> llm_provider" where
  "llm_service le env =
     \<lparr>estimateTokenReservationForData = reservation_for_data le, analyze = analyze_data le env\<rparr>"

section \<open>Lemmas\<close>

text \<open>The model only answers: it does not write the database.\<close>

lemma finish_analysis_guar: "guar evolves (finish_analysis env v m a)"
  unfolding finish_analysis_def
  by (auto intro!: ledger.guar_bind ledger.guar_now ledger.guar_throw ledger.guar_ret
      split: prod.splits option.splits)

lemma process_answer_guar: "guar evolves (process_answer le env d v a)"
  unfolding process_answer_def Let_def
  by (auto intro!: finish_analysis_guar ledger.guar_throw split: openai_answer.splits sum.splits)

lemma analyze_data_guar: "guar evolves (analyze_data le env d v)"
  unfolding analyze_data_def
  by (auto intro!: ledger.guar_andThen ledger.guar_throw_unless ledger.guar_throw ledger.guar_bind
      ledger.guar_external process_answer_guar split: option.splits sum.splits)

lemma llm_service_guar: "provider_guar (llm_service le env)"
  by (simp add: provider_guar_def llm_service_def analyze_data_guar)

text \<open>What the model is sent, when it is sent anything.\<close>

definition sent_request :: "llm_environment \<Rightarrow> collected_data \<Rightarrow> version \<Rightarrow> completion_request option" where
  "sent_request le d v =
     (case reservation_for_data le d v of
        Inl _ \<Rightarrow> None | Inr _ \<Rightarrow> Some (completion_request_of v (analysis_messages le d)))"

text \<open>The model took the request: its raw response arrived.\<close>

definition answered :: "llm_environment \<Rightarrow> collected_data \<Rightarrow> version \<Rightarrow> nat \<Rightarrow> bool" where
  "answered le d v t \<longleftrightarrow>
     (case (le_openai le, sent_request le d v) of
        (Some client, Some rq) \<Rightarrow> (case client rq t of RawResponse _ _ \<Rightarrow> True | _ \<Rightarrow> False)
      | _ \<Rightarrow> False)"

lemma reservation_for_data_Inr:
  "reservation_for_data le d v = Inr r \<longleftrightarrow>
     isSupportedAnalysisExecutionVersion v \<and>
     (\<exists>n. getEstimatedTokenCount le (analysis_messages le d) = Inr n \<and> n \<le> 80000 \<and>
          r = \<lparr>tr_estimatedTokens = n, tr_reservedTokens = n + 8192\<rparr>)"
  by (auto simp: reservation_for_data_def estimateTokensForData_def buildAnalysisMessages_def
      assertAnalysisInputTokenLimit_def MAX_ANALYSIS_COMPLETION_TOKENS_def)

lemma sent_request_iff:
  "sent_request le d v = Some rq \<longleftrightarrow>
     (\<exists>r. reservation_for_data le d v = Inr r) \<and> rq = completion_request_of v (analysis_messages le d)"
  by (auto simp: sent_request_def split: sum.splits)

lemma analyze_data_cases:
  "analyze_data le env d v w =
     (if \<not> isSupportedAnalysisExecutionVersion v then (Inl (UnsupportedAnalysisExecutionVersionError v), w)
      else case le_openai le of
        None \<Rightarrow> (Inl LlmProviderConfigurationError, w)
      | Some client \<Rightarrow>
          (case reservation_for_data le d v of
             Inl e \<Rightarrow> (Inl (handle_thrown None (Thrown e)), w)
           | Inr _ \<Rightarrow> process_answer le env d v (client (completion_request_of v (analysis_messages le d)) (tick w))
                        (w\<lparr>tick := Suc (tick w)\<rparr>)))"
proof (cases "isSupportedAnalysisExecutionVersion v")
  case True
  then show ?thesis
    by (cases "getEstimatedTokenCount le (analysis_messages le d)")
      (auto simp: analyze_data_def andThen_def throw_unless_def throw_def bind_def external_def
        reservation_for_data_def estimateTokensForData_def buildAnalysisMessages_def
        assertAnalysisInputTokenLimit_def split: option.splits sum.splits)
qed (simp add: analyze_data_def andThen_def throw_unless_def throw_def bind_def)

end
