(* ===== verification/ResultValues.thy ===== *)
theory ResultValues
  imports ResultSchema JsDate
begin

text \<open>
  The well-formed results of an analysis, and results as JSON values: the schemas of
  \<open>src/src/analysis/analysis-result.schema.ts\<close> accept a well-formed result that is written as a value,
  and read it back.
\<close>

section \<open>Well-formed results\<close>

text \<open>A text within its limits that white space neither begins nor ends.\<close>

definition wf_text :: "nat \<Rightarrow> nat \<Rightarrow> utext \<Rightarrow> bool" where
  "wf_text lo hi s \<longleftrightarrow> lo \<le> length s \<and> length s \<le> hi \<and>
     (s \<noteq> [] \<longrightarrow> \<not> text_space (hd s) \<and> \<not> text_space (last s))"

definition wf_evidence :: "evidence \<Rightarrow> bool" where
  "wf_evidence e \<longleftrightarrow>
     1 \<le> prNumber e \<and> prNumber e \<le> max_safe_integer \<and>
     length (permalink e) \<le> 500 \<and> permalink_matches (permalink e) \<and>
     wf_text 1 100 (author e) \<and> wf_text 20 2000 (quote e) \<and> wf_text 1 1000 (scoreRationale e)"

definition wf_evaluation :: "metric_evaluation \<Rightarrow> bool" where
  "wf_evaluation m \<longleftrightarrow>
     (\<exists>n \<in> {2..10}. score m = rat_of_int n / 2) \<and>
     wf_text 1 4000 (reason m) \<and> wf_text 1 2000 (improvement m) \<and> wf_text 1 3000 (example_text m) \<and>
     length (evidence_list m) \<le> 12 \<and> (\<forall>e \<in> set (evidence_list m). wf_evidence e)"

definition wf_payload :: "('a) llm_payload_scheme \<Rightarrow> bool" where
  "wf_payload p \<longleftrightarrow> (\<forall>k. wf_evaluation (metric p k)) \<and> wf_text 1 3000 (summary p)"

lemma trim_by_fixed: "trim_by sp s = s \<longleftrightarrow> (s \<noteq> [] \<longrightarrow> \<not> sp (hd s) \<and> \<not> sp (last s))"
proof (cases "s \<noteq> [] \<and> sp (hd s)")
  case True
  then obtain c t where s: "s = c # t" "sp c" by (cases s) auto
  have "length (trim_by sp s) \<le> length (dropWhile sp s)"
    using length_dropWhile_le [of sp "rev (dropWhile sp s)"] by (simp add: trim_by_def)
  also have "\<dots> < length s" using s by (simp add: le_imp_less_Suc length_dropWhile_le)
  finally have "trim_by sp s \<noteq> s" by auto
  with True show ?thesis by simp
next
  case False
  then have "dropWhile sp s = s" by (simp add: dropWhile_eq_self_iff)
  then have "trim_by sp s = s \<longleftrightarrow> dropWhile sp (rev s) = rev s"
    unfolding trim_by_def by (metis rev_rev_ident)
  also have "\<dots> \<longleftrightarrow> (s \<noteq> [] \<longrightarrow> \<not> sp (last s))" by (auto simp: dropWhile_eq_self_iff hd_rev)
  finally show ?thesis using False by auto
qed

lemma trimmed_fixed: "trimmed lo hi s = Some s \<longleftrightarrow> wf_text lo hi s"
proof -
  have "trimmed lo hi s = Some s \<longleftrightarrow> lo \<le> length s \<and> length s \<le> hi \<and> text_trim s = s"
    unfolding trimmed_def Let_def by (cases "text_trim s = s") auto
  then show ?thesis by (simp add: wf_text_def text_trim_def trim_by_fixed)
qed

lemma permalink_nonempty: "permalink_matches s \<Longrightarrow> 1 \<le> length s"
  by (cases s) (simp_all add: permalink_matches_def)

lemma parse_evidence_fixed: "parse_evidence e = Some e \<longleftrightarrow> wf_evidence e"
proof -
  have "parse_evidence e = Some e \<longleftrightarrow>
    js_isSafeInteger (prNumber e) \<and> prNumber e > 0 \<and> 1 \<le> length (permalink e) \<and> length (permalink e) \<le> 500 \<and>
    permalink_matches (permalink e) \<and> trimmed 1 100 (author e) = Some (author e) \<and>
    trimmed 20 2000 (quote e) = Some (quote e) \<and> trimmed 1 1000 (scoreRationale e) = Some (scoreRationale e)"
    by (cases e) (auto simp: parse_evidence_def bind_eq_Some_conv MIN_ANALYSIS_EVIDENCE_QUOTE_LENGTH_def)
  then show ?thesis
    using permalink_nonempty [of "permalink e"]
    by (auto simp: trimmed_fixed wf_evidence_def js_isSafeInteger_def max_safe_integer_def)
qed

lemma parse_all_fixed: "parse_all f xs = Some xs \<longleftrightarrow> (\<forall>x \<in> set xs. f x = Some x)"
  by (induction xs) (auto split: option.splits)

lemma valid_score_halves: "valid_score q \<longleftrightarrow> (\<exists>n \<in> {2..10}. q = rat_of_int n / 2)"
proof
  assume "valid_score q"
  then have "2 * q \<in> {2, 3, 4, 5, 6, 7, 8, 9, 10}" by (simp add: valid_score_def)
  then obtain n where "n \<in> {2..10 :: int}" "2 * q = rat_of_int n"
    by (auto intro: that [of 2] that [of 3] that [of 4] that [of 5] that [of 6] that [of 7] that [of 8]
        that [of 9] that [of 10])
  then show "\<exists>n \<in> {2..10}. q = rat_of_int n / 2" by (intro bexI [of _ n]) simp_all
next
  assume "\<exists>n \<in> {2..10}. q = rat_of_int n / 2"
  then obtain n where n: "n \<in> {2..10}" "q = rat_of_int n / 2" by blast
  then have "n \<in> {2, 3, 4, 5, 6, 7, 8, 9, 10}"
    by simp presburger
  with n(2) show "valid_score q" by (auto simp: valid_score_def)
qed

lemma parse_evaluation_fixed: "parse_evaluation m = Some m \<longleftrightarrow> wf_evaluation m"
proof -
  have "parse_evaluation m = Some m \<longleftrightarrow>
    valid_score (score m) \<and> trimmed 1 4000 (reason m) = Some (reason m) \<and>
    trimmed 1 2000 (improvement m) = Some (improvement m) \<and>
    trimmed 1 3000 (example_text m) = Some (example_text m) \<and>
    parse_all parse_evidence (evidence_list m) = Some (evidence_list m) \<and> length (evidence_list m) \<le> 12"
    by (cases m) (auto simp: parse_evaluation_def bind_eq_Some_conv)
  then show ?thesis
    by (auto simp: trimmed_fixed parse_all_fixed parse_evidence_fixed wf_evaluation_def valid_score_halves)
qed

lemma parse_payload_fixed: "parse_payload p = Some p \<longleftrightarrow> wf_payload p"
proof
  assume p: "parse_payload p = Some p"
  then obtain t where t: "trimmed 1 3000 (summary p) = Some t"
      "p\<lparr>metric := (\<lambda>k. the (parse_evaluation (metric p k))), summary := t\<rparr> = p"
    by (auto simp: parse_payload_def split: if_splits)
  then have "summary p = t" by (metis llm_payload.select_convs(2) llm_payload.surjective llm_payload.update_convs(2))
  with t parse_payload_metric [OF p] show "wf_payload p"
    by (simp add: wf_payload_def trimmed_fixed parse_evaluation_fixed)
next
  assume wf: "wf_payload p"
  then have "parse_evaluation (metric p k) = Some (metric p k)" for k
    by (simp add: wf_payload_def parse_evaluation_fixed)
  moreover have "trimmed 1 3000 (summary p) = Some (summary p)"
    using wf by (simp add: wf_payload_def trimmed_fixed)
  ultimately show "parse_payload p = Some p" by (simp add: parse_payload_def list_all_iff)
qed

section \<open>Values\<close>

text \<open>A payload as a JSON value.\<close>

definition source_name :: "source_type \<Rightarrow> string" where
  "source_name s = (case s of pull_request \<Rightarrow> ''pull_request'' | review \<Rightarrow> ''review'' | review_comment \<Rightarrow> ''review_comment'')"

definition relation_name :: "target_relation \<Rightarrow> string" where
  "relation_name r = (case r of target_authored_pr \<Rightarrow> ''target_authored_pr''
     | target_authored_review \<Rightarrow> ''target_authored_review''
     | target_authored_review_comment \<Rightarrow> ''target_authored_review_comment'')"

definition evidence_json :: "evidence \<Rightarrow> json" where
  "evidence_json e = JObj [(units ''prNumber'', JNum (Some (of_int (prNumber e)))),
     (units ''permalink'', JStr (permalink e)), (units ''author'', JStr (author e)),
     (units ''sourceType'', JStr (units (source_name (sourceType e)))),
     (units ''targetRelation'', JStr (units (relation_name (targetRelation e)))),
     (units ''quote'', JStr (quote e)), (units ''scoreRationale'', JStr (scoreRationale e))]"

definition evaluation_json :: "metric_evaluation \<Rightarrow> json" where
  "evaluation_json m = JObj [(units ''score'', JNum (Some (score m))), (units ''reason'', JStr (reason m)),
     (units ''improvement'', JStr (improvement m)), (units ''example'', JStr (example_text m)),
     (units ''evidence'', JArr (map evidence_json (evidence_list m)))]"

definition payload_json :: "llm_payload \<Rightarrow> json" where
  "payload_json p = JObj (map (\<lambda>k. (units (metric_name k), evaluation_json (metric p k))) ANALYSIS_METRIC_KEYS
     @ [(units ''summary'', JStr (summary p))])"

lemma evidence_of_json_read: "evidence_of_json (evidence_json e) = Some e"
  by (cases e; cases "sourceType e"; cases "targetRelation e")
    (simp_all add: evidence_of_json_def evidence_json_def strict_object_def get_property_def
      int_of_json_def analysisEvidenceSourceTypeSchema_def analysisEvidenceRelationSchema_def
      enum_of_json_def source_name_def relation_name_def)

lemma parse_all_read: "(\<And>x. f (g x) = Some x) \<Longrightarrow> parse_all f (map g xs) = Some xs"
  by (induction xs) simp_all

lemma evaluation_of_json_read: "evaluation_of_json (evaluation_json m) = Some m"
  by (cases m) (simp add: evaluation_of_json_def evaluation_json_def strict_object_def get_property_def
      array_of_json_def parse_all_read evidence_of_json_read)

lemma payload_of_json_read: "payload_of_json (payload_json p) = Some p"
proof -
  define get where "get = (\<lambda>k. get_property (units k)
    (map (\<lambda>k. (units (metric_name k), evaluation_json (metric p k))) ANALYSIS_METRIC_KEYS
     @ [(units ''summary'', JStr (summary p))]))"
  have "get (metric_name k) = Some (evaluation_json (metric p k))" for k
    by (cases k) (simp_all add: get_def ANALYSIS_METRIC_KEYS_def get_property_def)
  moreover have "get ''summary'' = Some (JStr (summary p))"
    by (simp add: get_def ANALYSIS_METRIC_KEYS_def get_property_def)
  moreover have "strict_object (map metric_name ANALYSIS_METRIC_KEYS @ [''summary'']) (payload_json p) = Some get"
    by (auto simp: strict_object_def payload_json_def get_def list_all_iff image_iff)
  ultimately show ?thesis
    by (simp add: payload_of_json_def Let_def evaluation_of_json_read list_all_iff)
qed

lemma safeParse_wf: "safeParse_payload v = Some p \<Longrightarrow> wf_payload p"
  by (auto simp: safeParse_payload_def bind_eq_Some_conv parse_payload_idem simp flip: parse_payload_fixed)

lemma safeParse_read: "wf_payload p \<Longrightarrow> safeParse_payload (payload_json p) = Some p"
  by (simp add: safeParse_payload_def payload_of_json_read parse_payload_fixed)

end
