(* ===== verification/AnalysisProperties.thy ===== *)
theory AnalysisProperties
  imports LlmProvider Samples ResultValues
begin

text \<open>
  Properties of an analysis: what an accepted result is, when a failed call counts as charged, the
  size of reservations, and what the model is told.
\<close>

section \<open>A provider\<close>

definition sample_unicode :: unicode where
  "sample_unicode = \<lparr>toLocaleLowerCase = map ascii_lower, letter_or_number = word_char\<rparr>"

definition sample_evaluation_json :: json where
  "sample_evaluation_json = JObj [(units ''score'', JNum (Some 3)), (units ''reason'', JStr (units ''r'')),
     (units ''improvement'', JStr (units ''i'')), (units ''example'', JStr (units ''e'')),
     (units ''evidence'', JArr [])]"

definition sample_payload_json :: json where
  "sample_payload_json =
     JObj (map (\<lambda>k. (units (metric_name k), sample_evaluation_json)) ANALYSIS_METRIC_KEYS
       @ [(units ''summary'', JStr (units ''s''))])"

definition sample_usage_json :: json where
  "sample_usage_json = JObj [(units ''prompt_tokens'', JNum (Some 90)),
     (units ''completion_tokens'', JNum (Some 10)), (units ''total_tokens'', JNum (Some 100))]"

definition sample_completion :: "json option \<Rightarrow> chat_completion" where
  "sample_completion parsed =
     \<lparr>cc_id = Some (JStr (units ''req-1'')), cc_usage = Some sample_usage_json,
      cc_model = Some (JStr (units ''gpt-5-mini'')),
      cc_choices = Some [\<lparr>ch_finish_reason = FinishStop, ch_refusal = None, ch_parsed = parsed\<rparr>]\<rparr>"

definition sample_llm :: "openai_answer \<Rightarrow> llm_environment" where
  "sample_llm answer =
     \<lparr>le_prompt_template = units ''Rate {{targetUser}}.'', le_response_format = units ''{}'',
      le_encode = (\<lambda>_. Some 100), le_openai = Some (\<lambda>_ _. answer), le_unicode = sample_unicode\<rparr>"

definition sample_world :: world where
  "sample_world = world_with running_job"

section \<open>The schema as a type\<close>

text \<open>
  C20. The results the schema accepts are exactly the well-formed ones: eight evaluations, each
  with a half-point score between 1 and 5 and at most twelve pieces of evidence, all texts trimmed
  and within their lengths.
\<close>

theorem schema_is_the_type: "(\<exists>v. safeParse_payload v = Some p) \<longleftrightarrow> wf_payload p"
  using safeParse_wf safeParse_read by blast

section \<open>Accepted results\<close>

text \<open>What the checks of an answer let through.\<close>

lemma accept_completion_Inr:
  assumes "accept_completion le d c = Inr (i, u, p, m)"
  shows "isValidProviderRequestId i" "isValidAnalysisTokenUsage u" "wf_payload p"
    "grounded (le_unicode le) p d"
proof -
  from assms show "isValidProviderRequestId i"
    by (auto simp: accept_completion_def Let_def request_id_def
        split: option.splits sum.splits json.splits if_splits)
  from assms show "isValidAnalysisTokenUsage u"
    by (auto simp: accept_completion_def Let_def normalizeProviderUsage_def
        split: option.splits sum.splits json.splits if_splits)
  from assms obtain cs where "accept_choice le d i u (normalizeResponseModel (cc_model c)) cs = Inr (p, m)"
    by (auto simp: accept_completion_def Let_def split: option.splits sum.splits)
  then obtain v where "accept_payload le d i u (normalizeResponseModel (cc_model c)) v = Inr (p, m)"
    by (auto simp: accept_choice_def Let_def split: option.splits list.splits if_splits)
  then have "Option.bind v safeParse_payload = Some p" "assertValidAnalysisEvidence (le_unicode le) p d = Inr ()"
    by (auto simp: accept_payload_def split: option.splits sum.splits)
  then show "wf_payload p" "grounded (le_unicode le) p d"
    by (auto simp: bind_eq_Some_conv safeParse_wf assertValidAnalysisEvidence_def Let_def
        no_issues_grounded split: if_splits)
qed

lemma analysisResultSchema_Some:
  assumes "analysisResultSchema p requested response prompt time = Some r" "wf_payload p"
  shows "llm_payload.truncate r = p"
proof -
  have "parse_payload p = Some p" using assms(2) by (simp add: parse_payload_fixed)
  with assms(1) show ?thesis
    by (auto simp: analysisResultSchema_def bind_eq_Some_conv llm_payload.defs)
qed

lemma analyze_data_Inr:
  assumes "analyze_data le env d v w = (Inr r, w')"
  shows "isSupportedAnalysisExecutionVersion v" "isValidProviderRequestId (lr_providerRequestId r)"
    "isValidAnalysisTokenUsage (lr_usage r)" "wf_payload (lr_result r)"
    "grounded (le_unicode le) (lr_result r) d"
    "lr_requestedModel r = modelVersion v \<and> lr_promptVersion r = promptVersion v"
    "\<exists>p model now. analysisResultSchema p (modelVersion v) model (promptVersion v) now = Some (lr_result r)"
proof -
  from assms show sup: "isSupportedAnalysisExecutionVersion v"
    by (auto simp: analyze_data_cases split: if_splits)
  from assms obtain a w0 where "process_answer le env d v a w0 = (Inr r, w')"
    by (auto simp: analyze_data_cases split: if_splits option.splits sum.splits)
  then obtain c m i u p model now where
      ok: "accept_completion le d c = Inr (i, u, p, model)"
    and r: "r = \<lparr>lr_providerRequestId = i, lr_requestedModel = modelVersion v, lr_responseModel = model,
               lr_promptVersion = promptVersion v, lr_result = lr_result r, lr_usage = u\<rparr>"
    and res: "analysisResultSchema p (modelVersion v) model (promptVersion v) now = Some (lr_result r)"
    by (auto simp: process_answer_def finish_analysis_def Let_def throw_def bind_def now_io_def ret_def
        split: openai_answer.splits sum.splits prod.splits option.splits)
  note parts = accept_completion_Inr [OF ok]
  have p: "llm_payload.truncate (lr_result r) = p"
    by (rule analysisResultSchema_Some [OF res parts(3)])
  from p have fields: "metric (lr_result r) = metric p" "summary (lr_result r) = summary p"
    by (auto simp: llm_payload.truncate_def)
  with parts show "wf_payload (lr_result r)" "grounded (le_unicode le) (lr_result r) d"
    by (simp_all add: wf_payload_def grounded_def)
  from parts r show "isValidProviderRequestId (lr_providerRequestId r)" "isValidAnalysisTokenUsage (lr_usage r)"
    "lr_requestedModel r = modelVersion v \<and> lr_promptVersion r = promptVersion v"
    by (metis llm_response.select_convs)+
  from res show "\<exists>p model now. analysisResultSchema p (modelVersion v) model (promptVersion v) now = Some (lr_result r)"
    by blast
qed

text \<open>
  C21. An analysis that returns is grounded: every piece of evidence quotes, in at least twenty
  characters after white space is normalized, a text of that kind which the target wrote in the
  pull request it names, the permalink is that pull request's, no prose refers to a pull request,
  and a metric without evidence has a neutral score. Its usage, request identifier and result are
  well-formed, and the versions are the requested ones.
\<close>

theorem analysis_is_grounded:
  assumes "analyze_data le env d v w = (Inr r, w')"
  shows "grounded (le_unicode le) (lr_result r) d \<and> wf_payload (lr_result r) \<and>
    isValidAnalysisTokenUsage (lr_usage r) \<and> isValidProviderRequestId (lr_providerRequestId r) \<and>
    lr_requestedModel r = modelVersion v \<and> lr_promptVersion r = promptVersion v"
  using analyze_data_Inr [OF assms] by simp

definition good_answer :: openai_answer where
  "good_answer = RawResponse (Some (JObj [])) (Inr (sample_completion (Some sample_payload_json)))"

lemmas pattern_defs = unstructured_reference_def regex_test_def UNSTRUCTURED_REFERENCE_PATTERN_def
  github_url_def repository_reference_def number_reference_def pr_reference_def korean_reference_def
  sequence_def literal_text_def char_at_def char_before_def fold_char_def digit_def word_char_def
  name_char_def text_space_def

lemma sample_reservation:
  "reservation_for_data (sample_llm a) d CURRENT_ANALYSIS_EXECUTION_VERSION =
     Inr \<lparr>tr_estimatedTokens = 311, tr_reservedTokens = 8503\<rparr>"
  by (simp add: reservation_for_data_Inr getEstimatedTokenCount_def analysis_messages_def sample_llm_def)

lemma request_id_units:
  "list_all (\<lambda>c. c < 128) (units s) \<Longrightarrow> isValidProviderRequestId s \<Longrightarrow> request_id (Some (JStr (units s))) = Some s"
  by (simp add: request_id_def) (simp add: units_def comp_def)

lemma sample_payload_accepted:
  "\<exists>p m. accept_completion (sample_llm a) d (sample_completion (Some sample_payload_json)) =
     Inr (''req-1'', sample_usage, p, m) \<and> m = units ''gpt-5-mini'' \<and> wf_payload p"
proof -
  define p :: llm_payload where "p = \<lparr>metric = (\<lambda>_. sample_evaluation), summary = units ''s''\<rparr>"
  have json: "sample_payload_json = payload_json p"
    by (simp add: sample_payload_json_def payload_json_def p_def evaluation_json_def
        sample_evaluation_json_def sample_evaluation_def)
  have wf: "wf_payload p"
    by (simp add: wf_payload_def p_def wf_evaluation_def sample_evaluation_def wf_text_def text_space_def
        bexI [of _ "6 :: int"])
  have refs: "\<not> unstructured_reference sample_unicode (units [c])"
    if "c \<in> {CHR ''r'', CHR ''i'', CHR ''e'', CHR ''s''}" for c
    using that by (elim insertE) (simp_all add: pattern_defs sample_unicode_def)
  have "grounded sample_unicode p d"
    using refs [of "CHR ''r''"] refs [of "CHR ''i''"] refs [of "CHR ''e''"] refs [of "CHR ''s''"]
    by (simp add: grounded_def p_def sample_evaluation_def)
  then have "validateAnalysisEvidence sample_unicode p d = []" by (simp add: no_issues_grounded)
  then have "accept_payload (sample_llm a) d ''req-1'' sample_usage (Some (units ''gpt-5-mini''))
      (Some sample_payload_json) = Inr (p, units ''gpt-5-mini'')"
    by (simp add: accept_payload_def json safeParse_read [OF wf] assertValidAnalysisEvidence_def
        sample_llm_def)
  moreover have "request_id (Some (JStr (units ''req-1''))) = Some ''req-1''"
    by (rule request_id_units) (simp_all add: isValidProviderRequestId_def ascii_alnum_def)
  moreover have "normalizeProviderUsage (Some sample_usage_json) = Some sample_usage"
    by (simp add: normalizeProviderUsage_def sample_usage_json_def json_property_def get_property_def
        int_of_json_def sample_usage_def isValidAnalysisTokenUsage_def js_isSafeInteger_def max_safe_integer_def)
  ultimately have "accept_completion (sample_llm a) d (sample_completion (Some sample_payload_json)) =
     Inr (''req-1'', sample_usage, p, units ''gpt-5-mini'')"
    by (simp add: accept_completion_def sample_completion_def accept_choice_def normalizeResponseModel_def
        sample_payload_json_def)
  with wf show ?thesis by blast
qed

lemma process_good:
  "process_answer le env d v good_answer =
     (case accept_completion le d (sample_completion (Some sample_payload_json)) of
        Inl t \<Rightarrow> throw (handle_thrown (Some (snapshotProviderBillingMetadata (Some (JObj [])))) t)
      | Inr a \<Rightarrow> finish_analysis env v (snapshotProviderBillingMetadata (Some (JObj []))) a)"
  by (simp add: process_answer_def good_answer_def Let_def)

lemma sample_analysis:
  "\<exists>r w'. analyze_data (sample_llm good_answer) calm d CURRENT_ANALYSIS_EXECUTION_VERSION (world_with running_job) = (Inr r, w')"
proof -
  obtain p m where ok: "accept_completion (sample_llm good_answer) d (sample_completion (Some sample_payload_json)) =
     Inr (''req-1'', sample_usage, p, m)" "m = units ''gpt-5-mini''" "wf_payload p"
    using sample_payload_accepted by blast
  have "parse_payload p = Some p" using ok(3) by (simp add: parse_payload_fixed)
  moreover have "length (toISOString 1000001) = 24" by code_simp
  moreover have "trimmed 1 100 (units ''gpt-5-mini'') = Some (units ''gpt-5-mini'')"
    by (simp add: trimmed_fixed wf_text_def text_space_def)
  moreover have "trimmed_string 1 100 ANALYSIS_MODEL_VERSION = Some ANALYSIS_MODEL_VERSION"
    "trimmed_string 1 100 ANALYSIS_PROMPT_VERSION = Some ANALYSIS_PROMPT_VERSION"
    by (simp_all add: trimmed_string_def js_trim_def trim_by_def js_space_def version_literals)
  ultimately obtain r where
    "analysisResultSchema p ANALYSIS_MODEL_VERSION m ANALYSIS_PROMPT_VERSION 1000001 = Some r"
    by (auto simp: analysisResultSchema_def analysisResultMetadataSchema_def ok(2))
  moreover have "modelVersion CURRENT_ANALYSIS_EXECUTION_VERSION = ANALYSIS_MODEL_VERSION"
    "promptVersion CURRENT_ANALYSIS_EXECUTION_VERSION = ANALYSIS_PROMPT_VERSION"
    by (simp_all add: CURRENT_ANALYSIS_EXECUTION_VERSION_def)
  moreover have "le_openai (sample_llm good_answer) = Some (\<lambda>_ _. good_answer)" "clock calm 1 = 1000001"
    by (simp_all add: sample_llm_def calm_def)
  moreover have "tick (world_with running_job) = 0" by (simp add: world_with_def)
  ultimately show ?thesis
    using ok(1) by (simp add: analyze_data_cases sample_reservation process_good finish_analysis_def
        bind_def now_io_def ret_def)
qed

theorem analysis_is_grounded_witness:
  "\<exists>r w'. analyze_data (sample_llm good_answer) calm sample_data CURRENT_ANALYSIS_EXECUTION_VERSION (world_with running_job)
       = (Inr r, w') \<and> grounded (le_unicode (sample_llm good_answer)) (lr_result r) sample_data"
  using sample_analysis [of sample_data] analysis_is_grounded by blast

section \<open>Charges\<close>

fun is_reconciliation :: "err \<Rightarrow> bool" where
  "is_reconciliation (LlmProviderReconciliationError i u why issues model) \<longleftrightarrow> True"
| "is_reconciliation e \<longleftrightarrow> False"

text \<open>What such an error says of the charge can be recorded.\<close>

fun valid_charge :: "err \<Rightarrow> bool" where
  "valid_charge (LlmProviderReconciliationError i u why issues model) \<longleftrightarrow>
     option_all isValidProviderRequestId i \<and> option_all isValidAnalysisTokenUsage u"
| "valid_charge e \<longleftrightarrow> True"

text \<open>The client throws errors of its own, not those of the service.\<close>

definition foreign_errors :: "llm_environment \<Rightarrow> bool" where
  "foreign_errors le \<longleftrightarrow>
     (\<forall>client rq t. le_openai le = Some client \<longrightarrow>
        (case client rq t of
           RequestFailed e \<Rightarrow> \<not> is_reconciliation e
         | RawResponse raw (Inl (Thrown e)) \<Rightarrow> \<not> is_reconciliation e
         | _ \<Rightarrow> True))"

lemma valid_metadata:
  "option_all isValidProviderRequestId (request_id v)" "option_all isValidAnalysisTokenUsage (normalizeProviderUsage u)"
  by (auto simp: option_all_iff request_id_def normalizeProviderUsage_def Let_def
      split: option.splits json.splits if_splits)

lemma with_metadata_reconciles [simp]: "is_reconciliation (with_metadata m why)"
  by (simp add: with_metadata_def Let_def)

lemma snapshot_valid: "valid_charge (with_metadata (Some (snapshotProviderBillingMetadata raw)) why)"
  using valid_metadata
  by (auto simp: with_metadata_def snapshotProviderBillingMetadata_def no_metadata_def Let_def
      split: option.splits json.splits)

lemma handle_after_answer:
  assumes "\<And>e. t = Thrown e \<Longrightarrow> valid_charge e"
  shows "is_reconciliation (handle_thrown (Some (snapshotProviderBillingMetadata raw)) t) \<and>
    valid_charge (handle_thrown (Some (snapshotProviderBillingMetadata raw)) t)"
  using assms snapshot_valid by (cases t) (auto split: err.splits)

lemma valid_charge_foreign: "\<not> is_reconciliation e \<Longrightarrow> valid_charge e"
  by (cases e) simp_all

lemma accept_completion_Inl: "accept_completion le d c = Inl (Thrown e) \<Longrightarrow> valid_charge e"
  using valid_metadata(1) [of "cc_id c"] valid_metadata(2) [of "cc_usage c"]
  by (auto simp: accept_completion_def accept_choice_def accept_payload_def invalid_response_def Let_def
      split: option.splits list.splits sum.splits if_splits)

lemma process_answer_Inl:
  assumes "process_answer le env d v (RawResponse raw outcome) w = (Inl e, w')"
    and "\<And>x. outcome = Inl (Thrown x) \<Longrightarrow> \<not> is_reconciliation x"
  shows "is_reconciliation e \<and> valid_charge e"
proof -
  let ?m = "Some (snapshotProviderBillingMetadata raw)"
  have "e = with_metadata ?m ''SCHEMA_VALIDATION_FAILED'' \<or> (\<exists>t. e = handle_thrown ?m t \<and> (\<forall>x. t = Thrown x \<longrightarrow> valid_charge x))"
  proof (cases outcome)
    case (Inl t)
    with assms valid_charge_foreign show ?thesis by (auto simp: process_answer_def throw_def Let_def)
  next
    case (Inr c)
    with assms(1) accept_completion_Inl [of le d c] show ?thesis
      by (cases "accept_completion le d c")
        (auto simp: process_answer_def finish_analysis_def throw_def bind_def now_io_def ret_def Let_def
          split: prod.splits option.splits)
  qed
  then show ?thesis
    using handle_after_answer [of _ raw] snapshot_valid [of raw] by (elim disjE exE) simp_all
qed

text \<open>
  C22. A failed analysis counts as charged exactly if the model's raw response arrived: then the
  error asks for reconciliation, with the request identifier and usage of the response as far as
  they are valid, and otherwise it never does, so the worker may try such a job again.
\<close>

theorem only_answers_are_charged:
  assumes "foreign_errors le" and "analyze_data le env d v w = (Inl e, w')"
  shows "(is_reconciliation e \<longleftrightarrow> answered le d v (tick w)) \<and> valid_charge e"
proof (cases "isSupportedAnalysisExecutionVersion v \<and> le_openai le \<noteq> None \<and> (\<exists>r. reservation_for_data le d v = Inr r)")
  case True
  then obtain client r where c: "le_openai le = Some client" and r: "reservation_for_data le d v = Inr r" by auto
  let ?a = "client (completion_request_of v (analysis_messages le d)) (tick w)"
  have run: "process_answer le env d v ?a (w\<lparr>tick := Suc (tick w)\<rparr>) = (Inl e, w')"
    using assms(2) True c r by (simp add: analyze_data_cases)
  have foreign: "case ?a of RequestFailed e \<Rightarrow> \<not> is_reconciliation e
      | RawResponse raw (Inl (Thrown e)) \<Rightarrow> \<not> is_reconciliation e | _ \<Rightarrow> True"
    using assms(1) c by (simp add: foreign_errors_def)
  have sent: "sent_request le d v = Some (completion_request_of v (analysis_messages le d))"
    using r by (simp add: sent_request_def)
  show ?thesis
  proof (cases ?a)
    case (RequestFailed x)
    with run foreign have "e = x" "\<not> is_reconciliation x"
      by (auto simp: process_answer_def throw_def split: err.splits)
    with RequestFailed c sent show ?thesis by (simp add: answered_def valid_charge_foreign)
  next
    case (RawResponse raw outcome)
    with run foreign have "is_reconciliation e \<and> valid_charge e"
      by (intro process_answer_Inl [of le env d v raw outcome]) auto
    with RawResponse c sent show ?thesis by (simp add: answered_def)
  qed
next
  case False
  then have "\<not> answered le d v (tick w)"
    by (auto simp: answered_def sent_request_def reservation_for_data_Inr split: option.splits sum.splits)
  moreover have "\<not> is_reconciliation e"
    using assms(2) False
    by (auto simp: analyze_data_cases reservation_for_data_def estimateTokensForData_def buildAnalysisMessages_def
        getEstimatedTokenCount_def assertAnalysisInputTokenLimit_def split: if_splits option.splits sum.splits)
  ultimately show ?thesis by (simp add: valid_charge_foreign)
qed

text \<open>An answer that was cut off is charged; a request that failed is not.\<close>

definition cut_off :: openai_answer where
  "cut_off = RawResponse None (Inl LengthFinishReasonError)"

definition rate_limited :: openai_answer where
  "rate_limited = RequestFailed (OpenAIError RateLimitError)"

lemma sample_client: "le_openai (sample_llm a) = Some (\<lambda>_ _. a)"
  by (simp add: sample_llm_def)

lemma sample_failures:
  "\<exists>e w'. analyze_data (sample_llm cut_off) calm sample_data CURRENT_ANALYSIS_EXECUTION_VERSION (world_with running_job) = (Inl e, w')"
  "\<exists>e w'. analyze_data (sample_llm rate_limited) calm sample_data CURRENT_ANALYSIS_EXECUTION_VERSION (world_with running_job) = (Inl e, w')"
  by (simp_all add: analyze_data_cases sample_reservation sample_client process_answer_def
      cut_off_def rate_limited_def throw_def)

lemma sample_foreign: "foreign_errors (sample_llm cut_off)" "foreign_errors (sample_llm rate_limited)"
  by (simp_all add: foreign_errors_def sample_client cut_off_def rate_limited_def)

lemma sample_answered:
  "answered (sample_llm cut_off) d CURRENT_ANALYSIS_EXECUTION_VERSION n"
  "\<not> answered (sample_llm rate_limited) d CURRENT_ANALYSIS_EXECUTION_VERSION n"
  by (simp_all add: answered_def sent_request_def sample_reservation sample_client cut_off_def rate_limited_def)

theorem only_answers_are_charged_witness:
  "(\<exists>e w'. analyze_data (sample_llm cut_off) calm sample_data CURRENT_ANALYSIS_EXECUTION_VERSION (world_with running_job) = (Inl e, w')
      \<and> is_reconciliation e) \<and>
   (\<exists>e w'. analyze_data (sample_llm rate_limited) calm sample_data CURRENT_ANALYSIS_EXECUTION_VERSION (world_with running_job) = (Inl e, w')
      \<and> \<not> is_reconciliation e)"
  using only_answers_are_charged [OF sample_foreign(1)] only_answers_are_charged [OF sample_foreign(2)]
    sample_failures sample_answered by metis

section \<open>Reservations\<close>

text \<open>
  What is reserved for an analysis is the estimate and the 8192 tokens the answer may have; the
  estimate is within the input limit, and the runner accepts the reservation as valid.
\<close>

theorem reservation_fits:
  assumes "estimateTokenReservationForData (llm_service le env) d v = Inr r"
  shows "11 \<le> tr_estimatedTokens r \<and> tr_estimatedTokens r \<le> 80000 \<and>
    tr_reservedTokens r = tr_estimatedTokens r + 8192 \<and> assertValidReservation r = Inr ()"
proof -
  have "11 \<le> n" if "getEstimatedTokenCount le (analysis_messages le d) = Inr n" for n
    using that by (auto simp: getEstimatedTokenCount_def analysis_messages_def split: option.splits)
  with assms show ?thesis
    by (auto simp: llm_service_def reservation_for_data_Inr assertValidReservation_def require_def
        js_isSafeInteger_def max_safe_integer_def)
qed

theorem reservation_fits_witness:
  "tr_reservedTokens \<lparr>tr_estimatedTokens = 311, tr_reservedTokens = 8503\<rparr> = 311 + 8192"
  using reservation_fits [of "sample_llm good_answer" calm sample_data CURRENT_ANALYSIS_EXECUTION_VERSION
      "\<lparr>tr_estimatedTokens = 311, tr_reservedTokens = 8503\<rparr>"] sample_reservation [of good_answer sample_data]
  by (simp add: llm_service_def)

section \<open>What the model is told\<close>

definition proper_comment :: "review_comment_dto \<Rightarrow> bool" where
  "proper_comment c \<longleftrightarrow> proper_text (c_author c) \<and> proper_text (c_body c)"

definition proper_review :: "review_dto \<Rightarrow> bool" where
  "proper_review v \<longleftrightarrow> proper_text (v_author v) \<and> proper_text (v_body v) \<and> list_all proper_comment (v_comments v)"

definition proper_pr :: "pull_request_dto \<Rightarrow> bool" where
  "proper_pr p \<longleftrightarrow> js_isSafeInteger (pr_number p) \<and> proper_text (pr_title p) \<and> proper_text (pr_body p) \<and>
     proper_text (pr_author p) \<and> proper_text (pr_permalink p) \<and> list_all proper_review (pr_reviews p)"

text \<open>Texts are of UTF-16 code units, numbers safe integers.\<close>

definition proper_data :: "collected_data \<Rightarrow> bool" where
  "proper_data d \<longleftrightarrow> proper_text (cd_targetUser d) \<and> list_all proper_pr (cd_pullRequests d)"

lemma proper_units [simp]: "proper_text (units s)"
proof -
  have "(of_char c :: nat) < 65536" for c :: char using nat_of_char_less_256 [of c] by linarith
  then show ?thesis by (simp add: proper_text_def units_def list_all_iff)
qed

lemma data_json_printable: "proper_data d \<Longrightarrow> printable (data_json d)"
proof -
  note key = proper_units [of "_ # _", simplified]
  have c: "proper_comment c \<Longrightarrow> printable (comment_json c)" for c
    by (simp add: comment_json_def proper_comment_def key del: units_Cons)
  have v: "proper_review r \<Longrightarrow> printable (review_json r)" for r
    using c by (auto simp: review_json_def proper_review_def list_all_iff key simp del: units_Cons)
  have p: "proper_pr p \<Longrightarrow> printable (pr_json p)" for p
    using v by (auto simp: pr_json_def proper_pr_def list_all_iff key simp del: units_Cons)
  then show "proper_data d \<Longrightarrow> printable (data_json d)"
    by (auto simp: data_json_def proper_data_def list_all_iff simp del: units_Cons)
qed

lemma units_inject [simp]: "units s = units t \<longleftrightarrow> s = t"
  by (simp add: units_def inj_map_eq_map inj_def)

lemma data_json_inject: "data_json d = data_json e \<Longrightarrow> d = e"
proof -
  have "inj comment_json" by (rule injI) (auto simp: comment_json_def intro: review_comment_dto.equality)
  then have "inj review_json" by (intro injI) (auto simp: review_json_def inj_map_eq_map intro: review_dto.equality)
  then have "inj pr_json" by (intro injI) (auto simp: pr_json_def inj_map_eq_map intro: pull_request_dto.equality)
  then show "data_json d = data_json e \<Longrightarrow> d = e"
    by (auto simp: data_json_def inj_map_eq_map intro: collected_data.equality)
qed

text \<open>
  C23. The data inside the message of the user is read back by \<open>JSON.parse\<close> as the collected
  data, and collections that differ never make the same messages.
\<close>

theorem messages_tell_the_data:
  assumes "proper_data d" "proper_data e" "analysis_messages le d = analysis_messages le e"
  shows "d = e \<and> JSON_parse (JSON_stringify (data_json d)) = Some (data_json d)"
proof -
  have "join_with [10] (data_notice @ [units ''<github_data>'', t, units ''</github_data>'']) =
      join_with [10] (data_notice @ [units ''<github_data>'', u, units ''</github_data>'']) \<longleftrightarrow> t = u" for t u
    by (simp add: data_notice_def)
  with assms(3) have "JSON_stringify (data_json d) = JSON_stringify (data_json e)"
    by (simp add: analysis_messages_def)
  then have "data_json d = data_json e"
    using json.enc_inject data_json_printable assms(1,2) by blast
  then show ?thesis
    using data_json_inject json.round_trip [OF data_json_printable [OF assms(1)]] by blast
qed

theorem messages_tell_the_data_witness:
  "JSON_parse (JSON_stringify (data_json sample_data)) = Some (data_json sample_data)"
proof -
  have "proper_data sample_data"
    by (simp add: sample_data_def proper_data_def proper_pr_def proper_review_def js_isSafeInteger_def
        max_safe_integer_def del: units_Cons)
  then show ?thesis using messages_tell_the_data [of sample_data sample_data] by blast
qed

end
