(* ===== verification/GithubErrors.thy ===== *)
theory GithubErrors
  imports Errors JsDate JsNumber ResultSchema WorkerMessage
begin

text \<open>
  How a failed request to GitHub is read (\<open>src/src/collection/github-errors.ts\<close>): rate limits
  become a \<open>GithubRateLimitError\<close> with the time to try again, every other error stays.

  A thrown value is the error it is for the callers, and the tree of its own properties, of which
  the code reads some; an instance of \<open>Headers\<close> is the object of its entries, as \<open>forEach\<close> gives
  them.
\<close>

definition MAX_RATE_LIMIT_DELAY_MS :: int where
  "MAX_RATE_LIMIT_DELAY_MS = 24 * 60 * 60 * 1000"

definition DEFAULT_RATE_LIMIT_DELAY_MS :: int where
  "DEFAULT_RATE_LIMIT_DELAY_MS = 60 * 1000"

record request_error =
  re_error :: err
  re_properties :: json

text \<open>An error of the modelled code: its status is the only one of these properties it has.\<close>

definition plain_error :: "err \<Rightarrow> request_error" where
  "plain_error e = \<lparr>re_error = e, re_properties =
     JObj (case err_status e of None \<Rightarrow> [] | Some n \<Rightarrow> [(units ''status'', JNum (Some (of_int n)))])\<rparr>"

section \<open>Properties\<close>

definition property :: "string \<Rightarrow> json option \<Rightarrow> json option" where
  "property k v = (case v of Some (JObj kvs) \<Rightarrow> get_property (units k) kvs | _ \<Rightarrow> None)"

definition objectProperty :: "json option \<Rightarrow> string \<Rightarrow> json option" where
  "objectProperty v k = (case property k v of
       Some (JObj kvs) \<Rightarrow> Some (JObj kvs) | Some (JArr vs) \<Rightarrow> Some (JArr vs) | _ \<Rightarrow> None)"

definition arrayProperty :: "json option \<Rightarrow> string \<Rightarrow> json list" where
  "arrayProperty v k = option_or (array_of_json (property k v)) []"

definition stringProperty :: "json option \<Rightarrow> string \<Rightarrow> utext option" where
  "stringProperty v k = text_of_json (property k v)"

text \<open>A number, where \<^term>\<open>Some None\<close> is an infinity.\<close>

definition numericProperty :: "json option \<Rightarrow> string \<Rightarrow> rat option option" where
  "numericProperty v k = (case property k v of Some (JNum q) \<Rightarrow> Some q | _ \<Rightarrow> None)"

section \<open>Headers\<close>

text \<open>
  A header is a text or a number. \<open>String\<close> of a number is read back by \<open>Number\<close> as that number,
  it is not blank, and it is \<open>'0'\<close> exactly for zero.
\<close>

datatype header = TextHeader utext | NumberHeader "rat option"

definition header_entries :: "json option \<Rightarrow> (utext \<times> header) list" where
  "header_entries raw =
     (case raw of
        Some (JObj kvs) \<Rightarrow>
          concat (map (\<lambda>(k, v). case v of
              JStr s \<Rightarrow> [(map ascii_fold k, TextHeader s)]
            | JNum q \<Rightarrow> [(map ascii_fold k, NumberHeader q)]
            | _ \<Rightarrow> []) kvs)
      | _ \<Rightarrow> [])"

text \<open>The headers of the error, then those of its response; of one name the last counts.\<close>

definition responseHeaders :: "json option \<Rightarrow> string \<Rightarrow> header option" where
  "responseHeaders v k =
     map_of (rev (header_entries (objectProperty v ''headers'')
       @ header_entries (objectProperty (objectProperty v ''response'') ''headers''))) (units k)"

fun header_blank :: "header \<Rightarrow> bool" where
  "header_blank (TextHeader s) \<longleftrightarrow> text_trim s = []"
| "header_blank (NumberHeader q) \<longleftrightarrow> False"

fun header_zero :: "header \<Rightarrow> bool" where
  "header_zero (TextHeader s) \<longleftrightarrow> text_trim s = units ''0''"
| "header_zero (NumberHeader q) \<longleftrightarrow> q = Some 0"

fun header_number :: "header \<Rightarrow> rat option" where
  "header_number (TextHeader s) = js_Number (text_of_units s)"
| "header_number (NumberHeader q) = q"

text \<open>The product of a double and a thousand, as a double.\<close>

definition milliseconds :: "rat \<Rightarrow> rat option" where
  "milliseconds s = to_double (s * 1000)"

definition validRetryAfter :: "header option \<Rightarrow> int \<Rightarrow> int option" where
  "validRetryAfter value now =
     (case value of
        None \<Rightarrow> None
      | Some h \<Rightarrow>
          if header_blank h then None
          else (case header_number h of
             None \<Rightarrow> None
           | Some seconds \<Rightarrow>
               (case milliseconds seconds of
                  None \<Rightarrow> None
                | Some ms \<Rightarrow> if seconds < 0 \<or> ms > of_int MAX_RATE_LIMIT_DELAY_MS then None
                             else Some (now + \<lceil>ms\<rceil>))))"

definition validRateLimitReset :: "header option \<Rightarrow> int \<Rightarrow> int option" where
  "validRateLimitReset value now =
     (case value of
        None \<Rightarrow> None
      | Some h \<Rightarrow>
          if header_blank h then None
          else (case header_number h of
             None \<Rightarrow> None
           | Some epochSeconds \<Rightarrow>
               if epochSeconds < 0 then None
               else (case milliseconds epochSeconds of
                  None \<Rightarrow> None
                | Some ms \<Rightarrow>
                    (let reset = js_trunc ms; delay = reset - now in
                     if valid_time reset \<and> delay > 0 \<and> delay \<le> MAX_RATE_LIMIT_DELAY_MS then Some reset else None))))"

section \<open>Rate limits\<close>

text \<open>
  \<open>toLowerCase\<close> and \<open>toUpperCase\<close>, as far as the compared words can tell: the dotless i is the
  one letter beyond ASCII whose upper case is a letter of \<open>RATE_LIMITED\<close>.
\<close>

definition upper_unit :: "nat \<Rightarrow> nat" where
  "upper_unit c = (if 97 \<le> c \<and> c \<le> 122 then c - 32 else if c = 305 then 73 else c)"

definition hasRateLimitMetadata :: "json option \<Rightarrow> bool" where
  "hasRateLimitMetadata v =
     (let response = objectProperty v ''response''; data = objectProperty response ''data'' in
      (case stringProperty data ''documentation_url'' of
         None \<Rightarrow> False | Some u \<Rightarrow> text_includes (map ascii_fold u) (units ''rate-limit'')) \<or>
      list_ex (\<lambda>item. map_option (map upper_unit) (stringProperty (Some item) ''type'') = Some (units ''RATE_LIMITED''))
        (arrayProperty data ''errors'' @ arrayProperty response ''errors'' @ arrayProperty v ''errors''))"

fun is_rate_limit_error :: "err \<Rightarrow> bool" where
  "is_rate_limit_error (GithubRateLimitError s t) \<longleftrightarrow> True"
| "is_rate_limit_error e \<longleftrightarrow> False"

definition rate_limit_error :: "json option \<Rightarrow> int \<Rightarrow> int \<Rightarrow> err option" where
  "rate_limit_error v code now =
     (let retryAfter = validRetryAfter (responseHeaders v ''retry-after'') now;
          remainingZero = (case responseHeaders v ''x-ratelimit-remaining'' of None \<Rightarrow> False | Some h \<Rightarrow> header_zero h);
          reset = validRateLimitReset (responseHeaders v ''x-ratelimit-reset'') now in
      if code = 429 \<or> retryAfter \<noteq> None \<or> remainingZero \<or> hasRateLimitMetadata v
      then Some (GithubRateLimitError code
             (option_or retryAfter (option_or (if remainingZero then reset else None)
                (now + DEFAULT_RATE_LIMIT_DELAY_MS))))
      else None)"

definition normalizeGithubRequestError :: "request_error \<Rightarrow> int \<Rightarrow> err" where
  "normalizeGithubRequestError error now =
     (let v = Some (re_properties error); e = re_error error in
      if is_rate_limit_error e then e
      else
        (case numericProperty v ''status'' of
           Some q \<Rightarrow>
             if q = Some 403 then option_or (rate_limit_error v 403 now) e
             else if q = Some 429 then option_or (rate_limit_error v 429 now) e
             else e
         | None \<Rightarrow>
             if hasRateLimitMetadata v then option_or (rate_limit_error v 429 now) e else e))"

section \<open>The time to try again\<close>

lemma round_half_even_nonneg: "0 \<le> r \<Longrightarrow> 0 \<le> round_half_even r"
  by (simp add: round_half_even_def Let_def)

lemma pow2_pos: "0 < pow2 k"
  by (simp add: pow2_def)

lemma to_double_nonneg: "0 \<le> r \<Longrightarrow> to_double r = Some d \<Longrightarrow> 0 \<le> d"
  using round_half_even_nonneg pow2_pos
  by (auto simp: to_double_def Let_def less_imp_le split: if_splits intro!: mult_nonneg_nonneg divide_nonneg_pos)

lemma validRetryAfter_bounds:
  assumes "validRetryAfter h now = Some t"
  shows "now \<le> t \<and> t \<le> now + MAX_RATE_LIMIT_DELAY_MS"
proof -
  from assms obtain s ms where ms: "to_double (s * 1000) = Some ms" "0 \<le> s"
      "ms \<le> of_int MAX_RATE_LIMIT_DELAY_MS" "t = now + \<lceil>ms\<rceil>"
    by (auto simp: validRetryAfter_def milliseconds_def not_less split: option.splits if_splits)
  have "0 \<le> ms" using to_double_nonneg [OF _ ms(1)] ms(2) by simp
  then have "0 \<le> \<lceil>ms\<rceil>" by (simp add: ceiling_le_iff less_le_trans)
  moreover have "\<lceil>ms\<rceil> \<le> MAX_RATE_LIMIT_DELAY_MS" using ms(3) by (simp add: ceiling_le_iff)
  ultimately show ?thesis using ms(4) by simp
qed

lemma validRateLimitReset_bounds:
  "validRateLimitReset h now = Some t \<Longrightarrow> now < t \<and> t \<le> now + MAX_RATE_LIMIT_DELAY_MS"
  by (auto simp: validRateLimitReset_def Let_def split: option.splits if_splits)

lemma rate_limit_error_bounds:
  assumes "rate_limit_error v code now = Some e"
  shows "\<exists>t. e = GithubRateLimitError code t \<and> now \<le> t \<and> t \<le> now + MAX_RATE_LIMIT_DELAY_MS"
proof -
  let ?after = "validRetryAfter (responseHeaders v ''retry-after'') now"
  let ?reset = "validRateLimitReset (responseHeaders v ''x-ratelimit-reset'') now"
  let ?z = "case responseHeaders v ''x-ratelimit-remaining'' of None \<Rightarrow> False | Some h \<Rightarrow> header_zero h"
  have e: "e = GithubRateLimitError code (option_or ?after
      (option_or (if ?z then ?reset else None) (now + DEFAULT_RATE_LIMIT_DELAY_MS)))"
    using assms unfolding rate_limit_error_def Let_def by (metis option.distinct(1) option.inject)
  have "now \<le> t \<and> t \<le> now + MAX_RATE_LIMIT_DELAY_MS"
    if "t = option_or ?after (option_or (if ?z then ?reset else None) (now + DEFAULT_RATE_LIMIT_DELAY_MS))" for t
    using that validRetryAfter_bounds validRateLimitReset_bounds
    by (cases ?after; cases ?z; cases ?reset)
      (auto simp: MAX_RATE_LIMIT_DELAY_MS_def DEFAULT_RATE_LIMIT_DELAY_MS_def less_imp_le)
  with e show ?thesis by blast
qed

text \<open>Either the error is passed on, or it becomes a rate limit of a status that allows it.\<close>

lemma normalize_cases:
  "normalizeGithubRequestError re now = re_error re \<or>
   (\<exists>code t. (code = 403 \<or> code = 429) \<and> normalizeGithubRequestError re now = GithubRateLimitError code t \<and>
      now \<le> t \<and> t \<le> now + MAX_RATE_LIMIT_DELAY_MS)"
proof -
  define limited where "limited e \<longleftrightarrow> e = re_error re \<or> (\<exists>code t. (code = 403 \<or> code = 429) \<and>
      e = GithubRateLimitError code t \<and> now \<le> t \<and> t \<le> now + MAX_RATE_LIMIT_DELAY_MS)" for e
  have "limited (option_or (rate_limit_error v code now) (re_error re))" if "code = 403 \<or> code = 429" for v code
    using rate_limit_error_bounds [of v code now] that
    by (cases "rate_limit_error v code now") (auto simp: limited_def)
  moreover have "limited (re_error re)" by (simp add: limited_def)
  ultimately have "limited (normalizeGithubRequestError re now)"
    by (auto simp: normalizeGithubRequestError_def Let_def split: option.splits)
  then show ?thesis by (simp add: limited_def)
qed

end
