(* ===== verification/InstallationTokens.thy ===== *)
theory InstallationTokens
  imports GithubErrors Effects
begin

text \<open>
  Programs that may run forever and the tokens of the installations of the GitHub App
  (\<open>src/src/github-app/github-installation-token.service.ts\<close>).

  GitHub decides how many pages a list has, so that a loop over pages need not end: such a loop
  takes a bound, and \<open>Unfinished\<close> says that it was not enough. A client of GitHub is known by its
  token.
\<close>

section \<open>Runs\<close>

text \<open>
  What a process remembers between the requests: the token of every installation, and the time of
  the last heartbeat, which the callback of the worker keeps to itself; both outlive a failed
  attempt, as in the code. A date that is invalid is \<^const>\<open>None\<close>.
\<close>

record cached_token =
  ct_token :: string
  ct_expiresAt :: "int option"

record session =
  se_beat :: int
  se_tokens :: "utext \<rightharpoonup> cached_token"

datatype 'a outcome = Done 'a | Failed err | Unfinished

type_synonym 'a run = "session \<Rightarrow> world \<Rightarrow> 'a outcome \<times> session \<times> world"

definition rdone :: "'a \<Rightarrow> 'a run" where
  "rdone a b w = (Done a, b, w)"

definition rbind :: "'a run \<Rightarrow> ('a \<Rightarrow> 'b run) \<Rightarrow> 'b run" where
  "rbind m f b w = (case m b w of
       (Done a, b', w') \<Rightarrow> f a b' w'
     | (Failed e, b', w') \<Rightarrow> (Failed e, b', w')
     | (Unfinished, b', w') \<Rightarrow> (Unfinished, b', w'))"

definition rthen :: "unit run \<Rightarrow> 'b run \<Rightarrow> 'b run" where
  "rthen m n = rbind m (\<lambda>_. n)"

definition unfinished :: "'a run" where
  "unfinished b w = (Unfinished, b, w)"

definition run_io :: "'a io \<Rightarrow> 'a run" where
  "run_io m b w = (case m w of (Inr a, w') \<Rightarrow> (Done a, b, w') | (Inl e, w') \<Rightarrow> (Failed e, b, w'))"

definition checked :: "err + 'a \<Rightarrow> 'a run" where
  "checked r = run_io (of_result r)"

text \<open>The outcome of a \<open>try\<close> block.\<close>

definition rattempt :: "'a run \<Rightarrow> (err + 'a) run" where
  "rattempt m b w = (case m b w of
       (Done a, b', w') \<Rightarrow> (Done (Inr a), b', w')
     | (Failed e, b', w') \<Rightarrow> (Done (Inl e), b', w')
     | (Unfinished, b', w') \<Rightarrow> (Unfinished, b', w'))"

definition cached :: "utext \<Rightarrow> cached_token option run" where
  "cached i b w = (Done (se_tokens b i), b, w)"

definition cache_set :: "utext \<Rightarrow> cached_token option \<Rightarrow> unit run" where
  "cache_set i t b w = (Done (), b\<lparr>se_tokens := (se_tokens b)(i := t)\<rparr>, w)"

text \<open>The callback of a page, with the time of the last heartbeat.\<close>

definition page_callback :: "(int \<Rightarrow> int io) \<Rightarrow> unit run" where
  "page_callback onPage b w = (case onPage (se_beat b) w of
       (Inr t, w') \<Rightarrow> (Done (), b\<lparr>se_beat := t\<rparr>, w') | (Inl e, w') \<Rightarrow> (Failed e, b, w'))"

section \<open>Tokens\<close>

text \<open>
  GitHub, as the service calls it: the token of an installation with its date of expiry, and a page
  of the repositories that a token gives access to. The number is the effect counter.
\<close>

record github_app =
  ga_createToken :: "utext \<Rightarrow> nat \<Rightarrow> request_error + string \<times> utext"
  ga_listRepositories :: "string \<Rightarrow> nat \<Rightarrow> nat \<Rightarrow> request_error + (int \<times> string \<times> bool) list"

record installation_repository =
  ir_id :: int
  ir_fullName :: string
  ir_private :: bool
  ir_installationId :: utext

definition refreshBufferMs :: int where
  "refreshBufferMs = 5 * 60 * 1000"

definition isUnauthorized :: "request_error \<Rightarrow> bool" where
  "isUnauthorized e \<longleftrightarrow>
     (case re_error e of HttpError UnauthorizedException _ \<Rightarrow> True | _ \<Rightarrow> False) \<or>
     numericProperty (Some (re_properties e)) ''status'' = Some (Some 401)"

definition active_installation :: "utext \<Rightarrow> db \<Rightarrow> bool" where
  "active_installation i d \<longleftrightarrow>
     list_ex (\<lambda>g. gi_githubInstallationId g = i \<and> gi_status g = ACTIVE_INSTALLATION) (installations d)"

definition still_fresh :: "env \<Rightarrow> cached_token \<Rightarrow> bool run" where
  "still_fresh env c = rbind (run_io (now_io env)) (\<lambda>now.
     rdone (case ct_expiresAt c of None \<Rightarrow> False | Some t \<Rightarrow> t - refreshBufferMs > now))"

definition createToken ::
  "env \<Rightarrow> (utext \<Rightarrow> int option) \<Rightarrow> github_app \<Rightarrow> utext \<Rightarrow> (request_error + string) run" where
  "createToken env other_date gh i =
     rbind (run_io (db_call env (query (active_installation i)))) (\<lambda>found.
     if \<not> found
     then rthen (cache_set i None)
       (checked (Inl (HttpError ForbiddenException ''GitHub App installation is deleted, suspended, or unavailable'')))
     else rbind (run_io (external (\<lambda>t. Inr (ga_createToken gh i t)))) (\<lambda>r. case r of
         Inl e \<Rightarrow> rdone (Inl e)
       | Inr (token, expires) \<Rightarrow>
           rthen (cache_set i (Some \<lparr>ct_token = token, ct_expiresAt = Date_parse other_date expires\<rparr>))
           (rdone (Inr token))))"

definition getInstallationToken ::
  "env \<Rightarrow> (utext \<Rightarrow> int option) \<Rightarrow> github_app \<Rightarrow> utext \<Rightarrow> (request_error + string) run" where
  "getInstallationToken env other_date gh i =
     rbind (cached i) (\<lambda>c. case c of
       None \<Rightarrow> createToken env other_date gh i
     | Some c \<Rightarrow> rbind (still_fresh env c) (\<lambda>fresh.
         if fresh then rdone (Inr (ct_token c)) else createToken env other_date gh i))"

section \<open>One retry\<close>

definition throw_normalized :: "env \<Rightarrow> request_error \<Rightarrow> 'a run" where
  "throw_normalized env e =
     run_io (bind (now_io env) (\<lambda>now. throw (normalizeGithubRequestError e now)))"

text \<open>The \<open>try\<close> block: what the operation throws, as the code sees it, or its result.\<close>

definition with_token ::
  "env \<Rightarrow> (utext \<Rightarrow> int option) \<Rightarrow> github_app \<Rightarrow> utext \<Rightarrow> (string \<Rightarrow> (request_error + 'a) run) \<Rightarrow> (request_error + 'a) run" where
  "with_token env other_date gh i operation =
     rbind (rattempt (rbind (getInstallationToken env other_date gh i) (\<lambda>r. case r of
         Inl e \<Rightarrow> rdone (Inl e) | Inr token \<Rightarrow> operation token)))
     (\<lambda>out. rdone (case out of Inl e \<Rightarrow> Inl (plain_error e) | Inr r \<Rightarrow> r))"

definition executeWithRetry ::
  "env \<Rightarrow> (utext \<Rightarrow> int option) \<Rightarrow> github_app \<Rightarrow> utext \<Rightarrow> (string \<Rightarrow> (request_error + 'a) run) \<Rightarrow> 'a run" where
  "executeWithRetry env other_date gh i operation =
     rbind (with_token env other_date gh i operation) (\<lambda>r. case r of
       Inr a \<Rightarrow> rdone a
     | Inl e \<Rightarrow>
         if \<not> isUnauthorized e then throw_normalized env e
         else rthen (cache_set i None)
           (rbind (with_token env other_date gh i operation) (\<lambda>r2. case r2 of
             Inr a \<Rightarrow> rdone a | Inl e2 \<Rightarrow> throw_normalized env e2)))"

section \<open>The repositories of a user\<close>

definition active_installations_of :: "int \<Rightarrow> db \<Rightarrow> utext list" where
  "active_installations_of u d =
     map gi_githubInstallationId (filter (\<lambda>g. gi_status g = ACTIVE_INSTALLATION)
       (concat (map (\<lambda>l. filter (\<lambda>g. gi_id g = ul_installationId l) (installations d))
         (filter (\<lambda>l. ul_userId l = u) (user_installations d)))))"

definition getActiveRepoInstallations :: "env \<Rightarrow> int \<Rightarrow> utext list run" where
  "getActiveRepoInstallations env userId =
     rbind (run_io (db_call env (query (active_installations_of userId)))) (\<lambda>links.
     if links = [] then checked (Inl (HttpError ForbiddenException
         ''Install or reconnect the GitHub App to access repositories''))
     else rdone links)"

definition repository_of :: "utext \<Rightarrow> int \<times> string \<times> bool \<Rightarrow> installation_repository" where
  "repository_of i r = (case r of (n, name, p) \<Rightarrow>
     \<lparr>ir_id = n, ir_fullName = name, ir_private = p, ir_installationId = i\<rparr>)"

primrec installation_repositories ::
  "env \<Rightarrow> (utext \<Rightarrow> int option) \<Rightarrow> github_app \<Rightarrow> utext \<Rightarrow> nat \<Rightarrow> nat \<Rightarrow> installation_repository list
     \<Rightarrow> installation_repository list run" where
  "installation_repositories env other_date gh i 0 page acc = unfinished"
| "installation_repositories env other_date gh i (Suc n) page acc =
     rbind (executeWithRetry env other_date gh i (\<lambda>token.
         run_io (external (\<lambda>t. Inr (ga_listRepositories gh token page t))))) (\<lambda>data.
     let acc' = acc @ map (repository_of i) data in
     if length data < 100 then rdone acc'
     else installation_repositories env other_date gh i n (page + 1) acc')"

text \<open>
  \<open>Promise.all\<close> over the installations: their requests interleave in the code, here one
  installation comes after the other. What GitHub answers depends on the counter, not on the order.
\<close>

primrec all_repositories ::
  "env \<Rightarrow> (utext \<Rightarrow> int option) \<Rightarrow> github_app \<Rightarrow> nat \<Rightarrow> utext list \<Rightarrow> installation_repository list run" where
  "all_repositories env other_date gh bound [] = rdone []"
| "all_repositories env other_date gh bound (i # is) =
     rbind (installation_repositories env other_date gh i bound 1 []) (\<lambda>rs.
     rbind (all_repositories env other_date gh bound is) (\<lambda>more. rdone (rs @ more)))"

text \<open>A \<open>Map\<close> by the number of the repository: the first place, the last value.\<close>

primrec unique_repositories ::
  "installation_repository list \<Rightarrow> installation_repository list \<Rightarrow> installation_repository list" where
  "unique_repositories seen [] = seen"
| "unique_repositories seen (r # rs) =
     unique_repositories
       (if list_ex (\<lambda>x. ir_id x = ir_id r) seen then map (\<lambda>x. if ir_id x = ir_id r then r else x) seen
        else seen @ [r]) rs"

definition getAvailableRepos ::
  "env \<Rightarrow> (utext \<Rightarrow> int option) \<Rightarrow> github_app \<Rightarrow> nat \<Rightarrow> int \<Rightarrow> installation_repository list run" where
  "getAvailableRepos env other_date gh bound userId =
     rbind (getActiveRepoInstallations env userId) (\<lambda>is.
     rbind (all_repositories env other_date gh bound is) (\<lambda>rs.
     rdone (unique_repositories [] rs)))"

definition executeForRepository ::
  "env \<Rightarrow> (utext \<Rightarrow> int option) \<Rightarrow> github_app \<Rightarrow> nat \<Rightarrow> int \<Rightarrow> string \<Rightarrow> (string \<Rightarrow> (request_error + 'a) run) \<Rightarrow> 'a run" where
  "executeForRepository env other_date gh bound userId githubRepoId operation =
     rbind (getAvailableRepos env other_date gh bound userId) (\<lambda>repositories.
     case find (\<lambda>r. js_string_of_int (ir_id r) = githubRepoId) repositories of
       None \<Rightarrow> checked (Inl (HttpError ForbiddenException
                 ''Repository is not accessible through an active GitHub App installation''))
     | Some r \<Rightarrow> executeWithRetry env other_date gh (ir_installationId r) operation)"

end
