(* ===== verification/Collection.thy ===== *)
theory Collection
  imports InstallationTokens CollectionLimits Worker
begin

text \<open>
  The collection of a repository's activity (\<open>src/src/collection/repository-collection.service.ts\<close>)
  through the queries of \<open>src/src/collection/github.provider.ts\<close>.

  The loops over pages take a bound on the pages of one connection; the theory of its properties
  proves that it is enough when the cursors come from a finite set.
\<close>

section \<open>Responses of GitHub\<close>

text \<open>
  Values have the types their declarations give them. What the code checks beyond is explicit: a
  missing node is \<^const>\<open>None\<close>, and so is a connection whose nodes or page information
  \<open>assertConnection\<close> refuses.
\<close>

record page_info =
  pi_endCursor :: "utext option"
  pi_hasNextPage :: bool

record 'n connection =
  cx_nodes :: "'n list"
  cx_pageInfo :: page_info

record pr_node =
  pn_id :: utext
  pn_number :: int
  pn_title :: utext
  pn_body :: utext
  pn_state :: string
  pn_permalink :: utext
  pn_author :: "utext option"
  pn_createdAt :: utext
  pn_updatedAt :: utext

record review_node =
  vn_id :: utext
  vn_body :: utext
  vn_state :: string
  vn_author :: "utext option"

record comment_node =
  mn_id :: utext
  mn_body :: utext
  mn_author :: "utext option"
  mn_createdAt :: utext

record reviews_response =
  rr_id :: utext
  rr_updatedAt :: utext
  rr_reviews :: "review_node connection option"

text \<open>With the identifier and the time of the owning pull request.\<close>

record comments_response =
  cr_id :: utext
  cr_pullRequest :: "(utext \<times> utext) option"
  cr_comments :: "comment_node connection option"

text \<open>A client with an installation token; the number is the effect counter.\<close>

record github_client =
  gc_pullRequests :: "string \<Rightarrow> string \<Rightarrow> utext option \<Rightarrow> nat \<Rightarrow> request_error + pr_node connection option"
  gc_reviews :: "utext \<Rightarrow> utext option \<Rightarrow> nat \<Rightarrow> request_error + reviews_response option"
  gc_comments :: "utext \<Rightarrow> utext option \<Rightarrow> nat \<Rightarrow> request_error + comments_response option"

text \<open>GitHub: the service of the app, and what the client of a token answers.\<close>

record github =
  gh_app :: github_app
  gh_client :: "string \<Rightarrow> github_client"

definition graphql :: "env \<Rightarrow> (nat \<Rightarrow> request_error + 'a) \<Rightarrow> 'a run" where
  "graphql env call =
     run_io (bind (external (\<lambda>t. Inr (call t))) (\<lambda>r. case r of
       Inr a \<Rightarrow> ret a
     | Inl e \<Rightarrow> bind (now_io env) (\<lambda>now. throw (normalizeGithubRequestError e now))))"

definition fetchPullRequests where
  "fetchPullRequests env owner repo client cursor = graphql env (gc_pullRequests client owner repo cursor)"

definition fetchPullRequestReviews where
  "fetchPullRequestReviews env pullRequestId client cursor = graphql env (gc_reviews client pullRequestId cursor)"

definition fetchReviewComments where
  "fetchReviewComments env reviewId client cursor = graphql env (gc_comments client reviewId cursor)"

section \<open>Checks\<close>

definition DELETED_GITHUB_AUTHOR :: utext where
  "DELETED_GITHUB_AUTHOR = units ''[deleted]''"

definition authorLogin :: "utext option \<Rightarrow> utext" where
  "authorLogin a = (case a of None \<Rightarrow> DELETED_GITHUB_AUTHOR | Some l \<Rightarrow> if l = [] then DELETED_GITHUB_AUTHOR else l)"

definition assertConnection :: "'n connection option \<Rightarrow> string \<Rightarrow> err + 'n connection" where
  "assertConnection c name = (case c of
       None \<Rightarrow> Inl (GithubPaginationError name ''malformed pageInfo'') | Some cx \<Rightarrow> Inr cx)"

definition nextCursor :: "page_info \<Rightarrow> utext option \<Rightarrow> nat \<Rightarrow> utext list \<Rightarrow> string \<Rightarrow> err + utext" where
  "nextCursor info current nodeCount visited name =
     (let next = (case pi_endCursor info of None \<Rightarrow> [] | Some c \<Rightarrow> text_trim c) in
      if next = [] then Inl (GithubPaginationError name ''next cursor is empty'')
      else if nodeCount = 0 then Inl (GithubPaginationError name ''an empty page claims to have a next page'')
      else if current = Some next \<or> next \<in> set visited then Inl (GithubPaginationError name ''cursor was repeated'')
      else Inr next)"

definition assertParentId :: "utext \<Rightarrow> utext \<Rightarrow> string \<Rightarrow> err + unit" where
  "assertParentId actual expected name =
     (if text_trim actual = [] then Inl (GithubPaginationError name ''parent node ID is missing'')
      else if actual \<noteq> expected then Inl (GithubPaginationError name ''parent node does not match'')
      else Inr ())"

text \<open>
  \<open>/^\d{4}-\d{2}-\d{2}T\d{2}:\d{2}:\d{2}(?:\.\d+)?(?:Z|[+-]\d{2}:\d{2})$/\<close>: the date and the time,
  the fraction, and the zone.
\<close>

definition zone_text :: "utext \<Rightarrow> bool" where
  "zone_text s \<longleftrightarrow> s = [90] \<or>
     list_all2 (\<lambda>p c. p c) [\<lambda>c. c = 43 \<or> c = 45, json_digit, json_digit, \<lambda>c. c = 58, json_digit, json_digit] s"

definition GITHUB_DATE_PATTERN :: "utext \<Rightarrow> bool" where
  "GITHUB_DATE_PATTERN s \<longleftrightarrow>
     list_all2 (\<lambda>p c. p c) ([json_digit, json_digit, json_digit, json_digit] @ iso_pattern) (take 19 s) \<and>
     (let r = drop 19 s in
      zone_text r \<or> (r \<noteq> [] \<and> hd r = 46 \<and> digits (tl r) \<noteq> [] \<and> zone_text (after_digits (tl r))))"

definition parseGithubDate :: "(utext \<Rightarrow> int option) \<Rightarrow> utext \<Rightarrow> string \<Rightarrow> err + int" where
  "parseGithubDate other_date value field_name =
     (if \<not> GITHUB_DATE_PATTERN value then Inl (InvalidGithubDateError field_name)
      else (case Date_parse other_date value of
        None \<Rightarrow> Inl (InvalidGithubDateError field_name) | Some t \<Rightarrow> Inr t))"

section \<open>Observed nodes\<close>

text \<open>
  Nodes by their identifier, in the order they were seen. Two nodes have the same JSON text exactly
  if they are equal.
\<close>

type_synonym 'n nodes = "(utext \<times> 'n) list"

definition observeUniqueNode :: "'n \<Rightarrow> utext \<Rightarrow> 'n nodes \<Rightarrow> string \<Rightarrow> err + bool \<times> 'n nodes" where
  "observeUniqueNode node i seen name =
     (if text_trim i = [] then Inl (GithubPaginationError name ''node ID is missing'')
      else (case map_of seen i of
          None \<Rightarrow> Inr (True, seen @ [(i, node)])
        | Some previous \<Rightarrow>
            if previous \<noteq> node then Inl (GithubPaginationError name ''a repeated node contains conflicting data'')
            else Inr (False, seen)))"

definition observeOwnedUniqueNode ::
  "'n \<Rightarrow> utext \<Rightarrow> utext \<Rightarrow> 'n nodes \<Rightarrow> utext nodes \<Rightarrow> string \<Rightarrow> err + bool \<times> 'n nodes \<times> utext nodes" where
  "observeOwnedUniqueNode node i owner seen owners name =
     (if (case map_of owners i of None \<Rightarrow> False | Some known \<Rightarrow> known \<noteq> owner)
      then Inl (GithubPaginationError name ''a node appeared under multiple parents'')
      else and_then (observeUniqueNode node i seen name) (\<lambda>(first, seen').
        Inr (first, seen', if first then owners @ [(i, owner)] else owners)))"

record collection_state =
  reviewNodes :: "review_node nodes"
  reviewOwners :: "utext nodes"
  commentNodes :: "comment_node nodes"
  commentOwners :: "utext nodes"
  reviewAndCommentCount :: int

definition empty_state :: collection_state where
  "empty_state = \<lparr>reviewNodes = [], reviewOwners = [], commentNodes = [], commentOwners = [],
     reviewAndCommentCount = 0\<rparr>"

definition incrementNestedNodeCount :: "int \<Rightarrow> err + int" where
  "incrementNestedNodeCount n = and_then (within_limit ReviewAndCommentNodes (n + 1)) (\<lambda>_. Inr (n + 1))"

primrec mergeOwnedNodes ::
  "string \<Rightarrow> utext nodes \<Rightarrow> 'n nodes \<Rightarrow> 'n nodes \<times> utext nodes \<times> int \<Rightarrow> err + 'n nodes \<times> utext nodes \<times> int" where
  "mergeOwnedNodes name sourceOwners [] target = Inr target"
| "mergeOwnedNodes name sourceOwners (x # source) target =
     (case (x, target) of ((i, node), (nodes, owners, count)) \<Rightarrow>
      case map_of sourceOwners i of
        None \<Rightarrow> Inl (GithubPaginationError name ''node owner is missing'')
      | Some owner \<Rightarrow>
          if (case map_of owners i of None \<Rightarrow> False | Some known \<Rightarrow> known \<noteq> owner)
          then Inl (GithubPaginationError name ''a node appeared under multiple parents'')
          else (case map_of nodes i of
              Some previous \<Rightarrow>
                if previous \<noteq> node
                then Inl (GithubPaginationError name ''a repeated node contains conflicting data'')
                else mergeOwnedNodes name sourceOwners source (nodes, owners, count)
            | None \<Rightarrow>
                and_then (incrementNestedNodeCount count) (\<lambda>n.
                mergeOwnedNodes name sourceOwners source (nodes @ [(i, node)], owners @ [(i, owner)], n))))"

definition mergeCollectionState :: "collection_state \<Rightarrow> collection_state \<Rightarrow> err + collection_state" where
  "mergeCollectionState target source =
     and_then (mergeOwnedNodes ''review'' (reviewOwners source) (reviewNodes source)
         (reviewNodes target, reviewOwners target, reviewAndCommentCount target)) (\<lambda>(rn, ro, n).
     and_then (mergeOwnedNodes ''review comment'' (commentOwners source) (commentNodes source)
         (commentNodes target, commentOwners target, n)) (\<lambda>(cn, co, m).
     Inr \<lparr>reviewNodes = rn, reviewOwners = ro, commentNodes = cn, commentOwners = co, reviewAndCommentCount = m\<rparr>))"

section \<open>Loops over pages\<close>

text \<open>
  A round fetches a page and takes its nodes: it ends the loop with a result, or gives the new
  state with the information of the page that has a successor.
\<close>

datatype ('r, 's) round_result = Stop 'r | More 's page_info nat

primrec pages ::
  "string \<Rightarrow> (utext option \<Rightarrow> 's \<Rightarrow> ('r, 's) round_result run) \<Rightarrow> nat \<Rightarrow> utext option \<Rightarrow> utext list \<Rightarrow> 's \<Rightarrow> 'r run" where
  "pages name round_of 0 cursor visited s = unfinished"
| "pages name round_of (Suc n) cursor visited s =
     rbind (round_of cursor s) (\<lambda>out. case out of
       Stop r \<Rightarrow> rdone r
     | More s' info count \<Rightarrow>
         rbind (checked (nextCursor info cursor count visited name)) (\<lambda>next.
         pages name round_of n (Some next) (next # visited) s'))"

text \<open>The end of a round.\<close>

definition end_round :: "'n connection \<Rightarrow> 's \<Rightarrow> 'r \<Rightarrow> ('r, 's) round_result run" where
  "end_round cx s r =
     rdone (if \<not> pi_hasNextPage (cx_pageInfo cx) then Stop r else More s (cx_pageInfo cx) (length (cx_nodes cx)))"

section \<open>Comments of a review\<close>

text \<open>What does not change during an attempt.\<close>

record collection_context =
  cn_env :: env
  cn_otherDate :: "utext \<Rightarrow> int option"
  cn_client :: github_client
  cn_cutoff :: int
  cn_onPage :: "int \<Rightarrow> int io"
  cn_bound :: nat

definition comment_dto :: "comment_node \<Rightarrow> review_comment_dto" where
  "comment_dto m = \<lparr>c_author = authorLogin (mn_author m), c_body = mn_body m, c_createdAt = text_of_units (mn_createdAt m)\<rparr>"

primrec take_comments ::
  "collection_context \<Rightarrow> utext \<Rightarrow> comment_node list \<Rightarrow> review_comment_dto list \<times> collection_state
     \<Rightarrow> err + review_comment_dto list \<times> collection_state" where
  "take_comments c reviewId [] s = Inr s"
| "take_comments c reviewId (m # ms) s =
     (case s of (comments, st) \<Rightarrow> and_then (observeOwnedUniqueNode m (mn_id m) reviewId (commentNodes st) (commentOwners st) ''review comment'')
       (\<lambda>(first, seen, owners).
       let st1 = st\<lparr>commentNodes := seen, commentOwners := owners\<rparr> in
       if \<not> first then take_comments c reviewId ms (comments, st1)
       else and_then (incrementNestedNodeCount (reviewAndCommentCount st1)) (\<lambda>n.
         and_then (parseGithubDate (cn_otherDate c) (mn_createdAt m) ''review comment createdAt'') (\<lambda>_.
         take_comments c reviewId ms (comments @ [comment_dto m], st1\<lparr>reviewAndCommentCount := n\<rparr>)))))"

text \<open>\<^const>\<open>None\<close> when the pull request changed after the cutoff.\<close>

definition comments_round ::
  "collection_context \<Rightarrow> utext \<Rightarrow> utext \<Rightarrow> utext option \<Rightarrow> review_comment_dto list \<times> collection_state
     \<Rightarrow> (review_comment_dto list option \<times> collection_state, review_comment_dto list \<times> collection_state) round_result run" where
  "comments_round c reviewId pullRequestId cursor s =
     rbind (fetchReviewComments (cn_env c) reviewId (cn_client c) cursor) (\<lambda>response.
     case response of
       None \<Rightarrow> checked (Inl (GithubPaginationError ''review comment'' ''parent node is missing''))
     | Some node \<Rightarrow>
         rthen (checked (assertParentId (cr_id node) reviewId ''review comment''))
         (case cr_pullRequest node of
            None \<Rightarrow> checked (Inl (GithubPaginationError ''review comment'' ''owning pull request is missing''))
          | Some (i, updatedAt) \<Rightarrow>
              rthen (checked (assertParentId i pullRequestId ''review comment''))
              (rbind (checked (parseGithubDate (cn_otherDate c) updatedAt ''pull request updatedAt'')) (\<lambda>updated.
              rbind (checked (assertConnection (cr_comments node) ''review comment'')) (\<lambda>cx.
              rthen (page_callback (cn_onPage c))
              (if updated > cn_cutoff c then rdone (Stop (None, snd s))
               else rbind (checked (take_comments c reviewId (cx_nodes cx) s)) (\<lambda>s'.
                 end_round cx s' (Some (fst s'), snd s'))))))))"

definition collectComments ::
  "collection_context \<Rightarrow> utext \<Rightarrow> utext \<Rightarrow> collection_state \<Rightarrow> (review_comment_dto list option \<times> collection_state) run" where
  "collectComments c reviewId pullRequestId st =
     pages ''review comment'' (comments_round c reviewId pullRequestId) (cn_bound c) None [] ([], st)"

section \<open>Reviews of a pull request\<close>

definition review_of :: "review_node \<Rightarrow> review_comment_dto list \<Rightarrow> review_dto" where
  "review_of v cs = \<lparr>v_author = authorLogin (vn_author v), v_body = vn_body v, v_state = vn_state v, v_comments = cs\<rparr>"

primrec take_reviews ::
  "collection_context \<Rightarrow> utext \<Rightarrow> review_node list \<Rightarrow> review_dto list \<times> collection_state
     \<Rightarrow> (review_dto list option \<times> collection_state) run" where
  "take_reviews c pullRequestId [] s = rdone (Some (fst s), snd s)"
| "take_reviews c pullRequestId (v # vs) s =
     (case s of (reviews, st) \<Rightarrow> rbind (checked (observeOwnedUniqueNode v (vn_id v) pullRequestId (reviewNodes st) (reviewOwners st) ''review''))
       (\<lambda>(first, seen, owners).
       let st1 = st\<lparr>reviewNodes := seen, reviewOwners := owners\<rparr> in
       if \<not> first then take_reviews c pullRequestId vs (reviews, st1)
       else rbind (checked (incrementNestedNodeCount (reviewAndCommentCount st1))) (\<lambda>n.
         rbind (collectComments c (vn_id v) pullRequestId (st1\<lparr>reviewAndCommentCount := n\<rparr>)) (\<lambda>(comments, st2).
         case comments of
           None \<Rightarrow> rdone (None, st2)
         | Some cs \<Rightarrow> take_reviews c pullRequestId vs (reviews @ [review_of v cs], st2)))))"

definition reviews_round ::
  "collection_context \<Rightarrow> utext \<Rightarrow> utext option \<Rightarrow> review_dto list \<times> collection_state
     \<Rightarrow> (review_dto list option \<times> collection_state, review_dto list \<times> collection_state) round_result run" where
  "reviews_round c pullRequestId cursor s =
     rbind (fetchPullRequestReviews (cn_env c) pullRequestId (cn_client c) cursor) (\<lambda>response.
     case response of
       None \<Rightarrow> checked (Inl (GithubPaginationError ''review'' ''parent node is missing''))
     | Some node \<Rightarrow>
         rthen (checked (assertParentId (rr_id node) pullRequestId ''review''))
         (rbind (checked (parseGithubDate (cn_otherDate c) (rr_updatedAt node) ''pull request updatedAt'')) (\<lambda>updated.
         rbind (checked (assertConnection (rr_reviews node) ''review'')) (\<lambda>cx.
         rthen (page_callback (cn_onPage c))
         (if updated > cn_cutoff c then rdone (Stop (None, snd s))
          else rbind (take_reviews c pullRequestId (cx_nodes cx) s) (\<lambda>(reviews, st).
            case reviews of
              None \<Rightarrow> rdone (Stop (None, st))
            | Some rs \<Rightarrow> end_round cx (rs, st) (Some rs, st)))))))"

definition collectReviews ::
  "collection_context \<Rightarrow> utext \<Rightarrow> collection_state \<Rightarrow> (review_dto list option \<times> collection_state) run" where
  "collectReviews c pullRequestId st =
     pages ''review'' (reviews_round c pullRequestId) (cn_bound c) None [] ([], st)"

section \<open>Pull requests\<close>

text \<open>The nodes of a page: whether one reached the source cursor ends the page.\<close>

primrec take_pull_requests ::
  "collection_context \<Rightarrow> int option \<Rightarrow> pr_node list \<Rightarrow> pr_node list \<times> pr_node nodes
     \<Rightarrow> err + (pr_node list \<times> pr_node nodes) \<times> bool" where
  "take_pull_requests c sourceCursor [] s = Inr (s, False)"
| "take_pull_requests c sourceCursor (p # ps) s =
     (case s of (collected, seen) \<Rightarrow> and_then (observeUniqueNode p (pn_id p) seen ''pull request'') (\<lambda>(first, seen').
     and_then (parseGithubDate (cn_otherDate c) (pn_updatedAt p) ''pull request updatedAt'') (\<lambda>updated.
     if (case sourceCursor of None \<Rightarrow> False | Some t \<Rightarrow> updated \<le> t) then Inr ((collected, seen'), True)
     else if first \<and> updated \<le> cn_cutoff c
     then and_then (within_limit ChangedPullRequests (int (length (collected @ [p])))) (\<lambda>_.
            take_pull_requests c sourceCursor ps (collected @ [p], seen'))
     else take_pull_requests c sourceCursor ps (collected, seen'))))"

definition pull_requests_round ::
  "collection_context \<Rightarrow> string \<Rightarrow> string \<Rightarrow> int option \<Rightarrow> utext option \<Rightarrow> pr_node list \<times> pr_node nodes
     \<Rightarrow> (pr_node list, pr_node list \<times> pr_node nodes) round_result run" where
  "pull_requests_round c owner repo sourceCursor cursor s =
     rbind (fetchPullRequests (cn_env c) owner repo (cn_client c) cursor) (\<lambda>response.
     rbind (checked (assertConnection response ''pull request'')) (\<lambda>cx.
     rthen (page_callback (cn_onPage c))
     (rbind (checked (take_pull_requests c sourceCursor (cx_nodes cx) s)) (\<lambda>(s', reachedSourceCursor).
      if reachedSourceCursor then rdone (Stop (fst s')) else end_round cx s' (fst s')))))"

definition collectPullRequests ::
  "collection_context \<Rightarrow> string \<Rightarrow> string \<Rightarrow> int option \<Rightarrow> pr_node list run" where
  "collectPullRequests c owner repo sourceCursor =
     pages ''pull request'' (pull_requests_round c owner repo sourceCursor) (cn_bound c) None [] ([], [])"

section \<open>An attempt\<close>

definition pr_dto :: "pr_node \<Rightarrow> review_dto list \<Rightarrow> pull_request_dto" where
  "pr_dto p rs = \<lparr>pr_number = pn_number p, pr_title = pn_title p, pr_body = pn_body p,
     pr_author = authorLogin (pn_author p), pr_updatedAt = text_of_units (pn_updatedAt p),
     pr_permalink = pn_permalink p, pr_reviews = rs\<rparr>"

primrec collect_activity ::
  "collection_context \<Rightarrow> pr_node list \<Rightarrow> pull_request_dto list \<times> collection_state \<Rightarrow> pull_request_dto list run" where
  "collect_activity c [] s = rdone (fst s)"
| "collect_activity c (p # ps) s =
     (case s of (prs, st) \<Rightarrow> rbind (collectReviews c (pn_id p) empty_state) (\<lambda>(reviews, provisional).
     case reviews of
       None \<Rightarrow> collect_activity c ps (prs, st)
     | Some rs \<Rightarrow>
         rbind (checked (mergeCollectionState st provisional)) (\<lambda>st'.
         collect_activity c ps (prs @ [pr_dto p rs], st'))))"

definition collectAttempt ::
  "collection_context \<Rightarrow> collect_input \<Rightarrow> string \<Rightarrow> string \<Rightarrow> collected_data run" where
  "collectAttempt c input owner repo =
     rbind (collectPullRequests c owner repo (co_sourceCursor input)) (\<lambda>nodes.
     rbind (collect_activity c nodes ([], empty_state)) (\<lambda>prs.
     rdone \<lparr>cd_githubRepoId = co_githubRepoId input, cd_owner = owner, cd_repo = repo,
            cd_targetUser = units (co_targetUser input), cd_pullRequests = prs\<rparr>))"

section \<open>The collection\<close>

definition valid_input :: "collect_input \<Rightarrow> (string \<times> string) option" where
  "valid_input i =
     (case map text_of_units (split_units 47 (units (co_fullName i))) of
        [owner, repo] \<Rightarrow>
          if co_userId i \<le> 0 \<or> co_githubRepoId i = [] \<or> owner = [] \<or> repo = [] \<or> co_targetUser i = [] \<or>
             \<not> valid_time (co_collectionCutoff i) \<or>
             (case co_sourceCursor i of None \<Rightarrow> False | Some t \<Rightarrow> \<not> valid_time t \<or> t > co_collectionCutoff i)
          then None else Some (owner, repo)
      | _ \<Rightarrow> None)"

text \<open>What an operation throws, as a value that the retry reads.\<close>

definition plain_outcome :: "'a run \<Rightarrow> (request_error + 'a) run" where
  "plain_outcome m = rbind (rattempt m) (\<lambda>out. rdone (case out of Inl e \<Rightarrow> Inl (plain_error e) | Inr a \<Rightarrow> Inr a))"

definition collect ::
  "env \<Rightarrow> (utext \<Rightarrow> int option) \<Rightarrow> github \<Rightarrow> nat \<Rightarrow> collect_input \<Rightarrow> (int \<Rightarrow> int io) \<Rightarrow> collected_data run" where
  "collect env other_date gh bound input onPage =
     (case valid_input input of
        None \<Rightarrow> checked (Inl InvalidRepositoryCollectionInputError)
      | Some (owner, repo) \<Rightarrow>
          executeForRepository env other_date (gh_app gh) bound (co_userId input) (co_githubRepoId input) (\<lambda>token.
            plain_outcome (collectAttempt \<lparr>cn_env = env, cn_otherDate = other_date, cn_client = gh_client gh token,
                cn_cutoff = co_collectionCutoff input, cn_onPage = onPage, cn_bound = bound\<rparr>
              input owner repo)))"

text \<open>
  The collector of the worker, in a process that remembers the tokens of \<open>s\<close>. The bound is no part
  of the code: a run that reaches it is an error here, and \<open>collection_ends\<close> says when none does.
\<close>

definition repository_collector ::
  "env \<Rightarrow> (utext \<Rightarrow> int option) \<Rightarrow> github \<Rightarrow> nat \<Rightarrow> session \<Rightarrow> collector" where
  "repository_collector env other_date gh bound s input onPage w =
     (case collect env other_date gh bound input onPage (s\<lparr>se_beat := 0\<rparr>) w of
        (Done d, _, w') \<Rightarrow> (Inr d, w')
      | (Failed e, _, w') \<Rightarrow> (Inl e, w')
      | (Unfinished, _, w') \<Rightarrow> (Inl (PlainError ''Task timed out''), w'))"

end
