(* ===== verification/RunRules.thy ===== *)
theory RunRules
  imports InstallationTokens Worker
begin

text \<open>
  Rules for runs: what they may return, when they end, and which guarantee they keep; and these
  three for the service of the installation tokens.
\<close>

section \<open>What a run may return\<close>

definition returns :: "'a run \<Rightarrow> 'a \<Rightarrow> bool" where
  "returns m r \<longleftrightarrow> (\<exists>b w b' w'. m b w = (Done r, b', w'))"

definition finishes :: "'a run \<Rightarrow> bool" where
  "finishes m \<longleftrightarrow> (\<forall>b w. fst (m b w) \<noteq> Unfinished)"

named_theorems returns_dests "what a run may return"
named_theorems finishes_intros "runs that end"

lemma returns_rdone [returns_dests]: "returns (rdone a) r \<longleftrightarrow> r = a"
  by (auto simp: returns_def rdone_def)

lemma returns_rbind [returns_dests]: "returns (rbind m f) r \<Longrightarrow> \<exists>a. returns m a \<and> returns (f a) r"
  unfolding returns_def
proof (elim exE)
  fix b w b' w'
  assume run: "rbind m f b w = (Done r, b', w')"
  obtain q b1 w1 where q: "m b w = (q, b1, w1)" by (cases "m b w")
  with run obtain a where "q = Done a" "f a b1 w1 = (Done r, b', w')" by (cases q) (auto simp: rbind_def)
  with q show "\<exists>a. (\<exists>b w b' w'. m b w = (Done a, b', w')) \<and> (\<exists>b w b' w'. f a b w = (Done r, b', w'))"
    by blast
qed

lemma returns_rthen [returns_dests]: "returns (rthen m n) r \<Longrightarrow> returns n r"
  unfolding rthen_def by (auto dest: returns_rbind)

lemma returns_unfinished [simp]: "\<not> returns unfinished r"
  by (simp add: returns_def unfinished_def)

lemma returns_checked [simp]: "returns (checked x) r \<longleftrightarrow> x = Inr r"
  by (cases x) (auto simp: returns_def checked_def run_io_def of_result_def)

lemma returns_rattempt: "returns (rattempt m) (Inr a) \<Longrightarrow> returns m a"
  unfolding returns_def
proof (elim exE)
  fix b w b' w'
  assume "rattempt m b w = (Done (Inr a), b', w')"
  moreover obtain q b1 w1 where "m b w = (q, b1, w1)" by (cases "m b w")
  ultimately have "m b w = (Done a, b', w')" by (cases q) (auto simp: rattempt_def)
  then show "\<exists>b w b' w'. m b w = (Done a, b', w')" by blast
qed

lemma finishes_rdone [finishes_intros]: "finishes (rdone a)"
  by (simp add: finishes_def rdone_def)

lemma finishes_run_io [finishes_intros]: "finishes (run_io m)"
  by (auto simp: finishes_def run_io_def split: prod.splits sum.splits)

lemma finishes_checked [finishes_intros]: "finishes (checked r)"
  by (simp add: checked_def finishes_run_io)

lemma finishes_page_callback [finishes_intros]: "finishes (page_callback p)"
  by (auto simp: finishes_def page_callback_def split: prod.splits sum.splits)

lemma finishes_rbind:
  assumes "finishes m" "\<And>a. returns m a \<Longrightarrow> finishes (f a)"
  shows "finishes (rbind m f)"
  unfolding finishes_def
proof (intro allI)
  fix b w
  obtain q b' w' where m: "m b w = (q, b', w')" by (cases "m b w")
  show "fst (rbind m f b w) \<noteq> Unfinished"
  proof (cases q)
    case (Done a)
    with m have "returns m a" by (auto simp: returns_def)
    with assms(2) m Done show ?thesis by (simp add: rbind_def finishes_def)
  next
    case (Failed e)
    with m show ?thesis by (simp add: rbind_def)
  next
    case Unfinished
    with m assms(1) show ?thesis unfolding finishes_def by (metis fst_conv)
  qed
qed

lemma finishes_rthen: "finishes m \<Longrightarrow> finishes n \<Longrightarrow> finishes (rthen m n)"
  unfolding rthen_def by (rule finishes_rbind)

lemma finishes_rattempt: "finishes m \<Longrightarrow> finishes (rattempt m)"
  unfolding finishes_def
proof (intro allI)
  fix b w
  assume m: "\<forall>b w. fst (m b w) \<noteq> Unfinished"
  obtain q b1 w1 where q: "m b w = (q, b1, w1)" by (cases "m b w")
  with m have "q \<noteq> Unfinished" by (metis fst_conv)
  with q show "fst (rattempt m b w) \<noteq> Unfinished" by (cases q) (auto simp: rattempt_def)
qed

section \<open>Guarantees of runs\<close>

definition run_guar :: "'a run \<Rightarrow> bool" where
  "run_guar m \<longleftrightarrow> (\<forall>b w. evolves (wdb w) (wdb (snd (snd (m b w)))))"

lemma run_guar_rdone: "run_guar (rdone a)"
  by (simp add: run_guar_def rdone_def ledger.G_refl)

lemma run_guar_unfinished: "run_guar unfinished"
  by (simp add: run_guar_def unfinished_def ledger.G_refl)

lemma run_guar_rbind:
  assumes "run_guar m" "\<And>a. run_guar (f a)"
  shows "run_guar (rbind m f)"
  unfolding run_guar_def
proof (intro allI)
  fix b w
  obtain q b' w' where m: "m b w = (q, b', w')" by (cases "m b w")
  have first: "evolves (wdb w) (wdb w')" using assms(1) m unfolding run_guar_def by (metis snd_conv)
  show "evolves (wdb w) (wdb (snd (snd (rbind m f b w))))"
  proof (cases q)
    case (Done a)
    have "evolves (wdb w') (wdb (snd (snd (f a b' w'))))" using assms(2) unfolding run_guar_def by blast
    with first m Done show ?thesis by (simp add: rbind_def ledger.G_trans)
  qed (use first m in \<open>simp_all add: rbind_def\<close>)
qed

lemma run_guar_rthen: "run_guar m \<Longrightarrow> run_guar n \<Longrightarrow> run_guar (rthen m n)"
  unfolding rthen_def by (rule run_guar_rbind)

lemma run_guar_io: "guar evolves m \<Longrightarrow> run_guar (run_io m)"
  unfolding run_guar_def guar_def
proof (intro allI)
  fix b w
  assume "\<forall>w. evolves (wdb w) (wdb (snd (m w)))"
  then have "evolves (wdb w) (wdb (snd (m w)))" ..
  then show "evolves (wdb w) (wdb (snd (snd (run_io m b w))))"
    by (cases "m w"; cases "fst (m w)") (simp_all add: run_io_def)
qed

lemma run_guar_checked: "run_guar (checked r)"
  unfolding checked_def by (intro run_guar_io ledger.guar_of_result)

lemma run_guar_callback:
  assumes "\<And>b. guar evolves (p b)"
  shows "run_guar (page_callback p)"
  unfolding run_guar_def
proof (intro allI)
  fix b :: session and w
  have "evolves (wdb w) (wdb (snd (p (se_beat b) w)))" using assms unfolding guar_def by blast
  then show "evolves (wdb w) (wdb (snd (snd (page_callback p b w))))"
    by (cases "p (se_beat b) w"; cases "fst (p (se_beat b) w)") (simp_all add: page_callback_def)
qed

lemma run_guar_rattempt:
  assumes "run_guar m"
  shows "run_guar (rattempt m)"
  unfolding run_guar_def
proof (intro allI)
  fix b w
  obtain q b' w' where m: "m b w = (q, b', w')" by (cases "m b w")
  have "evolves (wdb w) (wdb w')" using assms m unfolding run_guar_def by (metis snd_conv)
  with m show "evolves (wdb w) (wdb (snd (snd (rattempt m b w))))" by (cases q) (simp_all add: rattempt_def)
qed

section \<open>The cache\<close>

lemma returns_cache [simp]: "returns (cache_set i t) u"
  by (simp add: returns_def cache_set_def)

lemma finishes_cache [finishes_intros]: "finishes (cached i)" "finishes (cache_set i t)"
  by (simp_all add: finishes_def cached_def cache_set_def)

lemma run_guar_cache: "run_guar (cached i)" "run_guar (cache_set i t)"
  by (simp_all add: run_guar_def cached_def cache_set_def ledger.G_refl)

lemma returns_external: "returns (run_io (external f)) r \<Longrightarrow> \<exists>t. f t = Inr r"
  unfolding returns_def
proof (elim exE)
  fix b w b' w'
  assume "run_io (external f) b w = (Done r, b', w')"
  then have "f (tick w) = Inr r" by (cases "f (tick w)") (auto simp: run_io_def external_def)
  then show "\<exists>t. f t = Inr r" ..
qed

lemmas run_guars = run_guar_rbind run_guar_rthen run_guar_rdone run_guar_checked run_guar_cache
  run_guar_unfinished

section \<open>The tokens of the installations\<close>

lemma still_fresh_rules: "finishes (still_fresh env c)" "run_guar (still_fresh env c)"
  unfolding still_fresh_def
  by (auto intro!: finishes_rbind finishes_intros run_guars run_guar_io ledger.guar_now)

lemma finishes_getInstallationToken: "finishes (getInstallationToken env od gh i)"
  unfolding getInstallationToken_def createToken_def
  by (auto intro!: finishes_rbind finishes_rthen finishes_intros still_fresh_rules split: option.splits sum.splits prod.splits)

lemma finishes_with_token:
  assumes "\<And>token. finishes (op token)"
  shows "finishes (with_token env od gh i op)"
  unfolding with_token_def
  by (auto intro!: finishes_rbind finishes_rattempt finishes_intros finishes_getInstallationToken assms split: sum.splits)

lemma finishes_throw_normalized: "finishes (throw_normalized env e)"
  unfolding throw_normalized_def by (rule finishes_run_io)

lemma finishes_executeWithRetry:
  assumes "\<And>token. finishes (op token)"
  shows "finishes (executeWithRetry env od gh i op)"
  unfolding executeWithRetry_def
  by (auto intro!: finishes_rbind finishes_rthen finishes_intros finishes_with_token finishes_throw_normalized assms
      split: sum.splits)

lemma returns_with_token:
  assumes "returns (with_token env od gh i op) (Inr a)"
  shows "\<exists>token. returns (op token) (Inr a)"
proof -
  from assms have "returns (rbind (getInstallationToken env od gh i) (\<lambda>r. case r of
         Inl e \<Rightarrow> rdone (Inl e) | Inr token \<Rightarrow> op token)) (Inr a)"
    unfolding with_token_def
    by (auto dest!: returns_rbind simp: returns_rdone split: sum.splits dest: returns_rattempt)
  then show ?thesis
    by (auto dest!: returns_rbind simp: returns_rdone split: sum.splits)
qed

lemma returns_throw_normalized [simp]: "\<not> returns (throw_normalized env e) a"
proof -
  have "fst (throw_normalized env e b w) \<noteq> Done a" for b w
    by (simp add: throw_normalized_def run_io_def bind_def now_io_def throw_def split: prod.splits sum.splits)
  then show ?thesis unfolding returns_def by (metis fst_conv)
qed

lemma returns_executeWithRetry:
  assumes "returns (executeWithRetry env od gh i op) a"
  shows "\<exists>token. returns (op token) (Inr a)"
proof -
  have "returns (with_token env od gh i op) (Inr a)"
    using assms unfolding executeWithRetry_def
    by (auto dest!: returns_rbind returns_rthen simp: returns_rdone split: sum.splits if_splits)
  then show ?thesis by (rule returns_with_token)
qed

lemma run_guar_query:
  assumes "rely evolves env"
  shows "run_guar (run_io (db_call env (query f)))"
  by (intro run_guar_io ledger.guar_db_call assms ledger.stmt_guar_query)

lemma run_guar_getInstallationToken:
  assumes "rely evolves env"
  shows "run_guar (getInstallationToken env od gh i)"
  unfolding getInstallationToken_def createToken_def
  by (auto intro!: run_guar_query [OF assms] run_guars still_fresh_rules run_guar_io [OF ledger.guar_external]
      split: option.splits sum.splits prod.splits)

lemma run_guar_executeWithRetry:
  assumes "rely evolves env" "\<And>token. run_guar (op token)"
  shows "run_guar (executeWithRetry env od gh i op)"
proof -
  have "run_guar (with_token env od gh i op)"
    unfolding with_token_def
    by (auto intro!: run_guars run_guar_rattempt run_guar_getInstallationToken assms split: sum.splits)
  moreover have "run_guar (throw_normalized env e)" for e :: request_error
    unfolding throw_normalized_def
    by (intro run_guar_io ledger.guar_bind ledger.guar_now ledger.guar_throw)
  ultimately show ?thesis
    unfolding executeWithRetry_def by (auto intro!: run_guars split: sum.splits)
qed

lemma run_guar_getAvailableRepos:
  assumes "rely evolves env"
  shows "run_guar (getAvailableRepos env od gh n u)"
proof -
  have pages: "run_guar (installation_repositories env od gh i k page acc)" for i k page acc
    by (induction k arbitrary: page acc)
      (auto intro!: run_guars run_guar_executeWithRetry assms run_guar_io ledger.guar_external simp: Let_def)
  have "run_guar (all_repositories env od gh n is)" for "is"
    by (induction "is") (auto intro!: run_guars pages)
  then show ?thesis
    unfolding getAvailableRepos_def getActiveRepoInstallations_def
    by (auto intro!: run_guars run_guar_query assms)
qed

lemma run_guar_executeForRepository:
  assumes "rely evolves env" "\<And>token. run_guar (op token)"
  shows "run_guar (executeForRepository env od gh n u r op)"
  unfolding executeForRepository_def
  by (auto intro!: run_guars run_guar_getAvailableRepos run_guar_executeWithRetry assms split: option.splits)

text \<open>The lists of repositories end: some page is short, whatever the token.\<close>

definition short_page :: "github_app \<Rightarrow> nat \<Rightarrow> bool" where
  "short_page gh n \<longleftrightarrow> (\<exists>p. 0 < p \<and> p \<le> n \<and>
     (\<forall>token t rs. ga_listRepositories gh token p t = Inr rs \<longrightarrow> length rs < 100))"

lemma finishes_getAvailableRepos:
  assumes "short_page gh n"
  shows "finishes (getAvailableRepos env od gh n u)"
proof -
  from assms obtain p where p: "0 < p" "p \<le> n"
      "\<And>token t rs. ga_listRepositories gh token p t = Inr rs \<Longrightarrow> length rs < 100"
    unfolding short_page_def by blast
  have pages: "finishes (installation_repositories env od gh i k page acc)"
    if "page \<le> p" "p < page + k" for i k page acc
    using that
  proof (induction k arbitrary: page acc)
    case (Suc k)
    show ?case
      unfolding installation_repositories.simps
    proof (rule finishes_rbind)
      show "finishes (executeWithRetry env od gh i (\<lambda>token. run_io (external (\<lambda>t. Inr (ga_listRepositories gh token page t)))))"
        by (intro finishes_executeWithRetry finishes_run_io)
    next
      fix data
      assume "returns (executeWithRetry env od gh i (\<lambda>token. run_io (external (\<lambda>t. Inr (ga_listRepositories gh token page t))))) data"
      from returns_executeWithRetry [OF this] obtain token where
        "returns (run_io (external (\<lambda>t. Inr (ga_listRepositories gh token page t)))) (Inr data)" by blast
      then obtain t where "ga_listRepositories gh token page t = Inr data" by (auto dest: returns_external)
      then have "page = p \<Longrightarrow> length data < 100" using p(3) by blast
      with Suc show "finishes (let acc' = acc @ map (repository_of i) data in
           if length data < 100 then rdone acc' else installation_repositories env od gh i k (page + 1) acc')"
        by (cases "page = p") (auto simp: Let_def intro!: finishes_rdone Suc.IH)
    qed
  qed simp
  have "finishes (all_repositories env od gh n is)" for "is"
    using p(1,2) by (induction "is") (auto intro!: finishes_rbind finishes_intros pages)
  then show ?thesis
    unfolding getAvailableRepos_def getActiveRepoInstallations_def
    by (auto intro!: finishes_rbind finishes_intros)
qed

end
