(* ===== verification/CollectionProperties.thy ===== *)
theory CollectionProperties
  imports Collection RunRules
begin

text \<open>
  A collection keeps the ledger, and it ends when GitHub's cursors come from a finite set.
\<close>

section \<open>Loops over pages\<close>

lemma pages_returns:
  assumes "returns (pages name R n cursor visited s) r" "I s"
    and "\<And>c s s' i k. I s \<Longrightarrow> returns (R c s) (More s' i k) \<Longrightarrow> I s'"
    and "\<And>c s r. I s \<Longrightarrow> returns (R c s) (Stop r) \<Longrightarrow> Q r"
  shows "Q r"
  using assms(1,2)
proof (induction n arbitrary: cursor visited s)
  case 0
  then show ?case by simp
next
  case (Suc n)
  from Suc.prems(1) obtain out where out: "returns (R cursor s) out"
    and rest: "returns (case out of Stop r \<Rightarrow> rdone r | More s' info count \<Rightarrow>
       rbind (checked (nextCursor info cursor count visited name)) (\<lambda>next.
       pages name R n (Some next) (next # visited) s')) r"
    by (auto dest: returns_rbind)
  show ?case
  proof (cases out)
    case (Stop x)
    with out rest assms(4) Suc.prems(2) show ?thesis by (auto simp: returns_rdone)
  next
    case (More s' i k)
    with rest obtain nx where "returns (pages name R n (Some nx) (nx # visited) s') r"
      by (auto dest: returns_rbind)
    moreover have "I s'" using assms(3) Suc.prems(2) out More by blast
    ultimately show ?thesis by (rule Suc.IH)
  qed
qed

text \<open>
  Every further page has a cursor that was not visited: with all cursors in a finite set, a bound
  that is larger than the set is enough.
\<close>

definition page_cursor :: "page_info \<Rightarrow> utext" where
  "page_cursor info = (case pi_endCursor info of None \<Rightarrow> [] | Some c \<Rightarrow> text_trim c)"

lemma nextCursor_Inr:
  "nextCursor info current k visited name = Inr c \<Longrightarrow> c = page_cursor info \<and> c \<notin> set visited"
  by (auto simp: nextCursor_def page_cursor_def Let_def split: if_splits)

lemma pages_finishes:
  assumes C: "finite C" "\<And>c s s' i k. returns (R c s) (More s' i k) \<Longrightarrow> page_cursor i \<in> C"
    and R: "\<And>c s. finishes (R c s)"
    and "card (C - set visited) < n"
  shows "finishes (pages name R n cursor visited s)"
  using assms(4)
proof (induction n arbitrary: cursor visited s)
  case 0
  then show ?case by simp
next
  case (Suc n)
  have "finishes (rbind (checked (nextCursor i cursor k visited name)) (\<lambda>next.
       pages name R n (Some next) (next # visited) s'))"
    if more: "returns (R cursor s) (More s' i k)" for s' i k
  proof (rule finishes_rbind [OF finishes_checked])
    fix nx assume "returns (checked (nextCursor i cursor k visited name)) nx"
    then have nx: "nx = page_cursor i" "nx \<notin> set visited" by (auto dest: nextCursor_Inr)
    then have "nx \<in> C - set visited" using C(2) [OF more] by simp
    then have "card (C - set (nx # visited)) < card (C - set visited)"
      using C(1) by (intro psubset_card_mono) auto
    with Suc.prems show "finishes (pages name R n (Some nx) (nx # visited) s')" by (intro Suc.IH) simp
  qed
  note more = this
  show ?case
    unfolding pages.simps
  proof (rule finishes_rbind [OF R])
    fix out assume "returns (R cursor s) out"
    then show "finishes (case out of Stop r \<Rightarrow> rdone r | More s' info count \<Rightarrow>
       rbind (checked (nextCursor info cursor count visited name)) (\<lambda>next.
       pages name R n (Some next) (next # visited) s'))"
      by (cases out) (simp_all add: finishes_rdone more)
  qed
qed

lemma finishes_graphql [finishes_intros]: "finishes (graphql env c)"
  by (simp add: graphql_def finishes_run_io)

section \<open>The collection keeps the ledger\<close>

lemma run_guar_graphql: "run_guar (graphql env call)"
  unfolding graphql_def
  by (auto intro!: run_guar_io ledger.guar_bind ledger.guar_external ledger.guar_ret ledger.guar_now
      ledger.guar_throw split: sum.splits)

lemma run_guar_pages:
  assumes "\<And>c s. run_guar (R c s)"
  shows "run_guar (pages name R n cursor visited s)"
proof (induction n arbitrary: cursor visited s)
  case (Suc n)
  then show ?case
    by (auto intro!: run_guar_rbind assms run_guar_rdone run_guar_checked split: round_result.splits)
qed (simp add: run_guar_unfinished)

lemmas collection_guars = run_guars run_guar_graphql run_guar_pages

lemma run_guar_comments:
  assumes "\<And>b. guar evolves (cn_onPage c b)"
  shows "run_guar (collectComments c reviewId prId st)"
  unfolding collectComments_def comments_round_def fetchReviewComments_def end_round_def
  by (auto intro!: collection_guars run_guar_callback [OF assms] split: option.splits)

lemma run_guar_take_reviews:
  assumes "\<And>b. guar evolves (cn_onPage c b)"
  shows "run_guar (take_reviews c prId vs s)"
proof (induction vs arbitrary: s)
  case (Cons v vs)
  then show ?case
    by (auto simp: Let_def intro!: collection_guars run_guar_comments [OF assms] split: prod.splits option.splits)
qed (simp add: run_guar_rdone)

lemma run_guar_reviews:
  assumes "\<And>b. guar evolves (cn_onPage c b)"
  shows "run_guar (collectReviews c prId st)"
  unfolding collectReviews_def reviews_round_def fetchPullRequestReviews_def end_round_def
  by (auto intro!: collection_guars run_guar_callback [OF assms] run_guar_take_reviews [OF assms]
      split: option.splits prod.splits)

lemma run_guar_attempt:
  assumes "\<And>b. guar evolves (cn_onPage c b)"
  shows "run_guar (collectAttempt c input owner repo)"
proof -
  have "run_guar (collect_activity c ps s)" for ps s
  proof (induction ps arbitrary: s)
    case (Cons p ps)
    then show ?case
      by (auto intro!: collection_guars run_guar_reviews [OF assms] split: prod.splits option.splits)
  qed (simp add: run_guar_rdone)
  moreover have "run_guar (collectPullRequests c owner repo t)" for t
    unfolding collectPullRequests_def pull_requests_round_def fetchPullRequests_def end_round_def
    by (auto intro!: collection_guars run_guar_callback [OF assms] split: prod.splits)
  ultimately show ?thesis
    unfolding collectAttempt_def by (intro collection_guars)
qed

lemma run_guar_collect:
  assumes "rely evolves env" "\<And>b. guar evolves (onPage b)"
  shows "run_guar (collect env other_date gh bound input onPage)"
  unfolding collect_def plain_outcome_def
  by (auto intro!: collection_guars run_guar_executeForRepository run_guar_rattempt run_guar_attempt
      simp: assms split: option.splits prod.splits)

lemma repository_collector_guar:
  assumes "rely evolves env"
  shows "collector_guar (repository_collector env other_date gh bound s)"
  unfolding collector_guar_def
proof (intro allI impI)
  fix i and onPage :: "int \<Rightarrow> int io"
  assume "\<forall>s. guar evolves (onPage s)"
  with assms have run: "run_guar (collect env other_date gh bound i onPage)" by (simp add: run_guar_collect)
  show "guar evolves (repository_collector env other_date gh bound s i onPage)"
    unfolding guar_def
  proof
    fix w
    obtain q b w' where q: "collect env other_date gh bound i onPage (s\<lparr>se_beat := 0\<rparr>) w = (q, b, w')"
      by (cases "collect env other_date gh bound i onPage (s\<lparr>se_beat := 0\<rparr>) w")
    with run have "evolves (wdb w) (wdb w')" unfolding run_guar_def by (metis snd_conv)
    with q show "evolves (wdb w) (wdb (snd (repository_collector env other_date gh bound s i onPage w)))"
      by (cases q) (simp_all add: repository_collector_def)
  qed
qed

section \<open>A collection ends\<close>

text \<open>Cursors of GitHub's pages: all are in a set smaller than the bound.\<close>

definition bounded_cursors :: "nat \<Rightarrow> github_client \<Rightarrow> bool" where
  "bounded_cursors n g \<longleftrightarrow> (\<exists>C. finite C \<and> card C < n \<and>
     (\<forall>owner repo cursor t cx. gc_pullRequests g owner repo cursor t = Inr (Some cx) \<longrightarrow> page_cursor (cx_pageInfo cx) \<in> C) \<and>
     (\<forall>i cursor t r cx. gc_reviews g i cursor t = Inr (Some r) \<longrightarrow> rr_reviews r = Some cx \<longrightarrow> page_cursor (cx_pageInfo cx) \<in> C) \<and>
     (\<forall>i cursor t r cx. gc_comments g i cursor t = Inr (Some r) \<longrightarrow> cr_comments r = Some cx \<longrightarrow> page_cursor (cx_pageInfo cx) \<in> C))"

lemma returns_graphql: "returns (graphql env call) r \<Longrightarrow> \<exists>t. call t = Inr r"
  unfolding returns_def
proof (elim exE)
  fix b w b' w'
  assume "graphql env call b w = (Done r, b', w')"
  then have "call (tick w) = Inr r"
    by (cases "call (tick w)")
      (auto simp: graphql_def run_io_def bind_def external_def ret_def throw_def now_io_def)
  then show "\<exists>t. call t = Inr r" ..
qed

lemma returns_end_round:
  "returns (end_round cx s r) out \<Longrightarrow> out = Stop r \<or> out = More s (cx_pageInfo cx) (length (cx_nodes cx))"
  by (auto simp: end_round_def returns_rdone split: if_splits)

lemma assertConnection_Inr [simp]: "assertConnection c name = Inr cx \<longleftrightarrow> c = Some cx"
  by (auto simp: assertConnection_def split: option.splits)

lemma finishes_comments:
  assumes "bounded_cursors (cn_bound c) (cn_client c)"
  shows "finishes (collectComments c reviewId prId st)"
proof -
  from assms obtain C where C: "finite C" "card C < cn_bound c"
      "\<And>i cursor t r cx. gc_comments (cn_client c) i cursor t = Inr (Some r) \<Longrightarrow> cr_comments r = Some cx \<Longrightarrow>
         page_cursor (cx_pageInfo cx) \<in> C"
    unfolding bounded_cursors_def by metis
  show ?thesis
    unfolding collectComments_def
  proof (rule pages_finishes [OF C(1)])
    fix cursor s s' i k
    assume "returns (comments_round c reviewId prId cursor s) (More s' i k)"
    then show "page_cursor i \<in> C"
      unfolding comments_round_def fetchReviewComments_def
      by (auto dest!: returns_rbind returns_rthen returns_graphql returns_end_round C(3)
          simp: returns_rdone split: option.splits if_splits prod.splits)
  next
    show "finishes (comments_round c reviewId prId cursor s)" for cursor s
      unfolding comments_round_def fetchReviewComments_def end_round_def
      by (auto intro!: finishes_rbind finishes_rthen finishes_intros split: option.splits)
  qed (use C in simp)
qed

lemma finishes_take_reviews:
  assumes "bounded_cursors (cn_bound c) (cn_client c)"
  shows "finishes (take_reviews c prId vs s)"
proof (induction vs arbitrary: s)
  case (Cons v vs)
  then show ?case
    by (auto simp: Let_def intro!: finishes_rbind finishes_intros finishes_comments [OF assms]
        split: prod.splits option.splits)
qed (simp add: finishes_rdone)

lemma finishes_reviews:
  assumes "bounded_cursors (cn_bound c) (cn_client c)"
  shows "finishes (collectReviews c prId st)"
proof -
  from assms obtain C where C: "finite C" "card C < cn_bound c"
      "\<And>i cursor t r cx. gc_reviews (cn_client c) i cursor t = Inr (Some r) \<Longrightarrow> rr_reviews r = Some cx \<Longrightarrow>
         page_cursor (cx_pageInfo cx) \<in> C"
    unfolding bounded_cursors_def by metis
  show ?thesis
    unfolding collectReviews_def
  proof (rule pages_finishes [OF C(1)])
    fix cursor s s' i k
    assume "returns (reviews_round c prId cursor s) (More s' i k)"
    then obtain t r cx where "gc_reviews (cn_client c) prId cursor t = Inr (Some r)" "rr_reviews r = Some cx"
        "i = cx_pageInfo cx"
      unfolding reviews_round_def fetchPullRequestReviews_def
      by (auto dest!: returns_rbind returns_rthen returns_graphql returns_end_round
          simp: returns_rdone split: option.splits if_splits prod.splits)
    then show "page_cursor i \<in> C" using C(3) by simp
  next
    show "finishes (reviews_round c prId cursor s)" for cursor s
      unfolding reviews_round_def fetchPullRequestReviews_def end_round_def
      by (auto intro!: finishes_rbind finishes_rthen finishes_intros finishes_take_reviews [OF assms]
          split: option.splits prod.splits)
  qed (use C in simp)
qed

lemma finishes_pull_requests:
  assumes "bounded_cursors (cn_bound c) (cn_client c)"
  shows "finishes (collectPullRequests c owner repo t)"
proof -
  from assms obtain C where C: "finite C" "card C < cn_bound c"
      "\<And>owner repo cursor t cx. gc_pullRequests (cn_client c) owner repo cursor t = Inr (Some cx) \<Longrightarrow>
         page_cursor (cx_pageInfo cx) \<in> C"
    unfolding bounded_cursors_def by metis
  show ?thesis
    unfolding collectPullRequests_def
  proof (rule pages_finishes [OF C(1)])
    fix cursor s s' i k
    assume "returns (pull_requests_round c owner repo t cursor s) (More s' i k)"
    then show "page_cursor i \<in> C"
      unfolding pull_requests_round_def fetchPullRequests_def
      by (auto dest!: returns_rbind returns_rthen returns_graphql returns_end_round C(3)
          simp: returns_rdone split: if_splits prod.splits)
  next
    show "finishes (pull_requests_round c owner repo t cursor s)" for cursor s
      unfolding pull_requests_round_def fetchPullRequests_def end_round_def
      by (auto intro!: finishes_rbind finishes_rthen finishes_intros split: prod.splits)
  qed (use C in simp)
qed

lemma finishes_attempt:
  assumes "bounded_cursors (cn_bound c) (cn_client c)"
  shows "finishes (collectAttempt c input owner repo)"
proof -
  have "finishes (collect_activity c ps s)" for ps s
  proof (induction ps arbitrary: s)
    case (Cons p ps)
    then show ?case
      by (auto intro!: finishes_rbind finishes_intros finishes_reviews [OF assms] split: prod.splits option.splits)
  qed (simp add: finishes_rdone)
  then show ?thesis
    unfolding collectAttempt_def
    by (intro finishes_rbind finishes_pull_requests [OF assms] finishes_rdone)
qed

text \<open>Every list of repositories and every client that a token gives.\<close>

definition bounded_github :: "nat \<Rightarrow> github \<Rightarrow> bool" where
  "bounded_github n gh \<longleftrightarrow> short_page (gh_app gh) n \<and> (\<forall>token. bounded_cursors n (gh_client gh token))"

lemma finishes_collect:
  assumes "bounded_github bound gh"
  shows "finishes (collect env other_date gh bound input onPage)"
proof -
  have "finishes (plain_outcome (collectAttempt \<lparr>cn_env = env, cn_otherDate = other_date, cn_client = gh_client gh token,
      cn_cutoff = co_collectionCutoff input, cn_onPage = onPage, cn_bound = bound\<rparr> input owner repo))" for token owner repo
    using assms unfolding plain_outcome_def
    by (intro finishes_rbind finishes_rattempt finishes_attempt finishes_rdone) (simp add: bounded_github_def)
  with assms show ?thesis
    unfolding collect_def executeForRepository_def
    by (auto intro!: finishes_rbind finishes_intros finishes_getAvailableRepos finishes_executeWithRetry
        simp: bounded_github_def split: option.splits prod.splits)
qed

end
