(* ===== verification/CollectionComplete.thy ===== *)
theory CollectionComplete
  imports CollectionProperties Samples
begin

text \<open>
  A collection of a repository that does not change meanwhile returns all of its activity in the
  window, however GitHub divides it into pages.
\<close>

section \<open>Dates\<close>

lemma digit_range: "json_digit x \<Longrightarrow> x < 256"
  by (simp add: json_digit_def)

lemma list_all2_one_byte:
  "list_all2 (\<lambda>p c. p c) ps s \<Longrightarrow> list_all (\<lambda>p. \<forall>x. p x \<longrightarrow> x < 256) ps \<Longrightarrow> list_all (\<lambda>x. x < 256) s"
  by (induction ps arbitrary: s) (auto simp: list_all2_Cons1)

lemma zone_text_bytes: "zone_text s \<Longrightarrow> list_all (\<lambda>x. x < 256) s"
  unfolding zone_text_def
  by (auto dest!: list_all2_one_byte simp: digit_range)

lemma github_date_bytes:
  assumes "GITHUB_DATE_PATTERN s"
  shows "list_all (\<lambda>x. x < 256) s"
proof -
  have first: "list_all (\<lambda>x. x < 256) (take 19 s)"
    using assms unfolding GITHUB_DATE_PATTERN_def iso_pattern_def
    by (auto dest!: list_all2_one_byte simp: digit_range)
  have fraction: "list_all (\<lambda>x. x < 256) r" if "r \<noteq> []" "hd r = 46" "zone_text (after_digits (tl r))" for r
  proof -
    have "list_all (\<lambda>x. x < 256) (digits (tl r))"
      by (auto simp: digits_def list_all_iff digit_range dest: set_takeWhileD)
    then have "list_all (\<lambda>x. x < 256) (digits (tl r) @ after_digits (tl r))"
      using zone_text_bytes [OF that(3)] by simp
    then have "list_all (\<lambda>x. x < 256) (tl r)" by (simp add: digits_def after_digits_def)
    with that show ?thesis by (cases r) auto
  qed
  have "list_all (\<lambda>x. x < 256) (drop 19 s)"
    using assms zone_text_bytes fraction unfolding GITHUB_DATE_PATTERN_def Let_def by blast
  with first have "list_all (\<lambda>x. x < 256) (take 19 s @ drop 19 s)" by (simp only: list_all_append)
  then show ?thesis by simp
qed

lemma units_text_of_units: "list_all (\<lambda>x. x < 256) s \<Longrightarrow> units (text_of_units s) = s"
  by (induction s) (simp_all add: units_def text_of_units_def)

lemma parseGithubDate_text:
  assumes "parseGithubDate other_date v name = Inr t"
  shows "Date_parse other_date (units (text_of_units v)) = Some t"
  using assms units_text_of_units [OF github_date_bytes]
  by (auto simp: parseGithubDate_def split: if_splits option.splits)

section \<open>The window\<close>

text \<open>A pull request of the window: changed after the source cursor and not after the cutoff.\<close>

definition in_window :: "int option \<Rightarrow> int \<Rightarrow> int \<Rightarrow> bool" where
  "in_window sourceCursor cutoff t \<longleftrightarrow> (case sourceCursor of None \<Rightarrow> True | Some c \<Rightarrow> c < t) \<and> t \<le> cutoff"

definition node_in_window :: "collection_context \<Rightarrow> int option \<Rightarrow> pr_node \<Rightarrow> bool" where
  "node_in_window c sourceCursor p \<longleftrightarrow>
     (case parseGithubDate (cn_otherDate c) (pn_updatedAt p) ''pull request updatedAt'' of
        Inl e \<Rightarrow> False | Inr t \<Rightarrow> in_window sourceCursor (cn_cutoff c) t)"

lemma observeUniqueNode_Inr:
  "observeUniqueNode node i seen name = Inr (first, seen') \<longleftrightarrow>
     text_trim i \<noteq> [] \<and>
     (if first then map_of seen i = None \<and> seen' = seen @ [(i, node)] else map_of seen i = Some node \<and> seen' = seen)"
  by (auto simp: observeUniqueNode_def split: option.splits)

section \<open>Runs with one result\<close>

text \<open>
  From every session and database that satisfy a condition, the run gives this result, and the
  condition holds again.
\<close>

definition yields :: "(session \<Rightarrow> db \<Rightarrow> bool) \<Rightarrow> 'a run \<Rightarrow> 'a \<Rightarrow> bool" where
  "yields J m a \<longleftrightarrow> (\<forall>b w. J b (wdb w) \<longrightarrow> (\<exists>b' w'. m b w = (Done a, b', w') \<and> J b' (wdb w')))"

named_theorems yields_intros "runs with one result"

lemma yields_rdone [yields_intros]: "yields J (rdone a) a"
  by (simp add: yields_def rdone_def)

lemma yields_rbind [yields_intros]: "yields J m a \<Longrightarrow> yields J (f a) r \<Longrightarrow> yields J (rbind m f) r"
  unfolding yields_def
proof (intro allI impI)
  fix b and w :: world
  assume m: "\<forall>b w. J b (wdb w) \<longrightarrow> (\<exists>b' w'. m b w = (Done a, b', w') \<and> J b' (wdb w'))"
    and f: "\<forall>b w. J b (wdb w) \<longrightarrow> (\<exists>b' w'. f a b w = (Done r, b', w') \<and> J b' (wdb w'))"
    and "J b (wdb w)"
  with m obtain b1 w1 where "m b w = (Done a, b1, w1)" "J b1 (wdb w1)" by blast
  with f show "\<exists>b' w'. rbind m f b w = (Done r, b', w') \<and> J b' (wdb w')" by (simp add: rbind_def)
qed

lemma yields_rthen [yields_intros]: "yields J m () \<Longrightarrow> yields J n r \<Longrightarrow> yields J (rthen m n) r"
  unfolding rthen_def by (rule yields_rbind)

lemma yields_checked [yields_intros]: "x = Inr a \<Longrightarrow> yields J (checked x) a"
  by (simp add: yields_def checked_def run_io_def of_result_def)

lemma yields_run_io: "(\<And>w. \<exists>w'. m w = (Inr a, w') \<and> wdb w' = wdb w) \<Longrightarrow> yields J (run_io m) a"
  unfolding yields_def
proof (intro allI impI)
  fix b and w :: world
  assume m: "\<And>w. \<exists>w'. m w = (Inr a, w') \<and> wdb w' = wdb w" and J: "J b (wdb w)"
  from m obtain w1 where "m w = (Inr a, w1)" "wdb w1 = wdb w" by blast
  with J show "\<exists>b' w'. run_io m b w = (Done a, b', w') \<and> J b' (wdb w')" by (simp add: run_io_def)
qed

lemma yields_external: "(\<And>t. f t = Inr a) \<Longrightarrow> yields J (run_io (external f)) a"
  by (rule yields_run_io) (simp add: external_def)

lemma yields_graphql [yields_intros]: "(\<And>t. call t = Inr a) \<Longrightarrow> yields J (graphql env call) a"
  unfolding graphql_def by (rule yields_run_io) (simp add: bind_def external_def ret_def)

lemma yields_rattempt: "yields J m a \<Longrightarrow> yields J (rattempt m) (Inr a)"
  unfolding yields_def
proof (intro allI impI)
  fix b and w :: world
  assume "\<forall>b w. J b (wdb w) \<longrightarrow> (\<exists>b' w'. m b w = (Done a, b', w') \<and> J b' (wdb w'))" "J b (wdb w)"
  then obtain b1 w1 where "m b w = (Done a, b1, w1)" "J b1 (wdb w1)" by blast
  then show "\<exists>b' w'. rattempt m b w = (Done (Inr a), b', w') \<and> J b' (wdb w')" by (simp add: rattempt_def)
qed

text \<open>A callback that never fails.\<close>

definition patient :: "(session \<Rightarrow> db \<Rightarrow> bool) \<Rightarrow> (int \<Rightarrow> int io) \<Rightarrow> bool" where
  "patient J p \<longleftrightarrow> (\<forall>b w. J b (wdb w) \<longrightarrow>
     (\<exists>t w'. p (se_beat b) w = (Inr t, w') \<and> J (b\<lparr>se_beat := t\<rparr>) (wdb w')))"

lemma yields_page_callback [yields_intros]: "patient J p \<Longrightarrow> yields J (page_callback p) ()"
  unfolding yields_def
proof (intro allI impI)
  fix b :: session and w :: world
  assume "patient J p" "J b (wdb w)"
  then obtain t w1 where "p (se_beat b) w = (Inr t, w1)" "J (b\<lparr>se_beat := t\<rparr>) (wdb w1)"
    unfolding patient_def by blast
  then show "\<exists>b' w'. page_callback p b w = (Done (), b', w') \<and> J b' (wdb w')"
    by (auto simp: page_callback_def)
qed

section \<open>Pages of a connection\<close>

definition good_cursors :: "(nat \<Rightarrow> utext) \<Rightarrow> bool" where
  "good_cursors cur \<longleftrightarrow> inj cur \<and> (\<forall>k. cur k \<noteq> [] \<and> text_trim (cur k) = cur k)"

definition cursor_at :: "(nat \<Rightarrow> utext) \<Rightarrow> nat \<Rightarrow> utext option" where
  "cursor_at cur k = (if k = 0 then None else Some (cur k))"

text \<open>Page \<open>k\<close> of a list that comes in pages; its last cursor leads to the next page.\<close>

definition page_at :: "(nat \<Rightarrow> utext) \<Rightarrow> 'n list list \<Rightarrow> nat \<Rightarrow> 'n connection" where
  "page_at cur pgs k = \<lparr>cx_nodes = pgs ! k,
     cx_pageInfo = \<lparr>pi_endCursor = Some (cur (Suc k)), pi_hasNextPage = Suc k < length pgs\<rparr>\<rparr>"

text \<open>Only the last page may be empty.\<close>

definition paged :: "'n list list \<Rightarrow> bool" where
  "paged pgs \<longleftrightarrow> pgs \<noteq> [] \<and> list_all (\<lambda>p. p \<noteq> []) (butlast pgs)"

lemma paged_nth: "paged pgs \<Longrightarrow> Suc k < length pgs \<Longrightarrow> pgs ! k \<noteq> []"
  unfolding paged_def list_all_length by (metis length_butlast less_diff_conv nth_butlast plus_1_eq_Suc add.commute)

lemma pages_yields:
  assumes cur: "good_cursors cur" and enough: "0 < N" "N \<le> n" and I: "I 0 s"
    and round: "\<And>k s. I k s \<Longrightarrow> k < N \<Longrightarrow> \<exists>out. yields J (R (cursor_at cur k) s) out \<and>
       ((\<exists>r. out = Stop r \<and> Q r) \<or>
        (\<exists>s' info m. out = More s' info m \<and> Suc k < N \<and> I (Suc k) s' \<and> m \<noteq> 0 \<and> pi_endCursor info = Some (cur (Suc k))))"
  shows "\<exists>r. yields J (pages name R n None [] s) r \<and> Q r"
proof -
  have "\<exists>r. yields J (pages name R n (cursor_at cur k) (map cur (rev [1..<Suc k])) s) r \<and> Q r"
    if "I k s" "k < N" "N \<le> k + n" for k s
    using that
  proof (induction n arbitrary: k s)
    case (Suc n)
    from round [OF Suc.prems(1,2)] obtain out where out: "yields J (R (cursor_at cur k) s) out" and
      cases: "(\<exists>r. out = Stop r \<and> Q r) \<or>
        (\<exists>s' info m. out = More s' info m \<and> Suc k < N \<and> I (Suc k) s' \<and> m \<noteq> 0 \<and> pi_endCursor info = Some (cur (Suc k)))"
      by blast
    from cases show ?case
    proof
      assume "\<exists>r. out = Stop r \<and> Q r"
      with out show ?thesis by (auto intro!: yields_intros exI)
    next
      assume "\<exists>s' info m. out = More s' info m \<and> Suc k < N \<and> I (Suc k) s' \<and> m \<noteq> 0 \<and> pi_endCursor info = Some (cur (Suc k))"
      then obtain s' info m where more: "out = More s' info m" "Suc k < N" "I (Suc k) s'" "m \<noteq> 0"
          "pi_endCursor info = Some (cur (Suc k))" by blast
      have fresh: "nextCursor info (cursor_at cur k) m (map cur (rev [1..<Suc k])) name = Inr (cur (Suc k))"
      proof -
        have "inj cur" "cur (Suc k) \<noteq> []" "text_trim (cur (Suc k)) = cur (Suc k)"
          using cur by (simp_all add: good_cursors_def)
        moreover have "cur (Suc k) \<notin> set (map cur (rev [1..<Suc k]))"
          using \<open>inj cur\<close> by (simp add: inj_image_mem_iff del: upt_Suc)
        moreover have "cursor_at cur k \<noteq> Some (cur (Suc k))"
          using \<open>inj cur\<close> by (auto simp: cursor_at_def dest: injD)
        ultimately show ?thesis using more(4,5) by (simp add: nextCursor_def Let_def del: upt_Suc set_map)
      qed
      from Suc.IH [OF more(3) more(2)] Suc.prems obtain r where
        r: "yields J (pages name R n (cursor_at cur (Suc k)) (map cur (rev [1..<Suc (Suc k)])) s') r" "Q r"
        by auto
      have "yields J (pages name R n (Some (cur (Suc k))) (cur (Suc k) # map cur (rev [1..<Suc k])) s') r"
        using r(1) by (simp add: cursor_at_def)
      with out more fresh r(2) show ?thesis by (auto intro!: yields_intros exI)
    qed
  qed simp
  from this [OF I enough(1)] enough(2) show ?thesis by (simp add: cursor_at_def)
qed

section \<open>Pull requests\<close>

definition pr_time :: "collection_context \<Rightarrow> pr_node \<Rightarrow> int option" where
  "pr_time c p = (case parseGithubDate (cn_otherDate c) (pn_updatedAt p) ''pull request updatedAt'' of
     Inl _ \<Rightarrow> None | Inr t \<Rightarrow> Some t)"

lemma pr_time_Some: "pr_time c p = Some t \<longleftrightarrow>
    parseGithubDate (cn_otherDate c) (pn_updatedAt p) ''pull request updatedAt'' = Inr t"
  by (auto simp: pr_time_def split: sum.splits)

lemma node_in_window_time:
  "node_in_window c src p \<longleftrightarrow> (case pr_time c p of None \<Rightarrow> False | Some t \<Rightarrow> in_window src (cn_cutoff c) t)"
  by (auto simp: pr_time_def node_in_window_def split: sum.splits)

text \<open>Pull requests as GitHub orders them: the last change first.\<close>

definition last_change_first :: "collection_context \<Rightarrow> pr_node list \<Rightarrow> bool" where
  "last_change_first c ps \<longleftrightarrow>
     list_all (\<lambda>p. text_trim (pn_id p) \<noteq> [] \<and> pr_time c p \<noteq> None) ps \<and> distinct (map pn_id ps) \<and>
     sorted_wrt (\<lambda>p q. the (pr_time c q) \<le> the (pr_time c p)) ps"

lemma last_change_first_Cons:
  "last_change_first c (p # ps) \<longleftrightarrow> text_trim (pn_id p) \<noteq> [] \<and> pr_time c p \<noteq> None \<and> pn_id p \<notin> pn_id ` set ps \<and>
     (\<forall>q\<in>set ps. the (pr_time c q) \<le> the (pr_time c p)) \<and> last_change_first c ps"
  by (auto simp: last_change_first_def)

lemma last_change_first_append:
  "last_change_first c (ps @ qs) \<Longrightarrow> last_change_first c ps \<and> last_change_first c qs \<and>
     (\<forall>p\<in>set ps. \<forall>q\<in>set qs. the (pr_time c q) \<le> the (pr_time c p)) \<and> pn_id ` set ps \<inter> pn_id ` set qs = {}"
  by (auto simp: last_change_first_def sorted_wrt_append)

definition too_old :: "collection_context \<Rightarrow> int option \<Rightarrow> pr_node \<Rightarrow> bool" where
  "too_old c src p \<longleftrightarrow> (case src of None \<Rightarrow> False | Some t \<Rightarrow> the (pr_time c p) \<le> t)"

lemma too_old_filter:
  assumes "last_change_first c (p # ps)" "too_old c src p"
  shows "filter (node_in_window c src) (p # ps) = []"
proof -
  have "\<not> node_in_window c src q" if "q \<in> set (p # ps)" for q
  proof -
    have "the (pr_time c q) \<le> the (pr_time c p)" using assms(1) that by (auto simp: last_change_first_Cons)
    with assms(2) show ?thesis
      by (auto simp: too_old_def node_in_window_time in_window_def split: option.splits)
  qed
  then show ?thesis by (simp only: filter_empty_conv) blast
qed

lemma take_pull_requests_complete:
  "last_change_first c ps \<Longrightarrow> map fst seen = map pn_id earlier \<Longrightarrow> pn_id ` set earlier \<inter> pn_id ` set ps = {} \<Longrightarrow>
   int (length collected + length (filter (node_in_window c src) ps)) \<le> COLLECTION_LIMITS ChangedPullRequests \<Longrightarrow>
   \<exists>seen' reached. take_pull_requests c src ps (collected, seen) =
       Inr ((collected @ filter (node_in_window c src) ps, seen'), reached) \<and>
     (reached \<longrightarrow> (\<exists>p\<in>set ps. too_old c src p)) \<and>
     (\<not> reached \<longrightarrow> map fst seen' = map pn_id (earlier @ ps))"
proof (induction ps arbitrary: collected seen earlier)
  case (Cons p ps)
  obtain t where t: "pr_time c p = Some t" using Cons.prems(1) by (auto simp: last_change_first_Cons)
  have "pn_id p \<notin> fst ` set seen" using Cons.prems(2,3) by (auto simp flip: set_map)
  then have obs: "observeUniqueNode p (pn_id p) seen ''pull request'' = Inr (True, seen @ [(pn_id p, p)])"
    using Cons.prems(1) by (simp add: observeUniqueNode_Inr last_change_first_Cons map_of_eq_None_iff)
  have old: "too_old c src p \<longleftrightarrow> (case src of None \<Rightarrow> False | Some s \<Rightarrow> t \<le> s)" by (simp add: too_old_def t split: option.splits)
  have date: "parseGithubDate (cn_otherDate c) (pn_updatedAt p) ''pull request updatedAt'' = Inr t"
    using t by (simp add: pr_time_Some)
  let ?seen = "seen @ [(pn_id p, p)]"
  have later: "map fst ?seen = map pn_id (earlier @ [p])" "last_change_first c ps"
      "pn_id ` set (earlier @ [p]) \<inter> pn_id ` set ps = {}"
    using Cons.prems by (auto simp: last_change_first_Cons)
  show ?case
  proof (cases "too_old c src p")
    case True
    then have "take_pull_requests c src (p # ps) (collected, seen) = Inr ((collected, ?seen), True)"
      using old by (simp add: obs date)
    then show ?thesis
      using True too_old_filter [OF Cons.prems(1) True]
      by (intro exI [of _ ?seen] exI [of _ True]) (simp del: take_pull_requests.simps filter.simps)
  next
    case newer: False
    show ?thesis
    proof (cases "t \<le> cn_cutoff c")
      case True
      with newer t have inside: "node_in_window c src p"
        by (auto simp: too_old_def node_in_window_time in_window_def split: option.splits)
      then have "int (length (collected @ [p])) \<le> COLLECTION_LIMITS ChangedPullRequests"
        using Cons.prems(4) by (simp del: COLLECTION_LIMITS.simps)
      then have "take_pull_requests c src (p # ps) (collected, seen) = take_pull_requests c src ps (collected @ [p], ?seen)"
        using newer old True by (simp add: obs date within_limit_def del: COLLECTION_LIMITS.simps)
      with Cons.IH [OF later(2,1,3), of "collected @ [p]"] Cons.prems(4) inside show ?thesis
        by (auto simp del: COLLECTION_LIMITS.simps)
    next
      case False
      with newer t have outside: "\<not> node_in_window c src p" by (auto simp: node_in_window_time in_window_def)
      have "take_pull_requests c src (p # ps) (collected, seen) = take_pull_requests c src ps (collected, ?seen)"
        using newer old False by (simp add: obs date)
      with Cons.IH [OF later(2,1,3), of collected] Cons.prems(4) outside show ?thesis
        by (auto simp del: COLLECTION_LIMITS.simps)
    qed
  qed
qed (auto intro: exI [of _ False])

text \<open>What GitHub keeps of a repository, in pages, and the client that gives it out.\<close>

record repository_activity =
  ra_cursor :: "nat \<Rightarrow> utext"
  ra_pulls :: "pr_node list list"
  ra_reviews :: "pr_node \<Rightarrow> review_node list list"
  ra_comments :: "review_node \<Rightarrow> comment_node list list"

definition serves_pulls :: "repository_activity \<Rightarrow> string \<Rightarrow> string \<Rightarrow> github_client \<Rightarrow> bool" where
  "serves_pulls A owner repo g \<longleftrightarrow> good_cursors (ra_cursor A) \<and> paged (ra_pulls A) \<and>
     (\<forall>t. \<forall>k<length (ra_pulls A). gc_pullRequests g owner repo (cursor_at (ra_cursor A) k) t =
        Inr (Some (page_at (ra_cursor A) (ra_pulls A) k)))"

lemma concat_take_Suc: "k < length xs \<Longrightarrow> concat (take (Suc k) xs) = concat (take k xs) @ xs ! k"
  by (simp add: take_Suc_conv_app_nth)

lemma concat_split: "k < length xs \<Longrightarrow> concat xs = concat (take k xs) @ xs ! k @ concat (drop (Suc k) xs)"
  by (metis append.assoc append_take_drop_id concat_append concat_take_Suc)

lemma collectPullRequests_complete:
  assumes g: "serves_pulls A owner repo (cn_client c)" and order: "last_change_first c (concat (ra_pulls A))"
    and few: "int (length (filter (node_in_window c src) (concat (ra_pulls A)))) \<le> COLLECTION_LIMITS ChangedPullRequests"
    and bound: "length (ra_pulls A) \<le> cn_bound c" and patient: "patient J (cn_onPage c)"
  shows "yields J (collectPullRequests c owner repo src) (filter (node_in_window c src) (concat (ra_pulls A)))"
proof -
  let ?ps = "ra_pulls A" and ?W = "node_in_window c src" and ?cur = "ra_cursor A"
  define I where "I k s \<longleftrightarrow> fst s = filter ?W (concat (take k ?ps)) \<and> map fst (snd s) = map pn_id (concat (take k ?ps))"
    for k and s :: "pr_node list \<times> pr_node nodes"
  have "\<exists>r. yields J (pages ''pull request'' (pull_requests_round c owner repo src) (cn_bound c) None [] ([], [])) r \<and>
      r = filter ?W (concat ?ps)"
  proof (rule pages_yields [where I = I and cur = ?cur and N = "length ?ps"])
    show "good_cursors ?cur" "0 < length ?ps" "length ?ps \<le> cn_bound c" "I 0 ([], [])"
      using g bound by (simp_all add: serves_pulls_def paged_def I_def)
  next
    fix k s assume s: "I k s" and k: "k < length ?ps"
    let ?page = "?ps ! k" and ?rest = "concat (drop (Suc k) ?ps)"
    obtain collected seen where s_eq: "s = (collected, seen)" by (cases s)
    note all = concat_split [OF k]
    have parts: "last_change_first c (concat (take k ?ps) @ ?page @ ?rest)" using order by (simp add: all)
    note here = last_change_first_append [OF conjunct1 [OF conjunct2 [OF last_change_first_append [OF parts]]]]
    have sorted: "last_change_first c ?page" "pn_id ` set (concat (take k ?ps)) \<inter> pn_id ` set ?page = {}"
      using here last_change_first_append [OF parts]
      by (simp_all only: set_append image_Un Int_Un_distrib Un_empty simp_thms)
    have pair: "last_change_first c [p, q]" if "p \<in> set ?page" "q \<in> set ?rest" for p q
    proof -
      have "last_change_first c ?rest" "pn_id p \<noteq> pn_id q" "the (pr_time c q) \<le> the (pr_time c p)"
        using here that by blast+
      with sorted(1) that show ?thesis by (auto simp: last_change_first_def list_all_iff)
    qed
    have "\<exists>seen' reached. take_pull_requests c src ?page (collected, seen) =
         Inr ((collected @ filter ?W ?page, seen'), reached) \<and>
       (reached \<longrightarrow> (\<exists>p\<in>set ?page. too_old c src p)) \<and>
       (\<not> reached \<longrightarrow> map fst seen' = map pn_id (concat (take k ?ps) @ ?page))"
      using s few unfolding all
      by (intro take_pull_requests_complete sorted) (auto simp: s_eq I_def simp del: COLLECTION_LIMITS.simps)
    then obtain seen' reached where
      take: "take_pull_requests c src ?page s = Inr ((filter ?W (concat (take (Suc k) ?ps)), seen'), reached)" and
      old: "reached \<longrightarrow> (\<exists>p\<in>set ?page. too_old c src p)" and
      seen': "\<not> reached \<longrightarrow> map fst seen' = map pn_id (concat (take (Suc k) ?ps))"
      using s by (auto simp: s_eq I_def concat_take_Suc [OF k])
    let ?out = "if reached \<or> \<not> Suc k < length ?ps then Stop (filter ?W (concat (take (Suc k) ?ps)))
       else More (filter ?W (concat (take (Suc k) ?ps)), seen') (cx_pageInfo (page_at ?cur ?ps k)) (length ?page)"
    have "yields J (pull_requests_round c owner repo src (cursor_at ?cur k) s) ?out"
      unfolding pull_requests_round_def fetchPullRequests_def
      using g k patient take
      by (auto intro!: yields_intros simp: serves_pulls_def end_round_def page_at_def)
    moreover have "filter ?W (concat (take (Suc k) ?ps)) = filter ?W (concat ?ps)" if "reached"
    proof -
      from old that obtain p where p: "p \<in> set ?page" "too_old c src p" by blast
      have "\<not> ?W q" if "q \<in> set ?rest" for q
        using too_old_filter [OF pair [OF p(1) that] p(2)] by (simp split: if_splits)
      then have "filter ?W ?rest = []" by (simp add: filter_empty_conv)
      then show ?thesis unfolding all by (simp add: concat_take_Suc [OF k])
    qed
    moreover have "take (Suc k) ?ps = ?ps" if "\<not> Suc k < length ?ps" using that by simp
    moreover have "?page \<noteq> []" if "Suc k < length ?ps"
      using g that by (auto simp: serves_pulls_def dest: paged_nth)
    ultimately show "\<exists>out. yields J (pull_requests_round c owner repo src (cursor_at ?cur k) s) out \<and>
       ((\<exists>r. out = Stop r \<and> r = filter ?W (concat ?ps)) \<or>
        (\<exists>s' info m. out = More s' info m \<and> Suc k < length ?ps \<and> I (Suc k) s' \<and> m \<noteq> 0 \<and>
          pi_endCursor info = Some (?cur (Suc k))))"
      using seen' by (intro exI [of _ ?out]) (auto simp: I_def page_at_def)
  qed
  then show ?thesis by (simp add: collectPullRequests_def)
qed

section \<open>Comments\<close>

text \<open>The identifiers that a state has seen, and their number.\<close>

definition holds :: "collection_state \<Rightarrow> utext list \<Rightarrow> utext list \<Rightarrow> bool" where
  "holds st R M \<longleftrightarrow> map fst (reviewNodes st) = R \<and> map fst (reviewOwners st) = R \<and>
     map fst (commentNodes st) = M \<and> map fst (commentOwners st) = M \<and>
     reviewAndCommentCount st = int (length R + length M)"

lemma new_key: "map fst xs = ks \<Longrightarrow> i \<notin> set ks \<Longrightarrow> map_of xs i = None"
  by (metis map_of_eq_None_iff set_map)

lemma observe_new:
  "map fst seen = ks \<Longrightarrow> map fst owners = ks \<Longrightarrow> i \<notin> set ks \<Longrightarrow> text_trim i \<noteq> [] \<Longrightarrow>
   observeOwnedUniqueNode node i owner seen owners name = Inr (True, seen @ [(i, node)], owners @ [(i, owner)])"
  by (simp add: observeOwnedUniqueNode_def observeUniqueNode_def new_key)

lemma increment_ok: "n + 1 \<le> COLLECTION_LIMITS ReviewAndCommentNodes \<Longrightarrow> incrementNestedNodeCount n = Inr (n + 1)"
  by (simp add: incrementNestedNodeCount_def within_limit_def del: COLLECTION_LIMITS.simps)

definition comment_ok :: "collection_context \<Rightarrow> comment_node \<Rightarrow> bool" where
  "comment_ok c m \<longleftrightarrow> text_trim (mn_id m) \<noteq> [] \<and>
     (\<exists>t. parseGithubDate (cn_otherDate c) (mn_createdAt m) ''review comment createdAt'' = Inr t)"

lemma take_comments_complete:
  "holds st R M \<Longrightarrow> list_all (comment_ok c) ms \<Longrightarrow> distinct (M @ map mn_id ms) \<Longrightarrow>
   int (length R + length M + length ms) \<le> COLLECTION_LIMITS ReviewAndCommentNodes \<Longrightarrow>
   \<exists>st'. take_comments c reviewId ms (cs, st) = Inr (cs @ map comment_dto ms, st') \<and> holds st' R (M @ map mn_id ms)"
proof (induction ms arbitrary: st M cs)
  case (Cons m ms)
  let ?st = "st\<lparr>commentNodes := commentNodes st @ [(mn_id m, m)], commentOwners := commentOwners st @ [(mn_id m, reviewId)],
    reviewAndCommentCount := reviewAndCommentCount st + 1\<rparr>"
  have st: "holds ?st R (M @ [mn_id m])" using Cons.prems(1) by (simp add: holds_def)
  have obs: "observeOwnedUniqueNode m (mn_id m) reviewId (commentNodes st) (commentOwners st) ''review comment'' =
      Inr (True, commentNodes st @ [(mn_id m, m)], commentOwners st @ [(mn_id m, reviewId)])"
    using Cons.prems by (intro observe_new [where ks = M]) (auto simp: holds_def comment_ok_def)
  have one: "incrementNestedNodeCount (reviewAndCommentCount st) = Inr (reviewAndCommentCount st + 1)"
    using Cons.prems(1,4) by (intro increment_ok) (simp add: holds_def del: COLLECTION_LIMITS.simps)
  obtain t where date: "parseGithubDate (cn_otherDate c) (mn_createdAt m) ''review comment createdAt'' = Inr t"
    using Cons.prems(2) by (auto simp: comment_ok_def)
  have eq: "take_comments c reviewId (m # ms) (cs, st) = take_comments c reviewId ms (cs @ [comment_dto m], ?st)"
    by (simp add: obs one date Let_def)
  have "\<exists>st'. take_comments c reviewId ms (cs @ [comment_dto m], ?st) = Inr ((cs @ [comment_dto m]) @ map comment_dto ms, st') \<and>
      holds st' R ((M @ [mn_id m]) @ map mn_id ms)"
    using Cons.prems by (intro Cons.IH [OF st]) (auto simp del: COLLECTION_LIMITS.simps)
  then show ?case unfolding eq by simp
qed simp

text \<open>The pull request, as the pages of its reviews and comments show it.\<close>

definition pr_known :: "collection_context \<Rightarrow> pr_node \<Rightarrow> bool" where
  "pr_known c p \<longleftrightarrow> text_trim (pn_id p) \<noteq> [] \<and> (\<exists>t. pr_time c p = Some t \<and> t \<le> cn_cutoff c)"

definition serves_comments :: "repository_activity \<Rightarrow> collection_context \<Rightarrow> pr_node \<Rightarrow> review_node \<Rightarrow> bool" where
  "serves_comments A c p v \<longleftrightarrow> paged (ra_comments A v) \<and> length (ra_comments A v) \<le> cn_bound c \<and>
     (\<forall>t. \<forall>k<length (ra_comments A v). gc_comments (cn_client c) (vn_id v) (cursor_at (ra_cursor A) k) t =
        Inr (Some \<lparr>cr_id = vn_id v, cr_pullRequest = Some (pn_id p, pn_updatedAt p),
          cr_comments = Some (page_at (ra_cursor A) (ra_comments A v) k)\<rparr>))"

lemma collectComments_complete:
  assumes cur: "good_cursors (ra_cursor A)" and v: "serves_comments A c p v" "text_trim (vn_id v) \<noteq> []"
    and p: "pr_known c p" and patient: "patient J (cn_onPage c)"
    and st: "holds st R M" and ok: "list_all (comment_ok c) (concat (ra_comments A v))"
    and ids: "distinct (M @ map mn_id (concat (ra_comments A v)))"
    and few: "int (length R + length M + length (concat (ra_comments A v))) \<le> COLLECTION_LIMITS ReviewAndCommentNodes"
  shows "\<exists>st'. yields J (collectComments c (vn_id v) (pn_id p) st) (Some (map comment_dto (concat (ra_comments A v))), st') \<and>
    holds st' R (M @ map mn_id (concat (ra_comments A v)))"
proof -
  let ?ms = "ra_comments A v" and ?cur = "ra_cursor A"
  define I where "I k s \<longleftrightarrow> fst s = map comment_dto (concat (take k ?ms)) \<and> holds (snd s) R (M @ map mn_id (concat (take k ?ms)))"
    for k s
  have "\<exists>r. yields J (pages ''review comment'' (comments_round c (vn_id v) (pn_id p)) (cn_bound c) None [] ([], st)) r \<and>
      (\<exists>st'. r = (Some (map comment_dto (concat ?ms)), st') \<and> holds st' R (M @ map mn_id (concat ?ms)))"
  proof (rule pages_yields [where I = I and cur = ?cur and N = "length ?ms"])
    show "good_cursors ?cur" "0 < length ?ms" "length ?ms \<le> cn_bound c" "I 0 ([], st)"
      using cur v st by (simp_all add: serves_comments_def paged_def I_def)
  next
    fix k s assume s: "I k s" and k: "k < length ?ms"
    let ?page = "?ms ! k"
    note all = concat_split [OF k]
    obtain cs u where s_eq: "s = (cs, u)" by (cases s)
    have "\<exists>st'. take_comments c (vn_id v) ?page (cs, u) = Inr (cs @ map comment_dto ?page, st') \<and>
        holds st' R ((M @ map mn_id (concat (take k ?ms))) @ map mn_id ?page)"
    proof (rule take_comments_complete)
      show "holds u R (M @ map mn_id (concat (take k ?ms)))" using s by (simp add: I_def s_eq)
      show "list_all (comment_ok c) ?page" using ok k by (auto simp: list_all_iff)
      show "distinct ((M @ map mn_id (concat (take k ?ms))) @ map mn_id ?page)"
        using ids unfolding all by (simp only: map_append distinct_append set_append append_assoc) blast
      show "int (length R + length (M @ map mn_id (concat (take k ?ms))) + length ?page) \<le> COLLECTION_LIMITS ReviewAndCommentNodes"
        using few unfolding all by (simp del: COLLECTION_LIMITS.simps)
    qed
    then obtain st' where
      take: "take_comments c (vn_id v) ?page s = Inr (map comment_dto (concat (take (Suc k) ?ms)), st')" and
      st': "holds st' R (M @ map mn_id (concat (take (Suc k) ?ms)))"
      using s by (auto simp: s_eq I_def concat_take_Suc [OF k])
    let ?out = "if \<not> Suc k < length ?ms then Stop (Some (map comment_dto (concat (take (Suc k) ?ms))), st')
       else More (map comment_dto (concat (take (Suc k) ?ms)), st') (cx_pageInfo (page_at ?cur ?ms k)) (length ?page)"
    obtain t where t: "parseGithubDate (cn_otherDate c) (pn_updatedAt p) ''pull request updatedAt'' = Inr t" "\<not> t > cn_cutoff c"
      using p by (auto simp: pr_known_def pr_time_Some)
    have "yields J (comments_round c (vn_id v) (pn_id p) (cursor_at ?cur k) s) ?out"
      unfolding comments_round_def fetchReviewComments_def
    proof (rule yields_rbind [OF yields_graphql])
      show "gc_comments (cn_client c) (vn_id v) (cursor_at ?cur k) t' = Inr (Some \<lparr>cr_id = vn_id v,
          cr_pullRequest = Some (pn_id p, pn_updatedAt p), cr_comments = Some (page_at ?cur ?ms k)\<rparr>)" for t'
        using v k by (simp add: serves_comments_def)
    qed (use t v p patient take in \<open>auto intro!: yields_intros simp: assertParentId_def pr_known_def end_round_def page_at_def\<close>)
    moreover have "take (Suc k) ?ms = ?ms" if "\<not> Suc k < length ?ms" using that by simp
    moreover have "?page \<noteq> []" if "Suc k < length ?ms"
      using v that by (auto simp: serves_comments_def dest: paged_nth)
    ultimately show "\<exists>out. yields J (comments_round c (vn_id v) (pn_id p) (cursor_at ?cur k) s) out \<and>
       ((\<exists>r. out = Stop r \<and> (\<exists>st'. r = (Some (map comment_dto (concat ?ms)), st') \<and> holds st' R (M @ map mn_id (concat ?ms)))) \<or>
        (\<exists>s' info m. out = More s' info m \<and> Suc k < length ?ms \<and> I (Suc k) s' \<and> m \<noteq> 0 \<and>
          pi_endCursor info = Some (?cur (Suc k))))"
      using st' by (intro exI [of _ ?out]) (auto simp: I_def page_at_def)
  qed
  then show ?thesis by (auto simp: collectComments_def)
qed

section \<open>Reviews\<close>

definition comments_of :: "repository_activity \<Rightarrow> review_node list \<Rightarrow> comment_node list" where
  "comments_of A vs = concat (map (\<lambda>v. concat (ra_comments A v)) vs)"

definition review_with_comments :: "repository_activity \<Rightarrow> review_node \<Rightarrow> review_dto" where
  "review_with_comments A v = review_of v (map comment_dto (concat (ra_comments A v)))"

lemma comments_of_simps [simp]:
  "comments_of A [] = []"
  "comments_of A (v # vs) = concat (ra_comments A v) @ comments_of A vs"
  "comments_of A (us @ vs) = comments_of A us @ comments_of A vs"
  by (simp_all add: comments_of_def)

text \<open>Reviews whose identifiers, and those of their comments, were not seen, within the limit.\<close>

definition fresh_reviews ::
  "repository_activity \<Rightarrow> collection_context \<Rightarrow> utext list \<Rightarrow> utext list \<Rightarrow> review_node list \<Rightarrow> bool" where
  "fresh_reviews A c R M vs \<longleftrightarrow> list_all (\<lambda>v. text_trim (vn_id v) \<noteq> []) vs \<and> list_all (comment_ok c) (comments_of A vs) \<and>
     distinct (R @ map vn_id vs) \<and> distinct (M @ map mn_id (comments_of A vs)) \<and>
     int (length R + length M + length vs + length (comments_of A vs)) \<le> COLLECTION_LIMITS ReviewAndCommentNodes"

lemma fresh_reviews_append:
  "fresh_reviews A c R M (us @ vs) \<Longrightarrow>
   fresh_reviews A c R M us \<and> fresh_reviews A c (R @ map vn_id us) (M @ map mn_id (comments_of A us)) vs"
  by (auto simp: fresh_reviews_def simp del: COLLECTION_LIMITS.simps)

lemma fresh_reviews_anew: "fresh_reviews A c R M vs \<Longrightarrow> fresh_reviews A c [] [] vs"
  by (auto simp: fresh_reviews_def simp del: COLLECTION_LIMITS.simps)

lemma take_reviews_complete:
  assumes cur: "good_cursors (ra_cursor A)" and p: "pr_known c p" and patient: "patient J (cn_onPage c)"
  shows "holds st R M \<Longrightarrow> fresh_reviews A c R M vs \<Longrightarrow> list_all (serves_comments A c p) vs \<Longrightarrow>
    \<exists>st'. yields J (take_reviews c (pn_id p) vs (rs, st)) (Some (rs @ map (review_with_comments A) vs), st') \<and>
      holds st' (R @ map vn_id vs) (M @ map mn_id (comments_of A vs))"
proof (induction vs arbitrary: st R M rs)
  case (Cons v vs)
  let ?st = "st\<lparr>reviewNodes := reviewNodes st @ [(vn_id v, v)], reviewOwners := reviewOwners st @ [(vn_id v, pn_id p)],
    reviewAndCommentCount := reviewAndCommentCount st + 1\<rparr>"
  have fresh: "fresh_reviews A c R M ([v] @ vs)" using Cons.prems(2) by simp
  have obs: "observeOwnedUniqueNode v (vn_id v) (pn_id p) (reviewNodes st) (reviewOwners st) ''review'' =
      Inr (True, reviewNodes st @ [(vn_id v, v)], reviewOwners st @ [(vn_id v, pn_id p)])"
    using Cons.prems(1,2) by (intro observe_new [where ks = R]) (auto simp: holds_def fresh_reviews_def)
  have one: "incrementNestedNodeCount (reviewAndCommentCount st) = Inr (reviewAndCommentCount st + 1)"
    using Cons.prems(1,2) by (intro increment_ok) (simp add: holds_def fresh_reviews_def del: COLLECTION_LIMITS.simps)
  have "\<exists>st'. yields J (collectComments c (vn_id v) (pn_id p) ?st) (Some (map comment_dto (concat (ra_comments A v))), st') \<and>
    holds st' (R @ [vn_id v]) (M @ map mn_id (concat (ra_comments A v)))"
  proof (rule collectComments_complete [OF cur _ _ p patient])
    show "holds ?st (R @ [vn_id v]) M" using Cons.prems(1) by (simp add: holds_def)
  qed (use Cons.prems(3) fresh_reviews_append [OF fresh] in \<open>simp_all add: fresh_reviews_def del: COLLECTION_LIMITS.simps\<close>)
  then obtain u where
    u: "yields J (collectComments c (vn_id v) (pn_id p) ?st) (Some (map comment_dto (concat (ra_comments A v))), u)"
      "holds u (R @ [vn_id v]) (M @ map mn_id (concat (ra_comments A v)))"
    by blast
  have "fresh_reviews A c (R @ [vn_id v]) (M @ map mn_id (concat (ra_comments A v))) vs"
    using fresh_reviews_append [OF fresh] by simp
  from Cons.IH [OF u(2) this, of "rs @ [review_with_comments A v]"] Cons.prems(3) obtain st' where
    st': "yields J (take_reviews c (pn_id p) vs (rs @ [review_with_comments A v], u))
        (Some ((rs @ [review_with_comments A v]) @ map (review_with_comments A) vs), st')"
      "holds st' ((R @ [vn_id v]) @ map vn_id vs) ((M @ map mn_id (concat (ra_comments A v))) @ map mn_id (comments_of A vs))"
    by auto
  have "yields J (take_reviews c (pn_id p) (v # vs) (rs, st)) (Some (rs @ map (review_with_comments A) (v # vs)), st')"
    using u(1) st'(1)
    by (auto intro!: yields_rbind [OF yields_checked] yields_rbind [OF u(1)] simp: obs one Let_def review_with_comments_def)
  with st'(2) show ?case by auto
qed (auto intro: yields_rdone)

definition serves_reviews :: "repository_activity \<Rightarrow> collection_context \<Rightarrow> pr_node \<Rightarrow> bool" where
  "serves_reviews A c p \<longleftrightarrow> paged (ra_reviews A p) \<and> length (ra_reviews A p) \<le> cn_bound c \<and>
     list_all (serves_comments A c p) (concat (ra_reviews A p)) \<and>
     (\<forall>t. \<forall>k<length (ra_reviews A p). gc_reviews (cn_client c) (pn_id p) (cursor_at (ra_cursor A) k) t =
        Inr (Some \<lparr>rr_id = pn_id p, rr_updatedAt = pn_updatedAt p,
          rr_reviews = Some (page_at (ra_cursor A) (ra_reviews A p) k)\<rparr>))"

definition reviews_dto :: "repository_activity \<Rightarrow> pr_node \<Rightarrow> review_dto list" where
  "reviews_dto A p = map (review_with_comments A) (concat (ra_reviews A p))"

lemma collectReviews_complete:
  assumes cur: "good_cursors (ra_cursor A)" and p: "pr_known c p" "serves_reviews A c p"
    and patient: "patient J (cn_onPage c)" and fresh: "fresh_reviews A c [] [] (concat (ra_reviews A p))"
  shows "\<exists>st'. yields J (collectReviews c (pn_id p) empty_state) (Some (reviews_dto A p), st') \<and>
    holds st' (map vn_id (concat (ra_reviews A p))) (map mn_id (comments_of A (concat (ra_reviews A p))))"
proof -
  let ?vs = "ra_reviews A p" and ?cur = "ra_cursor A" and ?dto = "review_with_comments A"
  define ids where "ids vs st \<longleftrightarrow> holds st (map vn_id vs) (map mn_id (comments_of A vs))" for vs st
  define I where "I k s \<longleftrightarrow> fst s = map ?dto (concat (take k ?vs)) \<and> ids (concat (take k ?vs)) (snd s)" for k s
  have "\<exists>r. yields J (pages ''review'' (reviews_round c (pn_id p)) (cn_bound c) None [] ([], empty_state)) r \<and>
      (\<exists>st'. r = (Some (reviews_dto A p), st') \<and> ids (concat ?vs) st')"
  proof (rule pages_yields [where I = I and cur = ?cur and N = "length ?vs"])
    show "good_cursors ?cur" "0 < length ?vs" "length ?vs \<le> cn_bound c" "I 0 ([], empty_state)"
      using cur p by (simp_all add: serves_reviews_def paged_def I_def ids_def holds_def empty_state_def)
  next
    fix k s assume s: "I k s" and k: "k < length ?vs"
    let ?page = "?vs ! k"
    note all = concat_split [OF k]
    obtain rs u where s_eq: "s = (rs, u)" by (cases s)
    have "fresh_reviews A c (map vn_id (concat (take k ?vs))) (map mn_id (comments_of A (concat (take k ?vs)))) ?page"
      using fresh fresh_reviews_append [of A c "[]" "[]" "concat (take k ?vs)"] fresh_reviews_append [of A c _ _ ?page]
      unfolding all by auto
    moreover have "list_all (serves_comments A c p) ?page"
      using p(2) k by (auto simp: serves_reviews_def list_all_iff)
    ultimately have "\<exists>st'. yields J (take_reviews c (pn_id p) ?page (rs, u)) (Some (rs @ map ?dto ?page), st') \<and>
        holds st' (map vn_id (concat (take k ?vs)) @ map vn_id ?page)
          (map mn_id (comments_of A (concat (take k ?vs))) @ map mn_id (comments_of A ?page))"
      using s by (intro take_reviews_complete [OF cur p(1) patient]) (simp_all add: I_def ids_def s_eq)
    then obtain st' where
      take: "yields J (take_reviews c (pn_id p) ?page s) (Some (map ?dto (concat (take (Suc k) ?vs))), st')" and
      st': "ids (concat (take (Suc k) ?vs)) st'"
      using s by (auto simp: s_eq I_def ids_def concat_take_Suc [OF k])
    let ?out = "if \<not> Suc k < length ?vs then Stop (Some (map ?dto (concat (take (Suc k) ?vs))), st')
       else More (map ?dto (concat (take (Suc k) ?vs)), st') (cx_pageInfo (page_at ?cur ?vs k)) (length ?page)"
    obtain t where t: "parseGithubDate (cn_otherDate c) (pn_updatedAt p) ''pull request updatedAt'' = Inr t" "\<not> t > cn_cutoff c"
      using p by (auto simp: pr_known_def pr_time_Some)
    have "yields J (reviews_round c (pn_id p) (cursor_at ?cur k) s) ?out"
      unfolding reviews_round_def fetchPullRequestReviews_def
    proof (rule yields_rbind [OF yields_graphql])
      show "gc_reviews (cn_client c) (pn_id p) (cursor_at ?cur k) t' = Inr (Some \<lparr>rr_id = pn_id p,
          rr_updatedAt = pn_updatedAt p, rr_reviews = Some (page_at ?cur ?vs k)\<rparr>)" for t'
        using p k by (simp add: serves_reviews_def)
    qed (use t p patient in \<open>auto intro!: yields_rthen [OF yields_checked] yields_rbind [OF yields_checked]
        yields_rthen [OF yields_page_callback] yields_rbind [OF take] yields_rdone
        simp: assertParentId_def pr_known_def end_round_def page_at_def\<close>)
    moreover have "take (Suc k) ?vs = ?vs" if "\<not> Suc k < length ?vs" using that by simp
    moreover have "?page \<noteq> []" if "Suc k < length ?vs"
      using p that by (auto simp: serves_reviews_def dest: paged_nth)
    ultimately show "\<exists>out. yields J (reviews_round c (pn_id p) (cursor_at ?cur k) s) out \<and>
       ((\<exists>r. out = Stop r \<and> (\<exists>st'. r = (Some (reviews_dto A p), st') \<and> ids (concat ?vs) st')) \<or>
        (\<exists>s' info m. out = More s' info m \<and> Suc k < length ?vs \<and> I (Suc k) s' \<and> m \<noteq> 0 \<and>
          pi_endCursor info = Some (?cur (Suc k))))"
      using st' by (intro exI [of _ ?out]) (auto simp: I_def page_at_def reviews_dto_def)
  qed
  then show ?thesis by (auto simp: collectReviews_def ids_def)
qed

section \<open>The states of the pull requests together\<close>

lemma merge_complete:
  "map fst nodes = ks \<Longrightarrow> map fst owners = ks \<Longrightarrow> set (map fst src) \<subseteq> fst ` set so \<Longrightarrow> distinct (ks @ map fst src) \<Longrightarrow>
   n + int (length src) \<le> COLLECTION_LIMITS ReviewAndCommentNodes \<Longrightarrow>
   \<exists>nodes' owners'. mergeOwnedNodes name so src (nodes, owners, n) = Inr (nodes', owners', n + int (length src)) \<and>
     map fst nodes' = ks @ map fst src \<and> map fst owners' = ks @ map fst src"
proof (induction src arbitrary: nodes owners ks n)
  case (Cons x src)
  obtain i node where x: "x = (i, node)" by (cases x)
  obtain k where k: "map_of so i = Some k"
    using Cons.prems(3) by (cases "map_of so i") (auto simp: x map_of_eq_None_iff)
  have new: "map_of nodes i = None" "map_of owners i = None"
    using Cons.prems(1,2,4) by (auto intro!: new_key simp: x)
  have one: "incrementNestedNodeCount n = Inr (n + 1)"
    using Cons.prems(5) by (intro increment_ok) (simp del: COLLECTION_LIMITS.simps)
  have "\<exists>nodes' owners'. mergeOwnedNodes name so src (nodes @ [(i, node)], owners @ [(i, k)], n + 1) =
      Inr (nodes', owners', (n + 1) + int (length src)) \<and>
      map fst nodes' = (ks @ [i]) @ map fst src \<and> map fst owners' = (ks @ [i]) @ map fst src"
    using Cons.prems by (intro Cons.IH) (auto simp: x simp del: COLLECTION_LIMITS.simps)
  then show ?case by (simp add: x k new one add.assoc)
qed simp

lemma mergeCollectionState_complete:
  assumes t: "holds t R M" and s: "holds s R' M'" and ids: "distinct (R @ R')" "distinct (M @ M')"
    and few: "int (length (R @ R') + length (M @ M')) \<le> COLLECTION_LIMITS ReviewAndCommentNodes"
  shows "\<exists>st. mergeCollectionState t s = Inr st \<and> holds st (R @ R') (M @ M')"
proof -
  have lens: "length (reviewNodes s) = length R'" "length (commentNodes s) = length M'"
    using s unfolding holds_def by (metis length_map)+
  have owners: "set (map fst (reviewNodes s)) \<subseteq> fst ` set (reviewOwners s)"
      "set (map fst (commentNodes s)) \<subseteq> fst ` set (commentOwners s)"
    using s unfolding holds_def by (metis order_refl set_map)+
  have "\<exists>nodes' owners'. mergeOwnedNodes ''review'' (reviewOwners s) (reviewNodes s)
         (reviewNodes t, reviewOwners t, reviewAndCommentCount t) =
      Inr (nodes', owners', reviewAndCommentCount t + int (length (reviewNodes s))) \<and>
      map fst nodes' = R @ map fst (reviewNodes s) \<and> map fst owners' = R @ map fst (reviewNodes s)"
    using t s ids few owners lens by (intro merge_complete) (simp_all add: holds_def del: COLLECTION_LIMITS.simps)
  moreover have "\<exists>nodes' owners'. mergeOwnedNodes ''review comment'' (commentOwners s) (commentNodes s)
         (commentNodes t, commentOwners t, reviewAndCommentCount t + int (length (reviewNodes s))) =
      Inr (nodes', owners', reviewAndCommentCount t + int (length (reviewNodes s)) + int (length (commentNodes s))) \<and>
      map fst nodes' = M @ map fst (commentNodes s) \<and> map fst owners' = M @ map fst (commentNodes s)"
    using t s ids few owners lens by (intro merge_complete) (simp_all add: holds_def del: COLLECTION_LIMITS.simps)
  ultimately show ?thesis
    using t s lens by (auto simp: mergeCollectionState_def holds_def)
qed

definition reviews_of :: "repository_activity \<Rightarrow> pr_node list \<Rightarrow> review_node list" where
  "reviews_of A ps = concat (map (\<lambda>p. concat (ra_reviews A p)) ps)"

lemma collect_activity_complete:
  assumes cur: "good_cursors (ra_cursor A)" and patient: "patient J (cn_onPage c)"
  shows "holds st R M \<Longrightarrow> fresh_reviews A c R M (reviews_of A ps) \<Longrightarrow> list_all (pr_known c) ps \<Longrightarrow>
    list_all (serves_reviews A c) ps \<Longrightarrow>
    yields J (collect_activity c ps (prs, st)) (prs @ map (\<lambda>p. pr_dto p (reviews_dto A p)) ps)"
proof (induction ps arbitrary: st R M prs)
  case (Cons p ps)
  let ?vs = "concat (ra_reviews A p)"
  have fresh: "fresh_reviews A c R M (?vs @ reviews_of A ps)" using Cons.prems(2) by (simp add: reviews_of_def)
  note parts = fresh_reviews_append [OF fresh]
  have "\<exists>prov. yields J (collectReviews c (pn_id p) empty_state) (Some (reviews_dto A p), prov) \<and>
      holds prov (map vn_id ?vs) (map mn_id (comments_of A ?vs))"
    using Cons.prems parts by (intro collectReviews_complete [OF cur _ _ patient]) (auto dest: fresh_reviews_anew)
  then obtain prov where prov: "yields J (collectReviews c (pn_id p) empty_state) (Some (reviews_dto A p), prov)"
      "holds prov (map vn_id ?vs) (map mn_id (comments_of A ?vs))" by blast
  have "\<exists>st'. mergeCollectionState st prov = Inr st' \<and> holds st' (R @ map vn_id ?vs) (M @ map mn_id (comments_of A ?vs))"
    using parts by (intro mergeCollectionState_complete [OF Cons.prems(1) prov(2)])
      (simp_all add: fresh_reviews_def del: COLLECTION_LIMITS.simps)
  then obtain st' where st': "mergeCollectionState st prov = Inr st'"
      "holds st' (R @ map vn_id ?vs) (M @ map mn_id (comments_of A ?vs))" by blast
  have "yields J (collect_activity c ps (prs @ [pr_dto p (reviews_dto A p)], st'))
      ((prs @ [pr_dto p (reviews_dto A p)]) @ map (\<lambda>p. pr_dto p (reviews_dto A p)) ps)"
    using Cons.prems(3,4) parts by (intro Cons.IH [OF st'(2)]) simp_all
  then show ?case
    by (auto intro!: yields_rbind [OF prov(1)] yields_rbind [OF yields_checked] simp: st'(1))
qed (simp add: yields_rdone)

section \<open>A complete collection\<close>

text \<open>What the client of an installation finds during one attempt.\<close>

definition stable_repository ::
  "repository_activity \<Rightarrow> collection_context \<Rightarrow> string \<Rightarrow> string \<Rightarrow> int option \<Rightarrow> bool" where
  "stable_repository A c owner repo src \<longleftrightarrow>
     (let all = concat (ra_pulls A); chosen = filter (node_in_window c src) all in
      serves_pulls A owner repo (cn_client c) \<and> length (ra_pulls A) \<le> cn_bound c \<and> last_change_first c all \<and>
      int (length chosen) \<le> COLLECTION_LIMITS ChangedPullRequests \<and>
      list_all (serves_reviews A c) chosen \<and> fresh_reviews A c [] [] (reviews_of A chosen))"

definition activity_in_window :: "repository_activity \<Rightarrow> collection_context \<Rightarrow> int option \<Rightarrow> pull_request_dto list" where
  "activity_in_window A c src =
     map (\<lambda>p. pr_dto p (reviews_dto A p)) (filter (node_in_window c src) (concat (ra_pulls A)))"

lemma collectAttempt_complete:
  assumes stable: "stable_repository A c owner repo (co_sourceCursor input)" and patient: "patient J (cn_onPage c)"
  shows "yields J (collectAttempt c input owner repo)
    \<lparr>cd_githubRepoId = co_githubRepoId input, cd_owner = owner, cd_repo = repo, cd_targetUser = units (co_targetUser input),
     cd_pullRequests = activity_in_window A c (co_sourceCursor input)\<rparr>"
proof -
  let ?src = "co_sourceCursor input"
  let ?chosen = "filter (node_in_window c ?src) (concat (ra_pulls A))"
  have S: "serves_pulls A owner repo (cn_client c)" "length (ra_pulls A) \<le> cn_bound c"
      "last_change_first c (concat (ra_pulls A))" "int (length ?chosen) \<le> COLLECTION_LIMITS ChangedPullRequests"
      "list_all (serves_reviews A c) ?chosen" "fresh_reviews A c [] [] (reviews_of A ?chosen)"
    using stable by (simp_all add: stable_repository_def Let_def del: COLLECTION_LIMITS.simps)
  have pulls: "yields J (collectPullRequests c owner repo ?src) ?chosen"
    by (rule collectPullRequests_complete [OF S(1,3,4,2) patient])
  have "list_all (pr_known c) ?chosen"
    using S(3) by (auto simp: list_all_iff last_change_first_def pr_known_def node_in_window_time in_window_def split: option.splits)
  then have "yields J (collect_activity c ?chosen ([], empty_state)) ([] @ map (\<lambda>p. pr_dto p (reviews_dto A p)) ?chosen)"
    using S by (intro collect_activity_complete [where A = A and R = "[]" and M = "[]", OF _ patient])
      (simp_all add: serves_pulls_def holds_def empty_state_def)
  then show ?thesis
    unfolding collectAttempt_def activity_in_window_def
    by (auto intro!: yields_rbind [OF pulls] yields_rbind yields_rdone)
qed

section \<open>The tokens of the installations\<close>

text \<open>
  The user's active installations are those listed, and every token that is remembered for an
  installation is one of it.
\<close>

definition installed :: "int \<Rightarrow> utext list \<Rightarrow> (utext \<Rightarrow> string \<Rightarrow> bool) \<Rightarrow> session \<Rightarrow> db \<Rightarrow> bool" where
  "installed u is T b d \<longleftrightarrow> active_installations_of u d = is \<and> (\<forall>i c. se_tokens b i = Some c \<longrightarrow> T i (ct_token c))"

text \<open>All but the last page of a list of repositories are full.\<close>

definition listing :: "'n list list \<Rightarrow> bool" where
  "listing pgs \<longleftrightarrow> pgs \<noteq> [] \<and> list_all (\<lambda>p. 100 \<le> length p) (butlast pgs) \<and> length (last pgs) < 100"

definition serves_app ::
  "github_app \<Rightarrow> (utext \<Rightarrow> string \<Rightarrow> bool) \<Rightarrow> utext list \<Rightarrow> (utext \<Rightarrow> (int \<times> string \<times> bool) list list) \<Rightarrow> nat \<Rightarrow> bool" where
  "serves_app gh T is P bound \<longleftrightarrow> is \<noteq> [] \<and> (\<forall>i\<in>set is.
     (\<forall>t. \<exists>token expires. ga_createToken gh i t = Inr (token, expires) \<and> T i token) \<and>
     listing (P i) \<and> length (P i) \<le> bound \<and>
     (\<forall>token t. \<forall>k<length (P i). T i token \<longrightarrow> ga_listRepositories gh token (Suc k) t = Inr (P i ! k)))"

definition accessible :: "utext list \<Rightarrow> (utext \<Rightarrow> (int \<times> string \<times> bool) list list) \<Rightarrow> installation_repository list" where
  "accessible is P = unique_repositories [] (concat (map (\<lambda>i. map (repository_of i) (concat (P i))) is))"

lemma active_installations_active: "i \<in> set (active_installations_of u d) \<Longrightarrow> active_installation i d"
  by (auto simp: active_installations_of_def active_installation_def list_ex_iff)

lemma query_yields:
  assumes "healthy env"
  shows "\<exists>w'. run_io (db_call env (query f)) b w = (Done (f (wdb w)), b, w') \<and> wdb w' = wdb w"
  using assms by (auto simp: run_io_def db_call_def query_def healthy_def undisturbed_def Let_def)

lemma token_of_installation:
  assumes env: "healthy env" and gh: "serves_app gh T is P n" "i \<in> set is"
    and J: "installed u is T b (wdb w)"
  shows "\<exists>token b' w'. getInstallationToken env od gh i b w = (Done (Inr token), b', w') \<and> T i token \<and> installed u is T b' (wdb w')"
proof -
  have create: "\<exists>token b' w'. createToken env od gh i b w1 = (Done (Inr token), b', w') \<and> T i token \<and> installed u is T b' (wdb w')"
    if "wdb w1 = wdb w" for w1
  proof -
    obtain w2 where q: "run_io (db_call env (query (active_installation i))) b w1 = (Done (active_installation i (wdb w1)), b, w2)"
        "wdb w2 = wdb w1"
      using query_yields [OF env] by blast
    have found: "active_installation i (wdb w1)"
      using J gh(2) that by (auto simp: installed_def intro: active_installations_active)
    obtain token expires where t: "ga_createToken gh i (tick w2) = Inr (token, expires)" "T i token"
      using gh unfolding serves_app_def by blast
    have J': "installed u is T (b\<lparr>se_tokens := (se_tokens b)(i \<mapsto> \<lparr>ct_token = token, ct_expiresAt = Date_parse od expires\<rparr>)\<rparr>) (wdb w)"
      using J t(2) by (auto simp: installed_def)
    show ?thesis
      unfolding createToken_def
      using q found t J' that
      by (auto simp: rbind_def rthen_def cache_set_def rdone_def run_io_def external_def)
  qed
  show ?thesis
  proof (cases "se_tokens b i")
    case None
    with create [of w] show ?thesis by (simp add: getInstallationToken_def rbind_def cached_def)
  next
    case (Some c)
    obtain fresh w1 where f: "still_fresh env c b w = (Done fresh, b, w1)" "wdb w1 = wdb w"
      by (auto simp: still_fresh_def rbind_def run_io_def now_io_def rdone_def)
    show ?thesis
    proof (cases fresh)
      case True
      with f J Some show ?thesis
        by (auto simp: getInstallationToken_def rbind_def cached_def rdone_def installed_def)
    next
      case False
      with create [OF f(2)] f(1) Some show ?thesis
        by (simp add: getInstallationToken_def rbind_def cached_def)
    qed
  qed
qed

lemma executeWithRetry_yields:
  assumes env: "healthy env" and gh: "serves_app gh T is P n" "i \<in> set is"
    and op: "\<And>token. T i token \<Longrightarrow> yields (installed u is T) (op token) (Inr a)"
  shows "yields (installed u is T) (executeWithRetry env od gh i op) a"
proof -
  have "yields (installed u is T) (rbind (getInstallationToken env od gh i) (\<lambda>r. case r of
         Inl e \<Rightarrow> rdone (Inl e) | Inr token \<Rightarrow> op token)) (Inr a)"
    unfolding yields_def
  proof (intro allI impI)
    fix b and w :: world
    assume "installed u is T b (wdb w)"
    from token_of_installation [OF env gh this] obtain token b1 w1 where
      t: "getInstallationToken env od gh i b w = (Done (Inr token), b1, w1)" "T i token" "installed u is T b1 (wdb w1)"
      by blast
    with op [OF t(2)] show "\<exists>b' w'. rbind (getInstallationToken env od gh i) (\<lambda>r. case r of
         Inl e \<Rightarrow> rdone (Inl e) | Inr token \<Rightarrow> op token) b w = (Done (Inr a), b', w') \<and> installed u is T b' (wdb w')"
      unfolding yields_def by (simp add: rbind_def)
  qed
  then have "yields (installed u is T) (with_token env od gh i op) (Inr a)"
    unfolding with_token_def by (intro yields_rbind [OF yields_rattempt]) (auto intro: yields_rdone)
  then show ?thesis
    unfolding executeWithRetry_def by (rule yields_rbind) (simp add: yields_rdone)
qed

lemma getAvailableRepos_yields:
  assumes env: "healthy env" and gh: "serves_app gh T is P n"
  shows "yields (installed u is T) (getAvailableRepos env od gh n u) (accessible is P)"
proof -
  let ?J = "installed u is T"
  have pages: "yields ?J (installation_repositories env od gh i m (Suc k) acc) (acc @ map (repository_of i) (concat (drop k (P i))))"
    if "i \<in> set is" "k < length (P i)" "length (P i) \<le> k + m" for i k m acc
    using that
  proof (induction m arbitrary: k acc)
    case (Suc m)
    have l: "listing (P i)" and list: "\<And>token t. T i token \<Longrightarrow> ga_listRepositories gh token (Suc k) t = Inr (P i ! k)"
      using gh Suc.prems by (auto simp: serves_app_def)
    have page: "yields ?J (executeWithRetry env od gh i (\<lambda>token. run_io (external (\<lambda>t. Inr (ga_listRepositories gh token (Suc k) t))))) (P i ! k)"
      by (rule executeWithRetry_yields [OF env gh Suc.prems(1)]) (rule yields_external, simp add: list)
    have split: "concat (drop k (P i)) = P i ! k @ concat (drop (Suc k) (P i))"
      using Suc.prems(2) by (simp flip: Cons_nth_drop_Suc)
    show ?case
      unfolding installation_repositories.simps
    proof (rule yields_rbind [OF page])
      show "yields ?J (let acc' = acc @ map (repository_of i) (P i ! k) in
           if length (P i ! k) < 100 then rdone acc' else installation_repositories env od gh i m (Suc k + 1) acc')
         (acc @ map (repository_of i) (concat (drop k (P i))))"
      proof (cases "Suc k < length (P i)")
        case True
        then have "butlast (P i) ! k = P i ! k" "k < length (butlast (P i))" by (simp_all add: nth_butlast)
        with l have "100 \<le> length (P i ! k)" unfolding listing_def list_all_length by metis
        with Suc.IH [of "Suc k" "acc @ map (repository_of i) (P i ! k)"] True Suc.prems show ?thesis
          by (simp add: Let_def split)
      next
        case False
        with Suc.prems(2) have "k = length (P i) - 1" by simp
        with l Suc.prems(2) have "length (P i ! k) < 100" "drop (Suc k) (P i) = []"
          by (auto simp: listing_def last_conv_nth)
        then show ?thesis by (simp add: Let_def split yields_rdone)
      qed
    qed
  qed simp
  have all: "yields ?J (all_repositories env od gh n js) (concat (map (\<lambda>i. map (repository_of i) (concat (P i))) js))"
    if "set js \<subseteq> set is" for js
    using that
  proof (induction js)
    case (Cons i js)
    have i: "0 < length (P i)" "length (P i) \<le> n"
      using gh Cons.prems by (auto simp: serves_app_def listing_def)
    have "yields ?J (installation_repositories env od gh i n 1 []) (map (repository_of i) (concat (P i)))"
      using pages [of i 0 n "[]"] i Cons.prems by simp
    with Cons show ?case by (auto intro!: yields_rbind [OF _ yields_rbind [OF _ yields_rdone]])
  qed (simp add: yields_rdone)
  have links: "yields ?J (getActiveRepoInstallations env u) is"
    unfolding yields_def
  proof (intro allI impI)
    fix b and w :: world
    assume J: "?J b (wdb w)"
    obtain w1 where "run_io (db_call env (query (active_installations_of u))) b w = (Done (active_installations_of u (wdb w)), b, w1)"
        "wdb w1 = wdb w"
      using query_yields [OF env] by blast
    with J gh show "\<exists>b' w'. getActiveRepoInstallations env u b w = (Done is, b', w') \<and> ?J b' (wdb w')"
      by (auto simp: getActiveRepoInstallations_def rbind_def rdone_def installed_def serves_app_def)
  qed
  show ?thesis
    unfolding getAvailableRepos_def accessible_def
    by (intro yields_rbind [OF links] yields_rbind [OF all] yields_rdone) simp
qed

section \<open>The whole collection\<close>

definition context_of ::
  "env \<Rightarrow> (utext \<Rightarrow> int option) \<Rightarrow> github \<Rightarrow> nat \<Rightarrow> collect_input \<Rightarrow> (int \<Rightarrow> int io) \<Rightarrow> string \<Rightarrow> collection_context" where
  "context_of env other_date gh bound input onPage token =
     \<lparr>cn_env = env, cn_otherDate = other_date, cn_client = gh_client gh token,
      cn_cutoff = co_collectionCutoff input, cn_onPage = onPage, cn_bound = bound\<rparr>"

lemma set_unique_repositories: "set (unique_repositories seen rs) \<subseteq> set seen \<union> set rs"
proof (induction rs arbitrary: seen)
  case (Cons r rs)
  let ?seen = "if list_ex (\<lambda>x. ir_id x = ir_id r) seen then map (\<lambda>x. if ir_id x = ir_id r then r else x) seen else seen @ [r]"
  have "set ?seen \<subseteq> insert r (set seen)" by auto
  with Cons.IH [of ?seen] show ?case by fastforce
qed simp

lemma accessible_installation: "r \<in> set (accessible is P) \<Longrightarrow> ir_installationId r \<in> set is"
  using set_unique_repositories [of "[]" "concat (map (\<lambda>i. map (repository_of i) (concat (P i))) is)"]
  by (force simp: accessible_def repository_of_def split: prod.splits)

lemma activity_in_window_cong:
  "cn_otherDate c = cn_otherDate c' \<Longrightarrow> cn_cutoff c = cn_cutoff c' \<Longrightarrow>
   activity_in_window A c src = activity_in_window A c' src"
  unfolding activity_in_window_def node_in_window_def by (simp split: sum.split cong: filter_cong)

lemma activity_in_window_context:
  "activity_in_window A (context_of env od gh bound input onPage token) src =
   activity_in_window A (context_of env od gh bound input onPage token') src"
  by (rule activity_in_window_cong) (simp_all add: context_of_def)

lemma collector_complete:
  assumes input: "valid_input input = Some (owner, repo)"
    and app: "serves_app (gh_app gh) T is P bound" "healthy env"
      "find (\<lambda>r. js_string_of_int (ir_id r) = co_githubRepoId input) (accessible is P) = Some r"
    and stable: "\<And>token. T (ir_installationId r) token \<Longrightarrow>
      stable_repository A (context_of env other_date gh bound input onPage token) owner repo (co_sourceCursor input)"
    and patient: "patient (installed (co_userId input) is T) onPage"
    and start: "installed (co_userId input) is T s (wdb w)"
  shows "\<exists>w'. repository_collector env other_date gh bound s input onPage w =
    (Inr \<lparr>cd_githubRepoId = co_githubRepoId input, cd_owner = owner, cd_repo = repo,
       cd_targetUser = units (co_targetUser input),
       cd_pullRequests = activity_in_window A (context_of env other_date gh bound input onPage []) (co_sourceCursor input)\<rparr>, w')"
proof -
  let ?d = "\<lparr>cd_githubRepoId = co_githubRepoId input, cd_owner = owner, cd_repo = repo,
     cd_targetUser = units (co_targetUser input),
     cd_pullRequests = activity_in_window A (context_of env other_date gh bound input onPage []) (co_sourceCursor input)\<rparr>"
  let ?J = "installed (co_userId input) is T"
  have "r \<in> set (accessible is P)" using app(3) by (rule conjunct1 [OF find_SomeD])
  then have i: "ir_installationId r \<in> set is" by (rule accessible_installation)
  have op: "yields ?J (plain_outcome (collectAttempt (context_of env other_date gh bound input onPage token) input owner repo)) (Inr ?d)"
    if "T (ir_installationId r) token" for token
  proof -
    have "yields ?J (collectAttempt (context_of env other_date gh bound input onPage token) input owner repo) ?d"
      using collectAttempt_complete [OF stable [OF that], of ?J] patient
      by (simp add: context_of_def [of _ _ _ _ _ _ token] activity_in_window_context [of A _ _ _ _ _ _ "[]" _ token])
    then show ?thesis
      unfolding plain_outcome_def by (intro yields_rbind [OF yields_rattempt]) (auto intro: yields_rdone)
  qed
  have "yields ?J (collect env other_date gh bound input onPage) ?d"
    unfolding collect_def executeForRepository_def
    using executeWithRetry_yields [OF app(2,1) i op] app(3)
    by (auto simp: input context_of_def intro!: yields_rbind [OF getAvailableRepos_yields [OF app(2,1)]])
  moreover have "?J (s\<lparr>se_beat := 0\<rparr>) (wdb w)" using start by (simp add: installed_def)
  ultimately obtain b' w' where "collect env other_date gh bound input onPage (s\<lparr>se_beat := 0\<rparr>) w = (Done ?d, b', w')"
    unfolding yields_def by blast
  then show ?thesis by (simp add: repository_collector_def)
qed

section \<open>A small repository\<close>

text \<open>
  A pull request with a review and a comment on the first page, one that was changed before the
  source cursor on the second.
\<close>

definition sample_pr :: pr_node where
  "sample_pr = \<lparr>pn_id = units ''PR_1'', pn_number = 1, pn_title = units ''Fix the cache'', pn_body = units ''Fixes it.'',
     pn_state = ''OPEN'', pn_permalink = units ''https://github.com/dev/tool/pull/1'', pn_author = Some (units ''dev''),
     pn_createdAt = units ''2025-01-01T00:00:00Z'', pn_updatedAt = units ''2025-01-01T00:00:00Z''\<rparr>"

definition sample_old_pr :: pr_node where
  "sample_old_pr = sample_pr\<lparr>pn_id := units ''PR_0'', pn_number := 0, pn_updatedAt := units ''2020-01-01T00:00:00Z''\<rparr>"

definition sample_review :: review_node where
  "sample_review = \<lparr>vn_id = units ''R_1'', vn_body = units ''Please add a test.'', vn_state = ''COMMENTED'', vn_author = None\<rparr>"

definition sample_comment :: comment_node where
  "sample_comment = \<lparr>mn_id = units ''C_1'', mn_body = units ''Here.'', mn_author = Some (units ''amy''),
     mn_createdAt = units ''2025-01-01T00:00:00Z''\<rparr>"

definition sample_cursor :: "nat \<Rightarrow> utext" where
  "sample_cursor k = replicate (Suc k) 97"

definition sample_activity :: repository_activity where
  "sample_activity = \<lparr>ra_cursor = sample_cursor, ra_pulls = [[sample_pr], [sample_old_pr]],
     ra_reviews = (\<lambda>_. [[sample_review]]), ra_comments = (\<lambda>_. [[sample_comment]])\<rparr>"

definition sample_client :: github_client where
  "sample_client = \<lparr>
     gc_pullRequests = (\<lambda>_ _ cursor _. Inr (Some (page_at sample_cursor (ra_pulls sample_activity) (if cursor = None then 0 else 1)))),
     gc_reviews = (\<lambda>i _ _. Inr (Some \<lparr>rr_id = i, rr_updatedAt = units ''2025-01-01T00:00:00Z'',
       rr_reviews = Some (page_at sample_cursor [[sample_review]] 0)\<rparr>)),
     gc_comments = (\<lambda>i _ _. Inr (Some \<lparr>cr_id = i, cr_pullRequest = Some (units ''PR_1'', units ''2025-01-01T00:00:00Z''),
       cr_comments = Some (page_at sample_cursor [[sample_comment]] 0)\<rparr>))\<rparr>"

definition sample_github :: github where
  "sample_github = \<lparr>gh_app = \<lparr>ga_createToken = (\<lambda>_ _. Inr (''token'', units ''2025-01-01T00:00:00Z'')),
     ga_listRepositories = (\<lambda>_ _ _. Inr [(777, ''dev/tool'', True)])\<rparr>, gh_client = (\<lambda>_. sample_client)\<rparr>"

definition sample_installation :: installation_row where
  "sample_installation = \<lparr>gi_id = 3, gi_githubInstallationId = units ''9'', gi_accountId = units ''42'', gi_accountLogin = units ''dev'',
     gi_accountType = USER, gi_repositorySelection = units ''all'', gi_status = ACTIVE_INSTALLATION, gi_suspendedAt = None,
     gi_deletedAt = None, gi_githubCreatedAt = None, gi_githubUpdatedAt = None, gi_createdAt = 0, gi_updatedAt = 0\<rparr>"

definition sample_link :: user_installation_row where
  "sample_link = \<lparr>ul_userId = 1, ul_installationId = 3, ul_source = INSTALL_CALLBACK, ul_membershipVerifiedAt = 0,
     ul_linkedAt = 0\<rparr>"

definition sample_world :: world where
  "sample_world = \<lparr>wdb = (db_with sample_job)\<lparr>installations := [sample_installation], user_installations := [sample_link]\<rparr>,
     tick = 0\<rparr>"

definition sample_session :: session where
  "sample_session = \<lparr>se_beat = 0, se_tokens = Map.empty\<rparr>"

definition sample_request :: collect_input where
  "sample_request = \<lparr>co_userId = 1, co_githubRepoId = ''777'', co_fullName = ''dev/tool'', co_targetUser = ''dev'',
     co_sourceCursor = Some 1700000000000, co_collectionCutoff = 1800000000000\<rparr>"

abbreviation sample_context :: collection_context where
  "sample_context \<equiv> context_of calm (\<lambda>_. None) sample_github 3 sample_request ret []"

lemma sample_days: "days_of_civil 2025 1 1 = 20089" "civil_of_days 20089 = (2025, 1, 1)"
    "days_of_civil 2020 1 1 = 18262" "civil_of_days 18262 = (2020, 1, 1)"
  by code_simp+

lemma sample_times: "time_value 2025 1 1 0 0 0 0 = Some 1735689600000" "time_value 2020 1 1 0 0 0 0 = Some 1577836800000"
  by (simp_all add: time_value_def sample_days valid_time_def)

lemma sample_dates:
  "parseGithubDate f (units ''2025-01-01T00:00:00Z'') name = Inr 1735689600000"
  "parseGithubDate f (units ''2020-01-01T00:00:00Z'') name = Inr 1577836800000"
  by (simp_all add: parseGithubDate_def GITHUB_DATE_PATTERN_def iso_pattern_def zone_text_def json_digit_def units_def
     Date_parse_def iso_date_def iso_rest_def field_def decimal_def iso_fraction_def sample_times)

lemma sample_parts: "split_units 47 (units ''dev/tool'') = [units ''dev'', units ''tool'']"
  by (simp add: units_def)

lemma sample_input_valid: "valid_input sample_request = Some (''dev'', ''tool'')"
  by (simp add: valid_input_def sample_request_def sample_parts valid_time_def del: units_Cons)

lemma sample_ids:
  "text_trim (units ''PR_1'') \<noteq> []" "text_trim (units ''PR_0'') \<noteq> []" "text_trim (units ''R_1'') \<noteq> []"
  "text_trim (units ''C_1'') \<noteq> []" "units ''PR_1'' \<noteq> units ''PR_0''"
  by (simp_all add: text_trim_def trim_by_def text_space_def units_def)

lemma sample_cursors: "good_cursors sample_cursor"
proof -
  have "dropWhile text_space (sample_cursor k) = sample_cursor k" for k
    by (simp add: sample_cursor_def text_space_def)
  moreover have "rev (sample_cursor k) = sample_cursor k" for k
    by (simp add: sample_cursor_def replicate_append_same)
  ultimately have "text_trim (sample_cursor k) = sample_cursor k" for k by (simp add: text_trim_def trim_by_def)
  moreover have "inj sample_cursor"
  proof (rule injI)
    fix i j assume "sample_cursor i = sample_cursor j"
    then have "length (sample_cursor i) = length (sample_cursor j)" by simp
    then show "i = j" by (simp add: sample_cursor_def)
  qed
  ultimately show ?thesis by (simp add: good_cursors_def sample_cursor_def)
qed

lemma sample_chosen: "filter (node_in_window sample_context (Some 1700000000000)) [sample_pr, sample_old_pr] = [sample_pr]"
  by (simp add: node_in_window_def context_of_def sample_github_def sample_request_def sample_pr_def sample_old_pr_def sample_dates in_window_def del: units_Cons)

lemma sample_order: "last_change_first sample_context [sample_pr, sample_old_pr]"
  by (simp add: last_change_first_def pr_time_def sample_pr_def sample_old_pr_def sample_dates sample_ids del: units_Cons)

lemma sample_stable: "stable_repository sample_activity sample_context ''dev'' ''tool'' (Some 1700000000000)"
proof -
  have "serves_pulls sample_activity ''dev'' ''tool'' sample_client"
    by (auto simp: serves_pulls_def sample_client_def sample_activity_def sample_cursors paged_def cursor_at_def less_Suc_eq)
  moreover have "serves_reviews sample_activity sample_context sample_pr"
    by (auto simp: serves_reviews_def serves_comments_def sample_activity_def context_of_def sample_github_def sample_request_def sample_client_def
      paged_def cursor_at_def sample_pr_def)
  moreover have "fresh_reviews sample_activity sample_context [] [] [sample_review]"
    by (simp add: fresh_reviews_def sample_activity_def sample_review_def sample_comment_def comment_ok_def
      sample_ids sample_dates del: units_Cons)
  ultimately show ?thesis
    using sample_chosen sample_order
    by (simp add: stable_repository_def sample_activity_def context_of_def sample_github_def sample_request_def reviews_of_def)
qed

lemma sample_number: "js_string_of_int 777 = ''777''"
  by code_simp

lemma sample_app: "serves_app (gh_app sample_github) (\<lambda>_ _. True) [units ''9''] (\<lambda>_. [[(777, ''dev/tool'', True)]]) 3"
  by (simp add: serves_app_def sample_github_def listing_def)

lemma sample_repository_found:
  "find (\<lambda>r. js_string_of_int (ir_id r) = co_githubRepoId sample_request) (accessible [units ''9''] (\<lambda>_. [[(777, ''dev/tool'', True)]])) =
     Some \<lparr>ir_id = 777, ir_fullName = ''dev/tool'', ir_private = True, ir_installationId = units ''9''\<rparr>"
  by (simp add: accessible_def repository_of_def sample_request_def sample_number)

lemma sample_start:
  "installed (co_userId sample_request) [units ''9''] (\<lambda>_ _. True) sample_session (wdb sample_world)"
  by (simp add: installed_def active_installations_of_def sample_world_def sample_request_def sample_link_def sample_installation_def)

lemma sample_patient: "patient (installed u is (\<lambda>_ _. True)) ret"
  by (auto simp: patient_def ret_def installed_def)

lemma sample_source: "co_sourceCursor sample_request = Some 1700000000000"
  by (simp add: sample_request_def)

lemma sample_stable_token:
  "stable_repository sample_activity (context_of calm (\<lambda>_. None) sample_github 3 sample_request ret token) ''dev'' ''tool''
     (co_sourceCursor sample_request)"
  using sample_stable by (simp add: context_of_def sample_github_def sample_source)

end
