(* ===== verification/CollectionResults.thy ===== *)
theory CollectionResults
  imports CollectionComplete
begin

text \<open>
  What a collection returns is within the limits of an analysis and the window that was asked for.
\<close>

section \<open>Pull requests\<close>

definition collected_ok :: "collection_context \<Rightarrow> int option \<Rightarrow> pr_node list \<times> pr_node nodes \<Rightarrow> bool" where
  "collected_ok c sourceCursor s \<longleftrightarrow>
     int (length (fst s)) \<le> COLLECTION_LIMITS ChangedPullRequests \<and> distinct (map pn_id (fst s)) \<and>
     list_all (node_in_window c sourceCursor) (fst s) \<and> pn_id ` set (fst s) \<subseteq> fst ` set (snd s)"

lemma take_pull_requests_ok:
  "take_pull_requests c src ps s = Inr (s', stop) \<Longrightarrow> collected_ok c src s \<Longrightarrow> collected_ok c src s'"
proof (induction ps arbitrary: s)
  case (Cons p ps)
  obtain collected seen where s: "s = (collected, seen)" by (cases s)
  from Cons.prems(1) obtain first seen' updated where
    obs: "observeUniqueNode p (pn_id p) seen ''pull request'' = Inr (first, seen')" and
    date: "parseGithubDate (cn_otherDate c) (pn_updatedAt p) ''pull request updatedAt'' = Inr updated" and
    rest: "(if (case src of None \<Rightarrow> False | Some t \<Rightarrow> updated \<le> t) then Inr ((collected, seen'), True)
     else if first \<and> updated \<le> cn_cutoff c
     then and_then (within_limit ChangedPullRequests (int (length (collected @ [p])))) (\<lambda>_.
            take_pull_requests c src ps (collected @ [p], seen'))
     else take_pull_requests c src ps (collected, seen')) = Inr (s', stop)"
    by (auto simp: s)
  have kept: "collected_ok c src (collected, seen')"
    using Cons.prems(2) obs by (auto simp: s collected_ok_def observeUniqueNode_Inr split: if_splits)
  show ?case
  proof (cases "case src of None \<Rightarrow> False | Some t \<Rightarrow> updated \<le> t")
    case True
    with rest kept show ?thesis by simp
  next
    case before: False
    show ?thesis
    proof (cases "first \<and> updated \<le> cn_cutoff c")
      case True
      have fresh: "pn_id p \<notin> pn_id ` set collected"
        using True obs Cons.prems(2) by (force simp: s collected_ok_def observeUniqueNode_Inr map_of_eq_None_iff)
      have "node_in_window c src p"
        using date True before by (auto simp: node_in_window_def in_window_def split: option.splits)
      moreover have "int (length (collected @ [p])) \<le> COLLECTION_LIMITS ChangedPullRequests"
        using rest before True by (simp del: length_append)
      moreover have "pn_id p \<in> fst ` set seen'"
        using obs True by (auto simp: observeUniqueNode_Inr)
      ultimately have "collected_ok c src (collected @ [p], seen')"
        using kept fresh by (auto simp: collected_ok_def)
      with rest before True show ?thesis by (auto intro: Cons.IH)
    qed (use rest before kept Cons.IH in auto)
  qed
qed simp

lemma collectPullRequests_ok:
  assumes "returns (collectPullRequests c owner repo src) ps"
  shows "\<exists>seen. collected_ok c src (ps, seen)"
proof (rule pages_returns [OF assms [unfolded collectPullRequests_def], where I = "collected_ok c src"])
  show "collected_ok c src ([], [])" by (simp add: collected_ok_def)
next
  show "collected_ok c src s'" if "collected_ok c src s"
    "returns (pull_requests_round c owner repo src cursor s) (More s' i k)" for cursor s s' i k
    using that unfolding pull_requests_round_def
    by (auto dest!: returns_rbind returns_rthen returns_end_round intro: take_pull_requests_ok
        simp: returns_rdone split: if_splits prod.splits)
next
  show "\<exists>seen. collected_ok c src (r, seen)" if "collected_ok c src s"
    "returns (pull_requests_round c owner repo src cursor s) (Stop r)" for cursor s r
    using that unfolding pull_requests_round_def
    by (fastforce dest!: returns_rbind returns_rthen returns_end_round dest: take_pull_requests_ok
        simp: returns_rdone split: if_splits prod.splits)
qed

section \<open>Owned nodes\<close>

text \<open>Every node has one owner, from the given set, and is counted once.\<close>

definition owned :: "utext set \<Rightarrow> 'n nodes \<Rightarrow> utext nodes \<Rightarrow> bool" where
  "owned S nodes owners \<longleftrightarrow> map fst owners = map fst nodes \<and> distinct (map fst nodes) \<and> snd ` set owners \<subseteq> S"

lemma owned_keys: "owned S nodes owners \<Longrightarrow> fst ` set owners = fst ` set nodes"
  unfolding owned_def by (metis set_map)

lemma owned_map_of: "owned S nodes owners \<Longrightarrow> map_of owners i = None \<longleftrightarrow> map_of nodes i = None"
  using owned_keys by (fastforce simp: map_of_eq_None_iff)

lemma owned_owner: "owned S nodes owners \<Longrightarrow> map_of owners i = Some k \<Longrightarrow> k \<in> S"
  by (force simp: owned_def dest: map_of_SomeD)

lemma owned_snoc:
  "owned S nodes owners \<Longrightarrow> map_of nodes i = None \<Longrightarrow> k \<in> S \<Longrightarrow> owned S (nodes @ [(i, n)]) (owners @ [(i, k)])"
  by (auto simp: owned_def map_of_eq_None_iff)

lemma owned_mono: "owned S nodes owners \<Longrightarrow> S \<subseteq> T \<Longrightarrow> owned T nodes owners"
  by (auto simp: owned_def)

lemma observe_owned:
  assumes "observeOwnedUniqueNode node i owner seen owners name = Inr (first, seen', owners')"
    and "owned S seen owners" "owner \<in> S"
  shows "owned S seen' owners' \<and> length seen' = length seen + (if first then 1 else 0) \<and>
    fst ` set seen' = fst ` set seen \<union> {i} \<and> (\<not> first \<longrightarrow> seen' = seen \<and> owners' = owners)"
proof -
  have obs: "observeUniqueNode node i seen name = Inr (first, seen')"
      "owners' = (if first then owners @ [(i, owner)] else owners)"
    using assms(1) by (auto simp: observeOwnedUniqueNode_def split: if_splits)
  show ?thesis
  proof (cases first)
    case True
    with obs assms(2,3) show ?thesis by (simp add: observeUniqueNode_Inr owned_snoc)
  next
    case False
    then have "map_of seen i = Some node" "seen' = seen" "owners' = owners"
      using obs by (auto simp: observeUniqueNode_Inr)
    with False assms(2) show ?thesis by (force dest: map_of_SomeD)
  qed
qed

lemma incrementNestedNodeCount_Inr:
  "incrementNestedNodeCount n = Inr m \<longleftrightarrow> m = n + 1 \<and> m \<le> COLLECTION_LIMITS ReviewAndCommentNodes"
  by (auto simp: incrementNestedNodeCount_def simp del: COLLECTION_LIMITS.simps)

text \<open>Nodes whose owners are new are all added.\<close>

lemma merge_owned:
  "mergeOwnedNodes name so src (nodes, owners, n) = Inr (nodes', owners', n') \<Longrightarrow>
   owned S nodes owners \<Longrightarrow> distinct (map fst src) \<Longrightarrow>
   (\<And>i k. i \<in> fst ` set src \<Longrightarrow> map_of so i = Some k \<Longrightarrow> k \<in> S \<and> map_of owners i \<noteq> Some k) \<Longrightarrow>
   owned S nodes' owners' \<and> length nodes' = length nodes + length src \<and> n' = n + int (length src) \<and>
   fst ` set nodes' = fst ` set nodes \<union> fst ` set src \<and> fst ` set src \<inter> fst ` set nodes = {} \<and>
   (n \<le> COLLECTION_LIMITS ReviewAndCommentNodes \<longrightarrow> n' \<le> COLLECTION_LIMITS ReviewAndCommentNodes)"
proof (induction src arbitrary: nodes owners n)
  case (Cons x src)
  obtain i node where x: "x = (i, node)" by (cases x)
  from Cons.prems(1) obtain k where k: "map_of so i = Some k"
    by (auto simp: x split: option.splits)
  then have kS: "k \<in> S" and other: "map_of owners i \<noteq> Some k"
    using Cons.prems(4) [of i k] by (auto simp: x)
  with Cons.prems(1) k have "map_of owners i = None"
    by (cases "map_of owners i") (auto simp: x)
  then have new: "map_of nodes i = None" using owned_map_of [OF Cons.prems(2)] by blast
  with Cons.prems(1) k \<open>map_of owners i = None\<close> obtain m where
    m: "incrementNestedNodeCount n = Inr m" and
    rest: "mergeOwnedNodes name so src (nodes @ [(i, node)], owners @ [(i, k)], m) = Inr (nodes', owners', n')"
    by (auto simp: x)
  have "owned S nodes' owners' \<and> length nodes' = length (nodes @ [(i, node)]) + length src \<and> n' = m + int (length src) \<and>
   fst ` set nodes' = fst ` set (nodes @ [(i, node)]) \<union> fst ` set src \<and> fst ` set src \<inter> fst ` set (nodes @ [(i, node)]) = {} \<and>
   (m \<le> COLLECTION_LIMITS ReviewAndCommentNodes \<longrightarrow> n' \<le> COLLECTION_LIMITS ReviewAndCommentNodes)"
  proof (rule Cons.IH [OF rest owned_snoc [OF Cons.prems(2) new kS]])
    show "distinct (map fst src)" using Cons.prems(3) by simp
    show "k' \<in> S \<and> map_of (owners @ [(i, k)]) j \<noteq> Some k'" if "j \<in> fst ` set src" "map_of so j = Some k'" for j k'
    proof -
      have "j \<noteq> i" using Cons.prems(3) that(1) by (auto simp: x)
      then show ?thesis using Cons.prems(4) [of j k'] that by (auto simp: map_add_def split: option.splits)
    qed
  qed
  with m new show ?case
    by (auto simp: x incrementNestedNodeCount_Inr map_of_eq_None_iff simp del: COLLECTION_LIMITS.simps)
qed simp

section \<open>The state of a collection\<close>

definition state_ok :: "utext set \<Rightarrow> collection_state \<Rightarrow> bool" where
  "state_ok P st \<longleftrightarrow>
     owned P (reviewNodes st) (reviewOwners st) \<and>
     owned (fst ` set (reviewNodes st)) (commentNodes st) (commentOwners st) \<and>
     reviewAndCommentCount st = int (length (reviewNodes st) + length (commentNodes st)) \<and>
     reviewAndCommentCount st \<le> COLLECTION_LIMITS ReviewAndCommentNodes"

lemma state_ok_empty: "state_ok P empty_state"
  by (simp add: state_ok_def empty_state_def owned_def)

lemma state_ok_merge:
  assumes "mergeCollectionState target source = Inr st" "state_ok P target" "state_ok Q source" "P \<inter> Q = {}"
  shows "state_ok (P \<union> Q) st \<and>
    reviewAndCommentCount st = reviewAndCommentCount target + reviewAndCommentCount source"
proof -
  from assms(1) obtain rn ro n cn co m where
    reviews: "mergeOwnedNodes ''review'' (reviewOwners source) (reviewNodes source)
         (reviewNodes target, reviewOwners target, reviewAndCommentCount target) = Inr (rn, ro, n)" and
    comments: "mergeOwnedNodes ''review comment'' (commentOwners source) (commentNodes source)
         (commentNodes target, commentOwners target, n) = Inr (cn, co, m)" and
    st: "st = \<lparr>reviewNodes = rn, reviewOwners = ro, commentNodes = cn, commentOwners = co, reviewAndCommentCount = m\<rparr>"
    by (auto simp: mergeCollectionState_def)
  have T: "owned P (reviewNodes target) (reviewOwners target)"
      "owned (fst ` set (reviewNodes target)) (commentNodes target) (commentOwners target)"
    and S: "owned Q (reviewNodes source) (reviewOwners source)"
      "owned (fst ` set (reviewNodes source)) (commentNodes source) (commentOwners source)"
    using assms(2,3) by (simp_all add: state_ok_def)
  have r: "owned (P \<union> Q) rn ro \<and> length rn = length (reviewNodes target) + length (reviewNodes source) \<and>
     n = reviewAndCommentCount target + int (length (reviewNodes source)) \<and>
     fst ` set rn = fst ` set (reviewNodes target) \<union> fst ` set (reviewNodes source) \<and>
     fst ` set (reviewNodes source) \<inter> fst ` set (reviewNodes target) = {} \<and>
     (reviewAndCommentCount target \<le> COLLECTION_LIMITS ReviewAndCommentNodes \<longrightarrow>
      n \<le> COLLECTION_LIMITS ReviewAndCommentNodes)"
  proof (rule merge_owned [OF reviews])
    show "owned (P \<union> Q) (reviewNodes target) (reviewOwners target)" using T(1) by (rule owned_mono) simp
    show "distinct (map fst (reviewNodes source))" using S(1) by (simp add: owned_def)
    show "k \<in> P \<union> Q \<and> map_of (reviewOwners target) i \<noteq> Some k" if "map_of (reviewOwners source) i = Some k" for i k
      using owned_owner [OF S(1) that] owned_owner [OF T(1), of i k] assms(4) by blast
  qed
  have c: "owned (fst ` set rn) cn co \<and> length cn = length (commentNodes target) + length (commentNodes source) \<and>
     m = n + int (length (commentNodes source)) \<and>
     fst ` set cn = fst ` set (commentNodes target) \<union> fst ` set (commentNodes source) \<and>
     fst ` set (commentNodes source) \<inter> fst ` set (commentNodes target) = {} \<and>
     (n \<le> COLLECTION_LIMITS ReviewAndCommentNodes \<longrightarrow> m \<le> COLLECTION_LIMITS ReviewAndCommentNodes)"
  proof (rule merge_owned [OF comments])
    show "owned (fst ` set rn) (commentNodes target) (commentOwners target)"
      using T(2) r by (auto elim: owned_mono)
    show "distinct (map fst (commentNodes source))" using S(2) by (simp add: owned_def)
    show "k \<in> fst ` set rn \<and> map_of (commentOwners target) i \<noteq> Some k" if "map_of (commentOwners source) i = Some k" for i k
      using owned_owner [OF S(2) that] owned_owner [OF T(2), of i k] r by blast
  qed
  from r c assms(2,3) show ?thesis
    by (simp add: st state_ok_def del: COLLECTION_LIMITS.simps)
qed

section \<open>Reviews and their comments\<close>

definition nested_count :: "review_dto list \<Rightarrow> nat" where
  "nested_count rs = sum_list (map (\<lambda>v. 1 + length (v_comments v)) rs)"

lemma nested_count_simps [simp]:
  "nested_count [] = 0"
  "nested_count (rs @ qs) = nested_count rs + nested_count qs"
  "nested_count [review_of v cs] = 1 + length cs"
  by (simp_all add: nested_count_def review_of_def)

text \<open>What the comments of a review add to the state.\<close>

definition comments_added :: "utext set \<Rightarrow> collection_state \<Rightarrow> review_comment_dto list \<times> collection_state \<Rightarrow> bool" where
  "comments_added P st s \<longleftrightarrow> state_ok P (snd s) \<and> reviewNodes (snd s) = reviewNodes st \<and>
     reviewAndCommentCount (snd s) = reviewAndCommentCount st + int (length (fst s))"

lemma take_comments_added:
  "take_comments c reviewId ms s = Inr s' \<Longrightarrow> comments_added P st s \<Longrightarrow> reviewId \<in> fst ` set (reviewNodes st) \<Longrightarrow>
   comments_added P st s'"
proof (induction ms arbitrary: s)
  case (Cons m ms)
  obtain comments t where s: "s = (comments, t)" by (cases s)
  from Cons.prems(1) obtain first seen owners where
    obs: "observeOwnedUniqueNode m (mn_id m) reviewId (commentNodes t) (commentOwners t) ''review comment'' =
      Inr (first, seen, owners)" and
    rest: "(let st1 = t\<lparr>commentNodes := seen, commentOwners := owners\<rparr> in
       if \<not> first then take_comments c reviewId ms (comments, st1)
       else and_then (incrementNestedNodeCount (reviewAndCommentCount st1)) (\<lambda>n.
         and_then (parseGithubDate (cn_otherDate c) (mn_createdAt m) ''review comment createdAt'') (\<lambda>_.
         take_comments c reviewId ms (comments @ [comment_dto m], st1\<lparr>reviewAndCommentCount := n\<rparr>)))) = Inr s'"
    by (auto simp: s)
  have t: "state_ok P t" "reviewNodes t = reviewNodes st"
      "reviewAndCommentCount t = reviewAndCommentCount st + int (length comments)"
    using Cons.prems(2) by (simp_all add: s comments_added_def)
  have o: "owned (fst ` set (reviewNodes t)) seen owners \<and>
      length seen = length (commentNodes t) + (if first then 1 else 0) \<and>
      fst ` set seen = fst ` set (commentNodes t) \<union> {mn_id m} \<and>
      (\<not> first \<longrightarrow> seen = commentNodes t \<and> owners = commentOwners t)"
    by (rule observe_owned [OF obs]) (use t Cons.prems(3) in \<open>simp_all add: state_ok_def\<close>)
  show ?case
  proof (cases first)
    case True
    with rest obtain n where
      n: "n = reviewAndCommentCount t + 1" "n \<le> COLLECTION_LIMITS ReviewAndCommentNodes" and
      more: "take_comments c reviewId ms (comments @ [comment_dto m],
        t\<lparr>commentNodes := seen, commentOwners := owners, reviewAndCommentCount := n\<rparr>) = Inr s'"
      by (auto simp: Let_def incrementNestedNodeCount_Inr simp del: COLLECTION_LIMITS.simps)
    have "comments_added P st (comments @ [comment_dto m],
        t\<lparr>commentNodes := seen, commentOwners := owners, reviewAndCommentCount := n\<rparr>)"
      using t o n True by (simp add: comments_added_def state_ok_def del: COLLECTION_LIMITS.simps)
    then show ?thesis by (rule Cons.IH [OF more _ Cons.prems(3)])
  next
    case False
    with rest o have "take_comments c reviewId ms (comments, t) = Inr s'" by (simp add: Let_def)
    then show ?thesis using Cons.prems(2,3) by (auto simp: s intro: Cons.IH)
  qed
qed simp

lemma collectComments_added:
  assumes "returns (collectComments c reviewId prId st) out"
    and "state_ok P st" "reviewId \<in> fst ` set (reviewNodes st)"
  shows "\<forall>cs. fst out = Some cs \<longrightarrow> comments_added P st (cs, snd out)"
proof (rule pages_returns [OF assms(1) [unfolded collectComments_def], where I = "comments_added P st"])
  show "comments_added P st ([], st)" using assms(2) by (simp add: comments_added_def)
next
  show "comments_added P st s'" if "comments_added P st s"
    "returns (comments_round c reviewId prId cursor s) (More s' i k)" for cursor s s' i k
    using that unfolding comments_round_def
    by (auto dest!: returns_rbind returns_rthen returns_end_round
        simp: returns_rdone split: if_splits prod.splits option.splits)
      (erule (1) take_comments_added [OF _ _ assms(3)])
next
  show "\<forall>cs. fst r = Some cs \<longrightarrow> comments_added P st (cs, snd r)" if "comments_added P st s"
    "returns (comments_round c reviewId prId cursor s) (Stop r)" for cursor s r
    using that unfolding comments_round_def
    by (auto dest!: returns_rbind returns_rthen returns_end_round
        simp: returns_rdone split: if_splits prod.splits option.splits)
      (erule (1) take_comments_added [OF _ _ assms(3)])
qed

definition reviews_counted :: "utext \<Rightarrow> review_dto list \<times> collection_state \<Rightarrow> bool" where
  "reviews_counted prId s \<longleftrightarrow> state_ok {prId} (snd s) \<and> reviewAndCommentCount (snd s) = int (nested_count (fst s))"

lemma take_reviews_counted:
  "returns (take_reviews c prId vs s) out \<Longrightarrow> reviews_counted prId s \<Longrightarrow> fst out = Some rs \<Longrightarrow>
   reviews_counted prId (rs, snd out)"
proof (induction vs arbitrary: s)
  case (Cons v vs)
  obtain reviews t where s: "s = (reviews, t)" by (cases s)
  from Cons.prems(1) obtain first seen owners where
    obs: "observeOwnedUniqueNode v (vn_id v) prId (reviewNodes t) (reviewOwners t) ''review'' =
      Inr (first, seen, owners)" and
    rest: "returns (let st1 = t\<lparr>reviewNodes := seen, reviewOwners := owners\<rparr> in
       if \<not> first then take_reviews c prId vs (reviews, st1)
       else rbind (checked (incrementNestedNodeCount (reviewAndCommentCount st1))) (\<lambda>n.
         rbind (collectComments c (vn_id v) prId (st1\<lparr>reviewAndCommentCount := n\<rparr>)) (\<lambda>(comments, st2).
         case comments of
           None \<Rightarrow> rdone (None, st2)
         | Some cs \<Rightarrow> take_reviews c prId vs (reviews @ [review_of v cs], st2)))) out"
    by (auto simp: s dest!: returns_rbind)
  have t: "state_ok {prId} t" "reviewAndCommentCount t = int (nested_count reviews)"
    using Cons.prems(2) by (simp_all add: s reviews_counted_def)
  have o: "owned {prId} seen owners \<and>
      length seen = length (reviewNodes t) + (if first then 1 else 0) \<and>
      fst ` set seen = fst ` set (reviewNodes t) \<union> {vn_id v} \<and>
      (\<not> first \<longrightarrow> seen = reviewNodes t \<and> owners = reviewOwners t)"
    by (rule observe_owned [OF obs]) (use t in \<open>simp_all add: state_ok_def\<close>)
  show ?case
  proof (cases first)
    case True
    define u where "u = t\<lparr>reviewNodes := seen, reviewOwners := owners, reviewAndCommentCount := reviewAndCommentCount t + 1\<rparr>"
    from True rest obtain got where
      n: "reviewAndCommentCount t + 1 \<le> COLLECTION_LIMITS ReviewAndCommentNodes" and
      got: "returns (collectComments c (vn_id v) prId u) got" and
      more: "returns (case got of (comments, st2) \<Rightarrow> (case comments of
           None \<Rightarrow> rdone (None, st2)
         | Some cs \<Rightarrow> take_reviews c prId vs (reviews @ [review_of v cs], st2))) out"
      by (auto simp: Let_def u_def incrementNestedNodeCount_Inr simp del: COLLECTION_LIMITS.simps dest!: returns_rbind)
    obtain cs u2 where got_eq: "got = (Some cs, u2)"
      using more Cons.prems(3) by (auto simp: returns_rdone split: prod.splits option.splits)
    have "state_ok {prId} u"
      using t o n True by (auto simp: u_def state_ok_def elim: owned_mono simp del: COLLECTION_LIMITS.simps)
    then have "comments_added {prId} u (cs, u2)"
      using collectComments_added [OF got] o by (simp add: got_eq u_def)
    then have "reviews_counted prId (reviews @ [review_of v cs], u2)"
      using t by (simp add: comments_added_def reviews_counted_def u_def)
    then show ?thesis using more Cons.prems(3) by (auto simp: got_eq intro: Cons.IH)
  next
    case False
    with rest o have "returns (take_reviews c prId vs (reviews, t)) out" by (simp add: Let_def)
    then show ?thesis using Cons.prems(2,3) by (auto simp: s intro: Cons.IH)
  qed
qed (auto simp: returns_rdone)

lemma take_reviews_pair:
  "returns (take_reviews c prId vs s) (Some rs, t) \<Longrightarrow> reviews_counted prId s \<Longrightarrow> reviews_counted prId (rs, t)"
  using take_reviews_counted by fastforce

lemma collectReviews_counted:
  assumes "returns (collectReviews c prId empty_state) out"
  shows "\<forall>rs. fst out = Some rs \<longrightarrow> reviews_counted prId (rs, snd out)"
proof (rule pages_returns [OF assms [unfolded collectReviews_def], where I = "reviews_counted prId"])
  show "reviews_counted prId ([], empty_state)"
    using state_ok_empty by (simp add: reviews_counted_def empty_state_def)
next
  show "reviews_counted prId s'" if "reviews_counted prId s"
    "returns (reviews_round c prId cursor s) (More s' i k)" for cursor s s' i k
    using that unfolding reviews_round_def
    by (auto dest!: returns_rbind returns_rthen returns_end_round
        simp: returns_rdone split: if_splits prod.splits option.splits)
      (erule (1) take_reviews_pair)
next
  show "\<forall>rs. fst r = Some rs \<longrightarrow> reviews_counted prId (rs, snd r)" if "reviews_counted prId s"
    "returns (reviews_round c prId cursor s) (Stop r)" for cursor s r
    using that unfolding reviews_round_def
    by (auto dest!: returns_rbind returns_rthen returns_end_round
        simp: returns_rdone split: if_splits prod.splits option.splits)
      (erule (1) take_reviews_pair)
qed

section \<open>The data of a collection\<close>

definition activity_count :: "pull_request_dto list \<Rightarrow> nat" where
  "activity_count prs = sum_list (map (nested_count \<circ> pr_reviews) prs)"

definition dated_within :: "(utext \<Rightarrow> int option) \<Rightarrow> int option \<Rightarrow> int \<Rightarrow> pull_request_dto \<Rightarrow> bool" where
  "dated_within other_date sourceCursor cutoff p \<longleftrightarrow>
     (case Date_parse other_date (units (pr_updatedAt p)) of
        None \<Rightarrow> False | Some t \<Rightarrow> in_window sourceCursor cutoff t)"

lemma pr_dto_dated:
  "node_in_window c src p \<Longrightarrow> dated_within (cn_otherDate c) src (cn_cutoff c) (pr_dto p rs)"
  by (auto simp: node_in_window_def dated_within_def pr_dto_def dest: parseGithubDate_text split: sum.splits)

lemma collect_activity_counted:
  "returns (collect_activity c ps s) out \<Longrightarrow> s = (prs, st) \<Longrightarrow>
   state_ok P st \<Longrightarrow> reviewAndCommentCount st = int (activity_count prs) \<Longrightarrow>
   distinct (map pn_id ps) \<Longrightarrow> pn_id ` set ps \<inter> P = {} \<Longrightarrow>
   int (activity_count out) \<le> COLLECTION_LIMITS ReviewAndCommentNodes \<and>
   (\<exists>qs. out = prs @ qs \<and> length qs \<le> length ps \<and> (\<forall>d\<in>set qs. \<exists>p\<in>set ps. \<exists>rs. d = pr_dto p rs))"
proof (induction ps arbitrary: s prs st P)
  case Nil
  then show ?case by (auto simp: returns_rdone state_ok_def simp del: COLLECTION_LIMITS.simps)
next
  case (Cons p ps)
  from Cons.prems(1,2) obtain reviews prov where
    got: "returns (collectReviews c (pn_id p) empty_state) (reviews, prov)" and
    more: "returns (case reviews of
       None \<Rightarrow> collect_activity c ps (prs, st)
     | Some rs \<Rightarrow>
         rbind (checked (mergeCollectionState st prov)) (\<lambda>st'.
         collect_activity c ps (prs @ [pr_dto p rs], st'))) out"
    by (auto dest!: returns_rbind)
  have ids: "distinct (map pn_id ps)" "pn_id p \<notin> P" "pn_id p \<notin> pn_id ` set ps" "pn_id ` set ps \<inter> P = {}"
    using Cons.prems(5,6) by auto
  show ?case
  proof (cases reviews)
    case None
    with more have "returns (collect_activity c ps (prs, st)) out" by simp
    from Cons.IH [OF this refl Cons.prems(3,4) ids(1,4)] show ?thesis by fastforce
  next
    case (Some rs)
    with more obtain st' where st': "mergeCollectionState st prov = Inr st'"
        "returns (collect_activity c ps (prs @ [pr_dto p rs], st')) out"
      by (auto dest!: returns_rbind)
    have prov: "state_ok {pn_id p} prov" "reviewAndCommentCount prov = int (nested_count rs)"
      using collectReviews_counted [OF got] Some by (simp_all add: reviews_counted_def)
    have "state_ok (P \<union> {pn_id p}) st' \<and>
        reviewAndCommentCount st' = reviewAndCommentCount st + reviewAndCommentCount prov"
      by (rule state_ok_merge [OF st'(1) Cons.prems(3) prov(1)]) (use ids in simp)
    then have "int (activity_count out) \<le> COLLECTION_LIMITS ReviewAndCommentNodes \<and>
      (\<exists>qs. out = (prs @ [pr_dto p rs]) @ qs \<and> length qs \<le> length ps \<and>
        (\<forall>d\<in>set qs. \<exists>p\<in>set ps. \<exists>rs. d = pr_dto p rs))"
      using ids prov Cons.prems(4)
      by (intro Cons.IH [OF st'(2) refl, where P = "P \<union> {pn_id p}"])
        (auto simp: activity_count_def pr_dto_def)
    then show ?thesis by fastforce
  qed
qed

lemma returns_collect:
  assumes "returns (collect env other_date gh bound input onPage) d"
  shows "\<exists>token owner repo. returns (collectAttempt (context_of env other_date gh bound input onPage token) input owner repo) d"
proof -
  from assms obtain owner repo where "returns (executeForRepository env other_date (gh_app gh) bound (co_userId input)
     (co_githubRepoId input) (\<lambda>token. plain_outcome (collectAttempt (context_of env other_date gh bound input onPage token) input owner repo))) d"
    by (auto simp: collect_def context_of_def split: option.splits)
  then obtain i where "returns (executeWithRetry env other_date (gh_app gh) i
     (\<lambda>token. plain_outcome (collectAttempt (context_of env other_date gh bound input onPage token) input owner repo))) d"
    unfolding executeForRepository_def by (auto dest!: returns_rbind split: option.splits)
  from returns_executeWithRetry [OF this] obtain token where
    "returns (plain_outcome (collectAttempt (context_of env other_date gh bound input onPage token) input owner repo)) (Inr d)"
    by blast
  then have "returns (collectAttempt (context_of env other_date gh bound input onPage token) input owner repo) d"
    unfolding plain_outcome_def
    by (auto dest!: returns_rbind simp: returns_rdone split: sum.splits dest: returns_rattempt)
  then show ?thesis by blast
qed

text \<open>
  C25. What a collection returns is within the limits of an analysis: at most a hundred pull
  requests, at most two thousand reviews and comments in all of them, counted after the states of
  the pull requests were merged, and every pull request changed after the source cursor and not
  after the cutoff.
\<close>

theorem collection_within_limits:
  assumes "repository_collector env other_date gh bound s input onPage w = (Inr d, w')"
  shows "int (length (cd_pullRequests d)) \<le> COLLECTION_LIMITS ChangedPullRequests \<and>
    int (activity_count (cd_pullRequests d)) \<le> COLLECTION_LIMITS ReviewAndCommentNodes \<and>
    list_all (dated_within other_date (co_sourceCursor input) (co_collectionCutoff input)) (cd_pullRequests d)"
proof -
  have "returns (collect env other_date gh bound input onPage) d"
    using assms unfolding returns_def repository_collector_def
    by (auto split: prod.splits outcome.splits)
  from returns_collect [OF this] obtain c owner repo where
    c: "returns (collectAttempt c input owner repo) d" "cn_otherDate c = other_date"
      "cn_cutoff c = co_collectionCutoff input"
    by (force simp: context_of_def)
  then obtain ps prs where
    ps: "returns (collectPullRequests c owner repo (co_sourceCursor input)) ps" and
    prs: "returns (collect_activity c ps ([], empty_state)) prs" and
    d: "cd_pullRequests d = prs"
    unfolding collectAttempt_def by (auto dest!: returns_rbind simp: returns_rdone)
  from collectPullRequests_ok [OF ps] have ok: "int (length ps) \<le> COLLECTION_LIMITS ChangedPullRequests"
      "distinct (map pn_id ps)" "list_all (node_in_window c (co_sourceCursor input)) ps"
    by (auto simp: collected_ok_def simp del: COLLECTION_LIMITS.simps)
  have "int (activity_count prs) \<le> COLLECTION_LIMITS ReviewAndCommentNodes \<and>
   (\<exists>qs. prs = [] @ qs \<and> length qs \<le> length ps \<and> (\<forall>d\<in>set qs. \<exists>p\<in>set ps. \<exists>rs. d = pr_dto p rs))"
    by (rule collect_activity_counted [OF prs refl, where P = "{}"])
      (use ok state_ok_empty in \<open>simp_all add: activity_count_def empty_state_def\<close>)
  then have few: "int (activity_count prs) \<le> COLLECTION_LIMITS ReviewAndCommentNodes" "length prs \<le> length ps"
      "\<forall>d\<in>set prs. \<exists>p\<in>set ps. \<exists>rs. d = pr_dto p rs"
    by auto
  have "dated_within other_date (co_sourceCursor input) (co_collectionCutoff input) q" if q: "q \<in> set prs" for q
  proof -
    from few(3) q obtain p rs where "p \<in> set ps" "q = pr_dto p rs" by blast
    with ok(3) show ?thesis using pr_dto_dated [of c] by (simp add: list_all_iff flip: c(2,3))
  qed
  with few(1,2) ok(1) show ?thesis by (simp add: d list_all_iff del: COLLECTION_LIMITS.simps)
qed

lemma sample_run:
  "\<exists>w'. repository_collector calm (\<lambda>_. None) sample_github 3 sample_session sample_request ret sample_world =
    (Inr \<lparr>cd_githubRepoId = ''777'', cd_owner = ''dev'', cd_repo = ''tool'', cd_targetUser = units ''dev'',
       cd_pullRequests = [pr_dto sample_pr [review_of sample_review [comment_dto sample_comment]]]\<rparr>, w')"
proof -
  have "\<exists>w'. repository_collector calm (\<lambda>_. None) sample_github 3 sample_session sample_request ret sample_world =
    (Inr \<lparr>cd_githubRepoId = co_githubRepoId sample_request, cd_owner = ''dev'', cd_repo = ''tool'',
       cd_targetUser = units (co_targetUser sample_request),
       cd_pullRequests = activity_in_window sample_activity sample_context (co_sourceCursor sample_request)\<rparr>, w')"
    by (rule collector_complete [OF sample_input_valid sample_app calm_healthy(1) sample_repository_found sample_stable_token sample_patient sample_start])
  then show ?thesis
    using sample_chosen
    by (simp add: sample_request_def activity_in_window_def sample_activity_def reviews_dto_def review_with_comments_def)
qed

text \<open>
  C24. A collection of a repository whose activity does not change during the collection returns
  every pull request of the window, the last change first, with all its reviews and all their
  comments, however GitHub divides them into pages, and whichever tokens the process remembers.
\<close>

theorem collection_is_complete:
  assumes "valid_input input = Some (owner, repo)"
    and "serves_app (gh_app gh) T is P bound" "healthy env"
      "find (\<lambda>r. js_string_of_int (ir_id r) = co_githubRepoId input) (accessible is P) = Some r"
    and "\<And>token. T (ir_installationId r) token \<Longrightarrow>
      stable_repository A (context_of env other_date gh bound input onPage token) owner repo (co_sourceCursor input)"
    and "patient (installed (co_userId input) is T) onPage"
    and "installed (co_userId input) is T s (wdb w)"
  shows "\<exists>w'. repository_collector env other_date gh bound s input onPage w =
    (Inr \<lparr>cd_githubRepoId = co_githubRepoId input, cd_owner = owner, cd_repo = repo,
       cd_targetUser = units (co_targetUser input),
       cd_pullRequests = activity_in_window A (context_of env other_date gh bound input onPage []) (co_sourceCursor input)\<rparr>, w')"
  using assms by (rule collector_complete)

lemma collection_is_complete_witness:
  "\<exists>w'. repository_collector calm (\<lambda>_. None) sample_github 3 sample_session sample_request ret sample_world =
    (Inr \<lparr>cd_githubRepoId = co_githubRepoId sample_request, cd_owner = ''dev'', cd_repo = ''tool'',
       cd_targetUser = units (co_targetUser sample_request),
       cd_pullRequests = activity_in_window sample_activity sample_context (co_sourceCursor sample_request)\<rparr>, w')"
  by (rule collection_is_complete [OF sample_input_valid sample_app calm_healthy(1) sample_repository_found sample_stable_token sample_patient sample_start])

lemma collection_within_limits_witness:
  "\<exists>d w'. repository_collector calm (\<lambda>_. None) sample_github 3 sample_session sample_request ret sample_world = (Inr d, w') \<and>
    int (activity_count (cd_pullRequests d)) \<le> COLLECTION_LIMITS ReviewAndCommentNodes"
proof -
  from sample_run obtain d w' where
    run: "repository_collector calm (\<lambda>_. None) sample_github 3 sample_session sample_request ret sample_world = (Inr d, w')"
    by blast
  with collection_within_limits [OF run] show ?thesis by blast
qed

text \<open>
  C26. A collection ends with data or an error, whatever GitHub answers, when the bound of the loops
  is reached by a short page of every list of repositories, and is larger than a set that the
  cursors of all other pages come from: no cursor is visited twice.
\<close>

theorem collection_ends:
  assumes "bounded_github bound gh"
  shows "fst (collect env other_date gh bound input onPage b w) \<noteq> Unfinished"
  using finishes_collect [OF assms] by (simp add: finishes_def)

lemma collection_ends_witness:
  "fst (collect calm (\<lambda>_. None) sample_github 3 sample_request ret sample_session sample_world) \<noteq> Unfinished"
proof (rule collection_ends)
  have cursor: "page_cursor (cx_pageInfo (page_at sample_cursor pgs k)) = sample_cursor (Suc k)" for k and pgs :: "'n list list"
    using sample_cursors by (simp add: page_cursor_def page_at_def good_cursors_def)
  let ?C = "{sample_cursor 1, sample_cursor 2}"
  have "card ?C < 3" by (simp add: card_insert_if)
  then have "bounded_cursors 3 sample_client"
    unfolding bounded_cursors_def
    by (intro exI [of _ ?C]) (auto simp: sample_client_def cursor numeral_2_eq_2)
  then show "bounded_github 3 sample_github"
    by (auto simp: bounded_github_def short_page_def sample_github_def intro!: exI [of _ 1])
qed

end
