(* ===== verification/Utf8.thy ===== *)
theory Utf8
  imports JsBuffer
begin

text \<open>
  Reading UTF-8 back: what \<open>buffer.toString('utf8')\<close> makes of \<open>Buffer.from(text)\<close> is the text,
  when its surrogates come in pairs.
\<close>

text \<open>A text whose units fit 16 bits and whose surrogates come in pairs.\<close>

fun well_formed :: "utext \<Rightarrow> bool" where
  "well_formed [] \<longleftrightarrow> True"
| "well_formed [c] \<longleftrightarrow> c < 65536 \<and> \<not> high_surrogate c \<and> \<not> low_surrogate c"
| "well_formed (c # d # s) \<longleftrightarrow>
     (if high_surrogate c then low_surrogate d \<and> well_formed s
      else c < 65536 \<and> \<not> low_surrogate c \<and> well_formed (d # s))"

text \<open>What a text may be made of: code points that are no surrogates.\<close>

definition scalar :: "nat \<Rightarrow> bool" where
  "scalar p \<longleftrightarrow> p < 1114112 \<and> \<not> high_surrogate p \<and> \<not> low_surrogate p"

lemma scalar_code_points: "well_formed s \<Longrightarrow> list_all scalar (code_points s)"
  by (induction s rule: code_points.induct)
    (auto simp: scalar_def high_surrogate_def low_surrogate_def split: if_splits)

lemma pair_of_code_point:
  assumes "high_surrogate c" "low_surrogate d"
  shows "utf16_char (65536 + (c - 55296) * 1024 + (d - 56320)) = [c, d]"
proof -
  obtain e f where "c = 55296 + e" "d = 56320 + f" "f < 1024"
    using assms le_Suc_ex [of 55296 c] le_Suc_ex [of 56320 d] by (auto simp: high_surrogate_def low_surrogate_def)
  then show ?thesis by (simp add: utf16_char_def)
qed

lemma utf16_code_points: "well_formed s \<Longrightarrow> concat (map utf16_char (code_points s)) = s"
proof (induction s rule: code_points.induct)
  case (3 c d s)
  then show ?case by (auto simp: pair_of_code_point) (simp_all add: utf16_char_def)
qed (simp_all add: utf16_char_def)

lemma sextet_split: "\<exists>q r. p = q * 64 + r \<and> r < (64::nat)"
  by (intro exI [of _ "p div 64"] exI [of _ "p mod 64"]) simp

lemma sextet_div: "r < 64 \<Longrightarrow> (q * 64 + r) div 64 = q" "r < 64 \<Longrightarrow> (q * 64 + r) mod 64 = (r::nat)"
  by simp_all

text \<open>The decoder over the bytes of one code point.\<close>

lemma decode_char:
  assumes "scalar p"
  shows "utf8_from None (utf8_char p @ bs) = utf16_char p @ utf8_from None bs"
proof -
  consider "p < 128" | "128 \<le> p" "p < 2048" | "2048 \<le> p" "p < 65536" | "65536 \<le> p" "p < 1114112"
    using assms by (fastforce simp: scalar_def)
  then show ?thesis
  proof cases
    case 1
    then show ?thesis by (simp add: utf8_char_def utf16_char_def)
  next
    case 2
    then have "utf8_start (192 + p div 64) = Some (p div 64, 1, 128, 191)"
      by (auto simp: utf8_start_def)
    moreover have "p div 64 * 64 + p mod 64 = p" "p mod 64 < 64" by simp_all
    ultimately show ?thesis using 2 by (simp add: utf8_char_def utf16_char_def)
  next
    case 3
    obtain a b c where p: "p = (a * 64 + b) * 64 + c" and less: "b < 64" "c < 64"
      by (metis sextet_split)
    have "p div 64 = a * 64 + b" "p mod 64 = c" unfolding p by (rule sextet_div, rule less)+
    then have a: "p div 4096 = a" "p div 64 mod 64 = b" "p mod 64 = c"
      using div_mult2_eq [of p 64 64] sextet_div [OF less(1), of a] by simp_all
    have "utf8_start (224 + a) = Some (a, 2, if a = 0 then 160 else 128, if a = 13 then 159 else 191)"
      using 3 p by (auto simp: utf8_start_def)
    moreover have "a = 0 \<Longrightarrow> 32 \<le> b" "a = 13 \<Longrightarrow> b \<le> 31"
      using 3 assms p less by (auto simp: scalar_def high_surrogate_def low_surrogate_def)
    ultimately show ?thesis using 3 less a p by (simp add: utf8_char_def utf16_char_def)
  next
    case 4
    obtain a b c d where p: "p = ((a * 64 + b) * 64 + c) * 64 + d" and less: "b < 64" "c < 64" "d < 64"
      by (metis sextet_split)
    have 1: "p div 64 = (a * 64 + b) * 64 + c" "p mod 64 = d" unfolding p by (rule sextet_div, rule less)+
    have 2: "p div 64 div 64 = a * 64 + b" "p div 64 mod 64 = c"
      unfolding 1(1) by (rule sextet_div, rule less)+
    have a: "p div 262144 = a" "p div 4096 mod 64 = b" "p div 64 mod 64 = c" "p mod 64 = d"
      using 1 2 div_mult2_eq [of p 64 64] div_mult2_eq [of p 4096 64] sextet_div [OF less(1), of a] by simp_all
    have "utf8_start (240 + a) = Some (a, 3, if a = 0 then 144 else 128, if a = 4 then 143 else 191)"
      using 4 p by (auto simp: utf8_start_def)
    moreover have "a = 0 \<Longrightarrow> 16 \<le> b" "a = 4 \<Longrightarrow> b \<le> 15" using 4 p less by auto
    ultimately show ?thesis using 4 less a p by (simp add: utf8_char_def utf16_char_def)
  qed
qed

lemma decode_chars: "list_all scalar ps \<Longrightarrow> utf8_from None (concat (map utf8_char ps)) = concat (map utf16_char ps)"
  by (induction ps) (simp_all add: decode_char)

interpretation utf8: codec utf8_encode "\<lambda>s. Some (utf8_decode s)" well_formed
  by unfold_locales
    (simp add: utf8_encode_def utf8_decode_def decode_chars scalar_code_points utf16_code_points)

lemma utf8_bytes: "well_formed s \<Longrightarrow> list_all (\<lambda>b. b < 256) (utf8_encode s)"
proof -
  have "list_all (\<lambda>b. b < 256) (utf8_char p)" if "scalar p" for p
    using that by (auto simp: utf8_char_def scalar_def)
  then have "list_all scalar ps \<Longrightarrow> list_all (\<lambda>b. b < 256) (concat (map utf8_char ps))" for ps
    by (induction ps) simp_all
  then show "well_formed s \<Longrightarrow> list_all (\<lambda>b. b < 256) (utf8_encode s)"
    by (simp add: utf8_encode_def scalar_code_points)
qed

interpretation utf8_base64: codec_chain utf8_encode "\<lambda>s. Some (utf8_decode s)" well_formed
    base64url_encode "\<lambda>s. Some (base64url_decode s)" "list_all (\<lambda>b. b < 256)"
  by unfold_locales (rule utf8_bytes)

end
