(* ===== verification/Auth.thy ===== *)
theory Auth
  imports Utf8 JsonText Ledger Activity WorkerMessage
begin

text \<open>
  Users and their tokens: \<open>src/src/auth/auth.service.ts\<close>, \<open>encryption.service.ts\<close>,
  \<open>strategies/jwt.strategy.ts\<close>, \<open>guards/github-oauth.guard.ts\<close> and \<open>src/src/user/user.service.ts\<close>.

  The libraries that sign tokens, hash passwords and encrypt are parameters. A token of the library
  is a text; what it signs are the claims of the code, to which it adds the times.
\<close>

section \<open>Libraries\<close>

record claims =
  ck_sub :: int
  ck_username :: "utext option"
  ck_jti :: "string option"
  ck_purpose :: "string option"

text \<open>\<open>JwtService\<close>: the number of seconds until the token expires, then the effect counter.\<close>

record jwt_service =
  jwt_sign :: "claims \<Rightarrow> int \<Rightarrow> nat \<Rightarrow> err + utext"
  jwt_verify :: "utext \<Rightarrow> nat \<Rightarrow> err + claims"

text \<open>\<open>bcrypt\<close>\<close>

record password_hash =
  bc_hash :: "utext \<Rightarrow> nat \<Rightarrow> err + string"
  bc_compare :: "utext \<Rightarrow> string \<Rightarrow> nat \<Rightarrow> err + bool"

text \<open>AES-256-GCM under the key of the service, over bytes: initialization vector, text, tag.\<close>

record gcm =
  gcm_encrypt :: "nat list \<Rightarrow> nat list \<Rightarrow> nat list \<times> nat list"
  gcm_decrypt :: "nat list \<Rightarrow> nat list \<Rightarrow> nat list \<Rightarrow> err + nat list"
  gcm_random :: "nat \<Rightarrow> nat list"

section \<open>Encryption of the GitHub tokens\<close>

definition to_hex :: "nat list \<Rightarrow> utext" where
  "to_hex bs = concat (map (\<lambda>b. [hex_unit (b div 16), hex_unit (b mod 16)]) bs)"

text \<open>\<open>Buffer.from(text, 'hex')\<close> stops at the first pair that is not hexadecimal.\<close>

fun from_hex :: "utext \<Rightarrow> nat list" where
  "from_hex (x # y # s) = (case (hex_value x, hex_value y) of
       (Some a, Some b) \<Rightarrow> (16 * a + b) # from_hex s | _ \<Rightarrow> [])"
| "from_hex _ = []"

definition encrypt :: "gcm \<Rightarrow> nat list \<Rightarrow> utext \<Rightarrow> string" where
  "encrypt c iv t = (case gcm_encrypt c iv (utf8_encode t) of (encrypted, authTag) \<Rightarrow>
     text_of_units (to_hex iv @ [58] @ to_hex authTag @ [58] @ to_hex encrypted))"

definition decrypt :: "gcm \<Rightarrow> string \<Rightarrow> err + utext" where
  "decrypt c s = (case split_units 58 (units s) of
       iv # authTag # encrypted # _ \<Rightarrow>
         map_sum id utf8_decode (gcm_decrypt c (from_hex iv) (from_hex authTag) (from_hex encrypted))
     | _ \<Rightarrow> Inl (PlainError ''The argument is undefined''))"

section \<open>Tokens of the service\<close>

definition access_denied :: err where
  "access_denied = HttpError ForbiddenException ''Access Denied''"

definition account_deactivated :: err where
  "account_deactivated = HttpError ForbiddenException ''Account is deactivated''"

definition getTokens :: "jwt_service \<Rightarrow> int \<Rightarrow> string \<Rightarrow> (utext \<times> utext) io" where
  "getTokens j userId username =
     (let c = \<lparr>ck_sub = userId, ck_username = Some (units username), ck_jti = None, ck_purpose = None\<rparr> in
      bind (external (jwt_sign j c (15 * 60))) (\<lambda>access.
      bind (external (jwt_sign j c (7 * 24 * 60 * 60))) (\<lambda>refresh. ret (access, refresh))))"

definition updateRefreshToken :: "env \<Rightarrow> password_hash \<Rightarrow> int \<Rightarrow> utext \<Rightarrow> unit io" where
  "updateRefreshToken env b userId refreshToken =
     bind (external (bc_hash b refreshToken)) (\<lambda>hashed.
     db_call env (update_user userId (\<lambda>u. u\<lparr>u_hashedRefreshToken := Some hashed\<rparr>)))"

definition login :: "env \<Rightarrow> jwt_service \<Rightarrow> password_hash \<Rightarrow> user_row \<Rightarrow> (utext \<times> utext) io" where
  "login env j b user =
     bind (getTokens j (u_id user) (u_username user)) (\<lambda>tokens.
     andThen (updateRefreshToken env b (u_id user) (snd tokens)) (ret tokens))"

definition refreshTokens :: "env \<Rightarrow> jwt_service \<Rightarrow> password_hash \<Rightarrow> int \<Rightarrow> utext \<Rightarrow> (utext \<times> utext) io" where
  "refreshTokens env j b userId refreshToken =
     bind (db_call env (query (find_user userId))) (\<lambda>found. case found of
       None \<Rightarrow> throw access_denied
     | Some user \<Rightarrow>
         (case u_hashedRefreshToken user of
            None \<Rightarrow> throw access_denied
          | Some hashed \<Rightarrow>
              if hashed = [] then throw access_denied
              else if u_status user = DEACTIVATED then throw account_deactivated
              else bind (external (bc_compare b refreshToken hashed)) (\<lambda>matches.
                if \<not> matches then throw access_denied else login env j b user)))"

section \<open>GitHub OAuth\<close>

record oauth_details =
  od_githubId :: string
  od_username :: string
  od_avatarUrl :: string
  od_accessToken :: utext

text \<open>The query parameter \<open>state\<close>: missing or empty, something that is no text, or a text.\<close>

datatype oauth_state = NoState | OtherState | TextState utext

definition invalid_state :: err where
  "invalid_state = HttpError UnauthorizedException ''Invalid GitHub OAuth state''"

definition purpose :: string where
  "purpose = ''github-oauth-reauthorize''"

definition find_github_user :: "string \<Rightarrow> db \<Rightarrow> user_row option" where
  "find_github_user i d = find (\<lambda>u. u_githubId u = i) (users d)"

definition next_user_id :: "db \<Rightarrow> int" where
  "next_user_id d = 1 + fold max (map u_id (users d)) 0"

definition authorized :: "oauth_details \<Rightarrow> string \<Rightarrow> user_row \<Rightarrow> user_row" where
  "authorized details token u = u\<lparr>u_username := od_username details, u_avatarUrl := Some (od_avatarUrl details),
     u_githubToken := Some token\<rparr>"

definition new_user :: "int \<Rightarrow> int \<Rightarrow> oauth_details \<Rightarrow> string \<Rightarrow> user_row" where
  "new_user i now details token = \<lparr>u_id = i, u_githubId = od_githubId details, u_username = od_username details,
     u_avatarUrl = Some (od_avatarUrl details), u_githubToken = Some token, u_hashedRefreshToken = None,
     u_status = ACTIVE, u_createdAt = now, u_updatedAt = now, u_availableTokens = 100000,
     u_representativeReportId = None\<rparr>"

text \<open>\<open>user.upsert\<close> by the GitHub account.\<close>

definition upsert_user :: "oauth_details \<Rightarrow> string \<Rightarrow> user_row stmt" where
  "upsert_user details token now d =
     (case find_github_user (od_githubId details) d of
        Some u \<Rightarrow>
          (case update_users (\<lambda>x. u_id x = u_id u) (authorized details token) now d of
             Inl e \<Rightarrow> Inl e
           | Inr (_, d') \<Rightarrow> Inr ((authorized details token u)\<lparr>u_updatedAt := now\<rparr>, d'))
      | None \<Rightarrow>
          insert_row users put_users (\<lambda>u. int4 (u_id u)) (\<lambda>u x. u_id u = u_id x)
            (new_user (next_user_id d) now details token) d)"

definition encrypted_token :: "gcm \<Rightarrow> utext \<Rightarrow> string io" where
  "encrypted_token c t = bind (external (\<lambda>n. Inr (gcm_random c n))) (\<lambda>iv. ret (encrypt c iv t))"

definition validateUser :: "env \<Rightarrow> gcm \<Rightarrow> oauth_details \<Rightarrow> user_row io" where
  "validateUser env c details =
     bind (db_call env (query (find_github_user (od_githubId details)))) (\<lambda>existing.
     if (case existing of None \<Rightarrow> False | Some u \<Rightarrow> u_status u = DEACTIVATED) then throw account_deactivated
     else bind (encrypted_token c (od_accessToken details)) (\<lambda>token.
       db_call env (upsert_user details token)))"

text \<open>\<open>user.update\<close> that returns the row.\<close>

definition update_user_row :: "int \<Rightarrow> (user_row \<Rightarrow> user_row) \<Rightarrow> user_row stmt" where
  "update_user_row i f now d =
     (case update_user i f now d of
        Inl e \<Rightarrow> Inl e
      | Inr (_, d') \<Rightarrow>
          (case find_user i d' of
             None \<Rightarrow> Inl (PrismaError (PrismaClientKnownRequestError ''P2025'')) | Some u \<Rightarrow> Inr (u, d')))"

definition reauthorizeGithubUser :: "env \<Rightarrow> gcm \<Rightarrow> int \<Rightarrow> oauth_details \<Rightarrow> user_row io" where
  "reauthorizeGithubUser env c userId details =
     bind (db_call env (query (find_user userId))) (\<lambda>existing. case existing of
       None \<Rightarrow> throw invalid_state
     | Some u \<Rightarrow>
         if u_status u = DEACTIVATED then throw account_deactivated
         else if u_githubId u \<noteq> od_githubId details
         then throw (HttpError ForbiddenException ''GitHub account does not match the authenticated user'')
         else bind (encrypted_token c (od_accessToken details)) (\<lambda>token.
           db_call env (update_user_row userId (authorized details token))))"

definition verifyGithubOAuthState :: "jwt_service \<Rightarrow> utext \<Rightarrow> claims io" where
  "verifyGithubOAuthState j state =
     catch (bind (external (jwt_verify j state)) (\<lambda>p.
              if ck_purpose p \<noteq> Some purpose then throw invalid_state else ret p))
       (\<lambda>e. case e of HttpError UnauthorizedException m \<Rightarrow> throw e | _ \<Rightarrow> throw invalid_state)"

definition completeGithubOAuth :: "env \<Rightarrow> jwt_service \<Rightarrow> gcm \<Rightarrow> oauth_details \<Rightarrow> oauth_state \<Rightarrow> user_row io" where
  "completeGithubOAuth env j c details state =
     (case state of
        NoState \<Rightarrow> validateUser env c details
      | OtherState \<Rightarrow> throw invalid_state
      | TextState s \<Rightarrow> bind (verifyGithubOAuthState j s) (\<lambda>p. reauthorizeGithubUser env c (ck_sub p) details))"

text \<open>The handler of the callback: the user, the tokens, and the page that gets them.\<close>

definition callback_page :: "env \<Rightarrow> utext \<times> utext \<Rightarrow> user_row \<Rightarrow> utext" where
  "callback_page env tokens user =
     units (case config env ''FRONTEND_URL'' of None \<Rightarrow> ''http://localhost:3000'' | Some u \<Rightarrow> if u = [] then ''http://localhost:3000'' else u) @
     units ''/auth/callback?access_token='' @ fst tokens @ units ''&refresh_token='' @ snd tokens @
     units ''&username='' @ units (u_username user)"

definition githubAuthRedirect ::
  "env \<Rightarrow> jwt_service \<Rightarrow> password_hash \<Rightarrow> gcm \<Rightarrow> oauth_details \<Rightarrow> oauth_state \<Rightarrow> utext io" where
  "githubAuthRedirect env j b c details state =
     bind (completeGithubOAuth env j c details state) (\<lambda>user.
     bind (login env j b user) (\<lambda>tokens. ret (callback_page env tokens user)))"

section \<open>The URL of the authorization\<close>

text \<open>\<open>URLSearchParams\<close>: letters, digits and \<open>*-._\<close> stay, a space is \<open>+\<close>, other bytes are escaped.\<close>

definition upper_hex :: "nat \<Rightarrow> nat" where
  "upper_hex c = (if 97 \<le> c \<and> c \<le> 122 then c - 32 else c)"

definition form_byte :: "nat \<Rightarrow> utext" where
  "form_byte b =
     (if (48 \<le> b \<and> b \<le> 57) \<or> (65 \<le> b \<and> b \<le> 90) \<or> (97 \<le> b \<and> b \<le> 122) \<or> b \<in> {42, 45, 46, 95} then [b]
      else if b = 32 then [43]
      else [37, upper_hex (hex_unit (b div 16)), upper_hex (hex_unit (b mod 16))])"

definition form_text :: "utext \<Rightarrow> utext" where
  "form_text t = concat (map form_byte (utf8_encode t))"

definition search_params :: "(string \<times> utext) list \<Rightarrow> utext" where
  "search_params ps = join_with [38] (map (\<lambda>(k, v). form_text (units k) @ [61] @ form_text v) ps)"

definition GITHUB_OAUTH_SCOPES :: "string list" where
  "GITHUB_OAUTH_SCOPES = [''read:user'', ''read:org'']"

definition nonempty_config :: "env \<Rightarrow> string \<Rightarrow> string option" where
  "nonempty_config env k = (case config env k of None \<Rightarrow> None | Some v \<Rightarrow> if v = [] then None else Some v)"

definition state_claims :: "int \<Rightarrow> claims" where
  "state_claims userId = \<lparr>ck_sub = userId, ck_username = None, ck_jti = None, ck_purpose = Some purpose\<rparr>"

definition createGithubReauthorizationUrl :: "env \<Rightarrow> jwt_service \<Rightarrow> int \<Rightarrow> utext io" where
  "createGithubReauthorizationUrl env j userId =
     (case (nonempty_config env ''GITHUB_CLIENT_ID'', nonempty_config env ''GITHUB_CALLBACK_URL'') of
        (Some clientId, Some callbackUrl) \<Rightarrow>
          bind (external (jwt_sign j (state_claims userId) (10 * 60))) (\<lambda>state.
          ret (units ''https://github.com/login/oauth/authorize?'' @ search_params
            [(''response_type'', units ''code''), (''client_id'', units clientId), (''redirect_uri'', units callbackUrl),
             (''scope'', join_with [32] (map units GITHUB_OAUTH_SCOPES)), (''state'', state)]))
      | _ \<Rightarrow> throw (PlainError
          ''GitHub OAuth is not configured! Reauthorization URL cannot be created safely.''))"

text \<open>The options of the guard: a state when the bearer of a valid token asks to authorize again.\<close>

definition extractBearerToken :: "utext option \<Rightarrow> utext option" where
  "extractBearerToken authorization = (case authorization of
       None \<Rightarrow> None
     | Some h \<Rightarrow> if take 7 h \<noteq> units ''Bearer '' then None
                else (let t = text_trim (drop 7 h) in if t = [] then None else Some t))"

definition getAuthenticateOptions ::
  "env \<Rightarrow> jwt_service \<Rightarrow> bool \<Rightarrow> utext option \<Rightarrow> utext option io" where
  "getAuthenticateOptions env j reauthorize authorization =
     (if \<not> reauthorize then ret None
      else if nonempty_config env ''JWT_SECRET'' = None
      then throw (PlainError ''JWT_SECRET is not configured! GitHub reauthorization cannot be initialized safely.'')
      else (case extractBearerToken authorization of
          None \<Rightarrow> ret None
        | Some t \<Rightarrow>
            bind (catch (external (jwt_verify j t)) (\<lambda>_. throw (HttpError UnauthorizedException ''Invalid access token'')))
              (\<lambda>p. bind (external (jwt_sign j (state_claims (ck_sub p)) (10 * 60))) (\<lambda>state. ret (Some state)))))"

section \<open>Requests with a token\<close>

text \<open>\<open>JwtStrategy.validate\<close>, after the library accepted the signature and the time of the token.\<close>

definition validate :: "env \<Rightarrow> claims \<Rightarrow> (int \<times> string) io" where
  "validate env p =
     bind (db_call env (query (find_user (ck_sub p)))) (\<lambda>found. case found of
       None \<Rightarrow> throw (HttpError UnauthorizedException ''Invalid authentication token'')
     | Some u \<Rightarrow> if u_status u = DEACTIVATED then throw account_deactivated else ret (u_id u, u_username u))"

text \<open>The guard of the requests: any failure of the library is a 401.\<close>

definition jwt_guard :: "env \<Rightarrow> jwt_service \<Rightarrow> utext \<Rightarrow> (int \<times> string) io" where
  "jwt_guard env j token =
     bind (catch (external (jwt_verify j token)) (\<lambda>_. throw (HttpError UnauthorizedException ''Unauthorized''))) (validate env)"

text \<open>
  \<open>POST /auth/refresh\<close>: the library of the guard takes \<open>token\<close> from the \<open>authorization\<close> header, and the
  handler takes the header itself, without the first \<open>Bearer\<close>, as the refresh token.
\<close>

fun without_first :: "utext \<Rightarrow> utext \<Rightarrow> utext" where
  "without_first pat [] = []"
| "without_first pat (c # cs) =
     (if take (length pat) (c # cs) = pat then drop (length pat) (c # cs) else c # without_first pat cs)"

definition refresh ::
  "env \<Rightarrow> jwt_service \<Rightarrow> password_hash \<Rightarrow> utext \<Rightarrow> utext option \<Rightarrow> (utext \<times> utext) io" where
  "refresh env j b token authorization =
     bind (jwt_guard env j token) (\<lambda>user.
     case map_option (without_first (units ''Bearer '')) authorization of
       None \<Rightarrow> throw access_denied
     | Some refreshToken \<Rightarrow>
         if refreshToken = [] then throw access_denied else refreshTokens env j b (fst user) refreshToken)"

section \<open>Users\<close>

definition user_not_found :: err where
  "user_not_found = HttpError NotFoundException ''User not found''"

definition getUserProfile :: "env \<Rightarrow> int \<Rightarrow> (int \<times> string \<times> string option \<times> int \<times> int) io" where
  "getUserProfile env userId =
     bind (db_call env (query (find_user userId))) (\<lambda>found. case found of
       None \<Rightarrow> throw user_not_found
     | Some u \<Rightarrow> ret (u_id u, u_username u, u_avatarUrl u, u_availableTokens u, u_createdAt u))"

definition getAvailableTokens :: "env \<Rightarrow> int \<Rightarrow> int io" where
  "getAvailableTokens env userId =
     bind (db_call env (query (find_user userId))) (\<lambda>found. case found of
       None \<Rightarrow> throw user_not_found | Some u \<Rightarrow> ret (u_availableTokens u))"

definition deactivated :: "user_row \<Rightarrow> user_row" where
  "deactivated u = u\<lparr>u_status := DEACTIVATED, u_hashedRefreshToken := None\<rparr>"

definition deactivateUser :: "env \<Rightarrow> int \<Rightarrow> user_status io" where
  "deactivateUser env userId =
     bind (db_call env (query (find_user userId))) (\<lambda>found. case found of
       None \<Rightarrow> throw user_not_found
     | Some _ \<Rightarrow> bind (db_call env (update_user_row userId deactivated)) (\<lambda>u. ret (u_status u)))"

section \<open>The ledger\<close>

text \<open>A change of a user that leaves identity and tokens alone.\<close>

definition profile_change :: "(user_row \<Rightarrow> user_row) \<Rightarrow> bool" where
  "profile_change f \<longleftrightarrow> (\<forall>u. u_id (f u) = u_id u \<and> u_availableTokens (f u) = u_availableTokens u)"

lemma profile_changes [simp]:
  "profile_change (\<lambda>u. u\<lparr>u_hashedRefreshToken := h\<rparr>)" "profile_change (authorized details token)"
  "profile_change deactivated" "profile_change (\<lambda>u. u\<lparr>u_representativeReportId := r\<rparr>)"
  by (simp_all add: profile_change_def authorized_def deactivated_def)

lemma available_update:
  assumes "profile_change f"
  shows "sum_list (map (\<lambda>r. if u_id r = u then u_availableTokens r else 0)
      (update_where p (\<lambda>x. (f x)\<lparr>u_updatedAt := now\<rparr>) us)) =
    sum_list (map (\<lambda>r. if u_id r = u then u_availableTokens r else 0) us)"
  using assms by (induction us) (auto simp: update_where_def profile_change_def)

lemma update_users_evolves:
  assumes "update_users p f now d = Inr (n, d')" "profile_change f"
  shows "evolves d d'"
proof -
  have d': "d' = d\<lparr>users := update_where p (\<lambda>x. (f x)\<lparr>u_updatedAt := now\<rparr>) (users d)\<rparr>"
    using assms(1) by (auto simp: update_users_def users_table.bulk_update_Inr)
  have ids: "map u_id (users d') = map u_id (users d)"
    using assms(2) by (simp add: d' map_key_update_where profile_change_def)
  show ?thesis
  proof (rule evolvesI)
    assume inv: "ledger_inv d"
    show "ledger_inv d'"
      using inv ids by (simp add: ledger_inv_def jobs_inv_def reports_match_def d')
    show "u_id ` set (users d) \<subseteq> u_id ` set (users d')" using ids by (metis order_refl set_map)
    show "rows_evolve d d'" by (auto simp: rows_evolve_def d' intro: job_evolves_refl)
    show "wealth u d' = wealth u d" for u
      using available_update [OF assms(2)] by (simp add: wealth_def available_def charged_def d')
  qed
qed

lemma profile_stmt_guar:
  "profile_change f \<Longrightarrow> stmt_guar evolves (update_users p f)"
  "profile_change f \<Longrightarrow> stmt_guar evolves (update_user i f)"
  "profile_change f \<Longrightarrow> stmt_guar evolves (update_user_row i f)"
  by (auto simp: stmt_guar_def update_user_def update_user_row_def split: sum.splits if_splits option.splits prod.splits
      intro: update_users_evolves)

lemma upsert_user_guar: "stmt_guar evolves (upsert_user details token)"
  unfolding stmt_guar_def
proof (intro allI impI)
  fix now d a d'
  assume run: "upsert_user details token now d = Inr (a, d')"
  show "evolves d d'"
  proof (cases "find_github_user (od_githubId details) d")
    case None
    let ?u = "new_user (next_user_id d) now details token"
    have new: "\<forall>x\<in>set (users d). u_id ?u \<noteq> u_id x" and d': "d' = d\<lparr>users := users d @ [?u]\<rparr>"
      using run None by (auto simp: upsert_user_def users_table.insert_row_Inr)
    show ?thesis
    proof (rule evolvesI)
      assume inv: "ledger_inv d"
      show "ledger_inv d'"
        using inv new by (auto simp: ledger_inv_def jobs_inv_def reports_match_def d')
      show "u_id ` set (users d) \<subseteq> u_id ` set (users d')" by (auto simp: d')
      show "rows_evolve d d'" by (auto simp: rows_evolve_def d' intro: job_evolves_refl)
      show "wealth u d' = wealth u d" if "u \<in> u_id ` set (users d)" for u
        using new that by (auto simp: wealth_def available_def charged_def d')
    qed
  next
    case (Some u)
    with run show ?thesis
      by (auto simp: upsert_user_def split: sum.splits prod.splits intro: update_users_evolves)
  qed
qed

lemmas auth_guar = ledger.guar_catch ledger.guar_bind ledger.guar_andThen ledger.guar_external ledger.guar_throw
  ledger.guar_ret ledger.guar_db_call ledger.stmt_guar_query profile_stmt_guar upsert_user_guar

lemma login_guar:
  assumes "rely evolves env"
  shows "guar evolves (login env j b u)" "guar evolves (refreshTokens env j b i t)"
  unfolding refreshTokens_def login_def getTokens_def updateRefreshToken_def Let_def
  by (auto intro!: auth_guar assms split: option.splits)

lemma oauth_guar:
  assumes "rely evolves env"
  shows "guar evolves (githubAuthRedirect env j b c details state)"
  unfolding githubAuthRedirect_def completeGithubOAuth_def validateUser_def reauthorizeGithubUser_def
    verifyGithubOAuthState_def encrypted_token_def
  by (auto intro!: auth_guar assms login_guar split: option.splits oauth_state.splits err.splits http_class.splits)

lemma auth_requests_guar:
  assumes "rely evolves env"
  shows "guar evolves (refresh env j b t h)" "guar evolves (deactivateUser env i)"
  unfolding refresh_def jwt_guard_def validate_def deactivateUser_def
  by (auto intro!: auth_guar assms login_guar split: option.splits)

end
