(* ===== verification/AuthProperties.thy ===== *)
theory AuthProperties
  imports Auth Samples
begin

text \<open>
  Properties of the tokens: what is encrypted is read back, a deactivated user gets no token, and
  the comparison of refresh tokens does not tell the tokens of a user apart that were signed
  under one name.
\<close>

section \<open>Encryption\<close>

lemma from_hex_to_hex: "list_all (\<lambda>b. b < 256) bs \<Longrightarrow> from_hex (to_hex bs) = bs"
proof (induction bs)
  case (Cons b bs)
  then have "hex_value (hex_unit (b div 16)) = Some (b div 16)" "hex_value (hex_unit (b mod 16)) = Some (b mod 16)"
    by (auto intro!: hex_value_unit)
  with Cons show ?case by (simp add: to_hex_def)
qed (simp add: to_hex_def)

lemma to_hex_chars: "list_all (\<lambda>c. c < 256 \<and> c \<noteq> 58) (to_hex bs)" if "list_all (\<lambda>b. b < 256) bs"
proof -
  have "hex_unit n < 256 \<and> hex_unit n \<noteq> 58" if "n < 16" for n using that by (auto simp: hex_unit_def)
  moreover have "b div 16 < 16" if "b < 256" for b :: nat using that by linarith
  ultimately show ?thesis using that by (induction bs) (auto simp: to_hex_def)
qed

text \<open>What the library promises: bytes, and it reads back the bytes it was given.\<close>

definition gcm_law :: "gcm \<Rightarrow> bool" where
  "gcm_law c \<longleftrightarrow> (\<forall>iv t e tag. gcm_encrypt c iv t = (e, tag) \<longrightarrow> list_all (\<lambda>b. b < 256) t \<longrightarrow>
     list_all (\<lambda>b. b < 256) e \<and> list_all (\<lambda>b. b < 256) tag \<and> gcm_decrypt c iv tag e = Inr t)"

lemma decrypt_encrypt:
  assumes "gcm_law c" "list_all (\<lambda>b. b < 256) iv" "well_formed t"
  shows "decrypt c (encrypt c iv t) = Inr t"
proof -
  obtain e tag where e: "gcm_encrypt c iv (utf8_encode t) = (e, tag)" by (cases "gcm_encrypt c iv (utf8_encode t)")
  have read: "utf8_decode (utf8_encode t) = t" using utf8.round_trip [OF assms(3)] by simp
  from assms(1,3) e utf8_bytes have law: "list_all (\<lambda>b. b < 256) e" "list_all (\<lambda>b. b < 256) tag"
      "gcm_decrypt c iv tag e = Inr (utf8_encode t)"
    unfolding gcm_law_def by blast+
  let ?s = "to_hex iv @ [58] @ to_hex tag @ [58] @ to_hex e"
  have chars: "list_all (\<lambda>c. c < 256 \<and> c \<noteq> 58) (to_hex iv)" "list_all (\<lambda>c. c < 256 \<and> c \<noteq> 58) (to_hex tag)"
      "list_all (\<lambda>c. c < 256 \<and> c \<noteq> 58) (to_hex e)"
    using to_hex_chars assms(2) law by blast+
  have "map (\<lambda>x. of_char (char_of x :: char)) s = s" if "list_all (\<lambda>c. c < 256) s" for s :: "nat list"
    using that by (induction s) simp_all
  then have "units (text_of_units ?s) = ?s"
    using chars by (auto simp: units_def text_of_units_def comp_def list_all_iff)
  moreover have "list_all (\<lambda>c. c \<noteq> 58) (to_hex iv)" "list_all (\<lambda>c. c \<noteq> 58) (to_hex tag)"
      "list_all (\<lambda>c. c \<noteq> 58) (to_hex e)"
    using chars by (auto simp: list_all_iff)
  then have "split_units 58 ?s = [to_hex iv, to_hex tag, to_hex e]"
    by (simp add: split_units_part split_units_whole)
  ultimately show ?thesis
    using assms(2) law by (simp add: encrypt_def decrypt_def e from_hex_to_hex read)
qed

interpretation github_token: codec "encrypt c iv" "\<lambda>s. case decrypt c s of Inl _ \<Rightarrow> None | Inr t \<Rightarrow> Some t"
    "\<lambda>t. gcm_law c \<and> list_all (\<lambda>b. b < 256) iv \<and> well_formed t"
  for c iv
  by unfold_locales (simp add: decrypt_encrypt)

text \<open>
  C29. The GitHub token of a user is read back from what is stored: decrypting what was encrypted
  gives the text back, and no two texts are stored alike, for a cipher that reads back the bytes it
  was given and texts whose surrogates come in pairs.
\<close>

theorem stored_token_is_read_back:
  assumes "gcm_law c" "list_all (\<lambda>b. b < 256) iv" "well_formed t" "well_formed t'"
  shows "decrypt c (encrypt c iv t) = Inr t \<and> (encrypt c iv t = encrypt c iv t' \<longleftrightarrow> t = t')"
  using assms github_token.enc_inject [of c iv t t'] decrypt_encrypt [of c iv t] by simp

text \<open>A cipher: it adds the sum of the initialization vector to every byte.\<close>

definition sample_gcm :: gcm where
  "sample_gcm = \<lparr>gcm_encrypt = (\<lambda>iv t. (map (\<lambda>b. (b + sum_list iv) mod 256) t, [sum_list t mod 256])),
     gcm_decrypt = (\<lambda>iv tag e.
       Inr (map (\<lambda>b. (b + 255 * sum_list iv) mod 256) e)), gcm_random = (\<lambda>n. [n mod 256])\<rparr>"

lemma sample_gcm_law: "gcm_law sample_gcm"
proof -
  have "(b + k + 255 * k) mod 256 = b" if "b < 256" for b k :: nat
  proof -
    have "b + k + 255 * k = b + 256 * k" by simp
    then show ?thesis using that by (metis mod_less mod_mult_self2)
  qed
  then have "((b + k) mod 256 + 255 * k) mod 256 = b" if "b < 256" for b k :: nat
    using that by (metis mod_add_left_eq)
  then have "list_all (\<lambda>b. b < 256) t \<longrightarrow> map (\<lambda>b. ((b + k) mod 256 + 255 * k) mod 256) t = t" for t and k :: nat
    by (induction t) simp_all
  then show ?thesis by (auto simp: gcm_law_def sample_gcm_def comp_def list_all_iff)
qed

lemma stored_token_is_read_back_witness:
  "decrypt sample_gcm (encrypt sample_gcm [1, 2, 3] (units ''gho_token'')) = Inr (units ''gho_token'')"
  using stored_token_is_read_back [OF sample_gcm_law, of "[1, 2, 3]" "units ''gho_token''" "units ''gho_token''"]
  by (simp add: high_surrogate_def low_surrogate_def)

section \<open>Tokens begin alike\<close>

text \<open>
  The library signs the JSON text of the claims, the time of issue and the time of expiry: a token
  is its header, this text and the signature, in base64url and separated by dots.
\<close>

definition signed_text :: "claims \<Rightarrow> int \<Rightarrow> int \<Rightarrow> utext" where
  "signed_text c iat expires = JSON_stringify (JObj
     ([(units ''sub'', JNum (Some (of_int (ck_sub c))))] @
      (case ck_username c of None \<Rightarrow> [] | Some u \<Rightarrow> [(units ''username'', JStr u)]) @
      (case ck_jti c of None \<Rightarrow> [] | Some i \<Rightarrow> [(units ''jti'', JStr (units i))]) @
      (case ck_purpose c of None \<Rightarrow> [] | Some p \<Rightarrow> [(units ''purpose'', JStr (units p))]) @
      [(units ''iat'', JNum (Some (of_int iat))), (units ''exp'', JNum (Some (of_int expires)))]))"

text \<open>\<open>{"alg":"HS256","typ":"JWT"}\<close>\<close>

definition jwt_header_text :: utext where
  "jwt_header_text = JSON_stringify (JObj [(units ''alg'', JStr (units ''HS256'')), (units ''typ'', JStr (units ''JWT''))])"

definition jwt_header :: utext where
  "jwt_header = base64url_encode jwt_header_text"

definition jwt_token :: "claims \<Rightarrow> int \<Rightarrow> int \<Rightarrow> utext \<Rightarrow> utext" where
  "jwt_token c iat expires signature =
     jwt_header @ [46] @ base64url_encode (utf8_encode (signed_text c iat expires)) @ [46] @ signature"

definition jwt_law :: "jwt_service \<Rightarrow> bool" where
  "jwt_law j \<longleftrightarrow> (\<forall>c e n tok. jwt_sign j c e n = Inr tok \<longrightarrow> (\<exists>iat expires signature. tok = jwt_token c iat expires signature))"

text \<open>\<open>bcrypt\<close> uses the first 72 bytes of the text.\<close>

definition bcrypt_law :: "password_hash \<Rightarrow> bool" where
  "bcrypt_law b \<longleftrightarrow> (\<forall>t t' h n. take 72 (utf8_encode t) = take 72 (utf8_encode t') \<longrightarrow>
     bc_compare b t h n = bc_compare b t' h n)"

lemma code_points_split: "c < 128 \<Longrightarrow> code_points (s @ c # t) = code_points s @ c # code_points t"
proof (induction s rule: code_points.induct)
  case 1
  then show ?case by (cases t) (simp_all add: high_surrogate_def low_surrogate_def)
next
  case (2 d)
  then show ?case by (cases t) (simp_all add: high_surrogate_def low_surrogate_def)
next
  case (3 c d s)
  then show ?case by simp
qed

lemma utf8_split: "c < 128 \<Longrightarrow> utf8_encode (s @ c # t) = utf8_encode s @ c # utf8_encode t"
  by (simp add: utf8_encode_def code_points_split utf8_char_def)

lemma utf8_cons: "c < 128 \<Longrightarrow> utf8_encode (c # t) = c # utf8_encode t"
  using utf8_split [of c "[]" t] by (simp add: utf8_encode_def)

lemma utf8_ascii_append: "ascii_text s \<Longrightarrow> utf8_encode (s @ t) = s @ utf8_encode t"
proof (induction s)
  case (Cons c s)
  then show ?case using utf8_split [of c "[]" "s @ t"] by (simp add: ascii_text_def utf8_encode_def)
qed simp

lemma base64url_append:
  "length xs = 3 * n \<Longrightarrow> base64url_encode (xs @ ys) = base64url_encode xs @ base64url_encode ys"
proof (induction n arbitrary: xs)
  case (Suc n)
  then obtain a b c zs where "xs = a # b # c # zs" "length zs = 3 * n"
    by (cases xs rule: sextets.cases) auto
  with Suc.IH [of zs] show ?case by (simp add: base64url_encode_def)
qed (simp add: base64url_encode_def)

lemma base64url_length: "length xs = 3 * n \<Longrightarrow> length (base64url_encode xs) = 4 * n"
proof (induction n arbitrary: xs)
  case (Suc n)
  then obtain a b c zs where "xs = a # b # c # zs" "length zs = 3 * n"
    by (cases xs rule: sextets.cases) auto
  with Suc.IH [of zs] show ?case by (simp add: base64url_encode_def)
qed (simp add: base64url_encode_def)

lemma base64url_ascii: "ascii_text (base64url_encode bs)"
  by (auto simp: base64url_encode_def ascii_text_def list_all_iff base64url_char_def)

lemma jwt_header_length: "length jwt_header = 36"
proof -
  have "length jwt_header_text = 3 * 9"
    by (simp add: jwt_header_text_def quoted_def escape_unit_def high_surrogate_def low_surrogate_def)
  then have "length (base64url_encode jwt_header_text) = 4 * 9" by (rule base64url_length)
  then show ?thesis by (simp add: jwt_header_def)
qed

lemma ascii_append [simp]: "ascii_text (s @ t) \<longleftrightarrow> ascii_text s \<and> ascii_text t"
  "ascii_text (c # s) \<longleftrightarrow> c < 128 \<and> ascii_text s" "ascii_text []"
  by (auto simp: ascii_text_def)

lemma ascii_number: "ascii_text (units (js_string_of_int i))"
proof -
  have "ascii_text (units (nat_digits n))" for n
    using nat_digits_read [of n] by (auto simp: ascii_text_def list_all_iff json_digit_def)
  then show ?thesis by (simp add: js_string_of_int_def)
qed

lemma ascii_keys:
  "ascii_text (quoted (units ''sub''))" "ascii_text (quoted (units ''username''))" "ascii_text (quoted (units ''iat''))"
  "length (quoted (units ''sub'')) = 5" "length (quoted (units ''username'')) = 10" "length (quoted (units ''iat'')) = 5"
  by (simp_all add: quoted_def escape_unit_def high_surrogate_def low_surrogate_def)

lemma number_nonempty: "0 < length (units (js_string_of_int i))"
  by (simp add: js_string_of_int_def units_def nat_digits.simps [of "nat i"])

text \<open>The first bytes of what is signed depend on the claims alone.\<close>

lemma signed_prefix:
  assumes "ck_username c = Some u" "ck_jti c = None" "ck_purpose c = None"
  obtains p where "27 \<le> length p" "\<And>iat expires. \<exists>r. utf8_encode (signed_text c iat expires) = p @ r"
proof -
  let ?id = "units (js_string_of_int (ck_sub c))"
  let ?a = "123 # quoted (units ''sub'') @ 58 # ?id @ 44 # quoted (units ''username'') @ [58]"
  let ?b = "44 # quoted (units ''iat'')"
  let ?p = "?a @ 34 # utf8_encode (escape_text u) @ 34 # ?b"
  have ascii: "ascii_text ?a" "ascii_text ?b"
    by (simp_all add: ascii_keys ascii_number del: units_Cons)
  have "\<exists>r. utf8_encode (signed_text c iat expires) = ?p @ r" for iat expires
  proof -
    obtain r where "signed_text c iat expires = ?a @ 34 # escape_text u @ 34 # ?b @ 58 # r"
      using assms by (auto simp: signed_text_def quoted_def [of u])
    then have "utf8_encode (signed_text c iat expires) = ?a @ 34 # utf8_encode (escape_text u) @ 34 # ?b @ 58 # utf8_encode r"
      using ascii utf8_ascii_append [OF ascii(1)] utf8_split [of 34] utf8_ascii_append [OF ascii(2)]
        utf8_cons [of 58] utf8_cons [of 34]
      by (simp del: units_Cons)
    then show ?thesis by auto
  qed
  moreover have "27 \<le> length ?p"
    using number_nonempty [of "ck_sub c"] by (simp add: ascii_keys del: units_Cons)
  ultimately show ?thesis using that by blast
qed

lemma same_claims_same_prefix:
  assumes "ck_username c = Some u" "ck_jti c = None" "ck_purpose c = None"
  shows "take 72 (utf8_encode (jwt_token c iat expires signature)) =
    take 72 (utf8_encode (jwt_token c iat' expires' signature'))"
proof -
  obtain p where p: "27 \<le> length p" "\<And>iat expires. \<exists>r. utf8_encode (signed_text c iat expires) = p @ r"
    using signed_prefix [OF assms] by metis
  let ?head = "jwt_header @ [46] @ base64url_encode (take 27 p)"
  have head: "length ?head = 73"
    using p(1) base64url_length [of "take 27 p" 9] by (simp add: jwt_header_length)
  have "ascii_text ?head"
    using base64url_ascii by (simp add: ascii_text_def jwt_header_def)
  note a = this
  have "\<exists>r. utf8_encode (jwt_token c iat expires signature) = ?head @ r" for iat expires signature
  proof -
    obtain r where "utf8_encode (signed_text c iat expires) = take 27 p @ (drop 27 p @ r)"
      using p(2) [of iat expires] by (metis append.assoc append_take_drop_id)
    then have "jwt_token c iat expires signature = ?head @ (base64url_encode (drop 27 p @ r) @ [46] @ signature)"
      using p(1) base64url_append [of "take 27 p" 9] by (simp add: jwt_token_def)
    with utf8_ascii_append [OF a] show ?thesis by metis
  qed
  then obtain r r' where "utf8_encode (jwt_token c iat expires signature) = ?head @ r"
      "utf8_encode (jwt_token c iat' expires' signature') = ?head @ r'"
    by metis
  moreover have "take 72 (?head @ r) = take 72 ?head" for r using head by (simp only: take_append) simp
  ultimately show ?thesis by (simp only:)
qed

section \<open>The comparison of refresh tokens\<close>

text \<open>
  C28. Every token of a user under one name passes for the refresh token: with a hash that uses the
  first 72 bytes of a text, as bcrypt does, the service answers any two tokens it signed for the user
  under the same name alike, access tokens and replaced refresh tokens included, because they do not
  differ there. The name begins within these bytes, so a token from before a rename may differ.
\<close>

theorem any_token_refreshes:
  assumes "jwt_law j" "bcrypt_law b"
    and "jwt_sign j \<lparr>ck_sub = i, ck_username = Some name, ck_jti = None, ck_purpose = None\<rparr> e n = Inr tok"
    and "jwt_sign j \<lparr>ck_sub = i, ck_username = Some name, ck_jti = None, ck_purpose = None\<rparr> e' n' = Inr tok'"
  shows "refreshTokens env j b i tok w = refreshTokens env j b i tok' w"
proof -
  let ?c = "\<lparr>ck_sub = i, ck_username = Some name, ck_jti = None, ck_purpose = None\<rparr>"
  obtain iat x s iat' x' s' where "tok = jwt_token ?c iat x s" "tok' = jwt_token ?c iat' x' s'"
    using assms unfolding jwt_law_def by metis
  then have "take 72 (utf8_encode tok) = take 72 (utf8_encode tok')"
    by (simp add: same_claims_same_prefix [of ?c name])
  then have same: "bc_compare b tok = bc_compare b tok'"
    using assms(2) unfolding bcrypt_law_def by blast
  show ?thesis unfolding refreshTokens_def same ..
qed

definition sample_jwt :: jwt_service where
  "sample_jwt = \<lparr>jwt_sign = (\<lambda>c e n. Inr (jwt_token c (int n) (int n + e) [])),
     jwt_verify = (\<lambda>t n. Inr \<lparr>ck_sub = 1, ck_username = Some (units ''dev''), ck_jti = None, ck_purpose = None\<rparr>)\<rparr>"

definition sample_bcrypt :: password_hash where
  "sample_bcrypt = \<lparr>bc_hash = (\<lambda>t n. Inr (text_of_units (take 72 (utf8_encode t)))),
     bc_compare = (\<lambda>t h n. Inr (text_of_units (take 72 (utf8_encode t)) = h))\<rparr>"

lemma sample_libraries: "jwt_law sample_jwt" "bcrypt_law sample_bcrypt"
  by (auto simp: jwt_law_def sample_jwt_def bcrypt_law_def sample_bcrypt_def)

lemma any_token_refreshes_witness:
  "refreshTokens calm sample_jwt sample_bcrypt 1
      (jwt_token \<lparr>ck_sub = 1, ck_username = Some (units ''dev''), ck_jti = None, ck_purpose = None\<rparr> 0 900 []) (world_with sample_job) =
   refreshTokens calm sample_jwt sample_bcrypt 1
      (jwt_token \<lparr>ck_sub = 1, ck_username = Some (units ''dev''), ck_jti = None, ck_purpose = None\<rparr> 5 604805 []) (world_with sample_job)"
  by (rule any_token_refreshes [OF sample_libraries, where n = 0 and e = 900 and n' = 5 and e' = 604800 and name = "units ''dev''"])
    (simp_all add: sample_jwt_def)

section \<open>Deactivated users\<close>

definition locked :: "int \<Rightarrow> string \<Rightarrow> db \<Rightarrow> bool" where
  "locked i g d \<longleftrightarrow>
     (case find_user i d of None \<Rightarrow> False | Some u \<Rightarrow> u_status u = DEACTIVATED) \<and>
     (case find_github_user g d of None \<Rightarrow> False | Some u \<Rightarrow> u_status u = DEACTIVATED)"

definition stays_locked :: "env \<Rightarrow> int \<Rightarrow> string \<Rightarrow> bool" where
  "stays_locked env i g \<longleftrightarrow> (\<forall>n d. locked i g d \<longrightarrow> locked i g (interference env n d))"

definition fails :: "'a io \<Rightarrow> world \<Rightarrow> bool" where
  "fails m w \<longleftrightarrow> (case fst (m w) of Inl e \<Rightarrow> True | Inr a \<Rightarrow> False)"

lemma fails_throw: "fails (throw e) w"
  by (simp add: fails_def throw_def)

lemma fails_bind: "fails m w \<Longrightarrow> fails (bind m f) w"
  by (cases "m w"; cases "fst (m w)") (simp_all add: fails_def bind_def)

lemma fails_bind_at: "(\<And>a w'. m w = (Inr a, w') \<Longrightarrow> fails (f a) w') \<Longrightarrow> fails (bind m f) w"
  by (cases "m w"; cases "fst (m w)") (simp_all add: fails_def bind_def)

text \<open>A query of a locked user sees the lock, whatever the others did.\<close>

lemma locked_query:
  assumes "stays_locked env i g" "locked i g (wdb w)" "db_call env (query f) w = (Inr a, w')"
  shows "locked i g (wdb w') \<and> a = f (wdb w')"
  using assms by (auto simp: db_call_def query_def stays_locked_def Let_def split: fault.splits)

lemma external_wdb: "external f w = (Inr a, w') \<Longrightarrow> wdb w' = wdb w \<and> f (tick w) = Inr a"
  by (auto simp: external_def)

lemma locked_user:
  assumes "stays_locked env i g" "locked i g (wdb w)"
  shows "(\<And>u w'. u_status u = DEACTIVATED \<Longrightarrow> fails (f (Some u)) w') \<Longrightarrow>
      fails (bind (db_call env (query (find_user i))) f) w"
    "(\<And>u w'. u_status u = DEACTIVATED \<Longrightarrow> fails (f (Some u)) w') \<Longrightarrow>
      fails (bind (db_call env (query (find_github_user g))) f) w"
proof -
  assume f: "\<And>u w'. u_status u = DEACTIVATED \<Longrightarrow> fails (f (Some u)) w'"
  show "fails (bind (db_call env (query (find_user i))) f) w"
  proof (rule fails_bind_at)
    fix a w' assume "db_call env (query (find_user i)) w = (Inr a, w')"
    from locked_query [OF assms this] f show "fails (f a) w'" by (auto simp: locked_def split: option.splits)
  qed
  show "fails (bind (db_call env (query (find_github_user g))) f) w"
  proof (rule fails_bind_at)
    fix a w' assume "db_call env (query (find_github_user g)) w = (Inr a, w')"
    from locked_query [OF assms this] f show "fails (f a) w'" by (auto simp: locked_def split: option.splits)
  qed
qed

lemma locked_refresh:
  assumes "stays_locked env i g" "locked i g (wdb w)"
  shows "fails (refreshTokens env j b i t) w" "ck_sub p = i \<Longrightarrow> fails (validate env p) w"
    "fails (reauthorizeGithubUser env c i details) w"
    "od_githubId details = g \<Longrightarrow> fails (validateUser env c details) w"
proof -
  note find = locked_user(1) [OF assms] and find_github = locked_user(2) [OF assms]
  show "fails (refreshTokens env j b i t) w"
    unfolding refreshTokens_def by (auto intro!: find fails_throw split: option.splits)
  show "fails (validate env p) w" if i: "ck_sub p = i"
    unfolding validate_def i by (auto intro!: find fails_throw)
  show "fails (reauthorizeGithubUser env c i details) w"
    unfolding reauthorizeGithubUser_def by (auto intro!: find fails_throw)
  show "fails (validateUser env c details) w" if i: "od_githubId details = g"
    unfolding validateUser_def i by (auto intro!: find_github fails_throw)
qed

text \<open>
  C27. A deactivated user gets no token and opens no request, whatever fails and whatever others do
  meanwhile that does not activate the account: a token of the account is refused, it is not
  refreshed, whatever the header of the request holds, and signing in again through GitHub is refused,
  without a state or with a state of the account.
\<close>

theorem deactivated_user_is_locked_out:
  assumes "stays_locked env i g" "locked i g (wdb w)" "od_githubId details = g"
    and token: "\<And>n p. jwt_verify j token n = Inr p \<Longrightarrow> ck_sub p = i"
    and state: "\<And>s n p. state = TextState s \<Longrightarrow> jwt_verify j s n = Inr p \<Longrightarrow> ck_sub p = i"
  shows "fails (jwt_guard env j token) w \<and> fails (refresh env j b token authorization) w \<and> fails (refreshTokens env j b i token) w \<and>
    fails (githubAuthRedirect env j b c details state) w"
proof -
  have guard: "fails (jwt_guard env j token) w"
    unfolding jwt_guard_def
  proof (rule fails_bind_at)
    fix p w' assume "catch (external (jwt_verify j token)) (\<lambda>_. throw (HttpError UnauthorizedException ''Unauthorized'')) w = (Inr p, w')"
    then have "wdb w' = wdb w" "jwt_verify j token (tick w) = Inr p"
      by (auto simp: catch_def external_def throw_def split: sum.splits)
    then show "fails (validate env p) w'" using assms(1,2) token by (intro locked_refresh(2) [of env i g]) simp_all
  qed
  have again: "fails (bind (verifyGithubOAuthState j s) (\<lambda>p. reauthorizeGithubUser env c (ck_sub p) details)) w"
    if "state = TextState s" for s
  proof (rule fails_bind_at)
    fix p w' assume "verifyGithubOAuthState j s w = (Inr p, w')"
    then have run: "wdb w' = wdb w \<and> jwt_verify j s (tick w) = Inr p"
      by (auto simp: verifyGithubOAuthState_def catch_def bind_def external_def throw_def ret_def
          split: sum.splits if_splits err.splits http_class.splits)
    then have "ck_sub p = i" using state [OF that] by blast
    with run show "fails (reauthorizeGithubUser env c (ck_sub p) details) w'"
      using assms(1,2) locked_refresh(3) [of env i g w'] by simp
  qed
  have "fails (completeGithubOAuth env j c details state) w"
    using again locked_refresh(4) [OF assms(1,2,3)]
    by (auto simp: completeGithubOAuth_def fails_throw split: oauth_state.splits)
  then show ?thesis
    using guard locked_refresh(1) [OF assms(1,2)] by (auto simp: refresh_def githubAuthRedirect_def intro: fails_bind)
qed

definition locked_world :: world where
  "locked_world = \<lparr>wdb = put_users [deactivated sample_user] (db_with sample_job), tick = 0\<rparr>"

lemma deactivated_user_is_locked_out_witness:
  "fails (refresh calm sample_jwt sample_bcrypt (units ''token'') (Some (units ''Bearer token''))) locked_world \<and>
   fails (githubAuthRedirect calm sample_jwt sample_bcrypt sample_gcm \<lparr>od_githubId = ''42'', od_username = ''dev'',
     od_avatarUrl = [], od_accessToken = units ''gho_token''\<rparr> NoState) locked_world"
proof -
  have "stays_locked calm 1 ''42''" "locked 1 ''42'' (wdb locked_world)"
    by (simp_all add: stays_locked_def calm_def locked_def locked_world_def find_user_def find_github_user_def
        deactivated_def sample_user_def)
  from deactivated_user_is_locked_out [OF this, of "\<lparr>od_githubId = ''42'', od_username = ''dev'', od_avatarUrl = [],
      od_accessToken = units ''gho_token''\<rparr>" sample_jwt "units ''token''" NoState sample_bcrypt
      "Some (units ''Bearer token'')" sample_gcm]
  show ?thesis by (simp add: sample_jwt_def)
qed

end
