(* ===== verification/JsValue.thy ===== *)
theory JsValue
  imports JsNumber JsDate Activity
begin

text \<open>
  The conversions of JavaScript on values that \<open>JSON.parse\<close> returned: truth values,
  \<open>String(value)\<close> with the shortest decimal numeral of a double, and \<open>new Date(value)\<close>. A property
  that is missing is \<^const>\<open>None\<close>, the value \<open>undefined\<close>.
\<close>

section \<open>Truth\<close>

fun truthy :: "json option \<Rightarrow> bool" where
  "truthy None \<longleftrightarrow> False"
| "truthy (Some JNull) \<longleftrightarrow> False"
| "truthy (Some (JBool b)) \<longleftrightarrow> b"
| "truthy (Some (JNum q)) \<longleftrightarrow> q \<noteq> Some 0"
| "truthy (Some (JStr s)) \<longleftrightarrow> s \<noteq> []"
| "truthy (Some (JArr vs)) \<longleftrightarrow> True"
| "truthy (Some (JObj kvs)) \<longleftrightarrow> True"

section \<open>Numerals\<close>

text \<open>The \<open>n\<close> with \<open>10 ^ (n - 1) \<le> x < 10 ^ n\<close>, of a positive number.\<close>

definition decimal_exponent :: "rat \<Rightarrow> int" where
  "decimal_exponent x =
     (if 1 \<le> x then int (length (nat_digits (nat \<lfloor>x\<rfloor>)))
      else 1 - int (length (nat_digits (nat (\<lceil>1 / x\<rceil> - 1)))))"

definition pow10 :: "int \<Rightarrow> rat" where
  "pow10 n = (if 0 \<le> n then 10 ^ nat n else 1 / 10 ^ nat (- n))"

text \<open>
  The digits of the shortest numeral that denotes the double, with its exponent: 17 of them are
  enough. A double just below a power of ten may be denoted by that power.
\<close>

definition significand :: "rat \<Rightarrow> nat \<Rightarrow> nat" where
  "significand x k = nat (round_half_even (x * pow10 (int k - decimal_exponent x)))"

definition shortest_length :: "rat \<Rightarrow> nat" where
  "shortest_length x =
     (case find (\<lambda>k. to_double (of_nat (significand x k) * pow10 (decimal_exponent x - int k)) = Some x) [1..<17] of
        Some k \<Rightarrow> k | None \<Rightarrow> 17)"

definition shortest_numeral :: "rat \<Rightarrow> string \<times> int" where
  "shortest_numeral x =
     (let k = shortest_length x; s = significand x k; n = decimal_exponent x in
      if s = 10 ^ k then (''1'', n + 1) else (nat_digits s, n))"

definition numeral_layout :: "string \<times> int \<Rightarrow> string" where
  "numeral_layout sn =
     (let (s, n) = sn; k = int (length s) in
      if k \<le> n \<and> n \<le> 21 then s @ replicate (nat (n - k)) CHR ''0''
      else if 0 < n \<and> n \<le> 21 then take (nat n) s @ ''.'' @ drop (nat n) s
      else if -6 < n \<and> n \<le> 0 then ''0.'' @ replicate (nat (- n)) CHR ''0'' @ s
      else (if k = 1 then s else take 1 s @ ''.'' @ drop 1 s) @ ''e'' @
           (if 0 < n then ''+'' else ''-'') @ nat_digits (nat \<bar>n - 1\<bar>))"

text \<open>\<open>String\<close> of a double; an infinity that a text denotes is read without its sign.\<close>

fun js_number_text :: "rat option \<Rightarrow> string" where
  "js_number_text None = ''Infinity''"
| "js_number_text (Some x) =
     (if x = 0 then ''0''
      else if x < 0 then ''-'' @ numeral_layout (shortest_numeral (- x))
      else numeral_layout (shortest_numeral x))"

fun value_text :: "json \<Rightarrow> utext" where
  "value_text JNull = units ''null''"
| "value_text (JBool b) = units (if b then ''true'' else ''false'')"
| "value_text (JNum q) = units (js_number_text q)"
| "value_text (JStr s) = s"
| "value_text (JArr vs) = join_with [44] (map (\<lambda>v. if v = JNull then [] else value_text v) vs)"
| "value_text (JObj kvs) = units ''[object Object]''"

definition js_String :: "json option \<Rightarrow> utext" where
  "js_String v = (case v of None \<Rightarrow> units ''undefined'' | Some v \<Rightarrow> value_text v)"

section \<open>Dates\<close>

text \<open>\<open>new Date(value)\<close> of a truthy value; \<^const>\<open>None\<close> is an invalid date.\<close>

fun Date_of :: "(utext \<Rightarrow> int option) \<Rightarrow> json \<Rightarrow> int option" where
  "Date_of other_date (JStr s) = Date_parse other_date s"
| "Date_of other_date (JNum q) = (case q of None \<Rightarrow> None
     | Some x \<Rightarrow> if valid_time (js_trunc x) then Some (js_trunc x) else None)"
| "Date_of other_date (JBool b) = Some (if b then 1 else 0)"
| "Date_of other_date JNull = Some 0"
| "Date_of other_date v = Date_parse other_date (value_text v)"

end
