(* ===== verification/GithubApp.thy ===== *)
theory GithubApp
  imports JsValue Auth InstallationTokens
begin

text \<open>
  The installations of the GitHub App and who may use them:
  \<open>src/src/github-app/github-app.service.ts\<close> and \<open>github-app-webhook.service.ts\<close>.

  GitHub is a parameter: what it answers to the App and to a user's token, by the counter of the
  effects. Its answers are JSON objects, as the webhook's body is. \<open>lower\<close> is \<open>toLowerCase\<close>,
  \<open>collation\<close> the order of texts in the database, \<open>hmac\<close> the digest under the webhook's secret.
\<close>

record github_account =
  gc_getInstallation :: "rat option \<Rightarrow> nat \<Rightarrow> err + json"
  gc_listInstallations :: "nat \<Rightarrow> nat \<Rightarrow> err + json list"
  gc_listOrganizations :: "utext \<Rightarrow> nat \<Rightarrow> nat \<Rightarrow> err + utext list"
  gc_checkMembership :: "utext \<Rightarrow> json option \<Rightarrow> string \<Rightarrow> nat \<Rightarrow> err + unit"

section \<open>Configuration\<close>

record github_app_config =
  gf_appId :: string
  gf_installUrl :: string
  gf_privateKey :: string
  gf_webhookSecret :: string
  gf_frontendUrl :: string
  gf_jwtSecret :: string

definition require :: "env \<Rightarrow> string \<Rightarrow> err + string" where
  "require env k = (case nonempty_config env k of Some v \<Rightarrow> Inr v | None \<Rightarrow> Inl (PlainError (k @ '' is required'')))"

text \<open>\<open>replace(/\\n/g, '\n')\<close>\<close>

fun unescape_newlines :: "string \<Rightarrow> string" where
  "unescape_newlines (x # y # s) =
     (if x = CHR 0x5C \<and> y = CHR ''n'' then CHR 0x0A # unescape_newlines s else x # unescape_newlines (y # s))"
| "unescape_newlines s = s"

text \<open>\<open>readFileSync\<close> of a path below the working directory is a parameter.\<close>

definition loadPrivateKey :: "env \<Rightarrow> (string \<Rightarrow> err + string) \<Rightarrow> err + string" where
  "loadPrivateKey env read_file =
     (case nonempty_config env ''GITHUB_APP_PRIVATE_KEY'' of
        Some k \<Rightarrow> Inr (unescape_newlines k)
      | None \<Rightarrow> (case nonempty_config env ''GITHUB_APP_PRIVATE_KEY_PATH'' of
          None \<Rightarrow> Inl (PlainError ''GITHUB_APP_PRIVATE_KEY or GITHUB_APP_PRIVATE_KEY_PATH is required'')
        | Some path \<Rightarrow> read_file path))"

definition GithubAppConfig :: "env \<Rightarrow> (string \<Rightarrow> err + string) \<Rightarrow> err + github_app_config" where
  "GithubAppConfig env read_file =
     and_then (require env ''GITHUB_APP_ID'') (\<lambda>appId.
     and_then (require env ''GITHUB_APP_INSTALL_URL'') (\<lambda>installUrl.
     and_then (require env ''GITHUB_APP_WEBHOOK_SECRET'') (\<lambda>webhookSecret.
     and_then (require env ''JWT_SECRET'') (\<lambda>jwtSecret.
     and_then (loadPrivateKey env read_file) (\<lambda>privateKey. Inr
       \<lparr>gf_appId = appId, gf_installUrl = installUrl, gf_privateKey = privateKey, gf_webhookSecret = webhookSecret,
        gf_frontendUrl = (case config env ''FRONTEND_URL'' of None \<Rightarrow> ''http://localhost:3005'' | Some u \<Rightarrow> u),
        gf_jwtSecret = jwtSecret\<rparr>)))))"

text \<open>The token of the App (\<open>github-app-auth.service.ts\<close>), signed under its private key.\<close>

definition encode_part :: "json \<Rightarrow> utext" where
  "encode_part v = base64url_encode (utf8_encode (JSON_stringify v))"

definition app_claims :: "string \<Rightarrow> int \<Rightarrow> json" where
  "app_claims appId now = JObj
     [(units ''iat'', JNum (Some (of_int (now - 60)))), (units ''exp'', JNum (Some (of_int (now + 9 * 60)))),
      (units ''iss'', JStr (units appId))]"

definition createAppJwt :: "env \<Rightarrow> github_app_config \<Rightarrow> (string \<Rightarrow> utext \<Rightarrow> utext) \<Rightarrow> utext io" where
  "createAppJwt env cfg sign = bind (now_io env) (\<lambda>ms.
     let unsigned = encode_part (JObj [(units ''alg'', JStr (units ''RS256'')), (units ''typ'', JStr (units ''JWT''))]) @ [46] @
           encode_part (app_claims (gf_appId cfg) (ms div 1000))
     in ret (unsigned @ [46] @ sign (gf_privateKey cfg) unsigned))"

section \<open>Installation data\<close>

text \<open>A date that is absent, or given and perhaps invalid.\<close>

definition toDate :: "(utext \<Rightarrow> int option) \<Rightarrow> json option \<Rightarrow> int option option" where
  "toDate other_date v = (if truthy v then Some (Date_of other_date (the v)) else None)"

record installation_data =
  id_accountId :: utext
  id_accountLogin :: "json option"
  id_accountType :: account_type
  id_repositorySelection :: "json option"
  id_status :: installation_status
  id_suspendedAt :: "int option option"
  id_githubCreatedAt :: "int option option"
  id_githubUpdatedAt :: "int option option"

definition requireAccount :: "json \<Rightarrow> err + json" where
  "requireAccount installation =
     (let a = property ''account'' (Some installation) in
      if truthy a then Inr (the a) else Inl (HttpError BadRequestException ''GitHub installation account is missing''))"

definition toInstallationData :: "(utext \<Rightarrow> int option) \<Rightarrow> json \<Rightarrow> err + installation_data" where
  "toInstallationData other_date installation = (case requireAccount installation of
       Inl e \<Rightarrow> Inl e
     | Inr account \<Rightarrow> Inr
         \<lparr>id_accountId = js_String (property ''id'' (Some account)),
          id_accountLogin = property ''login'' (Some account),
          id_accountType = (if property ''type'' (Some account) = Some (JStr (units ''Organization'')) then ORGANIZATION else USER),
          id_repositorySelection = property ''repository_selection'' (Some installation),
          id_status = (if truthy (property ''suspended_at'' (Some installation)) then SUSPENDED else ACTIVE_INSTALLATION),
          id_suspendedAt = toDate other_date (property ''suspended_at'' (Some installation)),
          id_githubCreatedAt = toDate other_date (property ''created_at'' (Some installation)),
          id_githubUpdatedAt = toDate other_date (property ''updated_at'' (Some installation))\<rparr>)"

text \<open>
  What the client of the database accepts: texts where the schema has texts, and valid dates. Then
  the row, with the dates that are known.
\<close>

definition validation_error :: err where
  "validation_error = OtherError None None"

definition given_date :: "int option option \<Rightarrow> bool" where
  "given_date t \<longleftrightarrow> t \<noteq> Some None"

definition known_date :: "int option option \<Rightarrow> int option" where
  "known_date t = (case t of None \<Rightarrow> None | Some t \<Rightarrow> t)"

fun text_value :: "json option \<Rightarrow> utext option" where
  "text_value (Some (JStr s)) = Some s"
| "text_value _ = None"

text \<open>A text column holds no zero character.\<close>

definition column_text :: "utext \<Rightarrow> bool" where
  "column_text s \<longleftrightarrow> 0 \<notin> set s"

definition installation_checks :: "installation_row \<Rightarrow> bool" where
  "installation_checks g \<longleftrightarrow> column_text (gi_githubInstallationId g) \<and> column_text (gi_accountId g) \<and>
     column_text (gi_accountLogin g) \<and> column_text (gi_repositorySelection g)"

definition written_row :: "installation_data \<Rightarrow> utext \<Rightarrow> utext \<Rightarrow> int \<Rightarrow> installation_row \<Rightarrow> installation_row" where
  "written_row data account_login selection now g = g\<lparr>gi_accountId := id_accountId data, gi_accountLogin := account_login,
     gi_accountType := id_accountType data, gi_repositorySelection := selection, gi_status := id_status data,
     gi_suspendedAt := known_date (id_suspendedAt data), gi_deletedAt := None,
     gi_githubCreatedAt := known_date (id_githubCreatedAt data),
     gi_githubUpdatedAt := known_date (id_githubUpdatedAt data), gi_updatedAt := now\<rparr>"

definition next_installation_id :: "db \<Rightarrow> int" where
  "next_installation_id d = 1 + fold max (map gi_id (installations d)) 0"

definition blank_installation :: "int \<Rightarrow> utext \<Rightarrow> int \<Rightarrow> installation_row" where
  "blank_installation i github_id now = \<lparr>gi_id = i, gi_githubInstallationId = github_id, gi_accountId = [],
     gi_accountLogin = [], gi_accountType = USER, gi_repositorySelection = [], gi_status = ACTIVE_INSTALLATION,
     gi_suspendedAt = None, gi_deletedAt = None, gi_githubCreatedAt = None, gi_githubUpdatedAt = None,
     gi_createdAt = now, gi_updatedAt = now\<rparr>"

definition find_installation :: "utext \<Rightarrow> db \<Rightarrow> installation_row option" where
  "find_installation i d = find (\<lambda>g. gi_githubInstallationId g = i) (installations d)"

text \<open>\<open>githubInstallation.upsert\<close> by the identifier of GitHub.\<close>

definition upsert_installation :: "utext \<Rightarrow> installation_data \<Rightarrow> installation_row stmt" where
  "upsert_installation github_id data now d =
     (case (text_value (id_accountLogin data), text_value (id_repositorySelection data)) of
        (Some account_login, Some selection) \<Rightarrow>
          if \<not> (given_date (id_suspendedAt data) \<and> given_date (id_githubCreatedAt data) \<and> given_date (id_githubUpdatedAt data))
          then Inl validation_error
          else (let f = written_row data account_login selection now in
            case find_installation github_id d of
              Some g \<Rightarrow>
                (case bulk_update installations put_installations installation_checks
                        (\<lambda>x. gi_githubInstallationId x = github_id) f d of
                   Inl e \<Rightarrow> Inl e | Inr (_, d') \<Rightarrow> Inr (f g, d'))
            | None \<Rightarrow> insert_row installations put_installations installation_checks
                (\<lambda>g x. gi_githubInstallationId g = gi_githubInstallationId x)
                (f (blank_installation (next_installation_id d) github_id now)) d)
      | _ \<Rightarrow> Inl validation_error)"

definition link_key :: "int \<Rightarrow> int \<Rightarrow> user_installation_row \<Rightarrow> bool" where
  "link_key u i l \<longleftrightarrow> ul_userId l = u \<and> ul_installationId l = i"

text \<open>
  \<open>userGithubInstallation.upsert\<close>: the source of a link that exists changes only in the callback.
\<close>

definition upsert_link :: "int \<Rightarrow> int \<Rightarrow> link_source \<Rightarrow> bool \<Rightarrow> int \<Rightarrow> int \<Rightarrow> unit stmt" where
  "upsert_link u i source changes verified created now d =
     (if list_ex (link_key u i) (user_installations d)
      then Inr ((), put_user_installations (update_where (link_key u i)
             (\<lambda>l. l\<lparr>ul_membershipVerifiedAt := verified, ul_source := if changes then source else ul_source l\<rparr>)
             (user_installations d)) d)
      else if find_user u d = None \<or> \<not> list_ex (\<lambda>g. gi_id g = i) (installations d)
      then Inl (PrismaError (PrismaClientKnownRequestError ''P2003''))
      else Inr ((), put_user_installations (user_installations d @
             [\<lparr>ul_userId = u, ul_installationId = i, ul_source = source, ul_membershipVerifiedAt = created,
               ul_linkedAt = now\<rparr>]) d))"

section \<open>Installing\<close>

definition install_purpose :: string where
  "install_purpose = ''github-app-install''"

definition invalid_installation_state :: err where
  "invalid_installation_state = HttpError BadRequestException ''Installation state is invalid or expired''"

definition create_install_state :: "string \<Rightarrow> int \<Rightarrow> int \<Rightarrow> install_state_row stmt" where
  "create_install_state i u expires now d =
     (if find_user u d = None then Inl (PrismaError (PrismaClientKnownRequestError ''P2003''))
      else insert_row install_states put_install_states (\<lambda>_. True) (\<lambda>s x. st_id s = st_id x)
        \<lparr>st_id = i, st_userId = u, st_expiresAt = expires, st_consumedAt = None, st_createdAt = now\<rparr> d)"

text \<open>A URL: the one it is made of, the path that replaces its own, the search parameters that are set.\<close>

record url =
  url_base :: string
  url_path :: "string option"
  url_params :: "(string \<times> utext) list"

definition createInstallUrl :: "env \<Rightarrow> jwt_service \<Rightarrow> github_app_config \<Rightarrow> int \<Rightarrow> url io" where
  "createInstallUrl env j cfg userId =
     bind (now_io env) (\<lambda>now.
     bind (uuid_io env) (\<lambda>i.
     bind (db_call env (create_install_state i userId (now + 10 * 60 * 1000))) (\<lambda>s.
     bind (external (jwt_sign j \<lparr>ck_sub = userId, ck_username = None, ck_jti = Some (st_id s), ck_purpose = Some install_purpose\<rparr>
       (10 * 60))) (\<lambda>state. ret \<lparr>url_base = gf_installUrl cfg, url_path = None, url_params = [(''state'', state)]\<rparr>))))"

definition verifyState :: "jwt_service \<Rightarrow> utext \<Rightarrow> (string \<times> int) io" where
  "verifyState j stateToken =
     catch (bind (external (jwt_verify j stateToken)) (\<lambda>p.
         case ck_jti p of
           Some i \<Rightarrow> if ck_purpose p \<noteq> Some install_purpose \<or> i = [] \<or> ck_sub p = 0
                     then throw (PlainError ''Invalid state payload'') else ret (i, ck_sub p)
         | None \<Rightarrow> throw (PlainError ''Invalid state payload'')))
       (\<lambda>_. throw invalid_installation_state)"

definition fetchInstallation :: "github_account \<Rightarrow> string \<Rightarrow> json io" where
  "fetchInstallation gh installationId =
     catch (external (gc_getInstallation gh (js_Number installationId)))
       (\<lambda>_. throw (HttpError BadRequestException ''GitHub installation could not be verified''))"

definition oauth_token_missing :: err where
  "oauth_token_missing = HttpError ForbiddenException ''GitHub OAuth token is missing''"

definition stored_token :: "user_row \<Rightarrow> string option" where
  "stored_token u = (case u_githubToken u of None \<Rightarrow> None | Some t \<Rightarrow> if t = [] then None else Some t)"

definition verifyUserAccess :: "gcm \<Rightarrow> github_account \<Rightarrow> user_row \<Rightarrow> json \<Rightarrow> unit io" where
  "verifyUserAccess c gh user installation =
     bind (of_result (requireAccount installation)) (\<lambda>account.
     if property ''type'' (Some account) = Some (JStr (units ''User''))
     then throw_unless (js_String (property ''id'' (Some account)) = units (u_githubId user))
       (HttpError ForbiddenException ''The installation does not belong to this GitHub user'')
     else (case stored_token user of
         None \<Rightarrow> throw oauth_token_missing
       | Some t \<Rightarrow>
           catch (bind (of_result (decrypt c t)) (\<lambda>token.
               external (gc_checkMembership gh token (property ''login'' (Some account)) (u_username user))))
             (\<lambda>_. throw (HttpError ForbiddenException ''The GitHub user is not a member of this organization''))))"

definition find_state :: "string \<Rightarrow> db \<Rightarrow> install_state_row option" where
  "find_state i d = find (\<lambda>s. st_id s = i) (install_states d)"

definition state_with_user :: "string \<Rightarrow> db \<Rightarrow> (install_state_row \<times> user_row) option" where
  "state_with_user i d = (case find_state i d of None \<Rightarrow> None
     | Some s \<Rightarrow> map_option (Pair s) (find_user (st_userId s) d))"

definition consume_state :: "string \<Rightarrow> int \<Rightarrow> unit stmt" where
  "consume_state i consumed now d =
     (case bulk_update install_states put_install_states (\<lambda>_. True) (\<lambda>s. st_id s = i)
             (\<lambda>s. s\<lparr>st_consumedAt := Some consumed\<rparr>) d of
        Inl e \<Rightarrow> Inl e
      | Inr (n, d') \<Rightarrow> if n = 0 then Inl (PrismaError (PrismaClientKnownRequestError ''P2025'')) else Inr ((), d'))"

text \<open>The transaction of the callback: the installation, the link, the state.\<close>

definition link_installation ::
  "(utext \<Rightarrow> int option) \<Rightarrow> string \<Rightarrow> json \<Rightarrow> int \<Rightarrow> string \<Rightarrow> env \<Rightarrow> unit io" where
  "link_installation other_date installationId installation userId state env =
     bind (of_result (toInstallationData other_date installation)) (\<lambda>data.
     bind (db_call env (upsert_installation (units installationId) data)) (\<lambda>saved.
     bind (now_io env) (\<lambda>verified.
     bind (now_io env) (\<lambda>created.
     andThen (db_call env (upsert_link userId (gi_id saved) INSTALL_CALLBACK True verified created))
     (bind (now_io env) (\<lambda>consumed. db_call env (consume_state state consumed)))))))"

definition repositories_page :: "github_app_config \<Rightarrow> string \<Rightarrow> string \<Rightarrow> url" where
  "repositories_page cfg status installationId = \<lparr>url_base = gf_frontendUrl cfg, url_path = Some ''/repositories'',
     url_params = [(''status'', units status), (''installation_id'', units installationId)]\<rparr>"

definition completeInstallationUpdate ::
  "env \<Rightarrow> (utext \<Rightarrow> int option) \<Rightarrow> github_account \<Rightarrow> github_app_config \<Rightarrow> string \<Rightarrow> url io" where
  "completeInstallationUpdate env other_date gh cfg installationId =
     bind (fetchInstallation gh installationId) (\<lambda>installation.
     bind (of_result (toInstallationData other_date installation)) (\<lambda>data.
     bind (db_call env (upsert_installation (units installationId) data)) (\<lambda>_.
     ret (repositories_page cfg ''updated'' installationId))))"

text \<open>The state of the callback, while it may still be used.\<close>

definition usable_state :: "env \<Rightarrow> string \<Rightarrow> int \<Rightarrow> (install_state_row \<times> user_row) io" where
  "usable_state env i userId =
     bind (db_call env (query (state_with_user i))) (\<lambda>found. case found of
       None \<Rightarrow> throw invalid_installation_state
     | Some (s, user) \<Rightarrow>
         if st_userId s \<noteq> userId \<or> st_consumedAt s \<noteq> None then throw invalid_installation_state
         else bind (now_io env) (\<lambda>now.
           if st_expiresAt s \<le> now then throw invalid_installation_state else ret (s, user)))"

definition completeInstallation ::
  "env \<Rightarrow> (utext \<Rightarrow> int option) \<Rightarrow> jwt_service \<Rightarrow> gcm \<Rightarrow> github_account \<Rightarrow> github_app_config \<Rightarrow> string \<Rightarrow> utext option \<Rightarrow> string option
     \<Rightarrow> url io" where
  "completeInstallation env other_date j c gh cfg installationId stateToken setupAction =
     (if stateToken = None \<or> stateToken = Some [] then
        (if setupAction \<noteq> Some ''update''
         then throw (HttpError BadRequestException ''Installation state is required for new installations'')
         else completeInstallationUpdate env other_date gh cfg installationId)
      else
        bind (verifyState j (the stateToken)) (\<lambda>(i, userId).
        bind (usable_state env i userId) (\<lambda>(s, user).
        bind (fetchInstallation gh installationId) (\<lambda>installation.
        andThen (verifyUserAccess c gh user installation)
        (bind (transaction env (link_installation other_date installationId installation (st_userId s) (st_id s))) (\<lambda>_.
        ret (repositories_page cfg ''installed'' installationId)))))))"

section \<open>The installations of a user\<close>

text \<open>All pages of a list, as long as a page has a hundred entries.\<close>

primrec all_pages :: "(nat \<Rightarrow> nat \<Rightarrow> err + 'a list) \<Rightarrow> nat \<Rightarrow> nat \<Rightarrow> 'a list \<Rightarrow> 'a list run" where
  "all_pages f 0 page acc = unfinished"
| "all_pages f (Suc n) page acc =
     rbind (run_io (external (f page))) (\<lambda>data.
     if length data < 100 then rdone (acc @ data) else all_pages f n (page + 1) (acc @ data))"

text \<open>An account without a login that is a text makes the comparison throw.\<close>

definition isAccessible :: "(utext \<Rightarrow> utext) \<Rightarrow> string \<Rightarrow> utext set \<Rightarrow> json \<Rightarrow> err + bool" where
  "isAccessible lower githubId organizationLogins installation =
     (let account = property ''account'' (Some installation) in
      if \<not> truthy account then Inr False
      else if property ''type'' account = Some (JStr (units ''User''))
      then Inr (js_String (property ''id'' account) = units githubId)
      else (case text_value (property ''login'' account) of
          None \<Rightarrow> Inl (PlainError ''account.login.toLowerCase is not a function'')
        | Some l \<Rightarrow> Inr (lower l \<in> organizationLogins)))"

definition save_installation :: "env \<Rightarrow> (utext \<Rightarrow> int option) \<Rightarrow> int \<Rightarrow> json \<Rightarrow> int io" where
  "save_installation env other_date userId installation =
     bind (of_result (toInstallationData other_date installation)) (\<lambda>data.
     bind (db_call env (upsert_installation (js_String (property ''id'' (Some installation))) data)) (\<lambda>saved.
     bind (now_io env) (\<lambda>verified.
     bind (now_io env) (\<lambda>created.
     andThen (db_call env (upsert_link userId (gi_id saved) AUTO_DISCOVERY False verified created))
     (ret (gi_id saved))))))"

primrec save_accessible ::
  "env \<Rightarrow> (utext \<Rightarrow> int option) \<Rightarrow> (utext \<Rightarrow> utext) \<Rightarrow> int \<Rightarrow> string \<Rightarrow> utext set \<Rightarrow> json list \<Rightarrow> int list \<Rightarrow> int list io" where
  "save_accessible env other_date lower userId githubId logins [] ids = ret ids"
| "save_accessible env other_date lower userId githubId logins (x # xs) ids =
     bind (of_result (isAccessible lower githubId logins x)) (\<lambda>ok.
     if \<not> ok then save_accessible env other_date lower userId githubId logins xs ids
     else bind (save_installation env other_date userId x) (\<lambda>i.
       save_accessible env other_date lower userId githubId logins xs (ids @ [i])))"

definition drop_links :: "int \<Rightarrow> int list \<Rightarrow> unit stmt" where
  "drop_links userId ids now d = Inr ((), put_user_installations
     (filter (\<lambda>l. \<not> (ul_userId l = userId \<and> ul_installationId l \<notin> set ids)) (user_installations d)) d)"

text \<open>What the user may use, given what GitHub listed: the links of everything else are dropped.\<close>

definition sync_links ::
  "env \<Rightarrow> (utext \<Rightarrow> int option) \<Rightarrow> (utext \<Rightarrow> utext) \<Rightarrow> user_row \<Rightarrow> utext list \<Rightarrow> json list \<Rightarrow> unit io" where
  "sync_links env other_date lower user organizations listed =
     bind (save_accessible env other_date lower (u_id user) (u_githubId user) (lower ` set organizations) listed [])
       (\<lambda>ids. db_call env (drop_links (u_id user) ids))"

definition syncUserInstallations ::
  "env \<Rightarrow> (utext \<Rightarrow> int option) \<Rightarrow> (utext \<Rightarrow> utext) \<Rightarrow> gcm \<Rightarrow> github_account \<Rightarrow> nat \<Rightarrow> int \<Rightarrow> unit run" where
  "syncUserInstallations env other_date lower c gh bound userId =
     rbind (run_io (db_call env (query (find_user userId)))) (\<lambda>found. case found of
       None \<Rightarrow> checked (Inl user_not_found)
     | Some user \<Rightarrow> (case stored_token user of
         None \<Rightarrow> checked (Inl oauth_token_missing)
       | Some t \<Rightarrow>
           rbind (checked (decrypt c t)) (\<lambda>token.
           rbind (all_pages (gc_listOrganizations gh token) bound 1 []) (\<lambda>organizations.
           rbind (all_pages (gc_listInstallations gh) bound 1 []) (\<lambda>listed.
           run_io (sync_links env other_date lower user organizations listed))))))"

definition links_of :: "int \<Rightarrow> (installation_status \<Rightarrow> bool) \<Rightarrow> db \<Rightarrow> (user_installation_row \<times> installation_row) list" where
  "links_of u p d = filter (\<lambda>(l, g). p (gi_status g))
     (concat (map (\<lambda>l. map (Pair l) (filter (\<lambda>g. gi_id g = ul_installationId l) (installations d)))
       (filter (\<lambda>l. ul_userId l = u) (user_installations d))))"

primrec insert_by :: "('a \<Rightarrow> 'a \<Rightarrow> bool) \<Rightarrow> 'a \<Rightarrow> 'a list \<Rightarrow> 'a list" where
  "insert_by le x [] = [x]"
| "insert_by le x (y # ys) = (if le x y then x # y # ys else y # insert_by le x ys)"

definition createSettingsUrl :: "utext \<Rightarrow> utext \<Rightarrow> account_type \<Rightarrow> utext" where
  "createSettingsUrl installationId accountLogin accountType =
     (if accountType = ORGANIZATION
      then units ''https://github.com/organizations/'' @ accountLogin @ units ''/settings/installations/'' @ installationId
      else units ''https://github.com/settings/installations/'' @ installationId)"

record installation_dto =
  dto_installation :: installation_row
  dto_settingsUrl :: utext
  dto_membershipVerifiedAt :: int

definition getInstallations ::
  "env \<Rightarrow> (utext \<Rightarrow> int option) \<Rightarrow> (utext \<Rightarrow> utext) \<Rightarrow> (utext \<Rightarrow> utext \<Rightarrow> bool) \<Rightarrow> gcm \<Rightarrow> github_account \<Rightarrow> nat \<Rightarrow> int
     \<Rightarrow> installation_dto list run" where
  "getInstallations env other_date lower collation c gh bound userId =
     rthen (syncUserInstallations env other_date lower c gh bound userId)
     (rbind (run_io (db_call env (query (links_of userId (\<lambda>s. s \<noteq> DELETED))))) (\<lambda>links.
      rdone (map (\<lambda>(l, g). \<lparr>dto_installation = g,
          dto_settingsUrl = createSettingsUrl (gi_githubInstallationId g) (gi_accountLogin g) (gi_accountType g),
          dto_membershipVerifiedAt = ul_membershipVerifiedAt l\<rparr>)
        (foldr (insert_by (\<lambda>x y. collation (gi_accountLogin (snd x)) (gi_accountLogin (snd y)))) links []))))"

record connection_status =
  cs_loggedIn :: bool
  cs_githubAppInstalled :: bool
  cs_requiresInstallation :: bool
  cs_requiresOAuthReauthorization :: bool
  cs_activeInstallationCount :: nat
  cs_installUrlEndpoint :: string

definition getConnectionStatus :: "env \<Rightarrow> int \<Rightarrow> connection_status io" where
  "getConnectionStatus env userId =
     bind (db_call env (query (\<lambda>d. map_option (\<lambda>u. (u, length (links_of userId (\<lambda>s. s = ACTIVE_INSTALLATION) d)))
       (find_user userId d)))) (\<lambda>found. case found of
       None \<Rightarrow> throw user_not_found
     | Some (user, n) \<Rightarrow> ret \<lparr>cs_loggedIn = True, cs_githubAppInstalled = 0 < n, cs_requiresInstallation = (n = 0),
         cs_requiresOAuthReauthorization = (stored_token user = None), cs_activeInstallationCount = n,
         cs_installUrlEndpoint = ''/github-app/installations/install-url''\<rparr>)"

end
