(* ===== verification/Reports.thy ===== *)
theory Reports
  imports GithubApp LlmProvider Ledger
begin

text \<open>
  The reports of a user: \<open>AnalysisService\<close> of \<open>src/src/analysis/analysis.service.ts\<close> and the
  handlers of \<open>analysis.controller.ts\<close> and \<open>public-analysis.controller.ts\<close>. The database leaves the
  order of rows with the same time, and of rows without an order, to itself; here it is that of
  the table.
\<close>

section \<open>Queries\<close>

type_synonym report_view = "report_row \<times> repository_row option"

definition with_repository :: "db \<Rightarrow> report_row \<Rightarrow> report_view" where
  "with_repository d p = (p, find_repository (p_repositoryId p) d)"

definition newest_first :: "report_row list \<Rightarrow> report_row list" where
  "newest_first = sort_key (\<lambda>p. - p_syncTime p)"

definition reports_where :: "(report_row \<Rightarrow> bool) \<Rightarrow> db \<Rightarrow> report_view list" where
  "reports_where c d = map (with_repository d) (newest_first (filter c (reports d)))"

definition getUserStats :: "env \<Rightarrow> int \<Rightarrow> stat_row option io" where
  "getUserStats env userId = db_call env (query (\<lambda>d. find (\<lambda>s. s_userId s = userId) (stats d)))"

definition getReports :: "env \<Rightarrow> int \<Rightarrow> bool option \<Rightarrow> report_view list io" where
  "getReports env userId isShared = db_call env (query (reports_where (\<lambda>p. p_userId p = userId \<and>
     (case isShared of None \<Rightarrow> True | Some s \<Rightarrow> p_isShared p = s))))"

definition getReportsByRepository :: "env \<Rightarrow> int \<Rightarrow> int \<Rightarrow> report_view list io" where
  "getReportsByRepository env userId repositoryId =
     db_call env (query (reports_where (\<lambda>p. p_userId p = userId \<and> p_repositoryId p = repositoryId)))"

definition owned_report :: "int \<Rightarrow> int \<Rightarrow> db \<Rightarrow> report_row option" where
  "owned_report i userId d = find (\<lambda>p. p_id p = i \<and> p_userId p = userId) (reports d)"

definition getReportById :: "env \<Rightarrow> int \<Rightarrow> int \<Rightarrow> report_view option io" where
  "getReportById env i userId = db_call env (query (\<lambda>d. map_option (with_repository d) (owned_report i userId d)))"

text \<open>The first of the rows with the same value, as \<open>distinct\<close> keeps them.\<close>

primrec first_values :: "'a list \<Rightarrow> 'a list \<Rightarrow> 'a list" where
  "first_values seen [] = []"
| "first_values seen (x # xs) = (if x \<in> set seen then first_values seen xs else x # first_values (x # seen) xs)"

definition latest_report :: "int \<Rightarrow> int \<Rightarrow> db \<Rightarrow> report_view option" where
  "latest_report userId repositoryId d =
     (case reports_where (\<lambda>p. p_userId p = userId \<and> p_repositoryId p = repositoryId) d of [] \<Rightarrow> None | p # _ \<Rightarrow> Some p)"

primrec latest_reports :: "env \<Rightarrow> int \<Rightarrow> int list \<Rightarrow> report_view option list io" where
  "latest_reports env userId [] = ret []"
| "latest_reports env userId (i # is) =
     bind (db_call env (query (latest_report userId i))) (\<lambda>p.
     bind (latest_reports env userId is) (\<lambda>ps. ret (p # ps)))"

definition getAnalyzedRepositories :: "env \<Rightarrow> int \<Rightarrow> report_view option list io" where
  "getAnalyzedRepositories env userId =
     bind (db_call env (query (\<lambda>d. first_values [] (map p_repositoryId (filter (\<lambda>p. p_userId p = userId) (reports d))))))
       (\<lambda>is. if is = [] then ret [] else latest_reports env userId is)"

section \<open>The representative report and sharing\<close>

definition not_owned :: "int \<Rightarrow> int \<Rightarrow> err" where
  "not_owned reportId userId = PlainError (''Report with ID '' @ js_string_of_int reportId @
     '' not found or not owned by User '' @ js_string_of_int userId)"

text \<open>A report represents one user at most, and it must exist.\<close>

definition represent :: "int \<Rightarrow> int \<Rightarrow> unit stmt" where
  "represent userId reportId now d =
     (if list_ex (\<lambda>u. u_id u \<noteq> userId \<and> u_representativeReportId u = Some reportId) (users d)
      then Inl (PrismaError (PrismaClientKnownRequestError ''P2002''))
      else if \<not> list_ex (\<lambda>p. p_id p = reportId) (reports d)
      then Inl (PrismaError (PrismaClientKnownRequestError ''P2003''))
      else update_user userId (\<lambda>u. u\<lparr>u_representativeReportId := Some reportId\<rparr>) now d)"

definition setRepresentative :: "env \<Rightarrow> int \<Rightarrow> int \<Rightarrow> unit io" where
  "setRepresentative env userId reportId =
     bind (db_call env (query (owned_report reportId userId))) (\<lambda>found. case found of
       None \<Rightarrow> throw (not_owned reportId userId)
     | Some _ \<Rightarrow> db_call env (represent userId reportId))"

definition share_report :: "int \<Rightarrow> bool option \<Rightarrow> unit stmt" where
  "share_report reportId isShared now d =
     (case bulk_update reports put_reports (\<lambda>_. True) (\<lambda>p. p_id p = reportId)
             (\<lambda>p. case isShared of None \<Rightarrow> p | Some s \<Rightarrow> p\<lparr>p_isShared := s\<rparr>) d of
        Inl e \<Rightarrow> Inl e
      | Inr (n, d') \<Rightarrow> if n = 0 then Inl (PrismaError (PrismaClientKnownRequestError ''P2025'')) else Inr ((), d'))"

text \<open>The body's flag is not validated: one that is missing changes nothing, another type is refused.\<close>

definition shared_flag :: "json option \<Rightarrow> err + bool option" where
  "shared_flag v = (case v of None \<Rightarrow> Inr None | Some (JBool b) \<Rightarrow> Inr (Some b) | _ \<Rightarrow> Inl validation_error)"

definition toggleSharing :: "env \<Rightarrow> int \<Rightarrow> int \<Rightarrow> json option \<Rightarrow> unit io" where
  "toggleSharing env userId reportId isShared =
     bind (db_call env (query (owned_report reportId userId))) (\<lambda>found. case found of
       None \<Rightarrow> throw (not_owned reportId userId)
     | Some _ \<Rightarrow> bind (of_result (shared_flag isShared)) (\<lambda>s. db_call env (share_report reportId s)))"

section \<open>Public reports\<close>

definition representative :: "db \<Rightarrow> user_row \<Rightarrow> report_row option" where
  "representative d u = (case u_representativeReportId u of None \<Rightarrow> None | Some i \<Rightarrow> find (\<lambda>p. p_id p = i) (reports d))"

definition shared_representative :: "db \<Rightarrow> user_row \<Rightarrow> report_row option" where
  "shared_representative d u = (case representative d u of None \<Rightarrow> None | Some p \<Rightarrow> if p_isShared p then Some p else None)"

definition getPublicReport :: "env \<Rightarrow> string \<Rightarrow> report_view option io" where
  "getPublicReport env username = db_call env (query (\<lambda>d.
     case find (\<lambda>u. u_username u = username) (users d) of
       None \<Rightarrow> None | Some u \<Rightarrow> map_option (with_repository d) (shared_representative d u)))"

definition public_entries :: "db \<Rightarrow> (user_row \<times> report_row) list" where
  "public_entries d = List.map_filter (\<lambda>u. map_option (Pair u) (shared_representative d u)) (users d)"

definition getAllPublicReports :: "env \<Rightarrow> (int \<times> string \<times> string option \<times> report_view) list io" where
  "getAllPublicReports env = db_call env (query (\<lambda>d.
     map (\<lambda>(u, p). (u_id u, u_username u, u_avatarUrl u, with_repository d p))
       (sort_key (\<lambda>(u, p). - p_syncTime p) (public_entries d))))"

section \<open>Handlers\<close>

text \<open>\<open>Number(id)\<close>, as the database client takes it.\<close>

definition report_number :: "string \<Rightarrow> err + int" where
  "report_number i = (case integer_of (js_Number i) of
     Some n \<Rightarrow> if int4 n then Inr n else Inl validation_error | None \<Rightarrow> Inl validation_error)"

definition shared_parameter :: "string option \<Rightarrow> bool option" where
  "shared_parameter s = (if s = Some ''true'' then Some True else if s = Some ''false'' then Some False else None)"

definition get_reports :: "env \<Rightarrow> int \<Rightarrow> string option \<Rightarrow> report_view list io" where
  "get_reports env userId s = getReports env userId (shared_parameter s)"

definition get_report :: "env \<Rightarrow> int \<Rightarrow> string \<Rightarrow> report_view io" where
  "get_report env userId i =
     bind (of_result (report_number i)) (\<lambda>n.
     bind (getReportById env n userId) (\<lambda>r. case r of
       None \<Rightarrow> throw (HttpError NotFoundException (''Report with ID '' @ i @ '' not found'')) | Some p \<Rightarrow> ret p))"

datatype analysis_status = Processing int | Completed int int report_view

definition get_status :: "env \<Rightarrow> int \<Rightarrow> string \<Rightarrow> analysis_status io" where
  "get_status env userId i =
     bind (of_result (report_number i)) (\<lambda>n.
     bind (getReportById env n userId) (\<lambda>r. case r of
       None \<Rightarrow> ret (Processing 50) | Some p \<Rightarrow> ret (Completed (p_id (fst p)) 100 p)))"

definition get_repo_history :: "env \<Rightarrow> int \<Rightarrow> string \<Rightarrow> report_view list io" where
  "get_repo_history env userId i = bind (of_result (report_number i)) (getReportsByRepository env userId)"

definition patch_representative :: "env \<Rightarrow> int \<Rightarrow> string \<Rightarrow> unit io" where
  "patch_representative env userId i = bind (of_result (report_number i)) (setRepresentative env userId)"

definition patch_share :: "env \<Rightarrow> int \<Rightarrow> string \<Rightarrow> json option \<Rightarrow> unit io" where
  "patch_share env userId i isShared = bind (of_result (report_number i)) (\<lambda>n. toggleSharing env userId n isShared)"

definition get_public_report :: "env \<Rightarrow> string \<Rightarrow> report_view io" where
  "get_public_report env username =
     bind (getPublicReport env username) (\<lambda>r. case r of
       None \<Rightarrow> throw (HttpError NotFoundException (''Shared representative report for user '' @ username @ '' not found''))
     | Some p \<Rightarrow> ret p)"

section \<open>Estimates\<close>

definition estimateTokens :: "llm_environment \<Rightarrow> collected_data \<Rightarrow> err + (nat \<times> int)" where
  "estimateTokens le data =
     (let refined = refine data; prCount = length (cd_pullRequests refined) in
      if prCount = 0 then Inr (0, 0)
      else and_then (estimateTokensForData le (preprocess refined) CURRENT_ANALYSIS_EXECUTION_VERSION) (\<lambda>n. Inr (prCount, n)))"

end
