(* ===== verification/CollectionService.thy ===== *)
theory CollectionService
  imports Reports Collection Runner
begin

text \<open>
  The synchronous requests on repositories: \<open>src/src/collection/collection.service.ts\<close>. They collect
  with the token of an installation, run the analysis in the request, and list what the user may
  use; the bounds are those of the loops over pages.
\<close>

definition find_github_repository :: "string \<Rightarrow> db \<Rightarrow> repository_row option" where
  "find_github_repository i d = find (\<lambda>r. r_githubRepoId r = i) (repositories d)"

definition repository_with_owner :: "string \<Rightarrow> db \<Rightarrow> (repository_row \<times> user_row) option" where
  "repository_with_owner i d = (case find_github_repository i d of None \<Rightarrow> None
     | Some r \<Rightarrow> map_option (Pair r) (find_user (r_ownerId r) d))"

text \<open>The repository of the caller, with its owner; the message differs between the requests.\<close>

definition own_repository :: "env \<Rightarrow> string \<Rightarrow> int \<Rightarrow> string \<Rightarrow> (repository_row \<times> user_row) run" where
  "own_repository env githubRepoId userId refusal =
     rbind (run_io (db_call env (query (repository_with_owner githubRepoId)))) (\<lambda>found. case found of
       None \<Rightarrow> checked (Inl (HttpError NotFoundException (''Repository with ID '' @ githubRepoId @ '' not found'')))
     | Some (r, owner) \<Rightarrow> checked (if r_ownerId r \<noteq> userId then Inl (HttpError ForbiddenException refusal) else Inr (r, owner)))"

definition collect_request :: "int \<Rightarrow> string \<Rightarrow> repository_row \<Rightarrow> user_row \<Rightarrow> int \<Rightarrow> collect_input" where
  "collect_request userId githubRepoId r owner cutoff = \<lparr>co_userId = userId, co_githubRepoId = githubRepoId,
     co_fullName = r_fullName r, co_targetUser = u_username owner, co_sourceCursor = r_lastSyncTime r,
     co_collectionCutoff = cutoff\<rparr>"

text \<open>What is committed with the report: the time of the last synchronisation only grows.\<close>

definition mark_synced :: "string \<Rightarrow> int \<Rightarrow> completion_action" where
  "mark_synced githubRepoId syncStartedAt tx =
     bind (db_call tx (update_repositories
       (\<lambda>r. r_githubRepoId r = githubRepoId \<and> (case r_lastSyncTime r of None \<Rightarrow> True | Some t \<Rightarrow> t < syncStartedAt))
       (\<lambda>r. r\<lparr>r_lastSyncTime := Some syncStartedAt\<rparr>))) (\<lambda>_. ret ())"

definition active_job_exists :: err where
  "active_job_exists = HttpError ConflictException ''An active analysis job already exists for this repository.''"

definition syncRepository ::
  "env \<Rightarrow> (utext \<Rightarrow> int option) \<Rightarrow> github \<Rightarrow> nat \<Rightarrow> (string \<Rightarrow> string) \<Rightarrow> llm_provider \<Rightarrow> string \<Rightarrow> int \<Rightarrow> collected_data run" where
  "syncRepository env other_date gh bound sha256 provider githubRepoId userId =
     rbind (own_repository env githubRepoId userId ''You do not have permission to sync this repository'') (\<lambda>(r, owner).
     rbind (run_io (now_io env)) (\<lambda>syncStartedAt.
     rbind (collect env other_date gh bound (collect_request userId githubRepoId r owner syncStartedAt) ret) (\<lambda>data.
     rbind (rattempt (run_io (runAnalysis sha256 provider env userId (r_id r) data (mark_synced githubRepoId syncStartedAt))))
       (\<lambda>out. case out of
          Inl (ActiveAnalysisJobExistsError _) \<Rightarrow> checked (Inl active_job_exists)
        | Inl e \<Rightarrow> checked (Inl e)
        | Inr _ \<Rightarrow> rdone data))))"

definition estimateCost ::
  "env \<Rightarrow> (utext \<Rightarrow> int option) \<Rightarrow> github \<Rightarrow> nat \<Rightarrow> llm_environment \<Rightarrow> string \<Rightarrow> int \<Rightarrow> (nat \<times> int) run" where
  "estimateCost env other_date gh bound le githubRepoId userId =
     rbind (own_repository env githubRepoId userId ''You do not have permission to access this repository'') (\<lambda>(r, owner).
     rbind (run_io (now_io env)) (\<lambda>cutoff.
     rbind (collect env other_date gh bound (collect_request userId githubRepoId r owner cutoff) ret) (\<lambda>data.
     if cd_pullRequests data = [] then rdone (0, 0) else checked (estimateTokens le data))))"

section \<open>The list of repositories\<close>

definition next_repository_id :: "db \<Rightarrow> int" where
  "next_repository_id d = 1 + fold max (map r_id (repositories d)) 0"

text \<open>Whoever lists a repository becomes its owner.\<close>

definition upsert_repository :: "string \<Rightarrow> string \<Rightarrow> int \<Rightarrow> unit stmt" where
  "upsert_repository githubRepoId fullName userId now d =
     (if find_user userId d = None then Inl (PrismaError (PrismaClientKnownRequestError ''P2003''))
      else if list_ex (\<lambda>r. r_githubRepoId r = githubRepoId) (repositories d)
      then Inr ((), put_repositories (update_where (\<lambda>r. r_githubRepoId r = githubRepoId)
             (\<lambda>r. r\<lparr>r_fullName := fullName, r_ownerId := userId\<rparr>) (repositories d)) d)
      else Inr ((), put_repositories (repositories d @
             [\<lparr>r_id = next_repository_id d, r_githubRepoId = githubRepoId, r_fullName = fullName, r_isOptedIn = False,
               r_lastSyncTime = None, r_ownerId = userId\<rparr>]) d))"

text \<open>\<open>Promise.all\<close> over the upserts, here one after the other.\<close>

definition save_repositories :: "env \<Rightarrow> int \<Rightarrow> installation_repository list \<Rightarrow> unit io" where
  "save_repositories env userId repos =
     for_each repos (\<lambda>r. db_call env (upsert_repository (js_string_of_int (ir_id r)) (ir_fullName r) userId))"

definition listed_repositories :: "(string \<Rightarrow> string \<Rightarrow> bool) \<Rightarrow> int \<Rightarrow> string list \<Rightarrow> db \<Rightarrow> repository_row list" where
  "listed_repositories collation userId ids d =
     foldr (insert_by (\<lambda>x y. collation (r_fullName x) (r_fullName y)))
       (filter (\<lambda>r. r_ownerId r = userId \<and> r_githubRepoId r \<in> set ids) (repositories d)) []"

definition getRepositories ::
  "env \<Rightarrow> (utext \<Rightarrow> int option) \<Rightarrow> (utext \<Rightarrow> utext) \<Rightarrow> (utext \<Rightarrow> utext \<Rightarrow> bool) \<Rightarrow> (string \<Rightarrow> string \<Rightarrow> bool) \<Rightarrow>
     gcm \<Rightarrow> github_account \<Rightarrow> github_app \<Rightarrow> nat \<Rightarrow> int \<Rightarrow> repository_row list run" where
  "getRepositories env other_date lower collation name_order c account app bound userId =
     rbind (run_io (db_call env (query (find_user userId)))) (\<lambda>found.
     if found = None then checked (Inl (HttpError ForbiddenException ''User not found''))
     else rbind (getInstallations env other_date lower collation c account bound userId) (\<lambda>_.
       rbind (getAvailableRepos env other_date app bound userId) (\<lambda>repos.
       rthen (run_io (save_repositories env userId repos))
       (run_io (db_call env (query (listed_repositories name_order userId (map (\<lambda>r. js_string_of_int (ir_id r)) repos))))))))"

end
