(* ===== verification/GithubWebhook.thy ===== *)
theory GithubWebhook
  imports GithubApp
begin

text \<open>
  The webhook of the GitHub App: \<open>src/src/github-app/github-app-webhook.service.ts\<close>. A delivery
  is the bytes of the body and two headers; \<open>hmac\<close> is the digest under the webhook's secret.
\<close>

definition expected_signature :: "(nat list \<Rightarrow> nat list) \<Rightarrow> nat list \<Rightarrow> utext" where
  "expected_signature hmac rawBody = units ''sha256='' @ to_hex (hmac rawBody)"

text \<open>The comparison is of the bytes, after their lengths.\<close>

definition verifySignature :: "(nat list \<Rightarrow> nat list) \<Rightarrow> nat list \<Rightarrow> utext \<Rightarrow> err + unit" where
  "verifySignature hmac rawBody signature =
     (let actual = utf8_encode signature; wanted = utf8_encode (expected_signature hmac rawBody) in
      if length actual \<noteq> length wanted \<or> actual \<noteq> wanted
      then Inl (HttpError UnauthorizedException ''Invalid GitHub webhook signature'') else Inr ())"

definition parsePayload :: "nat list \<Rightarrow> err + json" where
  "parsePayload rawBody = (case JSON_parse (utf8_decode rawBody) of
       None \<Rightarrow> Inl (HttpError BadRequestException ''Invalid GitHub webhook payload'')
     | Some parsed \<Rightarrow>
         if truthy (property ''action'' (Some parsed)) \<and> truthy (property ''id'' (property ''installation'' (Some parsed)))
         then Inr parsed else Inl (HttpError BadRequestException ''Invalid GitHub webhook payload''))"

definition payload_installation :: "json \<Rightarrow> json" where
  "payload_installation payload = option_or (property ''installation'' (Some payload)) JNull"

definition installation_id :: "json \<Rightarrow> utext" where
  "installation_id installation = js_String (property ''id'' (Some installation))"

definition update_installations ::
  "(installation_row \<Rightarrow> bool) \<Rightarrow> (installation_row \<Rightarrow> installation_row) \<Rightarrow> nat stmt" where
  "update_installations p f now =
     bulk_update installations put_installations installation_checks p (\<lambda>g. (f g)\<lparr>gi_updatedAt := now\<rparr>)"

definition upsertInstallation :: "env \<Rightarrow> (utext \<Rightarrow> int option) \<Rightarrow> json \<Rightarrow> unit io" where
  "upsertInstallation env other_date installation =
     bind (of_result (toInstallationData other_date installation)) (\<lambda>data.
     bind (db_call env (upsert_installation (installation_id installation) data)) (\<lambda>_. ret ()))"

definition marked_deleted :: "int \<Rightarrow> installation_row \<Rightarrow> installation_row" where
  "marked_deleted t g = g\<lparr>gi_status := DELETED, gi_deletedAt := Some t, gi_suspendedAt := None\<rparr>"

definition marked_suspended :: "int \<Rightarrow> installation_row \<Rightarrow> installation_row" where
  "marked_suspended t g = g\<lparr>gi_status := SUSPENDED, gi_suspendedAt := Some t\<rparr>"

definition handleInstallation :: "env \<Rightarrow> (utext \<Rightarrow> int option) \<Rightarrow> json \<Rightarrow> unit io" where
  "handleInstallation env other_date payload =
     (let installation = payload_installation payload; action = property ''action'' (Some payload);
          this = (\<lambda>g. gi_githubInstallationId g = installation_id installation) in
      if action = Some (JStr (units ''deleted''))
      then bind (now_io env) (\<lambda>now. bind (db_call env (update_installations this (marked_deleted now))) (\<lambda>_. ret ()))
      else if action = Some (JStr (units ''suspend''))
      then (case toDate other_date (property ''suspended_at'' (Some installation)) of
          Some None \<Rightarrow> throw validation_error
        | Some (Some t) \<Rightarrow> bind (db_call env (update_installations this (marked_suspended t))) (\<lambda>_. ret ())
        | None \<Rightarrow> bind (now_io env) (\<lambda>now.
            bind (db_call env (update_installations this (marked_suspended now))) (\<lambda>_. ret ())))
      else upsertInstallation env other_date installation)"

definition handle ::
  "env \<Rightarrow> (utext \<Rightarrow> int option) \<Rightarrow> (nat list \<Rightarrow> nat list) \<Rightarrow> nat list option \<Rightarrow> utext option \<Rightarrow> string option \<Rightarrow> unit io" where
  "handle env other_date hmac rawBody signature event =
     (if rawBody = None \<or> signature = None \<or> signature = Some [] \<or> event = None \<or> event = Some []
      then throw (HttpError BadRequestException ''Missing GitHub webhook headers or body'')
      else andThen (of_result (verifySignature hmac (the rawBody) (the signature)))
        (if event = Some ''ping'' then ret ()
         else if event \<notin> {Some ''installation'', Some ''installation_repositories'', Some ''installation_target''}
         then ret ()
         else bind (of_result (parsePayload (the rawBody))) (\<lambda>payload.
           if event = Some ''installation'' then handleInstallation env other_date payload
           else upsertInstallation env other_date (payload_installation payload))))"

end
