(* ===== verification/GithubAppProperties.thy ===== *)
theory GithubAppProperties
  imports GithubWebhook RunRules
begin

text \<open>
  What the installations and their links obey: their keys, the guarantee of the ledger, who gets a
  link, and what a webhook may change.
\<close>

section \<open>Keys\<close>

definition idents :: "db \<Rightarrow> (int \<times> utext) list" where
  "idents d = map (\<lambda>g. (gi_id g, gi_githubInstallationId g)) (installations d)"

definition link_keys :: "db \<Rightarrow> (int \<times> int) list" where
  "link_keys d = map (\<lambda>l. (ul_userId l, ul_installationId l)) (user_installations d)"

text \<open>The keys of the tables, and the references of the links.\<close>

definition installations_inv :: "db \<Rightarrow> bool" where
  "installations_inv d \<longleftrightarrow> distinct (map fst (idents d)) \<and> distinct (map snd (idents d)) \<and> distinct (link_keys d) \<and>
     (\<forall>(u, i) \<in> set (link_keys d). u \<in> u_id ` set (users d) \<and> i \<in> fst ` set (idents d))"

text \<open>The tables of the ledger are as they were.\<close>

definition same_ledger :: "db \<Rightarrow> db \<Rightarrow> bool" where
  "same_ledger d d' \<longleftrightarrow> users d' = users d \<and> repositories d' = repositories d \<and> reports d' = reports d \<and>
     stats d' = stats d \<and> jobs d' = jobs d"

lemma same_ledger_puts [simp]:
  "same_ledger d (put_installations xs d)" "same_ledger d (put_user_installations ys d)"
  "same_ledger d (put_install_states zs d)" "same_ledger d d"
  by (simp_all add: same_ledger_def)

lemma same_ledger_evolves: "same_ledger d d' \<Longrightarrow> evolves d d'"
  by (rule evolvesI)
    (auto simp: same_ledger_def ledger_inv_def jobs_inv_def reports_match_def wealth_def available_def charged_def
      rows_evolve_def intro: job_evolves_refl)

lemma fold_max_above: "x \<in> set xs \<Longrightarrow> x \<le> fold max xs (k :: int)"
proof (induction xs arbitrary: k)
  case (Cons y ys)
  have "k \<le> fold max ys k" for k :: int
  proof (induction ys arbitrary: k)
    case (Cons z zs)
    have "max z k \<le> fold max zs (max z k)" by (rule Cons)
    then show ?case by simp
  qed simp
  from this [of "max y k"] Cons show ?case by (cases "x = y") auto
qed simp

lemma fresh_installation_id: "next_installation_id d \<notin> gi_id ` set (installations d)"
  using fold_max_above [of _ "map gi_id (installations d)" 0] by (fastforce simp: next_installation_id_def)

section \<open>Statements\<close>

lemma find_installation_Some:
  "find_installation i d = Some g \<Longrightarrow> g \<in> set (installations d) \<and> gi_githubInstallationId g = i"
  by (auto simp: find_installation_def dest: find_SomeD)

lemma find_installation_None: "find_installation i d = None \<longleftrightarrow> i \<notin> snd ` set (idents d)"
  by (force simp: find_installation_def idents_def find_None_iff)

lemma written_row_key [simp]:
  "gi_id (written_row data l s now g) = gi_id g"
  "gi_githubInstallationId (written_row data l s now g) = gi_githubInstallationId g"
  by (simp_all add: written_row_def)

lemma upsert_installation_Inr:
  assumes "upsert_installation i data now d = Inr (g, d')"
  shows "(idents d' = idents d \<or> i \<notin> snd ` set (idents d) \<and> gi_id g \<notin> fst ` set (idents d) \<and> idents d' = idents d @ [(gi_id g, i)]) \<and>
    (gi_id g, i) \<in> set (idents d') \<and> g \<in> set (installations d') \<and> gi_githubInstallationId g = i \<and>
    gi_status g = id_status data \<and> user_installations d' = user_installations d \<and>
    install_states d' = install_states d \<and> same_ledger d d'"
proof -
  obtain l s where row: "text_value (id_accountLogin data) = Some l" "text_value (id_repositorySelection data) = Some s"
    using assms by (auto simp: upsert_installation_def split: option.splits)
  let ?f = "written_row data l s now"
  show ?thesis
  proof (cases "find_installation i d")
    case None
    let ?g = "?f (blank_installation (next_installation_id d) i now)"
    have "g = ?g" "d' = put_installations (installations d @ [?g]) d"
      using assms row None by (auto simp: upsert_installation_def Let_def installations_table.insert_row_Inr split: if_splits)
    moreover have "i \<notin> snd ` set (idents d)" using None find_installation_None by blast
    ultimately show ?thesis
      using fresh_installation_id [of d]
      by (auto simp: idents_def blank_installation_def written_row_def image_iff)
  next
    case (Some g0)
    have g: "g = ?f g0" and d': "d' = put_installations (update_where (\<lambda>x. gi_githubInstallationId x = i) ?f (installations d)) d"
      using assms row Some
      by (auto simp: upsert_installation_def Let_def installations_table.bulk_update_Inr split: if_splits sum.splits)
    note g0 = find_installation_Some [OF Some]
    have "idents d' = idents d" by (simp add: idents_def d' update_where_def comp_def if_distrib cong: if_cong)
    moreover have "g \<in> set (installations d')" using g0 by (auto simp: d' g update_where_def)
    ultimately show ?thesis
      using g g0 d' by (force simp: idents_def written_row_def)
  qed
qed

lemma upsert_link_Inr:
  assumes "upsert_link u i source changes v c now d = Inr (x, d')"
  shows "(link_keys d' = link_keys d \<and> (u, i) \<in> set (link_keys d) \<or>
      (u, i) \<notin> set (link_keys d) \<and> u \<in> u_id ` set (users d) \<and> i \<in> fst ` set (idents d) \<and> link_keys d' = link_keys d @ [(u, i)]) \<and>
    installations d' = installations d \<and> install_states d' = install_states d \<and> same_ledger d d'"
proof (cases "list_ex (link_key u i) (user_installations d)")
  case True
  then have "(u, i) \<in> set (link_keys d)" by (auto simp: link_keys_def list_ex_iff link_key_def)
  moreover have "link_keys d' = link_keys d"
    using assms True by (auto simp: upsert_link_def link_keys_def update_where_def link_key_def)
  ultimately show ?thesis using assms True by (auto simp: upsert_link_def)
next
  case False
  then have "(u, i) \<notin> set (link_keys d)" by (auto simp: link_keys_def list_ex_iff link_key_def)
  then show ?thesis
    using assms False
    by (auto simp: upsert_link_def link_keys_def idents_def list_ex_iff image_iff find_user_SomeD split: if_splits
        dest!: find_user_SomeD)
qed

lemma consume_state_Inr:
  "consume_state i t now d = Inr (x, d') \<Longrightarrow>
     i \<in> st_id ` set (install_states d) \<and>
     d' = put_install_states (update_where (\<lambda>s. st_id s = i) (\<lambda>s. s\<lparr>st_consumedAt := Some t\<rparr>) (install_states d)) d"
  by (auto simp: consume_state_def install_states_table.bulk_update_Inr count_where_0_iff split: sum.splits if_splits)

text \<open>The keys stay keys.\<close>

lemma installations_inv_upsert:
  assumes "upsert_installation i data now d = Inr (g, d')" "installations_inv d"
  shows "installations_inv d'"
proof -
  note u = upsert_installation_Inr [OF assms(1)]
  then have same: "link_keys d' = link_keys d" "users d' = users d" by (simp_all add: link_keys_def same_ledger_def)
  from u consider "idents d' = idents d"
    | "i \<notin> snd ` set (idents d)" "gi_id g \<notin> fst ` set (idents d)" "idents d' = idents d @ [(gi_id g, i)]"
    by blast
  then show ?thesis using assms(2) same by cases (auto simp: installations_inv_def)
qed

lemma installations_inv_link:
  assumes "upsert_link u i source changes v c now d = Inr (x, d')" "installations_inv d"
  shows "installations_inv d'"
proof -
  note l = upsert_link_Inr [OF assms(1)]
  then have same: "idents d' = idents d" "users d' = users d" by (simp_all add: idents_def same_ledger_def)
  from l consider "link_keys d' = link_keys d"
    | "(u, i) \<notin> set (link_keys d)" "u \<in> u_id ` set (users d)" "i \<in> fst ` set (idents d)" "link_keys d' = link_keys d @ [(u, i)]"
    by blast
  then show ?thesis using assms(2) same by cases (simp_all add: installations_inv_def)
qed

section \<open>The guarantee of the ledger\<close>

lemma installation_stmt_guar:
  "stmt_guar evolves (upsert_installation i data)" "stmt_guar evolves (upsert_link u k source changes v c)"
  "stmt_guar evolves (consume_state s t)" "stmt_guar evolves (drop_links u ks)"
  "stmt_guar evolves (create_install_state s u t)" "stmt_guar evolves (update_installations p f)"
  unfolding stmt_guar_def
  by (auto dest!: upsert_installation_Inr upsert_link_Inr consume_state_Inr intro: same_ledger_evolves
      simp: drop_links_def create_install_state_def update_installations_def installations_table.bulk_update_Inr
        install_states_table.insert_row_Inr split: if_splits)

lemmas install_guar = ledger.guar_catch ledger.guar_bind ledger.guar_andThen ledger.guar_external ledger.guar_throw
  ledger.guar_ret ledger.guar_now ledger.guar_uuid ledger.guar_of_result ledger.guar_throw_unless ledger.guar_db_call
  ledger.stmt_guar_query installation_stmt_guar

lemma link_installation_guar: "rely evolves env \<Longrightarrow> guar evolves (link_installation od i x u s env)"
  unfolding link_installation_def by (intro install_guar) assumption+

lemma completeInstallation_guar:
  assumes "rely evolves env"
  shows "guar evolves (completeInstallation env od j c gh cfg i token action)"
proof -
  have "body_guar evolves (link_installation od i x u s)" for x u s
    using link_installation_guar [OF ledger.rely_quiet]
    by (auto simp: body_guar_def guar_def) (metis snd_conv)
  then show ?thesis
    unfolding completeInstallation_def completeInstallationUpdate_def fetchInstallation_def verifyState_def usable_state_def
      verifyUserAccess_def
    by (auto intro!: install_guar ledger.guar_transaction assms split: option.splits prod.splits)
qed

lemma install_requests_guar:
  assumes "rely evolves env"
  shows "guar evolves (createInstallUrl env j cfg u)" "guar evolves (handle env od hmac body signature event)"
    "guar evolves (getConnectionStatus env u)"
  unfolding createInstallUrl_def handle_def handleInstallation_def upsertInstallation_def getConnectionStatus_def Let_def
  by (auto intro!: install_guar assms split: option.splits)

lemma save_accessible_guar:
  assumes "rely evolves env"
  shows "guar evolves (save_accessible env od lower u g logins xs ids)"
  by (induction xs arbitrary: ids) (auto intro!: install_guar assms simp: save_installation_def)

lemma run_guar_all_pages: "run_guar (all_pages f n page acc)"
  by (induction n arbitrary: page acc) (auto intro!: run_guars run_guar_io ledger.guar_external)

lemma getInstallations_guar:
  assumes "rely evolves env"
  shows "run_guar (getInstallations env od lower collation c gh bound u)"
  unfolding getInstallations_def syncUserInstallations_def sync_links_def
  by (auto intro!: run_guars run_guar_all_pages run_guar_io save_accessible_guar install_guar assms split: option.splits)

section \<open>The links of a user\<close>

text \<open>The installations, by GitHub's identifier, that a user is linked to.\<close>

definition linked :: "int \<Rightarrow> db \<Rightarrow> utext set" where
  "linked u d = {g. \<exists>k. (u, k) \<in> set (link_keys d) \<and> (k, g) \<in> set (idents d)}"

definition accessible_ids :: "(utext \<Rightarrow> utext) \<Rightarrow> string \<Rightarrow> utext set \<Rightarrow> json list \<Rightarrow> utext set" where
  "accessible_ids lower g logins xs = installation_id ` {x \<in> set xs. isAccessible lower g logins x = Inr True}"

text \<open>From one database to the next: rows are added, and links of the user to the rows saved.\<close>

definition saved :: "int \<Rightarrow> int set \<Rightarrow> utext set \<Rightarrow> db \<Rightarrow> db \<Rightarrow> bool" where
  "saved u ks gs d d' \<longleftrightarrow> installations_inv d' \<and> set (idents d) \<subseteq> set (idents d') \<and>
     set (link_keys d') = set (link_keys d) \<union> {u} \<times> ks \<and> (\<forall>g\<in>gs. \<exists>k\<in>ks. (k, g) \<in> set (idents d')) \<and>
     (\<forall>k\<in>ks. \<exists>g\<in>gs. (k, g) \<in> set (idents d'))"

lemma saved_refl: "installations_inv d \<Longrightarrow> saved u {} {} d d"
  by (simp add: saved_def)

lemma saved_trans: "saved u ks gs d d' \<Longrightarrow> saved u ks' gs' d' d'' \<Longrightarrow> saved u (ks \<union> ks') (gs \<union> gs') d d''"
  unfolding saved_def by (intro conjI) blast+

lemma save_installation_Inr:
  assumes "undisturbed env" "save_installation env od u x w = (Inr k, w')" "installations_inv (wdb w)"
  shows "saved u {k} {installation_id x} (wdb w) (wdb w')"
proof -
  obtain data g t d1 t1 t2 t3 where
    up: "upsert_installation (installation_id x) data t (wdb w) = Inr (g, d1)" and k: "k = gi_id g" and
    li: "upsert_link u k AUTO_DISCOVERY False t1 t2 t3 d1 = Inr ((), wdb w')"
    using assms(2)
    by (auto simp: save_installation_def run_simps db_call_undisturbed_Inr [OF assms(1)] ret_def installation_id_def)
  note u = upsert_installation_Inr [OF up] and l = upsert_link_Inr [OF li]
  have "installations_inv (wdb w')"
    by (rule installations_inv_link [OF li installations_inv_upsert [OF up assms(3)]])
  moreover have "idents (wdb w') = idents d1" "link_keys d1 = link_keys (wdb w)"
    using l u by (simp_all add: idents_def link_keys_def)
  ultimately show ?thesis using u l k by (auto simp: saved_def)
qed

lemma save_accessible_Inr:
  assumes "undisturbed env" "save_accessible env od lower u g logins xs ids w = (Inr ids', w')" "installations_inv (wdb w)"
  shows "\<exists>ks. ids' = ids @ ks \<and> saved u (set ks) (accessible_ids lower g logins xs) (wdb w) (wdb w')"
  using assms(2,3)
proof (induction xs arbitrary: ids w)
  case Nil
  then show ?case by (auto simp: ret_def accessible_ids_def intro: saved_refl)
next
  case (Cons x xs)
  obtain ok where ok: "isAccessible lower g logins x = Inr ok"
    using Cons.prems(1) by (auto simp: run_simps)
  show ?case
  proof (cases ok)
    case False
    with ok Cons.prems(1) have "save_accessible env od lower u g logins xs ids w = (Inr ids', w')"
      by (auto simp: run_simps split: if_splits)
    moreover have "{y \<in> set (x # xs). isAccessible lower g logins y = Inr True} = {y \<in> set xs. isAccessible lower g logins y = Inr True}"
      using ok False by auto
    then have "accessible_ids lower g logins (x # xs) = accessible_ids lower g logins xs"
      by (simp only: accessible_ids_def)
    ultimately show ?thesis using Cons.IH [OF _ Cons.prems(2)] by simp
  next
    case True
    with ok Cons.prems(1) obtain k w1 where first: "save_installation env od u x w = (Inr k, w1)"
      and rest: "save_accessible env od lower u g logins xs (ids @ [k]) w1 = (Inr ids', w')"
      by (auto simp: run_simps)
    note s = save_installation_Inr [OF assms(1) first Cons.prems(2)]
    then have "installations_inv (wdb w1)" by (simp add: saved_def)
    from Cons.IH [OF rest this] obtain ks where ks: "ids' = (ids @ [k]) @ ks"
      "saved u (set ks) (accessible_ids lower g logins xs) (wdb w1) (wdb w')" by blast
    have "accessible_ids lower g logins (x # xs) = {installation_id x} \<union> accessible_ids lower g logins xs"
      using ok True by (auto simp: accessible_ids_def)
    with ks(1) saved_trans [OF s ks(2)] show ?thesis by (intro exI [of _ "k # ks"]) simp
  qed
qed

lemma drop_keys:
  assumes "drop_links u ids now d = Inr (x, d')"
  shows "set (link_keys d') = {(v, k) \<in> set (link_keys d). v = u \<longrightarrow> k \<in> set ids} \<and>
    installations d' = installations d \<and> users d' = users d \<and> (distinct (link_keys d) \<longrightarrow> distinct (link_keys d'))"
proof -
  have "d' = put_user_installations (filter (\<lambda>l. \<not> (ul_userId l = u \<and> ul_installationId l \<notin> set ids)) (user_installations d)) d"
    using assms by (simp add: drop_links_def)
  then show ?thesis by (auto simp: link_keys_def distinct_map inj_on_def)
qed

text \<open>
  C32. After the installations of a user were synchronised, the user is linked to exactly the
  installations GitHub listed that are the user's own or belong to an organization GitHub listed for
  the user; the links of other users, and every installation that was known, are kept.
\<close>

theorem sync_links_exactly_the_accessible:
  assumes "undisturbed env" "installations_inv (wdb w)"
    and "sync_links env od lower user organizations listed w = (Inr (), w')"
  shows "linked (u_id user) (wdb w') = accessible_ids lower (u_githubId user) (lower ` set organizations) listed \<and>
    (\<forall>v. v \<noteq> u_id user \<longrightarrow> linked v (wdb w) \<subseteq> linked v (wdb w') \<and>
      {k. (v, k) \<in> set (link_keys (wdb w'))} = {k. (v, k) \<in> set (link_keys (wdb w))}) \<and>
    installations_inv (wdb w')"
proof -
  let ?u = "u_id user" and ?gs = "accessible_ids lower (u_githubId user) (lower ` set organizations) listed"
  obtain ids w1 t where run: "save_accessible env od lower ?u (u_githubId user) (lower ` set organizations) listed [] w = (Inr ids, w1)"
    and drop: "drop_links ?u ids t (wdb w1) = Inr ((), wdb w')"
    using assms(3) by (auto simp: sync_links_def run_simps db_call_undisturbed_Inr [OF assms(1)])
  from save_accessible_Inr [OF assms(1) run assms(2)]
  have s: "saved ?u (set ids) ?gs (wdb w) (wdb w1)" by auto
  have keys: "set (link_keys (wdb w')) = {(v, k) \<in> set (link_keys (wdb w1)). v = ?u \<longrightarrow> k \<in> set ids}"
    and ids: "idents (wdb w') = idents (wdb w1)" "users (wdb w') = users (wdb w1)"
    and dist: "distinct (link_keys (wdb w1)) \<longrightarrow> distinct (link_keys (wdb w'))"
    using drop_keys [OF drop] by (auto simp: idents_def)
  have "linked ?u (wdb w') = ?gs"
  proof -
    have "g = g'" if "(k, g) \<in> set (idents (wdb w1))" "(k, g') \<in> set (idents (wdb w1))" for k g g'
      using s that by (intro eq_key_imp_eq_value [of "idents (wdb w1)"]) (simp_all add: saved_def installations_inv_def)
    then show ?thesis using s keys ids unfolding linked_def saved_def by (auto; blast)
  qed
  moreover have "linked v (wdb w) \<subseteq> linked v (wdb w') \<and>
      {k. (v, k) \<in> set (link_keys (wdb w'))} = {k. (v, k) \<in> set (link_keys (wdb w))}" if "v \<noteq> ?u" for v
    using s keys ids that by (auto simp: linked_def saved_def)
  moreover have "installations_inv (wdb w1)" "set (link_keys (wdb w')) \<subseteq> set (link_keys (wdb w1))"
    using s keys by (auto simp: saved_def)
  then have "installations_inv (wdb w')"
    unfolding installations_inv_def ids using dist by (intro conjI) (simp, simp, simp, blast)
  ultimately show ?thesis by blast
qed

section \<open>Runs that change something\<close>

lemma undisturbed_rely: "undisturbed env \<Longrightarrow> rely (=) env"
  by (simp add: undisturbed_def rely_def)

lemma reads_only:
  assumes "guar (=) m" "m w = (r, w')"
  shows "wdb w' = wdb w"
  using assms unfolding guar_def by (metis snd_conv)

text \<open>What changes the database comes after what only reads it.\<close>

lemma bind_changes:
  assumes "bind m f w = (r, w')" "wdb w' \<noteq> wdb w" "guar (=) m"
  obtains a w1 where "m w = (Inr a, w1)" "wdb w1 = wdb w" "f a w1 = (r, w')"
proof -
  obtain q w1 where q: "m w = (q, w1)" by (cases "m w")
  with reads_only [OF assms(3)] have "wdb w1 = wdb w" by blast
  with q assms(1,2) show ?thesis by (cases q) (auto simp: bind_def intro: that)
qed

lemma andThen_changes:
  assumes "andThen m n w = (r, w')" "wdb w' \<noteq> wdb w" "guar (=) m"
  obtains a w1 where "m w = (Inr a, w1)" "wdb w1 = wdb w" "n w1 = (r, w')"
  using bind_changes [OF assms(1) [unfolded andThen_def] assms(2,3)] by blast

lemma transaction_changes:
  assumes "transaction env body w = (r, w')" "undisturbed env" "wdb w' \<noteq> wdb w"
  shows "\<exists>w1 a w2. wdb w1 = wdb w \<and> body env w1 = (Inr a, w2) \<and> wdb w' = wdb w2"
proof -
  let ?w1 = "w\<lparr>tick := Suc (tick w), wdb := wdb w\<rparr>"
  have same: "interference env (tick w) (wdb w) = wdb w" using assms(2) by (simp add: undisturbed_def)
  obtain q w2 where q: "body env ?w1 = (q, w2)" by (cases "body env ?w1")
  have "\<exists>a. q = Inr a \<and> wdb w' = wdb w2"
    using assms(1,3) same q
    by (cases q; cases "faults env (tick w)"; cases "faults env (tick w2)")
      (auto simp: transaction_def Let_def undisturbed_quiet [OF assms(2)])
  then show ?thesis using q by (intro exI [of _ ?w1]) auto
qed

lemmas read_guar = read_only.guar_catch read_only.guar_bind read_only.guar_andThen read_only.guar_external read_only.guar_throw
  read_only.guar_ret read_only.guar_now read_only.guar_of_result read_only.guar_throw_unless read_only.guar_db_call
  read_only.stmt_guar_query

section \<open>The callback\<close>

lemma callback_reads:
  "guar (=) (verifyState j t)" "guar (=) (fetchInstallation gh i)" "guar (=) (verifyUserAccess c gh user x)"
  "undisturbed env \<Longrightarrow> guar (=) (usable_state env s u)"
  unfolding verifyState_def fetchInstallation_def verifyUserAccess_def usable_state_def
  by (auto intro!: read_guar undisturbed_rely split: option.splits)

text \<open>The state and the access that the callback has verified.\<close>

definition names_state :: "jwt_service \<Rightarrow> utext \<Rightarrow> string \<Rightarrow> int \<Rightarrow> bool" where
  "names_state j t i u \<longleftrightarrow> (\<exists>n p. jwt_verify j t n = Inr p \<and> ck_purpose p = Some install_purpose \<and> ck_jti p = Some i \<and> ck_sub p = u)"

definition has_access :: "gcm \<Rightarrow> github_account \<Rightarrow> user_row \<Rightarrow> json \<Rightarrow> bool" where
  "has_access c gh user x \<longleftrightarrow> (case property ''account'' (Some x) of None \<Rightarrow> False | Some account \<Rightarrow>
     property ''type'' (Some account) = Some (JStr (units ''User'')) \<and> js_String (property ''id'' (Some account)) = units (u_githubId user) \<or>
     (\<exists>t token n. stored_token user = Some t \<and> decrypt c t = Inr token \<and>
        gc_checkMembership gh token (property ''login'' (Some account)) (u_username user) n = Inr ()))"

lemma verifyState_Inr: "verifyState j t w = (Inr (i, u), w1) \<Longrightarrow> names_state j t i u"
  by (auto simp: verifyState_def catch_def bind_def external_def throw_def ret_def names_state_def
      split: sum.splits option.splits if_splits)

lemma usable_state_Inr:
  assumes "usable_state env i u w = (Inr (s, user), w1)" "undisturbed env"
  shows "find_state i (wdb w) = Some s \<and> find_user (st_userId s) (wdb w) = Some user \<and> st_userId s = u \<and>
    st_consumedAt s = None \<and> (\<exists>n. clock env n < st_expiresAt s)"
  using assms(1)
  by (auto simp: usable_state_def run_simps db_call_undisturbed_Inr [OF assms(2)] state_with_user_def throw_def
      split: option.splits if_splits) (metis not_le)

lemma fetchInstallation_Inr: "fetchInstallation gh i w = (Inr x, w1) \<Longrightarrow> \<exists>n. gc_getInstallation gh (js_Number i) n = Inr x"
  by (auto simp: fetchInstallation_def catch_def external_def throw_def split: sum.splits prod.splits)

lemma verifyUserAccess_Inr:
  assumes "verifyUserAccess c gh user x w = (Inr y, w1)"
  shows "has_access c gh user x"
proof -
  obtain account where "requireAccount x = Inr account"
    using assms by (auto simp: verifyUserAccess_def run_simps)
  then have "property ''account'' (Some x) = Some account"
    by (cases "property ''account'' (Some x)") (auto simp: requireAccount_def Let_def split: if_splits)
  moreover have "property ''type'' (Some account) = Some (JStr (units ''User'')) \<and> js_String (property ''id'' (Some account)) = units (u_githubId user) \<or>
     (\<exists>t token n. stored_token user = Some t \<and> decrypt c t = Inr token \<and>
        gc_checkMembership gh token (property ''login'' (Some account)) (u_username user) n = Inr ())"
    using assms \<open>requireAccount x = Inr account\<close>
    by (auto simp: verifyUserAccess_def run_simps catch_def bind_def of_result_def external_def throw_def
        split: if_splits option.splits sum.splits prod.splits)
  ultimately show ?thesis by (simp add: has_access_def)
qed

lemma link_installation_Inr:
  assumes "link_installation od i j u s env w = (Inr x, w')" "undisturbed env"
  shows "(\<exists>k. (k, units i) \<in> set (idents (wdb w')) \<and>
      (link_keys (wdb w') = link_keys (wdb w) \<or> link_keys (wdb w') = link_keys (wdb w) @ [(u, k)])) \<and>
    (\<exists>t. install_states (wdb w') = update_where (\<lambda>r. st_id r = s) (\<lambda>r. r\<lparr>st_consumedAt := Some t\<rparr>) (install_states (wdb w)))"
proof -
  obtain data t g d1 v1 v2 t' d2 t2 t3 where
    up: "upsert_installation (units i) data t (wdb w) = Inr (g, d1)" and
    li: "upsert_link u (gi_id g) INSTALL_CALLBACK True v1 v2 t' d1 = Inr ((), d2)" and
    co: "consume_state s t2 t3 d2 = Inr ((), wdb w')"
    using assms(1) by (auto simp: link_installation_def run_simps db_call_undisturbed_Inr [OF assms(2)])
  note u = upsert_installation_Inr [OF up] and l = upsert_link_Inr [OF li] and c = consume_state_Inr [OF co]
  have "idents (wdb w') = idents d1" "link_keys (wdb w') = link_keys d2" "link_keys d1 = link_keys (wdb w)"
    using u l c by (simp_all add: idents_def link_keys_def)
  then show ?thesis using u l c by (intro conjI exI [of _ "gi_id g"] exI [of _ t2]) auto
qed

interpretation same_links: guarantee "\<lambda>d d'. link_keys d' = link_keys d"
  by unfold_locales auto

lemma completeInstallationUpdate_links:
  assumes "undisturbed env"
  shows "guar (\<lambda>d d'. link_keys d' = link_keys d) (completeInstallationUpdate env od gh cfg i)"
proof -
  have "stmt_guar (\<lambda>d d'. link_keys d' = link_keys d) (upsert_installation k data)" for k data
    by (auto simp: stmt_guar_def link_keys_def dest!: upsert_installation_Inr)
  moreover have "rely (\<lambda>d d'. link_keys d' = link_keys d) env" using assms by (simp add: rely_def undisturbed_def)
  ultimately show ?thesis
    unfolding completeInstallationUpdate_def fetchInstallation_def
    by (intro same_links.guar_bind same_links.guar_catch same_links.guar_external same_links.guar_throw
        same_links.guar_of_result same_links.guar_db_call same_links.guar_ret)
qed

text \<open>A callback with a state that changes something went through every step.\<close>

lemma callback_steps:
  assumes "undisturbed env" "completeInstallation env od j c gh cfg i (Some t) action w = (r, w')"
    and "t \<noteq> []" and changed: "wdb w' \<noteq> wdb w"
  shows "\<exists>s user x w5 w6. names_state j t (st_id s) (st_userId s) \<and> find_state (st_id s) (wdb w) = Some s \<and>
    st_consumedAt s = None \<and> (\<exists>n. clock env n < st_expiresAt s) \<and> find_user (st_userId s) (wdb w) = Some user \<and>
    (\<exists>n. gc_getInstallation gh (js_Number i) n = Inr x) \<and> has_access c gh user x \<and> wdb w5 = wdb w \<and>
    link_installation od i x (st_userId s) (st_id s) env w5 = (Inr (), w6) \<and> wdb w' = wdb w6"
proof -
  let ?link = "\<lambda>s x. bind (transaction env (link_installation od i x (st_userId s) (st_id s)))
    (\<lambda>_. ret (repositories_page cfg ''installed'' i))"
  let ?fetch = "\<lambda>s user. bind (fetchInstallation gh i) (\<lambda>x. andThen (verifyUserAccess c gh user x) (?link s x))"
  from assms(2,3) have "bind (verifyState j t) (\<lambda>(i', u). bind (usable_state env i' u) (\<lambda>(s, user). ?fetch s user)) w = (r, w')"
    by (simp add: completeInstallation_def)
  from bind_changes [OF this changed callback_reads(1)]
  obtain i' u w1 where 1: "verifyState j t w = (Inr (i', u), w1)" "wdb w1 = wdb w"
    and run1: "bind (usable_state env i' u) (\<lambda>(s, user). ?fetch s user) w1 = (r, w')"
    by (metis (no_types, lifting) case_prod_conv surj_pair)
  have changed1: "wdb w' \<noteq> wdb w1" using changed 1(2) by simp
  from bind_changes [OF run1 changed1 callback_reads(4) [OF assms(1)]]
  obtain s user w2 where 2: "usable_state env i' u w1 = (Inr (s, user), w2)" "wdb w2 = wdb w1"
    and run2: "?fetch s user w2 = (r, w')"
    by (metis (no_types, lifting) case_prod_conv surj_pair)
  have changed2: "wdb w' \<noteq> wdb w2" using changed1 2(2) by simp
  from bind_changes [OF run2 changed2 callback_reads(2)]
  obtain x w3 where 3: "fetchInstallation gh i w2 = (Inr x, w3)" "wdb w3 = wdb w2"
    and run3: "andThen (verifyUserAccess c gh user x) (?link s x) w3 = (r, w')" .
  have changed3: "wdb w' \<noteq> wdb w3" using changed2 3(2) by simp
  from andThen_changes [OF run3 changed3 callback_reads(3)]
  obtain y w4 where 4: "verifyUserAccess c gh user x w3 = (Inr y, w4)" "wdb w4 = wdb w"
    and run4: "?link s x w4 = (r, w')" using 1(2) 2(2) 3(2) by metis
  from run4 obtain r' where "transaction env (link_installation od i x (st_userId s) (st_id s)) w4 = (r', w')"
    by (cases "transaction env (link_installation od i x (st_userId s) (st_id s)) w4"; cases "fst (transaction env (link_installation od i x (st_userId s) (st_id s)) w4)")
      (auto simp: bind_def ret_def)
  from transaction_changes [OF this assms(1)] changed 4(2)
  obtain w5 a w6 where 5: "wdb w5 = wdb w" "link_installation od i x (st_userId s) (st_id s) env w5 = (Inr a, w6)" "wdb w' = wdb w6" by metis
  have s: "find_state i' (wdb w) = Some s \<and> find_user (st_userId s) (wdb w) = Some user \<and> st_userId s = u \<and>
      st_consumedAt s = None \<and> (\<exists>n. clock env n < st_expiresAt s)"
    using usable_state_Inr [OF 2(1) assms(1)] unfolding 1(2) .
  moreover from this have "st_id s = i'" by (auto simp: find_state_def dest: find_SomeD)
  moreover have "names_state j t i' u" by (rule verifyState_Inr [OF 1(1)])
  ultimately show ?thesis
    using 5 fetchInstallation_Inr [OF 3(1)] verifyUserAccess_Inr [OF 4(1)] by (metis (full_types) old.unit.exhaust)
qed

text \<open>
  C30. The callback of an installation makes a link only for a state that the service created for the
  user, that is not consumed and not expired, and only after GitHub returned the installation and it
  is the user's own or GitHub confirmed that the user is a member of its organization. It makes one
  link, of this user to this installation. This holds whatever the result is, and for every caller.
\<close>

theorem callback_links_verified_access:
  assumes "undisturbed env"
    and "completeInstallation env od j c gh cfg i token action w = (r, w')"
    and "link_keys (wdb w') \<noteq> link_keys (wdb w)"
  shows "\<exists>t s user x k. token = Some t \<and> names_state j t (st_id s) (st_userId s) \<and>
    find_state (st_id s) (wdb w) = Some s \<and> st_consumedAt s = None \<and> (\<exists>n. clock env n < st_expiresAt s) \<and>
    find_user (st_userId s) (wdb w) = Some user \<and> (\<exists>n. gc_getInstallation gh (js_Number i) n = Inr x) \<and>
    has_access c gh user x \<and> link_keys (wdb w') = link_keys (wdb w) @ [(st_userId s, k)] \<and> (k, units i) \<in> set (idents (wdb w'))"
proof -
  have "\<not> (token = None \<or> token = Some [])"
  proof
    assume "token = None \<or> token = Some []"
    with assms(2) completeInstallationUpdate_links [OF assms(1), of od gh cfg i]
    have "link_keys (wdb w') = link_keys (wdb w)"
      unfolding guar_def by (cases "action = Some ''update''") (auto simp: completeInstallation_def throw_def dest: spec [of _ w])
    with assms(3) show False by simp
  qed
  then obtain t where t: "token = Some t" "t \<noteq> []" by auto
  have changed: "wdb w' \<noteq> wdb w" using assms(3) by auto
  from callback_steps [OF assms(1) assms(2) [unfolded t(1)] t(2) changed]
  obtain s user x w5 w6 where s: "names_state j t (st_id s) (st_userId s)" "find_state (st_id s) (wdb w) = Some s"
    "st_consumedAt s = None" "\<exists>n. clock env n < st_expiresAt s" "find_user (st_userId s) (wdb w) = Some user"
    "\<exists>n. gc_getInstallation gh (js_Number i) n = Inr x" "has_access c gh user x"
    and link: "wdb w5 = wdb w" "link_installation od i x (st_userId s) (st_id s) env w5 = (Inr (), w6)" "wdb w' = wdb w6"
    by blast
  from link_installation_Inr [OF link(2) assms(1)] link(1,3) assms(3)
  obtain k where "(k, units i) \<in> set (idents (wdb w'))" "link_keys (wdb w') = link_keys (wdb w) @ [(st_userId s, k)]"
    by auto
  with s t show ?thesis by blast
qed

text \<open>A token names one state.\<close>

definition one_state :: "jwt_service \<Rightarrow> utext \<Rightarrow> bool" where
  "one_state j t \<longleftrightarrow> (\<forall>i u i' u'. names_state j t i u \<longrightarrow> names_state j t i' u' \<longrightarrow> i = i')"

definition consumed :: "string \<Rightarrow> db \<Rightarrow> bool" where
  "consumed i d \<longleftrightarrow> (case find_state i d of None \<Rightarrow> False | Some s \<Rightarrow> st_consumedAt s \<noteq> None)"

lemma find_update_where:
  "(\<And>x. p (f x) \<longleftrightarrow> p x) \<Longrightarrow> find p (update_where p f xs) = map_option f (find p xs)"
  by (induction xs) (auto simp: update_where_def)

lemma find_update_others:
  "(\<And>x. p (f x) \<longleftrightarrow> p x) \<Longrightarrow> find p (update_where q f xs) = map_option (\<lambda>x. if q x then f x else x) (find p xs)"
  by (induction xs) (auto simp: update_where_def)

lemma find_append: "find p (xs @ ys) = (case find p xs of None \<Rightarrow> find p ys | Some x \<Rightarrow> Some x)"
  by (induction xs) auto

lemma consumed_update: "i \<in> st_id ` set (install_states d) \<Longrightarrow>
  consumed i (put_install_states (update_where (\<lambda>s. st_id s = i) (\<lambda>s. s\<lparr>st_consumedAt := Some t\<rparr>) (install_states d)) d)"
  by (cases "find (\<lambda>s. st_id s = i) (install_states d)")
    (auto simp: consumed_def find_state_def find_update_where find_None_iff)

text \<open>No mark is taken away.\<close>

definition marks_kept :: "db \<Rightarrow> db \<Rightarrow> bool" where
  "marks_kept d d' \<longleftrightarrow> (\<forall>k. consumed k d \<longrightarrow> consumed k d')"

interpretation marks: guarantee marks_kept
  by unfold_locales (auto simp: marks_kept_def)

lemma same_marks: "install_states d' = install_states d \<Longrightarrow> marks_kept d d'"
  by (simp add: marks_kept_def consumed_def find_state_def)

lemma consume_keeps_marks: "consume_state i t now d = Inr (x, d') \<Longrightarrow> marks_kept d d' \<and> consumed i d'"
proof
  assume "consume_state i t now d = Inr (x, d')"
  note d' = consume_state_Inr [OF this]
  then show "consumed i d'" using consumed_update by blast
  show "marks_kept d d'"
    unfolding marks_kept_def
  proof (intro allI impI)
    fix k assume k: "consumed k d"
    show "consumed k d'"
      using k d' \<open>consumed i d'\<close>
      by (cases "find (\<lambda>s. st_id s = k) (install_states d)") (auto simp: consumed_def find_state_def find_update_others)
  qed
qed

lemma create_state_keeps_marks: "create_install_state i u e now d = Inr (s, d') \<Longrightarrow> marks_kept d d'"
  by (auto simp: create_install_state_def install_states_table.insert_row_Inr marks_kept_def consumed_def find_state_def
      find_append split: option.splits if_splits)

lemma marks_stmt_guar:
  "stmt_guar marks_kept (upsert_installation i data)" "stmt_guar marks_kept (upsert_link u k source changes v c)"
  "stmt_guar marks_kept (consume_state s t)" "stmt_guar marks_kept (create_install_state s u e)"
  unfolding stmt_guar_def
  by (auto dest: upsert_installation_Inr upsert_link_Inr consume_keeps_marks create_state_keeps_marks intro: same_marks)

lemmas marks_guar = marks.guar_catch marks.guar_bind marks.guar_andThen marks.guar_external marks.guar_throw
  marks.guar_ret marks.guar_now marks.guar_uuid marks.guar_of_result marks.guar_throw_unless marks.guar_db_call
  marks.stmt_guar_query marks_stmt_guar

text \<open>The two requests that write states keep the marks.\<close>

lemma states_keep_marks:
  assumes "rely marks_kept env"
  shows "guar marks_kept (createInstallUrl env j cfg u)" "guar marks_kept (completeInstallation env od j c gh cfg i token action)"
proof -
  have "guar marks_kept (link_installation od i x u s (quiet e))" for x u s e
    unfolding link_installation_def by (intro marks_guar marks.rely_quiet)
  then have "body_guar marks_kept (link_installation od i x u s)" for x u s
    by (auto simp: body_guar_def guar_def) (metis snd_conv)
  then have link: "guar marks_kept (transaction env (link_installation od i x u s))" for x u s
    by (rule marks.guar_transaction [OF assms])
  show "guar marks_kept (createInstallUrl env j cfg u)"
    unfolding createInstallUrl_def by (intro marks_guar assms)
  show "guar marks_kept (completeInstallation env od j c gh cfg i token action)"
    unfolding completeInstallation_def completeInstallationUpdate_def verifyState_def usable_state_def fetchInstallation_def
      verifyUserAccess_def
    by (auto intro!: marks_guar link assms split: option.splits)
qed

lemma transaction_committed:
  assumes "transaction env body w = (Inr a, w')"
  shows "\<exists>w1 w2. body (quiet env) w1 = (Inr a, w2) \<and> wdb w' = wdb w2"
proof -
  define w1 where "w1 = w\<lparr>tick := Suc (tick w), wdb := interference env (tick w) (wdb w)\<rparr>"
  obtain r w2 where run: "body (quiet env) w1 = (r, w2)" by (cases "body (quiet env) w1")
  have "r = Inr a \<and> wdb w' = wdb w2"
    using assms [unfolded transaction_def Let_def w1_def [symmetric] run]
    by (cases "faults env (tick w)"; cases r; cases "faults env (tick w2)") auto
  with run show ?thesis by blast
qed

lemma link_installation_consumes:
  assumes "link_installation od i x u s (quiet env) w = (Inr y, w')"
  shows "consumed s (wdb w')"
  using assms by (auto simp: link_installation_def run_simps dest: consume_keeps_marks)

lemma usable_state_names:
  assumes "usable_state env i u w = (Inr (s, user), w1)"
  shows "st_id s = i"
proof -
  obtain found w0 where f: "db_call env (query (state_with_user i)) w = (Inr found, w0)"
    and c: "(case found of None \<Rightarrow> throw invalid_installation_state
      | Some (s, user) \<Rightarrow> if st_userId s \<noteq> u \<or> st_consumedAt s \<noteq> None then throw invalid_installation_state
          else bind (now_io env) (\<lambda>now. if st_expiresAt s \<le> now then throw invalid_installation_state else ret (s, user))) w0
      = (Inr (s, user), w1)"
    using assms unfolding usable_state_def bind_Inr by blast
  from c have "found = Some (s, user)"
    by (auto simp: throw_def ret_def bind_Inr now_io_Inr split: option.splits if_splits)
  with f obtain d where "state_with_user i d = Some (s, user)" by (auto simp: db_call_Inr query_def)
  then show ?thesis by (auto simp: state_with_user_def find_state_def dest!: find_SomeD split: option.splits)
qed

lemma completed_consumes:
  assumes "completeInstallation env od j c gh cfg i (Some t) action w = (Inr url, w')" "t \<noteq> []"
  shows "\<exists>k u. names_state j t k u \<and> consumed k (wdb w')"
proof -
  obtain k u w1 s user w2 x w4 w5 where 1: "verifyState j t w = (Inr (k, u), w1)"
    and 2: "usable_state env k u w1 = (Inr (s, user), w2)"
    and 5: "transaction env (link_installation od i x (st_userId s) (st_id s)) w4 = (Inr (), w5)" and w': "wdb w' = wdb w5"
    using assms by (auto simp: completeInstallation_def run_simps ret_def)
  from transaction_committed [OF 5] obtain w6 w7 where "link_installation od i x (st_userId s) (st_id s) (quiet env) w6 = (Inr (), w7)"
    "wdb w5 = wdb w7" by blast
  with link_installation_consumes w' usable_state_names [OF 2] have "consumed k (wdb w')" by metis
  with verifyState_Inr [OF 1] show ?thesis by blast
qed

lemma consumed_is_refused:
  assumes "rely marks_kept env" "consumed i (wdb w)"
  shows "\<exists>e w'. usable_state env i u w = (Inl e, w') \<and> (undisturbed env \<longrightarrow> wdb w' = wdb w) \<and>
    (healthy env \<longrightarrow> e = invalid_installation_state)"
proof -
  let ?d = "interference env (tick w) (wdb w)"
  have "consumed i ?d" using assms by (auto simp: rely_def marks_kept_def)
  then obtain s where s: "find_state i ?d = Some s" "st_consumedAt s \<noteq> None" by (auto simp: consumed_def split: option.splits)
  have "wdb w = ?d" if "undisturbed env" using that by (simp add: undisturbed_def)
  with s show ?thesis
    by (cases "faults env (tick w)"; cases "find_user (st_userId s) ?d")
      (auto simp: usable_state_def bind_def throw_def db_call_def query_def state_with_user_def Let_def healthy_def)
qed

text \<open>
  C31. A state that was used is refused: after a callback with it succeeded, no callback with it that
  begins later succeeds, whatever it installs, for whatever action, and whatever others do meanwhile that
  takes no mark away; \<open>states_keep_marks\<close> shows that the two requests that write states do not. Callbacks that
  overlap may all succeed (\<open>overlapping_callbacks_use_one_state\<close>): the mark is tested before the transaction
  that sets it.
\<close>

theorem used_state_is_refused:
  assumes "completeInstallation env od j c gh cfg i (Some t) action w = (Inr url, w')" "t \<noteq> []" "one_state j t"
    and "marks_kept (wdb w') (wdb v)" "rely marks_kept env'"
  shows "\<exists>e v'. completeInstallation env' od' j c' gh' cfg' i' (Some t) action' v = (Inl e, v') \<and>
    (undisturbed env' \<longrightarrow> wdb v' = wdb v) \<and> (healthy env' \<longrightarrow> e = invalid_installation_state)"
proof -
  obtain k u where k: "names_state j t k u" "consumed k (wdb w')"
    using completed_consumes [OF assms(1,2)] by blast
  then have v: "consumed k (wdb v)" using assms(4) by (simp add: marks_kept_def)
  obtain q v1 where q: "verifyState j t v = (q, v1)" by (cases "verifyState j t v")
  note same = reads_only [OF callback_reads(1) q]
  show ?thesis
  proof (cases q)
    case (Inl e)
    then have "e = invalid_installation_state"
      using q by (auto simp: verifyState_def catch_def throw_def split: prod.splits sum.splits)
    with q Inl same assms(2) show ?thesis by (simp add: completeInstallation_def bind_def)
  next
    case (Inr p)
    obtain k' u' where p: "p = (k', u')" by (cases p)
    with q Inr have "names_state j t k' u'" by (simp add: verifyState_Inr)
    with k(1) assms(3) have "k' = k" unfolding one_state_def by blast
    with v same have "consumed k' (wdb v1)" by simp
    from consumed_is_refused [OF assms(5) this, of u'] q Inr p same assms(2)
    show ?thesis by (auto simp: completeInstallation_def bind_def)
  qed
qed

section \<open>The webhook\<close>

text \<open>The rows of other installations, and everything else.\<close>

definition others_kept :: "utext \<Rightarrow> db \<Rightarrow> db \<Rightarrow> bool" where
  "others_kept i d d' \<longleftrightarrow> filter (\<lambda>g. gi_githubInstallationId g \<noteq> i) (installations d') =
       filter (\<lambda>g. gi_githubInstallationId g \<noteq> i) (installations d) \<and>
     user_installations d' = user_installations d \<and> install_states d' = install_states d \<and> same_ledger d d'"

interpretation keeps_others: guarantee "others_kept i" for i
  by unfold_locales (auto simp: others_kept_def same_ledger_def)

lemma filter_update_where:
  "(\<And>x. p x \<Longrightarrow> q x) \<Longrightarrow> (\<And>x. p x \<Longrightarrow> q (f x)) \<Longrightarrow> filter (\<lambda>x. \<not> q x) (update_where p f xs) = filter (\<lambda>x. \<not> q x) xs"
  by (induction xs) (auto simp: update_where_def)

lemma webhook_stmts:
  "stmt_guar (others_kept i) (upsert_installation i data)"
  "(\<And>g. gi_githubInstallationId (f g) = gi_githubInstallationId g) \<Longrightarrow>
     stmt_guar (others_kept i) (update_installations (\<lambda>g. gi_githubInstallationId g = i) f)"
proof -
  show "stmt_guar (others_kept i) (upsert_installation i data)"
    unfolding stmt_guar_def
    by (auto simp: upsert_installation_def others_kept_def Let_def installations_table.bulk_update_Inr
        installations_table.insert_row_Inr blank_installation_def written_row_def same_ledger_def filter_update_where
        split: option.splits if_splits sum.splits)
  show "(\<And>g. gi_githubInstallationId (f g) = gi_githubInstallationId g) \<Longrightarrow>
     stmt_guar (others_kept i) (update_installations (\<lambda>g. gi_githubInstallationId g = i) f)"
    unfolding stmt_guar_def
    by (auto simp: update_installations_def others_kept_def installations_table.bulk_update_Inr same_ledger_def filter_update_where)
qed

lemma handleInstallation_keeps:
  assumes "undisturbed env"
  shows "guar (others_kept (installation_id (payload_installation p))) (handleInstallation env od p)"
    "guar (others_kept (installation_id x)) (upsertInstallation env od x)"
proof -
  have rely: "rely (others_kept i) env" for i using assms by (simp add: rely_def undisturbed_def keeps_others.G_refl)
  note rules = keeps_others.guar_bind keeps_others.guar_now keeps_others.guar_of_result keeps_others.guar_ret
    keeps_others.guar_throw keeps_others.guar_db_call rely webhook_stmts
  show upsert: "guar (others_kept (installation_id x)) (upsertInstallation env od x)" for x
    unfolding upsertInstallation_def by (intro rules)
  show "guar (others_kept (installation_id (payload_installation p))) (handleInstallation env od p)"
    unfolding handleInstallation_def Let_def
    by (auto intro!: rules upsert simp: marked_deleted_def marked_suspended_def split: option.splits)
qed

text \<open>
  C33. A delivery to the webhook changes something only if its signature is the digest of its body
  under the secret, and then only the row of the installation that the body names: the rows of other
  installations, the links, the states and the ledger stay as they are, whatever fails.
\<close>

theorem webhook_changes_what_it_names:
  assumes "undisturbed env" "handle env od hmac body signature event w = (r, w')" "wdb w' \<noteq> wdb w"
  shows "\<exists>b s p. body = Some b \<and> signature = Some s \<and> utf8_encode s = utf8_encode (expected_signature hmac b) \<and>
    parsePayload b = Inr p \<and> others_kept (installation_id (payload_installation p)) (wdb w) (wdb w')"
proof -
  obtain b s where given: "body = Some b" "signature = Some s"
    using assms(2,3) by (cases body; cases signature) (auto simp: handle_def throw_def)
  from assms(2,3) have signed: "verifySignature hmac b s = Inr ()"
    by (cases "verifySignature hmac b s") (auto simp: given handle_def throw_def andThen_def bind_def of_result_def split: if_splits)
  from assms(2,3) obtain p where p: "parsePayload b = Inr p"
    by (cases "parsePayload b") (auto simp: given handle_def throw_def andThen_def bind_def of_result_def ret_def split: if_splits sum.splits)
  have "(if event = Some ''installation'' then handleInstallation env od p
         else upsertInstallation env od (payload_installation p)) w = (r, w')"
    using assms(2,3) by (auto simp: given signed p handle_def throw_def andThen_def bind_def of_result_def ret_def split: if_splits)
  moreover have "guar (others_kept (installation_id (payload_installation p)))
      (if event = Some ''installation'' then handleInstallation env od p
         else upsertInstallation env od (payload_installation p))"
    using handleInstallation_keeps [OF assms(1)] by simp
  ultimately have "others_kept (installation_id (payload_installation p)) (wdb w) (wdb w')"
    unfolding guar_def by (metis snd_conv)
  moreover have "utf8_encode s = utf8_encode (expected_signature hmac b)"
    using signed by (auto simp: verifySignature_def Let_def split: if_splits)
  ultimately show ?thesis using given p by blast
qed

lemma update_installations_status:
  assumes "undisturbed env" "bind (db_call env (update_installations (\<lambda>g. gi_githubInstallationId g = i) f)) (\<lambda>_. ret ()) w = (Inr (), w')"
    "\<And>g. gi_githubInstallationId (f g) = gi_githubInstallationId g" "\<And>g. gi_status (f g) = s"
  shows "\<forall>g\<in>set (installations (wdb w')). gi_githubInstallationId g = i \<longrightarrow> gi_status g = s"
proof -
  obtain n t where up: "update_installations (\<lambda>g. gi_githubInstallationId g = i) f t (wdb w) = Inr (n, wdb w')"
    using assms(2) unfolding bind_Inr db_call_undisturbed_Inr [OF assms(1)] ret_def by auto
  then have rows: "installations (wdb w') = update_where (\<lambda>g. gi_githubInstallationId g = i) (\<lambda>g. (f g)\<lparr>gi_updatedAt := t\<rparr>) (installations (wdb w))"
    unfolding update_installations_def by (rule installations_table.bulk_update_rows)
  show ?thesis
  proof (intro ballI impI)
    fix g assume "g \<in> set (installations (wdb w'))" and g: "gi_githubInstallationId g = i"
    then obtain x where "g = (if gi_githubInstallationId x = i then (f x)\<lparr>gi_updatedAt := t\<rparr> else x)"
      by (auto simp only: rows update_where_def set_map)
    with g assms(4) [of x] show "gi_status g = s" by (cases "gi_githubInstallationId x = i") simp_all
  qed
qed

lemma not_active:
  assumes "\<forall>g\<in>set (installations d). gi_githubInstallationId g = i \<longrightarrow> gi_status g = DELETED"
  shows "\<not> active_installation i d" "i \<notin> set (active_installations_of u d)"
  using assms by (auto simp: active_installation_def active_installations_of_def list_ex_iff)

text \<open>
  C34. After a signed delivery that reports an installation as deleted was handled, no user has it
  among the active installations, and no token is created for it, whatever GitHub would answer, until a
  later delivery activates it again.
\<close>

theorem deleted_installation_is_unavailable:
  assumes "undisturbed env" "handle env od hmac (Some b) (Some s) (Some ''installation'') w = (Inr (), w')"
    and "parsePayload b = Inr p" "property ''action'' (Some p) = Some (JStr (units ''deleted''))"
    and "undisturbed env'" "wdb v = wdb w'"
  shows "installation_id (payload_installation p) \<notin> set (active_installations_of u (wdb w')) \<and>
    (\<exists>e ses' v'. createToken env' od' gh (installation_id (payload_installation p)) ses v = (Failed e, ses', v'))"
proof -
  let ?i = "installation_id (payload_installation p)"
  have "handleInstallation env od p w = (Inr (), w')"
    using assms(2,3) by (auto simp: handle_def run_simps throw_def split: if_splits)
  then obtain t w1 where "bind (db_call env (update_installations (\<lambda>g. gi_githubInstallationId g = ?i) (marked_deleted t))) (\<lambda>_. ret ()) w1 = (Inr (), w')"
    using assms(4) by (auto simp: handleInstallation_def bind_Inr [of "now_io env"] Let_def)
  from update_installations_status [OF assms(1) this, where s = DELETED]
  have off: "\<forall>g\<in>set (installations (wdb w')). gi_githubInstallationId g = ?i \<longrightarrow> gi_status g = DELETED"
    by (simp add: marked_deleted_def)
  have "\<exists>e ses' v'. createToken env' od' gh ?i ses v = (Failed e, ses', v')"
  proof -
    obtain q v1 where q: "db_call env' (query (active_installation ?i)) v = (q, v1)" by (cases "db_call env' (query (active_installation ?i)) v")
    have "a = False" if "q = Inr a" for a
      using q that not_active(1) [OF off] assms(6) by (auto simp: db_call_undisturbed_Inr [OF assms(5)])
    then show ?thesis
      by (cases q) (simp_all add: createToken_def rbind_def rthen_def run_io_def q checked_def cache_set_def of_result_def)
  qed
  with not_active(2) [OF off] show ?thesis by blast
qed

text \<open>A delivery that comes late revives an installation that was deleted.\<close>

theorem late_delivery_revives:
  assumes "undisturbed env" "upsertInstallation env od x w = (Inr (), w')" "\<not> truthy (property ''suspended_at'' (Some x))"
  shows "active_installation (installation_id x) (wdb w')"
proof -
  obtain data g t where data: "toInstallationData od x = Inr data" and up: "upsert_installation (installation_id x) data t (wdb w) = Inr (g, wdb w')"
    using assms(2) by (auto simp: upsertInstallation_def run_simps db_call_undisturbed_Inr [OF assms(1)] ret_def)
  have "id_status data = ACTIVE_INSTALLATION"
    using data assms(3) by (auto simp: toInstallationData_def split: sum.splits)
  with upsert_installation_Inr [OF up] show ?thesis by (auto simp: active_installation_def list_ex_iff)
qed

end
