(* ===== verification/ReportProperties.thy ===== *)
theory ReportProperties
  imports CollectionService GithubAppProperties Samples
begin

text \<open>
  Reports are changed by their owners only and public ones are shared; the requests on repositories
  keep the ledger, and list what the caller owns and may use.
\<close>

section \<open>Who may change a report\<close>

text \<open>A representative report is a report of the user.\<close>

definition representatives_owned :: "db \<Rightarrow> bool" where
  "representatives_owned d \<longleftrightarrow> distinct (map p_id (reports d)) \<and>
     (\<forall>u\<in>set (users d). \<forall>i. u_representativeReportId u = Some i \<longrightarrow>
       (\<exists>p\<in>set (reports d). p_id p = i \<and> p_userId p = u_id u))"

text \<open>What a request of a user leaves alone: the reports and the profiles of others, and the ledger.\<close>

definition only_own :: "int \<Rightarrow> db \<Rightarrow> db \<Rightarrow> bool" where
  "only_own i d d' \<longleftrightarrow> filter (\<lambda>p. p_userId p \<noteq> i) (reports d') = filter (\<lambda>p. p_userId p \<noteq> i) (reports d) \<and>
     filter (\<lambda>u. u_id u \<noteq> i) (users d') = filter (\<lambda>u. u_id u \<noteq> i) (users d) \<and>
     map (\<lambda>p. p\<lparr>p_isShared := False\<rparr>) (reports d') = map (\<lambda>p. p\<lparr>p_isShared := False\<rparr>) (reports d) \<and>
     jobs d' = jobs d \<and> repositories d' = repositories d \<and> stats d' = stats d"

lemma owned_report_SomeD: "owned_report i u d = Some p \<Longrightarrow> p \<in> set (reports d) \<and> p_id p = i \<and> p_userId p = u"
  by (auto simp: owned_report_def dest: find_SomeD)

lemma share_report_Inr:
  "share_report i s now d = Inr (x, d') \<Longrightarrow>
     d' = put_reports (update_where (\<lambda>p. p_id p = i) (\<lambda>p. case s of None \<Rightarrow> p | Some b \<Rightarrow> p\<lparr>p_isShared := b\<rparr>) (reports d)) d"
  by (auto simp: share_report_def reports_table.bulk_update_Inr split: sum.splits if_splits)

lemma represent_Inr:
  assumes "represent u i now d = Inr (x, d')"
  shows "d' = put_users (update_where (\<lambda>r. u_id r = u) (\<lambda>r. r\<lparr>u_representativeReportId := Some i, u_updatedAt := now\<rparr>) (users d)) d"
  using assms
  by (auto simp: represent_def update_user_def update_users_def users_table.bulk_update_Inr split: sum.splits if_splits)

lemma own_report_only:
  assumes "representatives_owned d" "owned_report i u d = Some p"
  shows "share_report i s now d = Inr (x, d') \<Longrightarrow> only_own u d d' \<and> representatives_owned d'"
    "represent u i now d = Inr (x, d') \<Longrightarrow> only_own u d d' \<and> representatives_owned d'"
proof -
  note p = owned_report_SomeD [OF assms(2)]
  let ?f = "\<lambda>p. case s of None \<Rightarrow> p | Some b \<Rightarrow> p\<lparr>p_isShared := b\<rparr>"
  have f: "p_id (?f q) = p_id q" "p_userId (?f q) = p_userId q" "(?f q)\<lparr>p_isShared := False\<rparr> = q\<lparr>p_isShared := False\<rparr>" for q
    by (simp_all split: option.splits)
  have own: "p_userId q = u" if "q \<in> set (reports d)" "p_id q = i" for q
    using p that assms(1) by (auto simp: representatives_owned_def distinct_map inj_on_def)
  {
    assume "share_report i s now d = Inr (x, d')"
    then have d': "d' = put_reports (update_where (\<lambda>p. p_id p = i) ?f (reports d)) d" by (rule share_report_Inr)
    have kept: "filter (\<lambda>p. p_userId p \<noteq> u) (update_where (\<lambda>p. p_id p = i) ?f rs) = filter (\<lambda>p. p_userId p \<noteq> u) rs"
      if "set rs \<subseteq> set (reports d)" for rs
      using that own by (induction rs) (auto simp: update_where_def f)
    have "map (\<lambda>p. p\<lparr>p_isShared := False\<rparr>) (update_where (\<lambda>p. p_id p = i) ?f rs) = map (\<lambda>p. p\<lparr>p_isShared := False\<rparr>) rs" for rs
      by (induction rs) (auto simp: update_where_def f)
    then have own: "only_own u d d'" using kept by (simp add: only_own_def d')
    have ids: "map (\<lambda>p. (p_id p, p_userId p)) (update_where (\<lambda>p. p_id p = i) ?f rs) = map (\<lambda>p. (p_id p, p_userId p)) rs" for rs
      by (induction rs) (auto simp: update_where_def f)
    have "map p_id (reports d') = map fst (map (\<lambda>p. (p_id p, p_userId p)) (reports d'))" by simp
    then have "map p_id (reports d') = map p_id (reports d)" by (simp only: d' reports_table.get_put ids) simp
    moreover have "(\<exists>p\<in>set (reports d'). p_id p = k \<and> p_userId p = v) \<longleftrightarrow> (\<exists>p\<in>set (reports d). p_id p = k \<and> p_userId p = v)" for k v
    proof -
      have "(\<exists>p\<in>set rs. p_id p = k \<and> p_userId p = v) \<longleftrightarrow> (k, v) \<in> set (map (\<lambda>p. (p_id p, p_userId p)) rs)" for rs :: "report_row list"
        by force
      then show ?thesis by (simp only: d' reports_table.get_put ids)
    qed
    ultimately have "representatives_owned d'" using assms(1) by (simp add: representatives_owned_def) (simp add: d')
    with own show "only_own u d d' \<and> representatives_owned d'" by blast
  }
  {
    assume "represent u i now d = Inr (x, d')"
    then have d': "d' = put_users (update_where (\<lambda>r. u_id r = u) (\<lambda>r. r\<lparr>u_representativeReportId := Some i, u_updatedAt := now\<rparr>) (users d)) d"
      by (rule represent_Inr)
    have "only_own u d d'"
      by (simp add: only_own_def d') (rule filter_update_where; simp)
    moreover have "representatives_owned d'"
      using assms(1) p by (auto simp: representatives_owned_def d' update_where_def)
    ultimately show "only_own u d d' \<and> representatives_owned d'" by blast
  }
qed

lemma only_own_refl [simp]: "only_own u d d"
  by (simp add: only_own_def)

lemma db_call_changes:
  assumes "undisturbed env" "db_call env s w = (r, w')" "wdb w' \<noteq> wdb w"
  shows "\<exists>a t. s t (wdb w) = Inr (a, wdb w')"
  using assms by (auto simp: db_call_def undisturbed_def Let_def split: fault.splits sum.splits prod.splits) blast+

lemma report_reads: "guar (=) (of_result x)" "undisturbed env \<Longrightarrow> guar (=) (db_call env (query f))"
  by (auto intro: read_guar undisturbed_rely)

lemma toggleSharing_own:
  assumes "undisturbed env" "representatives_owned (wdb w)" "toggleSharing env u i flag w = (r, w')"
  shows "only_own u (wdb w) (wdb w') \<and> representatives_owned (wdb w')"
proof (cases "wdb w' = wdb w")
  case False
  from bind_changes [OF assms(3) [unfolded toggleSharing_def] False report_reads(2) [OF assms(1)]]
  obtain found w1 where q: "db_call env (query (owned_report i u)) w = (Inr found, w1)" "wdb w1 = wdb w"
    and run: "(case found of None \<Rightarrow> throw (not_owned i u)
        | Some _ \<Rightarrow> bind (of_result (shared_flag flag)) (\<lambda>s. db_call env (share_report i s))) w1 = (r, w')" .
  then have found: "found = owned_report i u (wdb w)" by (auto simp: db_call_undisturbed_Inr [OF assms(1)])
  obtain p where p: "found = Some p" using run False q(2) by (cases found) (auto simp: throw_def)
  have changed: "wdb w' \<noteq> wdb w1" using False q(2) by simp
  from bind_changes [OF run [unfolded p option.case] changed report_reads(1)]
  obtain s w2 where "wdb w2 = wdb w1" "db_call env (share_report i s) w2 = (r, w')" .
  with db_call_changes [OF assms(1) this(2)] changed q(2) obtain a t where "share_report i s t (wdb w) = Inr (a, wdb w')" by auto
  with own_report_only(1) [OF assms(2)] found p show ?thesis by metis
qed (use assms(2) in simp)

lemma setRepresentative_own:
  assumes "undisturbed env" "representatives_owned (wdb w)" "setRepresentative env u i w = (r, w')"
  shows "only_own u (wdb w) (wdb w') \<and> representatives_owned (wdb w')"
proof (cases "wdb w' = wdb w")
  case False
  from bind_changes [OF assms(3) [unfolded setRepresentative_def] False report_reads(2) [OF assms(1)]]
  obtain found w1 where q: "db_call env (query (owned_report i u)) w = (Inr found, w1)" "wdb w1 = wdb w"
    and run: "(case found of None \<Rightarrow> throw (not_owned i u) | Some _ \<Rightarrow> db_call env (represent u i)) w1 = (r, w')" .
  then have found: "found = owned_report i u (wdb w)" by (auto simp: db_call_undisturbed_Inr [OF assms(1)])
  obtain p where p: "found = Some p" using run False q(2) by (cases found) (auto simp: throw_def)
  from db_call_changes [OF assms(1) run [unfolded p option.case]] False q(2)
  obtain a t where "represent u i t (wdb w) = Inr (a, wdb w')" by auto
  with own_report_only(2) [OF assms(2)] found p show ?thesis by metis
qed (use assms(2) in simp)

text \<open>
  C35. A request to share a report or to make it the representative one, for any identifier and any
  flag, changes no report and no profile of another user, and of a report only whether it is shared;
  representative reports stay the users' own. What the public page of a user shows is shared, and a
  report of a user of that name.
\<close>

theorem reports_belong_to_their_owners:
  assumes "undisturbed env" "representatives_owned (wdb w)"
    and "m = patch_share env u i flag \<or> m = patch_representative env u i" "m w = (r, w')"
  shows "only_own u (wdb w) (wdb w') \<and> representatives_owned (wdb w') \<and>
    (\<forall>name p rep v v'. wdb v = wdb w' \<longrightarrow> getPublicReport env name v = (Inr (Some (p, rep)), v') \<longrightarrow>
      p \<in> set (reports (wdb w')) \<and> p_isShared p \<and> (\<exists>x\<in>set (users (wdb w')). u_username x = name \<and> p_userId p = u_id x))"
proof -
  have own: "only_own u (wdb w) (wdb w') \<and> representatives_owned (wdb w')"
  proof (cases "report_number i")
    case (Inl e)
    with assms(2-) show ?thesis by (auto simp: patch_share_def patch_representative_def bind_def of_result_def)
  next
    case (Inr n)
    with assms(3,4) have "toggleSharing env u n flag w = (r, w') \<or> setRepresentative env u n w = (r, w')"
      by (auto simp: patch_share_def patch_representative_def bind_def of_result_def)
    with toggleSharing_own [OF assms(1,2)] setRepresentative_own [OF assms(1,2)] show ?thesis by blast
  qed
  have "p \<in> set (reports (wdb w')) \<and> p_isShared p \<and> (\<exists>x\<in>set (users (wdb w')). u_username x = name \<and> p_userId p = u_id x)"
    if v: "wdb v = wdb w'" and run: "getPublicReport env name v = (Inr (Some (p, rep)), v')" for name p rep v v'
  proof -
    obtain x where x: "find (\<lambda>u. u_username u = name) (users (wdb w')) = Some x" "shared_representative (wdb w') x = Some p"
      using run v by (auto simp: getPublicReport_def db_call_undisturbed_Inr [OF assms(1)] with_repository_def dest!: sym [of "Some _"] split: option.splits)
    then obtain k where k: "u_representativeReportId x = Some k" "find (\<lambda>p. p_id p = k) (reports (wdb w')) = Some p" "p_isShared p"
      by (auto simp: shared_representative_def representative_def split: option.splits if_splits)
    have in_users: "x \<in> set (users (wdb w'))" "u_username x = name" using find_SomeD [OF x(1)] by auto
    have in_reports: "p \<in> set (reports (wdb w'))" "p_id p = k" using find_SomeD [OF k(2)] by auto
    obtain p' where "p' \<in> set (reports (wdb w'))" "p_id p' = k" "p_userId p' = u_id x"
      using own in_users(1) k(1) by (auto simp: representatives_owned_def)
    moreover from this(1,2) in_reports have "p' = p" using own by (auto simp: representatives_owned_def distinct_map inj_on_def)
    ultimately show ?thesis using in_users in_reports k(3) by blast
  qed
  with own show ?thesis by blast
qed

definition sample_report :: report_row where
  "sample_report = \<lparr>p_id = 7, p_syncTime = 900000, p_userId = 1, p_repositoryId = 7, p_metrics = None,
     p_jobId = None, p_isShared = False\<rparr>"

definition report_world :: world where
  "report_world = \<lparr>wdb = (db_with sample_job)\<lparr>reports := [sample_report],
     users := [sample_user\<lparr>u_representativeReportId := Some 7\<rparr>]\<rparr>, tick = 0\<rparr>"

lemma report_number_7: "report_number ''7'' = Inr 7"
proof -
  have "units ''7'' = [55]" "units ''0x'' = [48, 120]" "units ''0o'' = [48, 111]" "units ''0b'' = [48, 98]"
    by (simp_all add: units_def)
  moreover have "text_trim [55] = [55]" "map ascii_fold (take 2 [55]) = [55]"
    by (simp_all add: text_trim_def trim_by_def text_space_def ascii_fold_def)
  moreover have "signed_digits [55] = (False, [55])" "digits [55] = [55]" "after_digits [55] = []" "decimal [55] = 7"
    by code_simp+
  moreover have "parse_exponent [] = Some (1, [])" "decimal [] = 0"
    by (simp_all add: parse_exponent_def decimal_def)
  ultimately have "js_Number ''7'' = to_double (of_nat 7)"
    by (simp add: js_Number_def decimal_literal_def)
  then show ?thesis
    using to_double_nat [of 7] by (simp add: report_number_def integer_of_def int4_def)
qed

lemma reports_belong_to_their_owners_witness:
  "\<exists>w'. patch_share calm 1 ''7'' (Some (JBool True)) report_world = (Inr (), w') \<and>
     reports (wdb w') = [sample_report\<lparr>p_isShared := True\<rparr>] \<and> only_own 1 (wdb report_world) (wdb w') \<and>
     representatives_owned (wdb w')"
proof -
  let ?w = "\<lparr>wdb = put_reports [sample_report\<lparr>p_isShared := True\<rparr>] (wdb report_world), tick = 2\<rparr>"
  have run: "patch_share calm 1 ''7'' (Some (JBool True)) report_world = (Inr (), ?w)"
    unfolding patch_share_def report_number_7 by code_simp
  moreover have "representatives_owned (wdb report_world)"
    by (simp add: representatives_owned_def report_world_def sample_report_def sample_user_def)
  moreover note reports_belong_to_their_owners [OF _ this disjI1 [OF refl] run]
  ultimately show ?thesis by (auto simp: undisturbed_def calm_def)
qed

section \<open>The requests keep the ledger\<close>

text \<open>What links a report to its job.\<close>

definition report_links :: "db \<Rightarrow> (string option \<times> int \<times> int) list" where
  "report_links d = map (\<lambda>p. (p_jobId p, p_userId p, p_repositoryId p)) (reports d)"

lemma reports_match_links:
  "reports_match d \<longleftrightarrow>
     (\<forall>(i, u, r) \<in> set (report_links d). i \<noteq> None \<longrightarrow>
        (\<exists>j \<in> set (jobs d). i = Some (j_id j) \<and> u = j_userId j \<and> r = j_repositoryId j \<and> j_status j = SUCCEEDED)) \<and>
     (\<forall>j \<in> set (jobs d). j_status j = SUCCEEDED \<longrightarrow> (Some (j_id j), j_userId j, j_repositoryId j) \<in> set (report_links d))"
proof -
  have "(Some (j_id j), j_userId j, j_repositoryId j) \<in> set (report_links d) \<longleftrightarrow> (\<exists>p \<in> set (reports d). report_of j p)" for j
    by (auto simp: report_links_def report_of_def image_iff eq_commute)
  moreover have "(\<exists>j \<in> set (jobs d). report_of j p \<and> j_status j = SUCCEEDED) \<longleftrightarrow>
      (\<exists>j \<in> set (jobs d). p_jobId p = Some (j_id j) \<and> p_userId p = j_userId j \<and> p_repositoryId p = j_repositoryId j \<and> j_status j = SUCCEEDED)" for p
    by (simp add: report_of_def conj_assoc)
  moreover have "(\<forall>(i, u, r) \<in> set (report_links d). F i u r) \<longleftrightarrow> (\<forall>p \<in> set (reports d). F (p_jobId p) (p_userId p) (p_repositoryId p))" for F
    by (simp add: report_links_def)
  ultimately show ?thesis by (simp only: reports_match_def)
qed

lemma reports_evolve:
  assumes "report_links d' = report_links d" "users d' = users d" "jobs d' = jobs d"
  shows "evolves d d'"
  by (rule evolvesI)
    (use assms in \<open>auto simp: ledger_inv_def jobs_inv_def reports_match_links wealth_def available_def charged_def
      rows_evolve_def intro: job_evolves_refl\<close>)

lemma owned_requests_evolve:
  "stmt_guar evolves (share_report i s)" "stmt_guar evolves (represent u i)"
proof -
  have "report_links (put_reports (update_where (\<lambda>p. p_id p = i) (\<lambda>p. case s of None \<Rightarrow> p | Some b \<Rightarrow> p\<lparr>p_isShared := b\<rparr>) (reports d)) d)
      = report_links d" for d
  proof -
    have "map (\<lambda>p. (p_jobId p, p_userId p, p_repositoryId p)) (update_where (\<lambda>p. p_id p = i) (\<lambda>p. case s of None \<Rightarrow> p | Some b \<Rightarrow> p\<lparr>p_isShared := b\<rparr>) rs) =
      map (\<lambda>p. (p_jobId p, p_userId p, p_repositoryId p)) rs" for rs
      by (induction rs) (auto simp: update_where_def split: option.splits)
    then show ?thesis by (simp add: report_links_def)
  qed
  then show "stmt_guar evolves (share_report i s)"
    by (auto simp: stmt_guar_def dest!: share_report_Inr intro!: reports_evolve)
  show "stmt_guar evolves (represent u i)"
    by (simp add: stmt_guar_def represent_def) (blast dest: profile_stmt_guar(2) [OF profile_changes(4), unfolded stmt_guar_def, rule_format])
qed

lemmas report_guars = ledger.guar_bind ledger.guar_of_result ledger.guar_throw ledger.guar_ret ledger.guar_db_call
  ledger.stmt_guar_query owned_requests_evolve

lemma report_requests_guar:
  assumes "rely evolves env"
  shows "guar evolves (patch_share env u i flag)" "guar evolves (patch_representative env u i)"
  unfolding patch_share_def toggleSharing_def patch_representative_def setRepresentative_def
  by (auto intro!: report_guars assms split: option.splits)

end
