(* ===== verification/RepositoryProperties.thy ===== *)
theory RepositoryProperties
  imports ReportProperties CollectionProperties
begin

text \<open>
  The requests on repositories keep the ledger; a repository belongs to the user who listed it
  last, and only that user may collect from it.
\<close>

section \<open>The ledger\<close>

lemma repositories_evolve: "evolves d (put_repositories rs d)"
  by (rule evolves_same) simp_all

lemma repository_stmt_guar:
  "stmt_guar evolves (update_repositories p f)" "stmt_guar evolves (upsert_repository i name u)"
  by (auto simp: stmt_guar_def update_repositories_def upsert_repository_def repositories_table.bulk_update_Inr
      intro: repositories_evolve split: if_splits)

lemma mark_synced_guar: "body_guar evolves (mark_synced i t)"
proof -
  have "guar evolves (mark_synced i t (quiet env))" for env
    unfolding mark_synced_def
    by (intro ledger.guar_bind ledger.guar_ret ledger.guar_db_call ledger.rely_quiet repository_stmt_guar)
  then show ?thesis by (auto simp: body_guar_def guar_def) (metis snd_conv)
qed

lemma run_guar_own_repository:
  assumes "rely evolves env"
  shows "run_guar (own_repository env i u refusal)"
  unfolding own_repository_def
  by (auto intro!: run_guars run_guar_query assms split: option.splits prod.splits)

lemma save_repositories_guar:
  assumes "rely evolves env"
  shows "guar evolves (save_repositories env u repos)"
  unfolding save_repositories_def
  by (intro ledger.guar_for_each ledger.guar_db_call assms repository_stmt_guar)

lemma repository_requests_guar:
  assumes "rely evolves env" "provider_guar p"
  shows "run_guar (syncRepository env od gh n sha256 p i u)" "run_guar (estimateCost env od gh n le i u)"
    "run_guar (getRepositories env od lower collation name_order c account app n u)"
proof -
  note collect = run_guar_collect [OF assms(1) ledger.guar_ret]
  note shared = run_guars run_guar_io run_guar_query collect run_guar_own_repository run_guar_rattempt ledger.guar_now
    runAnalysis_guar mark_synced_guar run_guar_getAvailableRepos save_repositories_guar getInstallations_guar assms
  show "run_guar (syncRepository env od gh n sha256 p i u)"
    unfolding syncRepository_def by (auto intro!: shared split: sum.splits err.splits prod.splits)
  show "run_guar (estimateCost env od gh n le i u)"
    unfolding estimateCost_def by (auto intro!: shared split: prod.splits)
  show "run_guar (getRepositories env od lower collation name_order c account app n u)"
    unfolding getRepositories_def by (auto intro!: shared)
qed

section \<open>Who owns a repository\<close>

text \<open>All rows of the repositories with one of these identifiers are the user's.\<close>

definition owned_by :: "int \<Rightarrow> string set \<Rightarrow> db \<Rightarrow> bool" where
  "owned_by u ids d \<longleftrightarrow> find_user u d \<noteq> None \<and> (\<forall>x\<in>set (repositories d). r_githubRepoId x \<in> ids \<longrightarrow> r_ownerId x = u)"

definition others_untouched :: "string set \<Rightarrow> db \<Rightarrow> db \<Rightarrow> bool" where
  "others_untouched ids d d' \<longleftrightarrow> users d' = users d \<and>
     filter (\<lambda>x. r_githubRepoId x \<notin> ids) (repositories d') = filter (\<lambda>x. r_githubRepoId x \<notin> ids) (repositories d)"

lemma others_untouched_refl: "others_untouched ids d d"
  by (simp add: others_untouched_def)

lemma others_untouched_mono:
  assumes "others_untouched ids d d'" "ids \<subseteq> ids'"
  shows "others_untouched ids' d d'"
proof -
  have "filter (\<lambda>x. r_githubRepoId x \<notin> ids') xs = filter (\<lambda>x. r_githubRepoId x \<notin> ids') (filter (\<lambda>x. r_githubRepoId x \<notin> ids) xs)" for xs
    using assms(2) by (induction xs) auto
  with assms(1) show ?thesis unfolding others_untouched_def by metis
qed

lemma others_untouched_trans:
  "others_untouched ids d d' \<Longrightarrow> others_untouched ids d' d'' \<Longrightarrow> others_untouched ids d d''"
  by (simp add: others_untouched_def)

lemma upsert_repository_owner:
  assumes "upsert_repository i name u now d = Inr (x, d')" "owned_by u ids d"
  shows "owned_by u (insert i ids) d' \<and> others_untouched {i} d d'"
proof (cases "list_ex (\<lambda>r. r_githubRepoId r = i) (repositories d)")
  case True
  let ?rows = "update_where (\<lambda>r. r_githubRepoId r = i) (\<lambda>r. r\<lparr>r_fullName := name, r_ownerId := u\<rparr>) (repositories d)"
  have d': "d' = put_repositories ?rows d" using True assms(1) by (simp add: upsert_repository_def split: if_splits)
  have "filter (\<lambda>x. r_githubRepoId x \<noteq> i) ?rows = filter (\<lambda>x. r_githubRepoId x \<noteq> i) (repositories d)"
    by (rule filter_update_where) simp_all
  then have "others_untouched {i} d d'" by (simp add: others_untouched_def d')
  moreover have "\<forall>x\<in>set ?rows. r_githubRepoId x \<in> insert i ids \<longrightarrow> r_ownerId x = u"
    using assms(2) by (auto simp: owned_by_def update_where_def)
  then have "owned_by u (insert i ids) d'" using assms(2) by (simp add: owned_by_def d' find_user_def)
  ultimately show ?thesis by blast
next
  case False
  then have new: "r_githubRepoId r \<noteq> i" if "r \<in> set (repositories d)" for r using that by (auto simp: list_ex_iff)
  have d': "\<exists>row. d' = put_repositories (repositories d @ [row]) d \<and> r_githubRepoId row = i \<and> r_ownerId row = u"
    using False assms(1) by (auto simp: upsert_repository_def split: if_splits)
  with assms(2) new show ?thesis
    by (auto simp: owned_by_def others_untouched_def find_user_def)
qed

abbreviation listed_ids :: "installation_repository list \<Rightarrow> string set" where
  "listed_ids repos \<equiv> (\<lambda>r. js_string_of_int (ir_id r)) ` set repos"

lemma save_repositories_owner:
  assumes "undisturbed env" "save_repositories env u repos w = (Inr x, w')" "owned_by u ids (wdb w)"
  shows "owned_by u (ids \<union> listed_ids repos) (wdb w') \<and> others_untouched (listed_ids repos) (wdb w) (wdb w')"
  using assms(2,3) unfolding save_repositories_def
proof (induction repos arbitrary: w ids)
  case Nil
  then show ?case by (simp add: ret_def others_untouched_refl)
next
  case (Cons r repos)
  let ?i = "js_string_of_int (ir_id r)"
  obtain d where up: "upsert_repository ?i (ir_fullName r) u (clock env (tick w)) (wdb w) = Inr ((), d)"
    and run: "for_each repos (\<lambda>r. db_call env (upsert_repository (js_string_of_int (ir_id r)) (ir_fullName r) u))
      (w\<lparr>tick := Suc (tick w), wdb := d\<rparr>) = (Inr x, w')"
    using Cons.prems(1) by (auto simp: run_simps db_call_undisturbed_Inr [OF assms(1)])
  note first = upsert_repository_owner [OF up Cons.prems(2)]
  have rest: "owned_by u (insert ?i ids \<union> listed_ids repos) (wdb w') \<and> others_untouched (listed_ids repos) d (wdb w')"
    using Cons.IH [OF run, of "insert ?i ids"] first by simp
  have "others_untouched (listed_ids (r # repos)) (wdb w) (wdb w')"
    using first rest by (auto intro: others_untouched_trans others_untouched_mono)
  with rest show ?case by simp
qed

lemma owned_by_refuses:
  assumes "healthy env" "owned_by u ids (wdb w)" "x \<in> set (repositories (wdb w))" "r_githubRepoId x \<in> ids" "v \<noteq> u"
  shows "\<exists>w'. own_repository env (r_githubRepoId x) v refusal s w = (Failed (HttpError ForbiddenException refusal), s, w') \<and>
    wdb w' = wdb w"
proof -
  obtain y where y: "find_github_repository (r_githubRepoId x) (wdb w) = Some y"
    using assms(3) by (cases "find_github_repository (r_githubRepoId x) (wdb w)") (auto simp: find_github_repository_def find_None_iff)
  then have "r_ownerId y = u" using assms(2,4) by (auto simp: owned_by_def find_github_repository_def dest!: find_SomeD)
  moreover obtain o1 where "find_user u (wdb w) = Some o1" using assms(2) by (auto simp: owned_by_def)
  ultimately show ?thesis
    using y assms(5) by (simp add: own_repository_def rbind_def run_io_def db_call_healthy [OF assms(1)] query_def repository_with_owner_def
        checked_def of_result_def)
qed

lemma rbind_Done:
  "rbind m f s w = (Done r, s', w') \<Longrightarrow> \<exists>a s1 w1. m s w = (Done a, s1, w1) \<and> f a s1 w1 = (Done r, s', w')"
  by (auto simp: rbind_def split: prod.splits outcome.splits)

lemma run_io_Done: "run_io m s w = (Done r, s', w') \<longleftrightarrow> s' = s \<and> m w = (Inr r, w')"
  by (auto simp: run_io_def split: prod.splits sum.splits)

lemma save_needs_user:
  assumes "undisturbed env" "save_repositories env u repos w = (Inr x, w')" "repos \<noteq> []"
  shows "find_user u (wdb w) \<noteq> None"
  using assms(2,3)
  by (cases repos) (auto simp: save_repositories_def run_simps db_call_undisturbed_Inr [OF assms(1)] upsert_repository_def split: if_splits)

lemma set_listed_repositories:
  "set (listed_repositories name_order u ids d) = {x \<in> set (repositories d). r_ownerId x = u \<and> r_githubRepoId x \<in> set ids}"
proof -
  have "set (insert_by c x xs) = insert x (set xs)" for c :: "repository_row \<Rightarrow> repository_row \<Rightarrow> bool" and x xs
    by (induction xs) auto
  then have "set (foldr (insert_by c) xs []) = set xs" for c :: "repository_row \<Rightarrow> repository_row \<Rightarrow> bool" and xs
    by (induction xs) auto
  then show ?thesis by (auto simp: listed_repositories_def)
qed

section \<open>What a listing returns\<close>

abbreviation stored_ids :: "db \<Rightarrow> string set" where
  "stored_ids d \<equiv> r_githubRepoId ` set (repositories d)"

lemma upsert_stores:
  assumes "upsert_repository i name u now d = Inr (x, d')"
  shows "stored_ids d' = insert i (stored_ids d)"
proof (cases "list_ex (\<lambda>r. r_githubRepoId r = i) (repositories d)")
  case True
  let ?rows = "update_where (\<lambda>r. r_githubRepoId r = i) (\<lambda>r. r\<lparr>r_fullName := name, r_ownerId := u\<rparr>) (repositories d)"
  have "d' = put_repositories ?rows d" using True assms by (simp add: upsert_repository_def split: if_splits)
  moreover have "map r_githubRepoId ?rows = map r_githubRepoId (repositories d)" by (simp add: update_where_def)
  then have "r_githubRepoId ` set ?rows = stored_ids d" by (metis list.set_map)
  ultimately show ?thesis using True by (auto simp: list_ex_iff)
next
  case False
  with assms show ?thesis by (auto simp: upsert_repository_def split: if_splits)
qed

lemma save_stores:
  assumes "undisturbed env" "save_repositories env u repos w = (Inr x, w')"
  shows "stored_ids (wdb w') = listed_ids repos \<union> stored_ids (wdb w)"
  using assms(2) unfolding save_repositories_def
proof (induction repos arbitrary: w)
  case (Cons r repos)
  obtain d where up: "upsert_repository (js_string_of_int (ir_id r)) (ir_fullName r) u (clock env (tick w)) (wdb w) = Inr ((), d)"
    and run: "for_each repos (\<lambda>r. db_call env (upsert_repository (js_string_of_int (ir_id r)) (ir_fullName r) u))
      (w\<lparr>tick := Suc (tick w), wdb := d\<rparr>) = (Inr x, w')"
    using Cons.prems by (auto simp: run_simps db_call_undisturbed_Inr [OF assms(1)])
  from Cons.IH [OF run] upsert_stores [OF up] show ?case by simp
qed (simp add: ret_def)

text \<open>The repositories that GitHub lets a user's request see: what the request found before it wrote them.\<close>

definition request_finds ::
  "env \<Rightarrow> (utext \<Rightarrow> int option) \<Rightarrow> (utext \<Rightarrow> utext) \<Rightarrow> (utext \<Rightarrow> utext \<Rightarrow> bool) \<Rightarrow> gcm \<Rightarrow> github_account \<Rightarrow> github_app \<Rightarrow>
     nat \<Rightarrow> int \<Rightarrow> session \<Rightarrow> world \<Rightarrow> installation_repository list \<Rightarrow> bool" where
  "request_finds env od lower collation c account app n u s w repos \<longleftrightarrow>
     (\<exists>found w0 installs s1 w1 s2 w2. db_call env (query (find_user u)) w = (Inr found, w0) \<and>
        getInstallations env od lower collation c account n u s w0 = (Done installs, s1, w1) \<and>
        getAvailableRepos env od app n u s1 w1 = (Done repos, s2, w2))"

text \<open>A repository that is stored, and the user's.\<close>

definition belongs_to :: "int \<Rightarrow> string \<Rightarrow> db \<Rightarrow> bool" where
  "belongs_to u i d \<longleftrightarrow> i \<in> stored_ids d \<and> owned_by u {i} d"

lemma getRepositories_rows:
  assumes "undisturbed env" "getRepositories env od lower collation name_order c account app n u s w = (Done rows, s', w')"
  shows "\<exists>repos. request_finds env od lower collation c account app n u s w repos \<and>
    set rows = {x \<in> set (repositories (wdb w')). r_githubRepoId x \<in> listed_ids repos} \<and>
    r_githubRepoId ` set rows = listed_ids repos \<and> (\<forall>x\<in>set rows. r_ownerId x = u \<and> belongs_to u (r_githubRepoId x) (wdb w'))"
proof -
  from rbind_Done [OF assms(2) [unfolded getRepositories_def]] obtain found s0 w0 where
    first: "run_io (db_call env (query (find_user u))) s w = (Done found, s0, w0)"
    and "(if found = None then checked (Inl (HttpError ForbiddenException ''User not found''))
     else rbind (getInstallations env od lower collation c account n u) (\<lambda>_. rbind (getAvailableRepos env od app n u) (\<lambda>repos.
       rthen (run_io (save_repositories env u repos))
       (run_io (db_call env (query (listed_repositories name_order u (map (\<lambda>r. js_string_of_int (ir_id r)) repos)))))))) s0 w0
     = (Done rows, s', w')" by blast
  from this(2) have "rbind (getInstallations env od lower collation c account n u) (\<lambda>_. rbind (getAvailableRepos env od app n u) (\<lambda>repos.
       rthen (run_io (save_repositories env u repos))
       (run_io (db_call env (query (listed_repositories name_order u (map (\<lambda>r. js_string_of_int (ir_id r)) repos))))))) s w0
     = (Done rows, s', w')"
    using first by (cases found) (simp_all add: checked_def run_io_def of_result_def split: prod.splits sum.splits)
  from rbind_Done [OF this] obtain installs s1 w1 where
    second: "getInstallations env od lower collation c account n u s w0 = (Done installs, s1, w1)"
    and "rbind (getAvailableRepos env od app n u) (\<lambda>repos. rthen (run_io (save_repositories env u repos))
       (run_io (db_call env (query (listed_repositories name_order u (map (\<lambda>r. js_string_of_int (ir_id r)) repos)))))) s1 w1
     = (Done rows, s', w')" by blast
  from rbind_Done [OF this(2)] obtain repos s2 w2 where
    third: "getAvailableRepos env od app n u s1 w1 = (Done repos, s2, w2)"
    and "rthen (run_io (save_repositories env u repos))
       (run_io (db_call env (query (listed_repositories name_order u (map (\<lambda>r. js_string_of_int (ir_id r)) repos))))) s2 w2
     = (Done rows, s', w')" by blast
  from rbind_Done [OF this(2) [unfolded rthen_def]] obtain w3 where save: "save_repositories env u repos w2 = (Inr (), w3)"
    and list: "db_call env (query (listed_repositories name_order u (map (\<lambda>r. js_string_of_int (ir_id r)) repos))) w3 = (Inr rows, w')"
    by (auto simp: run_io_Done)
  have finds: "request_finds env od lower collation c account app n u s w repos"
    using first second third by (auto simp: request_finds_def run_io_Done)
  from list have rows: "rows = listed_repositories name_order u (map (\<lambda>r. js_string_of_int (ir_id r)) repos) (wdb w')"
    and same: "wdb w' = wdb w3" by (auto simp: db_call_undisturbed_Inr [OF assms(1)] query_def)
  have hers: "owned_by u (listed_ids repos) (wdb w')" if "repos \<noteq> []"
  proof -
    have "owned_by u {} (wdb w2)" using save_needs_user [OF assms(1) save that] by (simp add: owned_by_def)
    from save_repositories_owner [OF assms(1) save this] same show ?thesis by simp
  qed
  have exact: "set rows = {x \<in> set (repositories (wdb w')). r_githubRepoId x \<in> listed_ids repos}"
    using hers by (cases repos) (auto simp: rows set_listed_repositories owned_by_def)
  have stored: "listed_ids repos \<subseteq> stored_ids (wdb w')" using save_stores [OF assms(1) save] same by auto
  have ids: "r_githubRepoId ` set rows = listed_ids repos" 
  proof -
    have "f ` {x \<in> A. f x \<in> B} = f ` A \<inter> B" for f :: "repository_row \<Rightarrow> string" and A B by auto
    with stored show ?thesis by (simp add: exact Int_absorb1)
  qed
  have "r_ownerId x = u \<and> belongs_to u (r_githubRepoId x) (wdb w')" if "x \<in> set rows" for x
  proof -
    have x: "x \<in> set (repositories (wdb w'))" "r_githubRepoId x \<in> listed_ids repos" using that exact by auto
    then have "repos \<noteq> []" by auto
    with hers x show ?thesis by (auto simp: belongs_to_def owned_by_def)
  qed
  with finds exact ids show ?thesis by blast
qed

section \<open>Requests of other users\<close>

lemma failed_rbind: "m s w = (Failed e, s', w') \<Longrightarrow> rbind m f s w = (Failed e, s', w')"
  by (simp add: rbind_def)

lemma requests_of_others:
  assumes "healthy env" "belongs_to u i (wdb z)" "v \<noteq> u"
  shows "\<exists>z1. syncRepository env od gh n sha256 p i v s z =
      (Failed (HttpError ForbiddenException ''You do not have permission to sync this repository''), s, z1) \<and> wdb z1 = wdb z"
    and "\<exists>z2. estimateCost env od gh n le i v s z =
      (Failed (HttpError ForbiddenException ''You do not have permission to access this repository''), s, z2) \<and> wdb z2 = wdb z"
proof -
  from assms(2) obtain x where x: "x \<in> set (repositories (wdb z))" "r_githubRepoId x = i" and "owned_by u {i} (wdb z)"
    by (auto simp: belongs_to_def)
  then have refused: "\<exists>z1. own_repository env i v refusal s z = (Failed (HttpError ForbiddenException refusal), s, z1) \<and>
      wdb z1 = wdb z" for refusal
    using owned_by_refuses [OF assms(1) _ x(1) _ assms(3), of "{i}"] by simp
  have "\<exists>z1. rbind (own_repository env i v refusal) f s z = (Failed (HttpError ForbiddenException refusal), s, z1) \<and>
      wdb z1 = wdb z" for refusal f
    using refused [of refusal] failed_rbind by metis
  then show "\<exists>z1. syncRepository env od gh n sha256 p i v s z =
      (Failed (HttpError ForbiddenException ''You do not have permission to sync this repository''), s, z1) \<and> wdb z1 = wdb z"
    and "\<exists>z2. estimateCost env od gh n le i v s z =
      (Failed (HttpError ForbiddenException ''You do not have permission to access this repository''), s, z2) \<and> wdb z2 = wdb z"
    unfolding syncRepository_def estimateCost_def by blast+
qed

text \<open>
  C36. Listing takes ownership. A list that is returned holds exactly the stored repositories that the
  request found at GitHub, each of them is stored, and all of them are now the caller's, whoever's they
  were. In every state in which such a repository is still the caller's, the one the listing leaves
  among them, a synchronous analysis or an estimate that another user asks of it is refused, with nothing
  written, even if GitHub gives that user access to it. It stops being the caller's when
  another user lists it.
\<close>

theorem listing_takes_ownership:
  assumes "undisturbed env" "getRepositories env od lower collation name_order c account app n u s w = (Done rows, s', w')"
  shows "\<exists>repos. request_finds env od lower collation c account app n u s w repos \<and>
    set rows = {x \<in> set (repositories (wdb w')). r_githubRepoId x \<in> listed_ids repos} \<and>
    r_githubRepoId ` set rows = listed_ids repos \<and>
    (\<forall>x\<in>set rows. r_ownerId x = u \<and> belongs_to u (r_githubRepoId x) (wdb w') \<and>
      (\<forall>z v t env' od' gh n' sha256 p le. belongs_to u (r_githubRepoId x) (wdb z) \<and> v \<noteq> u \<and> healthy env' \<longrightarrow>
        (\<exists>z1 z2. syncRepository env' od' gh n' sha256 p (r_githubRepoId x) v t z =
            (Failed (HttpError ForbiddenException ''You do not have permission to sync this repository''), t, z1) \<and> wdb z1 = wdb z \<and>
          estimateCost env' od' gh n' le (r_githubRepoId x) v t z =
            (Failed (HttpError ForbiddenException ''You do not have permission to access this repository''), t, z2) \<and> wdb z2 = wdb z)))"
proof -
  obtain repos where repos: "request_finds env od lower collation c account app n u s w repos"
    "set rows = {x \<in> set (repositories (wdb w')). r_githubRepoId x \<in> listed_ids repos}"
    "r_githubRepoId ` set rows = listed_ids repos" and owner: "\<forall>x\<in>set rows. r_ownerId x = u \<and> belongs_to u (r_githubRepoId x) (wdb w')"
    using getRepositories_rows [OF assms] by blast
  have "\<exists>z1 z2. syncRepository env' od' gh n' sha256 p i v t z =
        (Failed (HttpError ForbiddenException ''You do not have permission to sync this repository''), t, z1) \<and> wdb z1 = wdb z \<and>
      estimateCost env' od' gh n' le i v t z =
        (Failed (HttpError ForbiddenException ''You do not have permission to access this repository''), t, z2) \<and> wdb z2 = wdb z"
    if "belongs_to u i (wdb z) \<and> v \<noteq> u \<and> healthy env'" for i z v t env' od' gh n' sha256 p le
    using requests_of_others [of env' u i z v] that by blast
  with repos owner show ?thesis by blast
qed

end
