(* ===== verification/GithubAppSamples.thy ===== *)
theory GithubAppSamples
  imports GithubAppProperties Samples
begin

text \<open>A user with an own installation, one of an organization of the user, and one of another.\<close>

definition sample_account :: "string \<Rightarrow> string \<Rightarrow> string \<Rightarrow> json" where
  "sample_account i name kind = JObj [(units ''id'', JStr (units i)), (units ''login'', JStr (units name)), (units ''type'', JStr (units kind))]"

definition sample_payload :: "string \<Rightarrow> json \<Rightarrow> json" where
  "sample_payload i account = JObj [(units ''id'', JStr (units i)), (units ''account'', account),
     (units ''repository_selection'', JStr (units ''all''))]"

definition sample_listed :: "json list" where
  "sample_listed = [sample_payload ''5'' (sample_account ''42'' ''dev'' ''User''),
     sample_payload ''6'' (sample_account ''99'' ''acme'' ''Organization''),
     sample_payload ''8'' (sample_account ''7'' ''other'' ''Organization'')]"

lemma install_sample_inv: "installations_inv (wdb (world_with j))"
  by (simp add: installations_inv_def idents_def link_keys_def world_with_def db_with_def)

lemma sample_sync: "fst (sync_links calm (\<lambda>_. None) id sample_user [units ''acme''] sample_listed (world_with sample_job)) = Inr ()"
  by code_simp

lemma calm_undisturbed [simp]: "undisturbed calm" "healthy calm"
  by (simp_all add: undisturbed_def healthy_def calm_def)

lemma sync_links_exactly_the_accessible_witness:
  "\<exists>w'. sync_links calm (\<lambda>_. None) id sample_user [units ''acme''] sample_listed (world_with sample_job) = (Inr (), w') \<and>
    linked 1 (wdb w') = {units ''5'', units ''6''}"
proof -
  let ?run = "sync_links calm (\<lambda>_. None) id sample_user [units ''acme''] sample_listed (world_with sample_job)"
  have run: "?run = (Inr (), snd ?run)" using sample_sync by (metis prod.collapse)
  have "linked (u_id sample_user) (wdb (snd ?run)) = accessible_ids id (u_githubId sample_user) (id ` set [units ''acme'']) sample_listed"
    using sync_links_exactly_the_accessible [OF _ install_sample_inv run] by simp
  moreover have "accessible_ids id (u_githubId sample_user) (id ` set [units ''acme'']) sample_listed = {units ''5'', units ''6''}"
    unfolding accessible_ids_def sample_listed_def by code_simp
  ultimately show ?thesis using run by (auto simp: sample_user_def)
qed

section \<open>A callback\<close>

definition sample_claims :: claims where
  "sample_claims = \<lparr>ck_sub = 1, ck_username = None, ck_jti = Some ''state-1'', ck_purpose = Some install_purpose\<rparr>"

definition install_jwt :: jwt_service where
  "install_jwt = \<lparr>jwt_sign = (\<lambda>c e n. Inr (units ''token'')), jwt_verify = (\<lambda>t n. Inr sample_claims)\<rparr>"

definition plain_gcm :: gcm where
  "plain_gcm = \<lparr>gcm_encrypt = (\<lambda>iv t. (t, [])), gcm_decrypt = (\<lambda>iv tag e. Inr e), gcm_random = (\<lambda>n. [n mod 256])\<rparr>"

definition answering_github :: github_account where
  "answering_github = \<lparr>gc_getInstallation = (\<lambda>i n. Inr (sample_payload ''5'' (sample_account ''42'' ''dev'' ''User''))),
     gc_listInstallations = (\<lambda>page n. Inr sample_listed), gc_listOrganizations = (\<lambda>token page n. Inr [units ''acme'']),
     gc_checkMembership = (\<lambda>token org name n. Inr ())\<rparr>"

definition sample_config :: github_app_config where
  "sample_config = \<lparr>gf_appId = ''1'', gf_installUrl = ''https://github.com/apps/git-mate/installations/new'', gf_privateKey = [],
     gf_webhookSecret = ''secret'', gf_frontendUrl = ''http://localhost:3005'', gf_jwtSecret = ''secret''\<rparr>"

definition state_world :: world where
  "state_world = \<lparr>wdb = put_install_states [\<lparr>st_id = ''state-1'', st_userId = 1, st_expiresAt = 2000000, st_consumedAt = None,
     st_createdAt = 0\<rparr>] (db_with sample_job), tick = 0\<rparr>"

definition saved_row :: "installation_status \<Rightarrow> int option \<Rightarrow> int \<Rightarrow> installation_row" where
  "saved_row status deleted updated = \<lparr>gi_id = 1, gi_githubInstallationId = units ''5'', gi_accountId = units ''42'',
     gi_accountLogin = units ''dev'', gi_accountType = USER, gi_repositorySelection = units ''all'', gi_status = status,
     gi_suspendedAt = None, gi_deletedAt = deleted, gi_githubCreatedAt = None, gi_githubUpdatedAt = None,
     gi_createdAt = 1000005, gi_updatedAt = updated\<rparr>"

definition called_db :: "installation_row \<Rightarrow> db" where
  "called_db g = (db_with sample_job)\<lparr>installations := [g],
     user_installations := [\<lparr>ul_userId = 1, ul_installationId = 1, ul_source = INSTALL_CALLBACK,
       ul_membershipVerifiedAt = 1000007, ul_linkedAt = 1000008\<rparr>],
     install_states := [\<lparr>st_id = ''state-1'', st_userId = 1, st_expiresAt = 2000000, st_consumedAt = Some 1000009,
       st_createdAt = 0\<rparr>]\<rparr>"

definition called_world :: world where
  "called_world = \<lparr>wdb = called_db (saved_row ACTIVE_INSTALLATION None 1000005), tick = 12\<rparr>"

lemma fetch_answer:
  "fetchInstallation answering_github i = external (\<lambda>n. Inr (sample_payload ''5'' (sample_account ''42'' ''dev'' ''User'')))"
  by (simp add: fetchInstallation_def answering_github_def catch_def external_def fun_eq_iff)

lemma sample_callback:
  "completeInstallation calm (\<lambda>_. None) install_jwt plain_gcm answering_github sample_config ''5'' (Some (units ''token'')) None
     state_world = (Inr (repositories_page sample_config ''installed'' ''5''), called_world)"
  unfolding completeInstallation_def fetch_answer by code_simp

lemma sample_links: "link_keys (wdb state_world) = []" "link_keys (wdb called_world) = [(1, 1)]"
  by (simp_all add: link_keys_def state_world_def called_world_def called_db_def db_with_def)

lemma callback_links_verified_access_witness:
  "has_access plain_gcm answering_github sample_user (sample_payload ''5'' (sample_account ''42'' ''dev'' ''User'')) \<and>
   link_keys (wdb called_world) = [(1, 1)]"
proof -
  have "link_keys (wdb called_world) \<noteq> link_keys (wdb state_world)" by (simp add: sample_links)
  from callback_links_verified_access [OF calm_undisturbed(1) sample_callback this]
  obtain s user x where "find_state (st_id s) (wdb state_world) = Some s" "find_user (st_userId s) (wdb state_world) = Some user"
    "\<exists>n. gc_getInstallation answering_github (js_Number ''5'') n = Inr x" "has_access plain_gcm answering_github user x"
    by blast
  then show ?thesis
    by (auto simp: sample_links find_state_def find_user_def state_world_def db_with_def sample_user_def answering_github_def
        split: if_splits)
qed

lemma used_state_is_refused_witness:
  "\<exists>v'. completeInstallation calm (\<lambda>_. None) install_jwt plain_gcm answering_github sample_config ''6'' (Some (units ''token''))
     (Some ''update'') called_world = (Inl invalid_installation_state, v') \<and> wdb v' = wdb called_world"
proof -
  have "one_state install_jwt (units ''token'')"
    by (auto simp: one_state_def names_state_def install_jwt_def sample_claims_def)
  moreover have "rely marks_kept calm" by (simp add: rely_def calm_def marks.G_refl)
  ultimately show ?thesis
    using used_state_is_refused [OF sample_callback _ _ marks.G_refl, of calm "\<lambda>_. None" plain_gcm answering_github sample_config
        "''6''" "Some ''update''"] by auto
qed

text \<open>
  Two callbacks with one state: the second begins and ends after the first has read the state and before the first
  begins its transaction.
\<close>

definition other_callback :: "world \<Rightarrow> (err + url) \<times> world" where
  "other_callback = completeInstallation calm (\<lambda>_. None) install_jwt plain_gcm answering_github sample_config ''6'' (Some (units ''token'')) None"

definition answered_url :: "err + url \<Rightarrow> bool" where
  "answered_url r = (case r of Inl e \<Rightarrow> False | Inr u \<Rightarrow> True)"

definition racing_env :: env where
  "racing_env = calm\<lparr>interference := (\<lambda>n d. if n = 4 then wdb (snd (other_callback \<lparr>wdb = d, tick = 100\<rparr>)) else d)\<rparr>"

lemma overlapping_callbacks_use_one_state:
  "answered_url (fst (other_callback (state_world\<lparr>tick := 100\<rparr>))) \<and>
   answered_url (fst (completeInstallation racing_env (\<lambda>_. None) install_jwt plain_gcm answering_github sample_config ''5''
     (Some (units ''token'')) None state_world))"
  unfolding other_callback_def racing_env_def completeInstallation_def fetch_answer by code_simp

section \<open>A delivery\<close>

definition sample_body :: "nat list" where
  "sample_body = units (''{'' @ [CHR 0x22] @ ''action'' @ [CHR 0x22] @ '':'' @ [CHR 0x22] @ ''deleted'' @ [CHR 0x22] @ '','' @
     [CHR 0x22] @ ''installation'' @ [CHR 0x22] @ '':{'' @ [CHR 0x22] @ ''id'' @ [CHR 0x22] @ '':'' @ [CHR 0x22] @ ''5'' @ [CHR 0x22] @ ''}}'')"

definition sample_delivery :: json where
  "sample_delivery = JObj [(units ''action'', JStr (units ''deleted'')), (units ''installation'', JObj [(units ''id'', JStr (units ''5''))])]"

lemma sample_body_parsed: "parsePayload sample_body = Inr sample_delivery"
  by code_simp

definition sample_digest :: "nat list \<Rightarrow> nat list" where
  "sample_digest b = [length b, 17]"

definition handled_world :: world where
  "handled_world = \<lparr>wdb = called_db (saved_row DELETED (Some 1000012) 1000013), tick = 14\<rparr>"

lemma signature_accepted: "verifySignature hmac b (expected_signature hmac b) = Inr ()"
  by (simp add: verifySignature_def)

lemma sample_handled:
  "handle calm (\<lambda>_. None) sample_digest (Some sample_body) (Some (expected_signature sample_digest sample_body))
     (Some ''installation'') called_world = (Inr (), handled_world)"
  unfolding handle_def option.sel sample_body_parsed signature_accepted by code_simp

lemma sample_delivery_id: "installation_id (payload_installation sample_delivery) = units ''5''"
  by (simp add: sample_delivery_def installation_id_def payload_installation_def property_def get_property_def js_String_def)

lemma webhook_changes_what_it_names_witness:
  "others_kept (units ''5'') (wdb called_world) (wdb handled_world)"
proof -
  have "gi_status (hd (installations (wdb handled_world))) \<noteq> gi_status (hd (installations (wdb called_world)))"
    by (simp add: called_world_def handled_world_def called_db_def saved_row_def)
  then have "wdb handled_world \<noteq> wdb called_world" by auto
  from webhook_changes_what_it_names [OF calm_undisturbed(1) sample_handled this] show ?thesis
    by (auto simp: sample_body_parsed sample_delivery_id)
qed

lemma deleted_installation_is_unavailable_witness:
  "units ''5'' \<notin> set (active_installations_of 1 (wdb handled_world))"
proof -
  have "property ''action'' (Some sample_delivery) = Some (JStr (units ''deleted''))"
    by (simp add: sample_delivery_def property_def get_property_def)
  from deleted_installation_is_unavailable [OF calm_undisturbed(1) sample_handled sample_body_parsed this calm_undisturbed(1) refl, of 1]
  show ?thesis by (simp add: sample_delivery_id)
qed

end
