(* ===== verification/RepositorySamples.thy ===== *)
theory RepositorySamples
  imports RepositoryProperties GithubAppSamples
begin

text \<open>Another user, whose installation gives access to the repository of the first, lists it.\<close>

definition listing_user :: user_row where
  "listing_user = sample_user\<lparr>u_id := 2, u_githubId := ''99'', u_username := ''amy'', u_githubToken := Some ''::61''\<rparr>"

definition listing_world :: world where
  "listing_world = \<lparr>wdb = (db_with sample_job)\<lparr>users := [sample_user, listing_user]\<rparr>, tick = 0\<rparr>"

definition listing_account :: github_account where
  "listing_account = answering_github\<lparr>gc_listInstallations := (\<lambda>page n. Inr [sample_payload ''5'' (sample_account ''99'' ''amy'' ''User'')]),
     gc_listOrganizations := (\<lambda>token page n. Inr [])\<rparr>"

definition listing_app :: github_app where
  "listing_app = \<lparr>ga_createToken = (\<lambda>i n. Inr (''token'', units ''soon'')),
     ga_listRepositories = (\<lambda>token page n. Inr [(777, ''dev/tool'', True)])\<rparr>"

definition fresh_session :: session where
  "fresh_session = \<lparr>se_beat = 0, se_tokens = Map.empty\<rparr>"

abbreviation sample_listing :: "repository_row list outcome \<times> session \<times> world" where
  "sample_listing \<equiv> getRepositories calm (\<lambda>_. None) id (\<lambda>_ _. True) (\<lambda>_ _. True) plain_gcm listing_account listing_app 2 2
     fresh_session listing_world"

lemma sample_listing_rows: "fst sample_listing = Done [sample_repository\<lparr>r_ownerId := 2\<rparr>]"
  by code_simp

text \<open>The first user is refused also later, in a world where only the repository's name has changed.\<close>

definition renamed_world :: world where
  "renamed_world = listing_world\<lparr>wdb := put_repositories [sample_repository\<lparr>r_ownerId := 2, r_fullName := ''dev/renamed''\<rparr>]
     (wdb listing_world), tick := 9\<rparr>"

lemma renamed_world_belongs: "belongs_to 2 ''777'' (wdb renamed_world)"
  by (auto simp: belongs_to_def owned_by_def renamed_world_def listing_world_def find_user_def listing_user_def
      sample_user_def sample_repository_def)

lemma listing_takes_ownership_witness:
  "belongs_to 2 ''777'' (wdb (snd (snd sample_listing))) \<and>
   (\<forall>gh p. \<exists>z1. syncRepository calm (\<lambda>_. None) gh 2 (\<lambda>s. s) p ''777'' 1 fresh_session renamed_world =
     (Failed (HttpError ForbiddenException ''You do not have permission to sync this repository''), fresh_session, z1) \<and>
       wdb z1 = wdb renamed_world)"
proof -
  let ?row = "sample_repository\<lparr>r_ownerId := 2\<rparr>"
  have run: "sample_listing = (Done [?row], fst (snd sample_listing), snd (snd sample_listing))"
    using sample_listing_rows by (metis prod.collapse)
  have i: "r_githubRepoId ?row = ''777''" and v: "(1 :: int) \<noteq> 2" by (simp_all add: sample_repository_def)
  have row: "?row \<in> set [?row]" by simp
  note all = listing_takes_ownership [OF calm_undisturbed(1) run]
  have "belongs_to 2 ''777'' (wdb (snd (snd sample_listing)))"
    using all by (elim exE conjE) (drule bspec [OF _ row], simp only: i)
  moreover have "\<exists>z1. syncRepository calm (\<lambda>_. None) gh 2 (\<lambda>s. s) p ''777'' 1 fresh_session renamed_world =
     (Failed (HttpError ForbiddenException ''You do not have permission to sync this repository''), fresh_session, z1) \<and>
       wdb z1 = wdb renamed_world" for gh p
  proof -
    have here: "belongs_to 2 ''777'' (wdb renamed_world) \<and> 1 \<noteq> (2 :: int) \<and> healthy calm"
      using renamed_world_belongs v by simp
    obtain repos where "\<forall>x\<in>set [?row]. r_ownerId x = 2 \<and> belongs_to 2 (r_githubRepoId x) (wdb (snd (snd sample_listing))) \<and>
        (\<forall>z v t env' od' gh n' sha256 p le. belongs_to 2 (r_githubRepoId x) (wdb z) \<and> v \<noteq> 2 \<and> healthy env' \<longrightarrow>
          (\<exists>z1 z2. syncRepository env' od' gh n' sha256 p (r_githubRepoId x) v t z =
              (Failed (HttpError ForbiddenException ''You do not have permission to sync this repository''), t, z1) \<and> wdb z1 = wdb z \<and>
            estimateCost env' od' gh n' le (r_githubRepoId x) v t z =
              (Failed (HttpError ForbiddenException ''You do not have permission to access this repository''), t, z2) \<and> wdb z2 = wdb z))"
      using all by (elim exE conjE)
    from bspec [OF this row, unfolded i] here show ?thesis by blast
  qed
  ultimately show ?thesis by blast
qed

end
