(* ===== verification/SystemProperties.thy ===== *)
theory SystemProperties
  imports RepositorySamples CollectionComplete ApiProperties AuthProperties
begin

text \<open>
  The program as a whole: every entry point that writes the database, run one after the other and
  inside one another, keeps the ledger.
\<close>

section \<open>What the program does\<close>

text \<open>
  \<open>operation env w w'\<close>: one call of an entry point of the program, whatever its arguments and whatever
  the services it calls answer, takes \<open>w\<close> to \<open>w'\<close>: the handler of the worker, the reconciler, and the
  handlers of the HTTP controllers that write.
\<close>

inductive operation :: "env \<Rightarrow> world \<Rightarrow> world \<Rightarrow> bool" where
  worker: "operation env w (snd (handler (repository_collector env od gh bound s) (llm_service le env) factory env created batch w))"
| reconciler: "operation env w (snd (runOnce parse_url (sqs_publish parse_url send) env w))"
| job_posted: "operation env w (snd (post_job parse_url (sqs_publish parse_url send) sha256 env refused user body rawKey w))"
| job_retried: "operation env w (snd (post_retry parse_url (sqs_publish parse_url send) sha256 env refused user rawId rawKey w))"
| synchronized: "operation env w (snd (snd (syncRepository env od gh bound sha256 (llm_service le env) repo u s w)))"
| cost_estimated: "operation env w (snd (snd (estimateCost env od gh bound le repo u s w)))"
| repositories_listed: "operation env w (snd (snd (getRepositories env od lower collation name_order c account app bound u s w)))"
| report_shared: "operation env w (snd (patch_share env u rawId flag w))"
| report_represents: "operation env w (snd (patch_representative env u rawId w))"
| signed_in: "operation env w (snd (githubAuthRedirect env j b c details state w))"
| refreshed: "operation env w (snd (refresh env j b token header w))"
| user_deactivated: "operation env w (snd (deactivateUser env u w))"
| installation_requested: "operation env w (snd (createInstallUrl env j cfg u w))"
| installation_completed: "operation env w (snd (completeInstallation env od j c account cfg i state action w))"
| installations_listed: "operation env w (snd (snd (getInstallations env od lower collation c account bound u s w)))"
| delivered: "operation env w (snd (handle env od hmac body signature event w))"

text \<open>
  \<open>system_run d d'\<close>: calls take the database from \<open>d\<close> to \<open>d'\<close>, one after the other; between any two
  round trips of a call, what other processes do is such a run again. A call may fail at any of its round
  trips, before or after the statement took effect.
\<close>

inductive system_run :: "db \<Rightarrow> db \<Rightarrow> bool" where
  idle: "system_run d d"
| called: "system_run d (wdb w) \<Longrightarrow> \<forall>n x. system_run x (interference env n x) \<Longrightarrow> operation env w w' \<Longrightarrow>
    system_run d (wdb w')"

inductive_cases operationE: "operation env w w'"

section \<open>The ledger\<close>

lemma guarD: "guar evolves m \<Longrightarrow> evolves (wdb w) (wdb (snd (m w)))"
  by (simp add: guar_def)

lemma run_guarD: "run_guar m \<Longrightarrow> evolves (wdb w) (wdb (snd (snd (m s w))))"
  by (simp add: run_guar_def)

lemma operation_evolves:
  assumes "operation env w w'" "rely evolves env"
  shows "evolves (wdb w) (wdb w')"
  using assms
  by (cases rule: operation.cases)
    (auto intro!: guarD run_guarD handler_guar repository_collector_guar llm_service_guar runOnce_guar sqs_queue_guar
      requests_guar repository_requests_guar report_requests_guar oauth_guar auth_requests_guar install_requests_guar
      completeInstallation_guar getInstallations_guar)

lemma system_evolves:
  assumes "system_run d d'"
  shows "evolves d d'"
  using assms
proof induction
  case (idle d)
  show ?case by (rule ledger.G_refl)
next
  case (called d w env w')
  have "rely evolves env" using called.IH(2) by (simp add: rely_def)
  from operation_evolves [OF called.hyps(2) this] called.IH(1) show ?case by (blast intro: ledger.G_trans)
qed

end
