(* ===== verification/Grader.thy ===== *)
theory Grader
  imports LlmProvider Worker ResultValues
begin

text \<open>
  The grader of the prompt evaluation (\<open>src/src/analysis/evals/grader.ts\<close>): it compares the outputs of a
  model for synthetic fixtures with what a fixture expects. \<open>toLowerCase\<close> is the lower case of the
  locale \<open>en-US\<close>; the format of dates that the schema library accepts is a parameter.
\<close>

section \<open>Fixtures\<close>

record score_band =
  band_min :: rat
  band_max :: rat

record fixture_evidence =
  fe_prNumber :: int
  fe_permalink :: utext
  fe_sourceType :: source_type
  fe_targetRelation :: target_relation
  fe_author :: utext
  fe_quote :: utext

record evidence_contract =
  mustCite :: "fixture_evidence list"
  mustNotCite :: "fixture_evidence list"

datatype golden_level = High | Medium | Low

record golden_fixture =
  gx_id :: string
  gx_focusMetric :: metric_key
  gx_level :: golden_level
  gx_input :: collected_data
  gx_expectedScoreBands :: "metric_key \<Rightarrow> score_band"
  gx_evidenceContract :: "metric_key \<Rightarrow> evidence_contract"
  gx_tags :: "string list"

definition prepareGoldenFixtureInput :: "collected_data \<Rightarrow> collected_data" where
  "prepareGoldenFixtureInput d = preprocess (refine d)"

section \<open>Schemas\<close>

definition metadata_accepts :: "(utext \<Rightarrow> bool) \<Rightarrow> json \<Rightarrow> bool" where
  "metadata_accepts datetime v =
     (case strict_object [''requestedModel'', ''responseModel'', ''promptVersion'', ''schemaVersion'', ''generatedAt''] v of
        None \<Rightarrow> False
      | Some get \<Rightarrow>
          list_all (\<lambda>k. Option.bind (text_of_json (get k)) (trimmed 1 100) \<noteq> None) [''requestedModel'', ''responseModel'', ''promptVersion'']
          \<and> get ''schemaVersion'' = Some (JStr (units ''analysis-result-v3''))
          \<and> (case text_of_json (get ''generatedAt'') of None \<Rightarrow> False | Some s \<Rightarrow> datetime s))"

text \<open>\<open>analysisResultSchema.safeParse(output)\<close>, of which the payload is used.\<close>

definition safeParse_result :: "(utext \<Rightarrow> bool) \<Rightarrow> json \<Rightarrow> llm_payload option" where
  "safeParse_result datetime v =
     (case v of
        JObj kvs \<Rightarrow> (case get_property (units ''metadata'') kvs of
            None \<Rightarrow> None
          | Some m \<Rightarrow> if metadata_accepts datetime m
                      then safeParse_payload (JObj (filter (\<lambda>kv. fst kv \<noteq> units ''metadata'') kvs)) else None)
      | _ \<Rightarrow> None)"

text \<open>\<open>z.string().trim().min(1)\<close>\<close>

definition nonblank_text :: "json option \<Rightarrow> utext option" where
  "nonblank_text v = Option.bind (text_of_json v) (\<lambda>s. let t = text_trim s in if t = [] then None else Some t)"

text \<open>A legacy evaluation has no evidence.\<close>

definition legacyMetricEvaluationSchema :: "json \<Rightarrow> metric_evaluation option" where
  "legacyMetricEvaluationSchema v =
     Option.bind (strict_object [''score'', ''reason'', ''improvement'', ''example''] v) (\<lambda>get.
     Option.bind (number_of_json (get ''score'')) (\<lambda>q.
     Option.bind (nonblank_text (get ''reason'')) (\<lambda>r.
     Option.bind (nonblank_text (get ''improvement'')) (\<lambda>i.
     Option.bind (nonblank_text (get ''example'')) (\<lambda>x.
     if valid_score q then Some \<lparr>score = q, reason = r, improvement = i, example_text = x, evidence_list = []\<rparr> else None)))))"

definition legacyAnalysisResultSchema :: "json \<Rightarrow> llm_payload option" where
  "legacyAnalysisResultSchema v =
     Option.bind (strict_object (map metric_name ANALYSIS_METRIC_KEYS @ [''summary'']) v) (\<lambda>get.
     let m = (\<lambda>k. Option.bind (get (metric_name k)) legacyMetricEvaluationSchema) in
     if list_all (\<lambda>k. m k \<noteq> None) ANALYSIS_METRIC_KEYS
     then map_option (\<lambda>s. \<lparr>metric = (\<lambda>k. the (m k)), summary = s\<rparr>) (nonblank_text (get ''summary''))
     else None)"

section \<open>Results\<close>

datatype eval_error =
  EvidenceError issue_code | MISSING_OUTPUT | SCHEMA_INVALID
| FIXTURE_REQUIRED_EVIDENCE_MISSING | FIXTURE_FORBIDDEN_EVIDENCE

record eval_case =
  ec_fixtureId :: string
  ec_schemaPassed :: bool
  ec_evidencePassed :: bool
  ec_fabricatedCitationCount :: nat
  ec_wrongUserAttributionCount :: nat
  ec_unsupportedClaimCount :: nat
  ec_evidenceGatePassed :: bool
  ec_matchingLabels :: nat
  ec_totalLabels :: nat
  ec_errorTypes :: "eval_error list"

record eval_input =
  ei_fixtureId :: string
  ei_output :: "json option"
  ei_evidenceIssues :: "issue list option"

datatype output_format = Structured | Legacy

definition failedCase :: "string \<Rightarrow> eval_error \<Rightarrow> eval_case" where
  "failedCase i e = \<lparr>ec_fixtureId = i, ec_schemaPassed = False, ec_evidencePassed = False, ec_fabricatedCitationCount = 0,
     ec_wrongUserAttributionCount = 0, ec_unsupportedClaimCount = 0, ec_evidenceGatePassed = False, ec_matchingLabels = 0,
     ec_totalLabels = length ANALYSIS_METRIC_KEYS, ec_errorTypes = [e]\<rparr>"

definition position :: "issue \<Rightarrow> string" where
  "position i = (case issueMetric i of None \<Rightarrow> ''summary'' | Some k \<Rightarrow> metric_name k) @ '':'' @
     (case evidenceIndex i of None \<Rightarrow> ''narrative'' | Some n \<Rightarrow> nat_digits n)"

text \<open>\<open>uniqueEvidencePositions(issues.filter(...)).size\<close>\<close>

definition positions_with :: "issue_code list \<Rightarrow> issue list \<Rightarrow> nat" where
  "positions_with codes is = length (set_items (map position (filter (\<lambda>i. issueCode i \<in> set codes) is)))"

definition countEvidenceFailures :: "issue list \<Rightarrow> nat \<times> nat" where
  "countEvidenceFailures is = (positions_with [UNKNOWN_PR, PERMALINK_MISMATCH] is,
     positions_with [AUTHOR_MISMATCH, QUOTE_NOT_OWNED, SOURCE_RELATION_MISMATCH] is)"

definition countUnsupportedClaims :: "issue list \<Rightarrow> nat" where
  "countUnsupportedClaims is = positions_with [UNSUPPORTED_SCORE_WITHOUT_EVIDENCE, QUOTE_TOO_SHORT] is"

definition failedEvidenceCase :: "string \<Rightarrow> issue list \<Rightarrow> eval_case" where
  "failedEvidenceCase i is =
     (let (fabricated, wrong) = countEvidenceFailures is in
      \<lparr>ec_fixtureId = i, ec_schemaPassed = True, ec_evidencePassed = False, ec_fabricatedCitationCount = fabricated,
       ec_wrongUserAttributionCount = wrong, ec_unsupportedClaimCount = countUnsupportedClaims is,
       ec_evidenceGatePassed = False, ec_matchingLabels = 0, ec_totalLabels = length ANALYSIS_METRIC_KEYS,
       ec_errorTypes = set_items (map (\<lambda>x. EvidenceError (issueCode x)) is)\<rparr>)"

definition countMatchingLabels :: "llm_payload \<Rightarrow> golden_fixture \<Rightarrow> nat" where
  "countMatchingLabels r f = length (filter (\<lambda>k. band_min (gx_expectedScoreBands f k) \<le> score (metric r k) \<and>
     score (metric r k) \<le> band_max (gx_expectedScoreBands f k)) ANALYSIS_METRIC_KEYS)"

section \<open>Structured outputs\<close>

definition matchesStructuredEvidenceActivity :: "unicode \<Rightarrow> evidence \<Rightarrow> fixture_evidence \<Rightarrow> bool" where
  "matchesStructuredEvidenceActivity u actual expected \<longleftrightarrow>
     prNumber actual = fe_prNumber expected \<and> permalink actual = fe_permalink expected \<and>
     toLocaleLowerCase u (author actual) = toLocaleLowerCase u (fe_author expected) \<and>
     sourceType actual = fe_sourceType expected \<and> targetRelation actual = fe_targetRelation expected"

definition matchesRequiredStructuredEvidence :: "unicode \<Rightarrow> evidence \<Rightarrow> fixture_evidence \<Rightarrow> bool" where
  "matchesRequiredStructuredEvidence u actual expected \<longleftrightarrow>
     matchesStructuredEvidenceActivity u actual expected \<and>
     normalizeEvidenceText (quote actual) = normalizeEvidenceText (fe_quote expected)"

text \<open>What a metric adds to the errors: required evidence that is missing, forbidden evidence that is there.\<close>

definition contract_errors :: "bool \<Rightarrow> bool \<Rightarrow> evidence_contract \<Rightarrow> eval_error list" where
  "contract_errors cited forbidden c =
     (if mustCite c \<noteq> [] \<and> \<not> cited then [FIXTURE_REQUIRED_EVIDENCE_MISSING] else []) @
     (if forbidden then [FIXTURE_FORBIDDEN_EVIDENCE] else [])"

definition validateStructuredFixtureEvidence :: "unicode \<Rightarrow> llm_payload \<Rightarrow> golden_fixture \<Rightarrow> eval_error list" where
  "validateStructuredFixtureEvidence u r f =
     set_items (concat (map (\<lambda>k. let c = gx_evidenceContract f k; es = evidence_list (metric r k) in
       contract_errors (list_ex (\<lambda>e. list_ex (matchesRequiredStructuredEvidence u e) (mustCite c)) es)
         (list_ex (\<lambda>e. list_ex (matchesStructuredEvidenceActivity u e) (mustNotCite c)) es) c) ANALYSIS_METRIC_KEYS))"

definition gradeStructuredCase :: "unicode \<Rightarrow> (utext \<Rightarrow> bool) \<Rightarrow> golden_fixture \<Rightarrow> json \<Rightarrow> eval_case" where
  "gradeStructuredCase u datetime f out =
     (case safeParse_result datetime out of
        None \<Rightarrow> failedCase (gx_id f) SCHEMA_INVALID
      | Some r \<Rightarrow>
          (let is = validateAnalysisEvidence u r (prepareGoldenFixtureInput (gx_input f));
               (fabricated, wrong) = countEvidenceFailures is;
               errors = validateStructuredFixtureEvidence u r f in
           \<lparr>ec_fixtureId = gx_id f, ec_schemaPassed = True, ec_evidencePassed = (is = []), ec_fabricatedCitationCount = fabricated,
            ec_wrongUserAttributionCount = wrong, ec_unsupportedClaimCount = countUnsupportedClaims is,
            ec_evidenceGatePassed = (errors = []), ec_matchingLabels = countMatchingLabels r f,
            ec_totalLabels = length ANALYSIS_METRIC_KEYS,
            ec_errorTypes = set_items (map (\<lambda>x. EvidenceError (issueCode x)) is) @ errors\<rparr>))"

section \<open>Legacy outputs\<close>

text \<open>
  A citation is known by the number its digits denote, \<^const>\<open>None\<close> for an infinity; the second part is
  the link, if there is one.
\<close>

type_synonym legacy_citation = "rat option \<times> utext option"

text \<open>
  \<open>text.matchAll(pattern)\<close>: \<open>m prev s\<close> is what the expression matches at the beginning of \<open>s\<close> after the
  unit \<open>prev\<close>, with its length, which is not 0.
\<close>

primrec match_all :: "(nat option \<Rightarrow> utext \<Rightarrow> ('a \<times> nat) option) \<Rightarrow> nat \<Rightarrow> nat option \<Rightarrow> utext \<Rightarrow> 'a list" where
  "match_all m gap prev [] = []"
| "match_all m gap prev (c # s) =
     (case gap of
        Suc k \<Rightarrow> match_all m k (Some c) s
      | 0 \<Rightarrow> (case m prev (c # s) of
            None \<Rightarrow> match_all m 0 (Some c) s
          | Some (a, n) \<Rightarrow> a # match_all m (n - 1) (Some c) s))"

text \<open>The text after a literal, given in lower case, without regard to case.\<close>

definition after_literal :: "string \<Rightarrow> utext \<Rightarrow> utext option" where
  "after_literal l s = (if map fold_char (take (length l) s) = units l then Some (drop (length l) s) else None)"

text \<open>\<open>[^/\s)]+\<close> before a slash\<close>

definition after_segment :: "utext \<Rightarrow> utext option" where
  "after_segment s = (let p = (\<lambda>c. c \<noteq> 47 \<and> \<not> text_space c \<and> c \<noteq> 41) in
     if takeWhile p s = [] then None else Some (dropWhile p s))"

text \<open>\<open>[1-9]\d*\<close>\<close>

definition leading_number :: "utext \<Rightarrow> utext option" where
  "leading_number s = (let d = takeWhile digit s in if d = [] \<or> hd d = 48 then None else Some d)"

definition permalink_match :: "nat option \<Rightarrow> utext \<Rightarrow> ((utext \<times> utext) \<times> nat) option" where
  "permalink_match prev s =
     Option.bind (after_literal ''https://github.com/'' s) (\<lambda>a.
     Option.bind (after_segment a) (\<lambda>b.
     Option.bind (after_literal ''/'' b) (\<lambda>c.
     Option.bind (after_segment c) (\<lambda>d.
     Option.bind (after_literal ''/pull/'' d) (\<lambda>e.
     Option.bind (leading_number e) (\<lambda>n.
     let len = length s - length e + length n in Some ((take len s, n), len)))))))"

definition number_match :: "nat option \<Rightarrow> utext \<Rightarrow> (utext \<times> nat) option" where
  "number_match prev s =
     (if (case prev of Some c \<Rightarrow> word_char c | None \<Rightarrow> False) then None
      else Option.bind (after_literal ''pr'' s) (\<lambda>a.
     Option.bind (after_literal ''#'' (dropWhile text_space a)) (\<lambda>e.
     Option.bind (leading_number e) (\<lambda>n.
     if char_at word_char e (length n) then None else Some (n, length s - length e + length n)))))"

definition cited_number :: "utext \<Rightarrow> rat option" where
  "cited_number ds = to_double (of_nat (decimal ds))"

text \<open>\<open>map.set(key, value)\<close>: a new key comes last.\<close>

definition map_set :: "'k \<Rightarrow> 'v \<Rightarrow> ('k \<times> 'v) list \<Rightarrow> ('k \<times> 'v) list" where
  "map_set k v xs = (if k \<in> fst ` set xs then map (\<lambda>(a, b). if a = k then (a, v) else (a, b)) xs else xs @ [(k, v)])"

definition extractLegacyCitations :: "utext \<Rightarrow> legacy_citation list" where
  "extractLegacyCitations s =
     (let links = fold (\<lambda>(link, n) cs. map_set (cited_number n) (Some link) cs) (match_all permalink_match 0 None s) [] in
      fold (\<lambda>n cs. if cited_number n \<in> fst ` set cs then cs else map_set (cited_number n) None cs)
        (match_all number_match 0 None s) links)"

definition hasTargetActivity :: "unicode \<Rightarrow> pull_request_dto \<Rightarrow> utext \<Rightarrow> bool" where
  "hasTargetActivity u p targetUser =
     (let same = (\<lambda>a. toLocaleLowerCase u a = toLocaleLowerCase u targetUser) in
      same (pr_author p) \<or> list_ex (\<lambda>r. same (v_author r) \<or> list_ex (\<lambda>c. same (c_author c)) (v_comments r)) (pr_reviews p))"

text \<open>The body of the loop over citations: an error, or a valid citation.\<close>

definition citation_error :: "unicode \<Rightarrow> golden_fixture \<Rightarrow> legacy_citation \<Rightarrow> issue_code option" where
  "citation_error u f c =
     (case find (\<lambda>p. fst c = Some (of_int (pr_number p))) (cd_pullRequests (gx_input f)) of
        None \<Rightarrow> Some UNKNOWN_PR
      | Some p \<Rightarrow>
          if (case snd c of None \<Rightarrow> False | Some l \<Rightarrow> toLocaleLowerCase u l \<noteq> toLocaleLowerCase u (pr_permalink p)) then Some UNKNOWN_PR
          else if \<not> hasTargetActivity u p (cd_targetUser (gx_input f)) then Some AUTHOR_MISMATCH else None)"

definition metric_citations :: "llm_payload \<Rightarrow> metric_key \<Rightarrow> legacy_citation list" where
  "metric_citations r k = (let m = metric r k in
     extractLegacyCitations (join_with [10] [reason m, improvement m, example_text m]))"

text \<open>The errors of a metric, in the order the loop meets them.\<close>

definition legacy_metric_errors :: "unicode \<Rightarrow> golden_fixture \<Rightarrow> llm_payload \<Rightarrow> metric_key \<Rightarrow> issue_code list" where
  "legacy_metric_errors u f r k =
     (let results = map (citation_error u f) (metric_citations r k) in
      List.map_filter id results @
      (if None \<notin> set results \<and> score (metric r k) \<noteq> 3 \<and> score (metric r k) \<noteq> 7 / 2
       then [UNSUPPORTED_SCORE_WITHOUT_EVIDENCE] else []))"

definition matchesRequiredLegacyEvidence :: "unicode \<Rightarrow> legacy_citation \<Rightarrow> fixture_evidence \<Rightarrow> bool" where
  "matchesRequiredLegacyEvidence u c e \<longleftrightarrow> fst c = Some (of_int (fe_prNumber e)) \<and>
     map_option (toLocaleLowerCase u) (snd c) = Some (toLocaleLowerCase u (fe_permalink e))"

definition validateLegacyFixtureEvidence :: "unicode \<Rightarrow> golden_fixture \<Rightarrow> (metric_key \<Rightarrow> legacy_citation list) \<Rightarrow> eval_error list" where
  "validateLegacyFixtureEvidence u f citations =
     set_items (concat (map (\<lambda>k. let c = gx_evidenceContract f k in
       contract_errors (list_ex (\<lambda>x. list_ex (matchesRequiredLegacyEvidence u x) (mustCite c)) (citations k))
         (list_ex (\<lambda>x. list_ex (\<lambda>e. fst x = Some (of_int (fe_prNumber e))) (mustNotCite c)) (citations k)) c) ANALYSIS_METRIC_KEYS))"

definition gradeLegacyCase :: "unicode \<Rightarrow> golden_fixture \<Rightarrow> json \<Rightarrow> eval_case" where
  "gradeLegacyCase u f out =
     (case legacyAnalysisResultSchema out of
        None \<Rightarrow> failedCase (gx_id f) SCHEMA_INVALID
      | Some r \<Rightarrow>
          (let found = concat (map (legacy_metric_errors u f r) ANALYSIS_METRIC_KEYS);
               errors = validateLegacyFixtureEvidence u f (metric_citations r) in
           \<lparr>ec_fixtureId = gx_id f, ec_schemaPassed = True, ec_evidencePassed = (found = []),
            ec_fabricatedCitationCount = count_list found UNKNOWN_PR,
            ec_wrongUserAttributionCount = count_list found AUTHOR_MISMATCH,
            ec_unsupportedClaimCount = count_list found UNSUPPORTED_SCORE_WITHOUT_EVIDENCE,
            ec_evidenceGatePassed = (errors = []), ec_matchingLabels = countMatchingLabels r f,
            ec_totalLabels = length ANALYSIS_METRIC_KEYS, ec_errorTypes = set_items (map EvidenceError found @ errors)\<rparr>))"

section \<open>The grade\<close>

definition gradeCase :: "unicode \<Rightarrow> (utext \<Rightarrow> bool) \<Rightarrow> output_format \<Rightarrow> golden_fixture \<Rightarrow> eval_input option \<Rightarrow> eval_case" where
  "gradeCase u datetime format f candidate =
     (case candidate of
        None \<Rightarrow> failedCase (gx_id f) MISSING_OUTPUT
      | Some c \<Rightarrow> (case ei_evidenceIssues c of
            Some is \<Rightarrow> failedEvidenceCase (gx_id f) is
          | None \<Rightarrow> (case ei_output c of
                None \<Rightarrow> failedCase (gx_id f) MISSING_OUTPUT
              | Some out \<Rightarrow> if format = Legacy then gradeLegacyCase u f out else gradeStructuredCase u datetime f out)))"

definition ANALYSIS_EVAL_TOTAL_CASES :: nat where
  "ANALYSIS_EVAL_TOTAL_CASES = 24"

definition ANALYSIS_EVAL_TOTAL_LABELS :: nat where
  "ANALYSIS_EVAL_TOTAL_LABELS = 192"

definition ANALYSIS_EVAL_MIN_AGREEMENT :: nat where
  "ANALYSIS_EVAL_MIN_AGREEMENT = 154"

record eval_summary =
  es_passed :: bool
  es_totalCases :: nat
  es_schemaPassedCases :: nat
  es_schemaPassRate :: "rat option"
  es_fabricatedPrCitations :: nat
  es_wrongUserAttributions :: nat
  es_unsupportedClaims :: nat
  es_scoreBandMatchingLabels :: nat
  es_scoreBandTotalLabels :: nat
  es_scoreBandAgreement :: "rat option"
  es_evidenceValidationFailures :: nat
  es_evidenceGateFailures :: nat
  es_missingOutputs :: nat
  es_cases :: "eval_case list"

definition total :: "(eval_case \<Rightarrow> nat) \<Rightarrow> eval_case list \<Rightarrow> nat" where
  "total f cs = sum_list (map f cs)"

definition count_cases :: "(eval_case \<Rightarrow> bool) \<Rightarrow> eval_case list \<Rightarrow> nat" where
  "count_cases p cs = length (filter p cs)"

definition summary_of :: "eval_case list \<Rightarrow> eval_summary" where
  "summary_of cs =
     (let schemaPassed = count_cases ec_schemaPassed cs; fabricated = total ec_fabricatedCitationCount cs;
          wrong = total ec_wrongUserAttributionCount cs; unsupported = total ec_unsupportedClaimCount cs;
          matching = total ec_matchingLabels cs; labels = total ec_totalLabels cs;
          evidenceFailures = count_cases (\<lambda>c. \<not> ec_evidencePassed c) cs;
          gateFailures = count_cases (\<lambda>c. \<not> ec_evidenceGatePassed c) cs;
          missing = count_cases (\<lambda>c. MISSING_OUTPUT \<in> set (ec_errorTypes c)) cs in
      \<lparr>es_passed = (length cs = ANALYSIS_EVAL_TOTAL_CASES \<and> schemaPassed = ANALYSIS_EVAL_TOTAL_CASES \<and> fabricated = 0 \<and>
         wrong = 0 \<and> unsupported = 0 \<and> labels = ANALYSIS_EVAL_TOTAL_LABELS \<and> ANALYSIS_EVAL_MIN_AGREEMENT \<le> matching \<and>
         evidenceFailures = 0 \<and> gateFailures = 0 \<and> missing = 0),
       es_totalCases = length cs, es_schemaPassedCases = schemaPassed,
       es_schemaPassRate = to_double (of_nat schemaPassed / of_nat ANALYSIS_EVAL_TOTAL_CASES),
       es_fabricatedPrCitations = fabricated, es_wrongUserAttributions = wrong, es_unsupportedClaims = unsupported,
       es_scoreBandMatchingLabels = matching, es_scoreBandTotalLabels = labels,
       es_scoreBandAgreement = to_double (of_nat matching / of_nat ANALYSIS_EVAL_TOTAL_LABELS),
       es_evidenceValidationFailures = evidenceFailures, es_evidenceGateFailures = gateFailures,
       es_missingOutputs = missing, es_cases = cs\<rparr>)"

text \<open>A \<open>Map\<close> of the outputs: the last one of a fixture counts.\<close>

definition output_for :: "eval_input list \<Rightarrow> string \<Rightarrow> eval_input option" where
  "output_for outputs i = find (\<lambda>o1. ei_fixtureId o1 = i) (rev outputs)"

definition wrong_number_of_fixtures :: "nat \<Rightarrow> err" where
  "wrong_number_of_fixtures n =
     PlainError (''Expected '' @ nat_digits ANALYSIS_EVAL_TOTAL_CASES @ '' fixtures, received '' @ nat_digits n @ ''.'')"

definition gradeAnalysisOutputs ::
  "unicode \<Rightarrow> (utext \<Rightarrow> bool) \<Rightarrow> eval_input list \<Rightarrow> golden_fixture list \<Rightarrow> output_format \<Rightarrow> err + eval_summary" where
  "gradeAnalysisOutputs u datetime outputs fixtures format =
     (if length fixtures \<noteq> ANALYSIS_EVAL_TOTAL_CASES then Inl (wrong_number_of_fixtures (length fixtures))
      else Inr (summary_of (map (\<lambda>f. gradeCase u datetime format f (output_for outputs (gx_id f))) fixtures)))"

section \<open>A result as a value\<close>

text \<open>The objects that the provider returns, as the grader gets them.\<close>

definition metadata_json :: "result_metadata \<Rightarrow> json" where
  "metadata_json m = JObj
     [(units ''requestedModel'', JStr (units (requestedModel m))), (units ''responseModel'', JStr (responseModel m)),
      (units ''promptVersion'', JStr (units (metaPromptVersion m))), (units ''schemaVersion'', JStr (units ''analysis-result-v3'')),
      (units ''generatedAt'', JStr (units (toISOString (generatedAt m))))]"

definition result_json :: "llm_result \<Rightarrow> json" where
  "result_json r = JObj (map (\<lambda>k. (units (metric_name k), evaluation_json (metric r k))) ANALYSIS_METRIC_KEYS @
     [(units ''summary'', JStr (summary r)), (units ''metadata'', metadata_json (metadata r))])"

end
