(* ===== verification/LiveEval.thy ===== *)
theory LiveEval
  imports GoldenFixtures
begin

text \<open>
  The live evaluation of two prompts (\<open>src/src/analysis/evals/live-eval.ts\<close>, and the messages of
  \<open>prompt-variants.ts\<close>): both run on every fixture, are graded and compared. Parameters are the
  clients of the model, the text of the baseline's prompt, the revision, and of a thrown error its
  properties \<open>code\<close> and \<open>name\<close> where the library's class has them.
\<close>

section \<open>Messages of the baseline\<close>

datatype prompt_variant = Baseline | Candidate

definition ANALYSIS_LIVE_EVAL_CASES_PER_VARIANT :: nat where
  "ANALYSIS_LIVE_EVAL_CASES_PER_VARIANT = 24"

definition ANALYSIS_LIVE_EVAL_MAX_CALLS :: nat where
  "ANALYSIS_LIVE_EVAL_MAX_CALLS = 48"

fun manifest_promptVersion :: "prompt_variant \<Rightarrow> string" where
  "manifest_promptVersion Baseline = LEGACY_ANALYSIS_PROMPT_VERSION"
| "manifest_promptVersion Candidate = ANALYSIS_PROMPT_VERSION"

text \<open>\<open>\{\{([A-Za-z]+)}}\<close> at the beginning: the key and the length.\<close>

definition placeholder :: "utext \<Rightarrow> (utext \<times> nat) option" where
  "placeholder s =
     (let key = takeWhile (\<lambda>c. (65 \<le> c \<and> c \<le> 90) \<or> (97 \<le> c \<and> c \<le> 122)) (drop 2 s) in
      if take 2 s = [123, 123] \<and> key \<noteq> [] \<and> take 2 (drop (2 + length key) s) = [125, 125]
      then Some (key, 4 + length key) else None)"

text \<open>The templates use the keys of the replacements only, none that an object inherits.\<close>

primrec renderPromptTemplate :: "(utext \<rightharpoonup> utext) \<Rightarrow> nat \<Rightarrow> utext \<Rightarrow> err + utext" where
  "renderPromptTemplate replacements gap [] = Inr []"
| "renderPromptTemplate replacements gap (c # s) =
     (case gap of
        Suc k \<Rightarrow> renderPromptTemplate replacements k s
      | 0 \<Rightarrow> (case placeholder (c # s) of
            None \<Rightarrow> map_sum id ((#) c) (renderPromptTemplate replacements 0 s)
          | Some (key, n) \<Rightarrow> (case replacements key of
                None \<Rightarrow> Inl (PlainError (''Unknown prompt template placeholder: '' @ text_of_units key))
              | Some v \<Rightarrow> map_sum id ((@) v) (renderPromptTemplate replacements (n - 1) s))))"

definition prompt_replacements :: "collected_data \<Rightarrow> utext \<rightharpoonup> utext" where
  "prompt_replacements d = map_of
     [(units ''owner'', units (cd_owner d)), (units ''repo'', units (cd_repo d)), (units ''targetUser'', cd_targetUser d),
      (units ''githubDataJson'', JSON_stringify (data_json d))]"

definition buildVariantMessages :: "utext \<Rightarrow> utext \<Rightarrow> collected_data \<Rightarrow> err + analysis_message list" where
  "buildVariantMessages systemTemplate userTemplate d =
     and_then (renderPromptTemplate (prompt_replacements d) 0 systemTemplate) (\<lambda>s.
     and_then (renderPromptTemplate (prompt_replacements d) 0 userTemplate) (\<lambda>u.
     Inr [(system_role, s), (user_role, u)]))"

section \<open>Runners\<close>

datatype blocked_code = PROVIDER_QUOTA_EXHAUSTED | PROVIDER_AUTH_FAILED

datatype live_error =
  LiveEvalCallError "utext option" "token_usage option" "utext option" string
| LiveEvalProviderBlockedError blocked_code
| Raised err

record variant_result =
  vr_providerRequestId :: utext
  vr_requestedModel :: string
  vr_responseModel :: utext
  vr_promptVersion :: string
  vr_schemaVersion :: "string option"
  vr_generatedAt :: string
  vr_usage :: token_usage
  vr_output :: json

type_synonym variant_runner = "prompt_variant \<Rightarrow> collected_data \<Rightarrow> (live_error + variant_result) io"

text \<open>What the baseline's client answers; a property of another type is \<^const>\<open>None\<close>.\<close>

record baseline_choice =
  bc_finish_reason :: finish_reason
  bc_content :: "utext option"

record baseline_completion =
  bn_id :: "utext option"
  bn_usage :: "json option"
  bn_model :: "utext option"
  bn_choices :: "baseline_choice list option"

record live_environment =
  li_openai_key :: bool
  li_opt_in :: bool
  li_revision :: string
  li_baseline :: "analysis_message list \<Rightarrow> nat \<Rightarrow> err + baseline_completion"
  li_systemTemplate :: utext
  li_userTemplate :: utext
  li_llm :: llm_environment
  li_datetime :: "utext \<Rightarrow> bool"
  li_code :: "err \<Rightarrow> string option"
  li_name :: "err \<Rightarrow> string"

definition normalizeUsage :: "json option \<Rightarrow> token_usage option" where
  "normalizeUsage v =
     (case v of
        Some (JObj kvs) \<Rightarrow>
          (case (int_of_json (get_property (units ''prompt_tokens'') kvs), int_of_json (get_property (units ''completion_tokens'') kvs),
                 int_of_json (get_property (units ''total_tokens'') kvs)) of
             (Some p, Some c, Some t) \<Rightarrow>
               if 0 \<le> p \<and> 0 \<le> c \<and> Some (of_int t) = to_double (of_int (p + c))
               then Some \<lparr>promptTokens = p, completionTokens = c, totalTokens = t\<rparr> else None
           | _ \<Rightarrow> None)
      | _ \<Rightarrow> None)"

definition baseline_output :: "baseline_completion \<Rightarrow> string \<Rightarrow> live_error + variant_result" where
  "baseline_output r now =
     (let usage = normalizeUsage (bn_usage r) in
      case bn_choices r of
        None \<Rightarrow> Inl (Raised (PlainError ''TypeError''))
      | Some choices \<Rightarrow>
          (case (choices, usage, bn_id r) of
             (choice # _, Some u, Some i) \<Rightarrow>
               if bc_finish_reason choice \<noteq> FinishStop \<or> bc_content choice = None \<or> bc_content choice = Some []
               then Inl (LiveEvalCallError (Some i) usage (bn_model r) (''INCOMPLETE_'' @ finish_reason_upper (bc_finish_reason choice)))
               else (case JSON_parse (the (bc_content choice)) of
                   None \<Rightarrow> Inl (LiveEvalCallError (Some i) usage (bn_model r) ''INVALID_BASELINE_JSON'')
                 | Some out \<Rightarrow> Inr \<lparr>vr_providerRequestId = i, vr_requestedModel = ANALYSIS_MODEL_VERSION,
                     vr_responseModel = option_or (bn_model r) [], vr_promptVersion = manifest_promptVersion Baseline,
                     vr_schemaVersion = None, vr_generatedAt = now, vr_usage = u, vr_output = out\<rparr>)
           | _ \<Rightarrow> Inl (LiveEvalCallError (bn_id r) usage (bn_model r) ''INVALID_BASELINE_RESPONSE'')))"

definition runBaseline :: "live_environment \<Rightarrow> env \<Rightarrow> collected_data \<Rightarrow> (live_error + variant_result) io" where
  "runBaseline li env d =
     (case buildVariantMessages (li_systemTemplate li) (li_userTemplate li) d of
        Inl e \<Rightarrow> ret (Inl (Raised e))
      | Inr ms \<Rightarrow> bind (external (\<lambda>n. Inr (li_baseline li ms n))) (\<lambda>r. case r of
            Inl e \<Rightarrow> ret (Inl (Raised e))
          | Inr completion \<Rightarrow> bind (now_io env) (\<lambda>now. ret (baseline_output completion (toISOString now)))))"

definition runCandidate :: "live_environment \<Rightarrow> env \<Rightarrow> collected_data \<Rightarrow> (live_error + variant_result) io" where
  "runCandidate li env d =
     bind (attempt (analyze_data (li_llm li) env d CURRENT_ANALYSIS_EXECUTION_VERSION)) (\<lambda>r. ret (case r of
       Inl e \<Rightarrow> Inl (Raised e)
     | Inr a \<Rightarrow> Inr \<lparr>vr_providerRequestId = units (lr_providerRequestId a), vr_requestedModel = lr_requestedModel a,
         vr_responseModel = lr_responseModel a, vr_promptVersion = lr_promptVersion a, vr_schemaVersion = Some ''analysis-result-v3'',
         vr_generatedAt = toISOString (generatedAt (metadata (lr_result a))), vr_usage = lr_usage a,
         vr_output = result_json (lr_result a)\<rparr>))"

definition openai_runner :: "live_environment \<Rightarrow> env \<Rightarrow> variant_runner" where
  "openai_runner li env variant = (if variant = Baseline then runBaseline li env else runCandidate li env)"

section \<open>Errors\<close>

text \<open>An error after which no call is made any more.\<close>

definition assertProviderCanContinue :: "live_environment \<Rightarrow> live_error \<Rightarrow> blocked_code option" where
  "assertProviderCanContinue li e =
     (case e of
        Raised x \<Rightarrow>
          if li_code li x \<in> {Some ''insufficient_quota'', Some ''credit_balance_exhausted''} then Some PROVIDER_QUOTA_EXHAUSTED
          else if err_status x \<in> {Some 401, Some 403} then Some PROVIDER_AUTH_FAILED else None
      | LiveEvalProviderBlockedError c \<Rightarrow> None
      | LiveEvalCallError _ _ _ _ \<Rightarrow> None)"

record error_metadata =
  em_providerRequestId :: "utext option"
  em_usage :: "token_usage option"
  em_responseModel :: "utext option"
  em_evidenceIssues :: "issue list option"
  em_errorType :: string

definition errorMetadata :: "live_environment \<Rightarrow> live_error \<Rightarrow> error_metadata" where
  "errorMetadata li e =
     (case e of
        LiveEvalCallError i u model why \<Rightarrow>
          \<lparr>em_providerRequestId = i, em_usage = u, em_responseModel = model, em_evidenceIssues = None, em_errorType = why\<rparr>
      | Raised (LlmProviderReconciliationError i u why issues model) \<Rightarrow>
          \<lparr>em_providerRequestId = map_option units i, em_usage = u, em_responseModel = model, em_evidenceIssues = issues, em_errorType = why\<rparr>
      | Raised x \<Rightarrow> \<lparr>em_providerRequestId = None, em_usage = None, em_responseModel = None, em_evidenceIssues = None,
          em_errorType = li_name li x\<rparr>
      | LiveEvalProviderBlockedError _ \<Rightarrow> \<lparr>em_providerRequestId = None, em_usage = None, em_responseModel = None,
          em_evidenceIssues = None, em_errorType = ''LiveEvalProviderBlockedError''\<rparr>)"

section \<open>A variant\<close>

record live_case =
  lc_fixtureId :: string
  lc_providerRequestId :: "utext option"
  lc_requestedModel :: string
  lc_responseModel :: "utext option"
  lc_promptVersion :: string
  lc_schemaVersion :: "string option"
  lc_generatedAt :: string
  lc_latencyMs :: int
  lc_usage :: "token_usage option"
  lc_errorType :: "string option"
  lc_evidenceIssues :: "issue list"
  lc_output :: "json option"

definition returned_case :: "golden_fixture \<Rightarrow> int \<Rightarrow> int \<Rightarrow> variant_result \<Rightarrow> live_case" where
  "returned_case f startedAt finishedAt r =
     \<lparr>lc_fixtureId = gx_id f, lc_providerRequestId = Some (vr_providerRequestId r), lc_requestedModel = vr_requestedModel r,
      lc_responseModel = Some (vr_responseModel r), lc_promptVersion = vr_promptVersion r, lc_schemaVersion = vr_schemaVersion r,
      lc_generatedAt = vr_generatedAt r, lc_latencyMs = finishedAt - startedAt, lc_usage = Some (vr_usage r), lc_errorType = None,
      lc_evidenceIssues = [], lc_output = Some (vr_output r)\<rparr>"

definition thrown_case :: "prompt_variant \<Rightarrow> golden_fixture \<Rightarrow> int \<Rightarrow> int \<Rightarrow> int \<Rightarrow> error_metadata \<Rightarrow> live_case" where
  "thrown_case variant f startedAt generated finishedAt m =
     \<lparr>lc_fixtureId = gx_id f, lc_providerRequestId = em_providerRequestId m, lc_requestedModel = ANALYSIS_MODEL_VERSION,
      lc_responseModel = em_responseModel m, lc_promptVersion = manifest_promptVersion variant,
      lc_schemaVersion = (if variant = Candidate then Some ''analysis-result-v3'' else None),
      lc_generatedAt = toISOString generated, lc_latencyMs = finishedAt - startedAt, lc_usage = em_usage m,
      lc_errorType = Some (em_errorType m), lc_evidenceIssues = option_or (em_evidenceIssues m) [], lc_output = None\<rparr>"

text \<open>What an answer adds to the outputs that are graded and to the cases.\<close>

definition answered_case ::
  "live_environment \<Rightarrow> prompt_variant \<Rightarrow> golden_fixture \<Rightarrow> int \<Rightarrow> int \<Rightarrow> int \<Rightarrow> live_error + variant_result \<Rightarrow> eval_input list \<times> live_case" where
  "answered_case li variant f startedAt generated finishedAt r =
     (case r of
        Inr v \<Rightarrow> ([\<lparr>ei_fixtureId = gx_id f, ei_output = Some (vr_output v), ei_evidenceIssues = None\<rparr>],
          returned_case f startedAt finishedAt v)
      | Inl e \<Rightarrow> (let m = errorMetadata li e in
          (case em_evidenceIssues m of
             None \<Rightarrow> [] | Some is \<Rightarrow> [\<lparr>ei_fixtureId = gx_id f, ei_output = None, ei_evidenceIssues = Some is\<rparr>],
           thrown_case variant f startedAt generated finishedAt m)))"

text \<open>One fixture after the other, each asked once, until the provider refuses all of them.\<close>

fun run_fixtures ::
  "live_environment \<Rightarrow> env \<Rightarrow> variant_runner \<Rightarrow> prompt_variant \<Rightarrow> golden_fixture list \<Rightarrow> (live_error + eval_input list \<times> live_case list) io" where
  "run_fixtures li env runner variant [] = ret (Inr ([], []))"
| "run_fixtures li env runner variant (f # fs) =
     bind (now_io env) (\<lambda>startedAt.
     bind (now_io env) (\<lambda>generated.
     bind (runner variant (prepareGoldenFixtureInput (gx_input f))) (\<lambda>r.
     case (case r of Inl e \<Rightarrow> assertProviderCanContinue li e | Inr _ \<Rightarrow> None) of
       Some c \<Rightarrow> ret (Inl (LiveEvalProviderBlockedError c))
     | None \<Rightarrow>
         bind (now_io env) (\<lambda>finishedAt.
         bind (run_fixtures li env runner variant fs) (\<lambda>rest.
         let (graded, c) = answered_case li variant f startedAt generated finishedAt r in
         ret (map_sum id (\<lambda>(outputs, cases). (graded @ outputs, c # cases)) rest))))))"

text \<open>The smallest sample that 95 of a hundred do not exceed; the rank is computed in doubles.\<close>

definition p95_rank :: "nat \<Rightarrow> nat" where
  "p95_rank n = (case Option.bind (to_double (19 / 20)) (\<lambda>q. to_double (q * of_nat n)) of
     None \<Rightarrow> 0 | Some x \<Rightarrow> nat \<lceil>x\<rceil>)"

definition nearestRankP95 :: "int list \<Rightarrow> err + int" where
  "nearestRankP95 values =
     (if values = [] then Inl (PlainError ''Cannot calculate p95 without latency samples.'')
      else Inr (sort values ! (p95_rank (length values) - 1)))"

record variant_report =
  vp_variant :: prompt_variant
  vp_summary :: eval_summary
  vp_averageTotalTokens :: "rat option"
  vp_nearestRankP95LatencyMs :: int
  vp_usageComplete :: bool
  vp_cases :: "live_case list"

definition total_tokens :: "live_case list \<Rightarrow> int list" where
  "total_tokens cs = List.map_filter (\<lambda>c. map_option totalTokens (lc_usage c)) cs"

definition average_tokens :: "live_case list \<Rightarrow> rat option" where
  "average_tokens cs =
     (let ts = total_tokens cs in
      if length ts \<noteq> length cs then None
      else Option.bind (fold (\<lambda>t s. Option.bind s (\<lambda>x. to_double (x + of_int t))) ts (Some 0))
        (\<lambda>s. to_double (s / of_nat (length ts))))"

text \<open>Grading and the rank raise errors of their own; they are not caught.\<close>

definition variant_report_of ::
  "live_environment \<Rightarrow> golden_fixture list \<Rightarrow> prompt_variant \<Rightarrow> eval_input list \<times> live_case list \<Rightarrow> live_error + variant_report" where
  "variant_report_of li fixtures variant oc =
     (case oc of (outputs, cases) \<Rightarrow>
        if length cases \<noteq> ANALYSIS_LIVE_EVAL_CASES_PER_VARIANT
        then Inl (Raised (PlainError ''Each live evaluation variant must execute 24 cases.''))
        else (case (gradeAnalysisOutputs (le_unicode (li_llm li)) (li_datetime li) outputs fixtures
                     (if variant = Baseline then Legacy else Structured), nearestRankP95 (map lc_latencyMs cases)) of
            (Inl e, _) \<Rightarrow> Inl (Raised e)
          | (Inr s, Inl e) \<Rightarrow> Inl (Raised e)
          | (Inr s, Inr latency) \<Rightarrow> Inr \<lparr>vp_variant = variant, vp_summary = s, vp_averageTotalTokens = average_tokens cases,
              vp_nearestRankP95LatencyMs = latency, vp_usageComplete = (length (total_tokens cases) = length cases), vp_cases = cases\<rparr>))"

definition runVariant ::
  "live_environment \<Rightarrow> env \<Rightarrow> variant_runner \<Rightarrow> prompt_variant \<Rightarrow> (live_error + variant_report) io" where
  "runVariant li env runner variant =
     (let fixtures = ANALYSIS_GOLDEN_FIXTURES (le_unicode (li_llm li)) in
      bind (run_fixtures li env runner variant fixtures) (\<lambda>r. ret (and_then r (variant_report_of li fixtures variant))))"

section \<open>The comparison\<close>

text \<open>A ratio that is not a finite number passes no criterion, like \<open>null\<close>.\<close>

definition ratio :: "rat option \<Rightarrow> rat option \<Rightarrow> rat option" where
  "ratio a b = (case (a, b) of (Some x, Some y) \<Rightarrow> if y \<le> 0 then None else to_double (x / y) | _ \<Rightarrow> None)"

definition within_twenty_percent :: "rat option \<Rightarrow> bool" where
  "within_twenty_percent r = (case (r, to_double (6 / 5)) of (Some x, Some limit) \<Rightarrow> x \<le> limit | _ \<Rightarrow> False)"

definition isCandidateAtLeastAsGood :: "eval_case \<Rightarrow> eval_case \<Rightarrow> bool" where
  "isCandidateAtLeastAsGood baseline candidate \<longleftrightarrow>
     (ec_schemaPassed baseline \<longrightarrow> ec_schemaPassed candidate) \<and>
     ec_fabricatedCitationCount candidate \<le> ec_fabricatedCitationCount baseline \<and>
     ec_wrongUserAttributionCount candidate \<le> ec_wrongUserAttributionCount baseline \<and>
     ec_unsupportedClaimCount candidate \<le> ec_unsupportedClaimCount baseline \<and>
     (ec_evidencePassed baseline \<longrightarrow> ec_evidencePassed candidate) \<and>
     (ec_evidenceGatePassed baseline \<longrightarrow> ec_evidenceGatePassed candidate) \<and>
     ec_matchingLabels baseline \<le> ec_matchingLabels candidate"

record comparison =
  cp_candidateAtLeastAsGoodCases :: nat
  cp_averageTotalTokenRatio :: "rat option"
  cp_nearestRankP95LatencyRatio :: "rat option"
  cp_criteria :: "bool list"
  cp_passed :: bool

definition compareVariants :: "variant_report \<Rightarrow> variant_report \<Rightarrow> comparison" where
  "compareVariants baseline candidate =
     (let b = vp_summary baseline; c = vp_summary candidate;
          good = length (filter (\<lambda>(x, y). isCandidateAtLeastAsGood x y) (zip (es_cases b) (es_cases c)));
          tokens = ratio (vp_averageTotalTokens candidate) (vp_averageTotalTokens baseline);
          latency = ratio (Some (of_int (vp_nearestRankP95LatencyMs candidate))) (Some (of_int (vp_nearestRankP95LatencyMs baseline)));
          criteria = [label_review_status = Approved, es_schemaPassedCases c = ANALYSIS_LIVE_EVAL_CASES_PER_VARIANT,
            es_fabricatedPrCitations c = 0, es_wrongUserAttributions c = 0, es_unsupportedClaims c = 0,
            es_evidenceValidationFailures c = 0, es_evidenceGateFailures c = 0,
            ANALYSIS_EVAL_MIN_AGREEMENT \<le> es_scoreBandMatchingLabels c, 20 \<le> good,
            within_twenty_percent tokens, within_twenty_percent latency] in
      \<lparr>cp_candidateAtLeastAsGoodCases = good, cp_averageTotalTokenRatio = tokens, cp_nearestRankP95LatencyRatio = latency,
       cp_criteria = criteria, cp_passed = list_all id criteria\<rparr>)"

section \<open>The evaluation\<close>

definition assertLiveEvalOptIn :: "live_environment \<Rightarrow> bool \<Rightarrow> live_error + unit" where
  "assertLiveEvalOptIn li dryRun =
     (if dryRun then Inr ()
      else if \<not> li_opt_in li then Inl (Raised (PlainError ''Live evaluation is disabled. Set RUN_LIVE_OPENAI_EVALS=true to opt in.''))
      else if \<not> li_openai_key li then Inl (Raised (PlainError ''OPENAI_API_KEY is required for live evaluation.''))
      else Inr ())"

record live_report =
  lv_executedAt :: string
  lv_executionRevision :: string
  lv_callsAttempted :: nat
  lv_baseline :: variant_report
  lv_candidate :: variant_report
  lv_comparison :: comparison

definition live_report_of :: "live_environment \<Rightarrow> env \<Rightarrow> variant_report \<Rightarrow> variant_report \<Rightarrow> (live_error + live_report) io" where
  "live_report_of li env baseline candidate =
     (let calls = length (vp_cases baseline) + length (vp_cases candidate) in
      if ANALYSIS_LIVE_EVAL_MAX_CALLS < calls
      then ret (Inl (Raised (PlainError ''Live evaluation exceeded the 48-call safety limit.'')))
      else bind (now_io env) (\<lambda>now. ret (Inr
        \<lparr>lv_executedAt = toISOString now, lv_executionRevision = li_revision li, lv_callsAttempted = calls,
         lv_baseline = baseline, lv_candidate = candidate, lv_comparison = compareVariants baseline candidate\<rparr>)))"

definition runLiveAnalysisEvaluation :: "live_environment \<Rightarrow> env \<Rightarrow> variant_runner \<Rightarrow> (live_error + live_report) io" where
  "runLiveAnalysisEvaluation li env runner =
     (case assertLiveEvalOptIn li False of
        Inl e \<Rightarrow> ret (Inl e)
      | Inr _ \<Rightarrow>
          bind (runVariant li env runner Baseline) (\<lambda>b. case b of
            Inl e \<Rightarrow> ret (Inl e)
          | Inr baseline \<Rightarrow> bind (runVariant li env runner Candidate) (\<lambda>c. case c of
                Inl e \<Rightarrow> ret (Inl e)
              | Inr candidate \<Rightarrow> live_report_of li env baseline candidate)))"

end
