(* ===== verification/ReferenceOutputs.thy ===== *)
theory ReferenceOutputs
  imports GoldenFixtures
begin

text \<open>
  The outputs that are checked in for the fixtures (\<open>src/src/analysis/evals/reference-outputs.ts\<close>), as the
  grader gets them.
\<close>

fun reference_score :: "golden_level \<Rightarrow> rat" where
  "reference_score High = 9 / 2"
| "reference_score Medium = 7 / 2"
| "reference_score Low = 2"

definition focus_reason :: utext where
  "focus_reason = [54633, 49457, 32, 54876, 46041, 50640, 49436, 32, 54644, 45817, 32, 51648, 54364, 51032, 32, 54665, 46041, 32, 49688, 51456, 51012, 32,
     51649, 51217, 32, 54869, 51064, 54664, 49845, 45768, 45796, 46]"

definition default_reason :: utext where
  "default_reason = [51060, 32, 51648, 54364, 47484, 32, 44396, 48516, 54624, 32, 51649, 51217, 32, 44540, 44144, 44032, 32, 51228, 54620, 46104, 50612, 32,
     44592, 48376, 32, 44396, 44036, 51004, 47196, 32, 54217, 44032, 54664, 49845, 45768, 45796, 46]"

definition reference_improvement :: utext where
  "reference_improvement = [52769, 51221, 32, 44032, 45733, 54620, 32, 44160, 51613, 32, 44592, 51456, 44284, 32, 51032, 49324, 44208, 51221, 32, 44592, 47197, 51012,
     32, 48372, 44053, 54644, 50556, 32, 54633, 45768, 45796, 46]"

definition reference_example :: utext where
  "reference_example = [48320, 44221, 51032, 32, 51204, 51228, 50752, 32, 52769, 51221, 32, 44208, 44284, 44, 32, 49892, 54056, 32, 49884, 32, 46104, 46028, 47548,
     32, 44592, 51456, 51012, 32, 54632, 44760, 32, 44160, 53664, 54644, 32, 51452, 49464, 50836, 46]"

definition reference_rationale :: utext where
  "reference_rationale = [54633, 49457, 32, 50896, 47928, 51060, 32, 54644, 45817, 32, 50669, 47049, 51032, 32, 44592, 45824, 32, 54665, 46041, 32, 49688, 51456,
     51012, 32, 51649, 51217, 32, 48372, 50668, 32, 51469, 45768, 45796, 46]"

definition reference_summary :: utext where
  "reference_summary = [54633, 49457, 32, 45936, 51060, 53552, 47564, 51004, 47196, 32, 54217, 44032, 54664, 51004, 47728, 32, 51649, 51217, 32, 44540, 44144,
     44032, 32, 51080, 45716, 32, 54665, 46041, 44284, 32, 44540, 44144, 44032, 32, 48512, 51313, 54620, 32, 51648, 54364, 47484, 32, 48516,
     47532, 54664, 49845, 45768, 45796, 46]"

definition reference_evidence :: "fixture_evidence \<Rightarrow> evidence" where
  "reference_evidence e = \<lparr>prNumber = fe_prNumber e, permalink = fe_permalink e, author = fe_author e,
     sourceType = fe_sourceType e, targetRelation = fe_targetRelation e, quote = fe_quote e, scoreRationale = reference_rationale\<rparr>"

definition reference_evaluation :: "golden_fixture \<Rightarrow> metric_key \<Rightarrow> metric_evaluation" where
  "reference_evaluation f k =
     (let focus = (k = gx_focusMetric f) in
      \<lparr>score = (if focus then reference_score (gx_level f) else 3),
       reason = (if focus then focus_reason else default_reason), improvement = reference_improvement,
       example_text = reference_example,
       evidence_list = (if focus then
         (case mustCite (gx_evidenceContract f k) of [] \<Rightarrow> [] | e # _ \<Rightarrow> [reference_evidence e]) else [])\<rparr>)"

definition reference_metadata :: json where
  "reference_metadata = JObj
     [(units ''requestedModel'', JStr (units ANALYSIS_MODEL_VERSION)), (units ''responseModel'', JStr (units ''human-authored-reference'')),
      (units ''promptVersion'', JStr (units ANALYSIS_PROMPT_VERSION)), (units ''schemaVersion'', JStr (units ''analysis-result-v3'')),
      (units ''generatedAt'', JStr (units ''2026-09-28T00:00:00.000Z''))]"

definition reference_output :: "golden_fixture \<Rightarrow> eval_input" where
  "reference_output f = \<lparr>ei_fixtureId = gx_id f,
     ei_output = Some (JObj (map (\<lambda>k. (units (metric_name k), evaluation_json (reference_evaluation f k))) ANALYSIS_METRIC_KEYS @
       [(units ''summary'', JStr reference_summary), (units ''metadata'', reference_metadata)])),
     ei_evidenceIssues = None\<rparr>"

definition CHECKED_IN_REFERENCE_OUTPUTS :: "unicode \<Rightarrow> eval_input list" where
  "CHECKED_IN_REFERENCE_OUTPUTS u = map reference_output (ANALYSIS_GOLDEN_FIXTURES u)"

end
