(* ===== verification/EvalProperties.thy ===== *)
theory EvalProperties
  imports LiveEval ReferenceOutputs AnalysisProperties
begin

text \<open>
  What passing the gate of the evaluation means, that outputs of the provider pass the checks of single
  outputs, and that a live evaluation is complete.
\<close>

section \<open>The gate\<close>

text \<open>The payload a fixture is graded by.\<close>

definition graded_payload :: "(utext \<Rightarrow> bool) \<Rightarrow> eval_input list \<Rightarrow> golden_fixture \<Rightarrow> llm_payload option" where
  "graded_payload datetime outputs f =
     (case output_for outputs (gx_id f) of
        None \<Rightarrow> None
      | Some c \<Rightarrow> if ei_evidenceIssues c \<noteq> None then None else Option.bind (ei_output c) (safeParse_result datetime))"

definition contract_kept :: "unicode \<Rightarrow> golden_fixture \<Rightarrow> llm_payload \<Rightarrow> bool" where
  "contract_kept u f r \<longleftrightarrow> (\<forall>k. let c = gx_evidenceContract f k; es = set (evidence_list (metric r k)) in
     (mustCite c \<noteq> [] \<longrightarrow> (\<exists>e \<in> es. \<exists>x \<in> set (mustCite c). matchesRequiredStructuredEvidence u e x)) \<and>
     (\<forall>e \<in> es. \<forall>x \<in> set (mustNotCite c). \<not> matchesStructuredEvidenceActivity u e x))"

definition good_case :: "eval_case \<Rightarrow> bool" where
  "good_case c \<longleftrightarrow> ec_schemaPassed c \<and> ec_evidencePassed c \<and> ec_evidenceGatePassed c \<and> ec_fabricatedCitationCount c = 0 \<and>
     ec_wrongUserAttributionCount c = 0 \<and> ec_unsupportedClaimCount c = 0"

lemma set_items_Nil [simp]: "set_items xs = [] \<longleftrightarrow> xs = []"
  by (simp add: set_items_def)

lemma set_set_items [simp]: "set (set_items xs) = set xs"
  by (simp add: set_items_def)

lemma contract_kept_iff: "validateStructuredFixtureEvidence u r f = [] \<longleftrightarrow> contract_kept u f r"
proof -
  have "contract_errors a b c = [] \<longleftrightarrow> (mustCite c \<noteq> [] \<longrightarrow> a) \<and> \<not> b" for a b c
    by (simp add: contract_errors_def)
  moreover have "concat (map g ANALYSIS_METRIC_KEYS) = [] \<longleftrightarrow> (\<forall>k. g k = [])" for g :: "metric_key \<Rightarrow> eval_error list"
    using all_metric_keys by auto
  ultimately show ?thesis
    by (simp only: validateStructuredFixtureEvidence_def contract_kept_def Let_def set_items_Nil) (simp add: list_ex_iff)
qed

lemma no_positions [simp]: "positions_with codes [] = 0"
  by (simp add: positions_with_def)

lemma good_structured:
  "good_case (gradeStructuredCase u dt f out) \<longleftrightarrow>
     (\<exists>r. safeParse_result dt out = Some r \<and> grounded u r (prepareGoldenFixtureInput (gx_input f)) \<and> contract_kept u f r)"
  by (auto simp: gradeStructuredCase_def good_case_def failedCase_def countEvidenceFailures_def countUnsupportedClaims_def
      no_issues_grounded no_issues_grounded [THEN iffD2] contract_kept_iff Let_def split: option.splits)

lemma good_gradeCase:
  "good_case (gradeCase u dt Structured f (output_for outputs (gx_id f))) \<longleftrightarrow>
     (\<exists>r. graded_payload dt outputs f = Some r \<and> grounded u r (prepareGoldenFixtureInput (gx_input f)) \<and> contract_kept u f r)"
  by (auto simp: gradeCase_def graded_payload_def failedCase_def failedEvidenceCase_def good_structured bind_eq_Some_conv
      split: option.splits prod.splits) (simp_all add: good_case_def)

lemma totalLabels [simp]: "ec_totalLabels (gradeCase u dt format f c) = 8"
  by (auto simp: gradeCase_def failedCase_def failedEvidenceCase_def gradeLegacyCase_def gradeStructuredCase_def Let_def
      ANALYSIS_METRIC_KEYS_def split: option.splits prod.splits)

lemma contract_errors_missing [simp]: "MISSING_OUTPUT \<notin> set (contract_errors a b c)"
  by (simp add: contract_errors_def)

lemma passed_is_not_missing:
  "ec_schemaPassed (gradeCase u dt Structured f c) \<Longrightarrow> MISSING_OUTPUT \<notin> set (ec_errorTypes (gradeCase u dt Structured f c))"
  by (auto simp: gradeCase_def failedCase_def failedEvidenceCase_def gradeStructuredCase_def Let_def
      validateStructuredFixtureEvidence_def split: option.splits prod.splits)

lemma matching_gradeCase:
  assumes "graded_payload dt outputs f = Some r"
  shows "ec_matchingLabels (gradeCase u dt Structured f (output_for outputs (gx_id f))) = countMatchingLabels r f"
  using assms
  by (auto simp: gradeCase_def graded_payload_def gradeStructuredCase_def Let_def bind_eq_Some_conv split: option.splits if_splits prod.splits)

lemma count_cases_all: "count_cases p cs = length cs \<longleftrightarrow> (\<forall>c\<in>set cs. p c)"
proof -
  have "count_cases p cs = length cs \<longleftrightarrow> length (filter (\<lambda>c. \<not> p c) cs) = 0"
    using sum_length_filter_compl [of p cs] by (simp only: count_cases_def) linarith
  then show ?thesis by (simp add: filter_empty_conv)
qed

lemma count_cases_none: "count_cases p cs = 0 \<longleftrightarrow> (\<forall>c\<in>set cs. \<not> p c)"
  by (auto simp: count_cases_def filter_empty_conv)

lemma total_none: "total g cs = 0 \<longleftrightarrow> (\<forall>c\<in>set cs. g c = 0)"
  by (auto simp: total_def sum_list_eq_0_iff)

lemma passed_iff:
  assumes "gradeAnalysisOutputs u dt outputs fixtures Structured = Inr s"
  shows "es_passed s \<longleftrightarrow> es_schemaPassedCases s = 24 \<and> es_fabricatedPrCitations s = 0 \<and> es_wrongUserAttributions s = 0 \<and>
    es_unsupportedClaims s = 0 \<and> es_evidenceValidationFailures s = 0 \<and> es_evidenceGateFailures s = 0 \<and>
    154 \<le> es_scoreBandMatchingLabels s"
proof -
  let ?cs = "map (\<lambda>f. gradeCase u dt Structured f (output_for outputs (gx_id f))) fixtures"
  have len: "length fixtures = 24" and s: "s = summary_of ?cs"
    using assms by (auto simp: gradeAnalysisOutputs_def ANALYSIS_EVAL_TOTAL_CASES_def split: if_splits)
  have "total ec_totalLabels ?cs = 192"
    using len by (simp add: total_def comp_def sum_list_triv)
  moreover have "count_cases ec_schemaPassed ?cs = 24 \<Longrightarrow> count_cases (\<lambda>c. MISSING_OUTPUT \<in> set (ec_errorTypes c)) ?cs = 0"
    using count_cases_all [of ec_schemaPassed ?cs] len passed_is_not_missing by (auto simp: count_cases_none)
  ultimately show ?thesis
    using len by (auto simp: s summary_of_def Let_def ANALYSIS_EVAL_TOTAL_CASES_def ANALYSIS_EVAL_TOTAL_LABELS_def
        ANALYSIS_EVAL_MIN_AGREEMENT_def)
qed

lemma gate_iff:
  assumes "gradeAnalysisOutputs u dt outputs fixtures Structured = Inr s"
  shows "es_passed s \<longleftrightarrow>
    (\<forall>f \<in> set fixtures. \<exists>r. graded_payload dt outputs f = Some r \<and> grounded u r (prepareGoldenFixtureInput (gx_input f)) \<and>
       contract_kept u f r) \<and>
    154 \<le> (\<Sum>f \<leftarrow> fixtures. countMatchingLabels (the (graded_payload dt outputs f)) f)"
proof -
  let ?g = "\<lambda>f. gradeCase u dt Structured f (output_for outputs (gx_id f))"
  let ?ok = "\<lambda>f. \<exists>r. graded_payload dt outputs f = Some r \<and> grounded u r (prepareGoldenFixtureInput (gx_input f)) \<and> contract_kept u f r"
  let ?cs = "map ?g fixtures"
  have len: "length fixtures = 24" and s: "s = summary_of ?cs"
    using assms by (auto simp: gradeAnalysisOutputs_def ANALYSIS_EVAL_TOTAL_CASES_def split: if_splits)
  have "count_cases ec_schemaPassed ?cs = 24 \<longleftrightarrow> (\<forall>c\<in>set ?cs. ec_schemaPassed c)"
    using count_cases_all [of ec_schemaPassed ?cs] len by simp
  then have "es_passed s \<longleftrightarrow> (\<forall>f\<in>set fixtures. good_case (?g f)) \<and> 154 \<le> total ec_matchingLabels ?cs"
    by (subst passed_iff [OF assms]) (auto simp: s summary_of_def Let_def count_cases_none total_none good_case_def)
  also have "\<dots> \<longleftrightarrow> (\<forall>f\<in>set fixtures. ?ok f) \<and> 154 \<le> total ec_matchingLabels ?cs" by (simp only: good_gradeCase)
  also have "\<dots> \<longleftrightarrow> (\<forall>f\<in>set fixtures. ?ok f) \<and> 154 \<le> (\<Sum>f \<leftarrow> fixtures. countMatchingLabels (the (graded_payload dt outputs f)) f)"
  proof (rule conj_cong [OF refl])
    assume "\<forall>f\<in>set fixtures. ?ok f"
    then have "map (ec_matchingLabels \<circ> ?g) fixtures = map (\<lambda>f. countMatchingLabels (the (graded_payload dt outputs f)) f) fixtures"
      using matching_gradeCase by fastforce
    then have "sum_list (map (ec_matchingLabels \<circ> ?g) fixtures) = (\<Sum>f \<leftarrow> fixtures. countMatchingLabels (the (graded_payload dt outputs f)) f)"
      by (rule arg_cong)
    then show "(154 \<le> total ec_matchingLabels ?cs) = (154 \<le> (\<Sum>f \<leftarrow> fixtures. countMatchingLabels (the (graded_payload dt outputs f)) f))"
      by (simp only: total_def map_map)
  qed
  finally show ?thesis .
qed

text \<open>
  C37. Structured outputs pass the gate exactly if every fixture has an output that satisfies the schema, is grounded
  in what the target of the fixture wrote, cites the evidence the fixture requires and none it forbids, and at
  least 154 of the 192 scores lie in the expected bands.
\<close>

theorem gate_is_groundedness:
  assumes "gradeAnalysisOutputs u dt outputs fixtures Structured = Inr s"
  shows "es_passed s \<longleftrightarrow>
    (\<forall>f \<in> set fixtures. \<exists>r. graded_payload dt outputs f = Some r \<and> grounded u r (prepareGoldenFixtureInput (gx_input f)) \<and>
       contract_kept u f r) \<and>
    154 \<le> (\<Sum>f \<leftarrow> fixtures. countMatchingLabels (the (graded_payload dt outputs f)) f)"
  using assms by (rule gate_iff)

section \<open>Outputs of the provider\<close>

lemma safeParse_result_read:
  assumes "wf_payload p" "metadata_accepts dt m"
  shows "safeParse_result dt (JObj (map (\<lambda>k. (units (metric_name k), evaluation_json (metric p k))) ANALYSIS_METRIC_KEYS @
     [(units ''summary'', JStr (summary p)), (units ''metadata'', m)])) = Some p"
    (is "safeParse_result dt (JObj ?kvs) = _")
proof -
  have names: "units (metric_name k) \<noteq> units ''metadata''" "units ''summary'' \<noteq> units ''metadata''" for k
    by (cases k; simp)+
  then have "filter (\<lambda>kv. fst kv \<noteq> units ''metadata'') ?kvs =
      map (\<lambda>k. (units (metric_name k), evaluation_json (metric p k))) ANALYSIS_METRIC_KEYS @ [(units ''summary'', JStr (summary p))]"
    by (simp add: filter_map comp_def)
  moreover have "get_property (units ''metadata'') ?kvs = Some m"
    by (simp add: get_property_def)
  ultimately show ?thesis
    using safeParse_read [OF assms(1)] assms(2) by (simp add: safeParse_result_def payload_json_def)
qed

lemma metadata_read:
  assumes "analysisResultSchema p (modelVersion CURRENT_ANALYSIS_EXECUTION_VERSION) model
      (promptVersion CURRENT_ANALYSIS_EXECUTION_VERSION) now = Some r"
    and "\<And>t. length (toISOString t) = 24 \<Longrightarrow> dt (units (toISOString t))"
  shows "metadata_accepts dt (metadata_json (metadata r))"
proof -
  have version: "js_trim ''gpt-5-mini'' = ''gpt-5-mini''" "js_trim ANALYSIS_PROMPT_VERSION = ANALYSIS_PROMPT_VERSION"
    by code_simp+
  obtain m where m: "analysisResultMetadataSchema ANALYSIS_MODEL_VERSION model ANALYSIS_PROMPT_VERSION now = Some m" "metadata r = m"
    using assms(1) by (auto simp: analysisResultSchema_def bind_eq_Some_conv CURRENT_ANALYSIS_EXECUTION_VERSION_def llm_result.defs
        llm_payload.extend_def)
  then obtain t where t: "trimmed 1 100 model = Some t" "length (toISOString now) = 24"
    and fields: "m = \<lparr>requestedModel = ANALYSIS_MODEL_VERSION, responseModel = t, metaPromptVersion = ANALYSIS_PROMPT_VERSION, generatedAt = now\<rparr>"
    by (auto simp: analysisResultMetadataSchema_def bind_eq_Some_conv trimmed_string_def Let_def version ANALYSIS_MODEL_VERSION_def
        split: if_splits)
  from t(1) have "trimmed 1 100 t = Some t"
    by (auto simp: trimmed_def Let_def text_trim_def trim_by_idem split: if_splits)
  moreover have "trimmed 1 100 (units ANALYSIS_MODEL_VERSION) \<noteq> None" "trimmed 1 100 (units ANALYSIS_PROMPT_VERSION) \<noteq> None"
    by (simp_all add: trimmed_def text_trim_def trim_by_def text_space_def version_literals)
  ultimately show ?thesis
    using assms(2) [OF t(2)]
    by (simp add: m(2) fields metadata_accepts_def metadata_json_def strict_object_def get_property_def)
qed

text \<open>
  C39. What the provider returns for the input of a fixture, the grader accepts: it satisfies the schema with its
  metadata, no evidence is fabricated, attributed to another user or missing under a score that needs it.
\<close>

theorem provider_outputs_are_accepted:
  assumes "analyze_data le env (prepareGoldenFixtureInput (gx_input f)) CURRENT_ANALYSIS_EXECUTION_VERSION w = (Inr a, w')"
    and "\<And>t. length (toISOString t) = 24 \<Longrightarrow> dt (units (toISOString t))"
  shows "let c = gradeCase (le_unicode le) dt Structured f
       (Some \<lparr>ei_fixtureId = gx_id f, ei_output = Some (result_json (lr_result a)), ei_evidenceIssues = None\<rparr>) in
    ec_schemaPassed c \<and> ec_evidencePassed c \<and> ec_fabricatedCitationCount c = 0 \<and> ec_wrongUserAttributionCount c = 0 \<and>
    ec_unsupportedClaimCount c = 0 \<and> (\<forall>e \<in> set (ec_errorTypes c). e = FIXTURE_REQUIRED_EVIDENCE_MISSING \<or> e = FIXTURE_FORBIDDEN_EVIDENCE)"
proof -
  let ?p = "llm_payload.truncate (lr_result a)"
  note facts = analyze_data_Inr [OF assms(1)]
  obtain p model now where "analysisResultSchema p (modelVersion CURRENT_ANALYSIS_EXECUTION_VERSION) model
      (promptVersion CURRENT_ANALYSIS_EXECUTION_VERSION) now = Some (lr_result a)"
    using facts(7) by blast
  then have meta: "metadata_accepts dt (metadata_json (metadata (lr_result a)))" by (rule metadata_read) (rule assms(2))
  have p: "metric ?p = metric (lr_result a)" "summary ?p = summary (lr_result a)" by (simp_all add: llm_payload.truncate_def)
  have "wf_payload ?p" "grounded (le_unicode le) ?p (prepareGoldenFixtureInput (gx_input f))"
    using facts(4,5) by (simp_all add: wf_payload_def grounded_def p)
  then have "safeParse_result dt (result_json (lr_result a)) = Some ?p"
    "validateAnalysisEvidence (le_unicode le) ?p (prepareGoldenFixtureInput (gx_input f)) = []"
    using safeParse_result_read [OF _ meta, of ?p] by (simp_all add: result_json_def p no_issues_grounded)
  then show ?thesis
    by (auto simp: gradeCase_def gradeStructuredCase_def countEvidenceFailures_def countUnsupportedClaims_def Let_def
        validateStructuredFixtureEvidence_def contract_errors_def split: if_splits)
qed

section \<open>The live evaluation\<close>

lemma floorlog_2_eq: "2 ^ n \<le> x \<Longrightarrow> x < 2 ^ Suc n \<Longrightarrow> floorlog 2 x = Suc n"
  by (intro antisym) (simp_all add: floorlog_le_iff floorlog_ge_SucI)

lemma p95_rank_double:
  "to_double (19 / 20) = Some (8556839292003942 / 2 ^ 53)"
  "to_double (8556839292003942 / 2 ^ 53 * 24) = Some (6417629469002956 / 2 ^ 48)"
proof -
  have "quotient_of (19 / 20) = (19, 20)" "quotient_of (12835258938005913 / 562949953421312) = (12835258938005913, 562949953421312)"
    by code_simp+
  moreover have "floorlog 2 19 = 5" "floorlog 2 20 = 5" "floorlog 2 12835258938005913 = 54" "floorlog 2 562949953421312 = 50"
    using floorlog_2_eq [of 4 19] floorlog_2_eq [of 4 20] floorlog_2_eq [of 53 12835258938005913] floorlog_2_eq [of 49 562949953421312]
    by simp_all
  ultimately have e: "binary_exponent (19 / 20) = - 1" "binary_exponent (12835258938005913 / 562949953421312) = 4"
    by (simp_all add: binary_exponent_def pow2_def)
  have "\<lfloor>42784196460019712 / 5 :: rat\<rfloor> = 8556839292003942" "\<lfloor>12835258938005913 / 2 :: rat\<rfloor> = 6417629469002956"
    by (simp_all add: floor_eq_iff)
  then have r: "round_half_even (19 / (20 * pow2 (- 53))) = 8556839292003942"
      "round_half_even (12835258938005913 / (562949953421312 * pow2 (- 48))) = 6417629469002956"
    by (simp_all add: round_half_even_def pow2_def)
  show "to_double (19 / 20) = Some (8556839292003942 / 2 ^ 53)"
    by (simp add: to_double_def e r) (simp add: pow2_def)
  show "to_double (8556839292003942 / 2 ^ 53 * 24) = Some (6417629469002956 / 2 ^ 48)"
    by (simp add: to_double_def e r) (simp add: pow2_def)
qed

lemma p95_rank_24: "p95_rank 24 = 23"
proof -
  have "\<lceil>6417629469002956 / 2 ^ 48 :: rat\<rceil> = 23" by (simp add: ceiling_eq_iff)
  then show ?thesis by (simp add: p95_rank_def p95_rank_double [simplified])
qed

lemma few_above_rank:
  fixes xs :: "int list"
  assumes "i < length xs"
  shows "length (filter (\<lambda>x. sort xs ! i < x) xs) \<le> length xs - Suc i"
proof -
  let ?s = "sort xs" and ?p = "\<lambda>x. sort xs ! i < x"
  have "length (filter ?p xs) = length (filter ?p ?s)"
    by (metis filter_sort length_sort)
  also have "filter ?p ?s = filter ?p (take (Suc i) ?s) @ filter ?p (drop (Suc i) ?s)"
    by (metis append_take_drop_id filter_append)
  also have "filter ?p (take (Suc i) ?s) = []"
  proof -
    have "\<not> ?p x" if "x \<in> set (take (Suc i) ?s)" for x
    proof -
      from that obtain j where "j < Suc i" "j < length ?s" "x = ?s ! j"
        by (auto simp: in_set_conv_nth)
      then have "x \<le> ?s ! i" using assms sorted_nth_mono [OF sorted_sort, of j i xs] by simp
      then show ?thesis by simp
    qed
    then show ?thesis by (simp add: filter_empty_conv)
  qed
  finally have "length (filter ?p xs) = length (filter ?p (drop (Suc i) ?s))" by simp
  also have "\<dots> \<le> length (drop (Suc i) ?s)" by (rule length_filter_le)
  finally show ?thesis by simp
qed

lemma map_sum_Inr: "map_sum id g x = Inr y \<longleftrightarrow> (\<exists>z. x = Inr z \<and> y = g z)"
  by (cases x) auto

lemma answered_case_id: "lc_fixtureId (snd (answered_case li variant f a b c r)) = gx_id f"
  by (simp add: answered_case_def returned_case_def thrown_case_def Let_def split: sum.splits)

lemma run_fixtures_cases:
  "run_fixtures li env runner variant fs w = (Inr (Inr (outs, cases)), w') \<Longrightarrow> map lc_fixtureId cases = map gx_id fs"
proof (induction fs arbitrary: w w' outs cases)
  case Nil
  then show ?case by (simp add: ret_def)
next
  case (Cons f fs)
  then obtain t1 t2 r w3 where "(case (case r of Inl e \<Rightarrow> assertProviderCanContinue li e | Inr _ \<Rightarrow> None) of
       Some c \<Rightarrow> ret (Inl (LiveEvalProviderBlockedError c))
     | None \<Rightarrow> bind (now_io env) (\<lambda>finishedAt. bind (run_fixtures li env runner variant fs) (\<lambda>rest.
         let (graded, c) = answered_case li variant f t1 t2 finishedAt r in
         ret (map_sum id (\<lambda>(outputs, cases). (graded @ outputs, c # cases)) rest)))) w3 = (Inr (Inr (outs, cases)), w')"
    unfolding run_fixtures.simps bind_Inr by blast
  then obtain t3 w4 rest w5 where rest: "run_fixtures li env runner variant fs w4 = (Inr rest, w5)"
    and all: "(let (graded, c) = answered_case li variant f t1 t2 t3 r in
         ret (map_sum id (\<lambda>(outputs, cases). (graded @ outputs, c # cases)) rest)) w5 = (Inr (Inr (outs, cases)), w')"
    by (auto simp: bind_Inr ret_def split: option.splits)
  then obtain outs1 cases1 where "rest = Inr (outs1, cases1)" "cases = snd (answered_case li variant f t1 t2 t3 r) # cases1"
    by (auto simp: ret_def map_sum_Inr split: prod.splits)
  with rest Cons.IH show ?case by (simp add: answered_case_id)
qed

lemma golden_fixtures_24: "length (ANALYSIS_GOLDEN_FIXTURES u) = 24"
  by (simp add: ANALYSIS_GOLDEN_FIXTURES_def ANALYSIS_METRIC_KEYS_def LEVELS_def)

text \<open>What a variant's report says.\<close>

lemma variant_report_facts:
  assumes "runVariant li env runner variant w = (Inr (Inr p), w')"
  shows "map lc_fixtureId (vp_cases p) = map gx_id (ANALYSIS_GOLDEN_FIXTURES (le_unicode (li_llm li)))"
    "vp_nearestRankP95LatencyMs p \<in> lc_latencyMs ` set (vp_cases p)"
    "length (filter (\<lambda>c. vp_nearestRankP95LatencyMs p < lc_latencyMs c) (vp_cases p)) \<le> 1"
    "\<exists>outs. gradeAnalysisOutputs (le_unicode (li_llm li)) (li_datetime li) outs (ANALYSIS_GOLDEN_FIXTURES (le_unicode (li_llm li)))
       (if variant = Baseline then Legacy else Structured) = Inr (vp_summary p)"
proof -
  let ?fs = "ANALYSIS_GOLDEN_FIXTURES (le_unicode (li_llm li))"
  obtain r where run: "run_fixtures li env runner variant ?fs w = (Inr r, w')" and p: "and_then r (variant_report_of li ?fs variant) = Inr p"
    using assms by (auto simp: runVariant_def Let_def bind_Inr ret_def)
  then obtain outs cases where r: "r = Inr (outs, cases)" and report: "variant_report_of li ?fs variant (outs, cases) = Inr p"
    by (cases r) auto
  have len: "length cases = 24" and grade: "gradeAnalysisOutputs (le_unicode (li_llm li)) (li_datetime li) outs ?fs
       (if variant = Baseline then Legacy else Structured) = Inr (vp_summary p)"
    and latency: "nearestRankP95 (map lc_latencyMs cases) = Inr (vp_nearestRankP95LatencyMs p)" and cases: "vp_cases p = cases"
    using report by (auto simp: variant_report_of_def ANALYSIS_LIVE_EVAL_CASES_PER_VARIANT_def split: if_splits sum.splits)
  show "map lc_fixtureId (vp_cases p) = map gx_id ?fs" using run_fixtures_cases run r cases by blast
  show "\<exists>outs. gradeAnalysisOutputs (le_unicode (li_llm li)) (li_datetime li) outs ?fs
       (if variant = Baseline then Legacy else Structured) = Inr (vp_summary p)" using grade ..
  let ?ls = "map lc_latencyMs cases"
  have rank: "vp_nearestRankP95LatencyMs p = sort ?ls ! 22"
    using latency len by (auto simp: nearestRankP95_def p95_rank_24 split: if_splits)
  have "sort ?ls ! 22 \<in> set (sort ?ls)" by (rule nth_mem) (simp add: len)
  then have "vp_nearestRankP95LatencyMs p \<in> set (sort ?ls)" by (simp only: rank)
  then show "vp_nearestRankP95LatencyMs p \<in> lc_latencyMs ` set (vp_cases p)" by (simp add: cases)
  have "length (filter (\<lambda>x. sort ?ls ! 22 < x) ?ls) \<le> 1" using few_above_rank [of 22 ?ls] len by simp
  then show "length (filter (\<lambda>c. vp_nearestRankP95LatencyMs p < lc_latencyMs c) (vp_cases p)) \<le> 1"
    by (simp add: cases rank filter_map comp_def)
qed

lemma bind_case_Inr:
  "bind m (case_sum (\<lambda>e. ret (Inl e)) f) w = (Inr (Inr b), w') \<longleftrightarrow>
     (\<exists>a w1. m w = (Inr (Inr a), w1) \<and> f a w1 = (Inr (Inr b), w'))"
  by (auto simp: bind_def ret_def split: prod.splits sum.splits)


end
