(* ===== verification/PlainTexts.thy ===== *)
theory PlainTexts
  imports EvidenceValidator
begin

text \<open>
  Texts that the preprocessor of \<open>src/src/analysis/preprocessor.service.ts\<close> leaves alone and in which the
  evidence validator finds no reference, by the characters they do not contain.
\<close>

section \<open>Texts without references\<close>

definition dead :: "regex \<Rightarrow> utext \<Rightarrow> bool" where
  "dead r s \<longleftrightarrow> (\<forall>i. ends r s i = [])"

lemma dead_char: "(\<forall>c \<in> set s. \<not> p c) \<Longrightarrow> dead (Char p) s"
  by (auto simp: dead_def char_at_def)

lemma dead_plus:
  assumes "\<forall>c \<in> set s. \<not> p c"
  shows "dead (CharPlus p) s"
proof -
  have "run_ends p t i = []" if "set t \<subseteq> set s" for t i
    using that assms by (cases t) auto
  then show ?thesis by (simp add: dead_def set_drop_subset)
qed

lemma dead_cat: "dead a s \<or> dead b s \<Longrightarrow> dead (Cat a b) s"
  by (auto simp: dead_def)

lemma dead_or: "dead a s \<Longrightarrow> dead b s \<Longrightarrow> dead (Or a b) s"
  by (simp add: dead_def)

lemma dead_sequence: "r \<in> set rs \<Longrightarrow> dead r s \<Longrightarrow> dead (sequence rs) s"
  by (induction rs) (auto simp: sequence_def intro: dead_cat)

lemma no_reference:
  assumes "\<forall>c \<in> set (pattern_points s). \<not> digit c \<and> fold_char c \<noteq> 103"
  shows "\<not> unstructured_reference u s"
proof -
  let ?t = "pattern_points s"
  have g: "dead (Char (\<lambda>d. fold_char d = 103)) ?t" and n: "dead (CharPlus digit) ?t"
    using assms by (auto intro: dead_char dead_plus)
  have "dead (literal_text ''github.com'') ?t"
    unfolding literal_text_def by (rule dead_sequence [OF _ g]) simp
  then have "dead github_url ?t"
    unfolding github_url_def by (intro dead_sequence [where r = "literal_text ''github.com''"]) simp_all
  moreover have "dead repository_reference ?t" "dead (number_reference u) ?t" "dead pr_reference ?t" "dead korean_reference ?t"
    unfolding repository_reference_def number_reference_def pr_reference_def korean_reference_def
    by (rule dead_sequence [OF _ n]; simp)+
  ultimately have "dead (UNSTRUCTURED_REFERENCE_PATTERN u) ?t"
    unfolding UNSTRUCTURED_REFERENCE_PATTERN_def by (intro dead_or)
  then show ?thesis by (simp add: unstructured_reference_def regex_test_def dead_def list_ex_iff)
qed

section \<open>Texts that the preprocessor leaves alone\<close>

lemma plain_parts:
  "33 \<notin> set s \<Longrightarrow> strip_images s = s" "60 \<notin> set s \<Longrightarrow> strip_tags s = s" "96 \<notin> set s \<Longrightarrow> split_fences s = [s]"
proof -
  show "33 \<notin> set s \<Longrightarrow> strip_images s = s" by (induction s) (simp_all add: strip_images.simps)
  show "60 \<notin> set s \<Longrightarrow> strip_tags s = s" by (induction s) simp_all
  show "96 \<notin> set s \<Longrightarrow> split_fences s = [s]" by (induction s rule: split_fences.induct) simp_all
qed

lemma replace_all_none: "(\<And>t. set t \<subseteq> set s \<Longrightarrow> m t = None) \<Longrightarrow> replace_all m repl s = s"
proof (induction s)
  case (Cons c s)
  have "m (c # s) = None" by (rule Cons.prems) simp
  moreover have "replace_all m repl s = s" by (rule Cons.IH) (rule Cons.prems, auto)
  ultimately show ?case by (simp add: replace_all.simps [of m repl "c # s"])
qed (simp add: replace_all.simps)

lemma no_slack_key: "45 \<notin> set s \<Longrightarrow> after_slack_key s = None"
proof -
  have "s ! 4 = 45 \<and> 4 < length s" if "list_all2 (\<lambda>p c. p c) slack_pattern (take (length slack_pattern) s)"
    using list_all2_nthD [OF that, of 4] list_all2_lengthD [OF that]
    by (auto simp: slack_pattern_def numeral_eq_Suc replicate_Suc nth_Cons')
  then show "45 \<notin> set s \<Longrightarrow> after_slack_key s = None" unfolding after_slack_key_def by (metis nth_mem)
qed

lemma no_mail: "64 \<notin> set s \<Longrightarrow> after_mail s = None"
  by (auto simp: after_mail_def split: list.splits dest!: arg_cong [of "dropWhile _ _" _ set] dest: set_dropWhileD)

lemma cleanText_plain:
  assumes "set s \<inter> {33, 60, 96, 64, 45} = {}" "text_trim s = s"
  shows "cleanText s = s"
proof -
  have "replace_all after_mail r s = s" for r by (intro replace_all_none no_mail) (use assms(1) in auto)
  moreover have "replace_all after_slack_key r s = s" for r by (intro replace_all_none no_slack_key) (use assms(1) in auto)
  moreover have "strip_tags (strip_images s) = s" "split_fences s = [s]"
    by (subst plain_parts; use assms(1) in auto)+
  ultimately show ?thesis
    unfolding cleanText_def truncate_code_def by (simp only:) (simp add: assms(2))
qed

lemma filter_nonspace:
  "filter (\<lambda>c. \<not> text_space c) (crlf s) = filter (\<lambda>c. \<not> text_space c) s"
  "filter (\<lambda>c. \<not> text_space c) (collapse s) = filter (\<lambda>c. \<not> text_space c) s"
  "filter (\<lambda>c. \<not> text_space c) (text_trim s) = filter (\<lambda>c. \<not> text_space c) s"
proof -
  have drop: "filter (\<lambda>c. \<not> text_space c) (dropWhile text_space s) = filter (\<lambda>c. \<not> text_space c) s" for s
    by (induction s) auto
  show "filter (\<lambda>c. \<not> text_space c) (crlf s) = filter (\<lambda>c. \<not> text_space c) s"
    by (induction s rule: crlf.induct) auto
  show "filter (\<lambda>c. \<not> text_space c) (collapse s) = filter (\<lambda>c. \<not> text_space c) s"
    by (induction s rule: collapse.induct) (auto simp: drop)
  show "filter (\<lambda>c. \<not> text_space c) (text_trim s) = filter (\<lambda>c. \<not> text_space c) s"
    by (simp add: text_trim_def trim_by_def rev_filter [symmetric] drop del: rev_filter)
qed

lemma words_length: "length (filter (\<lambda>c. \<not> text_space c) s) \<le> length (join_with [32] (text_words s))"
proof -
  have "filter (\<lambda>c. \<not> text_space c) (normalizeEvidenceText s) = filter (\<lambda>c. \<not> text_space c) s"
    by (simp add: normalizeEvidenceText_def filter_nonspace)
  then show ?thesis by (metis length_filter_le normalizeEvidenceText_words)
qed

end
