(* ===== verification/ReferenceProperties.thy ===== *)
theory ReferenceProperties
  imports EvalProperties PlainTexts
begin

text \<open>
  The reference outputs that are checked in pass the gate, whatever the tables of the platform.
\<close>

section \<open>The texts of the fixtures\<close>

lemma reference_texts: "\<not> unstructured_reference u focus_reason" "\<not> unstructured_reference u default_reason"
  "\<not> unstructured_reference u reference_improvement" "\<not> unstructured_reference u reference_example"
  "\<not> unstructured_reference u reference_rationale" "\<not> unstructured_reference u reference_summary"
  by (rule no_reference; simp add: focus_reason_def default_reason_def reference_improvement_def reference_example_def
      reference_rationale_def reference_summary_def digit_def fold_char_def)+


lemma reference_wf: "wf_text 1 4000 focus_reason" "wf_text 1 4000 default_reason" "wf_text 1 2000 reference_improvement"
  "wf_text 1 3000 reference_example" "wf_text 1 1000 reference_rationale" "wf_text 1 3000 reference_summary"
  by (simp_all add: wf_text_def text_space_def focus_reason_def default_reason_def reference_improvement_def reference_example_def
      reference_rationale_def reference_summary_def)

lemma number_units: "units (nat_digits n) \<noteq> []" "\<forall>c \<in> set (units (nat_digits n)). json_digit c"
  using nat_digits_read [of n] by (auto simp: list_all_iff units_def nat_digits.simps [of n])

lemma nonspace_count:
  "10 \<le> length (filter (\<lambda>c. \<not> text_space c) (level_text level))" "length (level_text level) \<le> 60" "last (level_text level) = 46"
  "level_text level \<noteq> []" "set (level_text level) \<inter> {33, 60, 96, 64, 45} = {}"
  by (cases level; simp add: text_space_def)+

lemma metric_units: "set (units (metric_name k)) \<inter> {33, 60, 96, 64, 45} = {}" "length (units (metric_name k)) \<le> 30"
  by (cases k; simp add: units_def)+

lemma evidence_text:
  fixes k level n
  assumes "n < 1000"
  defines "s \<equiv> buildEvidenceText k level n"
  shows "hd s = 83" "last s = 46" "s \<noteq> []" "set s \<inter> {33, 60, 96, 64, 45} = {}"
    "20 \<le> length (filter (\<lambda>c. \<not> text_space c) s)" "length s \<le> 200"
proof -
  have s: "s = units ''Synthetic '' @ units (metric_name k) @ units '' evidence '' @ units (nat_digits n) @ units '': '' @ level_text level"
    by (simp add: s_def buildEvidenceText_def units_append)
  note facts = nonspace_count [of level] metric_units [of k] number_units [of n]
  show "hd s = 83" "s \<noteq> []" by (simp_all add: s units_def)
  show "last s = 46" using facts by (simp add: s)
  have "set (units (nat_digits n)) \<inter> {33, 60, 96, 64, 45} = {}"
    using facts by (auto simp: json_digit_def)
  then show "set s \<inter> {33, 60, 96, 64, 45} = {}"
    using facts by (auto simp: s units_def)
  have "length (filter (\<lambda>c. \<not> text_space c) (units ''Synthetic '')) = 9" "length (filter (\<lambda>c. \<not> text_space c) (units '' evidence '')) = 8"
    by (simp_all add: units_def text_space_def)
  moreover have "length (filter (\<lambda>c. \<not> text_space c) s) \<ge> length (filter (\<lambda>c. \<not> text_space c) (units ''Synthetic '')) +
      (length (filter (\<lambda>c. \<not> text_space c) (units '' evidence '')) + length (filter (\<lambda>c. \<not> text_space c) (level_text level)))"
    unfolding s filter_append length_append by linarith
  ultimately show "20 \<le> length (filter (\<lambda>c. \<not> text_space c) s)" using nonspace_count(1) [of level] by linarith
  have "length (units (nat_digits n)) \<le> 3" using nat_digits_length [of n 3] assms(1) by (simp add: units_def)
  moreover have "length (units ''Synthetic '') = 10" "length (units '' evidence '') = 10" "length (units '': '') = 2"
    by (simp_all add: units_def)
  ultimately show "length s \<le> 200" using nonspace_count(2) [of level] metric_units(2) [of k] unfolding s length_append by linarith
qed

lemma text_trim_sentence: "s \<noteq> [] \<Longrightarrow> hd s = 83 \<Longrightarrow> last s = 46 \<Longrightarrow> text_trim s = s"
  by (simp add: text_trim_def trim_by_fixed text_space_def)

lemma evidence_plain: "n < 1000 \<Longrightarrow> cleanText (buildEvidenceText k level n) = buildEvidenceText k level n"
  using evidence_text by (intro cleanText_plain text_trim_sentence) auto

section \<open>The users of the fixtures\<close>

text \<open>The lower case of \<open>en-US\<close> of an ASCII text.\<close>

definition ascii_case :: "unicode \<Rightarrow> bool" where
  "ascii_case u \<longleftrightarrow> (\<forall>s. (\<forall>c \<in> set s. c < 128) \<longrightarrow> toLocaleLowerCase u s = map ascii_lower s)"

definition synthetic_name :: "nat \<Rightarrow> utext" where
  "synthetic_name i = units (''SyntheticDev'' @ nat_digits (i + 1))"

lemma ascii_digits: "c \<in> set (units (nat_digits n)) \<Longrightarrow> c < 128"
  using number_units(2) [of n] by (auto simp: json_digit_def)

lemma same_target:
  assumes "ascii_case u"
  shows "toLocaleLowerCase u (if b then ascii_upper_text (synthetic_name i) else synthetic_name i) = toLocaleLowerCase u (synthetic_name i)"
proof -
  have "\<forall>c \<in> set (synthetic_name i). c < 128" using ascii_digits by (auto simp: synthetic_name_def units_append units_def)
  moreover from this have "\<forall>c \<in> set (ascii_upper_text (synthetic_name i)). c < 128" by (auto simp: ascii_upper_text_def)
  moreover have "map ascii_lower (ascii_upper_text s) = map ascii_lower s" for s
    by (auto simp: ascii_upper_text_def ascii_lower_def)
  ultimately show ?thesis using assms by (simp add: ascii_case_def)
qed

lemma other_user:
  assumes "ascii_case u"
  shows "toLocaleLowerCase u (if b then synthetic_name i @ units ''-bot'' else units (''Reviewer'' @ nat_digits j)) \<noteq>
    toLocaleLowerCase u (synthetic_name i)"
proof -
  let ?o = "if b then synthetic_name i @ units ''-bot'' else units (''Reviewer'' @ nat_digits j)"
  have "\<forall>c \<in> set (synthetic_name i). c < 128" "\<forall>c \<in> set ?o. c < 128"
    using ascii_digits by (auto simp: synthetic_name_def units_append units_def)
  then have "toLocaleLowerCase u (synthetic_name i) = map ascii_lower (synthetic_name i)" "toLocaleLowerCase u ?o = map ascii_lower ?o"
    using assms by (simp_all only: ascii_case_def)
  moreover have "map ascii_lower ?o \<noteq> map ascii_lower (synthetic_name i)"
  proof (cases b)
    case True
    then have "length (map ascii_lower ?o) \<noteq> length (map ascii_lower (synthetic_name i))" by (simp add: units_def)
    then show ?thesis by metis
  next
    case False
    then have "hd (map ascii_lower ?o) \<noteq> hd (map ascii_lower (synthetic_name i))"
      by (simp add: synthetic_name_def units_def ascii_lower_def)
    then show ?thesis by metis
  qed
  ultimately show ?thesis by simp
qed

text \<open>Where the target wrote the evidence of a fixture, and the evidence.\<close>

definition target_kind :: "nat \<Rightarrow> source_type" where
  "target_kind v = (if owns_pr v False then pull_request else if writes_review v False then review else review_comment)"

definition target_evidence :: "nat \<Rightarrow> utext \<Rightarrow> fixture_evidence" where
  "target_evidence i s = \<lparr>fe_prNumber = int (101 + i), fe_permalink = fixture_permalink (101 + i), fe_sourceType = target_kind (i mod 12),
     fe_targetRelation = RELATION_BY_SOURCE_TYPE (target_kind (i mod 12)), fe_author = synthetic_name i, fe_quote = s\<rparr>"

lemma exclusive_roles: "\<not> (owns_pr v False \<and> writes_review v False)"
  by (auto simp: owns_pr_def writes_review_def)

lemma allowed_evidence:
  assumes "ascii_case u"
  shows "collectAllowedFixtureEvidence u (buildSyntheticInput i (101 + i) (synthetic_name i) s False) = [target_evidence i s]"
  using exclusive_roles [of "i mod 12"]
  by (simp add: collectAllowedFixtureEvidence_def buildSyntheticInput_def Let_def same_target [OF assms] other_user [OF assms]
      target_evidence_def target_kind_def writes_comment_def)

lemma sentence_meaningful:
  assumes "s \<noteq> []" "hd s = 83" "last s = 46" "5 \<le> length s"
  shows "v_body r = s \<Longrightarrow> meaningful_review r" "c_body c = s \<Longrightarrow> meaningful_comment c"
proof -
  have "\<not> acknowledgment s"
    using assms(1,2) by (cases s) (auto simp: acknowledgment_def acknowledgments_def units_def ascii_lower_def)
  then show "v_body r = s \<Longrightarrow> meaningful_review r" "c_body c = s \<Longrightarrow> meaningful_comment c"
    using assms by (simp_all add: meaningful_review_def meaningful_comment_def Let_def text_trim_sentence)
qed

lemma prepared_target [simp]: "cd_targetUser (prepareGoldenFixtureInput d) = cd_targetUser d"
  by (simp add: prepareGoldenFixtureInput_def preprocess_def refine_def)

lemma prepared_fixture:
  assumes "ascii_case u" and s: "s \<noteq> []" "hd s = 83" "last s = 46" "5 \<le> length s" "cleanText s = s"
  shows "\<exists>p. cd_pullRequests (prepareGoldenFixtureInput (buildSyntheticInput i (101 + i) (synthetic_name i) s False)) = [p] \<and>
    pr_number p = int (101 + i) \<and> pr_permalink p = fixture_permalink (101 + i) \<and>
    s \<in> written u (toLocaleLowerCase u (synthetic_name i)) p (target_kind (i mod 12))"
proof -
  obtain q v c where "cd_pullRequests (buildSyntheticInput i (101 + i) (synthetic_name i) s False) = [q]" "pr_reviews q = [v]" "v_comments v = [c]"
    and q: "pr_number q = int (101 + i)" "pr_permalink q = fixture_permalink (101 + i)"
    and v: "v_body v = s \<or> v_body v = s @ units '' Shared synthetic wording.''"
    and kinds: "owns_pr (i mod 12) False \<Longrightarrow> pr_title q = s \<and> toLocaleLowerCase u (pr_author q) = toLocaleLowerCase u (synthetic_name i)"
      "writes_review (i mod 12) False \<Longrightarrow> v_body v = s \<and> toLocaleLowerCase u (v_author v) = toLocaleLowerCase u (synthetic_name i)"
      "writes_comment (i mod 12) False \<Longrightarrow> c_body c = s \<and> toLocaleLowerCase u (c_author c) = toLocaleLowerCase u (synthetic_name i)"
    by (auto simp: buildSyntheticInput_def Let_def same_target [OF assms(1)])
  moreover have "meaningful_review v"
    using v sentence_meaningful [of "v_body v"] s by (auto simp: units_def)
  moreover have "writes_comment (i mod 12) False \<Longrightarrow> meaningful_comment c"
    using kinds(3) sentence_meaningful(2) s by blast
  ultimately show ?thesis
    by (auto simp: prepareGoldenFixtureInput_def preprocess_def refine_def refine_pr_def refine_review_def preprocess_pr_def
        preprocess_review_def preprocess_comment_def target_kind_def writes_comment_def s(5))
qed

section \<open>The reference outputs\<close>

lemma fixture_permalinks:
  assumes "0 < n" "n < 1000"
  shows "permalink_matches (fixture_permalink n)" "length (fixture_permalink n) \<le> 500"
proof -
  let ?n = "units (nat_digits n)"
  have link: "fixture_permalink n = units ''https:'' @ 47 # [] @ 47 # units ''github.com'' @ 47 # units ''synthetic-org'' @ 47 #
      units ''quality-fixtures'' @ 47 # units ''pull'' @ 47 # ?n"
    by (simp add: fixture_permalink_def units_def)
  have "list_all (\<lambda>c. c \<noteq> 47) ?n" using number_units(2) [of n] by (auto simp: json_digit_def list_all_iff)
  then have "split_units 47 (fixture_permalink n) =
      [units ''https:'', [], units ''github.com'', units ''synthetic-org'', units ''quality-fixtures'', units ''pull'', ?n]"
    unfolding link by (subst split_units_part, simp)+ (simp add: split_units_whole)
  moreover have "positive_decimal ?n"
    using number_units [of n] nat_digits_hd [of n] assms(1)
    by (cases ?n) (auto simp: positive_decimal_def json_digit_def list_all_iff)
  moreover have "path_segment (units ''synthetic-org'')" "path_segment (units ''quality-fixtures'')"
    by (simp_all add: path_segment_def units_def text_space_def)
  ultimately show "permalink_matches (fixture_permalink n)" by (simp add: permalink_matches_def)
  have "length ?n \<le> 3" using nat_digits_length [of n 3] assms(2) by (simp add: units_def)
  moreover have "length (fixture_permalink n) = 55 + length ?n" by (simp add: fixture_permalink_def units_def)
  ultimately show "length (fixture_permalink n) \<le> 500" by linarith
qed

lemma synthetic_name_wf: "i < 999 \<Longrightarrow> wf_text 1 100 (synthetic_name i)"
proof -
  assume "i < 999"
  then have "length (units (nat_digits (i + 1))) \<le> 3" using nat_digits_length [of "i + 1" 3] by (simp add: units_def)
  moreover have "json_digit (last (units (nat_digits (i + 1))))" using number_units [of "i + 1"] by simp
  moreover have "synthetic_name i = units ''SyntheticDev'' @ units (nat_digits (i + 1))" "length (units ''SyntheticDev'') = 12"
    "hd (units ''SyntheticDev'' @ units (nat_digits (i + 1))) = 83"
    by (simp_all add: synthetic_name_def units_def)
  ultimately show ?thesis
    using number_units(1) [of "i + 1"] by (auto simp: wf_text_def json_digit_def text_space_def)
qed

text \<open>A fixture by its number, metric and level; the one without evidence has the middle level.\<close>

definition fixture_place :: "nat \<Rightarrow> golden_level \<Rightarrow> bool" where
  "fixture_place i level \<longleftrightarrow> i < 24 \<and> (i = 19 \<longrightarrow> level = Medium)"

definition reference_payload :: "golden_fixture \<Rightarrow> llm_payload" where
  "reference_payload f = \<lparr>metric = reference_evaluation f, summary = reference_summary\<rparr>"

lemma golden_fixture_of_input:
  "gx_input (golden_fixture_of u i k level) = buildSyntheticInput i (101 + i) (synthetic_name i) (buildEvidenceText k level i) (i = 19)"
  "gx_focusMetric (golden_fixture_of u i k level) = k" "gx_level (golden_fixture_of u i k level) = level"
  by (simp_all add: golden_fixture_of_def Let_def synthetic_name_def)

lemma fixture_contract:
  assumes "ascii_case u"
  shows "gx_evidenceContract (golden_fixture_of u i k level) =
    buildEvidenceContract k (if i = 19 then [] else [target_evidence i (buildEvidenceText k level i)])"
proof -
  have "gx_evidenceContract (golden_fixture_of u i k level) = buildEvidenceContract k
      (if i = 19 then [] else collectAllowedFixtureEvidence u (gx_input (golden_fixture_of u i k level)))"
    by (simp add: golden_fixture_of_def Let_def)
  then show ?thesis unfolding golden_fixture_of_input by (simp add: allowed_evidence [OF assms])
qed

lemma reference_evidence_list:
  assumes "ascii_case u"
  shows "evidence_list (reference_evaluation (golden_fixture_of u i k level) k') =
    (if k' = k \<and> i \<noteq> 19 then [reference_evidence (target_evidence i (buildEvidenceText k level i))] else [])"
  by (simp add: reference_evaluation_def Let_def fixture_contract [OF assms] golden_fixture_of_input buildEvidenceContract_def)

lemma reference_payload_wf:
  assumes "ascii_case u" "i < 24"
  shows "wf_payload (reference_payload (golden_fixture_of u i k level))"
proof -
  let ?s = "buildEvidenceText k level i"
  note s = evidence_text [of i k level]
  have "20 \<le> length ?s" using s(5) le_trans [OF _ length_filter_le] assms(2) by simp
  then have "wf_text 20 2000 ?s" using s assms(2) by (simp add: wf_text_def text_space_def)
  then have "wf_evidence (reference_evidence (target_evidence i ?s))"
    using fixture_permalinks [of "101 + i"] synthetic_name_wf [of i] reference_wf assms(2)
    by (simp add: wf_evidence_def reference_evidence_def target_evidence_def max_safe_integer_def)
  moreover have "\<exists>n \<in> {2..10}. reference_score level = rat_of_int n / 2"
    by (cases level) (auto intro: bexI [of _ 9] bexI [of _ 7] bexI [of _ 4])
  moreover have "\<exists>n \<in> {2..10}. 3 = rat_of_int n / 2" by (rule bexI [of _ 6]) simp_all
  ultimately have "wf_evaluation (reference_evaluation (golden_fixture_of u i k level) k')" for k'
    using reference_wf unfolding wf_evaluation_def reference_evidence_list [OF assms(1)]
    by (simp add: reference_evaluation_def Let_def golden_fixture_of_input)
  then show ?thesis using reference_wf by (simp add: wf_payload_def reference_payload_def)
qed

lemma reference_payload_grounded:
  fixes k
  assumes "ascii_case u" "fixture_place i level"
  defines "f \<equiv> golden_fixture_of u i k level"
  shows "grounded u (reference_payload f) (prepareGoldenFixtureInput (gx_input f))"
proof -
  let ?s = "buildEvidenceText k level i"
  have i: "i < 24" using assms(2) by (simp add: fixture_place_def)
  note s = evidence_text [of i k level]
  have "grounded_evidence u (prepareGoldenFixtureInput (gx_input f)) (reference_evidence (target_evidence i ?s))" if "i \<noteq> 19"
  proof -
    have "5 \<le> length ?s" "cleanText ?s = ?s"
      using s(5) le_trans [OF _ length_filter_le, of 20] i evidence_plain by fastforce+
    with prepared_fixture [OF assms(1), of ?s i] s i that obtain p where
      p: "cd_pullRequests (prepareGoldenFixtureInput (gx_input f)) = [p]" "pr_number p = int (101 + i)" "pr_permalink p = fixture_permalink (101 + i)"
        "?s \<in> written u (toLocaleLowerCase u (synthetic_name i)) p (target_kind (i mod 12))"
      unfolding f_def golden_fixture_of_input by auto
    moreover have "20 \<le> length (join_with [32] (text_words ?s))" using words_length [of ?s] s(5) i by simp
    moreover have "cd_targetUser (gx_input f) = synthetic_name i"
      by (simp add: f_def golden_fixture_of_input buildSyntheticInput_def Let_def)
    ultimately show ?thesis
      by (auto simp: grounded_evidence_def reference_evidence_def target_evidence_def reference_texts pull_requests_by_number_def
          MIN_ANALYSIS_EVIDENCE_QUOTE_LENGTH_def)
  qed
  moreover have "evidence_list (reference_evaluation f k') = [] \<Longrightarrow> score (reference_evaluation f k') \<in> {3, 7 / 2}" for k'
  proof -
    have "score (reference_evaluation f k') = (if k' = k then reference_score level else 3)"
      by (simp add: reference_evaluation_def Let_def f_def golden_fixture_of_input)
    then show "evidence_list (reference_evaluation f k') = [] \<Longrightarrow> score (reference_evaluation f k') \<in> {3, 7 / 2}"
      using assms(2) by (auto simp: f_def reference_evidence_list [OF assms(1)] fixture_place_def split: if_splits)
  qed
  moreover have "evidence_list (reference_evaluation f k') = (if k' = k \<and> i \<noteq> 19 then [reference_evidence (target_evidence i ?s)] else [])" for k'
    by (simp add: f_def reference_evidence_list [OF assms(1)])
  ultimately show ?thesis
    unfolding grounded_def
    by (auto simp: reference_payload_def reference_texts reference_evaluation_def Let_def)
qed

lemma reference_contract_kept:
  assumes "ascii_case u"
  defines "p \<equiv> reference_payload" and "f \<equiv> golden_fixture_of u"
  shows "contract_kept u (f i k level) (p (f i k level))"
  by (simp add: contract_kept_def Let_def p_def f_def reference_payload_def reference_evidence_list [OF assms(1)] fixture_contract [OF assms(1)]
      buildEvidenceContract_def matchesRequiredStructuredEvidence_def matchesStructuredEvidenceActivity_def reference_evidence_def)

lemma reference_labels: "countMatchingLabels (reference_payload (golden_fixture_of u i k level)) (golden_fixture_of u i k level) = 8"
proof -
  let ?f = "golden_fixture_of u i k level"
  have "gx_expectedScoreBands ?f = buildExpectedBands k level" by (simp add: golden_fixture_of_def Let_def)
  then have "band_min (gx_expectedScoreBands ?f k') \<le> score (metric (reference_payload ?f) k') \<and>
      score (metric (reference_payload ?f) k') \<le> band_max (gx_expectedScoreBands ?f k')" for k'
    by (cases level) (simp_all add: reference_payload_def reference_evaluation_def Let_def golden_fixture_of_input buildExpectedBands_def)
  then show ?thesis by (simp add: countMatchingLabels_def ANALYSIS_METRIC_KEYS_def)
qed

definition fixture_places :: "(nat \<times> metric_key \<times> golden_level) list" where
  "fixture_places = concat (map (\<lambda>(i, k). map (\<lambda>(j, level). (i * length LEVELS + j, k, level)) (enumerate 0 LEVELS)) (enumerate 0 ANALYSIS_METRIC_KEYS))"

lemma places:
  "ANALYSIS_GOLDEN_FIXTURES u = map (\<lambda>(i, k, level). golden_fixture_of u i k level) fixture_places"
  "(i, k, level) \<in> set fixture_places \<Longrightarrow> fixture_place i level"
  "distinct (map gx_id (ANALYSIS_GOLDEN_FIXTURES u))"
proof -
  show eq: "ANALYSIS_GOLDEN_FIXTURES u = map (\<lambda>(i, k, level). golden_fixture_of u i k level) fixture_places"
    by (simp add: ANALYSIS_GOLDEN_FIXTURES_def fixture_places_def map_concat comp_def case_prod_unfold)
  have "list_all (\<lambda>(i, k, level). fixture_place i level) fixture_places" by code_simp
  then show "(i, k, level) \<in> set fixture_places \<Longrightarrow> fixture_place i level" by (auto simp: list_all_iff)
  have "map gx_id (ANALYSIS_GOLDEN_FIXTURES u) = map (\<lambda>(i, k, level). metric_name k @ ''-'' @ level_name level) fixture_places"
    by (auto simp: eq golden_fixture_of_def Let_def)
  moreover have "distinct (map (\<lambda>(i, k, level). metric_name k @ ''-'' @ level_name level) fixture_places)" by code_simp
  ultimately show "distinct (map gx_id (ANALYSIS_GOLDEN_FIXTURES u))" by simp
qed

lemma find_distinct: "distinct (map g xs) \<Longrightarrow> x \<in> set xs \<Longrightarrow> find (\<lambda>y. g y = g x) xs = Some x"
  by (induction xs) auto

lemma reference_output_for:
  assumes "f \<in> set (ANALYSIS_GOLDEN_FIXTURES u)"
  shows "output_for (CHECKED_IN_REFERENCE_OUTPUTS u) (gx_id f) = Some (reference_output f)"
proof -
  let ?rs = "rev (CHECKED_IN_REFERENCE_OUTPUTS u)"
  have "map ei_fixtureId ?rs = rev (map gx_id (ANALYSIS_GOLDEN_FIXTURES u))"
    by (simp add: CHECKED_IN_REFERENCE_OUTPUTS_def reference_output_def comp_def rev_map)
  then have "distinct (map ei_fixtureId ?rs)" using places(3) by (simp only: distinct_rev)
  moreover have "reference_output f \<in> set ?rs" using assms by (simp add: CHECKED_IN_REFERENCE_OUTPUTS_def)
  ultimately show ?thesis using find_distinct [of ei_fixtureId ?rs "reference_output f"] by (simp add: output_for_def reference_output_def)
qed

lemma reference_metadata_accepted: "dt (units ''2026-09-28T00:00:00.000Z'') \<Longrightarrow> metadata_accepts dt reference_metadata"
proof -
  have "trimmed 1 100 (units ANALYSIS_MODEL_VERSION) \<noteq> None" "trimmed 1 100 (units ANALYSIS_PROMPT_VERSION) \<noteq> None"
    "trimmed 1 100 (units ''human-authored-reference'') \<noteq> None"
    by (simp_all add: trimmed_def text_trim_def trim_by_def text_space_def version_literals)
  then show "dt (units ''2026-09-28T00:00:00.000Z'') \<Longrightarrow> metadata_accepts dt reference_metadata"
    by (simp add: metadata_accepts_def reference_metadata_def strict_object_def get_property_def)
qed

lemma reference_graded:
  assumes "ascii_case u" "dt (units ''2026-09-28T00:00:00.000Z'')" "f \<in> set (ANALYSIS_GOLDEN_FIXTURES u)"
  shows "graded_payload dt (CHECKED_IN_REFERENCE_OUTPUTS u) f = Some (reference_payload f) \<and>
    grounded u (reference_payload f) (prepareGoldenFixtureInput (gx_input f)) \<and> contract_kept u f (reference_payload f) \<and>
    countMatchingLabels (reference_payload f) f = 8"
proof -
  obtain i k level where f: "f = golden_fixture_of u i k level" and place: "fixture_place i level"
    using assms(3) places(2) by (auto simp: places(1))
  then have wf: "wf_payload (reference_payload f)"
    using reference_payload_wf [OF assms(1)] by (simp add: fixture_place_def)
  have out: "the (ei_output (reference_output f)) =
      JObj (map (\<lambda>k. (units (metric_name k), evaluation_json (metric (reference_payload f) k))) ANALYSIS_METRIC_KEYS @
        [(units ''summary'', JStr (summary (reference_payload f))), (units ''metadata'', reference_metadata)])"
    by (simp only: reference_output_def reference_payload_def llm_payload.select_convs eval_input.select_convs option.sel)
  have "metadata_accepts dt reference_metadata" using assms(2) by (rule reference_metadata_accepted)
  then have "safeParse_result dt (the (ei_output (reference_output f))) = Some (reference_payload f)"
    unfolding out by (rule safeParse_result_read [OF wf])
  moreover have "ei_output (reference_output f) = Some (the (ei_output (reference_output f)))" "ei_evidenceIssues (reference_output f) = None"
    by (simp_all only: reference_output_def eval_input.select_convs option.sel)
  ultimately obtain v where "ei_output (reference_output f) = Some v" "safeParse_result dt v = Some (reference_payload f)"
      "ei_evidenceIssues (reference_output f) = None"
    by blast
  then have "graded_payload dt (CHECKED_IN_REFERENCE_OUTPUTS u) f = Some (reference_payload f)"
    by (simp add: graded_payload_def reference_output_for [OF assms(3)])
  with f reference_payload_grounded [OF assms(1) place] reference_contract_kept [OF assms(1)] reference_labels show ?thesis by simp
qed

lemma reference_gate:
  assumes "ascii_case u" "dt (units ''2026-09-28T00:00:00.000Z'')"
  shows "\<exists>s. gradeAnalysisOutputs u dt (CHECKED_IN_REFERENCE_OUTPUTS u) (ANALYSIS_GOLDEN_FIXTURES u) Structured = Inr s \<and> es_passed s"
proof -
  let ?fs = "ANALYSIS_GOLDEN_FIXTURES u" and ?g = "graded_payload dt (CHECKED_IN_REFERENCE_OUTPUTS u)"
  obtain s where s: "gradeAnalysisOutputs u dt (CHECKED_IN_REFERENCE_OUTPUTS u) ?fs Structured = Inr s"
    by (simp add: gradeAnalysisOutputs_def golden_fixtures_24 ANALYSIS_EVAL_TOTAL_CASES_def)
  note graded = reference_graded [where dt = dt, OF assms]
  have "map (\<lambda>f. countMatchingLabels (the (?g f)) f) ?fs = map (\<lambda>f. 8) ?fs" using graded by simp
  then have "(\<Sum>f \<leftarrow> ?fs. countMatchingLabels (the (?g f)) f) = 192" by (simp only: sum_list_triv) (simp add: golden_fixtures_24)
  with graded s show ?thesis by (simp add: gate_iff [OF s])
qed

text \<open>
  C38. The outputs that are checked in for the fixtures pass the gate they are there to try: all of them parse, are
  grounded in what the preprocessor leaves of the fixtures, and keep the contracts. Of the platform it is used
  that the lower case of an ASCII text is its ASCII lower case, and that the date of the outputs is accepted.
\<close>

theorem reference_outputs_pass:
  assumes "\<And>s. \<forall>c \<in> set s. c < 128 \<Longrightarrow> toLocaleLowerCase u s = map ascii_lower s"
    and "dt (units ''2026-09-28T00:00:00.000Z'')"
  shows "\<exists>s. gradeAnalysisOutputs u dt (CHECKED_IN_REFERENCE_OUTPUTS u) (ANALYSIS_GOLDEN_FIXTURES u) Structured = Inr s \<and> es_passed s"
  using assms by (intro reference_gate) (simp_all add: ascii_case_def)

definition ascii_tables :: unicode where
  "ascii_tables = \<lparr>toLocaleLowerCase = map ascii_lower, letter_or_number = (\<lambda>_. False)\<rparr>"

theorem reference_outputs_pass_witness:
  "\<exists>s. gradeAnalysisOutputs ascii_tables (\<lambda>_. True) (CHECKED_IN_REFERENCE_OUTPUTS ascii_tables) (ANALYSIS_GOLDEN_FIXTURES ascii_tables)
     Structured = Inr s \<and> es_passed s"
  by (rule reference_outputs_pass) (simp_all add: ascii_tables_def)

theorem gate_is_groundedness_witness:
  "\<exists>s r. gradeAnalysisOutputs ascii_tables (\<lambda>_. True) (CHECKED_IN_REFERENCE_OUTPUTS ascii_tables)
       (ANALYSIS_GOLDEN_FIXTURES ascii_tables) Structured = Inr s \<and> es_passed s \<and>
     graded_payload (\<lambda>_. True) (CHECKED_IN_REFERENCE_OUTPUTS ascii_tables) (hd (ANALYSIS_GOLDEN_FIXTURES ascii_tables)) = Some r \<and>
     grounded ascii_tables r (prepareGoldenFixtureInput (gx_input (hd (ANALYSIS_GOLDEN_FIXTURES ascii_tables)))) \<and>
     154 \<le> (\<Sum>f \<leftarrow> ANALYSIS_GOLDEN_FIXTURES ascii_tables.
       countMatchingLabels (the (graded_payload (\<lambda>_. True) (CHECKED_IN_REFERENCE_OUTPUTS ascii_tables) f)) f)"
proof -
  obtain s where s: "gradeAnalysisOutputs ascii_tables (\<lambda>_. True) (CHECKED_IN_REFERENCE_OUTPUTS ascii_tables)
      (ANALYSIS_GOLDEN_FIXTURES ascii_tables) Structured = Inr s" "es_passed s"
    using reference_gate [of ascii_tables "\<lambda>_. True"] by (auto simp: ascii_case_def ascii_tables_def)
  have "ANALYSIS_GOLDEN_FIXTURES ascii_tables \<noteq> []" using golden_fixtures_24 [of ascii_tables] by auto
  then have "hd (ANALYSIS_GOLDEN_FIXTURES ascii_tables) \<in> set (ANALYSIS_GOLDEN_FIXTURES ascii_tables)" by (rule hd_in_set)
  with gate_is_groundedness [OF s(1), THEN iffD1, OF s(2)] s show ?thesis by blast
qed

end
