(* ===== verification/EvalSamples.thy ===== *)
theory EvalSamples
  imports ReferenceProperties
begin

text \<open>
  Samples of the evaluation: an output of the provider that is graded, and a live evaluation of a client that
  always fails.
\<close>

section \<open>The samples\<close>

theorem provider_outputs_are_accepted_witness:
  "\<exists>a w'. analyze_data (sample_llm good_answer) calm (prepareGoldenFixtureInput (gx_input (golden_fixture_of (le_unicode (sample_llm good_answer)) 0 mutual_respect High)))
       CURRENT_ANALYSIS_EXECUTION_VERSION (world_with running_job) = (Inr a, w') \<and>
     ec_schemaPassed (gradeCase (le_unicode (sample_llm good_answer)) (\<lambda>_. True) Structured
       (golden_fixture_of (le_unicode (sample_llm good_answer)) 0 mutual_respect High)
       (Some \<lparr>ei_fixtureId = gx_id (golden_fixture_of (le_unicode (sample_llm good_answer)) 0 mutual_respect High),
         ei_output = Some (result_json (lr_result a)), ei_evidenceIssues = None\<rparr>))"
proof -
  let ?f = "golden_fixture_of (le_unicode (sample_llm good_answer)) 0 mutual_respect High"
  obtain a w' where run: "analyze_data (sample_llm good_answer) calm (prepareGoldenFixtureInput (gx_input ?f))
      CURRENT_ANALYSIS_EXECUTION_VERSION (world_with running_job) = (Inr a, w')"
    using sample_analysis by blast
  from provider_outputs_are_accepted [OF this, of "\<lambda>_. True"] have "ec_schemaPassed (gradeCase (le_unicode (sample_llm good_answer)) (\<lambda>_. True) Structured ?f
       (Some \<lparr>ei_fixtureId = gx_id ?f, ei_output = Some (result_json (lr_result a)), ei_evidenceIssues = None\<rparr>))"
    by (simp add: Let_def)
  with run show ?thesis by blast
qed

text \<open>A live evaluation of a client that always fails.\<close>

definition broken_runner :: variant_runner where
  "broken_runner variant d = ret (Inl (Raised (PlainError ''fetch failed'')))"

lemma broken_answer: "broken_runner variant d w = (Inr (Inl (Raised (PlainError ''fetch failed''))), w)"
  by (simp add: broken_runner_def ret_def)

definition sample_live :: live_environment where
  "sample_live = \<lparr>li_openai_key = True, li_opt_in = True, li_revision = ''working-tree'',
     li_baseline = (\<lambda>_ _. Inl (PlainError ''fetch failed'')), li_systemTemplate = [], li_userTemplate = [],
     li_llm = sample_llm good_answer, li_datetime = (\<lambda>_. True), li_code = (\<lambda>_. None), li_name = (\<lambda>_. ''Error'')\<rparr>"

lemma broken_fixtures: "\<exists>outs cases w'. run_fixtures sample_live env broken_runner variant fs w = (Inr (Inr (outs, cases)), w')"
proof (induction fs arbitrary: w)
  case (Cons f fs)
  have "assertProviderCanContinue sample_live (Raised (PlainError ''fetch failed'')) = None"
    by (simp add: assertProviderCanContinue_def sample_live_def)
  moreover obtain outs cases v where "\<forall>w. run_fixtures sample_live env broken_runner variant fs w = (Inr (Inr (outs w, cases w)), v w)"
    using Cons.IH by metis
  ultimately show ?case
    by (simp add: broken_answer [of variant "prepareGoldenFixtureInput (gx_input f)"] Let_def bind_def ret_def now_io_def case_prod_unfold)
qed (simp add: ret_def)

lemma broken_variant: "\<exists>p w'. runVariant sample_live env broken_runner variant w = (Inr (Inr p), w') \<and> length (vp_cases p) = 24"
proof -
  let ?fs = "ANALYSIS_GOLDEN_FIXTURES (le_unicode (li_llm sample_live))"
  obtain outs cases w' where run: "run_fixtures sample_live env broken_runner variant ?fs w = (Inr (Inr (outs, cases)), w')"
    using broken_fixtures by blast
  have len: "length cases = 24"
    using arg_cong [OF run_fixtures_cases [OF run], of length] by (simp add: golden_fixtures_24)
  then have "cases \<noteq> []" by auto
  with len have "\<exists>p. variant_report_of sample_live ?fs variant (outs, cases) = Inr p \<and> vp_cases p = cases"
    by (simp add: variant_report_of_def ANALYSIS_LIVE_EVAL_CASES_PER_VARIANT_def gradeAnalysisOutputs_def golden_fixtures_24
        ANALYSIS_EVAL_TOTAL_CASES_def nearestRankP95_def)
  with run len show ?thesis by (auto simp: runVariant_def Let_def bind_def ret_def)
qed


end
