(* ===== verification/Spec2Isabelle.thy ===== *)
theory Spec2Isabelle
  imports WorkerProperties JobProperties PublishProperties ApiProperties Pages AnalysisProperties
    CollectionResults AuthProperties SystemProperties EvalSamples
begin

text \<open>
  The backend of GitMate (\<open>src/src\<close>): a developer signs in with GitHub, installs the GitHub App, and has
  repositories analyzed; a language model rates the developer's pull requests and reviews. This
  development models its services and proves what they promise, first of all that the ledger of
  analysis jobs stays correct.

  The parts of the program and how they interact. A request (\<open>analysis-job.controller\<close>) creates a job:
  a row of \<open>analysis_jobs\<close> with an idempotency key and a window of time. The publisher sends its
  identifier to a queue, the reconciler sends again what was not sent, the worker receives it, claims
  the job under a lease, collects the activity of the window from GitHub with the token of an
  installation, refines it, reserves tokens of the user, asks the model, validates the evidence of the
  answer, and stores a report together with the usage, or settles the failure with a refund. The same
  runner serves a synchronous request (\<open>collection.service\<close>). All of them, and sign-in, installation,
  webhook and reports, share one database and nothing else.

  State and effects. \<open>Schema\<close> has a record per table of \<open>prisma/schema.prisma\<close> and \<open>Tables\<close> the
  statements of the database client over them, with the checks and unique keys of the migrations. A method
  is a program over the database and an effect counter (\<open>Effects\<close>): it returns a value or an error
  (\<open>Errors\<close> has every error class the code throws or tests), and the environment \<open>env\<close> decides, by the
  counter, what other processes commit before each round trip, whether the trip fails before or after
  it took effect, and the clock, the random numbers and the configuration. A transaction is undone when its
  body throws, and nothing is committed by others while it runs: the levels of isolation, the advisory locks
  and \<open>FOR UPDATE\<close> have no effect of their own. What is read before a transaction may be stale inside it;
  two callbacks that use one installation state at the same time show it (\<open>GithubAppSamples\<close>). Methods that
  keep a cache of tokens or a heartbeat, or may go on for ever, are \<open>run\<close>s (\<open>InstallationTokens\<close>).

  Theories and sources, under \<open>src/src\<close>.

  \<^item> Standard library: \<open>Prelude\<close>, \<open>JsText\<close> (trimming, code units), \<open>JsDouble\<close> and \<open>JsNumber\<close> (\<open>Number(s)\<close>),
    \<open>JsDate\<close> (ISO dates), \<open>JsBuffer\<close> and \<open>Utf8\<close> (base64url, hexadecimal, UTF-8), \<open>Json\<close> and \<open>JsonText\<close>
    (\<open>JSON.parse\<close>, \<open>JSON.stringify\<close> and that the first reads the second), \<open>JsValue\<close> (conversions).
  \<^item> The ledger: \<open>Ledger\<close> (the invariant, the guarantee), \<open>JobRepository\<close> and \<open>JobService\<close>
    (\<open>analysis-job/analysis-job.repository.ts\<close>, \<open>analysis-job.service.ts\<close>).
  \<^item> The worker: \<open>WorkerMessage\<close>, \<open>WorkerRepository\<close>, \<open>ErrorClassifier\<close>, \<open>Worker\<close> (\<open>analysis-worker/\<close>).
  \<^item> Publishing: \<open>JobQueue\<close>, \<open>JobPublisher\<close> (\<open>analysis-job/queue/\<close>, publisher, publish repository,
    reconciler).
  \<^item> The HTTP interface of jobs: \<open>JobApi\<close> (service, queries, rate limit, cursors, responses) and
    \<open>JobController\<close> (pipes, guards, filter, handlers).
  \<^item> The analysis: \<open>ExecutionVersion\<close>, \<open>Activity\<close> (refiner, preprocessor, metrics), \<open>AnalysisResult\<close> and
    \<open>ResultSchema\<close> (\<open>analysis-result.schema.ts\<close>), \<open>EvidenceValidator\<close>, \<open>LlmProvider\<close>, \<open>Runner\<close>
    (\<open>analysis.service.ts\<close>, \<open>stat.service.ts\<close>), \<open>Reports\<close> (the queries and handlers of reports).
  \<^item> The collection: \<open>CollectionLimits\<close>, \<open>GithubErrors\<close>, \<open>Collection\<close>
    (\<open>repository-collection.service.ts\<close>, \<open>github.provider.ts\<close>), \<open>CollectionService\<close>
    (\<open>collection.service.ts\<close>), \<open>InstallationTokens\<close> (\<open>github-app/github-installation-token.service.ts\<close>).
  \<^item> The evaluation of prompts (\<open>analysis/evals/\<close>): \<open>Grader\<close> (\<open>grader.ts\<close>), \<open>GoldenFixtures\<close>
    (\<open>golden-fixtures.ts\<close>), \<open>ReferenceOutputs\<close> (\<open>reference-outputs.ts\<close>), \<open>LiveEval\<close> (\<open>live-eval.ts\<close> and
    the messages of \<open>prompt-variants.ts\<close>); \<open>ResultValues\<close> writes results as JSON values.
  \<^item> Users and the GitHub App: \<open>Auth\<close> (\<open>auth/\<close>, \<open>user/\<close>), \<open>GithubApp\<close> and \<open>GithubWebhook\<close>
    (\<open>github-app/\<close>).

  What the lemmas show. \<open>evolves\<close> (\<open>Ledger\<close>) is the guarantee of every transaction: the invariant is
  kept, no tokens are created or lost, a finished job does not change. It is an instance of the locale
  \<open>guarantee\<close>, whose rules lift it from single statements over transactions and \<open>try\<close> blocks to whole
  methods; the locales \<open>job_write\<close> and \<open>job_update\<close> do the same for conditional updates of the jobs and are
  interpreted on the statements of the repositories. Each component ends with the lemma that its
  operations have the guarantee whenever the other processes have it; \<open>SystemProperties\<close> closes the circle:
  any composition of entry points, nested in one another at any round trip, keeps the ledger. The
  theories named \<open>...Properties\<close> and \<open>Pages\<close>, \<open>CollectionComplete\<close> and \<open>CollectionResults\<close> hold
  the properties of single components: what they return on every branch, equivalence of the
  reconciler's query with the publisher's condition, completeness and limits of a collection, the pages
  of the list, round trips of messages, cursors and stored tokens, the links of users to
  installations, who may change a report. \<open>EvalProperties\<close> relates the gate of the evaluation to the
  evidence validator and the provider, \<open>ReferenceProperties\<close> shows, with the lemmas on unremarkable texts of
  \<open>PlainTexts\<close>, that the checked-in outputs pass it. \<open>Samples\<close>, \<open>GithubAppSamples\<close>,
  \<open>RepositorySamples\<close> and \<open>EvalSamples\<close> are the small worlds the properties are applied to.

  Bounds. Loops over pages of GitHub take a number of rounds and answer \<open>Unfinished\<close> when it does not suffice;
  \<open>collection_ends\<close> proves that a number larger than the set of GitHub's cursors, with a short page in each
  list of repositories, is enough, and where a theorem speaks of a result it assumes no bound. The parser
  of JSON recurses on a fuel that \<open>JSON.parse\<close> takes from the length of its text;
  \<open>parse_value_fuel\<close> proves that more fuel changes nothing. Everything else is structurally
  recursive or has a termination proof. Numbers of the program are
  integers or rationals; where JavaScript rounds, \<open>to_double\<close> does, except in the weighted averages of the
  statistics, which are exact here. Columns of 32 bits are checked when they are written.

  Parameters, for code that is not in the repository: the client of the model and its tokenizer,
  prompt and response format, GitHub's answers, the SQS client, SHA-256, HMAC, bcrypt, AES-GCM and JWT, the parser of URLs,
  lower case, collation and letter classes of Unicode, and dates outside the ISO format. What a theorem
  needs of them is a hypothesis of its own (\<open>gcm_law\<close>, \<open>bounded_cursors\<close>, ...). A request that is made
  with \<open>Promise.all\<close> is made in the order of the list.

  Not modelled: \<open>infra/\<close> and \<open>scripts/\<close>, definitions of cloud resources without behaviour of the program;
  modules, decorators, API documentation and bootstrapping of NestJS, declarations for the framework; logging and
  trace identifiers, which no decision reads; of \<open>analysis/evals/\<close> the rendering of the report as
  Markdown, the dry-run report, checksums and the wording of the prompts; indexes of the database,
  which change its speed only.
\<close>

section \<open>The worker keeps the ledger\<close>

text \<open>
  C2. Whatever a batch contains, however the round trips of the database fail, and whatever
  other processes commit in between, as long as they keep the guarantee too: processing a
  batch keeps the invariant of the ledger (the checks of the schema, one active job per
  repository, reports exactly for succeeded jobs), neither creates nor loses tokens of any
  user, and never changes the row of a finished job.
\<close>

theorem processBatch_keeps_ledger:
  assumes "rely evolves env" "collector_guar collecting" "provider_guar provider"
    and "ledger_inv (wdb w)"
  shows "let d = wdb w; d' = wdb (snd (processBatch collecting provider env batch w)) in
    ledger_inv d' \<and> (\<forall>u \<in> u_id ` set (users d). wealth u d' = wealth u d) \<and>
    (\<forall>j \<in> set (jobs d). terminal (j_status j) \<longrightarrow> j \<in> set (jobs d'))"
proof -
  let ?d' = "wdb (snd (processBatch collecting provider env batch w))"
  have "evolves (wdb w) ?d'"
    using processBatch_guar [OF assms(1-3)] by (simp add: guar_def)
  note e = evolvesD [OF this assms(4)]
  have "j \<in> set (jobs ?d')" if "j \<in> set (jobs (wdb w))" "terminal (j_status j)" for j
    using e(4) that by (auto simp: rows_evolve_def job_evolves_def)
  with e(1,2) show ?thesis by (simp add: Let_def)
qed

theorem processBatch_keeps_ledger_witness:
  "ledger_inv (wdb (snd (processBatch sample_collector sample_provider calm [sample_record] (world_with sample_job))))"
  using processBatch_keeps_ledger [OF _ sample_collector_guar sample_provider_guar,
      of calm "world_with sample_job" "[sample_record]"] sample_inv [of sample_job]
  by (simp add: world_with_def ledger.G_refl Let_def)

section \<open>The whole program keeps the ledger\<close>

text \<open>
  C1. Whatever the entry points of the program are asked to do, in any order, inside one another
  between any two round trips, with any arguments, any answers of the services and any failures of the
  database: the invariant of the ledger holds afterwards, every user's tokens are what they were, in
  the balance or charged to jobs; no job is lost, and it is the job that was asked for; a finished
  job's row is never touched again.
\<close>

theorem system_keeps_ledger:
  assumes "system_run d d'" "ledger_inv d"
  shows "ledger_inv d' \<and> (\<forall>u\<in>u_id ` set (users d). available u d' + charged u d' = available u d + charged u d) \<and>
    (\<forall>j\<in>set (jobs d). \<exists>j'\<in>set (jobs d'). same_identity j j' \<and> j_attemptCount j \<le> j_attemptCount j' \<and>
      (terminal (j_status j) \<longrightarrow> j' = j))"
proof -
  note e = evolvesD [OF system_evolves [OF assms(1)] assms(2)]
  show ?thesis using e(1,2,4) by (force simp: wealth_def rows_evolve_def job_evolves_def)
qed

theorem system_keeps_ledger_witness:
  "\<exists>d'. system_run (db_with sample_job) d' \<and> ledger_inv d' \<and> available 1 d' + charged 1 d' = 50000"
proof -
  let ?run = "handler (repository_collector calm (\<lambda>_. None) sample_github 3 sample_session) (llm_service (sample_llm good_answer) calm)
    (\<lambda>_. Inr ()) calm True [sample_record]"
  have "system_run (db_with sample_job) (wdb (world_with sample_job))" by (simp add: world_with_def idle)
  moreover have "\<forall>n x. system_run x (interference calm n x)" by (simp add: calm_def idle)
  ultimately have run: "system_run (db_with sample_job) (wdb (snd (?run (world_with sample_job))))"
    by (rule called) (rule worker)
  moreover have "available 1 (db_with sample_job) + charged 1 (db_with sample_job) = 50000"
    by (simp add: available_def charged_def charge_def db_with_def sample_user_def sample_job_def new_job_def sample_input_def)
  moreover have "1 \<in> u_id ` set (users (db_with sample_job))" by (simp add: db_with_def sample_user_def)
  moreover have "ledger_inv (db_with sample_job)" by (rule sample_inv) simp
  note kept = system_keeps_ledger [OF run this]
  ultimately show ?thesis using bspec [OF conjunct1 [OF conjunct2 [OF kept]]] kept by metis
qed

end
